(* ===== verification/Prelude.thy ===== *)
theory Prelude
  imports Main "HOL-Library.Word"
begin

text \<open>
  Shared by every theory of the development: the fact collections, JavaScript strings as
  lists of UTF-16 code units with the operations of the standard library that the console
  uses, and the generic list lemmas.

  A string is what JavaScript says it is, a sequence of 16-bit code units, so
  \<^verbatim>\<open>length\<close>, \<^verbatim>\<open>slice\<close> and \<^verbatim>\<open>includes\<close> count and compare units.
  An ASCII literal of the source is written \<open>js ''...''\<close>. A literal with Chinese text is
  written \<open>uni ''...''\<close>, where a unit outside ASCII is spelled \<open>%uXXXX\<close> (the
  format of \<^verbatim>\<open>unescape\<close>).
\<close>

named_theorems text_simps \<open>evaluation of string literals and string operations\<close>
named_theorems guard_dests \<open>what a successful guard of a handler guarantees\<close>

type_synonym u16 = "16 word"
type_synonym jsstr = "u16 list"

subsection \<open>String literals\<close>

definition js :: "string \<Rightarrow> jsstr" where
  "js s = List.map of_char s"

definition hex_digit :: "char \<Rightarrow> u16" where
  "hex_digit c =
     (let n = (of_char c :: u16) in if n \<le> 57 then n - 48 else n - 55)"

fun uni :: "string \<Rightarrow> jsstr" where
  "uni [] = []"
| "uni (c # s) =
     (if c = CHR ''%'' \<and> 5 \<le> length s \<and> hd s = CHR ''u'' then
        (4096 * hex_digit (s ! 1) + 256 * hex_digit (s ! 2) + 16 * hex_digit (s ! 3)
          + hex_digit (s ! 4)) # uni (drop 5 s)
      else of_char c # uni s)"

declare uni.simps [simp del]

lemma of_char_less_65536: "(of_char c :: nat) < 65536"
  by (rule order.strict_trans [OF nat_of_char_less_256]) simp

lemma of_char_u16_inject [simp]: "(of_char c :: u16) = of_char d \<longleftrightarrow> c = d"
proof
  assume "(of_char c :: u16) = of_char d"
  then have "(word_of_nat (of_char c) :: u16) = word_of_nat (of_char d)"
    by (simp only: of_nat_of_char)
  then have "(of_char c :: nat) mod 2 ^ 16 = of_char d mod 2 ^ 16"
    by (simp add: word_of_nat_eq_iff take_bit_eq_mod)
  moreover have "(of_char c :: nat) < 2 ^ 16" "(of_char d :: nat) < 2 ^ 16"
    using of_char_less_65536 by simp_all
  ultimately show "c = d" by simp
qed simp

lemma js_inject [simp]: "js s = js t \<longleftrightarrow> s = t"
  by (simp add: js_def inj_map_eq_map inj_def)

lemma js_eq_Nil [simp]: "js s = [] \<longleftrightarrow> s = []" "[] = js s \<longleftrightarrow> s = []"
  by (auto simp: js_def)

lemma js_Nil [simp]: "js [] = []"
  by (simp add: js_def)

lemma length_js [simp]: "length (js s) = length s"
  by (simp add: js_def)

lemma js_append: "js (s @ t) = js s @ js t"
  by (simp add: js_def)

lemma js_Cons: "js (c # s) = of_char c # js s"
  by (simp add: js_def)

text \<open>Evaluation of an escaped literal, one unit at a time.\<close>

lemma uni_escape [text_simps]:
  "uni (CHR ''%'' # CHR ''u'' # a # b # c # d # s) =
   (4096 * hex_digit a + 256 * hex_digit b + 16 * hex_digit c + hex_digit d) # uni s"
  by (subst uni.simps) simp

lemma uni_plain [text_simps]: "c \<noteq> CHR ''%'' \<Longrightarrow> uni (c # s) = of_char c # uni s"
  by (simp add: uni.simps)

lemma uni_Nil [simp, text_simps]: "uni [] = []"
  by (simp add: uni.simps)

lemma hex_digit_simps [text_simps]:
  "hex_digit (CHR ''0'') = 0"
  "hex_digit (CHR ''1'') = 1"
  "hex_digit (CHR ''2'') = 2"
  "hex_digit (CHR ''3'') = 3"
  "hex_digit (CHR ''4'') = 4"
  "hex_digit (CHR ''5'') = 5"
  "hex_digit (CHR ''6'') = 6"
  "hex_digit (CHR ''7'') = 7"
  "hex_digit (CHR ''8'') = 8"
  "hex_digit (CHR ''9'') = 9"
  "hex_digit (CHR ''A'') = 10"
  "hex_digit (CHR ''B'') = 11"
  "hex_digit (CHR ''C'') = 12"
  "hex_digit (CHR ''D'') = 13"
  "hex_digit (CHR ''E'') = 14"
  "hex_digit (CHR ''F'') = 15"
  by (simp_all add: hex_digit_def)

subsection \<open>String.prototype\<close>

text \<open>White space and line terminators, what \<^verbatim>\<open>trim\<close> removes.\<close>

definition is_space :: "u16 \<Rightarrow> bool" where
  "is_space c \<longleftrightarrow>
     (9 \<le> c \<and> c \<le> 13) \<or> c = 32 \<or> c = 160 \<or> c = 5760 \<or> (8192 \<le> c \<and> c \<le> 8202)
     \<or> c = 8232 \<or> c = 8233 \<or> c = 8239 \<or> c = 8287 \<or> c = 12288 \<or> c = 65279"

definition trim_start :: "jsstr \<Rightarrow> jsstr" where
  "trim_start s = dropWhile is_space s"

definition trim :: "jsstr \<Rightarrow> jsstr" where
  "trim s = rev (dropWhile is_space (rev (trim_start s)))"

fun starts_with :: "jsstr \<Rightarrow> jsstr \<Rightarrow> bool" where
  "starts_with s [] = True"
| "starts_with [] (p # ps) = False"
| "starts_with (c # s) (p # ps) = (c = p \<and> starts_with s ps)"

fun contains :: "jsstr \<Rightarrow> jsstr \<Rightarrow> bool" where
  "contains [] p = (p = [])"
| "contains (c # s) p = (starts_with (c # s) p \<or> contains s p)"

definition contains_any :: "jsstr \<Rightarrow> jsstr list \<Rightarrow> bool" where
  "contains_any s ps \<longleftrightarrow> list_ex (contains s) ps"

definition is_digit :: "u16 \<Rightarrow> bool" where
  "is_digit c \<longleftrightarrow> 48 \<le> c \<and> c \<le> 57"

definition is_alpha :: "u16 \<Rightarrow> bool" where
  "is_alpha c \<longleftrightarrow> (65 \<le> c \<and> c \<le> 90) \<or> (97 \<le> c \<and> c \<le> 122)"

text \<open>
  \<open>fold_case\<close> is the case folding of a regular expression with the flag
  \<^verbatim>\<open>i\<close> and without \<^verbatim>\<open>u\<close>: it never identifies an ASCII letter with a unit
  outside ASCII.
  \<open>to_lower\<close> is \<^verbatim>\<open>toLowerCase\<close>. Beside ASCII and Latin-1 it knows the two units whose
  lower case contains an ASCII letter (the Kelvin sign and the dotted capital I), which is all
  that a comparison with the ASCII and Chinese keywords of the source can observe; the case pairs
  of other scripts are left as they are.
\<close>

definition fold_case :: "jsstr \<Rightarrow> jsstr" where
  "fold_case s = map (\<lambda>c. if 65 \<le> c \<and> c \<le> 90 then c + 32 else c) s"

fun to_lower :: "jsstr \<Rightarrow> jsstr" where
  "to_lower [] = []"
| "to_lower (c # s) =
     (if (65 \<le> c \<and> c \<le> 90) \<or> (192 \<le> c \<and> c \<le> 222 \<and> c \<noteq> 215) then [c + 32]
      else if c = 8490 then [107]
      else if c = 304 then [105, 775]
      else [c]) @ to_lower s"

text \<open>\<^verbatim>\<open>/p/i.test(s)\<close> for a literal pattern \<open>p\<close>, written in lower case.\<close>

definition matches_i :: "jsstr \<Rightarrow> jsstr \<Rightarrow> bool" where
  "matches_i s p \<longleftrightarrow> contains (fold_case s) p"

subsection \<open>Numbers and their texts\<close>

text \<open>\<^verbatim>\<open>String(n)\<close> for an integral number.\<close>

fun digits_of :: "nat \<Rightarrow> jsstr" where
  "digits_of n =
     (if n < 10 then [48 + of_nat n] else digits_of (n div 10) @ [48 + of_nat (n mod 10)])"

declare digits_of.simps [simp del]

definition string_of_int :: "int \<Rightarrow> jsstr" where
  "string_of_int i = (if i < 0 then 45 # digits_of (nat (- i)) else digits_of (nat i))"

definition digits_value :: "jsstr \<Rightarrow> nat" where
  "digits_value s = foldl (\<lambda>n c. 10 * n + (unat c - 48)) 0 s"

text \<open>
  \<^verbatim>\<open>Number.parseInt(s, 10)\<close>: leading white space, an optional sign, the longest prefix of
  digits; \<open>None\<close> is \<^verbatim>\<open>NaN\<close>. The value is exact; the rounding of the source to a
  double starts above \<open>2 ^ 53\<close>, far beyond every range the console accepts.
\<close>

definition parse_int :: "jsstr \<Rightarrow> int option" where
  "parse_int s =
     (let t = trim_start s;
          neg = (t \<noteq> [] \<and> hd t = 45);
          u = (if t \<noteq> [] \<and> (hd t = 45 \<or> hd t = 43) then tl t else t);
          ds = takeWhile is_digit u
      in if ds = [] then None
         else Some (if neg then - int (digits_value ds) else int (digits_value ds)))"

subsection \<open>Facts about the operations\<close>

lemma trim_Nil [simp]: "trim [] = []"
  by (simp add: trim_def trim_start_def)

lemma dropWhile_rev_dropWhile:
  "dropWhile P (rev (dropWhile P (rev (dropWhile P s)))) = rev (dropWhile P (rev (dropWhile P s)))"
proof (cases "dropWhile P (rev (dropWhile P s))")
  case (Cons a as)
  then have "rev (dropWhile P (rev (dropWhile P s))) \<noteq> []" by simp
  moreover have "hd (rev (dropWhile P (rev (dropWhile P s)))) = hd (dropWhile P s)"
    by (metis (no_types, opaque_lifting) Cons Nil_is_rev_conv dropWhile_eq_Nil_conv hd_append2
        hd_dropWhile last_rev list.distinct(1) rev_append rev_rev_ident takeWhile_dropWhile_id)
  moreover have "dropWhile P s \<noteq> []"
    using Cons by (metis dropWhile.simps(1) list.distinct(1) rev.simps(1))
  ultimately show ?thesis
    by (metis hd_dropWhile dropWhile_eq_self_iff)
next
  case Nil
  show ?thesis by (simp only: Nil) simp
qed

lemma trim_trim [simp]: "trim (trim s) = trim s"
  by (simp add: trim_def trim_start_def dropWhile_rev_dropWhile dropWhile_idem)

lemma trim_start_trim [simp]: "trim_start (trim s) = trim s"
  by (simp add: trim_def trim_start_def dropWhile_rev_dropWhile)

lemma trim_id: "s \<noteq> [] \<Longrightarrow> \<not> is_space (hd s) \<Longrightarrow> \<not> is_space (last s) \<Longrightarrow> trim s = s"
proof -
  assume "s \<noteq> []" "\<not> is_space (hd s)" "\<not> is_space (last s)"
  then have "dropWhile is_space s = s" "dropWhile is_space (rev s) = rev s"
    by (simp_all add: dropWhile_eq_self_iff hd_rev)
  then show ?thesis by (simp add: trim_def trim_start_def)
qed

lemma starts_with_iff: "starts_with s p \<longleftrightarrow> (\<exists>t. s = p @ t)"
  by (induction s p rule: starts_with.induct) auto

lemma contains_iff: "contains s p \<longleftrightarrow> (\<exists>a b. s = a @ p @ b)"
proof (induction s p rule: contains.induct)
  case (2 c s p)
  have *: "(\<exists>a. c # s = a @ q) \<longleftrightarrow> c # s = q \<or> (\<exists>a. s = a @ q)" for q
    by (auto simp: Cons_eq_append_conv)
  have "(\<exists>a b. c # s = a @ p @ b) \<longleftrightarrow> (\<exists>b a. c # s = a @ (p @ b))"
    by blast
  also have "\<dots> \<longleftrightarrow> (\<exists>b. c # s = p @ b \<or> (\<exists>a. s = a @ p @ b))"
    by (simp only: *)
  finally have "(\<exists>a b. c # s = a @ p @ b) \<longleftrightarrow>
        (\<exists>b. c # s = p @ b) \<or> (\<exists>a b. s = a @ p @ b)"
    by blast
  then show ?case using 2 by (simp add: starts_with_iff)
qed simp

lemma contains_take: "contains (take n s) p \<Longrightarrow> contains s p"
  unfolding contains_iff by (metis append.assoc append_take_drop_id)

lemma contains_append_last:
  assumes "contains (a @ b) p" and "p \<noteq> []" and "last p \<notin> set b"
  shows "contains a p"
proof -
  obtain x y where xy: "a @ b = (x @ p) @ y"
    using assms(1) by (auto simp: contains_iff)
  then obtain us where us: "a = (x @ p) @ us \<or> a @ us = x @ p \<and> b = us @ y"
    unfolding append_eq_append_conv2 by blast
  show ?thesis
  proof (cases "us = []")
    case True
    with us show ?thesis unfolding contains_iff by force
  next
    case False
    have "a @ us \<noteq> x @ p \<or> b \<noteq> us @ y"
    proof (rule ccontr)
      assume "\<not> ?thesis"
      then have "a @ us = x @ p" and b: "b = us @ y" by simp_all
      then have "last us = last p"
        using False assms(2) by (metis last_appendR)
      with b False assms(3) show False by (auto dest: last_in_set)
    qed
    with us show ?thesis unfolding contains_iff by (metis append.assoc)
  qed
qed

lemma contains_last_mem: "contains s p \<Longrightarrow> p \<noteq> [] \<Longrightarrow> last p \<in> set s"
  by (rule ccontr) (use contains_append_last [of "[]" s p] in simp)

lemma fold_case_append [simp]: "fold_case (a @ b) = fold_case a @ fold_case b"
  by (simp add: fold_case_def)

lemma fold_case_take [simp]: "fold_case (take n s) = take n (fold_case s)"
  by (simp add: fold_case_def take_map)

lemma length_fold_case [simp]: "length (fold_case s) = length s"
  by (simp add: fold_case_def)

lemma contains_self [simp]: "contains s s"
  by (cases s) (auto simp: starts_with_iff)

lemma contains_any_iff: "contains_any s ps \<longleftrightarrow> (\<exists>p \<in> set ps. contains s p)"
  by (simp add: contains_any_def list_ex_iff)

subsection \<open>Digits: writing and reading a number\<close>

lemma unat_digit: "n < 10 \<Longrightarrow> unat (48 + of_nat n :: u16) = 48 + n"
proof -
  assume "n < 10"
  have "(48 + of_nat n :: u16) = of_nat (48 + n)" by simp
  also have "unat \<dots> = (48 + n) mod 2 ^ 16"
    by (simp only: unat_of_nat len_num1 len_bit0 mult_1_right) simp
  finally show ?thesis using \<open>n < 10\<close> by simp
qed

lemma is_digit_iff: "is_digit c \<longleftrightarrow> 48 \<le> unat c \<and> unat c \<le> 57"
  by (simp add: is_digit_def word_le_nat_alt)

lemma is_digit_digit: "n < 10 \<Longrightarrow> is_digit (48 + of_nat n)"
  by (simp add: is_digit_iff unat_digit)

lemma digits_of_nonempty [simp]: "digits_of n \<noteq> []"
  by (subst digits_of.simps) simp

lemma digits_of_all_digit: "list_all is_digit (digits_of n)"
proof (induction n rule: digits_of.induct)
  case (1 n)
  then show ?case
    by (subst digits_of.simps) (simp add: is_digit_digit del: of_nat_mod)
qed

lemma digits_value_append: "digits_value (s @ [c]) = 10 * digits_value s + (unat c - 48)"
  by (simp add: digits_value_def)

lemma digits_value_digits_of: "digits_value (digits_of n) = n"
proof (induction n rule: digits_of.induct)
  case (1 n)
  show ?case
  proof (cases "n < 10")
    case True
    then have "unat (48 + of_nat n :: u16) = 48 + n" by (rule unat_digit)
    with True show ?thesis
      by (subst digits_of.simps) (simp add: digits_value_def)
  next
    case False
    have "unat (48 + of_nat (n mod 10) :: u16) = 48 + n mod 10"
      by (rule unat_digit) simp
    with False 1 show ?thesis
      by (subst digits_of.simps) (simp add: digits_value_append)
  qed
qed

lemma not_is_space_digit: "is_digit c \<Longrightarrow> \<not> is_space c"
  by (auto simp: is_digit_iff is_space_def word_le_nat_alt word_less_nat_alt)

lemma takeWhile_digits_of [simp]: "takeWhile is_digit (digits_of n) = digits_of n"
  using digits_of_all_digit by (simp add: takeWhile_eq_all_conv list_all_iff)

lemma hd_digits_of: "is_digit (hd (digits_of n))"
  using digits_of_all_digit [of n] by (metis digits_of_nonempty hd_in_set list_all_iff)

lemma trim_start_digits_of [simp]: "trim_start (digits_of n) = digits_of n"
  unfolding trim_start_def
  by (metis digits_of_nonempty dropWhile_eq_self_iff hd_digits_of not_is_space_digit)

lemma last_digits_of: "is_digit (last (digits_of n))"
  using digits_of_all_digit [of n] by (metis digits_of_nonempty last_in_set list_all_iff)

lemma trim_digits_of [simp]: "trim (digits_of n) = digits_of n"
  by (simp add: trim_def)
    (metis digits_of_nonempty dropWhile_eq_self_iff hd_rev last_digits_of not_is_space_digit
      rev_rev_ident)

lemma parse_int_digits_of: "parse_int (digits_of n) = Some (int n)"
proof -
  have "hd (digits_of n) \<noteq> 45" "hd (digits_of n) \<noteq> 43"
    using hd_digits_of [of n] by (auto simp: is_digit_iff)
  then show ?thesis
    by (simp add: parse_int_def Let_def digits_value_digits_of)
qed

lemma trim_start_split:
  obtains w where "trim_start s = trim s @ w" and "list_all is_space w"
proof
  let ?w = "rev (takeWhile is_space (rev (trim_start s)))"
  show "trim_start s = trim s @ ?w"
    unfolding trim_def by (metis rev_append rev_rev_ident takeWhile_dropWhile_id)
  show "list_all is_space ?w"
    by (auto simp: list_all_iff dest: set_takeWhileD)
qed

lemma parse_int_trim:
  assumes "trim s = digits_of n"
  shows "parse_int s = Some (int n)"
proof -
  obtain w where w: "trim_start s = digits_of n @ w" "list_all is_space w"
    using assms trim_start_split [of s] by metis
  have hd: "hd (digits_of n @ w) \<noteq> 45" "hd (digits_of n @ w) \<noteq> 43"
    using hd_digits_of [of n] by (auto simp: is_digit_iff)
  have "takeWhile is_digit (digits_of n @ w) = digits_of n"
  proof -
    have "takeWhile is_digit w = []"
      using w(2) not_is_space_digit by (cases w) auto
    then show ?thesis
      using digits_of_all_digit [of n] by (simp add: takeWhile_append2 list_all_iff)
  qed
  with w(1) hd show ?thesis
    by (simp add: parse_int_def Let_def digits_value_digits_of)
qed

lemma string_of_int_nonempty [simp]: "string_of_int i \<noteq> []"
  by (simp add: string_of_int_def)

subsection \<open>Lists and options\<close>

definition find_opt :: "('a \<Rightarrow> bool) \<Rightarrow> 'a list \<Rightarrow> 'a option" where
  "find_opt P xs = List.find P xs"

lemma find_opt_SomeD [guard_dests]: "find_opt P xs = Some x \<Longrightarrow> x \<in> set xs \<and> P x"
  by (auto simp: find_opt_def find_Some_iff)

lemma find_opt_None_iff: "find_opt P xs = None \<longleftrightarrow> (\<forall>x \<in> set xs. \<not> P x)"
  by (auto simp: find_opt_def find_None_iff)

text \<open>\<^verbatim>\<open>a ?? b\<close> for a value that may be null or undefined, and \<^verbatim>\<open>s || t\<close> on strings.\<close>

definition nullish :: "'a option \<Rightarrow> 'a \<Rightarrow> 'a" where
  "nullish a b = (case a of None \<Rightarrow> b | Some x \<Rightarrow> x)"

lemma nullish_simps [simp]: "nullish None b = b" "nullish (Some x) b = x"
  by (simp_all add: nullish_def)

definition or_str :: "jsstr \<Rightarrow> jsstr \<Rightarrow> jsstr" where
  "or_str a b = (if a = [] then b else a)"

lemma or_str_simps [simp]: "or_str [] b = b" "a \<noteq> [] \<Longrightarrow> or_str a b = a"
  by (simp_all add: or_str_def)

text \<open>\<^verbatim>\<open>!s\<close> for a string that may be null.\<close>

definition blank :: "jsstr option \<Rightarrow> bool" where
  "blank s \<longleftrightarrow> s = None \<or> s = Some []"

lemma blank_simps [simp]: "blank None" "blank (Some s) \<longleftrightarrow> s = []"
  by (simp_all add: blank_def)

text \<open>\<^verbatim>\<open>xs.join(sep)\<close>, and \<^verbatim>\<open>Array.from(new Set(xs))\<close>: the first occurrence of each value.\<close>

fun join :: "jsstr \<Rightarrow> jsstr list \<Rightarrow> jsstr" where
  "join sep [] = []"
| "join sep [x] = x"
| "join sep (x # y # ys) = x @ sep @ join sep (y # ys)"

fun dedup :: "'a list \<Rightarrow> 'a list" where
  "dedup [] = []"
| "dedup (x # xs) = x # List.filter (\<lambda>y. y \<noteq> x) (dedup xs)"

lemma set_dedup [simp]: "set (dedup xs) = set xs"
  by (induction xs) auto

lemma distinct_dedup [simp]: "distinct (dedup xs)"
  by (induction xs) auto

text \<open>\<^verbatim>\<open>xs[0]?.id ?? ""\<close>, which several panels use to preselect the head of a list.\<close>

definition first_id :: "('a \<Rightarrow> jsstr) \<Rightarrow> 'a list \<Rightarrow> jsstr" where
  "first_id key xs = (case xs of [] \<Rightarrow> [] | x # rest \<Rightarrow> key x)"

end
