(* ===== verification/JsValue.thy ===== *)
theory JsValue
  imports Prelude
begin

text \<open>
  JavaScript values of the type \<^verbatim>\<open>unknown\<close>: the JSON values that come back from the
  backend, plus \<^verbatim>\<open>undefined\<close>. An object is the list of its own enumerable entries in
  the order of \<^verbatim>\<open>Object.entries\<close>. Numbers are integral: every number the modelled code
  computes with is a port, a count or an age.
\<close>

datatype jsval =
    JUndef
  | JNull
  | JBool bool
  | JNum int
  | JStr jsstr
  | JArr "jsval list"
  | JObj "(jsstr \<times> jsval) list"

text \<open>\<^verbatim>\<open>v[k]\<close> on a record, with \<^verbatim>\<open>undefined\<close> for a missing key.\<close>

definition entry :: "(jsstr \<times> jsval) list \<Rightarrow> jsstr \<Rightarrow> jsval" where
  "entry kvs k = (case map_of kvs k of None \<Rightarrow> JUndef | Some v \<Rightarrow> v)"

fun is_obj :: "jsval \<Rightarrow> bool" where
  "is_obj (JObj kvs) = True"
| "is_obj v = False"

fun field :: "jsval \<Rightarrow> jsstr \<Rightarrow> jsval" where
  "field (JObj kvs) k = entry kvs k"
| "field v k = JUndef"

fun typeof_string :: "jsval \<Rightarrow> bool" where
  "typeof_string (JStr s) = True"
| "typeof_string v = False"

fun typeof_boolean :: "jsval \<Rightarrow> bool" where
  "typeof_boolean (JBool b) = True"
| "typeof_boolean v = False"

fun is_nullish :: "jsval \<Rightarrow> bool" where
  "is_nullish JUndef = True"
| "is_nullish JNull = True"
| "is_nullish v = False"

text \<open>\<^verbatim>\<open>v ?? w\<close>; and the string a value holds, for a place whose type says string.\<close>

definition nullish_val :: "jsval \<Rightarrow> jsval \<Rightarrow> jsval" where
  "nullish_val v w = (if is_nullish v then w else v)"

fun truthy :: "jsval \<Rightarrow> bool" where
  "truthy JUndef = False"
| "truthy JNull = False"
| "truthy (JBool b) = b"
| "truthy (JNum n) = (n \<noteq> 0)"
| "truthy (JStr s) = (s \<noteq> [])"
| "truthy (JArr xs) = True"
| "truthy (JObj kvs) = True"

text \<open>Values of typed fields, as the JSON encoder writes them.\<close>

definition jopt_str :: "jsstr option \<Rightarrow> jsval" where
  "jopt_str x = (case x of None \<Rightarrow> JNull | Some s \<Rightarrow> JStr s)"

definition jopt_num :: "int option \<Rightarrow> jsval" where
  "jopt_num x = (case x of None \<Rightarrow> JNull | Some n \<Rightarrow> JNum n)"

definition jstrs :: "jsstr list \<Rightarrow> jsval" where
  "jstrs xs = JArr (map JStr xs)"

lemma entry_simps [simp]:
  "entry [] k = JUndef"
  "entry ((k', v) # kvs) k = (if k = k' then v else entry kvs k)"
  by (simp_all add: entry_def)

text \<open>The nesting depth of a value, and the values that occur in it.\<close>

fun depth :: "jsval \<Rightarrow> nat" where
  "depth (JArr xs) = Suc (fold max (map depth xs) 0)"
| "depth (JObj kvs) = Suc (fold max (map (\<lambda>kv. depth (snd kv)) kvs) 0)"
| "depth v = 0"

inductive subval :: "jsval \<Rightarrow> jsval \<Rightarrow> bool" where
  here: "subval v v"
| item: "x \<in> set xs \<Longrightarrow> subval v x \<Longrightarrow> subval v (JArr xs)"
| member: "(k, x) \<in> set kvs \<Longrightarrow> subval v x \<Longrightarrow> subval v (JObj kvs)"

inductive_simps subval_arr: "subval v (JArr xs)"
inductive_simps subval_obj: "subval v (JObj kvs)"
inductive_simps subval_str: "subval v (JStr s)"
inductive_simps subval_undef: "subval v JUndef"
inductive_simps subval_null: "subval v JNull"
inductive_simps subval_bool: "subval v (JBool b)"
inductive_simps subval_num: "subval v (JNum n)"

lemmas subval_simps = subval_arr subval_obj subval_str subval_undef subval_null subval_bool subval_num

lemma subval_trans: "subval v w \<Longrightarrow> subval u v \<Longrightarrow> subval u w"
  by (induction rule: subval.induct) (auto intro: subval.intros)

end
