(* ===== verification/ApiTypes.thy ===== *)
theory ApiTypes
  imports JsValue
begin

text \<open>
  The object types of \<^verbatim>\<open>frontend/lib/api.ts\<close> that the modelled components read or build.
  A TypeScript type is a record; field \<^verbatim>\<open>f\<close> of a type is named with the prefix of its record
  (\<^verbatim>\<open>TaskData.status\<close> is \<open>tk_status\<close>). A field that may be null or missing is an option;
  a union of string literals that comes from the backend is a string, since nothing checks it at
  run time; \<^verbatim>\<open>Record<string, unknown>\<close> is a \<open>jsval\<close>.
\<close>

record task_data =
  tk_id :: jsstr
  tk_vps_id :: "jsstr option"
  tk_node_id :: "jsstr option"
  tk_task_type :: jsstr
  tk_status :: jsstr
  tk_current_step :: "jsstr option"
  tk_progress :: int
  tk_error_code :: "jsstr option"
  tk_error_message :: "jsstr option"
  tk_result_data :: "jsval option"
  tk_started_at :: "jsstr option"
  tk_finished_at :: "jsstr option"
  tk_created_at :: "jsstr option"
  tk_updated_at :: "jsstr option"

record task_log_data =
  tlog_id :: jsstr
  tlog_task_id :: jsstr
  tlog_level :: jsstr
  tlog_step :: "jsstr option"
  tlog_message :: jsstr
  tlog_raw_output :: "jsstr option"
  tlog_created_at :: "jsstr option"

record node_data =
  nd_id :: jsstr
  nd_vps_id :: jsstr
  nd_vps_ip :: "jsstr option"
  nd_vps_status :: "jsstr option"
  nd_node_name :: jsstr
  nd_protocol :: jsstr
  nd_transport :: "jsstr option"
  nd_security :: jsstr
  nd_port :: "int option"
  nd_status :: jsstr
  nd_service_status :: "jsstr option"
  nd_connectivity_status :: "jsstr option"
  nd_service_display_label :: "jsstr option"
  nd_connectivity_display_status :: "jsstr option"
  nd_connectivity_display_label :: "jsstr option"
  nd_node_health_summary :: "jsstr option"
  nd_uuid :: "jsstr option"
  nd_uuid_present :: "bool option"
  nd_masked_uuid :: "jsstr option"
  nd_flow :: "jsstr option"
  nd_reality_public_key :: "jsstr option"
  nd_reality_public_key_present :: "bool option"
  nd_masked_reality_public_key :: "jsstr option"
  nd_reality_short_id :: "jsstr option"
  nd_reality_short_id_present :: "bool option"
  nd_masked_reality_short_id :: "jsstr option"
  nd_reality_server_name :: "jsstr option"
  nd_reality_dest :: "jsstr option"
  nd_fingerprint :: "jsstr option"
  nd_source :: jsstr
  nd_share_link :: "jsstr option"
  nd_has_share_link :: "bool option"
  nd_share_link_present :: "bool option"
  nd_share_link_length :: "int option"
  nd_masked_share_link :: "jsstr option"
  nd_created_at :: "jsstr option"
  nd_updated_at :: "jsstr option"
  nd_last_remote_check_at :: "jsstr option"
  nd_last_sync_status :: "jsstr option"

record transit_resource_data =
  tr_id :: jsstr
  tr_name :: jsstr
  tr_resource_type :: jsstr
  tr_provider :: "jsstr option"
  tr_entry_host :: "jsstr option"
  tr_entry_port :: "int option"
  tr_entry_region :: "jsstr option"
  tr_exit_region :: "jsstr option"
  tr_bandwidth_mbps :: "int option"
  tr_traffic_limit_gb :: "int option"
  tr_traffic_used_gb :: "int option"
  tr_protocol_hint :: jsstr
  tr_has_ssh :: bool
  tr_ssh_host :: "jsstr option"
  tr_ssh_port :: "int option"
  tr_ssh_username :: "jsstr option"
  tr_status :: jsstr
  tr_connection_mode :: jsstr
  tr_worker_id :: "jsstr option"
  tr_worker_status :: "jsstr option"
  tr_worker_role :: "jsstr option"
  tr_worker_hostname :: "jsstr option"
  tr_worker_interface_name :: "jsstr option"
  tr_worker_version :: "jsstr option"
  tr_worker_last_heartbeat_at :: "jsstr option"
  tr_worker_heartbeat_status :: "jsstr option"
  tr_worker_heartbeat_age_seconds :: "int option"
  tr_worker_is_heartbeat_stale :: bool
  tr_worker_display_status :: "jsstr option"
  tr_worker_online :: bool
  tr_display_status :: jsstr
  tr_expires_at :: "jsstr option"
  tr_notes :: "jsstr option"
  tr_created_at :: "jsstr option"
  tr_updated_at :: "jsstr option"
  tr_deleted_at :: "jsstr option"

record transit_route_data =
  rt_id :: jsstr
  rt_name :: jsstr
  rt_transit_resource_id :: jsstr
  rt_transit_resource_name :: "jsstr option"
  rt_node_id :: jsstr
  rt_node_name :: "jsstr option"
  rt_landing_vps_id :: "jsstr option"
  rt_landing_vps_ip :: "jsstr option"
  rt_listen_port :: int
  rt_target_host :: jsstr
  rt_target_port :: int
  rt_forwarding_method :: jsstr
  rt_service_name :: jsstr
  rt_service_path :: jsstr
  rt_status :: jsstr
  rt_share_link :: "jsstr option"
  rt_created_at :: "jsstr option"
  rt_updated_at :: "jsstr option"
  rt_deleted_at :: "jsstr option"

record check_item =
  ck_id :: jsstr
  ck_label :: jsstr
  ck_category :: jsstr
  ck_status :: jsstr
  ck_passed :: bool
  ck_message :: jsstr
  ck_evidence_summary :: jsstr
  ck_next_action :: jsstr
  ck_sensitive_output_redacted :: bool

record worker_command_data =
  wc_id :: jsstr
  wc_worker_id :: jsstr
  wc_target_worker_id :: jsstr
  wc_target_worker_version :: "jsstr option"
  wc_server_type :: "jsstr option"
  wc_server_id :: "jsstr option"
  wc_command_type :: jsstr
  wc_status :: jsstr
  wc_lease_until :: "jsstr option"
  wc_claimed_at :: "jsstr option"
  wc_completed_at :: "jsstr option"
  wc_result_json :: jsval
  wc_result_summary :: "jsstr option"
  wc_error_message :: "jsstr option"
  wc_attempts :: int
  wc_created_at :: "jsstr option"
  wc_updated_at :: "jsstr option"

record real_execution_request =
  xq_dry_run_command_id :: jsstr
  xq_transit_resource_id :: jsstr
  xq_landing_node_id :: jsstr
  xq_planned_listen_port :: int
  xq_landing_target_host :: jsstr
  xq_landing_target_port :: int
  xq_forwarding_method :: jsstr
  xq_route_name :: jsstr
  xq_route_display_name :: "jsstr option"
  xq_approval_stage :: jsstr
  xq_final_approval_text :: jsstr
  xq_real_execution_text :: jsstr
  xq_firewall_security_group_confirmed :: bool
  xq_cloud_firewall_confirmed :: bool
  xq_server_firewall_confirmed :: bool
  xq_no_cutover_confirmed :: bool
  xq_no_node_share_link_change_confirmed :: bool
  xq_no_full_client_link_confirmed :: bool

record real_execution_result =
  xr_ready_for_real_execution :: bool
  xr_blocked :: bool
  xr_summary :: jsstr
  xr_next_action :: jsstr
  xr_dry_run_command_id :: jsstr
  xr_planned_service_name :: jsstr
  xr_planned_listen_port :: int
  xr_landing_target_host :: jsstr
  xr_landing_target_port :: int
  xr_forwarding_method :: jsstr
  xr_route_name :: jsstr
  xr_route_display_name :: "jsstr option"
  xr_final_approval_text :: jsstr
  xr_expected_real_execution_text :: jsstr
  xr_target_worker_id :: "jsstr option"
  xr_target_worker_version :: "jsstr option"
  xr_minimum_supported_worker_version :: jsstr
  xr_checks :: "check_item list"
  xr_safety_boundary :: "jsstr list"
  xr_command :: "worker_command_data option"
  xr_worker_command_created :: bool
  xr_real_execution_command_created :: bool
  xr_route_created :: bool
  xr_transit_route_active_record_created :: bool
  xr_haproxy_installed :: bool
  xr_listener_bound :: bool
  xr_firewall_modified :: bool
  xr_share_link_mutated :: bool
  xr_cutover :: bool

record debug_transit_resource =
  dtr_id :: jsstr
  dtr_name :: jsstr
  dtr_resource_type :: jsstr
  dtr_entry_host :: "jsstr option"
  dtr_entry_port :: "int option"
  dtr_entry_region :: "jsstr option"
  dtr_exit_region :: "jsstr option"
  dtr_status :: jsstr
  dtr_deleted_at :: "jsstr option"
  dtr_worker_id :: "jsstr option"
  dtr_worker_status :: "jsstr option"
  dtr_worker_runtime_status :: "jsstr option"
  dtr_worker_online :: bool
  dtr_worker_version :: "jsstr option"
  dtr_worker_hostname :: "jsstr option"
  dtr_worker_interface_name :: "jsstr option"
  dtr_worker_last_heartbeat_at :: "jsstr option"

record debug_landing_node =
  dln_id :: jsstr
  dln_node_name :: jsstr
  dln_vps_id :: jsstr
  dln_vps_ip :: "jsstr option"
  dln_xray_port :: "int option"
  dln_target_host :: "jsstr option"
  dln_target_port :: "int option"
  dln_status :: jsstr
  dln_service_status :: "jsstr option"
  dln_share_link_present :: bool
  dln_masked_share_link :: "jsstr option"
  dln_deleted_at :: "jsstr option"
  dln_created_at :: "jsstr option"

record integrity_check =
  ic_id :: jsstr
  ic_label :: jsstr
  ic_passed :: bool
  ic_severity :: jsstr
  ic_message :: jsstr
  ic_next_action :: jsstr
  ic_evidence_summary :: "jsstr option"

record dry_run_candidate =
  cd_id :: jsstr
  cd_status :: jsstr
  cd_created_at :: "jsstr option"
  cd_updated_at :: "jsstr option"
  cd_worker_id :: jsstr
  cd_target_worker_id :: "jsstr option"
  cd_transit_resource_id :: "jsstr option"
  cd_landing_node_id :: "jsstr option"
  cd_planned_listen_port :: "int option"
  cd_approved_planned_listen_port :: "int option"
  cd_landing_target_host :: "jsstr option"
  cd_approved_landing_target_host :: "jsstr option"
  cd_landing_target_port :: "int option"
  cd_approved_landing_target_port :: "int option"
  cd_forwarding_method :: jsstr
  cd_route_name :: "jsstr option"
  cd_route_display_name :: "jsstr option"
  cd_planned_service_name :: "jsstr option"
  cd_command_intent :: "jsstr option"
  cd_approval_stage :: "jsstr option"
  cd_dry_run :: "bool option"
  cd_approval_required :: "bool option"
  cd_real_execution :: "bool option"
  cd_user_approved_real_execution :: "bool option"
  cd_approved_firewall_confirmation :: "bool option"
  cd_integrity_ready :: bool
  cd_integrity_blocked :: bool
  cd_integrity_summary :: jsstr
  cd_integrity_next_action :: jsstr
  cd_integrity_checks :: "integrity_check list"

record debug_context =
  dc_transit_resources :: "debug_transit_resource list"
  dc_landing_nodes :: "debug_landing_node list"
  dc_haproxy_dry_run_commands :: "dry_run_candidate list"
  dc_generated_at :: jsstr
  dc_safety_boundary :: "jsstr list"

record registration_source =
  prs_dry_run_command_id :: jsstr
  prs_route_name :: jsstr
  prs_planned_listen_port :: "int option"
  prs_landing_target_host :: jsstr
  prs_landing_target_port :: "int option"
  prs_candidate_integrity_ready :: bool

record transit_registration =
  prt_name :: jsstr
  prt_resource_type :: jsstr
  prt_entry_host :: jsstr
  prt_entry_port :: "int option"
  prt_entry_region :: jsstr
  prt_exit_region :: jsstr
  prt_expected_status :: jsstr
  prt_worker_role :: jsstr
  prt_worker_binding_required :: bool

record landing_registration =
  prl_node_name :: jsstr
  prl_vps_ip :: jsstr
  prl_xray_port :: "int option"
  prl_expected_status :: jsstr
  prl_share_link_handling :: jsstr

record registration_confirmations =
  prc_manual_confirm_transit_host :: bool
  prc_manual_confirm_worker_binding :: bool
  prc_manual_confirm_landing_host :: bool
  prc_manual_confirm_landing_port :: bool
  prc_manual_confirm_no_share_link_export :: bool
  prc_manual_confirm_no_remote_execution :: bool
  prc_manual_confirm_no_firewall_change :: bool
  prc_manual_confirm_no_cutover :: bool

record registration_request =
  pr_stage :: jsstr
  pr_mode :: jsstr
  pr_source :: registration_source
  pr_transit_resource_registration :: transit_registration
  pr_landing_node_registration :: landing_registration
  pr_confirmations :: registration_confirmations
  pr_safety_boundary :: "jsstr list"

record approval_source =
  aps_dry_run :: bool
  aps_ready_for_next_stage :: bool
  aps_expected_approval_text :: jsstr
  aps_normalized_preview :: jsval

record approval_confirmations =
  apc_registration_dry_run_passed :: bool
  apc_approval_text_matches_expected :: bool
  apc_no_real_resource_creation :: bool
  apc_no_worker_command_creation :: bool
  apc_no_transit_route_creation :: bool
  apc_no_haproxy_route_creation :: bool
  apc_no_ssh_or_remote_execution :: bool
  apc_no_firewall_change :: bool
  apc_no_cutover :: bool
  apc_ordinary_product_ui_unchanged :: bool
  apc_sensitive_fields_redacted :: bool

record approval_request =
  ap_stage :: jsstr
  ap_mode :: jsstr
  ap_source_registration_dry_run :: approval_source
  ap_approval_text :: jsstr
  ap_confirmations :: approval_confirmations

record command_source =
  cqs_dry_run :: bool
  cqs_stage :: jsstr
  cqs_mode :: jsstr
  cqs_approved_for_next_stage :: bool
  cqs_ready_for_command_create_next_stage :: bool
  cqs_normalized_approval_preview :: jsval
  cqs_safety_boundary :: jsval

record command_confirmations =
  cqc_approval_dry_run_passed :: bool
  cqc_create_local_pending_command_only :: bool
  cqc_no_real_resource_creation :: bool
  cqc_no_transit_resource_creation :: bool
  cqc_no_landing_node_creation :: bool
  cqc_no_worker_remote_execution :: bool
  cqc_no_transit_route_creation :: bool
  cqc_no_haproxy_route_creation :: bool
  cqc_no_listening_port_change :: bool
  cqc_no_ssh_or_remote_execution :: bool
  cqc_no_firewall_change :: bool
  cqc_no_cutover :: bool
  cqc_ordinary_product_ui_unchanged :: bool
  cqc_sensitive_fields_redacted :: bool

record command_create_request =
  cq_stage :: jsstr
  cq_mode :: jsstr
  cq_source_approval_dry_run :: command_source
  cq_confirmations :: command_confirmations

record execution_confirmations =
  eqc_command_was_created_by_stage_3_4_29 :: bool
  eqc_command_is_pending :: bool
  eqc_approval_dry_run_passed :: bool
  eqc_execute_local_db_registration_only :: bool
  eqc_allow_create_transit_resource_record :: bool
  eqc_allow_create_landing_node_record :: bool
  eqc_no_worker_command_creation :: bool
  eqc_no_transit_route_creation :: bool
  eqc_no_haproxy_route_creation :: bool
  eqc_no_haproxy_config_generation :: bool
  eqc_no_listening_port_change :: bool
  eqc_no_ssh_or_remote_execution :: bool
  eqc_no_firewall_change :: bool
  eqc_no_cutover :: bool
  eqc_ordinary_product_ui_unchanged :: bool
  eqc_sensitive_fields_redacted :: bool

record execution_verify_request =
  eq_stage :: jsstr
  eq_mode :: jsstr
  eq_command_id :: jsstr
  eq_execution_approval_text :: jsstr
  eq_confirmations :: execution_confirmations

text \<open>
  What \<^verbatim>\<open>JSON.stringify(payload)\<close> is given for the request types: every field under its own name,
  in the order in which the type declares it.
\<close>

definition json_real_execution_request :: "real_execution_request \<Rightarrow> jsval" where
  "json_real_execution_request r = JObj [
     ((js ''dry_run_command_id''), JStr (xq_dry_run_command_id r)),
     ((js ''transit_resource_id''), JStr (xq_transit_resource_id r)),
     ((js ''landing_node_id''), JStr (xq_landing_node_id r)),
     ((js ''planned_listen_port''), JNum (xq_planned_listen_port r)),
     ((js ''landing_target_host''), JStr (xq_landing_target_host r)),
     ((js ''landing_target_port''), JNum (xq_landing_target_port r)),
     ((js ''forwarding_method''), JStr (xq_forwarding_method r)),
     ((js ''route_name''), JStr (xq_route_name r)),
     ((js ''route_display_name''), jopt_str (xq_route_display_name r)),
     ((js ''approval_stage''), JStr (xq_approval_stage r)),
     ((js ''final_approval_text''), JStr (xq_final_approval_text r)),
     ((js ''real_execution_text''), JStr (xq_real_execution_text r)),
     ((js ''firewall_security_group_confirmed''), JBool (xq_firewall_security_group_confirmed r)),
     ((js ''cloud_firewall_confirmed''), JBool (xq_cloud_firewall_confirmed r)),
     ((js ''server_firewall_confirmed''), JBool (xq_server_firewall_confirmed r)),
     ((js ''no_cutover_confirmed''), JBool (xq_no_cutover_confirmed r)),
     ((js ''no_node_share_link_change_confirmed''), JBool (xq_no_node_share_link_change_confirmed r)),
     ((js ''no_full_client_link_confirmed''), JBool (xq_no_full_client_link_confirmed r))]"

definition json_registration_source :: "registration_source \<Rightarrow> jsval" where
  "json_registration_source r = JObj [
     ((js ''dry_run_command_id''), JStr (prs_dry_run_command_id r)),
     ((js ''route_name''), JStr (prs_route_name r)),
     ((js ''planned_listen_port''), jopt_num (prs_planned_listen_port r)),
     ((js ''landing_target_host''), JStr (prs_landing_target_host r)),
     ((js ''landing_target_port''), jopt_num (prs_landing_target_port r)),
     ((js ''candidate_integrity_ready''), JBool (prs_candidate_integrity_ready r))]"

definition json_transit_registration :: "transit_registration \<Rightarrow> jsval" where
  "json_transit_registration r = JObj [
     ((js ''name''), JStr (prt_name r)),
     ((js ''resource_type''), JStr (prt_resource_type r)),
     ((js ''entry_host''), JStr (prt_entry_host r)),
     ((js ''entry_port''), jopt_num (prt_entry_port r)),
     ((js ''entry_region''), JStr (prt_entry_region r)),
     ((js ''exit_region''), JStr (prt_exit_region r)),
     ((js ''expected_status''), JStr (prt_expected_status r)),
     ((js ''worker_role''), JStr (prt_worker_role r)),
     ((js ''worker_binding_required''), JBool (prt_worker_binding_required r))]"

definition json_landing_registration :: "landing_registration \<Rightarrow> jsval" where
  "json_landing_registration r = JObj [
     ((js ''node_name''), JStr (prl_node_name r)),
     ((js ''vps_ip''), JStr (prl_vps_ip r)),
     ((js ''xray_port''), jopt_num (prl_xray_port r)),
     ((js ''expected_status''), JStr (prl_expected_status r)),
     ((js ''share_link_handling''), JStr (prl_share_link_handling r))]"

definition json_registration_confirmations :: "registration_confirmations \<Rightarrow> jsval" where
  "json_registration_confirmations r = JObj [
     ((js ''manual_confirm_transit_host''), JBool (prc_manual_confirm_transit_host r)),
     ((js ''manual_confirm_worker_binding''), JBool (prc_manual_confirm_worker_binding r)),
     ((js ''manual_confirm_landing_host''), JBool (prc_manual_confirm_landing_host r)),
     ((js ''manual_confirm_landing_port''), JBool (prc_manual_confirm_landing_port r)),
     ((js ''manual_confirm_no_share_link_export''), JBool (prc_manual_confirm_no_share_link_export r)),
     ((js ''manual_confirm_no_remote_execution''), JBool (prc_manual_confirm_no_remote_execution r)),
     ((js ''manual_confirm_no_firewall_change''), JBool (prc_manual_confirm_no_firewall_change r)),
     ((js ''manual_confirm_no_cutover''), JBool (prc_manual_confirm_no_cutover r))]"

definition json_registration_request :: "registration_request \<Rightarrow> jsval" where
  "json_registration_request r = JObj [
     ((js ''stage''), JStr (pr_stage r)),
     ((js ''mode''), JStr (pr_mode r)),
     ((js ''source''), json_registration_source (pr_source r)),
     ((js ''transit_resource_registration''), json_transit_registration (pr_transit_resource_registration r)),
     ((js ''landing_node_registration''), json_landing_registration (pr_landing_node_registration r)),
     ((js ''confirmations''), json_registration_confirmations (pr_confirmations r)),
     ((js ''safety_boundary''), jstrs (pr_safety_boundary r))]"

definition json_approval_source :: "approval_source \<Rightarrow> jsval" where
  "json_approval_source r = JObj [
     ((js ''dry_run''), JBool (aps_dry_run r)),
     ((js ''ready_for_next_stage''), JBool (aps_ready_for_next_stage r)),
     ((js ''expected_approval_text''), JStr (aps_expected_approval_text r)),
     ((js ''normalized_preview''), aps_normalized_preview r)]"

definition json_approval_confirmations :: "approval_confirmations \<Rightarrow> jsval" where
  "json_approval_confirmations r = JObj [
     ((js ''registration_dry_run_passed''), JBool (apc_registration_dry_run_passed r)),
     ((js ''approval_text_matches_expected''), JBool (apc_approval_text_matches_expected r)),
     ((js ''no_real_resource_creation''), JBool (apc_no_real_resource_creation r)),
     ((js ''no_worker_command_creation''), JBool (apc_no_worker_command_creation r)),
     ((js ''no_transit_route_creation''), JBool (apc_no_transit_route_creation r)),
     ((js ''no_haproxy_route_creation''), JBool (apc_no_haproxy_route_creation r)),
     ((js ''no_ssh_or_remote_execution''), JBool (apc_no_ssh_or_remote_execution r)),
     ((js ''no_firewall_change''), JBool (apc_no_firewall_change r)),
     ((js ''no_cutover''), JBool (apc_no_cutover r)),
     ((js ''ordinary_product_ui_unchanged''), JBool (apc_ordinary_product_ui_unchanged r)),
     ((js ''sensitive_fields_redacted''), JBool (apc_sensitive_fields_redacted r))]"

definition json_approval_request :: "approval_request \<Rightarrow> jsval" where
  "json_approval_request r = JObj [
     ((js ''stage''), JStr (ap_stage r)),
     ((js ''mode''), JStr (ap_mode r)),
     ((js ''source_registration_dry_run''), json_approval_source (ap_source_registration_dry_run r)),
     ((js ''approval_text''), JStr (ap_approval_text r)),
     ((js ''confirmations''), json_approval_confirmations (ap_confirmations r))]"

definition json_command_source :: "command_source \<Rightarrow> jsval" where
  "json_command_source r = JObj [
     ((js ''dry_run''), JBool (cqs_dry_run r)),
     ((js ''stage''), JStr (cqs_stage r)),
     ((js ''mode''), JStr (cqs_mode r)),
     ((js ''approved_for_next_stage''), JBool (cqs_approved_for_next_stage r)),
     ((js ''ready_for_command_create_next_stage''), JBool (cqs_ready_for_command_create_next_stage r)),
     ((js ''normalized_approval_preview''), cqs_normalized_approval_preview r),
     ((js ''safety_boundary''), cqs_safety_boundary r)]"

definition json_command_confirmations :: "command_confirmations \<Rightarrow> jsval" where
  "json_command_confirmations r = JObj [
     ((js ''approval_dry_run_passed''), JBool (cqc_approval_dry_run_passed r)),
     ((js ''create_local_pending_command_only''), JBool (cqc_create_local_pending_command_only r)),
     ((js ''no_real_resource_creation''), JBool (cqc_no_real_resource_creation r)),
     ((js ''no_transit_resource_creation''), JBool (cqc_no_transit_resource_creation r)),
     ((js ''no_landing_node_creation''), JBool (cqc_no_landing_node_creation r)),
     ((js ''no_worker_remote_execution''), JBool (cqc_no_worker_remote_execution r)),
     ((js ''no_transit_route_creation''), JBool (cqc_no_transit_route_creation r)),
     ((js ''no_haproxy_route_creation''), JBool (cqc_no_haproxy_route_creation r)),
     ((js ''no_listening_port_change''), JBool (cqc_no_listening_port_change r)),
     ((js ''no_ssh_or_remote_execution''), JBool (cqc_no_ssh_or_remote_execution r)),
     ((js ''no_firewall_change''), JBool (cqc_no_firewall_change r)),
     ((js ''no_cutover''), JBool (cqc_no_cutover r)),
     ((js ''ordinary_product_ui_unchanged''), JBool (cqc_ordinary_product_ui_unchanged r)),
     ((js ''sensitive_fields_redacted''), JBool (cqc_sensitive_fields_redacted r))]"

definition json_command_create_request :: "command_create_request \<Rightarrow> jsval" where
  "json_command_create_request r = JObj [
     ((js ''stage''), JStr (cq_stage r)),
     ((js ''mode''), JStr (cq_mode r)),
     ((js ''source_approval_dry_run''), json_command_source (cq_source_approval_dry_run r)),
     ((js ''confirmations''), json_command_confirmations (cq_confirmations r))]"

definition json_execution_confirmations :: "execution_confirmations \<Rightarrow> jsval" where
  "json_execution_confirmations r = JObj [
     ((js ''command_was_created_by_stage_3_4_29''), JBool (eqc_command_was_created_by_stage_3_4_29 r)),
     ((js ''command_is_pending''), JBool (eqc_command_is_pending r)),
     ((js ''approval_dry_run_passed''), JBool (eqc_approval_dry_run_passed r)),
     ((js ''execute_local_db_registration_only''), JBool (eqc_execute_local_db_registration_only r)),
     ((js ''allow_create_transit_resource_record''), JBool (eqc_allow_create_transit_resource_record r)),
     ((js ''allow_create_landing_node_record''), JBool (eqc_allow_create_landing_node_record r)),
     ((js ''no_worker_command_creation''), JBool (eqc_no_worker_command_creation r)),
     ((js ''no_transit_route_creation''), JBool (eqc_no_transit_route_creation r)),
     ((js ''no_haproxy_route_creation''), JBool (eqc_no_haproxy_route_creation r)),
     ((js ''no_haproxy_config_generation''), JBool (eqc_no_haproxy_config_generation r)),
     ((js ''no_listening_port_change''), JBool (eqc_no_listening_port_change r)),
     ((js ''no_ssh_or_remote_execution''), JBool (eqc_no_ssh_or_remote_execution r)),
     ((js ''no_firewall_change''), JBool (eqc_no_firewall_change r)),
     ((js ''no_cutover''), JBool (eqc_no_cutover r)),
     ((js ''ordinary_product_ui_unchanged''), JBool (eqc_ordinary_product_ui_unchanged r)),
     ((js ''sensitive_fields_redacted''), JBool (eqc_sensitive_fields_redacted r))]"

definition json_execution_verify_request :: "execution_verify_request \<Rightarrow> jsval" where
  "json_execution_verify_request r = JObj [
     ((js ''stage''), JStr (eq_stage r)),
     ((js ''mode''), JStr (eq_mode r)),
     ((js ''command_id''), JStr (eq_command_id r)),
     ((js ''execution_approval_text''), JStr (eq_execution_approval_text r)),
     ((js ''confirmations''), json_execution_confirmations (eq_confirmations r))]"

end
