(* ===== verification/ApiClient.thy ===== *)
theory ApiClient
  imports ApiTypes
begin

text \<open>
  The HTTP client of \<^verbatim>\<open>frontend/lib/api.ts\<close>: one definition per exported call, giving the
  path and the \<^verbatim>\<open>RequestInit\<close> it passes to \<^verbatim>\<open>apiFetch\<close>, and \<^verbatim>\<open>apiFetch\<close> itself,
  giving the call of the browser's \<^verbatim>\<open>fetch\<close> and whether the session-expired event is fired.
  A body is the value that is handed to \<^verbatim>\<open>JSON.stringify\<close>; the answer of the backend is the
  environment's choice.
\<close>

subsection \<open>Responses\<close>

datatype 'a api_response =
    ApiSuccess 'a jsstr
  | ApiFailure jsstr jsstr "jsval option"

fun api_message :: "'a api_response \<Rightarrow> jsstr" where
  "api_message (ApiSuccess d m) = m"
| "api_message (ApiFailure c m d) = m"

fun api_ok :: "'a api_response \<Rightarrow> bool" where
  "api_ok (ApiSuccess d m) = True"
| "api_ok (ApiFailure c m d) = False"

text \<open>
  The settled promise of a call: the parsed response, or an exception. The message of an
  \<^verbatim>\<open>Error\<close> is present; another thrown value has none.
\<close>

datatype 'a settled = Resolved 'a | Rejected "jsstr option"

definition error_text :: "jsstr option \<Rightarrow> jsstr \<Rightarrow> jsstr" where
  "error_text e fallback = nullish e fallback"

definition REMOTE_CLEANUP_CONFIRM_TEXT :: jsstr where
  "REMOTE_CLEANUP_CONFIRM_TEXT = (js ''CONFIRM_REMOTE_DELETE'')"

definition OFFLINE_LOCAL_REMOVE_CONFIRM_TEXT :: jsstr where
  "OFFLINE_LOCAL_REMOVE_CONFIRM_TEXT = (js ''CONFIRM_OFFLINE_LOCAL_REMOVE'')"

subsection \<open>Requests of the exported calls\<close>

record api_request =
  req_path :: jsstr
  req_method :: "jsstr option"
  req_headers :: "(jsstr \<times> jsstr) list"
  req_body :: "jsval option"

text \<open>\<^verbatim>\<open>apiFetch(path)\<close> with no init, as the panels call it directly.\<close>

definition get_request :: "jsstr \<Rightarrow> api_request" where
  "get_request path = \<lparr>req_path = path, req_method = None, req_headers = [], req_body = None\<rparr>"

definition createWorkerToken :: "jsval \<Rightarrow> jsstr \<Rightarrow> api_request" where
  "createWorkerToken payload csrfToken =
     \<lparr>req_path = (js ''/api/worker-tokens''),
      req_method = Some (js ''POST''), req_headers = [((js ''X-CSRF-Token''), csrfToken)],
      req_body = Some payload\<rparr>"

definition createWorkerCommand :: "jsstr \<Rightarrow> jsval \<Rightarrow> jsstr \<Rightarrow> api_request" where
  "createWorkerCommand workerId payload csrfToken =
     \<lparr>req_path = (js ''/api/workers/'') @ workerId @ (js ''/commands''),
      req_method = Some (js ''POST''), req_headers = [((js ''X-CSRF-Token''), csrfToken)],
      req_body = Some payload\<rparr>"

definition listWorkerCommands :: "jsstr \<Rightarrow> api_request" where
  "listWorkerCommands workerId =
     \<lparr>req_path = (js ''/api/workers/'') @ workerId @ (js ''/commands''),
      req_method = None, req_headers = [],
      req_body = None\<rparr>"

definition createVpsWorkerBootstrap :: "jsval \<Rightarrow> jsstr \<Rightarrow> api_request" where
  "createVpsWorkerBootstrap payload csrfToken =
     \<lparr>req_path = (js ''/api/vps/worker-bootstrap''),
      req_method = Some (js ''POST''), req_headers = [((js ''X-CSRF-Token''), csrfToken)],
      req_body = Some payload\<rparr>"

definition createLandingNodePlan :: "jsstr \<Rightarrow> jsval \<Rightarrow> jsstr \<Rightarrow> api_request" where
  "createLandingNodePlan serverId payload csrfToken =
     \<lparr>req_path = (js ''/api/vps/'') @ serverId @ (js ''/landing-node-plan''),
      req_method = Some (js ''POST''), req_headers = [((js ''X-CSRF-Token''), csrfToken)],
      req_body = Some payload\<rparr>"

definition createLandingNodeExecution :: "jsstr \<Rightarrow> jsval \<Rightarrow> jsstr \<Rightarrow> api_request" where
  "createLandingNodeExecution serverId payload csrfToken =
     \<lparr>req_path = (js ''/api/vps/'') @ serverId @ (js ''/landing-node-create''),
      req_method = Some (js ''POST''), req_headers = [((js ''X-CSRF-Token''), csrfToken)],
      req_body = Some payload\<rparr>"

definition requestBbrEnablePlan :: "jsstr \<Rightarrow> jsstr \<Rightarrow> api_request" where
  "requestBbrEnablePlan serverId csrfToken =
     \<lparr>req_path = (js ''/api/vps/'') @ serverId @ (js ''/bbr/enable-plan''),
      req_method = Some (js ''POST''), req_headers = [((js ''X-CSRF-Token''), csrfToken)],
      req_body = None\<rparr>"

definition requestBbrEnableDryRun :: "jsstr \<Rightarrow> jsstr \<Rightarrow> api_request" where
  "requestBbrEnableDryRun serverId csrfToken =
     \<lparr>req_path = (js ''/api/vps/'') @ serverId @ (js ''/bbr/enable-dry-run''),
      req_method = Some (js ''POST''), req_headers = [((js ''X-CSRF-Token''), csrfToken)],
      req_body = None\<rparr>"

definition requestBbrEnableRealExecution :: "jsstr \<Rightarrow> jsstr \<Rightarrow> jsstr \<Rightarrow> api_request" where
  "requestBbrEnableRealExecution serverId csrfToken confirmationText =
     \<lparr>req_path = (js ''/api/vps/'') @ serverId @ (js ''/bbr/enable-real-execution''),
      req_method = Some (js ''POST''), req_headers = [((js ''X-CSRF-Token''), csrfToken)],
      req_body = Some (JObj [((js ''confirmation_text''), JStr confirmationText)])\<rparr>"

definition createTransitWorkerBootstrap :: "jsval \<Rightarrow> jsstr \<Rightarrow> api_request" where
  "createTransitWorkerBootstrap payload csrfToken =
     \<lparr>req_path = (js ''/api/transit-resources/worker-bootstrap''),
      req_method = Some (js ''POST''), req_headers = [((js ''X-CSRF-Token''), csrfToken)],
      req_body = Some payload\<rparr>"

definition createTransitResource :: "jsval \<Rightarrow> jsstr \<Rightarrow> api_request" where
  "createTransitResource payload csrfToken =
     \<lparr>req_path = (js ''/api/transit-resources''),
      req_method = Some (js ''POST''), req_headers = [((js ''X-CSRF-Token''), csrfToken)],
      req_body = Some payload\<rparr>"

definition regenerateTransitWorkerBootstrap :: "jsstr \<Rightarrow> jsval \<Rightarrow> jsstr \<Rightarrow> api_request" where
  "regenerateTransitWorkerBootstrap resourceId payload csrfToken =
     \<lparr>req_path = (js ''/api/transit-resources/'') @ resourceId @ (js ''/worker-bootstrap/regenerate''),
      req_method = Some (js ''POST''), req_headers = [((js ''X-CSRF-Token''), csrfToken)],
      req_body = Some payload\<rparr>"

definition generateTransitWorkerInstallCommand :: "jsstr \<Rightarrow> jsval \<Rightarrow> jsstr \<Rightarrow> api_request" where
  "generateTransitWorkerInstallCommand resourceId payload csrfToken =
     \<lparr>req_path = (js ''/api/transit-resources/'') @ resourceId @ (js ''/worker-install-command''),
      req_method = Some (js ''POST''), req_headers = [((js ''X-CSRF-Token''), csrfToken)],
      req_body = Some payload\<rparr>"

definition getTransitWorkerAcceptance :: "jsstr \<Rightarrow> api_request" where
  "getTransitWorkerAcceptance resourceId =
     \<lparr>req_path = (js ''/api/transit-resources/'') @ resourceId @ (js ''/worker-acceptance''),
      req_method = None, req_headers = [],
      req_body = None\<rparr>"

definition getTransitWorkerUpgradeAcceptance :: "jsstr \<Rightarrow> api_request" where
  "getTransitWorkerUpgradeAcceptance resourceId =
     \<lparr>req_path = (js ''/api/transit-resources/'') @ resourceId @ (js ''/worker-upgrade-acceptance''),
      req_method = None, req_headers = [],
      req_body = None\<rparr>"

definition getProductOverview :: "api_request" where
  "getProductOverview =
     \<lparr>req_path = (js ''/api/product/overview''),
      req_method = None, req_headers = [],
      req_body = None\<rparr>"

definition requestReadonlyPreflightPlan :: "jsval \<Rightarrow> api_request" where
  "requestReadonlyPreflightPlan payload =
     \<lparr>req_path = (js ''/api/transit-routes/readonly-preflight-plan''),
      req_method = Some (js ''POST''), req_headers = [],
      req_body = Some payload\<rparr>"

definition createTransitReadonlyPreflightCommand :: "jsval \<Rightarrow> jsstr \<Rightarrow> api_request" where
  "createTransitReadonlyPreflightCommand payload csrfToken =
     \<lparr>req_path = (js ''/api/transit-routes/readonly-preflight-command''),
      req_method = Some (js ''POST''), req_headers = [((js ''X-CSRF-Token''), csrfToken)],
      req_body = Some payload\<rparr>"

definition requestTransitHaproxyReadinessApproval :: "jsval \<Rightarrow> api_request" where
  "requestTransitHaproxyReadinessApproval payload =
     \<lparr>req_path = (js ''/api/transit-routes/haproxy-readiness-approval''),
      req_method = Some (js ''POST''), req_headers = [],
      req_body = Some payload\<rparr>"

definition createTransitHaproxyRouteDryRun :: "jsval \<Rightarrow> jsstr \<Rightarrow> api_request" where
  "createTransitHaproxyRouteDryRun payload csrfToken =
     \<lparr>req_path = (js ''/api/transit-routes/haproxy-route-create-dry-run''),
      req_method = Some (js ''POST''), req_headers = [((js ''X-CSRF-Token''), csrfToken)],
      req_body = Some payload\<rparr>"

definition requestTransitHaproxyRouteFinalApproval :: "jsval \<Rightarrow> jsstr \<Rightarrow> api_request" where
  "requestTransitHaproxyRouteFinalApproval payload csrfToken =
     \<lparr>req_path = (js ''/api/transit-routes/haproxy-route-create-final-approval''),
      req_method = Some (js ''POST''), req_headers = [((js ''X-CSRF-Token''), csrfToken)],
      req_body = Some payload\<rparr>"

definition createTransitHaproxyRouteRealExecution :: "jsval \<Rightarrow> jsstr \<Rightarrow> api_request" where
  "createTransitHaproxyRouteRealExecution payload csrfToken =
     \<lparr>req_path = (js ''/api/transit-routes/haproxy-route-create-real-execution''),
      req_method = Some (js ''POST''), req_headers = [((js ''X-CSRF-Token''), csrfToken)],
      req_body = Some payload\<rparr>"

definition requestTransitHaproxyRouteRealExecutionReadiness :: "jsval \<Rightarrow> jsstr \<Rightarrow> api_request" where
  "requestTransitHaproxyRouteRealExecutionReadiness payload csrfToken =
     \<lparr>req_path = (js ''/api/transit-routes/haproxy-route-real-execution-readiness''),
      req_method = Some (js ''POST''), req_headers = [((js ''X-CSRF-Token''), csrfToken)],
      req_body = Some payload\<rparr>"

definition getHaproxyRuntimeDebugContext :: "api_request" where
  "getHaproxyRuntimeDebugContext =
     \<lparr>req_path = (js ''/api/transit-routes/haproxy-runtime-debug-context''),
      req_method = None, req_headers = [],
      req_body = None\<rparr>"

definition requestProtectedResourceRegistrationDryRun :: "jsval \<Rightarrow> jsstr \<Rightarrow> api_request" where
  "requestProtectedResourceRegistrationDryRun payload csrfToken =
     \<lparr>req_path = (js ''/api/transit-routes/protected-resource-registration-dry-run''),
      req_method = Some (js ''POST''), req_headers = [((js ''X-CSRF-Token''), csrfToken)],
      req_body = Some payload\<rparr>"

definition requestProtectedResourceRegistrationApprovalDryRun :: "jsval \<Rightarrow> jsstr \<Rightarrow> api_request" where
  "requestProtectedResourceRegistrationApprovalDryRun payload csrfToken =
     \<lparr>req_path = (js ''/api/transit-routes/protected-resource-registration-approval-dry-run''),
      req_method = Some (js ''POST''), req_headers = [((js ''X-CSRF-Token''), csrfToken)],
      req_body = Some payload\<rparr>"

definition createProtectedResourceRegistrationCommand :: "jsval \<Rightarrow> jsstr \<Rightarrow> api_request" where
  "createProtectedResourceRegistrationCommand payload csrfToken =
     \<lparr>req_path = (js ''/api/transit-routes/protected-resource-registration-command-create''),
      req_method = Some (js ''POST''), req_headers = [((js ''X-CSRF-Token''), csrfToken)],
      req_body = Some payload\<rparr>"

definition runProtectedResourceRegistrationExecutionVerify :: "jsval \<Rightarrow> jsstr \<Rightarrow> api_request" where
  "runProtectedResourceRegistrationExecutionVerify payload csrfToken =
     \<lparr>req_path = (js ''/api/transit-routes/protected-resource-registration-execution-verify''),
      req_method = Some (js ''POST''), req_headers = [((js ''X-CSRF-Token''), csrfToken)],
      req_body = Some payload\<rparr>"

definition createTransitRouteWorkerExecuteCommand :: "jsval \<Rightarrow> jsstr \<Rightarrow> api_request" where
  "createTransitRouteWorkerExecuteCommand payload csrfToken =
     \<lparr>req_path = (js ''/api/transit-routes/worker-create-execute''),
      req_method = Some (js ''POST''), req_headers = [((js ''X-CSRF-Token''), csrfToken)],
      req_body = Some payload\<rparr>"

definition getWorkerCommand :: "jsstr \<Rightarrow> api_request" where
  "getWorkerCommand commandId =
     \<lparr>req_path = (js ''/api/workers/commands/'') @ commandId,
      req_method = None, req_headers = [],
      req_body = None\<rparr>"

definition getTransitRouteCandidateSummary :: "jsstr \<Rightarrow> api_request" where
  "getTransitRouteCandidateSummary routeId =
     \<lparr>req_path = (js ''/api/transit-routes/'') @ routeId @ (js ''/candidate-summary''),
      req_method = None, req_headers = [],
      req_body = None\<rparr>"

definition exportTransitRouteCandidate :: "jsstr \<Rightarrow> jsval \<Rightarrow> jsstr \<Rightarrow> api_request" where
  "exportTransitRouteCandidate routeId payload csrfToken =
     \<lparr>req_path = (js ''/api/transit-routes/'') @ routeId @ (js ''/candidate-export''),
      req_method = Some (js ''POST''), req_headers = [((js ''X-CSRF-Token''), csrfToken)],
      req_body = Some payload\<rparr>"

definition updateTransitRouteName :: "jsstr \<Rightarrow> jsval \<Rightarrow> jsstr \<Rightarrow> api_request" where
  "updateTransitRouteName routeId payload csrfToken =
     \<lparr>req_path = (js ''/api/transit-routes/'') @ routeId @ (js ''/name''),
      req_method = Some (js ''PATCH''), req_headers = [((js ''X-CSRF-Token''), csrfToken)],
      req_body = Some payload\<rparr>"

definition exportNodeShareLink :: "jsstr \<Rightarrow> jsstr \<Rightarrow> jsstr \<Rightarrow> api_request" where
  "exportNodeShareLink nodeId csrfToken reason =
     \<lparr>req_path = (js ''/api/nodes/'') @ nodeId @ (js ''/share-link/export''),
      req_method = Some (js ''POST''), req_headers = [((js ''X-CSRF-Token''), csrfToken)],
      req_body = Some (JObj [((js ''confirm_export''), JBool True), ((js ''reason''), JStr reason)])\<rparr>"

definition deleteTransitResource :: "jsstr \<Rightarrow> jsstr \<Rightarrow> api_request" where
  "deleteTransitResource resourceId csrfToken =
     \<lparr>req_path = (js ''/api/transit-resources/'') @ resourceId @ (js ''?confirm=true''),
      req_method = Some (js ''DELETE''), req_headers = [((js ''X-CSRF-Token''), csrfToken)],
      req_body = None\<rparr>"

definition remoteCleanupDeleteTransitResource :: "jsstr \<Rightarrow> jsstr \<Rightarrow> jsstr \<Rightarrow> api_request" where
  "remoteCleanupDeleteTransitResource resourceId csrfToken confirm =
     \<lparr>req_path = (js ''/api/transit-resources/'') @ resourceId @ (js ''/remote-cleanup-delete''),
      req_method = Some (js ''POST''), req_headers = [((js ''X-CSRF-Token''), csrfToken)],
      req_body = Some (JObj [((js ''confirm''), JStr confirm)])\<rparr>"

definition deleteVpsServer :: "jsstr \<Rightarrow> jsstr \<Rightarrow> api_request" where
  "deleteVpsServer serverId csrfToken =
     \<lparr>req_path = (js ''/api/vps/'') @ serverId @ (js ''?confirm=true''),
      req_method = Some (js ''DELETE''), req_headers = [((js ''X-CSRF-Token''), csrfToken)],
      req_body = None\<rparr>"

definition remoteCleanupDeleteVpsServer :: "jsstr \<Rightarrow> jsstr \<Rightarrow> jsstr \<Rightarrow> api_request" where
  "remoteCleanupDeleteVpsServer serverId csrfToken confirm =
     \<lparr>req_path = (js ''/api/vps/'') @ serverId @ (js ''/remote-cleanup-delete''),
      req_method = Some (js ''POST''), req_headers = [((js ''X-CSRF-Token''), csrfToken)],
      req_body = Some (JObj [((js ''confirm''), JStr confirm)])\<rparr>"

definition deleteNodeRecord :: "jsstr \<Rightarrow> jsstr \<Rightarrow> api_request" where
  "deleteNodeRecord nodeId csrfToken =
     \<lparr>req_path = (js ''/api/nodes/'') @ nodeId @ (js ''?confirm=true''),
      req_method = Some (js ''DELETE''), req_headers = [((js ''X-CSRF-Token''), csrfToken)],
      req_body = None\<rparr>"

definition remoteCleanupDeleteNode :: "jsstr \<Rightarrow> jsstr \<Rightarrow> jsstr \<Rightarrow> api_request" where
  "remoteCleanupDeleteNode nodeId csrfToken confirm =
     \<lparr>req_path = (js ''/api/nodes/'') @ nodeId @ (js ''/remote-cleanup-delete''),
      req_method = Some (js ''POST''), req_headers = [((js ''X-CSRF-Token''), csrfToken)],
      req_body = Some (JObj [((js ''confirm''), JStr confirm)])\<rparr>"

definition deleteTransitRoute :: "jsstr \<Rightarrow> jsstr \<Rightarrow> api_request" where
  "deleteTransitRoute routeId csrfToken =
     \<lparr>req_path = (js ''/api/transit-routes/'') @ routeId @ (js ''?confirm=true''),
      req_method = Some (js ''DELETE''), req_headers = [((js ''X-CSRF-Token''), csrfToken)],
      req_body = None\<rparr>"

definition remoteCleanupDeleteTransitRoute :: "jsstr \<Rightarrow> jsstr \<Rightarrow> jsstr \<Rightarrow> api_request" where
  "remoteCleanupDeleteTransitRoute routeId csrfToken confirm =
     \<lparr>req_path = (js ''/api/transit-routes/'') @ routeId @ (js ''/remote-cleanup-delete''),
      req_method = Some (js ''POST''), req_headers = [((js ''X-CSRF-Token''), csrfToken)],
      req_body = Some (JObj [((js ''confirm''), JStr confirm)])\<rparr>"

subsection \<open>All calls as one type\<close>

datatype api_call =
    CreateWorkerToken jsval jsstr
  | CreateWorkerCommand jsstr jsval jsstr
  | ListWorkerCommands jsstr
  | CreateVpsWorkerBootstrap jsval jsstr
  | CreateLandingNodePlan jsstr jsval jsstr
  | CreateLandingNodeExecution jsstr jsval jsstr
  | RequestBbrEnablePlan jsstr jsstr
  | RequestBbrEnableDryRun jsstr jsstr
  | RequestBbrEnableRealExecution jsstr jsstr jsstr
  | CreateTransitWorkerBootstrap jsval jsstr
  | CreateTransitResource jsval jsstr
  | RegenerateTransitWorkerBootstrap jsstr jsval jsstr
  | GenerateTransitWorkerInstallCommand jsstr jsval jsstr
  | GetTransitWorkerAcceptance jsstr
  | GetTransitWorkerUpgradeAcceptance jsstr
  | GetProductOverview
  | RequestReadonlyPreflightPlan jsval
  | CreateTransitReadonlyPreflightCommand jsval jsstr
  | RequestTransitHaproxyReadinessApproval jsval
  | CreateTransitHaproxyRouteDryRun jsval jsstr
  | RequestTransitHaproxyRouteFinalApproval jsval jsstr
  | CreateTransitHaproxyRouteRealExecution jsval jsstr
  | RequestTransitHaproxyRouteRealExecutionReadiness jsval jsstr
  | GetHaproxyRuntimeDebugContext
  | RequestProtectedResourceRegistrationDryRun jsval jsstr
  | RequestProtectedResourceRegistrationApprovalDryRun jsval jsstr
  | CreateProtectedResourceRegistrationCommand jsval jsstr
  | RunProtectedResourceRegistrationExecutionVerify jsval jsstr
  | CreateTransitRouteWorkerExecuteCommand jsval jsstr
  | GetWorkerCommand jsstr
  | GetTransitRouteCandidateSummary jsstr
  | ExportTransitRouteCandidate jsstr jsval jsstr
  | UpdateTransitRouteName jsstr jsval jsstr
  | ExportNodeShareLink jsstr jsstr jsstr
  | DeleteTransitResource jsstr jsstr
  | RemoteCleanupDeleteTransitResource jsstr jsstr jsstr
  | DeleteVpsServer jsstr jsstr
  | RemoteCleanupDeleteVpsServer jsstr jsstr jsstr
  | DeleteNodeRecord jsstr jsstr
  | RemoteCleanupDeleteNode jsstr jsstr jsstr
  | DeleteTransitRoute jsstr jsstr
  | RemoteCleanupDeleteTransitRoute jsstr jsstr jsstr

fun request_of :: "api_call \<Rightarrow> api_request" where
  "request_of (CreateWorkerToken payload csrfToken) = createWorkerToken payload csrfToken"
| "request_of (CreateWorkerCommand workerId payload csrfToken) = createWorkerCommand workerId payload csrfToken"
| "request_of (ListWorkerCommands workerId) = listWorkerCommands workerId"
| "request_of (CreateVpsWorkerBootstrap payload csrfToken) = createVpsWorkerBootstrap payload csrfToken"
| "request_of (CreateLandingNodePlan serverId payload csrfToken) = createLandingNodePlan serverId payload csrfToken"
| "request_of (CreateLandingNodeExecution serverId payload csrfToken) = createLandingNodeExecution serverId payload csrfToken"
| "request_of (RequestBbrEnablePlan serverId csrfToken) = requestBbrEnablePlan serverId csrfToken"
| "request_of (RequestBbrEnableDryRun serverId csrfToken) = requestBbrEnableDryRun serverId csrfToken"
| "request_of (RequestBbrEnableRealExecution serverId csrfToken confirmationText) = requestBbrEnableRealExecution serverId csrfToken confirmationText"
| "request_of (CreateTransitWorkerBootstrap payload csrfToken) = createTransitWorkerBootstrap payload csrfToken"
| "request_of (CreateTransitResource payload csrfToken) = createTransitResource payload csrfToken"
| "request_of (RegenerateTransitWorkerBootstrap resourceId payload csrfToken) = regenerateTransitWorkerBootstrap resourceId payload csrfToken"
| "request_of (GenerateTransitWorkerInstallCommand resourceId payload csrfToken) = generateTransitWorkerInstallCommand resourceId payload csrfToken"
| "request_of (GetTransitWorkerAcceptance resourceId) = getTransitWorkerAcceptance resourceId"
| "request_of (GetTransitWorkerUpgradeAcceptance resourceId) = getTransitWorkerUpgradeAcceptance resourceId"
| "request_of GetProductOverview = getProductOverview"
| "request_of (RequestReadonlyPreflightPlan payload) = requestReadonlyPreflightPlan payload"
| "request_of (CreateTransitReadonlyPreflightCommand payload csrfToken) = createTransitReadonlyPreflightCommand payload csrfToken"
| "request_of (RequestTransitHaproxyReadinessApproval payload) = requestTransitHaproxyReadinessApproval payload"
| "request_of (CreateTransitHaproxyRouteDryRun payload csrfToken) = createTransitHaproxyRouteDryRun payload csrfToken"
| "request_of (RequestTransitHaproxyRouteFinalApproval payload csrfToken) = requestTransitHaproxyRouteFinalApproval payload csrfToken"
| "request_of (CreateTransitHaproxyRouteRealExecution payload csrfToken) = createTransitHaproxyRouteRealExecution payload csrfToken"
| "request_of (RequestTransitHaproxyRouteRealExecutionReadiness payload csrfToken) = requestTransitHaproxyRouteRealExecutionReadiness payload csrfToken"
| "request_of GetHaproxyRuntimeDebugContext = getHaproxyRuntimeDebugContext"
| "request_of (RequestProtectedResourceRegistrationDryRun payload csrfToken) = requestProtectedResourceRegistrationDryRun payload csrfToken"
| "request_of (RequestProtectedResourceRegistrationApprovalDryRun payload csrfToken) = requestProtectedResourceRegistrationApprovalDryRun payload csrfToken"
| "request_of (CreateProtectedResourceRegistrationCommand payload csrfToken) = createProtectedResourceRegistrationCommand payload csrfToken"
| "request_of (RunProtectedResourceRegistrationExecutionVerify payload csrfToken) = runProtectedResourceRegistrationExecutionVerify payload csrfToken"
| "request_of (CreateTransitRouteWorkerExecuteCommand payload csrfToken) = createTransitRouteWorkerExecuteCommand payload csrfToken"
| "request_of (GetWorkerCommand commandId) = getWorkerCommand commandId"
| "request_of (GetTransitRouteCandidateSummary routeId) = getTransitRouteCandidateSummary routeId"
| "request_of (ExportTransitRouteCandidate routeId payload csrfToken) = exportTransitRouteCandidate routeId payload csrfToken"
| "request_of (UpdateTransitRouteName routeId payload csrfToken) = updateTransitRouteName routeId payload csrfToken"
| "request_of (ExportNodeShareLink nodeId csrfToken reason) = exportNodeShareLink nodeId csrfToken reason"
| "request_of (DeleteTransitResource resourceId csrfToken) = deleteTransitResource resourceId csrfToken"
| "request_of (RemoteCleanupDeleteTransitResource resourceId csrfToken confirm) = remoteCleanupDeleteTransitResource resourceId csrfToken confirm"
| "request_of (DeleteVpsServer serverId csrfToken) = deleteVpsServer serverId csrfToken"
| "request_of (RemoteCleanupDeleteVpsServer serverId csrfToken confirm) = remoteCleanupDeleteVpsServer serverId csrfToken confirm"
| "request_of (DeleteNodeRecord nodeId csrfToken) = deleteNodeRecord nodeId csrfToken"
| "request_of (RemoteCleanupDeleteNode nodeId csrfToken confirm) = remoteCleanupDeleteNode nodeId csrfToken confirm"
| "request_of (DeleteTransitRoute routeId csrfToken) = deleteTransitRoute routeId csrfToken"
| "request_of (RemoteCleanupDeleteTransitRoute routeId csrfToken confirm) = remoteCleanupDeleteTransitRoute routeId csrfToken confirm"

text \<open>
  The specification of which calls authenticate themselves: the CSRF token among the arguments
  of a call, \<open>None\<close> for the readers and for the two planners that only validate a payload.
\<close>

fun csrf_token_of :: "api_call \<Rightarrow> jsstr option" where
  "csrf_token_of (CreateWorkerToken payload csrfToken) = Some csrfToken"
| "csrf_token_of (CreateWorkerCommand workerId payload csrfToken) = Some csrfToken"
| "csrf_token_of (CreateVpsWorkerBootstrap payload csrfToken) = Some csrfToken"
| "csrf_token_of (CreateLandingNodePlan serverId payload csrfToken) = Some csrfToken"
| "csrf_token_of (CreateLandingNodeExecution serverId payload csrfToken) = Some csrfToken"
| "csrf_token_of (RequestBbrEnablePlan serverId csrfToken) = Some csrfToken"
| "csrf_token_of (RequestBbrEnableDryRun serverId csrfToken) = Some csrfToken"
| "csrf_token_of (RequestBbrEnableRealExecution serverId csrfToken confirmationText) = Some csrfToken"
| "csrf_token_of (CreateTransitWorkerBootstrap payload csrfToken) = Some csrfToken"
| "csrf_token_of (CreateTransitResource payload csrfToken) = Some csrfToken"
| "csrf_token_of (RegenerateTransitWorkerBootstrap resourceId payload csrfToken) = Some csrfToken"
| "csrf_token_of (GenerateTransitWorkerInstallCommand resourceId payload csrfToken) = Some csrfToken"
| "csrf_token_of (CreateTransitReadonlyPreflightCommand payload csrfToken) = Some csrfToken"
| "csrf_token_of (CreateTransitHaproxyRouteDryRun payload csrfToken) = Some csrfToken"
| "csrf_token_of (RequestTransitHaproxyRouteFinalApproval payload csrfToken) = Some csrfToken"
| "csrf_token_of (CreateTransitHaproxyRouteRealExecution payload csrfToken) = Some csrfToken"
| "csrf_token_of (RequestTransitHaproxyRouteRealExecutionReadiness payload csrfToken) = Some csrfToken"
| "csrf_token_of (RequestProtectedResourceRegistrationDryRun payload csrfToken) = Some csrfToken"
| "csrf_token_of (RequestProtectedResourceRegistrationApprovalDryRun payload csrfToken) = Some csrfToken"
| "csrf_token_of (CreateProtectedResourceRegistrationCommand payload csrfToken) = Some csrfToken"
| "csrf_token_of (RunProtectedResourceRegistrationExecutionVerify payload csrfToken) = Some csrfToken"
| "csrf_token_of (CreateTransitRouteWorkerExecuteCommand payload csrfToken) = Some csrfToken"
| "csrf_token_of (ExportTransitRouteCandidate routeId payload csrfToken) = Some csrfToken"
| "csrf_token_of (UpdateTransitRouteName routeId payload csrfToken) = Some csrfToken"
| "csrf_token_of (ExportNodeShareLink nodeId csrfToken reason) = Some csrfToken"
| "csrf_token_of (DeleteTransitResource resourceId csrfToken) = Some csrfToken"
| "csrf_token_of (RemoteCleanupDeleteTransitResource resourceId csrfToken confirm) = Some csrfToken"
| "csrf_token_of (DeleteVpsServer serverId csrfToken) = Some csrfToken"
| "csrf_token_of (RemoteCleanupDeleteVpsServer serverId csrfToken confirm) = Some csrfToken"
| "csrf_token_of (DeleteNodeRecord nodeId csrfToken) = Some csrfToken"
| "csrf_token_of (RemoteCleanupDeleteNode nodeId csrfToken confirm) = Some csrfToken"
| "csrf_token_of (DeleteTransitRoute routeId csrfToken) = Some csrfToken"
| "csrf_token_of (RemoteCleanupDeleteTransitRoute routeId csrfToken confirm) = Some csrfToken"
| "csrf_token_of c = None"

lemmas api_request_defs =
  createWorkerToken_def
  createWorkerCommand_def
  listWorkerCommands_def
  createVpsWorkerBootstrap_def
  createLandingNodePlan_def
  createLandingNodeExecution_def
  requestBbrEnablePlan_def
  requestBbrEnableDryRun_def
  requestBbrEnableRealExecution_def
  createTransitWorkerBootstrap_def
  createTransitResource_def
  regenerateTransitWorkerBootstrap_def
  generateTransitWorkerInstallCommand_def
  getTransitWorkerAcceptance_def
  getTransitWorkerUpgradeAcceptance_def
  getProductOverview_def
  requestReadonlyPreflightPlan_def
  createTransitReadonlyPreflightCommand_def
  requestTransitHaproxyReadinessApproval_def
  createTransitHaproxyRouteDryRun_def
  requestTransitHaproxyRouteFinalApproval_def
  createTransitHaproxyRouteRealExecution_def
  requestTransitHaproxyRouteRealExecutionReadiness_def
  getHaproxyRuntimeDebugContext_def
  requestProtectedResourceRegistrationDryRun_def
  requestProtectedResourceRegistrationApprovalDryRun_def
  createProtectedResourceRegistrationCommand_def
  runProtectedResourceRegistrationExecutionVerify_def
  createTransitRouteWorkerExecuteCommand_def
  getWorkerCommand_def
  getTransitRouteCandidateSummary_def
  exportTransitRouteCandidate_def
  updateTransitRouteName_def
  exportNodeShareLink_def
  deleteTransitResource_def
  remoteCleanupDeleteTransitResource_def
  deleteVpsServer_def
  remoteCleanupDeleteVpsServer_def
  deleteNodeRecord_def
  remoteCleanupDeleteNode_def
  deleteTransitRoute_def
  remoteCleanupDeleteTransitRoute_def

subsection \<open>apiFetch\<close>

record fetch_call =
  fc_url :: jsstr
  fc_method :: "jsstr option"
  fc_credentials :: jsstr
  fc_headers :: "(jsstr \<times> jsstr) list"
  fc_body :: "jsval option"

text \<open>\<^verbatim>\<open>{...a, ...b}\<close>: the entries of \<open>a\<close> in place, overridden and then extended by \<open>b\<close>.\<close>

definition spread :: "(jsstr \<times> 'a) list \<Rightarrow> (jsstr \<times> 'a) list \<Rightarrow> (jsstr \<times> 'a) list" where
  "spread a b =
     map (\<lambda>(k, v). (k, case map_of b k of Some w \<Rightarrow> w | None \<Rightarrow> v)) a
     @ List.filter (\<lambda>(k, v). k \<notin> fst ` set a) b"

lemma map_of_filter_keys:
  "map_of (List.filter (\<lambda>(k, v). k \<notin> S) b) k = (if k \<in> S then None else map_of b k)"
  by (induction b) auto

lemma map_of_spread [simp]: "map_of (spread a b) k = (map_of a ++ map_of b) k"
proof -
  have 1: "map_of (map (\<lambda>(k, v). (k, case map_of b k of Some w \<Rightarrow> w | None \<Rightarrow> v)) xs) k =
      (case map_of xs k of None \<Rightarrow> None
       | Some v \<Rightarrow> Some (case map_of b k of Some w \<Rightarrow> w | None \<Rightarrow> v))" for xs
    by (induction xs) (auto split: option.splits)
  have 2: "map_of a k = None \<longleftrightarrow> k \<notin> fst ` set a"
    by (auto simp: map_of_eq_None_iff)
  show ?thesis
    unfolding spread_def map_of_append map_add_def map_of_filter_keys 1
    using 2 by (auto split: option.splits)
qed

definition API_BASE_URL :: "jsstr option \<Rightarrow> jsstr" where
  "API_BASE_URL env = nullish env (js ''http://localhost:8000'')"

definition notifyAuthExpired :: "bool \<Rightarrow> jsstr \<Rightarrow> int \<Rightarrow> bool" where
  "notifyAuthExpired has_window path status \<longleftrightarrow>
     has_window \<and> status = 401 \<and> \<not> starts_with path (js ''/api/auth/'')"

definition apiFetch_call :: "jsstr option \<Rightarrow> api_request \<Rightarrow> fetch_call" where
  "apiFetch_call env r =
     \<lparr>fc_url = API_BASE_URL env @ req_path r,
      fc_method = req_method r,
      fc_credentials = (js ''include''),
      fc_headers = spread [((js ''Content-Type''), (js ''application/json''))] (req_headers r),
      fc_body = req_body r\<rparr>"

text \<open>
  The whole of \<^verbatim>\<open>apiFetch\<close>: the transport (the browser's \<^verbatim>\<open>fetch\<close>, a parameter) answers
  with a status and a body or throws; the result pairs the settled promise with the event.
\<close>

definition apiFetch ::
  "jsstr option \<Rightarrow> bool \<Rightarrow> (fetch_call \<Rightarrow> (int \<times> jsval) settled) \<Rightarrow> api_request
   \<Rightarrow> jsval settled \<times> bool" where
  "apiFetch env has_window transport r =
     (case transport (apiFetch_call env r) of
        Rejected e \<Rightarrow> (Rejected e, False)
      | Resolved (status, body) \<Rightarrow>
          (Resolved body, notifyAuthExpired has_window (req_path r) status))"

text \<open>\<^verbatim>\<open>ensureCsrfToken\<close> of the panels: the token, or the exception that carries the message.\<close>

definition csrf_request :: api_request where
  "csrf_request = get_request (js ''/api/auth/csrf'')"

fun ensureCsrfToken :: "jsstr api_response settled \<Rightarrow> jsstr settled" where
  "ensureCsrfToken (Rejected e) = Rejected e"
| "ensureCsrfToken (Resolved (ApiFailure c m d)) = Rejected (Some m)"
| "ensureCsrfToken (Resolved (ApiSuccess token m)) = Resolved token"

subsection \<open>Properties\<close>

text \<open>
  Whatever call the console makes, the request that reaches the browser carries the CSRF
  token of the call in \<^verbatim>\<open>X-CSRF-Token\<close> exactly when the call takes one, always announces a
  JSON body, and always sends the session cookie.
\<close>

theorem api_call_headers:
  "map_of (fc_headers (apiFetch_call env (request_of c))) (js ''X-CSRF-Token'') = csrf_token_of c
   \<and> map_of (fc_headers (apiFetch_call env (request_of c))) (js ''Content-Type'') = Some (js ''application/json'')
   \<and> fc_credentials (apiFetch_call env (request_of c)) = (js ''include'')"
  by (cases c) (simp_all add: apiFetch_call_def api_request_defs map_add_def)

text \<open>
  The calls with a method and no token are the two planners that only validate a payload.
\<close>

fun readonly_planner :: "api_call \<Rightarrow> bool" where
  "readonly_planner (RequestReadonlyPreflightPlan p) = True"
| "readonly_planner (RequestTransitHaproxyReadinessApproval p) = True"
| "readonly_planner c = False"


end
