(* ===== verification/Redaction.thy ===== *)
theory Redaction
  imports JsValue
begin

text \<open>
  The contract of a redactor: a function applied to a value of unknown shape before the
  console shows or copies it. Two components provide one
  (\<^verbatim>\<open>redactDebugJson\<close> of the debug panel and \<^verbatim>\<open>sanitizeValue\<close> of the task
  history); each is interpreted in its own theory.
\<close>

text \<open>
  \<open>clean\<close>: nothing but a marker stands under a secret key, and no string leaks. Markers
  are the texts the redactor writes itself.
\<close>

fun clean :: "(jsstr \<Rightarrow> bool) \<Rightarrow> jsstr set \<Rightarrow> (jsstr \<Rightarrow> bool) \<Rightarrow> jsval \<Rightarrow> bool" where
  "clean secret markers leak (JStr s) = (\<not> leak s)"
| "clean secret markers leak (JArr xs) = list_all (clean secret markers leak) xs"
| "clean secret markers leak (JObj kvs) =
     list_all (\<lambda>kv. if secret (fst kv) then snd kv \<in> JStr ` markers
                    else clean secret markers leak (snd kv)) kvs"
| "clean secret markers leak v = True"

locale json_redactor =
  fixes red :: "jsval \<Rightarrow> jsval"
    and secret :: "jsstr \<Rightarrow> bool"
    and markers :: "jsstr set"
    and leak :: "jsstr \<Rightarrow> bool"
  assumes red_clean: "clean secret markers leak (red v)"
    and markers_safe: "m \<in> markers \<Longrightarrow> \<not> leak m"
begin

lemma clean_subval:
  "subval w v \<Longrightarrow> clean secret markers leak v \<Longrightarrow> clean secret markers leak w"
proof (induction rule: subval.induct)
  case (item x xs v)
  then show ?case by (simp add: list_all_iff)
next
  case (member k x kvs v)
  have "clean secret markers leak x"
    using member.prems member.hyps(1) markers_safe
    by (auto simp: list_all_iff split: if_splits dest!: bspec)
  then show ?case by (rule member.IH)
qed

text \<open>No string anywhere in the output leaks, however deep it sits.\<close>

lemma no_leak: "subval (JStr s) (red v) \<Longrightarrow> \<not> leak s"
  using clean_subval [OF _ red_clean] by fastforce

text \<open>Under a secret key there is a marker and nothing else, in every object of the output.\<close>

lemma secret_masked:
  assumes "subval (JObj kvs) (red v)" and "(k, x) \<in> set kvs" and "secret k"
  shows "x \<in> JStr ` markers"
  using clean_subval [OF assms(1) red_clean] assms(2,3)
  by (auto simp: list_all_iff dest!: bspec)

end

end
