(* ===== verification/TaskHistory.thy ===== *)
theory TaskHistory
  imports ApiClient Redaction
begin

text \<open>
  \<^verbatim>\<open>frontend/components/TaskHistoryPanel.tsx\<close>: labels and categories of tasks, the
  redaction of task results and logs, the failure summary, the filter of the task list, and the
  panel's state with its two loaders. The rendering is not modelled; \<^verbatim>\<open>toLocaleString\<close> of
  a date is not either.
\<close>

subsection \<open>Labels and categories\<close>

definition terminalStatuses :: "jsstr list" where
  "terminalStatuses = [(js ''success''), (js ''completed''), (js ''failed''), (js ''cancelled''), (js ''timeout'')]"

datatype task_category = CatAll | CatCreate | CatCheck | CatFailed

definition taskCategories :: "(jsstr \<times> task_category) list" where
  "taskCategories =
     [((uni ''%u5168%u90E8%u4EFB%u52A1''), CatAll), ((uni ''%u521B%u5EFA%u4EFB%u52A1''), CatCreate), ((uni ''%u68C0%u6D4B%u4EFB%u52A1''), CatCheck), ((uni ''%u5931%u8D25%u4EFB%u52A1''), CatFailed)]"

definition shortId :: "jsstr \<Rightarrow> jsstr" where
  "shortId i =
     (if length i > 12 then take 8 i @ (js ''...'') @ drop (length i - 4) i else i)"

definition statusClass :: "jsstr \<Rightarrow> jsstr" where
  "statusClass status =
     (if status = (js ''success'') \<or> status = (js ''completed'') then (js ''success'')
      else if status \<in> set terminalStatuses then (js ''danger'')
      else (js ''warning''))"

definition statusLabel :: "jsstr \<Rightarrow> jsstr" where
  "statusLabel status = nullish (map_of
     [((js ''pending''), (uni ''%u7B49%u5F85%u4E2D'')), ((js ''running''), (uni ''%u8FD0%u884C%u4E2D'')), ((js ''success''), (uni ''%u6210%u529F'')), ((js ''completed''), (uni ''%u6210%u529F'')),
      ((js ''failed''), (uni ''%u5931%u8D25'')), ((js ''cancelled''), (uni ''%u5DF2%u53D6%u6D88'')), ((js ''timeout''), (uni ''%u8D85%u65F6'')), ((js ''unknown''), (uni ''%u672A%u77E5''))] status)
     status"

definition businessTaskName :: "jsstr \<Rightarrow> jsstr" where
  "businessTaskName taskType = nullish (map_of
     [((js ''landing_node_create''), (uni ''%u521B%u5EFA%u76F4%u8FDE%u8282%u70B9'')),
      ((js ''transit_route_create''), (uni ''%u521B%u5EFA%u4E2D%u8F6C%u7EBF%u8DEF'')),
      ((js ''cleanup_landing_node''), (uni ''%u5220%u9664%u8282%u70B9'')),
      ((js ''cleanup_landing_server''), (uni ''%u6E05%u7406%u843D%u5730%u670D%u52A1%u5668'')),
      ((js ''cleanup_transit_route''), (uni ''%u6E05%u7406%u4E2D%u8F6C%u7EBF%u8DEF'')),
      ((js ''cleanup_transit_resource''), (uni ''%u6E05%u7406%u4E2D%u8F6C%u670D%u52A1%u5668'')),
      ((js ''bbr_enable_dry_run''), (uni ''%u7F51%u7EDC%u52A0%u901F%u8BD5%u8FD0%u884C'')),
      ((js ''bbr_enable_real_execution''), (uni ''%u542F%u7528%u7F51%u7EDC%u52A0%u901F'')),
      ((js ''landing_preflight''), (uni ''%u521B%u5EFA%u524D%u68C0%u67E5'')),
      ((js ''transit_readonly_preflight''), (uni ''%u4E2D%u8F6C%u521B%u5EFA%u524D%u68C0%u67E5'')),
      ((js ''collect_status''), (uni ''%u8BFB%u53D6%u670D%u52A1%u5668%u72B6%u6001'')),
      ((js ''service_status''), (uni ''%u8BFB%u53D6%u670D%u52A1%u72B6%u6001''))] taskType) (uni ''%u7CFB%u7EDF%u4EFB%u52A1'')"

definition categoryForTask :: "jsstr \<Rightarrow> task_category" where
  "categoryForTask taskType =
     (if contains_any (fold_case taskType) [(js ''create''), (js ''install''), (js ''enable'')] then CatCreate
      else if contains_any (fold_case taskType) [(js ''preflight''), (js ''status''), (js ''check''), (js ''read'')] then CatCheck
      else CatCheck)"

definition relatedObject :: "task_data \<Rightarrow> jsstr" where
  "relatedObject task =
     (case tk_node_id task of
        Some n \<Rightarrow> if n \<noteq> [] then (uni ''%u8282%u70B9 '') @ shortId n
                  else (case tk_vps_id task of
                          Some v \<Rightarrow> if v \<noteq> [] then (uni ''%u670D%u52A1%u5668 '') @ shortId v else (uni ''%u672C%u5730%u7CFB%u7EDF'')
                        | None \<Rightarrow> (uni ''%u672C%u5730%u7CFB%u7EDF''))
      | None \<Rightarrow> (case tk_vps_id task of
                    Some v \<Rightarrow> if v \<noteq> [] then (uni ''%u670D%u52A1%u5668 '') @ shortId v else (uni ''%u672C%u5730%u7CFB%u7EDF'')
                  | None \<Rightarrow> (uni ''%u672C%u5730%u7CFB%u7EDF'')))"

subsection \<open>Redaction\<close>

text \<open>
  \<^verbatim>\<open>secretKeyPattern\<close>, \<^verbatim>\<open>linkPattern\<close> and \<^verbatim>\<open>privateKeyPattern\<close>, each as the list of the
  literals its alternation matches.
\<close>

definition secret_key_words :: "jsstr list" where
  "secret_key_words =
     [(js ''private''), (js ''private_key''), (js ''passphrase''), (js ''password''), (js ''passwd''), (js ''secret''), (js ''token''), (js ''cookie''),
      (js ''session''), (js ''admin_password_hash''), (js ''ssh_key'')]"

definition secretKeyPattern :: "jsstr \<Rightarrow> bool" where
  "secretKeyPattern k \<longleftrightarrow> contains_any (fold_case k) secret_key_words"

definition link_schemes :: "jsstr list" where
  "link_schemes = [(js ''vless''), (js ''vmess''), (js ''trojan''), (js ''ss'')]"

text \<open>\<^verbatim>\<open>value.match(linkPattern)\<close>: the captured scheme of the leftmost match.\<close>

fun match_link :: "jsstr \<Rightarrow> jsstr option" where
  "match_link [] = None"
| "match_link (c # s) =
     (case List.find (\<lambda>p. starts_with (fold_case (c # s)) (p @ (js ''://''))) link_schemes of
        Some p \<Rightarrow> Some (take (length p) (c # s))
      | None \<Rightarrow> match_link s)"

definition linkPattern :: "jsstr \<Rightarrow> bool" where
  "linkPattern s \<longleftrightarrow> match_link s \<noteq> None"

definition private_key_texts :: "jsstr list" where
  "private_key_texts =
     [(js ''begin private key''), (js ''begin  private key''),
      (js ''begin opensshprivate key''), (js ''begin openssh private key''),
      (js ''begin rsaprivate key''), (js ''begin rsa private key''),
      (js ''begin ecprivate key''), (js ''begin ec private key''),
      (js ''begin dsaprivate key''), (js ''begin dsa private key'')]"

definition privateKeyPattern :: "jsstr \<Rightarrow> bool" where
  "privateKeyPattern s \<longleftrightarrow> contains_any (fold_case s) private_key_texts"

definition redactString :: "jsstr \<Rightarrow> jsstr" where
  "redactString s =
     (if privateKeyPattern s then (js ''[redacted private key]'')
      else if linkPattern s then
        (js ''[redacted '') @ nullish (match_link s) (js ''node'') @ (js '' link]'')
      else if length s > 180 then take 140 s @ (js ''... [truncated]'')
      else s)"

function (sequential) sanitizeValue :: "jsval \<Rightarrow> jsstr \<Rightarrow> nat \<Rightarrow> jsval" where
  "sanitizeValue v key d =
     (if secretKeyPattern key then JStr (js ''[redacted]'')
      else (case v of
          JUndef \<Rightarrow> JUndef
        | JNull \<Rightarrow> JNull
        | JStr s \<Rightarrow> JStr (redactString s)
        | JNum n \<Rightarrow> JNum n
        | JBool b \<Rightarrow> JBool b
        | JArr xs \<Rightarrow>
            if d \<ge> 4 then JStr (js ''[nested data truncated]'')
            else (let visible = map (\<lambda>x. sanitizeValue x key (d + 1)) (take 8 xs)
                  in JArr (if length xs > 8
                           then visible @ [JStr ((js ''['') @ string_of_int (int (length xs) - 8)
                                                  @ (js '' more item(s) truncated]''))]
                           else visible))
        | JObj kvs \<Rightarrow>
            if d \<ge> 4 then JStr (js ''[nested data truncated]'')
            else JObj (map (\<lambda>(k, x). (k, sanitizeValue x k (d + 1))) kvs)))"
  by pat_completeness auto
termination
  by (relation "measure (\<lambda>(v, key, d). 4 - d)") auto

declare sanitizeValue.simps [simp del]


subsection \<open>Failure summaries and advice\<close>

definition taskFailureSummary :: "task_data \<Rightarrow> jsstr" where
  "taskFailureSummary task =
     (if tk_status task \<noteq> (js ''failed'') \<and> blank (tk_error_code task) \<and> blank (tk_error_message task)
      then (uni ''%u65E0%u5931%u8D25%u4FE1%u606F%u3002'')
      else let source = to_lower (nullish (tk_error_code task) [] @ (js '' '')
                 @ nullish (tk_error_message task) [] @ (js '' '') @ nullish (tk_current_step task) [])
      in if contains_any source [(js ''ssh''), (js ''banner''), (js ''authentication'')] then (uni ''%u670D%u52A1%u5668%u767B%u5F55%u8FDE%u63A5%u5931%u8D25%u3002'')
      else if contains_any source [(js ''port''), (js ''listen''), (js ''listening'')]
        then (uni ''%u7AEF%u53E3%u76D1%u542C%u3001%u7AEF%u53E3%u5360%u7528%u6216%u76D1%u542C%u9A8C%u8BC1%u5F02%u5E38%u3002'')
      else if contains_any source [(js ''process''), (js ''service''), (js ''systemd'')] then (uni ''%u670D%u52A1%u5668%u670D%u52A1%u72B6%u6001%u5F02%u5E38%u3002'')
      else if contains_any source [(js ''health'')] then (uni ''%u7CFB%u7EDF%u5065%u5EB7%u68C0%u67E5%u5F02%u5E38%u3002'')
      else if contains_any source [(js ''auth''), (js ''csrf''), (js ''login'')] then (uni ''%u767B%u5F55%u72B6%u6001%u6216%u5B89%u5168%u6821%u9A8C%u5F02%u5E38%u3002'')
      else if contains_any source [(js ''required''), (js ''missing''), (js ''invalid'')]
        then (uni ''%u53C2%u6570%u7F3A%u5931%u6216%u53C2%u6570%u683C%u5F0F%u4E0D%u7B26%u5408%u8981%u6C42%u3002'')
      else (case tk_error_message task of
              Some m \<Rightarrow> if m \<noteq> [] then redactString m else (uni ''%u672A%u77E5%u9519%u8BEF%u3002'')
            | None \<Rightarrow> (uni ''%u672A%u77E5%u9519%u8BEF%u3002'')))"

definition resultAdvice :: "task_data \<Rightarrow> jsstr" where
  "resultAdvice task =
     (if tk_status task = (js ''success'') \<or> tk_status task = (js ''completed'') then (uni ''%u4EFB%u52A1%u5DF2%u5B8C%u6210%u3002'')
      else if tk_status task = (js ''pending'') \<or> tk_status task = (js ''running'') then (uni ''%u4EFB%u52A1%u6B63%u5728%u5904%u7406%u4E2D%u3002'')
      else let failure = taskFailureSummary task
      in if contains_any failure [(uni ''%u7AEF%u53E3''), (uni ''%u76D1%u542C'')]
         then (uni ''%u521B%u5EFA%u5931%u8D25%uFF1A%u7AEF%u53E3%u672A%u901A%u8FC7%u68C0%u6D4B%u3002%u5EFA%u8BAE%uFF1A%u68C0%u67E5%u4E91%u5B89%u5168%u7EC4%u3001%u4E91%u9632%u706B%u5899%u3001%u670D%u52A1%u5668%u9632%u706B%u5899%u662F%u5426%u653E%u884C%u3002'')
         else failure)"

text \<open>The value that \<^verbatim>\<open>resultSummary\<close> prints, \<open>None\<close> for its text for a missing result.\<close>

definition resultSummary :: "task_data \<Rightarrow> jsval option" where
  "resultSummary task =
     (case tk_result_data task of
        None \<Rightarrow> None
      | Some v \<Rightarrow> if truthy v then Some (sanitizeValue v [] 0) else None)"

definition logOutput :: "task_log_data \<Rightarrow> jsstr option" where
  "logOutput log =
     (if blank (tlog_raw_output log) then None
      else map_option redactString (tlog_raw_output log))"

subsection \<open>The panel: state, loaders, filter\<close>

record task_panel =
  tp_tasks :: "task_data list"
  tp_selectedTaskId :: "jsstr option"
  tp_logs :: "task_log_data list"
  tp_category :: task_category
  tp_statusFilter :: jsstr
  tp_typeFilter :: jsstr
  tp_search :: jsstr
  tp_showMoreFilters :: bool
  tp_dateRange :: jsstr
  tp_startDate :: jsstr
  tp_endDate :: jsstr
  tp_message :: jsstr
  tp_loading :: bool

definition initial_task_panel :: task_panel where
  "initial_task_panel =
     \<lparr>tp_tasks = [], tp_selectedTaskId = None, tp_logs = [], tp_category = CatAll,
      tp_statusFilter = (js ''all''), tp_typeFilter = (js ''all''), tp_search = [], tp_showMoreFilters = False,
      tp_dateRange = (uni ''%u5168%u90E8%u65E5%u671F''), tp_startDate = [], tp_endDate = [],
      tp_message = (uni ''%u6B63%u5728%u8BFB%u53D6%u672C%u5730%u4EFB%u52A1%u8BB0%u5F55%u3002''), tp_loading = False\<rparr>"

definition selectedTask :: "task_panel \<Rightarrow> task_data option" where
  "selectedTask p =
     (case find_opt (\<lambda>t. Some (tk_id t) = tp_selectedTaskId p) (tp_tasks p) of
        Some t \<Rightarrow> Some t
      | None \<Rightarrow> (case tp_tasks p of t # ts \<Rightarrow> Some t | [] \<Rightarrow> None))"

text \<open>
  \<^verbatim>\<open>loadTasks\<close> before and after its await; \<open>captured\<close> is the panel of the render that
  created the handler, whose \<^verbatim>\<open>selectedTaskId\<close> the closure keeps.
\<close>

definition loadTasks_request :: api_request where
  "loadTasks_request = get_request (js ''/api/tasks?limit=30'')"

definition loadTasks_start :: "task_panel \<Rightarrow> task_panel" where
  "loadTasks_start p = p\<lparr>tp_loading := True\<rparr>"

definition loadTasks_done ::
  "task_panel \<Rightarrow> jsstr option \<Rightarrow> task_data list api_response settled \<Rightarrow> task_panel \<Rightarrow> task_panel" where
  "loadTasks_done captured nextSelectedId r p =
     (case r of
        Resolved (ApiFailure c m d) \<Rightarrow> p\<lparr>tp_message := m\<rparr>
      | Resolved (ApiSuccess tasks m) \<Rightarrow>
          p\<lparr>tp_tasks := tasks,
            tp_selectedTaskId :=
              (case nextSelectedId of Some i \<Rightarrow> Some i
               | None \<Rightarrow> (case tp_selectedTaskId captured of Some i \<Rightarrow> Some i
                  | None \<Rightarrow> (case tasks of t # ts \<Rightarrow> Some (tk_id t) | [] \<Rightarrow> None))),
            tp_message := (if length tasks > 0 then (uni ''%u4EFB%u52A1%u8BB0%u5F55%u5DF2%u5237%u65B0%u3002'') else (uni ''%u5F53%u524D%u6CA1%u6709%u4EFB%u52A1%u8BB0%u5F55%u3002''))\<rparr>
      | Rejected e \<Rightarrow> p\<lparr>tp_message := (uni ''%u65E0%u6CD5%u8BFB%u53D6%u4EFB%u52A1%u8BB0%u5F55%u3002'')\<rparr>)\<lparr>tp_loading := False\<rparr>"

definition loadLogs_request :: "jsstr \<Rightarrow> api_request" where
  "loadLogs_request taskId = get_request ((js ''/api/tasks/'') @ taskId @ (js ''/logs''))"

definition loadLogs_done :: "task_log_data list api_response \<Rightarrow> task_panel \<Rightarrow> task_panel" where
  "loadLogs_done r p =
     (case r of
        ApiSuccess logs m \<Rightarrow> p\<lparr>tp_logs := logs\<rparr>
      | ApiFailure c m d \<Rightarrow> p\<lparr>tp_logs := [], tp_message := m\<rparr>)"

definition task_matches :: "task_panel \<Rightarrow> task_data \<Rightarrow> bool" where
  "task_matches p task =
     (let categoryMatches = (tp_category p = CatAll \<or> tp_category p = CatFailed
              \<or> categoryForTask (tk_task_type task) = tp_category p);
          failedMatches = (tp_category p \<noteq> CatFailed
              \<or> tk_status task = (js ''failed'') \<or> tk_status task = (js ''timeout''));
          statusMatches = (tp_statusFilter p = (js ''all'') \<or> tk_status task = tp_statusFilter p);
          typeMatches = (tp_typeFilter p = (js ''all'') \<or> tk_task_type task = tp_typeFilter p);
          keyword = to_lower (trim (tp_search p));
          searchMatches = (keyword = []
              \<or> contains (to_lower (businessTaskName (tk_task_type task) @ (js '' '')
                    @ relatedObject task @ (js '' '') @ resultAdvice task)) keyword)
      in categoryMatches \<and> failedMatches \<and> statusMatches \<and> typeMatches \<and> searchMatches)"

definition filteredTasks :: "task_panel \<Rightarrow> task_data list" where
  "filteredTasks p = List.filter (task_matches p) (tp_tasks p)"


subsection \<open>The patterns as keyword searches\<close>

lemma match_link_None_iff:
  "match_link s = None \<longleftrightarrow> \<not> contains_any (fold_case s) (map (\<lambda>p. p @ (js ''://'')) link_schemes)"
proof (induction s)
  case Nil
  show ?case
    by (simp add: contains_any_def link_schemes_def fold_case_def)
next
  case (Cons c s)
  have "List.find (\<lambda>p. starts_with (fold_case (c # s)) (p @ (js ''://''))) link_schemes = None
    \<longleftrightarrow> (\<forall>p \<in> set link_schemes. \<not> starts_with (fold_case (c # s)) (p @ (js ''://'')))"
    by (auto simp: find_None_iff)
  with Cons show ?case
    by (auto simp: contains_any_iff fold_case_def split: option.splits)
qed

lemma linkPattern_iff:
  "linkPattern s \<longleftrightarrow> contains_any (fold_case s) (map (\<lambda>p. p @ (js ''://'')) link_schemes)"
  using match_link_None_iff by (simp add: linkPattern_def)

lemma match_link_scheme: "match_link s = Some p \<Longrightarrow> fold_case p \<in> set link_schemes"
proof (induction s)
  case (Cons c s)
  show ?case
  proof (cases "List.find (\<lambda>p. starts_with (fold_case (c # s)) (p @ (js ''://''))) link_schemes")
    case None
    with Cons show ?thesis by simp
  next
    case (Some q)
    then have q: "q \<in> set link_schemes" "starts_with (fold_case (c # s)) (q @ (js ''://''))"
      by (auto simp: find_Some_iff)
    from q(2) have "take (length q) (fold_case (c # s)) = q"
      by (auto simp: starts_with_iff)
    with q(1) Some Cons.prems show ?thesis by simp (metis fold_case_take)
  qed
qed simp

lemma fold_case_Nil [simp]: "fold_case [] = []"
  by (simp add: fold_case_def)

lemma fold_case_Cons: "fold_case (c # s) = (if 65 \<le> c \<and> c \<le> 90 then c + 32 else c) # fold_case s"
  by (simp add: fold_case_def)

lemma no_link_without_slash: "47 \<notin> set (fold_case s) \<Longrightarrow> \<not> linkPattern s"
  unfolding linkPattern_iff contains_any_iff
  by (fastforce dest: contains_last_mem simp: js_def)

lemma no_private_key_without_y: "121 \<notin> set (fold_case s) \<Longrightarrow> \<not> privateKeyPattern s"
  unfolding privateKeyPattern_def contains_any_iff private_key_texts_def
  by (auto simp: js_def dest: contains_last_mem)

lemma linkPattern_take: "linkPattern (take n s) \<Longrightarrow> linkPattern s"
  unfolding linkPattern_iff contains_any_iff by (auto dest: contains_take)

lemma privateKeyPattern_take: "privateKeyPattern (take n s) \<Longrightarrow> privateKeyPattern s"
  unfolding privateKeyPattern_def contains_any_iff by (auto dest: contains_take)

lemma linkPattern_suffix:
  "linkPattern (s @ t) \<Longrightarrow> 47 \<notin> set (fold_case t) \<Longrightarrow> linkPattern s"
  unfolding linkPattern_iff contains_any_iff
  by (fastforce dest: contains_append_last simp: js_def)

lemma privateKeyPattern_suffix:
  "privateKeyPattern (s @ t) \<Longrightarrow> 121 \<notin> set (fold_case t) \<Longrightarrow> privateKeyPattern s"
  unfolding privateKeyPattern_def contains_any_iff private_key_texts_def
  by (auto simp: js_def dest: contains_append_last)

text \<open>A string the history may show: no node link and no private key header.\<close>

definition sensitive :: "jsstr \<Rightarrow> bool" where
  "sensitive s \<longleftrightarrow> linkPattern s \<or> privateKeyPattern s"

lemma not_sensitiveI:
  "47 \<notin> set (fold_case s) \<Longrightarrow> 121 \<notin> set (fold_case s) \<Longrightarrow> \<not> sensitive s"
  by (simp add: sensitive_def no_link_without_slash no_private_key_without_y)

lemma marker_not_sensitive: "\<not> sensitive (js ''[redacted private key]'')" "\<not> sensitive (js ''[redacted]'')"
  "\<not> sensitive (js ''[nested data truncated]'')"
proof -
  show "\<not> sensitive (js ''[redacted private key]'')"
    by (simp add: sensitive_def no_link_without_slash privateKeyPattern_def private_key_texts_def
        contains_any_def js_def fold_case_def)
qed (rule not_sensitiveI; simp add: js_def fold_case_def)+

lemma link_marker_not_sensitive:
  assumes "match_link s = Some p"
  shows "\<not> sensitive ((js ''[redacted '') @ p @ (js '' link]'')) \<and> length p \<le> 6"
proof -
  have "\<forall>q \<in> set link_schemes. 47 \<notin> set q \<and> 121 \<notin> set q \<and> length q \<le> 6"
    by (simp add: link_schemes_def js_def)
  with match_link_scheme [OF assms]
  have "47 \<notin> set (fold_case p)" "121 \<notin> set (fold_case p)" "length (fold_case p) \<le> 6"
    by blast+
  then show ?thesis
    by (intro conjI not_sensitiveI) (simp_all add: js_def fold_case_Cons)
qed

lemma redactString_safe: "\<not> sensitive (redactString s) \<and> length (redactString s) \<le> 180"
proof -
  consider (key) "privateKeyPattern s" | (link) p where "\<not> privateKeyPattern s" "match_link s = Some p"
    | (plain) "\<not> sensitive s"
    by (cases "match_link s") (auto simp: sensitive_def linkPattern_def)
  then show ?thesis
  proof cases
    case key
    then show ?thesis by (simp add: redactString_def marker_not_sensitive)
  next
    case link
    with link_marker_not_sensitive [OF link(2)] show ?thesis
      by (simp add: redactString_def linkPattern_def)
  next
    case plain
    have t: "47 \<notin> set (fold_case (js ''... [truncated]''))" "121 \<notin> set (fold_case (js ''... [truncated]''))"
      by (simp_all add: js_def fold_case_def)
    have "\<not> sensitive (take 140 s @ (js ''... [truncated]''))"
      using plain t linkPattern_suffix [of "take 140 s"] privateKeyPattern_suffix [of "take 140 s"]
      by (auto simp: sensitive_def dest: linkPattern_take privateKeyPattern_take)
    with plain show ?thesis
      by (simp add: redactString_def sensitive_def)
  qed
qed


lemma set_digits_of: "c \<in> set (digits_of n) \<Longrightarrow> is_digit c"
  using digits_of_all_digit [of n] by (simp add: list_all_iff)

lemma fold_case_digits_of [simp]: "fold_case (digits_of n) = digits_of n"
  unfolding fold_case_def
  by (rule map_idI) (auto dest!: set_digits_of simp: is_digit_iff word_le_nat_alt)

lemma truncation_note_not_sensitive:
  "\<not> sensitive ((js ''['') @ string_of_int (int n - 8) @ (js '' more item(s) truncated]''))" if "n > 8"
proof -
  have "47 \<notin> set (digits_of m) \<and> 121 \<notin> set (digits_of m)" for m
    by (auto dest: set_digits_of simp: is_digit_def)
  then show ?thesis
    using that by (intro not_sensitiveI) (simp_all add: js_def fold_case_Cons string_of_int_def)
qed

subsection \<open>The history as a redactor\<close>

lemma sanitizeValue_clean:
  "secretKeyPattern k \<or> clean secretKeyPattern {(js ''[redacted]'')} sensitive (sanitizeValue v k d)"
proof (induction v k d rule: sanitizeValue.induct)
  case (1 v key d)
  note unfold = sanitizeValue.simps [of v key d]
  show ?case
  proof (cases v)
    case (JStr s)
    then show ?thesis using redactString_safe unfold by simp
  next
    case (JArr xs)
    then show ?thesis
      using 1(1) [OF _ JArr] unfold
      by (auto simp: list_all_iff Let_def marker_not_sensitive truncation_note_not_sensitive)
  next
    case (JObj kvs)
    have "secretKeyPattern k \<longrightarrow> sanitizeValue x k (d + 1) = JStr (js ''[redacted]'')" for k x
      by (simp add: sanitizeValue.simps)
    then show ?thesis
      using 1(2) [OF _ JObj] unfold JObj
      by (fastforce simp: list_all_iff marker_not_sensitive split: if_splits)
  qed (use unfold in simp_all)
qed

interpretation history: json_redactor "\<lambda>v. sanitizeValue v [] 0" secretKeyPattern
    "{(js ''[redacted]'')}" sensitive
proof
  show "clean secretKeyPattern {(js ''[redacted]'')} sensitive (sanitizeValue v [] 0)" for v
    using sanitizeValue_clean [of "[]" v 0]
    by (simp add: secretKeyPattern_def contains_any_def secret_key_words_def fold_case_def)
qed (simp add: marker_not_sensitive)


subsection \<open>Properties\<close>

text \<open>
  C36. Whatever a task result contains, no string in the summary
  shown for it, at any depth, holds a node link or a private key header, and every entry whose
  key names a secret is the marker and nothing else.
\<close>

theorem result_summary_hides_secrets:
  assumes "resultSummary task = Some w"
  shows "(subval (JStr s) w \<longrightarrow> \<not> sensitive s)
    \<and> (subval (JObj kvs) w \<longrightarrow> (k, x) \<in> set kvs \<longrightarrow> secretKeyPattern k \<longrightarrow> x = JStr (js ''[redacted]''))"
proof -
  obtain v where w: "w = sanitizeValue v [] 0"
    using assms by (auto simp: resultSummary_def split: option.splits if_splits)
  show ?thesis
    unfolding w using history.no_leak history.secret_masked by blast
qed

definition sample_task :: task_data where
  "sample_task =
     \<lparr>tk_id = (js ''t1''), tk_vps_id = Some (js ''v1''), tk_node_id = None, tk_task_type = (js ''landing_node_create''),
      tk_status = (js ''failed''), tk_current_step = None, tk_progress = 10, tk_error_code = None,
      tk_error_message = Some (js ''use vless://u@h''),
      tk_result_data = Some (JObj [((js ''ssh_key''), JStr (js ''k'')), ((js ''note''), JStr (js ''vless://u@h''))]),
      tk_started_at = None, tk_finished_at = None, tk_created_at = None, tk_updated_at = None\<rparr>"

lemma sample_summary:
  "resultSummary sample_task
   = Some (JObj [((js ''ssh_key''), JStr (js ''[redacted]'')), ((js ''note''), JStr (js ''[redacted vless link]''))])"
  by (simp add: resultSummary_def sample_task_def sanitizeValue.simps secretKeyPattern_def
      secret_key_words_def contains_any_def fold_case_def js_def redactString_def linkPattern_def
      privateKeyPattern_def private_key_texts_def link_schemes_def)

theorem result_summary_hides_secrets_witness:
  "\<not> sensitive (js ''[redacted vless link]'') \<and> secretKeyPattern (js ''ssh_key'')"
proof -
  let ?kvs = "[((js ''ssh_key''), JStr (js ''[redacted]'')), ((js ''note''), JStr (js ''[redacted vless link]''))]"
  have "subval (JStr (js ''[redacted vless link]'')) (JObj ?kvs)"
    by (auto intro: subval.intros)
  with result_summary_hides_secrets [OF sample_summary]
  have "\<not> sensitive (js ''[redacted vless link]'')" by blast
  then show ?thesis
    by (simp add: secretKeyPattern_def secret_key_words_def contains_any_def fold_case_def js_def)
qed

lemma fold_max_le: "fold max ns (a :: nat) \<le> b \<longleftrightarrow> a \<le> b \<and> (\<forall>n \<in> set ns. n \<le> b)"
  by (induction ns arbitrary: a) auto

lemma Suc_fold_max_le:
  "Suc (fold max ns 0) \<le> b \<longleftrightarrow> 0 < b \<and> (\<forall>n \<in> set ns. Suc n \<le> b)"
  by (cases b) (auto simp: fold_max_le)

lemma depth_sanitizeValue: "depth (sanitizeValue v k d) \<le> 4 - d"
proof (induction v k d rule: sanitizeValue.induct)
  case (1 v key d)
  note unfold = sanitizeValue.simps [of v key d]
  show ?case
  proof (cases v)
    case (JArr xs)
    then show ?thesis
      using 1(1) [OF _ JArr] unfold by (fastforce simp: Let_def Suc_fold_max_le)
  next
    case (JObj kvs)
    then show ?thesis
      using 1(2) [OF _ JObj] unfold by (fastforce simp: Suc_fold_max_le)
  qed (use unfold in simp_all)
qed

lemma arrays_sanitizeValue:
  "subval (JArr ys) (sanitizeValue v k d) \<Longrightarrow> length ys \<le> 9"
proof (induction v k d rule: sanitizeValue.induct)
  case (1 v key d)
  note unfold = sanitizeValue.simps [of v key d]
  show ?case
  proof (cases v)
    case (JArr xs)
    show ?thesis
      using 1(1) [OF _ JArr] 1(3) unfold JArr
      by (auto simp: Let_def subval_simps split: if_splits)
  next
    case (JObj kvs)
    show ?thesis
      using 1(2) [OF _ JObj] 1(3) unfold JObj
      by (auto simp: subval_simps split: if_splits)
  qed (use 1(3) unfold in \<open>auto simp: subval_simps split: if_splits\<close>)
qed

text \<open>
  C38. A sanitized value is small in both directions: below nesting
  level \<open>d\<close> at most \<open>4 - d\<close> levels remain, and no array has more than nine entries, whatever
  the input.
\<close>

theorem sanitized_value_is_bounded:
  "depth (sanitizeValue v k d) \<le> 4 - d
   \<and> (\<forall>ys. subval (JArr ys) (sanitizeValue v k d) \<longrightarrow> length ys \<le> 9)"
  using depth_sanitizeValue arrays_sanitizeValue by blast

theorem sanitized_value_is_bounded_witness:
  "length (map JNum [1, 2, 3, 4, 5, 6, 7, 8] @ [JStr (js ''[1 more item(s) truncated]'')]) \<le> 9"
proof -
  have "sanitizeValue (JArr (map JNum [1, 2, 3, 4, 5, 6, 7, 8, 9])) [] 0
        = JArr (map JNum [1, 2, 3, 4, 5, 6, 7, 8] @ [JStr (js ''[1 more item(s) truncated]'')])"
    by (simp add: sanitizeValue.simps secretKeyPattern_def secret_key_words_def contains_any_def
        fold_case_def Let_def string_of_int_def digits_of.simps js_def)
  then show ?thesis
    using sanitized_value_is_bounded
      [of "JArr (map JNum [1, 2, 3, 4, 5, 6, 7, 8, 9])" "[]" 0]
    by (metis subval.here)
qed

definition safe_text :: "jsstr \<Rightarrow> bool" where
  "safe_text t \<longleftrightarrow> \<not> sensitive t \<and> length t \<le> 180"

lemma safe_fixed:
  "47 \<notin> set (fold_case t) \<Longrightarrow> 121 \<notin> set (fold_case t) \<Longrightarrow> length t \<le> 180 \<Longrightarrow> safe_text t"
  by (simp add: safe_text_def not_sensitiveI)

lemma safe_redact: "safe_text (redactString m)"
  using redactString_safe by (simp add: safe_text_def)

lemma safe_if: "safe_text a \<Longrightarrow> safe_text b \<Longrightarrow> safe_text (if c then a else b)"
  by simp

lemma safe_option:
  "safe_text a \<Longrightarrow> (\<And>x. safe_text (f x)) \<Longrightarrow> safe_text (case v of None \<Rightarrow> a | Some x \<Rightarrow> f x)"
  by (cases v) simp_all

lemma taskFailureSummary_safe: "safe_text (taskFailureSummary task)"
  unfolding taskFailureSummary_def Let_def
  by (intro safe_if safe_option safe_redact)
    (rule safe_fixed; simp add: text_simps fold_case_Cons)+

text \<open>
  The advice shown for a task never contains a node link or a private key
  header and has at most 180 code units, even when it repeats the backend's error message.
\<close>

theorem advice_is_safe:
  "\<not> sensitive (resultAdvice task) \<and> length (resultAdvice task) \<le> 180"
proof -
  have "safe_text (resultAdvice task)"
    unfolding resultAdvice_def Let_def
    by (intro safe_if taskFailureSummary_safe)
      (rule safe_fixed; simp add: text_simps fold_case_Cons)+
  then show ?thesis by (simp add: safe_text_def)
qed

definition only_category :: "task_panel \<Rightarrow> task_category \<Rightarrow> task_panel" where
  "only_category p c =
     p\<lparr>tp_category := c, tp_statusFilter := (js ''all''), tp_typeFilter := (js ''all''), tp_search := []\<rparr>"

text \<open>
  With no other filter set, the tabs \<^verbatim>\<open>create\<close> and \<^verbatim>\<open>check\<close> split the
  list: every task is shown under exactly one of them, \<^verbatim>\<open>all\<close> shows every task, and
  \<^verbatim>\<open>failed\<close> shows exactly the tasks that failed or timed out.
\<close>

theorem category_tabs_partition:
  "set (filteredTasks (only_category p CatCreate)) \<inter> set (filteredTasks (only_category p CatCheck)) = {}
   \<and> set (filteredTasks (only_category p CatCreate)) \<union> set (filteredTasks (only_category p CatCheck))
     = set (tp_tasks p)
   \<and> filteredTasks (only_category p CatAll) = tp_tasks p
   \<and> filteredTasks (only_category p CatFailed)
     = List.filter (\<lambda>t. tk_status t \<in> {(js ''failed''), (js ''timeout'')}) (tp_tasks p)"
proof -
  have "categoryForTask t \<in> {CatCreate, CatCheck}" for t
    by (simp add: categoryForTask_def)
  then have "task_matches (only_category p CatCreate) t \<longleftrightarrow> \<not> task_matches (only_category p CatCheck) t"
    for t by (auto simp: task_matches_def only_category_def Let_def to_lower.simps(1))
  moreover have "task_matches (only_category p CatFailed) = (\<lambda>t. tk_status t \<in> {(js ''failed''), (js ''timeout'')})"
    and "task_matches (only_category p CatAll) = (\<lambda>t. True)"
    by (auto simp: task_matches_def only_category_def Let_def to_lower.simps(1))
  ultimately show ?thesis
    by (auto simp: filteredTasks_def only_category_def)
qed

text \<open>
  The date range selector and the two date inputs of the filter
  panel change nothing: whatever they hold, the same tasks are shown.
\<close>

theorem date_filters_have_no_effect:
  "filteredTasks (p\<lparr>tp_dateRange := r, tp_startDate := a, tp_endDate := b\<rparr>) = filteredTasks p"
proof -
  have "task_matches (p\<lparr>tp_dateRange := r, tp_startDate := a, tp_endDate := b\<rparr>) = task_matches p"
    by (rule ext) (simp add: task_matches_def)
  then show ?thesis by (simp add: filteredTasks_def)
qed

end
