(* ===== verification/DebugForm.thy ===== *)
theory DebugForm
  imports ApiClient Redaction
begin

text \<open>
  The form of \<^verbatim>\<open>frontend/components/AdvancedHaproxyDebugPanel.tsx\<close>: the fields and
  confirmations of a HAProxy real-execution request, their validation in two independent places
  (\<^verbatim>\<open>validateForm\<close> lists errors, \<^verbatim>\<open>buildPayloadOrNull\<close> builds the request or
  refuses), port parsing, the confirmation text, and the redaction of debug JSON.
\<close>

subsection \<open>Constants\<close>

definition FINAL_APPROVAL_TEXT :: jsstr where
  "FINAL_APPROVAL_TEXT = (js ''CONFIRM_HAPROXY_ROUTE_CREATE_FINAL_APPROVAL_ONLY'')"

definition REAL_EXECUTION_STAGE :: jsstr where
  "REAL_EXECUTION_STAGE = (js ''Stage 3.3.139-new-transit-haproxy-route-create-real-execution'')"

definition MANUAL_REAL_EXECUTION_CONFIRM :: jsstr where
  "MANUAL_REAL_EXECUTION_CONFIRM = (js ''CONFIRM_CREATE_HAPROXY_REAL_EXECUTION_COMMAND'')"

subsection \<open>State of the form\<close>

record debug_form =
  df_dry_run_command_id :: jsstr
  df_transit_resource_id :: jsstr
  df_landing_node_id :: jsstr
  df_planned_listen_port :: jsstr
  df_landing_target_host :: jsstr
  df_landing_target_port :: jsstr
  df_forwarding_method :: jsstr
  df_route_name :: jsstr
  df_route_display_name :: jsstr
  df_approval_stage :: jsstr
  df_final_approval_text :: jsstr
  df_real_execution_text :: jsstr

record confirmations =
  cf_firewall_security_group_confirmed :: bool
  cf_cloud_firewall_confirmed :: bool
  cf_server_firewall_confirmed :: bool
  cf_no_cutover_confirmed :: bool
  cf_no_node_share_link_change_confirmed :: bool
  cf_no_transit_share_link_write_confirmed :: bool
  cf_no_full_client_link_confirmed :: bool

definition defaultForm :: debug_form where
  "defaultForm =
     \<lparr>df_dry_run_command_id = [], df_transit_resource_id = [], df_landing_node_id = [],
      df_planned_listen_port = [], df_landing_target_host = [], df_landing_target_port = [],
      df_forwarding_method = (js ''haproxy_tcp''), df_route_name = [], df_route_display_name = [],
      df_approval_stage = REAL_EXECUTION_STAGE, df_final_approval_text = FINAL_APPROVAL_TEXT,
      df_real_execution_text = []\<rparr>"

definition defaultConfirmations :: confirmations where
  "defaultConfirmations =
     \<lparr>cf_firewall_security_group_confirmed = False, cf_cloud_firewall_confirmed = False,
      cf_server_firewall_confirmed = False, cf_no_cutover_confirmed = False,
      cf_no_node_share_link_change_confirmed = False,
      cf_no_transit_share_link_write_confirmed = False,
      cf_no_full_client_link_confirmed = False\<rparr>"

text \<open>\<^verbatim>\<open>Object.values(confirmations).every(Boolean)\<close>\<close>

definition all_confirmed :: "confirmations \<Rightarrow> bool" where
  "all_confirmed c \<longleftrightarrow>
     cf_firewall_security_group_confirmed c \<and> cf_cloud_firewall_confirmed c
     \<and> cf_server_firewall_confirmed c \<and> cf_no_cutover_confirmed c
     \<and> cf_no_node_share_link_change_confirmed c \<and> cf_no_transit_share_link_write_confirmed c
     \<and> cf_no_full_client_link_confirmed c"

subsection \<open>Ports, names and the confirmation text\<close>

definition expectedTextForPort :: "jsstr \<Rightarrow> jsstr" where
  "expectedTextForPort port =
     (case parse_int port of
        None \<Rightarrow> (js ''CONFIRM_REAL_HAPROXY_ROUTE_CREATE_<planned_listen_port>'')
      | Some parsed \<Rightarrow>
          if parsed < 1 \<or> parsed > 65535
          then (js ''CONFIRM_REAL_HAPROXY_ROUTE_CREATE_<planned_listen_port>'')
          else (js ''CONFIRM_REAL_HAPROXY_ROUTE_CREATE_'') @ string_of_int parsed)"

text \<open>\<^verbatim>\<open>/^[A-Za-z0-9][A-Za-z0-9._-]{0,119}$/\<close>\<close>

definition route_name_char :: "u16 \<Rightarrow> bool" where
  "route_name_char c \<longleftrightarrow> is_alpha c \<or> is_digit c \<or> c = 46 \<or> c = 95 \<or> c = 45"

definition isSafeRouteName :: "jsstr \<Rightarrow> bool" where
  "isSafeRouteName v =
     (case trim v of
        [] \<Rightarrow> False
      | c # cs \<Rightarrow> (is_alpha c \<or> is_digit c) \<and> length cs \<le> 119 \<and> list_all route_name_char cs)"

definition parsePort :: "jsstr \<Rightarrow> int option" where
  "parsePort v =
     (case parse_int v of
        None \<Rightarrow> None
      | Some parsed \<Rightarrow>
          if string_of_int parsed \<noteq> trim v \<or> parsed < 1 \<or> parsed > 65535 then None
          else Some parsed)"

definition valueOrDash :: "jsstr option \<Rightarrow> jsstr" where
  "valueOrDash v = (case v of None \<Rightarrow> (js ''-'') | Some s \<Rightarrow> if s = [] then (js ''-'') else s)"

definition numberOrDash :: "int option \<Rightarrow> jsstr" where
  "numberOrDash v = (case v of None \<Rightarrow> (js ''-'') | Some n \<Rightarrow> string_of_int n)"

subsection \<open>The request, or null\<close>

definition buildPayloadOrNull :: "debug_form \<Rightarrow> confirmations \<Rightarrow> real_execution_request option" where
  "buildPayloadOrNull form confs =
     (case (parsePort (df_planned_listen_port form), parsePort (df_landing_target_port form)) of
        (Some plannedListenPort, Some landingTargetPort) \<Rightarrow>
          if trim (df_dry_run_command_id form) = [] \<or> trim (df_transit_resource_id form) = []
             \<or> trim (df_landing_node_id form) = [] \<or> trim (df_landing_target_host form) = []
             \<or> trim (df_route_name form) = [] \<or> trim (df_approval_stage form) = []
             \<or> trim (df_final_approval_text form) = [] \<or> trim (df_real_execution_text form) = []
          then None
          else if \<not> isSafeRouteName (df_route_name form) then None
          else if \<not> all_confirmed confs then None
          else Some
            \<lparr>xq_dry_run_command_id = trim (df_dry_run_command_id form),
             xq_transit_resource_id = trim (df_transit_resource_id form),
             xq_landing_node_id = trim (df_landing_node_id form),
             xq_planned_listen_port = plannedListenPort,
             xq_landing_target_host = trim (df_landing_target_host form),
             xq_landing_target_port = landingTargetPort,
             xq_forwarding_method = (js ''haproxy_tcp''),
             xq_route_name = trim (df_route_name form),
             xq_route_display_name =
               (if trim (df_route_display_name form) = [] then None
                else Some (trim (df_route_display_name form))),
             xq_approval_stage = trim (df_approval_stage form),
             xq_final_approval_text = trim (df_final_approval_text form),
             xq_real_execution_text = trim (df_real_execution_text form),
             xq_firewall_security_group_confirmed = cf_firewall_security_group_confirmed confs,
             xq_cloud_firewall_confirmed = cf_cloud_firewall_confirmed confs,
             xq_server_firewall_confirmed = cf_server_firewall_confirmed confs,
             xq_no_cutover_confirmed = cf_no_cutover_confirmed confs,
             xq_no_node_share_link_change_confirmed = cf_no_node_share_link_change_confirmed confs,
             xq_no_full_client_link_confirmed = cf_no_full_client_link_confirmed confs\<rparr>
      | _ \<Rightarrow> None)"

definition buildDraftPayload :: "debug_form \<Rightarrow> confirmations \<Rightarrow> jsval" where
  "buildDraftPayload form confs = JObj [
     ((js ''dry_run_command_id''), JStr (df_dry_run_command_id form)),
     ((js ''transit_resource_id''), JStr (df_transit_resource_id form)),
     ((js ''landing_node_id''), JStr (df_landing_node_id form)),
     ((js ''planned_listen_port''), JStr (df_planned_listen_port form)),
     ((js ''landing_target_host''), JStr (df_landing_target_host form)),
     ((js ''landing_target_port''), JStr (df_landing_target_port form)),
     ((js ''forwarding_method''), JStr (df_forwarding_method form)),
     ((js ''route_name''), JStr (df_route_name form)),
     ((js ''route_display_name''), if df_route_display_name form = [] then JNull
                            else JStr (df_route_display_name form)),
     ((js ''approval_stage''), JStr (df_approval_stage form)),
     ((js ''final_approval_text''), JStr (df_final_approval_text form)),
     ((js ''real_execution_text''), JStr (df_real_execution_text form)),
     ((js ''firewall_security_group_confirmed''), JBool (cf_firewall_security_group_confirmed confs)),
     ((js ''cloud_firewall_confirmed''), JBool (cf_cloud_firewall_confirmed confs)),
     ((js ''server_firewall_confirmed''), JBool (cf_server_firewall_confirmed confs)),
     ((js ''no_cutover_confirmed''), JBool (cf_no_cutover_confirmed confs)),
     ((js ''no_node_share_link_change_confirmed''), JBool (cf_no_node_share_link_change_confirmed confs)),
     ((js ''no_transit_share_link_write_confirmed''), JBool (cf_no_transit_share_link_write_confirmed confs)),
     ((js ''no_full_client_link_confirmed''), JBool (cf_no_full_client_link_confirmed confs))]"

subsection \<open>The list of errors\<close>

definition required_form_fields :: "((debug_form \<Rightarrow> jsstr) \<times> jsstr) list" where
  "required_form_fields =
     [(df_dry_run_command_id, (uni ''dry_run_command_id %u4E0D%u80FD%u4E3A%u7A7A'')),
      (df_transit_resource_id, (uni ''transit_resource_id %u4E0D%u80FD%u4E3A%u7A7A'')),
      (df_landing_node_id, (uni ''landing_node_id %u4E0D%u80FD%u4E3A%u7A7A'')),
      (df_planned_listen_port, (uni ''planned_listen_port %u4E0D%u80FD%u4E3A%u7A7A'')),
      (df_landing_target_host, (uni ''landing_target_host %u4E0D%u80FD%u4E3A%u7A7A'')),
      (df_landing_target_port, (uni ''landing_target_port %u4E0D%u80FD%u4E3A%u7A7A'')),
      (df_route_name, (uni ''route_name %u4E0D%u80FD%u4E3A%u7A7A'')),
      (df_approval_stage, (uni ''approval_stage %u4E0D%u80FD%u4E3A%u7A7A'')),
      (df_final_approval_text, (uni ''final_approval_text %u4E0D%u80FD%u4E3A%u7A7A'')),
      (df_real_execution_text, (uni ''real_execution_text %u4E0D%u80FD%u4E3A%u7A7A''))]"

definition validateForm :: "debug_form \<Rightarrow> confirmations \<Rightarrow> jsstr list" where
  "validateForm form confs =
     map snd (List.filter (\<lambda>(field, message). trim (field form) = []) required_form_fields)
     @ (if df_planned_listen_port form \<noteq> [] \<and> parsePort (df_planned_listen_port form) = None
        then [(uni ''planned_listen_port %u5FC5%u987B%u662F 1-65535 %u7684%u6574%u6570'')] else [])
     @ (if df_landing_target_port form \<noteq> [] \<and> parsePort (df_landing_target_port form) = None
        then [(uni ''landing_target_port %u5FC5%u987B%u662F 1-65535 %u7684%u6574%u6570'')] else [])
     @ (if df_route_name form \<noteq> [] \<and> \<not> isSafeRouteName (df_route_name form)
        then [(uni ''route_name %u53EA%u80FD%u5305%u542B%u5B57%u6BCD%u3001%u6570%u5B57%u3001%u70B9%u3001%u4E0B%u5212%u7EBF%u3001%u77ED%u6A2A%u7EBF%uFF0C%u4E14%u5FC5%u987B%u4EE5%u5B57%u6BCD%u6216%u6570%u5B57%u5F00%u5934'')] else [])
     @ (if df_forwarding_method form \<noteq> (js ''haproxy_tcp'')
        then [(uni ''forwarding_method %u53EA%u80FD%u662F haproxy_tcp'')] else [])
     @ (if \<not> all_confirmed confs
        then [(uni ''%u8FD0%u884C readiness %u524D%u5FC5%u987B%u5B8C%u6210%u5168%u90E8%u7AEF%u53E3%u653E%u884C%u548C%u5B89%u5168%u786E%u8BA4'')] else [])"

subsection \<open>Redaction of debug JSON\<close>

definition debug_secret_words :: "jsstr list" where
  "debug_secret_words =
     [(js ''token''), (js ''password''), (js ''private_key''), (js ''privatekey''), (js ''secret''), (js ''install_command'')]"

definition debug_string_words :: "jsstr list" where
  "debug_string_words = [(js ''token''), (js ''secret''), (js ''password''), (js ''private'')]"

fun redactDebugJson :: "jsval \<Rightarrow> jsval" where
  "redactDebugJson (JArr xs) = JArr (map redactDebugJson xs)"
| "redactDebugJson (JObj kvs) =
     JObj (map (\<lambda>(k, child).
       (k, if k = (js ''share_link'') then JStr (js ''[REDACTED_SHARE_LINK]'')
           else if contains_any (to_lower k) debug_secret_words then JStr (js ''[REDACTED]'')
           else redactDebugJson child)) kvs)"
| "redactDebugJson (JStr s) =
     (if contains s (js ''vless://'') then JStr (js ''[REDACTED_LINK]'')
      else if length s > 160 \<and> contains_any (fold_case s) debug_string_words
      then JStr (js ''[REDACTED]'')
      else JStr s)"
| "redactDebugJson JUndef = JStr (js ''undefined'')"
| "redactDebugJson v = v"

subsection \<open>Status of a readiness result\<close>

definition resultStatus :: "real_execution_result option \<Rightarrow> jsstr \<times> jsstr" where
  "resultStatus r =
     (case r of
        None \<Rightarrow> ((uni ''%u672A%u8FD0%u884C''), (js ''neutral''))
      | Some x \<Rightarrow> if xr_ready_for_real_execution x then ((js ''ready''), (js ''success''))
                  else ((js ''blocked''), (js ''danger'')))"

definition checkTone :: "check_item \<Rightarrow> jsstr" where
  "checkTone c =
     (if ck_passed c then (js ''success'')
      else if ck_category c = (js ''safety_boundary'') then (js ''warning'') else (js ''danger''))"

subsection \<open>Ports\<close>

lemma parsePort_Some_iff:
  "parsePort v = Some n \<longleftrightarrow> trim v = string_of_int n \<and> 1 \<le> n \<and> n \<le> 65535"
proof
  assume "parsePort v = Some n"
  then show "trim v = string_of_int n \<and> 1 \<le> n \<and> n \<le> 65535"
    by (auto simp: parsePort_def split: option.splits if_splits)
next
  assume a: "trim v = string_of_int n \<and> 1 \<le> n \<and> n \<le> 65535"
  then have "trim v = digits_of (nat n)" by (simp add: string_of_int_def)
  then have "parse_int v = Some n" using a by (simp add: parse_int_trim)
  with a show "parsePort v = Some n" by (simp add: parsePort_def)
qed

lemma parsePort_Nil [simp]: "trim v = [] \<Longrightarrow> parsePort v = None"
  by (metis not_None_eq parsePort_Some_iff string_of_int_nonempty)

lemma parsePort_nonempty: "parsePort v = Some n \<Longrightarrow> v \<noteq> [] \<and> trim v \<noteq> []"
  using parsePort_Nil by (cases "trim v = []") auto

text \<open>
  C37. A port field is accepted exactly when, up to surrounding white space, it is the
  decimal text of a number between 1 and 65535: every port written by \<^verbatim>\<open>String\<close> is read
  back, with or without padding, and nothing else (a sign, leading zeros, a fraction, trailing
  text) is accepted.
\<close>

theorem port_round_trip:
  "parsePort v = Some n \<longleftrightarrow> trim v = string_of_int n \<and> 1 \<le> n \<and> n \<le> 65535"
  by (rule parsePort_Some_iff)

text \<open>
  For an accepted port field the confirmation text the user has to type
  ends in the canonical decimal text of that very port.
\<close>

theorem expected_text_names_the_port:
  assumes "parsePort v = Some n"
  shows "expectedTextForPort v = (js ''CONFIRM_REAL_HAPROXY_ROUTE_CREATE_'') @ string_of_int n"
proof -
  have "trim v = digits_of (nat n)" "1 \<le> n" "n \<le> 65535"
    using assms by (auto simp: parsePort_Some_iff string_of_int_def)
  then show ?thesis
    by (simp add: expectedTextForPort_def parse_int_trim)
qed

theorem expected_text_names_the_port_witness:
  "expectedTextForPort (js '' 25867 '') = (js ''CONFIRM_REAL_HAPROXY_ROUTE_CREATE_25867'')"
proof -
  have "parsePort (js '' 25867 '') = Some 25867"
    by (simp add: parsePort_Some_iff trim_def trim_start_def is_space_def js_def
        string_of_int_def digits_of.simps)
  from expected_text_names_the_port [OF this] show ?thesis
    by (simp add: string_of_int_def digits_of.simps js_def)
qed

subsection \<open>The two validations agree\<close>

lemma isSafeRouteName_nonempty: "isSafeRouteName v \<Longrightarrow> v \<noteq> [] \<and> trim v \<noteq> []"
  by (auto simp: isSafeRouteName_def)

definition required_present :: "debug_form \<Rightarrow> bool" where
  "required_present form \<longleftrightarrow>
     trim (df_dry_run_command_id form) \<noteq> [] \<and> trim (df_transit_resource_id form) \<noteq> []
     \<and> trim (df_landing_node_id form) \<noteq> [] \<and> trim (df_landing_target_host form) \<noteq> []
     \<and> trim (df_route_name form) \<noteq> [] \<and> trim (df_approval_stage form) \<noteq> []
     \<and> trim (df_final_approval_text form) \<noteq> [] \<and> trim (df_real_execution_text form) \<noteq> []"

lemma buildPayloadOrNull_Some_iff:
  "buildPayloadOrNull form confs \<noteq> None \<longleftrightarrow>
   parsePort (df_planned_listen_port form) \<noteq> None \<and> parsePort (df_landing_target_port form) \<noteq> None
   \<and> required_present form \<and> isSafeRouteName (df_route_name form) \<and> all_confirmed confs"
  by (auto simp: buildPayloadOrNull_def required_present_def split: option.splits)

lemma validateForm_Nil_iff:
  "validateForm form confs = [] \<longleftrightarrow>
   parsePort (df_planned_listen_port form) \<noteq> None \<and> parsePort (df_landing_target_port form) \<noteq> None
   \<and> required_present form \<and> isSafeRouteName (df_route_name form) \<and> all_confirmed confs
   \<and> df_forwarding_method form = (js ''haproxy_tcp'')"
proof -
  have *: "map snd (List.filter (\<lambda>(field, message). trim (field form) = []) required_form_fields) = []
    \<longleftrightarrow> required_present form \<and> trim (df_planned_listen_port form) \<noteq> []
        \<and> trim (df_landing_target_port form) \<noteq> []"
    by (auto simp: required_form_fields_def required_present_def)
  show ?thesis
    unfolding validateForm_def append_is_Nil_conv *
    by (auto simp: required_present_def dest: parsePort_nonempty isSafeRouteName_nonempty)
qed

text \<open>
  The contract between a form's error list and its request builder, which the panel's guards
  rely on.
\<close>

locale form_gate =
  fixes errors :: "'f \<Rightarrow> jsstr list"
    and build :: "'f \<Rightarrow> 'p option"
    and typed :: "'f \<Rightarrow> bool"
  assumes agree: "typed f \<Longrightarrow> errors f = [] \<longleftrightarrow> build f \<noteq> None"
begin

text \<open>A refused form has an error to show.\<close>

lemma refused_has_error: "typed f \<Longrightarrow> build f = None \<Longrightarrow> \<exists>e es. errors f = e # es"
  using agree by (cases "errors f") auto

lemma accepted_builds: "typed f \<Longrightarrow> errors f = [] \<Longrightarrow> \<exists>p. build f = Some p"
  using agree by auto

end

definition form_typed :: "debug_form \<times> confirmations \<Rightarrow> bool" where
  "form_typed fc \<longleftrightarrow> df_forwarding_method (fst fc) = (js ''haproxy_tcp'')"

interpretation debug_gate: form_gate "\<lambda>fc. validateForm (fst fc) (snd fc)"
    "\<lambda>fc. buildPayloadOrNull (fst fc) (snd fc)" form_typed
  by unfold_locales
    (simp only: validateForm_Nil_iff buildPayloadOrNull_Some_iff form_typed_def simp_thms)

text \<open>
  The error list is empty exactly when the request can be built (the forwarding
  method, a constant of the type, aside), so the two validations written at the two ends of the
  file never disagree about a form.
\<close>

theorem validators_agree:
  "validateForm form confs = [] \<longleftrightarrow>
   buildPayloadOrNull form confs \<noteq> None \<and> df_forwarding_method form = (js ''haproxy_tcp'')"
  unfolding validateForm_Nil_iff buildPayloadOrNull_Some_iff by blast

subsection \<open>What a built request guarantees\<close>

definition port_in_range :: "int \<Rightarrow> bool" where
  "port_in_range n \<longleftrightarrow> 1 \<le> n \<and> n \<le> 65535"

text \<open>
  The shape the backend can rely on: ports in range, every required text present and free of
  surrounding space, a route name within its alphabet, the fixed forwarding method, and each of
  the six confirmations it carries given.
\<close>

definition request_well_formed :: "real_execution_request \<Rightarrow> bool" where
  "request_well_formed q \<longleftrightarrow>
     port_in_range (xq_planned_listen_port q) \<and> port_in_range (xq_landing_target_port q)
     \<and> (\<forall>t \<in> {xq_dry_run_command_id q, xq_transit_resource_id q, xq_landing_node_id q,
             xq_landing_target_host q, xq_route_name q, xq_approval_stage q,
             xq_final_approval_text q, xq_real_execution_text q}. t \<noteq> [] \<and> trim t = t)
     \<and> isSafeRouteName (xq_route_name q)
     \<and> xq_route_display_name q \<noteq> Some []
     \<and> xq_forwarding_method q = (js ''haproxy_tcp'')
     \<and> xq_firewall_security_group_confirmed q \<and> xq_cloud_firewall_confirmed q
     \<and> xq_server_firewall_confirmed q \<and> xq_no_cutover_confirmed q
     \<and> xq_no_node_share_link_change_confirmed q \<and> xq_no_full_client_link_confirmed q"

lemma buildPayloadOrNull_well_formed [guard_dests]:
  "buildPayloadOrNull form confs = Some q \<Longrightarrow> request_well_formed q \<and> all_confirmed confs"
  by (auto simp: buildPayloadOrNull_def request_well_formed_def port_in_range_def all_confirmed_def
      isSafeRouteName_def parsePort_Some_iff split: option.splits if_splits)

text \<open>
  C34. Every request the form builds is well formed, carries the ports its fields
  show, and is only built when all seven confirmations are given (also the one that is not part
  of the request).
\<close>

theorem built_request_is_well_formed:
  assumes "buildPayloadOrNull form confs = Some q"
  shows "request_well_formed q \<and> all_confirmed confs
    \<and> trim (df_planned_listen_port form) = string_of_int (xq_planned_listen_port q)
    \<and> trim (df_landing_target_port form) = string_of_int (xq_landing_target_port q)"
  using buildPayloadOrNull_well_formed [OF assms] assms
  by (auto simp: buildPayloadOrNull_def parsePort_Some_iff split: option.splits if_splits)

definition sample_form :: debug_form where
  "sample_form =
     \<lparr>df_dry_run_command_id = (js ''cmd-1''), df_transit_resource_id = (js ''res-1''), df_landing_node_id = (js ''node-1''),
      df_planned_listen_port = (js ''8443''), df_landing_target_host = (js ''10.0.0.2''),
      df_landing_target_port = (js ''443''), df_forwarding_method = (js ''haproxy_tcp''), df_route_name = (js ''r1''),
      df_route_display_name = [], df_approval_stage = REAL_EXECUTION_STAGE,
      df_final_approval_text = FINAL_APPROVAL_TEXT,
      df_real_execution_text = (js ''CONFIRM_REAL_HAPROXY_ROUTE_CREATE_8443'')\<rparr>"

definition sample_confirmations :: confirmations where
  "sample_confirmations =
     \<lparr>cf_firewall_security_group_confirmed = True, cf_cloud_firewall_confirmed = True,
      cf_server_firewall_confirmed = True, cf_no_cutover_confirmed = True,
      cf_no_node_share_link_change_confirmed = True,
      cf_no_transit_share_link_write_confirmed = True,
      cf_no_full_client_link_confirmed = True\<rparr>"

lemma sample_ports:
  "parsePort (df_planned_listen_port sample_form) = Some 8443"
  "parsePort (df_landing_target_port sample_form) = Some 443"
  by (simp_all add: sample_form_def parsePort_Some_iff trim_def trim_start_def is_space_def js_def
      string_of_int_def digits_of.simps)

lemma sample_form_builds:
  "\<exists>q. buildPayloadOrNull sample_form sample_confirmations = Some q \<and> xq_planned_listen_port q = 8443"
proof -
  have t: "trim (js s) = js s" if "s \<noteq> []" "\<not> is_space (of_char (hd s))" "\<not> is_space (of_char (last s))" for s
    using that by (simp add: trim_id js_def hd_map last_map)
  have "required_present sample_form"
    by (simp add: required_present_def sample_form_def REAL_EXECUTION_STAGE_def
        FINAL_APPROVAL_TEXT_def t is_space_def)
  moreover have "isSafeRouteName (df_route_name sample_form)"
    by (simp add: isSafeRouteName_def sample_form_def t is_space_def js_def is_alpha_def is_digit_def
        route_name_char_def trim_def trim_start_def)
  moreover have "all_confirmed sample_confirmations"
    by (simp add: all_confirmed_def sample_confirmations_def)
  ultimately obtain q where q: "buildPayloadOrNull sample_form sample_confirmations = Some q"
    using buildPayloadOrNull_Some_iff [of sample_form sample_confirmations] sample_ports by auto
  then have "xq_planned_listen_port q = 8443"
    using sample_ports by (auto simp: buildPayloadOrNull_def split: option.splits if_splits)
  with q show ?thesis by blast
qed

theorem built_request_is_well_formed_witness:
  "\<exists>q. buildPayloadOrNull sample_form sample_confirmations = Some q \<and> request_well_formed q
       \<and> xq_planned_listen_port q = 8443"
  using sample_form_builds built_request_is_well_formed by blast

subsection \<open>Redaction\<close>

definition debug_secret_key :: "jsstr \<Rightarrow> bool" where
  "debug_secret_key k \<longleftrightarrow> k = (js ''share_link'') \<or> contains_any (to_lower k) debug_secret_words"

definition debug_leak :: "jsstr \<Rightarrow> bool" where
  "debug_leak s \<longleftrightarrow>
     contains s (js ''vless://'') \<or> length s > 160 \<and> contains_any (fold_case s) debug_string_words"

definition debug_markers :: "jsstr set" where
  "debug_markers = {(js ''[REDACTED_SHARE_LINK]''), (js ''[REDACTED]'')}"

lemma debug_markers_safe:
  "\<not> debug_leak (js ''[REDACTED_SHARE_LINK]'')" "\<not> debug_leak (js ''[REDACTED]'')" "\<not> debug_leak (js ''[REDACTED_LINK]'')"
  "\<not> debug_leak (js ''undefined'')"
  by (simp_all add: debug_leak_def js_def)

lemma redactDebugJson_clean: "clean debug_secret_key debug_markers debug_leak (redactDebugJson v)"
proof (induction v rule: redactDebugJson.induct)
  case (2 kvs)
  let ?r = "\<lambda>k x. if k = (js ''share_link'') then JStr (js ''[REDACTED_SHARE_LINK]'')
      else if contains_any (to_lower k) debug_secret_words then JStr (js ''[REDACTED]'') else x"
  have e1: "?r k x \<in> JStr ` debug_markers" if "debug_secret_key k" for k x
    using that by (auto simp: debug_secret_key_def debug_markers_def)
  have e2: "?r k x = x" if "\<not> debug_secret_key k" for k x
    using that by (auto simp: debug_secret_key_def)
  have IH: "clean debug_secret_key debug_markers debug_leak (redactDebugJson x)"
    if "(k, x) \<in> set kvs" "\<not> debug_secret_key k" for k x
    using 2 [OF that(1) refl] that(2) unfolding debug_secret_key_def by blast
  have "if debug_secret_key k then ?r k (redactDebugJson x) \<in> JStr ` debug_markers
        else clean debug_secret_key debug_markers debug_leak (?r k (redactDebugJson x))"
    if "(k, x) \<in> set kvs" for k x
    using that e1 e2 IH by presburger
  then show ?case
    unfolding redactDebugJson.simps clean.simps list_all_iff set_map
    by (clarsimp split del: if_split cong del: if_weak_cong)
qed (use debug_markers_safe in \<open>auto simp: list_all_iff debug_leak_def\<close>)

interpretation debug: json_redactor redactDebugJson debug_secret_key debug_markers debug_leak
proof
  show "m \<in> debug_markers \<Longrightarrow> \<not> debug_leak m" for m
    using debug_markers_safe by (auto simp: debug_markers_def)
qed (rule redactDebugJson_clean)

text \<open>
  C35. Whatever JSON the panel shows or copies, no string in it at any depth holds
  \<^verbatim>\<open>vless://\<close>, no long string mentions a token, secret or password, and a secret key
  (\<^verbatim>\<open>share_link\<close>, tokens, passwords, install commands) holds a marker only.
\<close>

theorem debug_json_hides_secrets:
  "(subval (JStr s) (redactDebugJson v) \<longrightarrow> \<not> contains s (js ''vless://'') \<and>
      (length s > 160 \<longrightarrow> \<not> contains_any (fold_case s) debug_string_words))
   \<and> (subval (JObj kvs) (redactDebugJson v) \<longrightarrow> (k, x) \<in> set kvs \<longrightarrow>
      k = (js ''share_link'') \<or> contains_any (to_lower k) debug_secret_words \<longrightarrow>
      x \<in> {JStr (js ''[REDACTED_SHARE_LINK]''), JStr (js ''[REDACTED]'')})"
  using debug.no_leak [of s v] debug.secret_masked [of kvs v k x]
  by (auto simp: debug_leak_def debug_secret_key_def debug_markers_def)

theorem debug_json_hides_secrets_witness:
  "redactDebugJson (JObj [((js ''share_link''), JStr (js ''vless://u@h''))])
     = JObj [((js ''share_link''), JStr (js ''[REDACTED_SHARE_LINK]''))]
   \<and> JStr (js ''[REDACTED_SHARE_LINK]'') \<in> {JStr (js ''[REDACTED_SHARE_LINK]''), JStr (js ''[REDACTED]'')}"
proof -
  let ?v = "JObj [((js ''share_link''), JStr (js ''vless://u@h''))]"
  have r: "redactDebugJson ?v = JObj [((js ''share_link''), JStr (js ''[REDACTED_SHARE_LINK]''))]"
    by simp
  then have "subval (JObj [((js ''share_link''), JStr (js ''[REDACTED_SHARE_LINK]''))]) (redactDebugJson ?v)"
    by (simp add: subval.here)
  with debug_json_hides_secrets [where v = ?v] have "JStr (js ''[REDACTED_SHARE_LINK]'')
    \<in> {JStr (js ''[REDACTED_SHARE_LINK]''), JStr (js ''[REDACTED]'')}"
    by (metis list.set_intros(1))
  with r show ?thesis by simp
qed

text \<open>
  Redacting twice changes nothing more: what the panel copies from an already
  redacted value is that value.
\<close>

theorem redaction_is_idempotent: "redactDebugJson (redactDebugJson v) = redactDebugJson v"
proof (induction v rule: redactDebugJson.induct)
  case (2 kvs)
  have m: "redactDebugJson (JStr (js ''[REDACTED_SHARE_LINK]'')) = JStr (js ''[REDACTED_SHARE_LINK]'')"
    "redactDebugJson (JStr (js ''[REDACTED]'')) = JStr (js ''[REDACTED]'')"
    using debug_markers_safe by (auto simp: debug_leak_def)
  have "redactDebugJson (redactDebugJson x) = redactDebugJson x"
    if "(k, x) \<in> set kvs" "k \<noteq> (js ''share_link'')" "\<not> contains_any (to_lower k) debug_secret_words" for k x
    using 2 [OF that(1) refl that(2,3)] .
  then show ?case
    using m by (auto simp del: redactDebugJson.simps(3))
next
  case (3 s)
  then show ?case using debug_markers_safe by (auto simp: debug_leak_def)
qed (use debug_markers_safe in \<open>auto simp: debug_leak_def\<close>)

text \<open>
  The string test of the redactor knows one scheme in one spelling: a link of another
  scheme that the task history hides, or an upper-case \<^verbatim>\<open>VLESS\<close> link, passes unchanged.
\<close>

theorem other_schemes_pass_debug_redaction:
  "redactDebugJson (JStr (js ''vmess://abc'')) = JStr (js ''vmess://abc'')
   \<and> redactDebugJson (JStr (js ''VLESS://u@h'')) = JStr (js ''VLESS://u@h'')
   \<and> redactDebugJson (JStr (js ''trojan://p@h'')) = JStr (js ''trojan://p@h'')"
  by (simp add: js_def)

end
