(* ===== verification/DebugPlans.thy ===== *)
theory DebugPlans
  imports DebugForm
begin

text \<open>
  The two advisory plans of the debug panel, both pure functions of the selected dry-run
  candidate: \<^verbatim>\<open>buildHaproxyResourceRebuildPlan\<close> sorts the failed integrity checks into
  required actions, \<^verbatim>\<open>buildResourceRegistrationPlan\<close> turns that plan into registration
  sections; and the two functions that print them.
\<close>

subsection \<open>Types\<close>

datatype plan_status = PlanReady | PlanBlocked | NoCandidate

fun plan_status_text :: "plan_status \<Rightarrow> jsstr" where
  "plan_status_text PlanReady = (js ''ready'')"
| "plan_status_text PlanBlocked = (js ''blocked'')"
| "plan_status_text NoCandidate = (js ''no_candidate'')"

record plan_action =
  pa_id :: jsstr
  pa_title :: jsstr
  pa_severity :: jsstr
  pa_description :: jsstr
  pa_steps :: "jsstr list"

record rebuild_plan =
  rp_status :: plan_status
  rp_summary :: jsstr
  rp_candidate_summary :: "(jsstr \<times> jsstr) list"
  rp_blocking_checks :: "integrity_check list"
  rp_required_actions :: "plan_action list"
  rp_recommended_next_stage :: jsstr

datatype field_source = FromCandidate | FromCheck | ManualRequired | UnknownSource

fun field_source_text :: "field_source \<Rightarrow> jsstr" where
  "field_source_text FromCandidate = (js ''candidate'')"
| "field_source_text FromCheck = (js ''integrity_check'')"
| "field_source_text ManualRequired = (js ''manual_required'')"
| "field_source_text UnknownSource = (js ''unknown'')"

record registration_field =
  rf_key :: jsstr
  rf_value :: jsstr
  rf_source :: field_source
  rf_required :: bool
  rf_note :: jsstr

record registration_section =
  rs_id :: jsstr
  rs_title :: jsstr
  rs_severity :: jsstr
  rs_description :: jsstr
  rs_fields :: "registration_field list"
  rs_steps :: "jsstr list"

record registration_plan =
  rg_status :: plan_status
  rg_summary :: jsstr
  rg_required_sections :: "registration_section list"
  rg_missing_manual_inputs :: "jsstr list"
  rg_recommended_next_stage :: jsstr

subsection \<open>Rebuild plan: one action per group of checks\<close>

text \<open>The ids of the integrity checks that each action answers.\<close>

definition transit_resource_checks :: "jsstr list" where
  "transit_resource_checks =
     [(js ''transit_resource_record_exists''),
      (js ''transit_resource_not_deleted''),
      (js ''transit_resource_status_supported'')]"

definition transit_worker_checks :: "jsstr list" where
  "transit_worker_checks =
     [(js ''transit_worker_record_exists''),
      (js ''transit_worker_online''),
      (js ''transit_worker_role_is_transit''),
      (js ''transit_worker_interface_detected'')]"

definition landing_node_checks :: "jsstr list" where
  "landing_node_checks =
     [(js ''landing_node_record_exists''),
      (js ''landing_node_not_deleted''),
      (js ''landing_node_active''),
      (js ''landing_node_has_vps_ip''),
      (js ''landing_node_xray_port_present'')]"

definition target_match_checks :: "jsstr list" where
  "target_match_checks =
     [(js ''candidate_landing_host_matches_node_vps_ip''), (js ''candidate_landing_port_matches_node_xray_port'')]"

definition status_checks :: "jsstr list" where
  "status_checks = [(js ''candidate_status_succeeded'')]"

definition transit_resource_action :: plan_action where
  "transit_resource_action =
     \<lparr>pa_id = (js ''transit-resource-record''), pa_title = (uni ''%u9700%u8981%u8865%u9F50%uFF1A%u6B63%u5F0F%u4E2D%u8F6C%u8D44%u6E90%u8BB0%u5F55''), pa_severity = (js ''danger''),
      pa_description = (uni ''candidate %u5F15%u7528%u7684%u4E2D%u8F6C%u8D44%u6E90%u4E0D%u80FD%u4F5C%u4E3A%u5F53%u524D%u6709%u6548%u8D44%u6E90%u7EE7%u7EED%u6267%u884C%u3002''),
      pa_steps =
        [(uni ''%u4E0D%u8981%u590D%u7528%u5DF2 deleted %u7684%u4E2D%u8F6C%u8D44%u6E90%u3002''),
         (uni ''%u91CD%u65B0%u767B%u8BB0%u4E00%u4E2A active / worker_online %u7684%u4E2D%u8F6C%u670D%u52A1%u5668%u8D44%u6E90%u3002''),
         (uni ''%u786E%u4FDD%u8BE5%u4E2D%u8F6C%u670D%u52A1%u5668%u7ED1%u5B9A transit Worker%u3002''),
         (uni ''%u8865%u9F50%u540E%u91CD%u65B0%u751F%u6210 HAProxy dry-run%u3002'')]\<rparr>"

definition transit_worker_action :: plan_action where
  "transit_worker_action =
     \<lparr>pa_id = (js ''transit-worker-status''), pa_title = (uni ''%u9700%u8981%u8865%u9F50%uFF1ATransit Worker %u72B6%u6001''), pa_severity = (js ''danger''),
      pa_description = (uni ''%u4E2D%u8F6C Worker %u5FC5%u987B%u5728%u7EBF%u3001%u89D2%u8272%u6B63%u786E%u5E76%u4E0A%u62A5%u7F51%u5361%u540E%u624D%u80FD%u7EE7%u7EED%u3002''),
      pa_steps =
        [(uni ''%u786E%u8BA4%u4E2D%u8F6C%u670D%u52A1%u5668%u4E0A%u7684 liveline-worker %u5728%u7EBF%u3002''),
         (uni ''%u786E%u8BA4 role=transit%u3002''),
         (uni ''%u786E%u8BA4 heartbeat %u6B63%u5E38%u3002''),
         (uni ''%u786E%u8BA4 interface_name %u5DF2%u4E0A%u62A5%u3002''),
         (uni ''%u6062%u590D%u540E%u91CD%u65B0%u751F%u6210 HAProxy dry-run%u3002'')]\<rparr>"

definition landing_node_action :: plan_action where
  "landing_node_action =
     \<lparr>pa_id = (js ''landing-node-record''), pa_title = (uni ''%u9700%u8981%u8865%u9F50%uFF1A%u6B63%u5F0F%u843D%u5730%u8282%u70B9%u8BB0%u5F55''), pa_severity = (js ''danger''),
      pa_description = (uni ''candidate %u5F15%u7528%u7684%u843D%u5730%u8282%u70B9%u5FC5%u987B%u662F%u5F53%u524D%u6709%u6548 active %u8282%u70B9%u3002''),
      pa_steps =
        [(uni ''%u9009%u62E9%u6216%u767B%u8BB0 active %u843D%u5730%u8282%u70B9%u3002''),
         (uni ''%u843D%u5730%u8282%u70B9%u5FC5%u987B%u6709 VPS IP%u3002''),
         (uni ''%u843D%u5730%u8282%u70B9%u5FC5%u987B%u6709 xray_port%u3002''),
         (uni ''%u4E0D%u8BFB%u53D6%u3001%u4E0D%u8F93%u51FA%u5B8C%u6574 share_link%u3002''),
         (uni ''%u7528%u6B63%u5F0F%u843D%u5730%u8282%u70B9%u91CD%u65B0%u751F%u6210 HAProxy dry-run%u3002'')]\<rparr>"

definition regenerate_action :: plan_action where
  "regenerate_action =
     \<lparr>pa_id = (js ''regenerate-dry-run-for-current-node''), pa_title = (uni ''%u9700%u8981%u91CD%u65B0%u751F%u6210 dry-run%uFF1Acandidate host/port %u4E0E%u5F53%u524D%u6B63%u5F0F%u843D%u5730%u8282%u70B9%u4E0D%u4E00%u81F4''), pa_severity = (js ''warning''),
      pa_description = (uni ''%u65E7 candidate %u7684%u76EE%u6807%u5730%u5740%u6216%u7AEF%u53E3%u4E0D%u80FD%u4EE3%u8868%u5F53%u524D%u6B63%u5F0F%u843D%u5730%u8282%u70B9%u3002''),
      pa_steps =
        [(uni ''%u4E0D%u8981%u7EE7%u7EED%u4F7F%u7528%u65E7 candidate%u3002''),
         (uni ''%u4EE5%u5F53%u524D active %u843D%u5730%u8282%u70B9%u7684 VPS IP / xray_port %u91CD%u65B0%u751F%u6210 HAProxy dry-run%u3002'')]\<rparr>"

definition not_succeeded_action :: plan_action where
  "not_succeeded_action =
     \<lparr>pa_id = (js ''dry-run-not-succeeded''), pa_title = (uni ''%u9700%u8981%u91CD%u65B0%u751F%u6210%u6216%u7B49%u5F85%u6210%u529F%u7684 dry-run''), pa_severity = (js ''warning''),
      pa_description = (uni ''%u53EA%u6709 succeeded %u7684 HAProxy dry-run candidate %u624D%u80FD%u8FDB%u5165 readiness%u3002''),
      pa_steps =
        [(uni ''%u5F53%u524D dry-run %u4E0D%u662F succeeded%u3002''),
         (uni ''%u4E0D%u5141%u8BB8 readiness%u3002''),
         (uni ''%u91CD%u65B0%u751F%u6210%u6210%u529F%u7684 HAProxy dry-run%u3002'')]\<rparr>"

definition review_action :: plan_action where
  "review_action =
     \<lparr>pa_id = (js ''review-blocking-checks''), pa_title = (uni ''%u9700%u8981%u5904%u7406%uFF1A%u5176%u5B83%u5B8C%u6574%u6027%u963B%u585E%u9879''), pa_severity = (js ''danger''),
      pa_description = (uni ''%u5F53%u524D candidate %u4ECD%u6709%u672A%u5F52%u7C7B%u7684 danger %u7EA7%u963B%u585E%u9879%u3002''),
      pa_steps =
        [(uni ''%u67E5%u770B blocked checks %u7684 next_action%uFF0C%u5904%u7406%u540E%u91CD%u65B0%u8BFB%u53D6%u4E0A%u4E0B%u6587%u3002'')]\<rparr>"

definition blocking_checks_of :: "dry_run_candidate \<Rightarrow> integrity_check list" where
  "blocking_checks_of candidate =
     List.filter (\<lambda>c. \<not> ic_passed c \<and> ic_severity c = (js ''danger'')) (cd_integrity_checks candidate)"

definition hasAnyBlocked :: "jsstr set \<Rightarrow> jsstr list \<Rightarrow> bool" where
  "hasAnyBlocked blockedIds ids \<longleftrightarrow> list_ex (\<lambda>i. i \<in> blockedIds) ids"

definition grouped_actions :: "jsstr set \<Rightarrow> plan_action list" where
  "grouped_actions blockedIds =
     (if hasAnyBlocked blockedIds transit_resource_checks then [transit_resource_action] else [])
     @ (if hasAnyBlocked blockedIds transit_worker_checks then [transit_worker_action] else [])
     @ (if hasAnyBlocked blockedIds landing_node_checks then [landing_node_action] else [])
     @ (if hasAnyBlocked blockedIds target_match_checks then [regenerate_action] else [])
     @ (if hasAnyBlocked blockedIds status_checks then [not_succeeded_action] else [])"

definition required_actions_of :: "integrity_check list \<Rightarrow> plan_action list" where
  "required_actions_of blocking =
     (let actions = grouped_actions (ic_id ` set blocking)
      in if actions = [] \<and> blocking \<noteq> [] then [review_action] else actions)"

definition candidate_summary_of :: "dry_run_candidate \<Rightarrow> (jsstr \<times> jsstr) list" where
  "candidate_summary_of candidate =
     [((js ''dry_run_command_id''), valueOrDash (Some (cd_id candidate))),
      ((js ''status''), valueOrDash (Some (cd_status candidate))),
      ((js ''integrity''), if cd_integrity_ready candidate then (js ''ready'') else (js ''blocked'')),
      ((js ''planned_listen_port''), numberOrDash (cd_planned_listen_port candidate)),
      ((js ''landing_target_host''), valueOrDash (cd_landing_target_host candidate)),
      ((js ''landing_target_port''), numberOrDash (cd_landing_target_port candidate)),
      ((js ''route_name''), valueOrDash (cd_route_name candidate)),
      ((js ''route_display_name''), valueOrDash (cd_route_display_name candidate)),
      ((js ''planned_service_name''), valueOrDash (cd_planned_service_name candidate)),
      ((js ''transit_resource_id''), valueOrDash (cd_transit_resource_id candidate)),
      ((js ''landing_node_id''), valueOrDash (cd_landing_node_id candidate)),
      ((js ''target_worker_id''), valueOrDash (cd_target_worker_id candidate))]"

definition buildHaproxyResourceRebuildPlan :: "dry_run_candidate option \<Rightarrow> rebuild_plan" where
  "buildHaproxyResourceRebuildPlan cand =
     (case cand of
        None \<Rightarrow>
          \<lparr>rp_status = NoCandidate,
           rp_summary = (uni ''%u8BF7%u5148%u8BFB%u53D6%u4E0A%u4E0B%u6587%u5E76%u9009%u62E9%u4E00%u4E2A HAProxy dry-run candidate%u3002''),
           rp_candidate_summary = [], rp_blocking_checks = [], rp_required_actions = [],
           rp_recommended_next_stage = (js ''Stage 3.4.25-advanced-debug-resource-registration-plan'')\<rparr>
      | Some candidate \<Rightarrow>
          let blockingChecks = blocking_checks_of candidate;
              requiredActions = required_actions_of blockingChecks;
              needsResourceOrNode = list_ex (\<lambda>action. pa_id action \<in>
                set [(js ''transit-resource-record''), (js ''transit-worker-status''), (js ''landing-node-record'')])
                requiredActions
          in \<lparr>rp_status = (if cd_integrity_ready candidate then PlanReady else PlanBlocked),
              rp_summary =
                (if cd_integrity_ready candidate
                 then (uni ''%u5F53%u524D candidate %u4E0A%u4E0B%u6587%u5B8C%u6574%uFF0C%u4E0D%u9700%u8981%u91CD%u5EFA%u8D44%u6E90%u3002%u8BF7%u4EBA%u5DE5%u786E%u8BA4%u7AEF%u53E3%u653E%u884C%u548C%u5B89%u5168%u8FB9%u754C%u540E%u518D%u8FD0%u884C readiness%u3002'')
                 else (uni ''%u5F53%u524D candidate %u662F%u5386%u53F2 dry-run %u53C2%u6570%uFF0C%u6B63%u5F0F%u8D44%u6E90%u4E0A%u4E0B%u6587%u4E0D%u5B8C%u6574%u3002%u8BF7%u5148%u6309%u4E0B%u65B9%u65B9%u6848%u8865%u9F50%u8D44%u6E90%u6216%u91CD%u65B0%u751F%u6210 dry-run%u3002'')),
              rp_candidate_summary = candidate_summary_of candidate,
              rp_blocking_checks = blockingChecks,
              rp_required_actions = requiredActions,
              rp_recommended_next_stage =
                (if cd_integrity_ready candidate then (uni ''%u4E0D%u9700%u8981%u4E0B%u4E00%u9636%u6BB5%u8D44%u6E90%u91CD%u5EFA'')
                 else if needsResourceOrNode
                 then (js ''Stage 3.4.25-advanced-debug-resource-registration-plan'')
                 else (js ''Stage 3.4.25-advanced-debug-haproxy-dry-run-regenerate''))\<rparr>)"

definition rebuild_plan_lines :: "rebuild_plan \<Rightarrow> jsstr list" where
  "rebuild_plan_lines plan =
     [(js ''HAProxy Resource Rebuild Plan''), [], (js ''Candidate Summary'')]
     @ map (\<lambda>(label, value). (js ''- '') @ label @ (js '': '') @ value) (rp_candidate_summary plan)
     @ [[], (js ''Plan Summary''),
        (js ''- status: '') @ plan_status_text (rp_status plan),
        (js ''- summary: '') @ rp_summary plan,
        (js ''- recommended_next_stage: '') @ rp_recommended_next_stage plan,
        [], (js ''Blocked Checks'')]
     @ (if rp_blocking_checks plan \<noteq> []
        then concat (map (\<lambda>c. [(js ''- '') @ ic_label c @ (js '' ('') @ ic_id c @ (js '')''),
               (js ''  message: '') @ ic_message c,
               (js ''  next_action: '') @ ic_next_action c,
               (js ''  evidence_summary: '') @ nullish (ic_evidence_summary c) (js ''-'')]) (rp_blocking_checks plan))
        else [(js ''- none'')])
     @ [[], (js ''Required Resources / Actions'')]
     @ (if rp_required_actions plan \<noteq> []
        then concat (map (\<lambda>a. [(js ''- '') @ pa_title a, (js ''  description: '') @ pa_description a]
               @ map (\<lambda>step. (js ''  * '') @ step) (pa_steps a)) (rp_required_actions plan))
        else [(js ''- none'')])"

definition formatHaproxyResourceRebuildPlanText :: "rebuild_plan \<Rightarrow> jsstr" where
  "formatHaproxyResourceRebuildPlanText plan = join [10] (rebuild_plan_lines plan)"

subsection \<open>Registration plan\<close>

definition findIntegrityCheck :: "dry_run_candidate \<Rightarrow> jsstr \<Rightarrow> integrity_check option" where
  "findIntegrityCheck candidate checkId =
     find_opt (\<lambda>c. ic_id c = checkId) (cd_integrity_checks candidate)"

definition fieldFromCheck :: "dry_run_candidate \<Rightarrow> jsstr \<Rightarrow> jsstr \<Rightarrow> jsstr" where
  "fieldFromCheck candidate checkId fallback =
     (case findIntegrityCheck candidate checkId of
        None \<Rightarrow> valueOrDash (Some fallback)
      | Some c \<Rightarrow> valueOrDash (Some (nullish (ic_evidence_summary c) (ic_message c))))"

definition route_label :: "dry_run_candidate \<Rightarrow> jsstr option" where
  "route_label candidate =
     (case cd_route_display_name candidate of Some n \<Rightarrow> Some n | None \<Rightarrow> cd_route_name candidate)"

definition transit_resource_section :: "dry_run_candidate \<Rightarrow> registration_section" where
  "transit_resource_section candidate =
     \<lparr>rs_id = (js ''transit-resource-registration-draft''), rs_title = (uni ''%u6B63%u5F0F%u4E2D%u8F6C%u8D44%u6E90%u767B%u8BB0%u8349%u6848''), rs_severity = (js ''danger''),
      rs_description = (uni ''%u7528%u4E8E%u51C6%u5907%u65B0%u7684%u6709%u6548%u4E2D%u8F6C%u8D44%u6E90%u8BB0%u5F55%uFF1B%u5386%u53F2 deleted resource id %u53EA%u80FD%u4F5C%u4E3A%u5BA1%u8BA1%u7EBF%u7D22%u3002''),
      rs_fields =
        [\<lparr>rf_key = (js ''transit_resource_id_from_candidate''),
           rf_value = valueOrDash (cd_transit_resource_id candidate),
           rf_source = FromCandidate, rf_required = True,
           rf_note = (uni ''%u4EC5%u4F5C%u4E3A%u5386%u53F2%u5F15%u7528%uFF0C%u4E0D%u53EF%u76F4%u63A5%u590D%u7528 deleted %u8BB0%u5F55%u3002'')\<rparr>,
         \<lparr>rf_key = (js ''transit_resource_status_problem''),
           rf_value = fieldFromCheck candidate (js ''transit_resource_not_deleted'') (fieldFromCheck candidate (js ''transit_resource_status_supported'') (js ''-'')),
           rf_source = FromCheck, rf_required = True,
           rf_note = (uni ''%u5F53%u524D%u8D44%u6E90%u4E0D%u53EF%u7528%uFF0C%u9700%u91CD%u65B0%u767B%u8BB0%u6216%u6062%u590D%u6709%u6548%u8D44%u6E90%u3002'')\<rparr>,
         \<lparr>rf_key = (js ''transit_resource_name_hint''),
           rf_value = fieldFromCheck candidate (js ''transit_resource_record_exists'') (valueOrDash (route_label candidate)),
           rf_source = FromCheck, rf_required = False,
           rf_note = (uni ''%u4EC5%u4F5C%u547D%u540D%u53C2%u8003%uFF0C%u9700%u4EBA%u5DE5%u786E%u8BA4%u3002'')\<rparr>,
         \<lparr>rf_key = (js ''entry_host''),
           rf_value = (js ''manual_required''),
           rf_source = ManualRequired, rf_required = True,
           rf_note = (uni ''%u5FC5%u987B%u4EBA%u5DE5%u786E%u8BA4%u4E2D%u8F6C%u670D%u52A1%u5668%u516C%u7F51%u5165%u53E3 IP / host%u3002'')\<rparr>,
         \<lparr>rf_key = (js ''entry_port''),
           rf_value = (js ''manual_required''),
           rf_source = ManualRequired, rf_required = True,
           rf_note = (uni ''%u4E2D%u8F6C%u8D44%u6E90%u5165%u53E3%u7AEF%u53E3%u9700%u4EBA%u5DE5%u786E%u8BA4%uFF0C%u4E0D%u4ECE%u65E7 route %u76D1%u542C%u7AEF%u53E3%u81EA%u52A8%u5957%u7528%u3002'')\<rparr>,
         \<lparr>rf_key = (js ''ssh_port''),
           rf_value = (js ''manual_required''),
           rf_source = ManualRequired, rf_required = True,
           rf_note = (uni ''%u4EC5%u4F5C%u4E3A%u540E%u7EED%u53D7%u4FDD%u62A4%u767B%u8BB0%u6240%u9700%u4FE1%u606F%uFF1B%u672C%u9636%u6BB5%u4E0D%u4F1A%u8FDE%u63A5 SSH%u3002'')\<rparr>,
         \<lparr>rf_key = (js ''resource_type''),
           rf_value = (js ''server''),
           rf_source = ManualRequired, rf_required = True,
           rf_note = (uni ''%u4EC5%u8868%u793A%u666E%u901A%u81EA%u5EFA%u4E2D%u8F6C%u670D%u52A1%u5668%u8D44%u6E90%u3002'')\<rparr>,
         \<lparr>rf_key = (js ''expected_status''),
           rf_value = (uni ''active %u6216 worker_online''),
           rf_source = ManualRequired, rf_required = True,
           rf_note = (uni ''%u5FC5%u987B%u7531%u53D7%u4FDD%u62A4%u767B%u8BB0%u6D41%u7A0B%u786E%u8BA4%u3002'')\<rparr>,
         \<lparr>rf_key = (js ''worker_role''),
           rf_value = (js ''transit''),
           rf_source = ManualRequired, rf_required = True,
           rf_note = (uni ''%u4E2D%u8F6C Worker %u5FC5%u987B%u4EE5 transit role %u6CE8%u518C%u3002'')\<rparr>,
         \<lparr>rf_key = (js ''worker_binding_required''),
           rf_value = (js ''true''),
           rf_source = ManualRequired, rf_required = True,
           rf_note = (uni ''%u9700%u8981%u786E%u4FDD liveline-worker %u5DF2%u767B%u8BB0%u3001%u5728%u7EBF%uFF0C%u5E76%u7ED1%u5B9A%u8BE5%u4E2D%u8F6C%u8D44%u6E90%u3002'')\<rparr>],
      rs_steps =
        [(uni ''%u4E0D%u8981%u590D%u7528%u5DF2 deleted %u7684%u65E7 transit_resource_id%u3002''),
         (uni ''%u786E%u8BA4%u4E2D%u8F6C%u670D%u52A1%u5668%u516C%u7F51 IP / host%u3001SSH %u7AEF%u53E3%u3001%u533A%u57DF%u3001%u7528%u9014%u3002''),
         (uni ''%u786E%u8BA4%u6216%u91CD%u65B0%u7ED1%u5B9A transit Worker%u3002''),
         (uni ''Worker online %u4E14 interface_name %u4E0A%u62A5%u540E%uFF0C%u518D%u91CD%u65B0%u751F%u6210 HAProxy dry-run%u3002'')]\<rparr>"

definition landing_node_section :: "dry_run_candidate \<Rightarrow> registration_section" where
  "landing_node_section candidate =
     \<lparr>rs_id = (js ''landing-node-registration-draft''), rs_title = (uni ''%u6B63%u5F0F%u843D%u5730%u8282%u70B9%u767B%u8BB0%u8349%u6848''), rs_severity = (js ''danger''),
      rs_description = (uni ''%u7528%u4E8E%u51C6%u5907%u5F53%u524D active %u843D%u5730%u8282%u70B9%u8BB0%u5F55%uFF1Bcandidate %u5B57%u6BB5%u53EA%u662F%u5386%u53F2%u76EE%u6807%u53C2%u6570%u3002''),
      rs_fields =
        [\<lparr>rf_key = (js ''landing_node_id_from_candidate''),
           rf_value = valueOrDash (cd_landing_node_id candidate),
           rf_source = FromCandidate, rf_required = True,
           rf_note = (uni ''%u4EC5%u4F5C%u4E3A%u5386%u53F2%u5F15%u7528%uFF0C%u4E0D%u53EF%u76F4%u63A5%u590D%u7528 deleted / missing %u8BB0%u5F55%u3002'')\<rparr>,
         \<lparr>rf_key = (js ''landing_target_host_from_candidate''),
           rf_value = valueOrDash (cd_landing_target_host candidate),
           rf_source = FromCandidate, rf_required = True,
           rf_note = (uni ''%u5386%u53F2%u843D%u5730%u76EE%u6807 IP%uFF0C%u9700%u8981%u4EBA%u5DE5%u786E%u8BA4%u662F%u5426%u4ECD%u662F%u5F53%u524D active %u843D%u5730 VPS%u3002'')\<rparr>,
         \<lparr>rf_key = (js ''landing_target_port_from_candidate''),
           rf_value = numberOrDash (cd_landing_target_port candidate),
           rf_source = FromCandidate, rf_required = True,
           rf_note = (uni ''%u5386%u53F2 Xray %u7AEF%u53E3%uFF0C%u9700%u8981%u4EBA%u5DE5%u786E%u8BA4%u662F%u5426%u4ECD%u76D1%u542C%u3002'')\<rparr>,
         \<lparr>rf_key = (js ''node_name_hint''),
           rf_value = valueOrDash (route_label candidate),
           rf_source = FromCandidate, rf_required = False,
           rf_note = (uni ''%u4EC5%u4F5C%u8282%u70B9%u547D%u540D%u53C2%u8003%u3002'')\<rparr>,
         \<lparr>rf_key = (js ''vps_ip''),
           rf_value = valueOrDash (cd_landing_target_host candidate),
           rf_source = FromCandidate, rf_required = True,
           rf_note = (uni ''%u9700%u8981%u4EBA%u5DE5%u786E%u8BA4%u8FD9%u662F%u5F53%u524D%u6B63%u5F0F%u843D%u5730 VPS IP%u3002'')\<rparr>,
         \<lparr>rf_key = (js ''xray_port''),
           rf_value = numberOrDash (cd_landing_target_port candidate),
           rf_source = FromCandidate, rf_required = True,
           rf_note = (uni ''%u9700%u8981%u4EBA%u5DE5%u786E%u8BA4%u8FD9%u662F%u5F53%u524D active Reality/Xray %u7AEF%u53E3%u3002'')\<rparr>,
         \<lparr>rf_key = (js ''expected_status''),
           rf_value = (js ''active''),
           rf_source = ManualRequired, rf_required = True,
           rf_note = (uni ''%u843D%u5730%u8282%u70B9%u5FC5%u987B%u662F active%u3002'')\<rparr>,
         \<lparr>rf_key = (js ''share_link_handling''),
           rf_value = (js ''do_not_export_or_modify_full_share_link''),
           rf_source = ManualRequired, rf_required = True,
           rf_note = (uni ''%u672C%u9636%u6BB5%u4E0D%u8BFB%u53D6%u3001%u4E0D%u8F93%u51FA%u3001%u4E0D%u4FEE%u6539%u5B8C%u6574 share_link%u3002'')\<rparr>],
      rs_steps =
        [(uni ''%u786E%u8BA4%u843D%u5730 VPS IP %u662F%u5426%u4ECD%u4E3A candidate landing_target_host%u3002''),
         (uni ''%u786E%u8BA4%u843D%u5730 Xray / Reality %u7AEF%u53E3%u662F%u5426%u4ECD%u4E3A candidate landing_target_port%u3002''),
         (uni ''%u5982%u679C%u7CFB%u7EDF%u91CC%u6CA1%u6709 active %u843D%u5730%u8282%u70B9%u8BB0%u5F55%uFF0C%u4E0B%u4E00%u9636%u6BB5%u53EA%u5141%u8BB8%u901A%u8FC7%u53D7%u4FDD%u62A4%u767B%u8BB0%u5165%u53E3%u8865%u767B%u8BB0%u3002''),
         (uni ''%u4E0D%u8BFB%u53D6%u3001%u4E0D%u8F93%u51FA%u5B8C%u6574 share_link%u3002''),
         (uni ''%u8865%u767B%u8BB0%u540E%u91CD%u65B0%u751F%u6210 HAProxy dry-run%u3002'')]\<rparr>"

definition transit_worker_section :: "dry_run_candidate \<Rightarrow> registration_section" where
  "transit_worker_section candidate =
     \<lparr>rs_id = (js ''transit-worker-preparation''), rs_title = (uni ''Transit Worker %u51C6%u5907%u6E05%u5355''), rs_severity = (js ''warning''),
      rs_description = (uni ''%u7528%u4E8E%u786E%u8BA4%u4E2D%u8F6C%u670D%u52A1%u5668%u4E0A%u7684 Worker %u53EF%u4EE5%u4F5C%u4E3A HAProxy %u521B%u5EFA%u76EE%u6807%u3002''),
      rs_fields =
        [\<lparr>rf_key = (js ''target_worker_id_from_candidate''),
           rf_value = valueOrDash (cd_target_worker_id candidate),
           rf_source = FromCandidate, rf_required = True,
           rf_note = (uni ''%u4EC5%u4F5C%u4E3A%u5386%u53F2 Worker %u5F15%u7528%uFF0C%u5FC5%u987B%u786E%u8BA4%u5F53%u524D Worker %u4ECD%u5728%u7EBF%u5E76%u7ED1%u5B9A%u6709%u6548%u8D44%u6E90%u3002'')\<rparr>,
         \<lparr>rf_key = (js ''required_role''),
           rf_value = (js ''transit''),
           rf_source = ManualRequired, rf_required = True,
           rf_note = (uni ''Worker role %u5FC5%u987B%u662F transit%u3002'')\<rparr>,
         \<lparr>rf_key = (js ''required_status''),
           rf_value = (js ''online''),
           rf_source = ManualRequired, rf_required = True,
           rf_note = (uni ''Worker %u5FC5%u987B%u5728%u7EBF%u4E14 heartbeat %u672A%u8FC7%u671F%u3002'')\<rparr>,
         \<lparr>rf_key = (js ''interface_name_required''),
           rf_value = (js ''true''),
           rf_source = ManualRequired, rf_required = True,
           rf_note = (uni ''Worker %u5FC5%u987B%u4E0A%u62A5 interface_name%u3002'')\<rparr>,
         \<lparr>rf_key = (js ''heartbeat_required''),
           rf_value = (js ''true''),
           rf_source = ManualRequired, rf_required = True,
           rf_note = (uni ''%u5FC5%u987B%u7B49%u5F85%u4E3B%u63A7%u6536%u5230 Worker heartbeat%u3002'')\<rparr>],
      rs_steps =
        [(uni ''%u786E%u8BA4%u4E2D%u8F6C%u670D%u52A1%u5668%u4E0A liveline-worker %u5DF2%u5B89%u88C5%u3002''),
         (uni ''%u786E%u8BA4 worker role=transit%u3002''),
         (uni ''%u786E%u8BA4 worker online%u3002''),
         (uni ''%u786E%u8BA4 heartbeat %u6B63%u5E38%u3002''),
         (uni ''%u786E%u8BA4 interface_name %u5DF2%u4E0A%u62A5%u3002'')]\<rparr>"

definition missing_manual_inputs :: "jsstr list" where
  "missing_manual_inputs =
     [(uni ''%u4E2D%u8F6C%u670D%u52A1%u5668%u516C%u7F51 IP / host''),
      (uni ''%u4E2D%u8F6C%u670D%u52A1%u5668 SSH %u7AEF%u53E3''),
      (uni ''%u4E2D%u8F6C%u670D%u52A1%u5668%u533A%u57DF / %u540D%u79F0''),
      (uni ''transit Worker %u662F%u5426%u5728%u7EBF%u5E76%u7ED1%u5B9A''),
      (uni ''%u843D%u5730 VPS IP %u662F%u5426%u4ECD%u6709%u6548''),
      (uni ''%u843D%u5730 Xray / Reality %u7AEF%u53E3%u662F%u5426%u4ECD%u6709%u6548''),
      (uni ''%u843D%u5730%u8282%u70B9%u662F%u5426 active'')]"

definition required_sections_of :: "dry_run_candidate \<Rightarrow> rebuild_plan \<Rightarrow> registration_section list" where
  "required_sections_of candidate rebuildPlan =
     (let blockedIds = ic_id ` set (rp_blocking_checks rebuildPlan);
          actionIds = pa_id ` set (rp_required_actions rebuildPlan);
          needsTransitResource = ((js ''transit-resource-record'') \<in> actionIds
            \<or> hasAnyBlocked blockedIds transit_resource_checks);
          needsTransitWorker = ((js ''transit-worker-status'') \<in> actionIds);
          needsLandingNode = ((js ''landing-node-record'') \<in> actionIds
            \<or> hasAnyBlocked blockedIds landing_node_checks)
      in (if needsTransitResource then [transit_resource_section candidate] else [])
         @ (if needsLandingNode then [landing_node_section candidate] else [])
         @ (if needsTransitWorker then [transit_worker_section candidate] else []))"

definition buildResourceRegistrationPlan ::
  "dry_run_candidate option \<Rightarrow> rebuild_plan \<Rightarrow> registration_plan" where
  "buildResourceRegistrationPlan cand rebuildPlan =
     (case cand of
        None \<Rightarrow>
          \<lparr>rg_status = NoCandidate,
           rg_summary = (uni ''%u8BF7%u5148%u8BFB%u53D6%u4E0A%u4E0B%u6587%u5E76%u9009%u62E9%u4E00%u4E2A HAProxy dry-run candidate%u3002''),
           rg_required_sections = [], rg_missing_manual_inputs = [],
           rg_recommended_next_stage =
             (js ''Stage 3.4.26-advanced-debug-protected-resource-registration-ui'')\<rparr>
      | Some candidate \<Rightarrow>
          let requiredSections = required_sections_of candidate rebuildPlan
          in \<lparr>rg_status = (if cd_integrity_ready candidate then PlanReady else PlanBlocked),
              rg_summary =
                (if cd_integrity_ready candidate
                 then (uni ''%u5F53%u524D candidate %u4E0A%u4E0B%u6587%u5B8C%u6574%uFF0C%u6682%u4E0D%u9700%u8981%u767B%u8BB0%u65B0%u8D44%u6E90%u3002%u53EF%u4EE5%u7EE7%u7EED%u6309 readiness %u6D41%u7A0B%u4EBA%u5DE5%u786E%u8BA4%u7AEF%u53E3%u548C%u5B89%u5168%u8FB9%u754C%u3002'')
                 else (uni ''%u5F53%u524D candidate %u5F15%u7528%u7684%u6B63%u5F0F%u8D44%u6E90%u4E0A%u4E0B%u6587%u4E0D%u5B8C%u6574%u3002%u4E0B%u9762%u662F%u767B%u8BB0%u6B63%u5F0F%u8D44%u6E90%u524D%u7684%u51C6%u5907%u6E05%u5355%u3002%u672C%u9636%u6BB5%u53EA%u751F%u6210%u65B9%u6848%uFF0C%u4E0D%u521B%u5EFA%u8D44%u6E90%u3002'')),
              rg_required_sections = requiredSections,
              rg_missing_manual_inputs =
                (if cd_integrity_ready candidate then [] else missing_manual_inputs),
              rg_recommended_next_stage =
                (if cd_integrity_ready candidate then (uni ''%u4E0D%u9700%u8981%u4E0B%u4E00%u9636%u6BB5%u8D44%u6E90%u767B%u8BB0'')
                 else if list_ex (\<lambda>section. rs_id section \<in>
                     set [(js ''transit-resource-registration-draft''), (js ''landing-node-registration-draft'')])
                     requiredSections
                 then (js ''Stage 3.4.26-advanced-debug-protected-resource-registration-ui'')
                 else (js ''Stage 3.4.26-advanced-debug-haproxy-dry-run-regenerate''))\<rparr>)"

definition registration_plan_lines ::
  "dry_run_candidate option \<Rightarrow> registration_plan \<Rightarrow> jsstr list" where
  "registration_plan_lines cand plan =
     [(js ''Resource Registration Plan''), [], (js ''Candidate Summary'')]
     @ (case cand of
          Some candidate \<Rightarrow>
            [(js ''- dry_run_command_id: '') @ valueOrDash (Some (cd_id candidate)),
             (js ''- status: '') @ valueOrDash (Some (cd_status candidate)),
             (js ''- integrity: '') @ (if cd_integrity_ready candidate then (js ''ready'') else (js ''blocked'')),
             (js ''- route_name: '') @ valueOrDash (cd_route_name candidate),
             (js ''- planned_listen_port: '') @ numberOrDash (cd_planned_listen_port candidate),
             (js ''- landing_target_host: '') @ valueOrDash (cd_landing_target_host candidate),
             (js ''- landing_target_port: '') @ numberOrDash (cd_landing_target_port candidate)]
        | None \<Rightarrow> [(js ''- no candidate selected'')])
     @ [[], (js ''Plan Summary''),
        (js ''- status: '') @ plan_status_text (rg_status plan),
        (js ''- summary: '') @ rg_summary plan,
        (js ''- recommended_next_stage: '') @ rg_recommended_next_stage plan,
        [], (js ''Required Sections'')]
     @ (if rg_required_sections plan \<noteq> []
        then concat (map (\<lambda>s.
               [(js ''- '') @ rs_title s, (js ''  description: '') @ rs_description s]
               @ concat (map (\<lambda>f.
                   [(js ''  field: '') @ rf_key f,
                    (js ''    value: '') @ rf_value f,
                    (js ''    source: '') @ field_source_text (rf_source f),
                    (js ''    required: '') @ (if rf_required f then (js ''yes'') else (js ''no'')),
                    (js ''    note: '') @ rf_note f]) (rs_fields s))
               @ map (\<lambda>step. (js ''  * '') @ step) (rs_steps s)) (rg_required_sections plan))
        else [(js ''- none'')])
     @ [[], (js ''Missing Manual Inputs'')]
     @ (if rg_missing_manual_inputs plan \<noteq> []
        then map (\<lambda>item. (js ''- '') @ item) (rg_missing_manual_inputs plan) else [(js ''- none'')])"

definition formatResourceRegistrationPlanText ::
  "dry_run_candidate option \<Rightarrow> registration_plan \<Rightarrow> jsstr" where
  "formatResourceRegistrationPlanText cand plan = join [10] (registration_plan_lines cand plan)"


subsection \<open>Properties\<close>

lemmas check_group_defs = transit_resource_checks_def transit_worker_checks_def
  landing_node_checks_def target_match_checks_def status_checks_def

lemmas plan_action_defs = transit_resource_action_def transit_worker_action_def
  landing_node_action_def regenerate_action_def not_succeeded_action_def review_action_def

definition known_checks :: "jsstr list" where
  "known_checks = transit_resource_checks @ transit_worker_checks @ landing_node_checks
     @ target_match_checks @ status_checks"

lemma hasAnyBlocked_iff: "hasAnyBlocked B ids \<longleftrightarrow> set ids \<inter> B \<noteq> {}"
  by (auto simp: hasAnyBlocked_def list_ex_iff)

lemma grouped_actions_Nil_iff: "grouped_actions B = [] \<longleftrightarrow> set known_checks \<inter> B = {}"
  by (auto simp: grouped_actions_def known_checks_def hasAnyBlocked_iff)

lemma required_actions_Nil_iff: "required_actions_of cs = [] \<longleftrightarrow> cs = []"
  by (auto simp: required_actions_of_def Let_def grouped_actions_Nil_iff)

text \<open>The action that answers a check id.\<close>

definition action_for :: "jsstr \<Rightarrow> plan_action" where
  "action_for i =
     (if i \<in> set transit_resource_checks then transit_resource_action
      else if i \<in> set transit_worker_checks then transit_worker_action
      else if i \<in> set landing_node_checks then landing_node_action
      else if i \<in> set target_match_checks then regenerate_action
      else if i \<in> set status_checks then not_succeeded_action
      else review_action)"

lemma action_for_required:
  assumes "c \<in> set cs" and "ic_id c \<in> set known_checks"
  shows "action_for (ic_id c) \<in> set (required_actions_of cs)"
proof -
  have "grouped_actions (ic_id ` set cs) \<noteq> []"
    using assms unfolding grouped_actions_Nil_iff by blast
  then have r: "required_actions_of cs = grouped_actions (ic_id ` set cs)"
    by (simp add: required_actions_of_def Let_def)
  have b: "hasAnyBlocked (ic_id ` set cs) ids" if "ic_id c \<in> set ids" for ids
    using that assms(1) by (auto simp: hasAnyBlocked_iff)
  show ?thesis
    using assms(2) unfolding r known_checks_def action_for_def
    by (auto simp: grouped_actions_def b)
qed

text \<open>
  For a selected candidate the rebuild plan has actions exactly when a
  danger-level integrity check failed; the checks it lists are those failures, in order; and
  every failed check with a known id is answered by the action of its group.
\<close>

theorem rebuild_plan_is_complete:
  "rp_blocking_checks (buildHaproxyResourceRebuildPlan (Some cand)) = blocking_checks_of cand
   \<and> (rp_required_actions (buildHaproxyResourceRebuildPlan (Some cand)) = []
      \<longleftrightarrow> blocking_checks_of cand = [])
   \<and> (\<forall>c \<in> set (blocking_checks_of cand). ic_id c \<in> set known_checks \<longrightarrow>
        action_for (ic_id c) \<in> set (rp_required_actions (buildHaproxyResourceRebuildPlan (Some cand))))"
  by (simp add: buildHaproxyResourceRebuildPlan_def Let_def required_actions_Nil_iff
      action_for_required)

definition failed_check :: "jsstr \<Rightarrow> integrity_check" where
  "failed_check i =
     \<lparr>ic_id = i, ic_label = i, ic_passed = False, ic_severity = (js ''danger''), ic_message = [],
      ic_next_action = [], ic_evidence_summary = None\<rparr>"

definition candidate_with :: "integrity_check list \<Rightarrow> bool \<Rightarrow> dry_run_candidate" where
  "candidate_with checks ready =
     \<lparr>cd_id = (js ''cmd-1''), cd_status = (js ''succeeded''), cd_created_at = None, cd_updated_at = None,
      cd_worker_id = (js ''w1''), cd_target_worker_id = None, cd_transit_resource_id = Some (js ''res-1''),
      cd_landing_node_id = Some (js ''node-1''), cd_planned_listen_port = Some 8443,
      cd_approved_planned_listen_port = None, cd_landing_target_host = Some (js ''10.0.0.2''),
      cd_approved_landing_target_host = None, cd_landing_target_port = Some 443,
      cd_approved_landing_target_port = None, cd_forwarding_method = (js ''haproxy_tcp''),
      cd_route_name = Some (js ''r1''), cd_route_display_name = None, cd_planned_service_name = None,
      cd_command_intent = None, cd_approval_stage = None, cd_dry_run = None,
      cd_approval_required = None, cd_real_execution = None,
      cd_user_approved_real_execution = None, cd_approved_firewall_confirmation = None,
      cd_integrity_ready = ready, cd_integrity_blocked = \<not> ready, cd_integrity_summary = [],
      cd_integrity_next_action = [], cd_integrity_checks = checks\<rparr>"

theorem rebuild_plan_is_complete_witness:
  "transit_worker_action \<in> set (rp_required_actions (buildHaproxyResourceRebuildPlan
      (Some (candidate_with [failed_check (js ''transit_worker_online'')] False))))"
proof -
  have "failed_check (js ''transit_worker_online'') \<in> set (blocking_checks_of
      (candidate_with [failed_check (js ''transit_worker_online'')] False))"
    by (simp add: blocking_checks_of_def candidate_with_def failed_check_def)
  moreover have "ic_id (failed_check (js ''transit_worker_online'')) \<in> set known_checks"
    by (simp add: failed_check_def known_checks_def check_group_defs)
  moreover have "action_for (ic_id (failed_check (js ''transit_worker_online''))) = transit_worker_action"
    by (simp add: failed_check_def action_for_def check_group_defs)
  ultimately show ?thesis
    using rebuild_plan_is_complete [of "candidate_with [failed_check (js ''transit_worker_online'')] False"]
    by metis
qed

text \<open>
  A failed check whose id belongs to no group gets the review action only
  when it fails alone: next to a classified failure the plan holds no action for it.
\<close>

theorem unclassified_check_is_dropped:
  "rp_required_actions (buildHaproxyResourceRebuildPlan
     (Some (candidate_with [failed_check (js ''unlisted_check'')] False))) = [review_action]
   \<and> rp_required_actions (buildHaproxyResourceRebuildPlan
     (Some (candidate_with [failed_check (js ''unlisted_check''), failed_check (js ''transit_worker_online'')] False)))
     = [transit_worker_action]"
  by (simp add: buildHaproxyResourceRebuildPlan_def Let_def required_actions_of_def
      blocking_checks_of_def candidate_with_def failed_check_def grouped_actions_def
      hasAnyBlocked_def check_group_defs)

subsection \<open>The two plans agree\<close>

lemma pa_ids:
  "pa_id transit_resource_action = (js ''transit-resource-record'')"
  "pa_id transit_worker_action = (js ''transit-worker-status'')"
  "pa_id landing_node_action = (js ''landing-node-record'')"
  "pa_id regenerate_action = (js ''regenerate-dry-run-for-current-node'')"
  "pa_id not_succeeded_action = (js ''dry-run-not-succeeded'')"
  "pa_id review_action = (js ''review-blocking-checks'')"
  by (simp_all add: plan_action_defs)

definition resource_ids :: "jsstr list" where
  "resource_ids = [(js ''transit-resource-record''), (js ''transit-worker-status''), (js ''landing-node-record''),
     (js ''regenerate-dry-run-for-current-node''), (js ''dry-run-not-succeeded''), (js ''review-blocking-checks'')]"

lemma distinct_resource_ids: "distinct resource_ids"
  by (simp add: resource_ids_def)

lemma mem_image_if: "x \<in> f ` set (if b then [a] else []) \<longleftrightarrow> b \<and> x = f a"
  by (cases b) simp_all

lemma required_ids:
  "i \<in> pa_id ` set (required_actions_of cs) \<longleftrightarrow>
   (if grouped_actions (ic_id ` set cs) = [] \<and> cs \<noteq> [] then i = pa_id review_action
    else hasAnyBlocked (ic_id ` set cs) transit_resource_checks \<and> i = pa_id transit_resource_action
      \<or> hasAnyBlocked (ic_id ` set cs) transit_worker_checks \<and> i = pa_id transit_worker_action
      \<or> hasAnyBlocked (ic_id ` set cs) landing_node_checks \<and> i = pa_id landing_node_action
      \<or> hasAnyBlocked (ic_id ` set cs) target_match_checks \<and> i = pa_id regenerate_action
      \<or> hasAnyBlocked (ic_id ` set cs) status_checks \<and> i = pa_id not_succeeded_action)"
proof (cases "grouped_actions (ic_id ` set cs) = [] \<and> cs \<noteq> []")
  case True
  then show ?thesis by (simp add: required_actions_of_def)
next
  case False
  then have "required_actions_of cs = grouped_actions (ic_id ` set cs)"
    by (auto simp: required_actions_of_def)
  then show ?thesis
    using False unfolding grouped_actions_def
    by (simp only: set_append image_Un Un_iff mem_image_if if_False)
qed

lemma action_ids_grouped:
  "(js ''transit-resource-record'') \<in> pa_id ` set (required_actions_of cs)
     \<longleftrightarrow> hasAnyBlocked (ic_id ` set cs) transit_resource_checks"
  "(js ''transit-worker-status'') \<in> pa_id ` set (required_actions_of cs)
     \<longleftrightarrow> hasAnyBlocked (ic_id ` set cs) transit_worker_checks"
  "(js ''landing-node-record'') \<in> pa_id ` set (required_actions_of cs)
     \<longleftrightarrow> hasAnyBlocked (ic_id ` set cs) landing_node_checks"
proof -
  have none: "\<not> hasAnyBlocked (ic_id ` set cs) ids"
    if "grouped_actions (ic_id ` set cs) = []" "set ids \<subseteq> set known_checks" for ids
    using that unfolding grouped_actions_Nil_iff hasAnyBlocked_iff by blast
  have sub: "set transit_resource_checks \<subseteq> set known_checks" "set transit_worker_checks \<subseteq> set known_checks"
    "set landing_node_checks \<subseteq> set known_checks"
    unfolding known_checks_def set_append by blast+
  note d = distinct_resource_ids [unfolded resource_ids_def distinct.simps set_simps insert_iff empty_iff]
  note ids = required_ids [of _ cs] pa_ids
  show "(js ''transit-resource-record'') \<in> pa_id ` set (required_actions_of cs)
     \<longleftrightarrow> hasAnyBlocked (ic_id ` set cs) transit_resource_checks"
    using d none [OF _ sub(1)] unfolding ids by metis
  show "(js ''transit-worker-status'') \<in> pa_id ` set (required_actions_of cs)
     \<longleftrightarrow> hasAnyBlocked (ic_id ` set cs) transit_worker_checks"
    using d none [OF _ sub(2)] unfolding ids by metis
  show "(js ''landing-node-record'') \<in> pa_id ` set (required_actions_of cs)
     \<longleftrightarrow> hasAnyBlocked (ic_id ` set cs) landing_node_checks"
    using d none [OF _ sub(3)] unfolding ids by metis
qed

text \<open>
  The registration plan asks for a section exactly when the rebuild plan it is
  given has the corresponding action, in a fixed order: resource, landing node, worker.
\<close>

theorem registration_sections_match_actions:
  "rg_required_sections
     (buildResourceRegistrationPlan (Some cand) (buildHaproxyResourceRebuildPlan (Some cand))) =
   (let ids = pa_id ` set (rp_required_actions (buildHaproxyResourceRebuildPlan (Some cand)))
    in (if (js ''transit-resource-record'') \<in> ids then [transit_resource_section cand] else [])
       @ (if (js ''landing-node-record'') \<in> ids then [landing_node_section cand] else [])
       @ (if (js ''transit-worker-status'') \<in> ids then [transit_worker_section cand] else []))"
proof -
  let ?plan = "buildHaproxyResourceRebuildPlan (Some cand)"
  have p: "rp_blocking_checks ?plan = blocking_checks_of cand"
    "rp_required_actions ?plan = required_actions_of (blocking_checks_of cand)"
    by (simp_all add: buildHaproxyResourceRebuildPlan_def Let_def)
  have "rg_required_sections (buildResourceRegistrationPlan (Some cand) ?plan)
        = required_sections_of cand ?plan"
    by (simp add: buildResourceRegistrationPlan_def Let_def)
  then show ?thesis
    by (simp add: required_sections_of_def Let_def p action_ids_grouped)
qed

end
