(* ===== verification/DebugRegistration.thy ===== *)
theory DebugRegistration
  imports DebugForm
begin

text \<open>
  The protected registration wizard of the debug panel, as pure functions: the draft and its
  validation, the request payloads of its four stages, the recognition of pasted results
  (\<^verbatim>\<open>extract...\<close> and \<^verbatim>\<open>parse...Source\<close>) and the printed explanations.
  A result of a stage is an unvalidated JSON value, as in the source, where it is cast.
  \<^verbatim>\<open>JSON.parse\<close> is a parameter \<open>parse\<close>: it returns a value or throws with a
  message; the text of that message is up to the JavaScript engine.
\<close>

subsection \<open>Constants\<close>

definition PROTECTED_RESOURCE_REGISTRATION_STAGE :: jsstr where
  "PROTECTED_RESOURCE_REGISTRATION_STAGE =
     (js ''Stage 3.4.26-advanced-debug-protected-resource-registration-ui'')"

definition PROTECTED_RESOURCE_REGISTRATION_NEXT_STAGE :: jsstr where
  "PROTECTED_RESOURCE_REGISTRATION_NEXT_STAGE =
     (js ''Stage 3.4.27-advanced-debug-protected-resource-registration-dry-run'')"

definition PROTECTED_RESOURCE_REGISTRATION_APPROVAL_STAGE :: jsstr where
  "PROTECTED_RESOURCE_REGISTRATION_APPROVAL_STAGE =
     (js ''3.4.28'')"

definition PROTECTED_RESOURCE_REGISTRATION_APPROVAL_MODE :: jsstr where
  "PROTECTED_RESOURCE_REGISTRATION_APPROVAL_MODE =
     (js ''approval_dry_run'')"

definition PROTECTED_RESOURCE_REGISTRATION_APPROVAL_NEXT_STAGE :: jsstr where
  "PROTECTED_RESOURCE_REGISTRATION_APPROVAL_NEXT_STAGE =
     (js ''Stage 3.4.29-protected-resource-registration-command-create'')"

definition PROTECTED_RESOURCE_REGISTRATION_COMMAND_CREATE_STAGE :: jsstr where
  "PROTECTED_RESOURCE_REGISTRATION_COMMAND_CREATE_STAGE =
     (js ''3.4.29'')"

definition PROTECTED_RESOURCE_REGISTRATION_COMMAND_CREATE_MODE :: jsstr where
  "PROTECTED_RESOURCE_REGISTRATION_COMMAND_CREATE_MODE =
     (js ''command_create'')"

definition PROTECTED_RESOURCE_REGISTRATION_COMMAND_CREATE_NEXT_STAGE :: jsstr where
  "PROTECTED_RESOURCE_REGISTRATION_COMMAND_CREATE_NEXT_STAGE =
     (js ''Stage 3.4.30-protected-resource-registration-execution-verify'')"

definition PROTECTED_RESOURCE_REGISTRATION_EXECUTION_VERIFY_STAGE :: jsstr where
  "PROTECTED_RESOURCE_REGISTRATION_EXECUTION_VERIFY_STAGE =
     (js ''3.4.30'')"

definition PROTECTED_RESOURCE_REGISTRATION_EXECUTION_VERIFY_MODE :: jsstr where
  "PROTECTED_RESOURCE_REGISTRATION_EXECUTION_VERIFY_MODE =
     (js ''execution_verify'')"

definition PROTECTED_RESOURCE_REGISTRATION_HAPROXY_DRY_RUN_NEXT_STAGE :: jsstr where
  "PROTECTED_RESOURCE_REGISTRATION_HAPROXY_DRY_RUN_NEXT_STAGE =
     (js ''Stage 3.4.31-regenerate-haproxy-dry-run'')"

definition protectedRegistrationSafetyBoundary :: "jsstr list" where
  "protectedRegistrationSafetyBoundary =
     [(js ''preview_only''),
      (uni ''%u4E0D%u63D0%u4EA4%u540E%u7AEF''),
      (uni ''%u4E0D%u521B%u5EFA transit_resource''),
      (uni ''%u4E0D%u521B%u5EFA landing_node''),
      (uni ''%u4E0D%u521B%u5EFA WorkerCommand''),
      (uni ''%u4E0D%u521B%u5EFA TransitRoute''),
      (uni ''%u4E0D%u521B%u5EFA HAProxy route''),
      (uni ''%u4E0D%u7ED1%u5B9A%u76D1%u542C%u7AEF%u53E3''),
      (uni ''%u4E0D SSH / %u4E0D%u8FDC%u7A0B%u6267%u884C''),
      (uni ''%u4E0D%u4FEE%u6539%u9632%u706B%u5899 / %u4E91%u5B89%u5168%u7EC4 / %u4E91%u9632%u706B%u5899''),
      (uni ''%u4E0D%u8BFB%u53D6%u3001%u4E0D%u8F93%u51FA%u3001%u4E0D%u4FEE%u6539%u5B8C%u6574 share_link''),
      (uni ''%u4E0D cutover'')]"

subsection \<open>The draft\<close>

record registration_draft =
  pd_transit_resource_name :: jsstr
  pd_transit_entry_host :: jsstr
  pd_transit_entry_port :: jsstr
  pd_transit_entry_region :: jsstr
  pd_transit_exit_region :: jsstr
  pd_transit_resource_type :: jsstr
  pd_transit_expected_status :: jsstr
  pd_transit_worker_role :: jsstr
  pd_transit_worker_binding_required :: bool
  pd_landing_node_name :: jsstr
  pd_landing_vps_ip :: jsstr
  pd_landing_xray_port :: jsstr
  pd_landing_expected_status :: jsstr
  pd_landing_share_link_handling :: jsstr
  pd_source_dry_run_command_id :: jsstr
  pd_source_candidate_route_name :: jsstr
  pd_source_candidate_listen_port :: jsstr
  pd_source_candidate_landing_host :: jsstr
  pd_source_candidate_landing_port :: jsstr
  pd_manual_confirm_transit_host :: bool
  pd_manual_confirm_worker_binding :: bool
  pd_manual_confirm_landing_host :: bool
  pd_manual_confirm_landing_port :: bool
  pd_manual_confirm_no_share_link_export :: bool
  pd_manual_confirm_no_remote_execution :: bool
  pd_manual_confirm_no_firewall_change :: bool
  pd_manual_confirm_no_cutover :: bool

definition buildProtectedResourceRegistrationDraft :: "dry_run_candidate option \<Rightarrow> registration_draft" where
  "buildProtectedResourceRegistrationDraft cand =
     (let candidateRouteName = (case cand of None \<Rightarrow> [] | Some c \<Rightarrow> nullish (cd_route_name c) []);
          landingNameHint = (case cand of None \<Rightarrow> candidateRouteName
             | Some c \<Rightarrow> nullish (cd_route_display_name c) candidateRouteName);
          host = (case cand of None \<Rightarrow> [] | Some c \<Rightarrow> nullish (cd_landing_target_host c) []);
          port_text = (\<lambda>n. case n of None \<Rightarrow> [] | Some p \<Rightarrow> if p = 0 then [] else string_of_int p);
          target = (case cand of None \<Rightarrow> [] | Some c \<Rightarrow> port_text (cd_landing_target_port c))
      in \<lparr>pd_transit_resource_name = [], pd_transit_entry_host = [], pd_transit_entry_port = [],
          pd_transit_entry_region = [], pd_transit_exit_region = [],
          pd_transit_resource_type = (js ''server''), pd_transit_expected_status = (js ''active''),
          pd_transit_worker_role = (js ''transit''), pd_transit_worker_binding_required = True,
          pd_landing_node_name = landingNameHint,
          pd_landing_vps_ip = host,
          pd_landing_xray_port = target,
          pd_landing_expected_status = (js ''active''),
          pd_landing_share_link_handling = (js ''do_not_export_or_modify_full_share_link''),
          pd_source_dry_run_command_id = (case cand of None \<Rightarrow> [] | Some c \<Rightarrow> cd_id c),
          pd_source_candidate_route_name = candidateRouteName,
          pd_source_candidate_listen_port =
            (case cand of None \<Rightarrow> [] | Some c \<Rightarrow> port_text (cd_planned_listen_port c)),
          pd_source_candidate_landing_host = host,
          pd_source_candidate_landing_port = target,
          pd_manual_confirm_transit_host = False,
          pd_manual_confirm_worker_binding = False,
          pd_manual_confirm_landing_host = False,
          pd_manual_confirm_landing_port = False,
          pd_manual_confirm_no_share_link_export = False,
          pd_manual_confirm_no_remote_execution = False,
          pd_manual_confirm_no_firewall_change = False,
          pd_manual_confirm_no_cutover = False\<rparr>)"

definition required_draft_fields :: "((registration_draft \<Rightarrow> jsstr) \<times> jsstr) list" where
  "required_draft_fields =
     [(pd_transit_resource_name, (uni ''transit_resource_name %u4E0D%u80FD%u4E3A%u7A7A'')),
      (pd_transit_entry_host, (uni ''transit_entry_host %u4E0D%u80FD%u4E3A%u7A7A'')),
      (pd_transit_entry_region, (uni ''transit_entry_region %u4E0D%u80FD%u4E3A%u7A7A'')),
      (pd_transit_exit_region, (uni ''transit_exit_region %u4E0D%u80FD%u4E3A%u7A7A'')),
      (pd_landing_node_name, (uni ''landing_node_name %u4E0D%u80FD%u4E3A%u7A7A'')),
      (pd_landing_vps_ip, (uni ''landing_vps_ip %u4E0D%u80FD%u4E3A%u7A7A''))]"

definition draft_confirmation_checks :: "((registration_draft \<Rightarrow> bool) \<times> jsstr) list" where
  "draft_confirmation_checks =
     [(pd_manual_confirm_transit_host, (uni ''%u9700%u8981%u4EBA%u5DE5%u786E%u8BA4%u4E2D%u8F6C%u670D%u52A1%u5668%u5165%u53E3 host / IP'')),
      (pd_manual_confirm_worker_binding, (uni ''%u9700%u8981%u4EBA%u5DE5%u786E%u8BA4 transit Worker %u540E%u7EED%u9700%u8981%u5728%u7EBF%u5E76%u7ED1%u5B9A'')),
      (pd_manual_confirm_landing_host, (uni ''%u9700%u8981%u4EBA%u5DE5%u786E%u8BA4%u843D%u5730 VPS IP %u4ECD%u6709%u6548'')),
      (pd_manual_confirm_landing_port, (uni ''%u9700%u8981%u4EBA%u5DE5%u786E%u8BA4%u843D%u5730 Xray / Reality %u7AEF%u53E3%u4ECD%u6709%u6548'')),
      (pd_manual_confirm_no_share_link_export, (uni ''%u9700%u8981%u786E%u8BA4%u4E0D%u8BFB%u53D6%u3001%u4E0D%u8F93%u51FA%u3001%u4E0D%u4FEE%u6539%u5B8C%u6574 share_link'')),
      (pd_manual_confirm_no_remote_execution, (uni ''%u9700%u8981%u786E%u8BA4%u672C%u9636%u6BB5%u4E0D SSH%u3001%u4E0D%u8FDC%u7A0B%u6267%u884C'')),
      (pd_manual_confirm_no_firewall_change, (uni ''%u9700%u8981%u786E%u8BA4%u672C%u9636%u6BB5%u4E0D%u4FEE%u6539%u9632%u706B%u5899 / %u4E91%u5B89%u5168%u7EC4 / %u4E91%u9632%u706B%u5899'')),
      (pd_manual_confirm_no_cutover, (uni ''%u9700%u8981%u786E%u8BA4%u672C%u9636%u6BB5%u4E0D cutover''))]"

definition validateProtectedResourceRegistrationDraft :: "registration_draft \<Rightarrow> jsstr list" where
  "validateProtectedResourceRegistrationDraft draft =
     map snd (List.filter (\<lambda>(field, message). trim (field draft) = []) required_draft_fields)
     @ (if trim (pd_transit_entry_port draft) = [] \<or> parsePort (pd_transit_entry_port draft) = None
        then [(uni ''transit_entry_port %u5FC5%u987B%u662F 1-65535 %u7684%u6574%u6570'')] else [])
     @ (if trim (pd_landing_xray_port draft) = [] \<or> parsePort (pd_landing_xray_port draft) = None
        then [(uni ''landing_xray_port %u5FC5%u987B%u662F 1-65535 %u7684%u6574%u6570'')] else [])
     @ map snd (List.filter (\<lambda>(confirmed, message). \<not> confirmed draft) draft_confirmation_checks)"

definition protectedRegistrationManualConfirmationCount :: "registration_draft \<Rightarrow> nat" where
  "protectedRegistrationManualConfirmationCount draft =
     length (List.filter (\<lambda>b. b)
       [pd_manual_confirm_transit_host draft,
        pd_manual_confirm_worker_binding draft,
        pd_manual_confirm_landing_host draft,
        pd_manual_confirm_landing_port draft,
        pd_manual_confirm_no_share_link_export draft,
        pd_manual_confirm_no_remote_execution draft,
        pd_manual_confirm_no_firewall_change draft,
        pd_manual_confirm_no_cutover draft])"

definition buildProtectedResourceRegistrationPayloadPreview ::
  "registration_draft \<Rightarrow> dry_run_candidate option \<Rightarrow> registration_request" where
  "buildProtectedResourceRegistrationPayloadPreview draft cand =
     \<lparr>pr_stage = PROTECTED_RESOURCE_REGISTRATION_STAGE,
      pr_mode = (js ''preview_only''),
      pr_source =
        \<lparr>prs_dry_run_command_id = trim (pd_source_dry_run_command_id draft),
         prs_route_name = trim (pd_source_candidate_route_name draft),
         prs_planned_listen_port = parsePort (pd_source_candidate_listen_port draft),
         prs_landing_target_host = trim (pd_source_candidate_landing_host draft),
         prs_landing_target_port = parsePort (pd_source_candidate_landing_port draft),
         prs_candidate_integrity_ready =
           (case cand of None \<Rightarrow> False | Some c \<Rightarrow> cd_integrity_ready c)\<rparr>,
      pr_transit_resource_registration =
        \<lparr>prt_name = trim (pd_transit_resource_name draft),
         prt_resource_type = pd_transit_resource_type draft,
         prt_entry_host = trim (pd_transit_entry_host draft),
         prt_entry_port = parsePort (pd_transit_entry_port draft),
         prt_entry_region = trim (pd_transit_entry_region draft),
         prt_exit_region = trim (pd_transit_exit_region draft),
         prt_expected_status = pd_transit_expected_status draft,
         prt_worker_role = pd_transit_worker_role draft,
         prt_worker_binding_required = pd_transit_worker_binding_required draft\<rparr>,
      pr_landing_node_registration =
        \<lparr>prl_node_name = trim (pd_landing_node_name draft),
         prl_vps_ip = trim (pd_landing_vps_ip draft),
         prl_xray_port = parsePort (pd_landing_xray_port draft),
         prl_expected_status = pd_landing_expected_status draft,
         prl_share_link_handling = pd_landing_share_link_handling draft\<rparr>,
      pr_confirmations =
        \<lparr>prc_manual_confirm_transit_host = pd_manual_confirm_transit_host draft,
         prc_manual_confirm_worker_binding = pd_manual_confirm_worker_binding draft,
         prc_manual_confirm_landing_host = pd_manual_confirm_landing_host draft,
         prc_manual_confirm_landing_port = pd_manual_confirm_landing_port draft,
         prc_manual_confirm_no_share_link_export = pd_manual_confirm_no_share_link_export draft,
         prc_manual_confirm_no_remote_execution = pd_manual_confirm_no_remote_execution draft,
         prc_manual_confirm_no_firewall_change = pd_manual_confirm_no_firewall_change draft,
         prc_manual_confirm_no_cutover = pd_manual_confirm_no_cutover draft\<rparr>,
      pr_safety_boundary = protectedRegistrationSafetyBoundary\<rparr>"

subsection \<open>Confirmations of the later stages\<close>

definition defaultProtectedRegistrationApprovalConfirmations :: approval_confirmations where
  "defaultProtectedRegistrationApprovalConfirmations =
     \<lparr>apc_registration_dry_run_passed = False,
      apc_approval_text_matches_expected = False,
      apc_no_real_resource_creation = False,
      apc_no_worker_command_creation = False,
      apc_no_transit_route_creation = False,
      apc_no_haproxy_route_creation = False,
      apc_no_ssh_or_remote_execution = False,
      apc_no_firewall_change = False,
      apc_no_cutover = False,
      apc_ordinary_product_ui_unchanged = False,
      apc_sensitive_fields_redacted = False\<rparr>"

definition defaultProtectedRegistrationCommandConfirmations :: command_confirmations where
  "defaultProtectedRegistrationCommandConfirmations =
     \<lparr>cqc_approval_dry_run_passed = False,
      cqc_create_local_pending_command_only = False,
      cqc_no_real_resource_creation = False,
      cqc_no_transit_resource_creation = False,
      cqc_no_landing_node_creation = False,
      cqc_no_worker_remote_execution = False,
      cqc_no_transit_route_creation = False,
      cqc_no_haproxy_route_creation = False,
      cqc_no_listening_port_change = False,
      cqc_no_ssh_or_remote_execution = False,
      cqc_no_firewall_change = False,
      cqc_no_cutover = False,
      cqc_ordinary_product_ui_unchanged = False,
      cqc_sensitive_fields_redacted = False\<rparr>"

definition defaultProtectedRegistrationExecutionConfirmations :: execution_confirmations where
  "defaultProtectedRegistrationExecutionConfirmations =
     \<lparr>eqc_command_was_created_by_stage_3_4_29 = False,
      eqc_command_is_pending = False,
      eqc_approval_dry_run_passed = False,
      eqc_execute_local_db_registration_only = False,
      eqc_allow_create_transit_resource_record = False,
      eqc_allow_create_landing_node_record = False,
      eqc_no_worker_command_creation = False,
      eqc_no_transit_route_creation = False,
      eqc_no_haproxy_route_creation = False,
      eqc_no_haproxy_config_generation = False,
      eqc_no_listening_port_change = False,
      eqc_no_ssh_or_remote_execution = False,
      eqc_no_firewall_change = False,
      eqc_no_cutover = False,
      eqc_ordinary_product_ui_unchanged = False,
      eqc_sensitive_fields_redacted = False\<rparr>"

text \<open>
  \<^verbatim>\<open>Object.entries\<close> of the confirmations: names and values. The approval record's own entry
  for the text match is filtered out by the panel, which computes it.
\<close>

definition approval_entries :: "approval_confirmations \<Rightarrow> (jsstr \<times> bool) list" where
  "approval_entries c =
     [((js ''registration_dry_run_passed''), apc_registration_dry_run_passed c),
      ((js ''approval_text_matches_expected''), apc_approval_text_matches_expected c),
      ((js ''no_real_resource_creation''), apc_no_real_resource_creation c),
      ((js ''no_worker_command_creation''), apc_no_worker_command_creation c),
      ((js ''no_transit_route_creation''), apc_no_transit_route_creation c),
      ((js ''no_haproxy_route_creation''), apc_no_haproxy_route_creation c),
      ((js ''no_ssh_or_remote_execution''), apc_no_ssh_or_remote_execution c),
      ((js ''no_firewall_change''), apc_no_firewall_change c),
      ((js ''no_cutover''), apc_no_cutover c),
      ((js ''ordinary_product_ui_unchanged''), apc_ordinary_product_ui_unchanged c),
      ((js ''sensitive_fields_redacted''), apc_sensitive_fields_redacted c)]"

definition command_values :: "command_confirmations \<Rightarrow> bool list" where
  "command_values c =
     [cqc_approval_dry_run_passed c,
      cqc_create_local_pending_command_only c,
      cqc_no_real_resource_creation c,
      cqc_no_transit_resource_creation c,
      cqc_no_landing_node_creation c,
      cqc_no_worker_remote_execution c,
      cqc_no_transit_route_creation c,
      cqc_no_haproxy_route_creation c,
      cqc_no_listening_port_change c,
      cqc_no_ssh_or_remote_execution c,
      cqc_no_firewall_change c,
      cqc_no_cutover c,
      cqc_ordinary_product_ui_unchanged c,
      cqc_sensitive_fields_redacted c]"

definition execution_values :: "execution_confirmations \<Rightarrow> bool list" where
  "execution_values c =
     [eqc_command_was_created_by_stage_3_4_29 c,
      eqc_command_is_pending c,
      eqc_approval_dry_run_passed c,
      eqc_execute_local_db_registration_only c,
      eqc_allow_create_transit_resource_record c,
      eqc_allow_create_landing_node_record c,
      eqc_no_worker_command_creation c,
      eqc_no_transit_route_creation c,
      eqc_no_haproxy_route_creation c,
      eqc_no_haproxy_config_generation c,
      eqc_no_listening_port_change c,
      eqc_no_ssh_or_remote_execution c,
      eqc_no_firewall_change c,
      eqc_no_cutover c,
      eqc_ordinary_product_ui_unchanged c,
      eqc_sensitive_fields_redacted c]"

subsection \<open>Recognising a pasted result\<close>

definition toRecord :: "jsval \<Rightarrow> jsval option" where
  "toRecord v = (if is_obj v then Some v else None)"

definition data_of :: "jsval \<Rightarrow> jsval" where
  "data_of root = nullish (toRecord (field root (js ''data''))) root"

definition extractProtectedRegistrationDryRunResult :: "jsval \<Rightarrow> jsval option" where
  "extractProtectedRegistrationDryRunResult v =
     (case toRecord v of None \<Rightarrow> None
      | Some root \<Rightarrow>
          let data = data_of root
          in if field data (js ''dry_run'') \<noteq> JBool True
                \<or> \<not> typeof_string (field data (js ''expected_approval_text''))
             then None else Some data)"

definition extractProtectedRegistrationApprovalDryRunResult :: "jsval \<Rightarrow> jsval option" where
  "extractProtectedRegistrationApprovalDryRunResult v =
     (case toRecord v of None \<Rightarrow> None
      | Some root \<Rightarrow>
          let data = data_of root
          in if field data (js ''dry_run'') \<noteq> JBool True
                \<or> field data (js ''mode'') \<noteq> JStr PROTECTED_RESOURCE_REGISTRATION_APPROVAL_MODE
                \<or> \<not> typeof_boolean (field data (js ''approved_for_next_stage''))
                \<or> \<not> typeof_boolean (field data (js ''ready_for_command_create_next_stage''))
             then None else Some data)"

definition extractProtectedRegistrationCommandCreateResult :: "jsval \<Rightarrow> jsval option" where
  "extractProtectedRegistrationCommandCreateResult v =
     (case toRecord v of None \<Rightarrow> None
      | Some root \<Rightarrow>
          let data = data_of root
          in if field data (js ''mode'') \<noteq> JStr PROTECTED_RESOURCE_REGISTRATION_COMMAND_CREATE_MODE
                \<or> \<not> typeof_boolean (field data (js ''ready_for_execution_next_stage''))
                \<or> \<not> typeof_string (field data (js ''command_status''))
             then None else Some data)"

text \<open>
  The three \<^verbatim>\<open>parse...Source\<close> functions: an empty text field stands for the result of the
  previous stage, anything else must parse and be recognised.
\<close>

type_synonym json_parser = "jsstr \<Rightarrow> jsval settled"
type_synonym stage_source = "jsval option \<times> jsstr"

definition parseProtectedRegistrationDryRunSource ::
  "json_parser \<Rightarrow> jsstr \<Rightarrow> jsval option \<Rightarrow> stage_source" where
  "parseProtectedRegistrationDryRunSource parse sourceText currentResult =
     (if trim sourceText = [] then (currentResult, [])
      else (case parse sourceText of
              Resolved parsed \<Rightarrow>
                (case extractProtectedRegistrationDryRunResult parsed of
                   None \<Rightarrow> (None, (uni ''%u7C98%u8D34%u5185%u5BB9%u4E0D%u662F Stage 3.4.27 registration dry-run %u7ED3%u679C%u3002''))
                 | Some r \<Rightarrow> (Some r, []))
            | Rejected e \<Rightarrow> (None, error_text e (uni ''JSON %u89E3%u6790%u5931%u8D25%u3002''))))"

definition parseProtectedRegistrationApprovalDryRunSource ::
  "json_parser \<Rightarrow> jsstr \<Rightarrow> jsval option \<Rightarrow> stage_source" where
  "parseProtectedRegistrationApprovalDryRunSource parse sourceText currentResult =
     (if trim sourceText = [] then (currentResult, [])
      else (case parse sourceText of
              Resolved parsed \<Rightarrow>
                (case extractProtectedRegistrationApprovalDryRunResult parsed of
                   None \<Rightarrow> (None, (uni ''%u7C98%u8D34%u5185%u5BB9%u4E0D%u662F Stage 3.4.28 approval dry-run %u7ED3%u679C%u3002''))
                 | Some r \<Rightarrow> (Some r, []))
            | Rejected e \<Rightarrow> (None, error_text e (uni ''JSON %u89E3%u6790%u5931%u8D25%u3002''))))"

definition parseProtectedRegistrationCommandCreateSource ::
  "json_parser \<Rightarrow> jsstr \<Rightarrow> jsval option \<Rightarrow> stage_source" where
  "parseProtectedRegistrationCommandCreateSource parse sourceText currentResult =
     (if trim sourceText = [] then (currentResult, [])
      else (case parse sourceText of
              Resolved parsed \<Rightarrow>
                (case extractProtectedRegistrationCommandCreateResult parsed of
                   None \<Rightarrow> (None, (uni ''%u7C98%u8D34%u5185%u5BB9%u4E0D%u662F Stage 3.4.29 command-create %u7ED3%u679C%u3002''))
                 | Some r \<Rightarrow> (Some r, []))
            | Rejected e \<Rightarrow> (None, error_text e (uni ''JSON %u89E3%u6790%u5931%u8D25%u3002''))))"

subsection \<open>Payloads of the later stages\<close>

text \<open>
  \<^verbatim>\<open>result?.f === true\<close>, \<^verbatim>\<open>result?.f ?? ""\<close> and \<^verbatim>\<open>result?.f ?? {}\<close>. The text of
  a value whose type says string is the string it holds.
\<close>

definition is_true :: "jsval option \<Rightarrow> jsstr \<Rightarrow> bool" where
  "is_true r k \<longleftrightarrow> (case r of None \<Rightarrow> False | Some v \<Rightarrow> field v k = JBool True)"

definition text_field :: "jsval option \<Rightarrow> jsstr \<Rightarrow> jsstr" where
  "text_field r k = (case r of None \<Rightarrow> [] | Some v \<Rightarrow> (case field v k of JStr s \<Rightarrow> s | _ \<Rightarrow> []))"

definition object_field :: "jsval option \<Rightarrow> jsstr \<Rightarrow> jsval" where
  "object_field r k = (case r of None \<Rightarrow> JObj [] | Some v \<Rightarrow> nullish_val (field v k) (JObj []))"

definition approval_text_matches :: "jsstr \<Rightarrow> jsstr \<Rightarrow> bool" where
  "approval_text_matches expected typed \<longleftrightarrow> expected \<noteq> [] \<and> trim typed = expected"

definition buildProtectedRegistrationApprovalPayload ::
  "jsval option \<Rightarrow> jsstr \<Rightarrow> approval_confirmations \<Rightarrow> approval_request" where
  "buildProtectedRegistrationApprovalPayload sourceResult approvalText confirmations =
     (let expectedApprovalText = text_field sourceResult (js ''expected_approval_text'')
      in \<lparr>ap_stage = PROTECTED_RESOURCE_REGISTRATION_APPROVAL_STAGE,
          ap_mode = PROTECTED_RESOURCE_REGISTRATION_APPROVAL_MODE,
          ap_source_registration_dry_run =
            \<lparr>aps_dry_run = is_true sourceResult (js ''dry_run''),
             aps_ready_for_next_stage = is_true sourceResult (js ''ready_for_next_stage''),
             aps_expected_approval_text = expectedApprovalText,
             aps_normalized_preview = object_field sourceResult (js ''normalized_preview'')\<rparr>,
          ap_approval_text = trim approvalText,
          ap_confirmations =
            confirmations\<lparr>apc_approval_text_matches_expected :=
              approval_text_matches expectedApprovalText approvalText\<rparr>\<rparr>)"

definition buildProtectedRegistrationCommandCreatePayload ::
  "jsval option \<Rightarrow> command_confirmations \<Rightarrow> command_create_request" where
  "buildProtectedRegistrationCommandCreatePayload sourceResult confirmations =
     \<lparr>cq_stage = PROTECTED_RESOURCE_REGISTRATION_COMMAND_CREATE_STAGE,
      cq_mode = PROTECTED_RESOURCE_REGISTRATION_COMMAND_CREATE_MODE,
      cq_source_approval_dry_run =
        \<lparr>cqs_dry_run = is_true sourceResult (js ''dry_run''),
         cqs_stage = text_field sourceResult (js ''stage''),
         cqs_mode = text_field sourceResult (js ''mode''),
         cqs_approved_for_next_stage = is_true sourceResult (js ''approved_for_next_stage''),
         cqs_ready_for_command_create_next_stage =
           is_true sourceResult (js ''ready_for_command_create_next_stage''),
         cqs_normalized_approval_preview = object_field sourceResult (js ''normalized_approval_preview''),
         cqs_safety_boundary = object_field sourceResult (js ''safety_boundary'')\<rparr>,
      cq_confirmations = confirmations\<rparr>"

definition makeProtectedRegistrationExecutionExpectedText :: "jsstr \<Rightarrow> jsstr" where
  "makeProtectedRegistrationExecutionExpectedText commandId =
     (if commandId \<noteq> [] then (js ''EXECUTE_PROTECTED_RESOURCE_REGISTRATION:'') @ commandId
      else (js ''EXECUTE_PROTECTED_RESOURCE_REGISTRATION:<command_id>''))"

definition buildProtectedRegistrationExecutionPayload ::
  "jsstr \<Rightarrow> jsstr \<Rightarrow> execution_confirmations \<Rightarrow> execution_verify_request" where
  "buildProtectedRegistrationExecutionPayload commandId approvalText confirmations =
     \<lparr>eq_stage = PROTECTED_RESOURCE_REGISTRATION_EXECUTION_VERIFY_STAGE,
      eq_mode = PROTECTED_RESOURCE_REGISTRATION_EXECUTION_VERIFY_MODE,
      eq_command_id = trim commandId,
      eq_execution_approval_text = trim approvalText,
      eq_confirmations = confirmations\<rparr>"

subsection \<open>Explanations\<close>

definition bool_text :: "bool \<Rightarrow> jsstr" where
  "bool_text b = (if b then (js ''true'') else (js ''false''))"

definition text_or_dash :: "jsval option \<Rightarrow> jsstr \<Rightarrow> jsstr" where
  "text_or_dash r k =
     (case r of None \<Rightarrow> (js ''-'')
      | Some v \<Rightarrow> if is_nullish (field v k) then (js ''-'') else text_field r k)"

definition formatProtectedResourceRegistrationExplanation :: "registration_draft \<Rightarrow> jsstr list \<Rightarrow> bool \<Rightarrow> jsstr" where
  "formatProtectedResourceRegistrationExplanation draft errors readyForNextStage = join [10]
      ([(js ''Protected Resource Registration Preparation''),
        [],
        (js ''stage: '') @ PROTECTED_RESOURCE_REGISTRATION_STAGE,
        (js ''mode: preview_only''),
        (js ''draft_ready_for_next_stage: '') @ bool_text readyForNextStage,
        (js ''recommended_next_stage: '') @ PROTECTED_RESOURCE_REGISTRATION_NEXT_STAGE,
        [],
        (js ''Source Candidate''),
        (js ''- dry_run_command_id: '') @ valueOrDash (Some (pd_source_dry_run_command_id draft)),
        (js ''- route_name: '') @ valueOrDash (Some (pd_source_candidate_route_name draft)),
        (js ''- planned_listen_port: '') @ valueOrDash (Some (pd_source_candidate_listen_port draft)),
        (js ''- landing_target_host: '') @ valueOrDash (Some (pd_source_candidate_landing_host draft)),
        (js ''- landing_target_port: '') @ valueOrDash (Some (pd_source_candidate_landing_port draft)),
        [],
        (js ''Transit Resource Draft''),
        (js ''- name: '') @ valueOrDash (Some (pd_transit_resource_name draft)),
        (js ''- resource_type: '') @ pd_transit_resource_type draft,
        (js ''- entry_host: '') @ valueOrDash (Some (pd_transit_entry_host draft)),
        (js ''- entry_port: '') @ valueOrDash (Some (pd_transit_entry_port draft)),
        (js ''- entry_region: '') @ valueOrDash (Some (pd_transit_entry_region draft)),
        (js ''- exit_region: '') @ valueOrDash (Some (pd_transit_exit_region draft)),
        (js ''- expected_status: '') @ pd_transit_expected_status draft,
        (js ''- worker_role: '') @ pd_transit_worker_role draft,
        (js ''- worker_binding_required: '') @ bool_text (pd_transit_worker_binding_required draft),
        [],
        (js ''Landing Node Draft''),
        (js ''- node_name: '') @ valueOrDash (Some (pd_landing_node_name draft)),
        (js ''- vps_ip: '') @ valueOrDash (Some (pd_landing_vps_ip draft)),
        (js ''- xray_port: '') @ valueOrDash (Some (pd_landing_xray_port draft)),
        (js ''- expected_status: '') @ pd_landing_expected_status draft,
        (js ''- share_link_handling: '') @ pd_landing_share_link_handling draft,
        [],
        (js ''Blocked Items'')]
       @ (if errors \<noteq> [] then map (\<lambda>e. (js ''- '') @ e) errors else [(js ''- none'')])
       @ [[],
        (js ''Safety Boundary'')]
       @ map (\<lambda>item. (js ''- '') @ item) protectedRegistrationSafetyBoundary)"

definition formatProtectedRegistrationApprovalExplanation :: "jsval option \<Rightarrow> bool \<Rightarrow> jsstr" where
  "formatProtectedRegistrationApprovalExplanation sourceResult approvalTextMatchesExpected = join [10]
      ([(js ''Protected Resource Registration Approval Dry-run''),
        [],
        (js ''stage: '') @ PROTECTED_RESOURCE_REGISTRATION_APPROVAL_STAGE,
        (js ''mode: '') @ PROTECTED_RESOURCE_REGISTRATION_APPROVAL_MODE,
        (js ''source_dry_run: '') @ bool_text (is_true sourceResult (js ''dry_run'')),
        (js ''source_ready_for_next_stage: '') @ bool_text (is_true sourceResult (js ''ready_for_next_stage'')),
        (js ''approval_text_matches_expected: '') @ bool_text approvalTextMatchesExpected,
        (js ''recommended_next_stage: '') @ PROTECTED_RESOURCE_REGISTRATION_APPROVAL_NEXT_STAGE,
        [],
        (js ''Safety Boundary''),
        (js ''- approval dry-run only''),
        (js ''- no resource creation''),
        (js ''- no WorkerCommand creation''),
        (js ''- no TransitRoute creation''),
        (js ''- no HAProxy route creation''),
        (js ''- no SSH or remote execution''),
        (js ''- no firewall change''),
        (js ''- no cutover''),
        (js ''- ordinary product UI unchanged'')])"

definition formatProtectedRegistrationCommandCreateExplanation :: "jsval option \<Rightarrow> jsstr" where
  "formatProtectedRegistrationCommandCreateExplanation sourceResult = join [10]
      ([(js ''Protected Resource Registration Command Create''),
        [],
        (js ''stage: '') @ PROTECTED_RESOURCE_REGISTRATION_COMMAND_CREATE_STAGE,
        (js ''mode: '') @ PROTECTED_RESOURCE_REGISTRATION_COMMAND_CREATE_MODE,
        (js ''source_stage: '') @ text_or_dash sourceResult (js ''stage''),
        (js ''source_mode: '') @ text_or_dash sourceResult (js ''mode''),
        (js ''source_dry_run: '') @ bool_text (is_true sourceResult (js ''dry_run'')),
        (js ''source_approved_for_next_stage: '') @ bool_text (is_true sourceResult (js ''approved_for_next_stage'')),
        (js ''source_ready_for_command_create_next_stage: '') @ bool_text (is_true sourceResult (js ''ready_for_command_create_next_stage'')),
        (js ''recommended_next_stage: '') @ PROTECTED_RESOURCE_REGISTRATION_COMMAND_CREATE_NEXT_STAGE,
        [],
        (js ''Safety Boundary''),
        (js ''- create local pending command record only''),
        (js ''- no transit_resource creation''),
        (js ''- no landing_node creation''),
        (js ''- no Worker remote execution''),
        (js ''- no TransitRoute creation''),
        (js ''- no HAProxy route creation''),
        (js ''- no listening port change''),
        (js ''- no SSH or remote execution''),
        (js ''- no firewall change''),
        (js ''- no cutover''),
        (js ''- ordinary product UI unchanged'')])"

definition formatProtectedRegistrationExecutionExplanation :: "jsval option \<Rightarrow> bool \<Rightarrow> jsstr \<Rightarrow> jsstr" where
  "formatProtectedRegistrationExecutionExplanation sourceResult approvalTextMatchesExpected commandId = join [10]
      ([(js ''Protected Resource Registration Execution Verify''),
        [],
        (js ''stage: '') @ PROTECTED_RESOURCE_REGISTRATION_EXECUTION_VERIFY_STAGE,
        (js ''mode: '') @ PROTECTED_RESOURCE_REGISTRATION_EXECUTION_VERIFY_MODE,
        (js ''source_stage: '') @ text_or_dash sourceResult (js ''stage''),
        (js ''source_mode: '') @ text_or_dash sourceResult (js ''mode''),
        (js ''command_id: '') @ or_str commandId (js ''-''),
        (js ''command_status: '') @ text_or_dash sourceResult (js ''command_status''),
        (js ''source_ready_for_execution_next_stage: '') @ bool_text (is_true sourceResult (js ''ready_for_execution_next_stage'')),
        (js ''approval_text_matches_expected: '') @ bool_text approvalTextMatchesExpected,
        (js ''recommended_next_stage: '') @ PROTECTED_RESOURCE_REGISTRATION_HAPROXY_DRY_RUN_NEXT_STAGE,
        [],
        (js ''This stage may create local DB records only:''),
        (js ''- transit_resources local record''),
        (js ''- landing node local record''),
        (js ''- original pending command execution audit''),
        [],
        (js ''Safety Boundary''),
        (js ''- no WorkerCommand creation''),
        (js ''- no TransitRoute creation''),
        (js ''- no HAProxy route creation''),
        (js ''- no HAProxy config generation''),
        (js ''- no listener or port change''),
        (js ''- no SSH or remote execution''),
        (js ''- no firewall change''),
        (js ''- no cutover''),
        (js ''- no complete client config output'')])"


subsection \<open>The draft's validation and its preview\<close>

definition all_draft_confirmed :: "registration_confirmations \<Rightarrow> bool" where
  "all_draft_confirmed c \<longleftrightarrow>
     prc_manual_confirm_transit_host c \<and> prc_manual_confirm_worker_binding c
     \<and> prc_manual_confirm_landing_host c \<and> prc_manual_confirm_landing_port c
     \<and> prc_manual_confirm_no_share_link_export c \<and> prc_manual_confirm_no_remote_execution c
     \<and> prc_manual_confirm_no_firewall_change c \<and> prc_manual_confirm_no_cutover c"

text \<open>What the backend's dry run needs of a preview.\<close>

definition preview_complete :: "registration_request \<Rightarrow> bool" where
  "preview_complete r \<longleftrightarrow>
     (let t = pr_transit_resource_registration r; l = pr_landing_node_registration r
      in prt_name t \<noteq> [] \<and> prt_entry_host t \<noteq> [] \<and> prt_entry_region t \<noteq> []
         \<and> prt_exit_region t \<noteq> [] \<and> prt_entry_port t \<noteq> None
         \<and> prl_node_name l \<noteq> [] \<and> prl_vps_ip l \<noteq> [] \<and> prl_xray_port l \<noteq> None)
     \<and> all_draft_confirmed (pr_confirmations r)"

lemma draft_valid_iff:
  "validateProtectedResourceRegistrationDraft draft = [] \<longleftrightarrow>
   preview_complete (buildProtectedResourceRegistrationPayloadPreview draft cand)"
proof -
  have t: "map snd (List.filter (\<lambda>(field, message). trim (field draft) = []) required_draft_fields) = []
    \<longleftrightarrow> trim (pd_transit_resource_name draft) \<noteq> [] \<and> trim (pd_transit_entry_host draft) \<noteq> []
      \<and> trim (pd_transit_entry_region draft) \<noteq> [] \<and> trim (pd_transit_exit_region draft) \<noteq> []
      \<and> trim (pd_landing_node_name draft) \<noteq> [] \<and> trim (pd_landing_vps_ip draft) \<noteq> []"
    by (auto simp: required_draft_fields_def)
  have c: "map snd (List.filter (\<lambda>(confirmed, message). \<not> confirmed draft) draft_confirmation_checks) = []
    \<longleftrightarrow> all_draft_confirmed (pr_confirmations (buildProtectedResourceRegistrationPayloadPreview draft cand))"
    by (auto simp: draft_confirmation_checks_def all_draft_confirmed_def
        buildProtectedResourceRegistrationPayloadPreview_def)
  show ?thesis
    unfolding validateProtectedResourceRegistrationDraft_def append_is_Nil_conv t c
    by (auto simp: preview_complete_def buildProtectedResourceRegistrationPayloadPreview_def Let_def
        dest: parsePort_nonempty)
qed

text \<open>
  The draft passes its local validation exactly when the preview built from it is
  complete: every name, host and region present after trimming, both ports numbers in range, and
  all eight manual confirmations given.
\<close>

theorem draft_valid_iff_preview_complete:
  "validateProtectedResourceRegistrationDraft draft = [] \<longleftrightarrow>
   preview_complete (buildProtectedResourceRegistrationPayloadPreview draft cand)"
  by (rule draft_valid_iff)

text \<open>
  The counter shown next to the draft is eight exactly when no confirmation is
  missing.
\<close>

theorem confirmation_count_is_exact:
  "protectedRegistrationManualConfirmationCount draft \<le> 8
   \<and> (protectedRegistrationManualConfirmationCount draft = 8
      \<longleftrightarrow> List.filter (\<lambda>(confirmed, message). \<not> confirmed draft) draft_confirmation_checks = [])"
proof -
  have eq: "protectedRegistrationManualConfirmationCount draft =
      length (List.filter (\<lambda>(confirmed, message). confirmed draft) draft_confirmation_checks)"
    by (simp add: protectedRegistrationManualConfirmationCount_def draft_confirmation_checks_def)
  have len: "length draft_confirmation_checks = 8"
    by (simp add: draft_confirmation_checks_def)
  have split: "length (List.filter P xs) = length xs \<longleftrightarrow> List.filter (\<lambda>x. \<not> P x) xs = []" for P and xs :: "'a list"
    using sum_length_filter_compl [of P xs] by auto
  have "(\<lambda>x. \<not> (case x of (confirmed, message) \<Rightarrow> confirmed draft))
      = (\<lambda>(confirmed, message). \<not> confirmed draft)" for draft :: registration_draft
    by auto
  then show ?thesis
    unfolding eq using split [of "\<lambda>(confirmed, message). confirmed draft" draft_confirmation_checks] len
    by (metis length_filter_le)
qed

subsection \<open>Sources of a stage\<close>

text \<open>
  The contract of the three \<^verbatim>\<open>parse...Source\<close> functions: what is pasted is used only when it
  is recognised, and the page's own result only when nothing is pasted.
\<close>

locale stage_source =
  fixes source :: "json_parser \<Rightarrow> jsstr \<Rightarrow> jsval option \<Rightarrow> jsval option \<times> jsstr"
    and recognise :: "jsval \<Rightarrow> jsval option"
  assumes source_blank: "trim t = [] \<Longrightarrow> source parse t cur = (cur, [])"
    and source_pasted: "trim t \<noteq> [] \<Longrightarrow> parse t = Resolved v \<Longrightarrow> recognise v = Some r
      \<Longrightarrow> source parse t cur = (Some r, [])"
    and source_unrecognised: "trim t \<noteq> [] \<Longrightarrow> parse t = Resolved v \<Longrightarrow> recognise v = None
      \<Longrightarrow> fst (source parse t cur) = None \<and> snd (source parse t cur) \<noteq> []"
    and source_thrown: "trim t \<noteq> [] \<Longrightarrow> parse t = Rejected e \<Longrightarrow> fst (source parse t cur) = None"
begin

lemma result_origin:
  assumes "fst (source parse t cur) = Some r"
  shows "(trim t = [] \<and> cur = Some r)
    \<or> (trim t \<noteq> [] \<and> (\<exists>v. parse t = Resolved v \<and> recognise v = Some r))"
proof (cases "trim t = []")
  case True
  with assms source_blank show ?thesis by simp
next
  case False
  show ?thesis
  proof (cases "parse t")
    case (Resolved v)
    with False assms show ?thesis
      using source_pasted source_unrecognised by (cases "recognise v") fastforce+
  next
    case (Rejected e)
    with False assms source_thrown show ?thesis by fastforce
  qed
qed

lemma result_without_error:
  "fst (source parse t cur) = Some r \<Longrightarrow> snd (source parse t cur) = []"
  using result_origin [of parse t cur r] source_blank source_pasted by fastforce

end

lemma uni_eq_Nil [simp]: "uni s = [] \<longleftrightarrow> s = []"
  by (cases s) (simp_all add: uni.simps)

interpretation dry_run_source: stage_source parseProtectedRegistrationDryRunSource
    extractProtectedRegistrationDryRunResult
  by unfold_locales (simp_all add: parseProtectedRegistrationDryRunSource_def)

interpretation approval_source: stage_source parseProtectedRegistrationApprovalDryRunSource
    extractProtectedRegistrationApprovalDryRunResult
  by unfold_locales (simp_all add: parseProtectedRegistrationApprovalDryRunSource_def)

interpretation command_source: stage_source parseProtectedRegistrationCommandCreateSource
    extractProtectedRegistrationCommandCreateResult
  by unfold_locales (simp_all add: parseProtectedRegistrationCommandCreateSource_def)

text \<open>
  A result that the command stage takes from the text field is an approval
  dry-run: an object that says \<^verbatim>\<open>dry_run: true\<close> and the approval mode, with both verdicts
  booleans, never the result of another stage; and the page's own result is then ignored.
\<close>

theorem pasted_approval_is_an_approval:
  assumes "trim t \<noteq> []"
    and "fst (parseProtectedRegistrationApprovalDryRunSource parse t cur) = Some r"
  shows "is_obj r \<and> field r (js ''dry_run'') = JBool True
    \<and> field r (js ''mode'') = JStr PROTECTED_RESOURCE_REGISTRATION_APPROVAL_MODE
    \<and> typeof_boolean (field r (js ''approved_for_next_stage''))
    \<and> typeof_boolean (field r (js ''ready_for_command_create_next_stage''))"
proof -
  obtain v where "extractProtectedRegistrationApprovalDryRunResult v = Some r"
    using approval_source.result_origin [OF assms(2)] assms(1) by blast
  then show ?thesis
    by (auto simp: extractProtectedRegistrationApprovalDryRunResult_def toRecord_def data_of_def
        nullish_def Let_def split: if_splits option.splits)
qed

definition sample_approval :: jsval where
  "sample_approval = JObj
     [((js ''dry_run''), JBool True), ((js ''mode''), JStr (js ''approval_dry_run'')),
      ((js ''approved_for_next_stage''), JBool True),
      ((js ''ready_for_command_create_next_stage''), JBool True)]"

theorem pasted_approval_is_an_approval_witness:
  "is_obj sample_approval \<and> field sample_approval (js ''mode'') = JStr (js ''approval_dry_run'')"
proof -
  let ?parse = "\<lambda>t. Resolved sample_approval"
  have t: "trim (js ''{}'') \<noteq> []"
    by (simp add: trim_id js_def is_space_def)
  have "fst (parseProtectedRegistrationApprovalDryRunSource ?parse (js ''{}'') None) = Some sample_approval"
    using t by (simp add: parseProtectedRegistrationApprovalDryRunSource_def
        extractProtectedRegistrationApprovalDryRunResult_def toRecord_def data_of_def
        sample_approval_def PROTECTED_RESOURCE_REGISTRATION_APPROVAL_MODE_def)
  from pasted_approval_is_an_approval [OF t this] show ?thesis
    by (simp add: PROTECTED_RESOURCE_REGISTRATION_APPROVAL_MODE_def)
qed

text \<open>
  The flag that the approval text matches is not the user's to set: whatever
  the confirmations hold, the request's flag is true exactly when the source names an expected
  text and the typed text, trimmed, is that text.
\<close>

theorem approval_flag_is_computed:
  "apc_approval_text_matches_expected
     (ap_confirmations (buildProtectedRegistrationApprovalPayload src typed confs)) \<longleftrightarrow>
   text_field src (js ''expected_approval_text'') \<noteq> []
   \<and> ap_approval_text (buildProtectedRegistrationApprovalPayload src typed confs)
     = aps_expected_approval_text
         (ap_source_registration_dry_run (buildProtectedRegistrationApprovalPayload src typed confs))"
  by (simp add: buildProtectedRegistrationApprovalPayload_def approval_text_matches_def Let_def)

end
