(* ===== verification/DebugPanel.thy ===== *)
theory DebugPanel
  imports DebugPlans DebugRegistration
begin

text \<open>
  The state of \<^verbatim>\<open>AdvancedHaproxyDebugPanel\<close>, the values it derives on every render and
  its event handlers. An asynchronous handler is split at its awaits: \<open>..._start\<close> is the code
  before the first await and returns the payload the handler has captured (or \<open>None\<close> when a
  guard sends it back); \<open>..._finish\<close> is the code after the response, with the exception branch
  and the \<^verbatim>\<open>finally\<close>. \<open>DebugPanelSystem\<close> interleaves them.
\<close>

subsection \<open>Keyed updates of the forms\<close>

text \<open>
  \<^verbatim>\<open>{ ...current, [key]: value }\<close>, one constructor per key of the type.
\<close>

datatype form_edit =
    Form_dry_run_command_id jsstr
  | Form_transit_resource_id jsstr
  | Form_landing_node_id jsstr
  | Form_planned_listen_port jsstr
  | Form_landing_target_host jsstr
  | Form_landing_target_port jsstr
  | Form_forwarding_method jsstr
  | Form_route_name jsstr
  | Form_route_display_name jsstr
  | Form_approval_stage jsstr
  | Form_final_approval_text jsstr
  | Form_real_execution_text jsstr

fun set_form :: "form_edit \<Rightarrow> debug_form \<Rightarrow> debug_form" where
  "set_form (Form_dry_run_command_id v) c = c\<lparr>df_dry_run_command_id := v\<rparr>"
| "set_form (Form_transit_resource_id v) c = c\<lparr>df_transit_resource_id := v\<rparr>"
| "set_form (Form_landing_node_id v) c = c\<lparr>df_landing_node_id := v\<rparr>"
| "set_form (Form_planned_listen_port v) c = c\<lparr>df_planned_listen_port := v\<rparr>"
| "set_form (Form_landing_target_host v) c = c\<lparr>df_landing_target_host := v\<rparr>"
| "set_form (Form_landing_target_port v) c = c\<lparr>df_landing_target_port := v\<rparr>"
| "set_form (Form_forwarding_method v) c = c\<lparr>df_forwarding_method := v\<rparr>"
| "set_form (Form_route_name v) c = c\<lparr>df_route_name := v\<rparr>"
| "set_form (Form_route_display_name v) c = c\<lparr>df_route_display_name := v\<rparr>"
| "set_form (Form_approval_stage v) c = c\<lparr>df_approval_stage := v\<rparr>"
| "set_form (Form_final_approval_text v) c = c\<lparr>df_final_approval_text := v\<rparr>"
| "set_form (Form_real_execution_text v) c = c\<lparr>df_real_execution_text := v\<rparr>"

datatype confirmation_key =
    Confirm_firewall_security_group_confirmed
  | Confirm_cloud_firewall_confirmed
  | Confirm_server_firewall_confirmed
  | Confirm_no_cutover_confirmed
  | Confirm_no_node_share_link_change_confirmed
  | Confirm_no_transit_share_link_write_confirmed
  | Confirm_no_full_client_link_confirmed

fun set_confirmation :: "confirmation_key \<Rightarrow> bool \<Rightarrow> confirmations \<Rightarrow> confirmations" where
  "set_confirmation Confirm_firewall_security_group_confirmed v c = c\<lparr>cf_firewall_security_group_confirmed := v\<rparr>"
| "set_confirmation Confirm_cloud_firewall_confirmed v c = c\<lparr>cf_cloud_firewall_confirmed := v\<rparr>"
| "set_confirmation Confirm_server_firewall_confirmed v c = c\<lparr>cf_server_firewall_confirmed := v\<rparr>"
| "set_confirmation Confirm_no_cutover_confirmed v c = c\<lparr>cf_no_cutover_confirmed := v\<rparr>"
| "set_confirmation Confirm_no_node_share_link_change_confirmed v c = c\<lparr>cf_no_node_share_link_change_confirmed := v\<rparr>"
| "set_confirmation Confirm_no_transit_share_link_write_confirmed v c = c\<lparr>cf_no_transit_share_link_write_confirmed := v\<rparr>"
| "set_confirmation Confirm_no_full_client_link_confirmed v c = c\<lparr>cf_no_full_client_link_confirmed := v\<rparr>"

datatype draft_edit =
    Draft_transit_resource_name jsstr
  | Draft_transit_entry_host jsstr
  | Draft_transit_entry_port jsstr
  | Draft_transit_entry_region jsstr
  | Draft_transit_exit_region jsstr
  | Draft_transit_resource_type jsstr
  | Draft_transit_expected_status jsstr
  | Draft_transit_worker_role jsstr
  | Draft_transit_worker_binding_required bool
  | Draft_landing_node_name jsstr
  | Draft_landing_vps_ip jsstr
  | Draft_landing_xray_port jsstr
  | Draft_landing_expected_status jsstr
  | Draft_landing_share_link_handling jsstr
  | Draft_source_dry_run_command_id jsstr
  | Draft_source_candidate_route_name jsstr
  | Draft_source_candidate_listen_port jsstr
  | Draft_source_candidate_landing_host jsstr
  | Draft_source_candidate_landing_port jsstr
  | Draft_manual_confirm_transit_host bool
  | Draft_manual_confirm_worker_binding bool
  | Draft_manual_confirm_landing_host bool
  | Draft_manual_confirm_landing_port bool
  | Draft_manual_confirm_no_share_link_export bool
  | Draft_manual_confirm_no_remote_execution bool
  | Draft_manual_confirm_no_firewall_change bool
  | Draft_manual_confirm_no_cutover bool

fun set_draft :: "draft_edit \<Rightarrow> registration_draft \<Rightarrow> registration_draft" where
  "set_draft (Draft_transit_resource_name v) c = c\<lparr>pd_transit_resource_name := v\<rparr>"
| "set_draft (Draft_transit_entry_host v) c = c\<lparr>pd_transit_entry_host := v\<rparr>"
| "set_draft (Draft_transit_entry_port v) c = c\<lparr>pd_transit_entry_port := v\<rparr>"
| "set_draft (Draft_transit_entry_region v) c = c\<lparr>pd_transit_entry_region := v\<rparr>"
| "set_draft (Draft_transit_exit_region v) c = c\<lparr>pd_transit_exit_region := v\<rparr>"
| "set_draft (Draft_transit_resource_type v) c = c\<lparr>pd_transit_resource_type := v\<rparr>"
| "set_draft (Draft_transit_expected_status v) c = c\<lparr>pd_transit_expected_status := v\<rparr>"
| "set_draft (Draft_transit_worker_role v) c = c\<lparr>pd_transit_worker_role := v\<rparr>"
| "set_draft (Draft_transit_worker_binding_required v) c = c\<lparr>pd_transit_worker_binding_required := v\<rparr>"
| "set_draft (Draft_landing_node_name v) c = c\<lparr>pd_landing_node_name := v\<rparr>"
| "set_draft (Draft_landing_vps_ip v) c = c\<lparr>pd_landing_vps_ip := v\<rparr>"
| "set_draft (Draft_landing_xray_port v) c = c\<lparr>pd_landing_xray_port := v\<rparr>"
| "set_draft (Draft_landing_expected_status v) c = c\<lparr>pd_landing_expected_status := v\<rparr>"
| "set_draft (Draft_landing_share_link_handling v) c = c\<lparr>pd_landing_share_link_handling := v\<rparr>"
| "set_draft (Draft_source_dry_run_command_id v) c = c\<lparr>pd_source_dry_run_command_id := v\<rparr>"
| "set_draft (Draft_source_candidate_route_name v) c = c\<lparr>pd_source_candidate_route_name := v\<rparr>"
| "set_draft (Draft_source_candidate_listen_port v) c = c\<lparr>pd_source_candidate_listen_port := v\<rparr>"
| "set_draft (Draft_source_candidate_landing_host v) c = c\<lparr>pd_source_candidate_landing_host := v\<rparr>"
| "set_draft (Draft_source_candidate_landing_port v) c = c\<lparr>pd_source_candidate_landing_port := v\<rparr>"
| "set_draft (Draft_manual_confirm_transit_host v) c = c\<lparr>pd_manual_confirm_transit_host := v\<rparr>"
| "set_draft (Draft_manual_confirm_worker_binding v) c = c\<lparr>pd_manual_confirm_worker_binding := v\<rparr>"
| "set_draft (Draft_manual_confirm_landing_host v) c = c\<lparr>pd_manual_confirm_landing_host := v\<rparr>"
| "set_draft (Draft_manual_confirm_landing_port v) c = c\<lparr>pd_manual_confirm_landing_port := v\<rparr>"
| "set_draft (Draft_manual_confirm_no_share_link_export v) c = c\<lparr>pd_manual_confirm_no_share_link_export := v\<rparr>"
| "set_draft (Draft_manual_confirm_no_remote_execution v) c = c\<lparr>pd_manual_confirm_no_remote_execution := v\<rparr>"
| "set_draft (Draft_manual_confirm_no_firewall_change v) c = c\<lparr>pd_manual_confirm_no_firewall_change := v\<rparr>"
| "set_draft (Draft_manual_confirm_no_cutover v) c = c\<lparr>pd_manual_confirm_no_cutover := v\<rparr>"

datatype approval_key =
    Approve_registration_dry_run_passed
  | Approve_approval_text_matches_expected
  | Approve_no_real_resource_creation
  | Approve_no_worker_command_creation
  | Approve_no_transit_route_creation
  | Approve_no_haproxy_route_creation
  | Approve_no_ssh_or_remote_execution
  | Approve_no_firewall_change
  | Approve_no_cutover
  | Approve_ordinary_product_ui_unchanged
  | Approve_sensitive_fields_redacted

fun set_approval :: "approval_key \<Rightarrow> bool \<Rightarrow> approval_confirmations \<Rightarrow> approval_confirmations" where
  "set_approval Approve_registration_dry_run_passed v c = c\<lparr>apc_registration_dry_run_passed := v\<rparr>"
| "set_approval Approve_approval_text_matches_expected v c = c\<lparr>apc_approval_text_matches_expected := v\<rparr>"
| "set_approval Approve_no_real_resource_creation v c = c\<lparr>apc_no_real_resource_creation := v\<rparr>"
| "set_approval Approve_no_worker_command_creation v c = c\<lparr>apc_no_worker_command_creation := v\<rparr>"
| "set_approval Approve_no_transit_route_creation v c = c\<lparr>apc_no_transit_route_creation := v\<rparr>"
| "set_approval Approve_no_haproxy_route_creation v c = c\<lparr>apc_no_haproxy_route_creation := v\<rparr>"
| "set_approval Approve_no_ssh_or_remote_execution v c = c\<lparr>apc_no_ssh_or_remote_execution := v\<rparr>"
| "set_approval Approve_no_firewall_change v c = c\<lparr>apc_no_firewall_change := v\<rparr>"
| "set_approval Approve_no_cutover v c = c\<lparr>apc_no_cutover := v\<rparr>"
| "set_approval Approve_ordinary_product_ui_unchanged v c = c\<lparr>apc_ordinary_product_ui_unchanged := v\<rparr>"
| "set_approval Approve_sensitive_fields_redacted v c = c\<lparr>apc_sensitive_fields_redacted := v\<rparr>"

datatype command_key =
    Command_approval_dry_run_passed
  | Command_create_local_pending_command_only
  | Command_no_real_resource_creation
  | Command_no_transit_resource_creation
  | Command_no_landing_node_creation
  | Command_no_worker_remote_execution
  | Command_no_transit_route_creation
  | Command_no_haproxy_route_creation
  | Command_no_listening_port_change
  | Command_no_ssh_or_remote_execution
  | Command_no_firewall_change
  | Command_no_cutover
  | Command_ordinary_product_ui_unchanged
  | Command_sensitive_fields_redacted

fun set_command :: "command_key \<Rightarrow> bool \<Rightarrow> command_confirmations \<Rightarrow> command_confirmations" where
  "set_command Command_approval_dry_run_passed v c = c\<lparr>cqc_approval_dry_run_passed := v\<rparr>"
| "set_command Command_create_local_pending_command_only v c = c\<lparr>cqc_create_local_pending_command_only := v\<rparr>"
| "set_command Command_no_real_resource_creation v c = c\<lparr>cqc_no_real_resource_creation := v\<rparr>"
| "set_command Command_no_transit_resource_creation v c = c\<lparr>cqc_no_transit_resource_creation := v\<rparr>"
| "set_command Command_no_landing_node_creation v c = c\<lparr>cqc_no_landing_node_creation := v\<rparr>"
| "set_command Command_no_worker_remote_execution v c = c\<lparr>cqc_no_worker_remote_execution := v\<rparr>"
| "set_command Command_no_transit_route_creation v c = c\<lparr>cqc_no_transit_route_creation := v\<rparr>"
| "set_command Command_no_haproxy_route_creation v c = c\<lparr>cqc_no_haproxy_route_creation := v\<rparr>"
| "set_command Command_no_listening_port_change v c = c\<lparr>cqc_no_listening_port_change := v\<rparr>"
| "set_command Command_no_ssh_or_remote_execution v c = c\<lparr>cqc_no_ssh_or_remote_execution := v\<rparr>"
| "set_command Command_no_firewall_change v c = c\<lparr>cqc_no_firewall_change := v\<rparr>"
| "set_command Command_no_cutover v c = c\<lparr>cqc_no_cutover := v\<rparr>"
| "set_command Command_ordinary_product_ui_unchanged v c = c\<lparr>cqc_ordinary_product_ui_unchanged := v\<rparr>"
| "set_command Command_sensitive_fields_redacted v c = c\<lparr>cqc_sensitive_fields_redacted := v\<rparr>"

datatype execution_key =
    Execute_command_was_created_by_stage_3_4_29
  | Execute_command_is_pending
  | Execute_approval_dry_run_passed
  | Execute_execute_local_db_registration_only
  | Execute_allow_create_transit_resource_record
  | Execute_allow_create_landing_node_record
  | Execute_no_worker_command_creation
  | Execute_no_transit_route_creation
  | Execute_no_haproxy_route_creation
  | Execute_no_haproxy_config_generation
  | Execute_no_listening_port_change
  | Execute_no_ssh_or_remote_execution
  | Execute_no_firewall_change
  | Execute_no_cutover
  | Execute_ordinary_product_ui_unchanged
  | Execute_sensitive_fields_redacted

fun set_execution :: "execution_key \<Rightarrow> bool \<Rightarrow> execution_confirmations \<Rightarrow> execution_confirmations" where
  "set_execution Execute_command_was_created_by_stage_3_4_29 v c = c\<lparr>eqc_command_was_created_by_stage_3_4_29 := v\<rparr>"
| "set_execution Execute_command_is_pending v c = c\<lparr>eqc_command_is_pending := v\<rparr>"
| "set_execution Execute_approval_dry_run_passed v c = c\<lparr>eqc_approval_dry_run_passed := v\<rparr>"
| "set_execution Execute_execute_local_db_registration_only v c = c\<lparr>eqc_execute_local_db_registration_only := v\<rparr>"
| "set_execution Execute_allow_create_transit_resource_record v c = c\<lparr>eqc_allow_create_transit_resource_record := v\<rparr>"
| "set_execution Execute_allow_create_landing_node_record v c = c\<lparr>eqc_allow_create_landing_node_record := v\<rparr>"
| "set_execution Execute_no_worker_command_creation v c = c\<lparr>eqc_no_worker_command_creation := v\<rparr>"
| "set_execution Execute_no_transit_route_creation v c = c\<lparr>eqc_no_transit_route_creation := v\<rparr>"
| "set_execution Execute_no_haproxy_route_creation v c = c\<lparr>eqc_no_haproxy_route_creation := v\<rparr>"
| "set_execution Execute_no_haproxy_config_generation v c = c\<lparr>eqc_no_haproxy_config_generation := v\<rparr>"
| "set_execution Execute_no_listening_port_change v c = c\<lparr>eqc_no_listening_port_change := v\<rparr>"
| "set_execution Execute_no_ssh_or_remote_execution v c = c\<lparr>eqc_no_ssh_or_remote_execution := v\<rparr>"
| "set_execution Execute_no_firewall_change v c = c\<lparr>eqc_no_firewall_change := v\<rparr>"
| "set_execution Execute_no_cutover v c = c\<lparr>eqc_no_cutover := v\<rparr>"
| "set_execution Execute_ordinary_product_ui_unchanged v c = c\<lparr>eqc_ordinary_product_ui_unchanged := v\<rparr>"
| "set_execution Execute_sensitive_fields_redacted v c = c\<lparr>eqc_sensitive_fields_redacted := v\<rparr>"

subsection \<open>State\<close>

record debug_panel =
  dp_form :: debug_form
  dp_confirmations :: confirmations
  dp_readinessResult :: "real_execution_result option"
  dp_realExecutionResult :: "real_execution_result option"
  dp_loadingReadiness :: bool
  dp_submittingRealExecution :: bool
  dp_message :: jsstr
  dp_manualRealExecutionConfirm :: jsstr
  dp_debugContext :: "debug_context option"
  dp_loadingContext :: bool
  dp_selectedTransitResourceId :: jsstr
  dp_selectedLandingNodeId :: jsstr
  dp_selectedDryRunCommandId :: jsstr
  dp_contextMessage :: jsstr
  dp_protectedRegistrationDraft :: registration_draft
  dp_protectedRegistrationDryRunResult :: "jsval option"
  dp_loadingProtectedRegistrationDryRun :: bool
  dp_protectedRegistrationApprovalSourceText :: jsstr
  dp_protectedRegistrationApprovalText :: jsstr
  dp_protectedRegistrationApprovalConfirmations :: approval_confirmations
  dp_protectedRegistrationApprovalResult :: "jsval option"
  dp_loadingProtectedRegistrationApprovalDryRun :: bool
  dp_protectedRegistrationCommandSourceText :: jsstr
  dp_protectedRegistrationCommandConfirmations :: command_confirmations
  dp_protectedRegistrationCommandResult :: "jsval option"
  dp_loadingProtectedRegistrationCommandCreate :: bool
  dp_protectedRegistrationExecutionSourceText :: jsstr
  dp_protectedRegistrationExecutionCommandId :: jsstr
  dp_protectedRegistrationExecutionApprovalText :: jsstr
  dp_protectedRegistrationExecutionConfirmations :: execution_confirmations
  dp_protectedRegistrationExecutionResult :: "jsval option"
  dp_loadingProtectedRegistrationExecutionVerify :: bool

definition debug_panel_initial :: debug_panel where
  "debug_panel_initial =
     \<lparr>dp_form = defaultForm,
      dp_confirmations = defaultConfirmations,
      dp_readinessResult = None,
      dp_realExecutionResult = None,
      dp_loadingReadiness = False,
      dp_submittingRealExecution = False,
      dp_message = [],
      dp_manualRealExecutionConfirm = [],
      dp_debugContext = None,
      dp_loadingContext = False,
      dp_selectedTransitResourceId = [],
      dp_selectedLandingNodeId = [],
      dp_selectedDryRunCommandId = [],
      dp_contextMessage = [],
      dp_protectedRegistrationDraft = buildProtectedResourceRegistrationDraft None,
      dp_protectedRegistrationDryRunResult = None,
      dp_loadingProtectedRegistrationDryRun = False,
      dp_protectedRegistrationApprovalSourceText = [],
      dp_protectedRegistrationApprovalText = [],
      dp_protectedRegistrationApprovalConfirmations = defaultProtectedRegistrationApprovalConfirmations,
      dp_protectedRegistrationApprovalResult = None,
      dp_loadingProtectedRegistrationApprovalDryRun = False,
      dp_protectedRegistrationCommandSourceText = [],
      dp_protectedRegistrationCommandConfirmations = defaultProtectedRegistrationCommandConfirmations,
      dp_protectedRegistrationCommandResult = None,
      dp_loadingProtectedRegistrationCommandCreate = False,
      dp_protectedRegistrationExecutionSourceText = [],
      dp_protectedRegistrationExecutionCommandId = [],
      dp_protectedRegistrationExecutionApprovalText = [],
      dp_protectedRegistrationExecutionConfirmations = defaultProtectedRegistrationExecutionConfirmations,
      dp_protectedRegistrationExecutionResult = None,
      dp_loadingProtectedRegistrationExecutionVerify = False\<rparr>"

subsection \<open>Derived values\<close>

definition selectedDryRunCandidate :: "debug_panel \<Rightarrow> dry_run_candidate option" where
  "selectedDryRunCandidate p =
     (case dp_debugContext p of None \<Rightarrow> None
      | Some ctx \<Rightarrow> find_opt (\<lambda>candidate. cd_id candidate = dp_selectedDryRunCommandId p)
                      (dc_haproxy_dry_run_commands ctx))"

definition rebuildPlan :: "debug_panel \<Rightarrow> rebuild_plan" where
  "rebuildPlan p = buildHaproxyResourceRebuildPlan (selectedDryRunCandidate p)"

definition registrationPlan :: "debug_panel \<Rightarrow> registration_plan" where
  "registrationPlan p = buildResourceRegistrationPlan (selectedDryRunCandidate p) (rebuildPlan p)"

definition expectedRealExecutionText :: "debug_panel \<Rightarrow> jsstr" where
  "expectedRealExecutionText p =
     nullish (map_option xr_expected_real_execution_text (dp_readinessResult p))
       (expectedTextForPort (df_planned_listen_port (dp_form p)))"

definition passedCount :: "debug_panel \<Rightarrow> nat" where
  "passedCount p =
     (case dp_readinessResult p of None \<Rightarrow> 0
      | Some r \<Rightarrow> length (List.filter ck_passed (xr_checks r)))"

definition blockedCount :: "debug_panel \<Rightarrow> nat" where
  "blockedCount p =
     (case dp_readinessResult p of None \<Rightarrow> 0
      | Some r \<Rightarrow> length (xr_checks r) - passedCount p)"

definition requestPayload :: "debug_panel \<Rightarrow> real_execution_request option" where
  "requestPayload p = buildPayloadOrNull (dp_form p) (dp_confirmations p)"

definition formErrors :: "debug_panel \<Rightarrow> jsstr list" where
  "formErrors p = validateForm (dp_form p) (dp_confirmations p)"

definition selectedCandidateIntegrityReady :: "debug_panel \<Rightarrow> bool" where
  "selectedCandidateIntegrityReady p \<longleftrightarrow>
     (case selectedDryRunCandidate p of None \<Rightarrow> False | Some c \<Rightarrow> cd_integrity_ready c)"

definition protectedRegistrationErrors :: "debug_panel \<Rightarrow> jsstr list" where
  "protectedRegistrationErrors p =
     validateProtectedResourceRegistrationDraft (dp_protectedRegistrationDraft p)"

definition protectedRegistrationPayloadPreview :: "debug_panel \<Rightarrow> registration_request" where
  "protectedRegistrationPayloadPreview p =
     buildProtectedResourceRegistrationPayloadPreview (dp_protectedRegistrationDraft p)
       (selectedDryRunCandidate p)"

definition protectedRegistrationReady :: "debug_panel \<Rightarrow> bool" where
  "protectedRegistrationReady p \<longleftrightarrow>
     selectedDryRunCandidate p \<noteq> None \<and> protectedRegistrationErrors p = []"

definition canRunProtectedRegistrationDryRun :: "debug_panel \<Rightarrow> bool" where
  "canRunProtectedRegistrationDryRun p \<longleftrightarrow>
     selectedDryRunCandidate p \<noteq> None \<and> protectedRegistrationReady p
     \<and> \<not> dp_loadingProtectedRegistrationDryRun p"

definition protectedRegistrationApprovalSource :: "json_parser \<Rightarrow> debug_panel \<Rightarrow> stage_source" where
  "protectedRegistrationApprovalSource parse p =
     parseProtectedRegistrationDryRunSource parse (dp_protectedRegistrationApprovalSourceText p)
       (dp_protectedRegistrationDryRunResult p)"

definition protectedRegistrationApprovalTextMatches :: "json_parser \<Rightarrow> debug_panel \<Rightarrow> bool" where
  "protectedRegistrationApprovalTextMatches parse p \<longleftrightarrow>
     approval_text_matches
       (text_field (fst (protectedRegistrationApprovalSource parse p)) (js ''expected_approval_text''))
       (dp_protectedRegistrationApprovalText p)"

definition protectedRegistrationApprovalPayload :: "json_parser \<Rightarrow> debug_panel \<Rightarrow> approval_request" where
  "protectedRegistrationApprovalPayload parse p =
     buildProtectedRegistrationApprovalPayload (fst (protectedRegistrationApprovalSource parse p))
       (dp_protectedRegistrationApprovalText p) (dp_protectedRegistrationApprovalConfirmations p)"

definition protectedRegistrationApprovalConfirmationCount :: "json_parser \<Rightarrow> debug_panel \<Rightarrow> nat" where
  "protectedRegistrationApprovalConfirmationCount parse p =
     length (List.filter snd (approval_entries
       ((dp_protectedRegistrationApprovalConfirmations p)
          \<lparr>apc_approval_text_matches_expected := protectedRegistrationApprovalTextMatches parse p\<rparr>)))"

definition protectedRegistrationApprovalReady :: "json_parser \<Rightarrow> debug_panel \<Rightarrow> bool" where
  "protectedRegistrationApprovalReady parse p \<longleftrightarrow>
     (let source = protectedRegistrationApprovalSource parse p
      in fst source \<noteq> None \<and> snd source = []
         \<and> is_true (fst source) (js ''ready_for_next_stage'')
         \<and> protectedRegistrationApprovalTextMatches parse p
         \<and> list_all snd (List.filter (\<lambda>(key, value). key \<noteq> (js ''approval_text_matches_expected''))
             (approval_entries (dp_protectedRegistrationApprovalConfirmations p)))
         \<and> \<not> dp_loadingProtectedRegistrationApprovalDryRun p)"

definition protectedRegistrationCommandSource :: "json_parser \<Rightarrow> debug_panel \<Rightarrow> stage_source" where
  "protectedRegistrationCommandSource parse p =
     parseProtectedRegistrationApprovalDryRunSource parse (dp_protectedRegistrationCommandSourceText p)
       (dp_protectedRegistrationApprovalResult p)"

definition protectedRegistrationCommandPayload :: "json_parser \<Rightarrow> debug_panel \<Rightarrow> command_create_request" where
  "protectedRegistrationCommandPayload parse p =
     buildProtectedRegistrationCommandCreatePayload (fst (protectedRegistrationCommandSource parse p))
       (dp_protectedRegistrationCommandConfirmations p)"

definition protectedRegistrationCommandConfirmationCount :: "debug_panel \<Rightarrow> nat" where
  "protectedRegistrationCommandConfirmationCount p =
     length (List.filter id (command_values (dp_protectedRegistrationCommandConfirmations p)))"

definition protectedRegistrationCommandReady :: "json_parser \<Rightarrow> debug_panel \<Rightarrow> bool" where
  "protectedRegistrationCommandReady parse p \<longleftrightarrow>
     (let source = protectedRegistrationCommandSource parse p
      in fst source \<noteq> None \<and> snd source = []
         \<and> is_true (fst source) (js ''approved_for_next_stage'')
         \<and> is_true (fst source) (js ''ready_for_command_create_next_stage'')
         \<and> list_all id (command_values (dp_protectedRegistrationCommandConfirmations p))
         \<and> \<not> dp_loadingProtectedRegistrationCommandCreate p)"

definition protectedRegistrationExecutionSource :: "json_parser \<Rightarrow> debug_panel \<Rightarrow> stage_source" where
  "protectedRegistrationExecutionSource parse p =
     parseProtectedRegistrationCommandCreateSource parse (dp_protectedRegistrationExecutionSourceText p)
       (dp_protectedRegistrationCommandResult p)"

definition protectedRegistrationExecutionResolvedCommandId :: "json_parser \<Rightarrow> debug_panel \<Rightarrow> jsstr" where
  "protectedRegistrationExecutionResolvedCommandId parse p =
     or_str (trim (dp_protectedRegistrationExecutionCommandId p))
       (or_str (text_field (fst (protectedRegistrationExecutionSource parse p)) (js ''command_id''))
          (text_field (fst (protectedRegistrationExecutionSource parse p)) (js ''task_id'')))"

definition protectedRegistrationExecutionExpectedText :: "json_parser \<Rightarrow> debug_panel \<Rightarrow> jsstr" where
  "protectedRegistrationExecutionExpectedText parse p =
     makeProtectedRegistrationExecutionExpectedText
       (protectedRegistrationExecutionResolvedCommandId parse p)"

definition protectedRegistrationExecutionTextMatches :: "json_parser \<Rightarrow> debug_panel \<Rightarrow> bool" where
  "protectedRegistrationExecutionTextMatches parse p \<longleftrightarrow>
     protectedRegistrationExecutionResolvedCommandId parse p \<noteq> []
     \<and> trim (dp_protectedRegistrationExecutionApprovalText p)
         = protectedRegistrationExecutionExpectedText parse p"

definition protectedRegistrationExecutionPayload :: "json_parser \<Rightarrow> debug_panel \<Rightarrow> execution_verify_request" where
  "protectedRegistrationExecutionPayload parse p =
     buildProtectedRegistrationExecutionPayload
       (protectedRegistrationExecutionResolvedCommandId parse p)
       (dp_protectedRegistrationExecutionApprovalText p)
       (dp_protectedRegistrationExecutionConfirmations p)"

definition protectedRegistrationExecutionConfirmationCount :: "debug_panel \<Rightarrow> nat" where
  "protectedRegistrationExecutionConfirmationCount p =
     length (List.filter id (execution_values (dp_protectedRegistrationExecutionConfirmations p)))"

definition protectedRegistrationExecutionReady :: "json_parser \<Rightarrow> debug_panel \<Rightarrow> bool" where
  "protectedRegistrationExecutionReady parse p \<longleftrightarrow>
     (let source = protectedRegistrationExecutionSource parse p
      in fst source \<noteq> None \<and> snd source = []
         \<and> is_true (fst source) (js ''created'')
         \<and> is_true (fst source) (js ''ready_for_execution_next_stage'')
         \<and> protectedRegistrationExecutionResolvedCommandId parse p \<noteq> []
         \<and> protectedRegistrationExecutionTextMatches parse p
         \<and> list_all id (execution_values (dp_protectedRegistrationExecutionConfirmations p))
         \<and> \<not> dp_loadingProtectedRegistrationExecutionVerify p)"

definition canRunReadiness :: "debug_panel \<Rightarrow> bool" where
  "canRunReadiness p \<longleftrightarrow>
     formErrors p = [] \<and> requestPayload p \<noteq> None \<and> selectedCandidateIntegrityReady p"

definition selectedTransitResource :: "debug_panel \<Rightarrow> debug_transit_resource option" where
  "selectedTransitResource p =
     (case dp_debugContext p of None \<Rightarrow> None
      | Some ctx \<Rightarrow> find_opt (\<lambda>resource. dtr_id resource = dp_selectedTransitResourceId p)
                      (dc_transit_resources ctx))"

definition selectedLandingNode :: "debug_panel \<Rightarrow> debug_landing_node option" where
  "selectedLandingNode p =
     (case dp_debugContext p of None \<Rightarrow> None
      | Some ctx \<Rightarrow> find_opt (\<lambda>node. dln_id node = dp_selectedLandingNodeId p)
                      (dc_landing_nodes ctx))"

definition candidateTransitResourceMissing :: "debug_panel \<Rightarrow> bool" where
  "candidateTransitResourceMissing p \<longleftrightarrow>
     (case selectedDryRunCandidate p of None \<Rightarrow> False
      | Some c \<Rightarrow> \<not> blank (cd_transit_resource_id c) \<and> dp_debugContext p \<noteq> None
                   \<and> selectedTransitResource p = None)"

definition candidateLandingNodeMissing :: "debug_panel \<Rightarrow> bool" where
  "candidateLandingNodeMissing p \<longleftrightarrow>
     (case selectedDryRunCandidate p of None \<Rightarrow> False
      | Some c \<Rightarrow> \<not> blank (cd_landing_node_id c) \<and> dp_debugContext p \<noteq> None
                   \<and> selectedLandingNode p = None)"

definition canCreateRealExecution :: "debug_panel \<Rightarrow> bool" where
  "canCreateRealExecution p \<longleftrightarrow>
     requestPayload p \<noteq> None
     \<and> (case dp_readinessResult p of None \<Rightarrow> False | Some r \<Rightarrow> xr_ready_for_real_execution r)
     \<and> selectedCandidateIntegrityReady p
     \<and> Some (trim (df_real_execution_text (dp_form p)))
         = map_option xr_expected_real_execution_text (dp_readinessResult p)
     \<and> all_confirmed (dp_confirmations p)
     \<and> trim (dp_manualRealExecutionConfirm p) = MANUAL_REAL_EXECUTION_CONFIRM
     \<and> \<not> dp_submittingRealExecution p"

subsection \<open>Synchronous handlers\<close>

definition updateForm :: "form_edit \<Rightarrow> debug_panel \<Rightarrow> debug_panel" where
  "updateForm e p =
     p\<lparr>dp_form := set_form e (dp_form p),
       dp_readinessResult := None,
       dp_realExecutionResult := None\<rparr>"

definition updateConfirmation :: "confirmation_key \<Rightarrow> bool \<Rightarrow> debug_panel \<Rightarrow> debug_panel" where
  "updateConfirmation k v p =
     p\<lparr>dp_confirmations := set_confirmation k v (dp_confirmations p),
       dp_readinessResult := None,
       dp_realExecutionResult := None\<rparr>"

definition updateProtectedRegistrationDraft :: "draft_edit \<Rightarrow> debug_panel \<Rightarrow> debug_panel" where
  "updateProtectedRegistrationDraft e p =
     p\<lparr>dp_protectedRegistrationDraft := set_draft e (dp_protectedRegistrationDraft p),
       dp_protectedRegistrationDryRunResult := None,
       dp_protectedRegistrationApprovalResult := None,
       dp_protectedRegistrationCommandResult := None\<rparr>"

definition updateProtectedRegistrationApprovalConfirmation :: "approval_key \<Rightarrow> bool \<Rightarrow> debug_panel \<Rightarrow> debug_panel" where
  "updateProtectedRegistrationApprovalConfirmation k v p =
     (if k = Approve_approval_text_matches_expected then p
      else p\<lparr>dp_protectedRegistrationApprovalConfirmations := set_approval k v (dp_protectedRegistrationApprovalConfirmations p),
       dp_protectedRegistrationApprovalResult := None,
       dp_protectedRegistrationCommandResult := None\<rparr>)"

definition updateProtectedRegistrationCommandConfirmation :: "command_key \<Rightarrow> bool \<Rightarrow> debug_panel \<Rightarrow> debug_panel" where
  "updateProtectedRegistrationCommandConfirmation k v p =
     p\<lparr>dp_protectedRegistrationCommandConfirmations := set_command k v (dp_protectedRegistrationCommandConfirmations p),
       dp_protectedRegistrationCommandResult := None,
       dp_protectedRegistrationExecutionResult := None\<rparr>"

definition updateProtectedRegistrationExecutionConfirmation :: "execution_key \<Rightarrow> bool \<Rightarrow> debug_panel \<Rightarrow> debug_panel" where
  "updateProtectedRegistrationExecutionConfirmation k v p =
     p\<lparr>dp_protectedRegistrationExecutionConfirmations := set_execution k v (dp_protectedRegistrationExecutionConfirmations p),
       dp_protectedRegistrationExecutionResult := None\<rparr>"

definition clearForm :: "debug_panel \<Rightarrow> debug_panel" where
  "clearForm p =
     p\<lparr>dp_form := defaultForm,
       dp_confirmations := defaultConfirmations,
       dp_readinessResult := None,
       dp_realExecutionResult := None,
       dp_manualRealExecutionConfirm := [],
       dp_message := [],
       dp_contextMessage := []\<rparr>"

definition clearProtectedRegistrationDraft :: "debug_panel \<Rightarrow> debug_panel" where
  "clearProtectedRegistrationDraft p =
     p\<lparr>dp_protectedRegistrationDraft := buildProtectedResourceRegistrationDraft (selectedDryRunCandidate p),
       dp_protectedRegistrationDryRunResult := None,
       dp_protectedRegistrationApprovalSourceText := [],
       dp_protectedRegistrationApprovalText := [],
       dp_protectedRegistrationApprovalConfirmations := defaultProtectedRegistrationApprovalConfirmations,
       dp_protectedRegistrationApprovalResult := None,
       dp_protectedRegistrationCommandSourceText := [],
       dp_protectedRegistrationCommandConfirmations := defaultProtectedRegistrationCommandConfirmations,
       dp_protectedRegistrationCommandResult := None,
       dp_protectedRegistrationExecutionSourceText := [],
       dp_protectedRegistrationExecutionCommandId := [],
       dp_protectedRegistrationExecutionApprovalText := [],
       dp_protectedRegistrationExecutionConfirmations := defaultProtectedRegistrationExecutionConfirmations,
       dp_protectedRegistrationExecutionResult := None,
       dp_message := (uni ''%u767B%u8BB0%u8349%u6848%u5DF2%u6E05%u7A7A%u4E3A%u5F53%u524D candidate %u7684%u9ED8%u8BA4 hint%u3002'')\<rparr>"

definition clearProtectedRegistrationApprovalDraft :: "debug_panel \<Rightarrow> debug_panel" where
  "clearProtectedRegistrationApprovalDraft p =
     p\<lparr>dp_protectedRegistrationApprovalSourceText := [],
       dp_protectedRegistrationApprovalText := [],
       dp_protectedRegistrationApprovalConfirmations := defaultProtectedRegistrationApprovalConfirmations,
       dp_protectedRegistrationApprovalResult := None,
       dp_protectedRegistrationCommandSourceText := [],
       dp_protectedRegistrationCommandConfirmations := defaultProtectedRegistrationCommandConfirmations,
       dp_protectedRegistrationCommandResult := None,
       dp_protectedRegistrationExecutionSourceText := [],
       dp_protectedRegistrationExecutionCommandId := [],
       dp_protectedRegistrationExecutionApprovalText := [],
       dp_protectedRegistrationExecutionConfirmations := defaultProtectedRegistrationExecutionConfirmations,
       dp_protectedRegistrationExecutionResult := None,
       dp_message := (uni ''%u5BA1%u6279%u8349%u6848%u5DF2%u6E05%u7A7A%u3002'')\<rparr>"

definition clearProtectedRegistrationCommandDraft :: "debug_panel \<Rightarrow> debug_panel" where
  "clearProtectedRegistrationCommandDraft p =
     p\<lparr>dp_protectedRegistrationCommandSourceText := [],
       dp_protectedRegistrationCommandConfirmations := defaultProtectedRegistrationCommandConfirmations,
       dp_protectedRegistrationCommandResult := None,
       dp_protectedRegistrationExecutionSourceText := [],
       dp_protectedRegistrationExecutionCommandId := [],
       dp_protectedRegistrationExecutionApprovalText := [],
       dp_protectedRegistrationExecutionConfirmations := defaultProtectedRegistrationExecutionConfirmations,
       dp_protectedRegistrationExecutionResult := None,
       dp_message := (uni ''%u547D%u4EE4%u8349%u6848%u5DF2%u6E05%u7A7A%u3002'')\<rparr>"

definition clearProtectedRegistrationExecutionDraft :: "debug_panel \<Rightarrow> debug_panel" where
  "clearProtectedRegistrationExecutionDraft p =
     p\<lparr>dp_protectedRegistrationExecutionSourceText := [],
       dp_protectedRegistrationExecutionCommandId := [],
       dp_protectedRegistrationExecutionApprovalText := [],
       dp_protectedRegistrationExecutionConfirmations := defaultProtectedRegistrationExecutionConfirmations,
       dp_protectedRegistrationExecutionResult := None,
       dp_message := (uni ''%u6267%u884C%u9A8C%u8BC1%u8349%u6848%u5DF2%u6E05%u7A7A%u3002'')\<rparr>"

definition clear_dry_run_result :: "debug_panel \<Rightarrow> debug_panel" where
  "clear_dry_run_result p =
     p\<lparr>dp_protectedRegistrationDryRunResult := None,
       dp_message := (uni ''registration dry-run %u7ED3%u679C%u5DF2%u6E05%u7A7A%u3002'')\<rparr>"

definition preview_approval_payload :: "debug_panel \<Rightarrow> debug_panel" where
  "preview_approval_payload p =
     p\<lparr>dp_protectedRegistrationApprovalResult := None,
       dp_message := (uni ''%u5BA1%u6279 Payload %u9884%u89C8%u5DF2%u751F%u6210%uFF1B%u8FD9%u53EA%u662F%u524D%u7AEF%u9884%u89C8%uFF0C%u4E0D%u4F1A%u521B%u5EFA%u8D44%u6E90%u3002'')\<rparr>"

definition input_approval_source :: "jsstr \<Rightarrow> debug_panel \<Rightarrow> debug_panel" where
  "input_approval_source t p =
     p\<lparr>dp_protectedRegistrationApprovalSourceText := t,
       dp_protectedRegistrationApprovalResult := None\<rparr>"

definition input_approval_text :: "jsstr \<Rightarrow> debug_panel \<Rightarrow> debug_panel" where
  "input_approval_text t p =
     p\<lparr>dp_protectedRegistrationApprovalText := t,
       dp_protectedRegistrationApprovalResult := None\<rparr>"

definition preview_command_payload :: "debug_panel \<Rightarrow> debug_panel" where
  "preview_command_payload p =
     p\<lparr>dp_protectedRegistrationCommandResult := None,
       dp_message := (uni ''%u547D%u4EE4 Payload %u9884%u89C8%u5DF2%u751F%u6210%uFF1B%u8FD9%u53EA%u662F%u524D%u7AEF%u9884%u89C8%uFF0C%u4E0D%u4F1A%u521B%u5EFA%u8D44%u6E90%u3002'')\<rparr>"

definition input_command_source :: "jsstr \<Rightarrow> debug_panel \<Rightarrow> debug_panel" where
  "input_command_source t p =
     p\<lparr>dp_protectedRegistrationCommandSourceText := t,
       dp_protectedRegistrationCommandResult := None\<rparr>"

definition preview_execution_payload :: "debug_panel \<Rightarrow> debug_panel" where
  "preview_execution_payload p =
     p\<lparr>dp_protectedRegistrationExecutionResult := None\<rparr>"

definition input_execution_source :: "jsstr \<Rightarrow> debug_panel \<Rightarrow> debug_panel" where
  "input_execution_source t p =
     p\<lparr>dp_protectedRegistrationExecutionSourceText := t,
       dp_protectedRegistrationExecutionResult := None\<rparr>"

definition input_execution_command_id :: "jsstr \<Rightarrow> debug_panel \<Rightarrow> debug_panel" where
  "input_execution_command_id t p =
     p\<lparr>dp_protectedRegistrationExecutionCommandId := t,
       dp_protectedRegistrationExecutionResult := None\<rparr>"

definition input_execution_text :: "jsstr \<Rightarrow> debug_panel \<Rightarrow> debug_panel" where
  "input_execution_text t p =
     p\<lparr>dp_protectedRegistrationExecutionApprovalText := t,
       dp_protectedRegistrationExecutionResult := None\<rparr>"

text \<open>
  \<^verbatim>\<open>selectDryRunCandidate\<close> and \<^verbatim>\<open>applyDebugContextCandidate\<close>. A port of a candidate
  counts as missing when it is null or 0.
\<close>

definition selectDryRunCandidate :: "jsstr \<Rightarrow> debug_panel \<Rightarrow> debug_panel" where
  "selectDryRunCandidate candidateId p =
     (let q = p\<lparr>dp_selectedDryRunCommandId := candidateId\<rparr>;
          candidate = (case dp_debugContext p of None \<Rightarrow> None
            | Some ctx \<Rightarrow> find_opt (\<lambda>item. cd_id item = candidateId) (dc_haproxy_dry_run_commands ctx))
      in case candidate of None \<Rightarrow> q
         | Some c \<Rightarrow> q\<lparr>dp_selectedTransitResourceId := nullish (cd_transit_resource_id c) [],
                        dp_selectedLandingNodeId := nullish (cd_landing_node_id c) []\<rparr>)"

definition port_missing :: "int option \<Rightarrow> bool" where
  "port_missing v \<longleftrightarrow> (case v of None \<Rightarrow> True | Some n \<Rightarrow> n = 0)"

definition candidate_form :: "dry_run_candidate \<Rightarrow> debug_form" where
  "candidate_form candidate =
     (let plannedListenPort = string_of_int (the (cd_planned_listen_port candidate))
      in \<lparr>df_dry_run_command_id = cd_id candidate,
          df_transit_resource_id = the (cd_transit_resource_id candidate),
          df_landing_node_id = the (cd_landing_node_id candidate),
          df_planned_listen_port = plannedListenPort,
          df_landing_target_host = the (cd_landing_target_host candidate),
          df_landing_target_port = string_of_int (the (cd_landing_target_port candidate)),
          df_forwarding_method = (js ''haproxy_tcp''),
          df_route_name = the (cd_route_name candidate),
          df_route_display_name = nullish (cd_route_display_name candidate) [],
          df_approval_stage = REAL_EXECUTION_STAGE,
          df_final_approval_text = FINAL_APPROVAL_TEXT,
          df_real_execution_text = expectedTextForPort plannedListenPort\<rparr>)"

definition applyDebugContextCandidate :: "dry_run_candidate option \<Rightarrow> debug_panel \<Rightarrow> debug_panel" where
  "applyDebugContextCandidate cand p =
     (case cand of
        None \<Rightarrow> p\<lparr>dp_contextMessage := (uni ''%u8BF7%u5148%u9009%u62E9%u4E00%u4E2A HAProxy dry-run %u5019%u9009%u3002'')\<rparr>
      | Some candidate \<Rightarrow>
          if blank (cd_transit_resource_id candidate) \<or> blank (cd_landing_node_id candidate)
             \<or> port_missing (cd_planned_listen_port candidate) \<or> blank (cd_landing_target_host candidate)
             \<or> port_missing (cd_landing_target_port candidate) \<or> blank (cd_route_name candidate)
          then p\<lparr>dp_contextMessage := (uni ''%u9009%u4E2D%u7684 dry-run %u5019%u9009%u7F3A%u5C11%u5FC5%u8981%u5B57%u6BB5%uFF0C%u4E0D%u80FD%u81EA%u52A8%u586B%u5145%u3002'')\<rparr>
          else p\<lparr>dp_form := candidate_form candidate,
                 dp_confirmations := defaultConfirmations,
                 dp_readinessResult := None,
                 dp_realExecutionResult := None,
                 dp_manualRealExecutionConfirm := [],
                 dp_contextMessage :=
                   (if cd_integrity_ready candidate
                    then (uni ''%u5DF2%u586B%u5145%u4E0A%u4E0B%u6587%u5B57%u6BB5%uFF1B%u7AEF%u53E3%u653E%u884C%u4E0E%u5B89%u5168%u786E%u8BA4%u4ECD%u9700%u4EBA%u5DE5%u9010%u9879%u786E%u8BA4%u3002'')
                    else (uni ''%u5DF2%u586B%u5145%u4E0A%u4E0B%u6587%u5B57%u6BB5%uFF1B%u4E0A%u4E0B%u6587%u4E0D%u5B8C%u6574%uFF0C%u4EC5%u4F9B%u67E5%u770B%uFF0C%u4E0D%u80FD%u7EE7%u7EED readiness / real execution%u3002'')),
                 dp_message :=
                   (if cd_integrity_ready candidate
                    then (uni ''%u5DF2%u4ECE HAProxy dry-run %u5019%u9009%u586B%u5145 payload%u3002%u8BF7%u4EBA%u5DE5%u786E%u8BA4%u7AEF%u53E3%u653E%u884C%u540E%u518D%u8FD0%u884C readiness%u3002'')
                    else or_str (cd_integrity_summary candidate)
                      (uni ''%u4E0A%u4E0B%u6587%u4E0D%u5B8C%u6574%uFF0C%u4E0D%u80FD%u7EE7%u7EED readiness / real execution%u3002''))\<rparr>)"

text \<open>
  \<^verbatim>\<open>copyText\<close>: the outcome of the clipboard write is a parameter.
\<close>

fun copyText :: "jsstr \<Rightarrow> unit settled \<Rightarrow> debug_panel \<Rightarrow> debug_panel" where
  "copyText successMessage (Resolved u) p = p\<lparr>dp_message := successMessage\<rparr>"
| "copyText successMessage (Rejected e) p =
     p\<lparr>dp_message := error_text e (uni ''%u590D%u5236%u5931%u8D25%uFF0C%u8BF7%u624B%u52A8%u590D%u5236%u3002'')\<rparr>"

subsection \<open>The effect on a change of candidate\<close>

definition reset_registration_wizard :: "dry_run_candidate option \<Rightarrow> debug_panel \<Rightarrow> debug_panel" where
  "reset_registration_wizard cand p =
     p\<lparr>dp_protectedRegistrationDraft := buildProtectedResourceRegistrationDraft cand,
       dp_protectedRegistrationDryRunResult := None,
       dp_protectedRegistrationApprovalSourceText := [],
       dp_protectedRegistrationApprovalText := [],
       dp_protectedRegistrationApprovalConfirmations := defaultProtectedRegistrationApprovalConfirmations,
       dp_protectedRegistrationApprovalResult := None,
       dp_protectedRegistrationCommandSourceText := [],
       dp_protectedRegistrationCommandConfirmations := defaultProtectedRegistrationCommandConfirmations,
       dp_protectedRegistrationCommandResult := None,
       dp_protectedRegistrationExecutionSourceText := [],
       dp_protectedRegistrationExecutionCommandId := [],
       dp_protectedRegistrationExecutionApprovalText := [],
       dp_protectedRegistrationExecutionConfirmations := defaultProtectedRegistrationExecutionConfirmations,
       dp_protectedRegistrationExecutionResult := None\<rparr>"

definition selected_candidate_id :: "debug_panel \<Rightarrow> jsstr option" where
  "selected_candidate_id p = map_option cd_id (selectedDryRunCandidate p)"

text \<open>The \<^verbatim>\<open>useEffect\<close> with \<^verbatim>\<open>selectedDryRunCandidate?.id\<close> as its dependency.\<close>

definition candidate_effect :: "debug_panel \<Rightarrow> debug_panel \<Rightarrow> debug_panel" where
  "candidate_effect before after =
     (if selected_candidate_id after = selected_candidate_id before then after
      else reset_registration_wizard (selectedDryRunCandidate after) after)"

subsection \<open>Asynchronous handlers\<close>

definition created_command_id :: "jsval \<Rightarrow> jsstr" where
  "created_command_id data =
     (if is_nullish (field data (js ''command_id'')) then text_field (Some data) (js ''task_id'')
      else text_field (Some data) (js ''command_id''))"

definition runReadiness_start :: "debug_panel \<Rightarrow> debug_panel \<times> real_execution_request option" where
  "runReadiness_start p =
     (if requestPayload p = None then (p\<lparr>dp_message := (case formErrors p of [] \<Rightarrow> (uni ''%u8BF7%u5148%u8865%u9F50%u53C2%u6570%u3002'') | e # es \<Rightarrow> e)\<rparr>, None)
      else if selectedDryRunCandidate p = None then (p\<lparr>dp_message := (uni ''%u8BF7%u5148%u9009%u62E9%u4E00%u4E2A%u901A%u8FC7%u5B8C%u6574%u6027%u68C0%u67E5%u7684 HAProxy dry-run candidate%u3002'')\<rparr>, None)
      else if \<not> cd_integrity_ready (the (selectedDryRunCandidate p)) then (p\<lparr>dp_message := or_str (cd_integrity_summary (the (selectedDryRunCandidate p)))
          (uni ''%u4E0A%u4E0B%u6587%u4E0D%u5B8C%u6574%uFF0C%u4E0D%u80FD%u7EE7%u7EED readiness / real execution%u3002'')\<rparr>, None)
      else (p\<lparr>dp_loadingReadiness := True,
         dp_message := (uni ''%u6B63%u5728%u8FD0%u884C runtime readiness%uFF0C%u53EA%u8BFB%u68C0%u67E5%u4E0D%u4F1A%u521B%u5EFA WorkerCommand%u3002'')\<rparr>,
       requestPayload p))"

fun runReadiness_finish :: "real_execution_result api_response settled \<Rightarrow> debug_panel \<Rightarrow> debug_panel" where
  "runReadiness_finish (Rejected e) p =
     p\<lparr>dp_message := error_text e (uni ''%u8FD0%u884C readiness %u5931%u8D25%u3002''),
       dp_loadingReadiness := False\<rparr>"
| "runReadiness_finish (Resolved (ApiFailure c m d)) p =
     p\<lparr>dp_message := m, dp_loadingReadiness := False\<rparr>"
| "runReadiness_finish (Resolved (ApiSuccess data m)) p =
     p\<lparr>dp_readinessResult := Some data,
       dp_message := if xr_ready_for_real_execution data then (uni ''Runtime readiness %u5DF2%u901A%u8FC7%u3002'')
         else (uni ''Runtime readiness %u5DF2%u8FD4%u56DE%u963B%u585E%u9879%u3002''),
       dp_loadingReadiness := False\<rparr>"

definition runProtectedRegistrationDryRun_start :: "debug_panel \<Rightarrow> debug_panel \<times> registration_request option" where
  "runProtectedRegistrationDryRun_start p =
     (if selectedDryRunCandidate p = None then (p\<lparr>dp_message := (uni ''%u8BF7%u5148%u9009%u62E9%u4E00%u4E2A HAProxy dry-run candidate%u3002'')\<rparr>, None)
      else if \<not> protectedRegistrationReady p then (p\<lparr>dp_message := (case protectedRegistrationErrors p of [] \<Rightarrow> (uni ''%u767B%u8BB0%u8349%u6848%u672A%u901A%u8FC7%u672C%u5730%u6821%u9A8C%u3002'') | e # es \<Rightarrow> e)\<rparr>, None)
      else (p\<lparr>dp_loadingProtectedRegistrationDryRun := True,
         dp_message := (uni ''%u6B63%u5728%u8FD0%u884C registration dry-run%uFF1B%u8FD9%u662F%u53EA%u8BFB%u6821%u9A8C%uFF0C%u4E0D%u4F1A%u521B%u5EFA%u8D44%u6E90%u3002'')\<rparr>,
       Some (protectedRegistrationPayloadPreview p)))"

fun runProtectedRegistrationDryRun_finish :: "jsval api_response settled \<Rightarrow> debug_panel \<Rightarrow> debug_panel" where
  "runProtectedRegistrationDryRun_finish (Rejected e) p =
     p\<lparr>dp_message := error_text e (uni ''%u8FD0%u884C registration dry-run %u5931%u8D25%u3002''),
       dp_loadingProtectedRegistrationDryRun := False\<rparr>"
| "runProtectedRegistrationDryRun_finish (Resolved (ApiFailure c m d)) p =
     p\<lparr>dp_message := m, dp_loadingProtectedRegistrationDryRun := False\<rparr>"
| "runProtectedRegistrationDryRun_finish (Resolved (ApiSuccess data m)) p =
     p\<lparr>dp_protectedRegistrationDryRunResult := Some data,
       dp_protectedRegistrationApprovalResult := None,
       dp_protectedRegistrationCommandResult := None,
       dp_message := if truthy (field data (js ''ready_for_next_stage''))
         then (uni ''registration dry-run %u5DF2%u901A%u8FC7%u3002%u4E0B%u4E00%u9636%u6BB5%u4ECD%u9700%u5355%u72EC approval%uFF0C%u4E0D%u4F1A%u5728%u672C%u9636%u6BB5%u521B%u5EFA%u8D44%u6E90%u3002'')
         else (uni ''registration dry-run %u5B58%u5728%u963B%u585E%u9879%u3002%u8BF7%u5148%u4FEE%u6B63 payload %u6216%u4EBA%u5DE5%u786E%u8BA4%u4FE1%u606F%u3002''),
       dp_loadingProtectedRegistrationDryRun := False\<rparr>"

definition runProtectedRegistrationApprovalDryRun_start :: "json_parser \<Rightarrow> debug_panel \<Rightarrow> debug_panel \<times> approval_request option" where
  "runProtectedRegistrationApprovalDryRun_start parse p =
     (if fst (protectedRegistrationApprovalSource parse p) = None then (p\<lparr>dp_message := or_str (snd (protectedRegistrationApprovalSource parse p))
          (uni ''%u8BF7%u5148%u8FD0%u884C%u6216%u7C98%u8D34 Stage 3.4.27 registration dry-run %u7ED3%u679C%u3002'')\<rparr>, None)
      else if \<not> protectedRegistrationApprovalReady parse p then (p\<lparr>dp_message := or_str (snd (protectedRegistrationApprovalSource parse p))
          (uni ''%u5BA1%u6279%u8349%u6848%u672A ready%uFF1A%u9700%u8981%u6765%u6E90 dry-run ready%u3001approval text %u5B8C%u5168%u5339%u914D%uFF0C%u5E76%u52FE%u9009%u6240%u6709%u5B89%u5168%u786E%u8BA4%u9879%u3002'')\<rparr>, None)
      else (p\<lparr>dp_loadingProtectedRegistrationApprovalDryRun := True,
         dp_message := (uni ''%u6B63%u5728%u8FD0%u884C approval dry-run%uFF1B%u8FD9%u662F%u53EA%u8BFB%u5BA1%u6279%u6821%u9A8C%uFF0C%u4E0D%u4F1A%u521B%u5EFA%u8D44%u6E90%u6216 WorkerCommand%u3002'')\<rparr>,
       Some (protectedRegistrationApprovalPayload parse p)))"

fun runProtectedRegistrationApprovalDryRun_finish :: "jsval api_response settled \<Rightarrow> debug_panel \<Rightarrow> debug_panel" where
  "runProtectedRegistrationApprovalDryRun_finish (Rejected e) p =
     p\<lparr>dp_message := error_text e (uni ''%u8FD0%u884C approval dry-run %u5931%u8D25%u3002''),
       dp_loadingProtectedRegistrationApprovalDryRun := False\<rparr>"
| "runProtectedRegistrationApprovalDryRun_finish (Resolved (ApiFailure c m d)) p =
     p\<lparr>dp_message := m, dp_loadingProtectedRegistrationApprovalDryRun := False\<rparr>"
| "runProtectedRegistrationApprovalDryRun_finish (Resolved (ApiSuccess data m)) p =
     p\<lparr>dp_protectedRegistrationApprovalResult := Some data,
       dp_protectedRegistrationCommandResult := None,
       dp_message := if truthy (field data (js ''approved_for_next_stage''))
         then (uni ''approval dry-run %u5DF2%u901A%u8FC7%u3002%u4E0B%u4E00%u9636%u6BB5%u624D%u80FD%u5355%u72EC%u8BBE%u8BA1 command create%uFF0C%u672C%u9636%u6BB5%u4ECD%u672A%u521B%u5EFA%u4EFB%u4F55%u8D44%u6E90%u3002'')
         else (uni ''approval dry-run %u5B58%u5728%u963B%u585E%u9879%u3002%u8BF7%u68C0%u67E5%u5BA1%u6279%u6587%u672C%u548C%u5B89%u5168%u786E%u8BA4%u9879%u3002''),
       dp_loadingProtectedRegistrationApprovalDryRun := False\<rparr>"

definition runProtectedRegistrationCommandCreate_start :: "json_parser \<Rightarrow> debug_panel \<Rightarrow> debug_panel \<times> command_create_request option" where
  "runProtectedRegistrationCommandCreate_start parse p =
     (if fst (protectedRegistrationCommandSource parse p) = None then (p\<lparr>dp_message := or_str (snd (protectedRegistrationCommandSource parse p))
          (uni ''%u8BF7%u5148%u8FD0%u884C%u6216%u7C98%u8D34 Stage 3.4.28 approval dry-run %u7ED3%u679C%u3002'')\<rparr>, None)
      else if \<not> protectedRegistrationCommandReady parse p then (p\<lparr>dp_message := or_str (snd (protectedRegistrationCommandSource parse p))
          (uni ''%u547D%u4EE4%u8349%u6848%u672A ready%uFF1A%u9700%u8981%u6765%u6E90 approval dry-run approved%uFF0C%u5E76%u52FE%u9009%u6240%u6709 command-create %u5B89%u5168%u786E%u8BA4%u9879%u3002'')\<rparr>, None)
      else (p\<lparr>dp_loadingProtectedRegistrationCommandCreate := True,
         dp_message := (uni ''%u6B63%u5728%u521B%u5EFA%u672C%u5730 pending command %u8BB0%u5F55%uFF1B%u4E0D%u4F1A%u521B%u5EFA%u8D44%u6E90%u3001%u4E0D%u4F1A%u89E6%u53D1 Worker %u6216%u8FDC%u7A0B%u6267%u884C%u3002'')\<rparr>,
       Some (protectedRegistrationCommandPayload parse p)))"

fun runProtectedRegistrationCommandCreate_finish :: "jsval api_response settled \<Rightarrow> debug_panel \<Rightarrow> debug_panel" where
  "runProtectedRegistrationCommandCreate_finish (Rejected e) p =
     p\<lparr>dp_message := error_text e (uni ''%u521B%u5EFA%u53D7%u4FDD%u62A4%u767B%u8BB0%u547D%u4EE4%u5931%u8D25%u3002''),
       dp_loadingProtectedRegistrationCommandCreate := False\<rparr>"
| "runProtectedRegistrationCommandCreate_finish (Resolved (ApiFailure c m d)) p =
     p\<lparr>dp_message := m, dp_loadingProtectedRegistrationCommandCreate := False\<rparr>"
| "runProtectedRegistrationCommandCreate_finish (Resolved (ApiSuccess data m)) p =
     p\<lparr>dp_protectedRegistrationCommandResult := Some data,
       dp_protectedRegistrationExecutionResult := None,
       dp_protectedRegistrationExecutionCommandId := created_command_id data,
       dp_message := if \<not> truthy (field data (js ''created'')) then (uni ''%u547D%u4EE4%u521B%u5EFA%u88AB%u5B89%u5168%u6821%u9A8C%u963B%u6B62%u3002%u8BF7%u67E5%u770B blocked_reasons%u3002'')
         else if truthy (field data (js ''idempotent_reuse'')) then (uni ''%u5DF2%u590D%u7528%u76F8%u540C idempotency_key %u7684 pending command %u8BB0%u5F55%u3002'')
         else (uni ''%u672C%u5730 pending command %u8BB0%u5F55%u5DF2%u521B%u5EFA%uFF1B%u4E0B%u4E00%u9636%u6BB5%u624D%u53EF%u5355%u72EC%u9A8C%u8BC1%u6267%u884C%u3002''),
       dp_loadingProtectedRegistrationCommandCreate := False\<rparr>"

definition runProtectedRegistrationExecutionVerify_start :: "json_parser \<Rightarrow> debug_panel \<Rightarrow> debug_panel \<times> execution_verify_request option" where
  "runProtectedRegistrationExecutionVerify_start parse p =
     (if fst (protectedRegistrationExecutionSource parse p) = None then (p\<lparr>dp_message := or_str (snd (protectedRegistrationExecutionSource parse p))
          (uni ''%u8BF7%u5148%u8FD0%u884C%u6216%u7C98%u8D34 Stage 3.4.29 command-create %u7ED3%u679C%u3002'')\<rparr>, None)
      else if \<not> protectedRegistrationExecutionReady parse p then (p\<lparr>dp_message := or_str (snd (protectedRegistrationExecutionSource parse p))
          (uni ''%u6267%u884C%u9A8C%u8BC1%u8349%u6848%u672A ready%uFF1A%u9700%u8981 pending command ready%u3001%u5BA1%u6279%u6587%u672C%u5B8C%u5168%u5339%u914D%uFF0C%u5E76%u52FE%u9009%u6240%u6709 execution %u5B89%u5168%u786E%u8BA4%u9879%u3002'')\<rparr>, None)
      else (p\<lparr>dp_loadingProtectedRegistrationExecutionVerify := True,
         dp_message := (uni ''%u6B63%u5728%u6267%u884C%u53D7%u4FDD%u62A4%u672C%u5730%u8D44%u6E90%u767B%u8BB0%u4E0E%u9A8C%u8BC1%uFF1B%u4E0D%u4F1A%u89E6%u53D1 Worker%u3001SSH%u3001HAProxy %u6216%u9632%u706B%u5899%u53D8%u66F4%u3002'')\<rparr>,
       Some (protectedRegistrationExecutionPayload parse p)))"

fun runProtectedRegistrationExecutionVerify_finish :: "jsval api_response settled \<Rightarrow> debug_panel \<Rightarrow> debug_panel" where
  "runProtectedRegistrationExecutionVerify_finish (Rejected e) p =
     p\<lparr>dp_message := error_text e (uni ''%u8FD0%u884C%u6267%u884C%u9A8C%u8BC1%u5931%u8D25%u3002''),
       dp_loadingProtectedRegistrationExecutionVerify := False\<rparr>"
| "runProtectedRegistrationExecutionVerify_finish (Resolved (ApiFailure c m d)) p =
     p\<lparr>dp_message := m, dp_loadingProtectedRegistrationExecutionVerify := False\<rparr>"
| "runProtectedRegistrationExecutionVerify_finish (Resolved (ApiSuccess data m)) p =
     p\<lparr>dp_protectedRegistrationExecutionResult := Some data,
       dp_message := if \<not> truthy (field data (js ''executed'')) then (uni ''%u6267%u884C%u9A8C%u8BC1%u88AB%u5B89%u5168%u6821%u9A8C%u963B%u6B62%u3002%u8BF7%u67E5%u770B blocked_reasons %u548C checks%u3002'')
         else if truthy (field data (js ''idempotent_reuse'')) then (uni ''%u5DF2%u5E42%u7B49%u590D%u7528%u6B64%u524D%u6267%u884C%u9A8C%u8BC1%u7ED3%u679C%u3002%u4E0B%u4E00%u9636%u6BB5%u53EF%u91CD%u65B0%u751F%u6210 HAProxy dry-run%u3002'')
         else (uni ''%u672C%u5730%u8D44%u6E90%u767B%u8BB0%u4E0E%u9A8C%u8BC1%u5DF2%u5B8C%u6210%u3002%u4E0B%u4E00%u9636%u6BB5%u53EF%u91CD%u65B0%u751F%u6210 HAProxy dry-run%u3002''),
       dp_loadingProtectedRegistrationExecutionVerify := False\<rparr>"

definition submitRealExecution_start :: "debug_panel \<Rightarrow> debug_panel \<times> real_execution_request option" where
  "submitRealExecution_start p =
     (if requestPayload p = None \<or> \<not> canCreateRealExecution p then (p\<lparr>dp_message := (uni ''%u771F%u5B9E%u6267%u884C%u6309%u94AE%u4ECD%u53D7%u4FDD%u62A4%uFF0C%u8BF7%u5148%u5B8C%u6210 readiness%u3001%u786E%u8BA4%u6587%u672C%u548C%u4E8C%u6B21%u786E%u8BA4%u3002'')\<rparr>, None)
      else (p\<lparr>dp_submittingRealExecution := True,
         dp_message := (uni ''%u6B63%u5728%u521B%u5EFA%u53D7%u63A7 real execution WorkerCommand%u3002'')\<rparr>,
       requestPayload p))"

fun submitRealExecution_finish :: "real_execution_result api_response settled \<Rightarrow> debug_panel \<Rightarrow> debug_panel" where
  "submitRealExecution_finish (Rejected e) p =
     p\<lparr>dp_message := error_text e (uni ''%u521B%u5EFA real execution WorkerCommand %u5931%u8D25%u3002''),
       dp_submittingRealExecution := False\<rparr>"
| "submitRealExecution_finish (Resolved (ApiFailure c m d)) p =
     p\<lparr>dp_message := m, dp_submittingRealExecution := False\<rparr>"
| "submitRealExecution_finish (Resolved (ApiSuccess data m)) p =
     p\<lparr>dp_realExecutionResult := Some data,
       dp_message := if xr_real_execution_command_created data then (uni ''Real execution WorkerCommand %u5DF2%u521B%u5EFA%u3002'')
         else xr_summary data,
       dp_submittingRealExecution := False\<rparr>"

definition loadDebugContext_start :: "debug_panel \<Rightarrow> debug_panel" where
  "loadDebugContext_start p =
     p\<lparr>dp_loadingContext := True,
       dp_contextMessage := (uni ''%u6B63%u5728%u8BFB%u53D6%u4E3B%u63A7%u672C%u5730%u4E0A%u4E0B%u6587%uFF1B%u4E0D%u4F1A%u521B%u5EFA WorkerCommand %u6216%u6267%u884C%u8FDC%u7A0B%u547D%u4EE4%u3002'')\<rparr>"

definition context_summary :: "debug_context \<Rightarrow> jsstr" where
  "context_summary ctx =
     (uni ''%u5DF2%u8BFB%u53D6%u4E0A%u4E0B%u6587%uFF1A'') @ string_of_int (int (length (dc_transit_resources ctx)))
     @ (uni '' %u4E2A%u4E2D%u8F6C%u8D44%u6E90%uFF0C'') @ string_of_int (int (length (dc_landing_nodes ctx)))
     @ (uni '' %u4E2A%u843D%u5730%u8282%u70B9%uFF0C'') @ string_of_int (int (length (dc_haproxy_dry_run_commands ctx)))
     @ (uni '' %u4E2A HAProxy dry-run %u5019%u9009%u3002'')"

fun loadDebugContext_finish :: "debug_context api_response settled \<Rightarrow> debug_panel \<Rightarrow> debug_panel" where
  "loadDebugContext_finish (Rejected e) p =
     p\<lparr>dp_contextMessage := error_text e (uni ''%u8BFB%u53D6%u4E0A%u4E0B%u6587%u5931%u8D25%u3002''),
       dp_loadingContext := False\<rparr>"
| "loadDebugContext_finish (Resolved (ApiFailure c m d)) p =
     p\<lparr>dp_contextMessage := m, dp_loadingContext := False\<rparr>"
| "loadDebugContext_finish (Resolved (ApiSuccess ctx m)) p =
     (let q = p\<lparr>dp_debugContext := Some ctx,
                dp_contextMessage := context_summary ctx,
                dp_loadingContext := False\<rparr>
      in case dc_haproxy_dry_run_commands ctx of
           firstCandidate # rest \<Rightarrow>
             q\<lparr>dp_selectedDryRunCommandId := cd_id firstCandidate,
               dp_selectedTransitResourceId := nullish (cd_transit_resource_id firstCandidate) [],
               dp_selectedLandingNodeId := nullish (cd_landing_node_id firstCandidate) []\<rparr>
         | [] \<Rightarrow>
             q\<lparr>dp_selectedDryRunCommandId := [],
               dp_selectedTransitResourceId :=
                 (case dc_transit_resources ctx of [] \<Rightarrow> [] | r # rs \<Rightarrow> dtr_id r),
               dp_selectedLandingNodeId :=
                 (case dc_landing_nodes ctx of [] \<Rightarrow> [] | n # ns \<Rightarrow> dln_id n)\<rparr>)"

end
