(* ===== verification/DebugPanelSystem.thy ===== *)
theory DebugPanelSystem
  imports DebugPanel
begin

text \<open>
  The debug panel as a state machine: the panel, the asynchronous handlers suspended at an
  await, and the log of what was sent and answered. A step is one event: an edit, a click on an
  enabled button, the arrival of a CSRF token or of a response; handlers interleave freely,
  since nothing but the buttons' \<^verbatim>\<open>disabled\<close> attributes orders them. React runs the effect on
  the selected candidate after the render that an event causes; here it is part of the step.
\<close>

subsection \<open>Buttons and the calls they make\<close>

datatype button = ReadinessButton | DryRunButton | ApprovalButton | CommandButton
  | ExecutionButton | RealExecutionButton

datatype action =
    Readiness real_execution_request
  | DryRun registration_request
  | Approval approval_request
  | CommandCreate command_create_request
  | ExecutionVerify execution_verify_request
  | RealExecution real_execution_request

fun button_of :: "action \<Rightarrow> button" where
  "button_of (Readiness q) = ReadinessButton"
| "button_of (DryRun q) = DryRunButton"
| "button_of (Approval q) = ApprovalButton"
| "button_of (CommandCreate q) = CommandButton"
| "button_of (ExecutionVerify q) = ExecutionButton"
| "button_of (RealExecution q) = RealExecutionButton"

text \<open>The response types: a typed result, or the JSON of a wizard stage.\<close>

datatype reply =
    RealReply "real_execution_result api_response settled"
  | StageReply "jsval api_response settled"

fun reply_fits :: "action \<Rightarrow> reply \<Rightarrow> bool" where
  "reply_fits (Readiness q) (RealReply r) = True"
| "reply_fits (RealExecution q) (RealReply r) = True"
| "reply_fits (Readiness q) (StageReply r) = False"
| "reply_fits (RealExecution q) (StageReply r) = False"
| "reply_fits a (StageReply r) = True"
| "reply_fits a (RealReply r) = False"

text \<open>
  The \<^verbatim>\<open>disabled\<close> attributes of the six buttons; those of the wizard are only rendered
  while a candidate is selected.
\<close>

fun button_enabled :: "json_parser \<Rightarrow> button \<Rightarrow> debug_panel \<Rightarrow> bool" where
  "button_enabled parse ReadinessButton p \<longleftrightarrow> canRunReadiness p \<and> \<not> dp_loadingReadiness p"
| "button_enabled parse DryRunButton p \<longleftrightarrow> canRunProtectedRegistrationDryRun p"
| "button_enabled parse ApprovalButton p \<longleftrightarrow>
     selectedDryRunCandidate p \<noteq> None \<and> protectedRegistrationApprovalReady parse p"
| "button_enabled parse CommandButton p \<longleftrightarrow>
     selectedDryRunCandidate p \<noteq> None \<and> protectedRegistrationCommandReady parse p"
| "button_enabled parse ExecutionButton p \<longleftrightarrow>
     selectedDryRunCandidate p \<noteq> None \<and> protectedRegistrationExecutionReady parse p"
| "button_enabled parse RealExecutionButton p \<longleftrightarrow> canCreateRealExecution p"

fun press :: "json_parser \<Rightarrow> button \<Rightarrow> debug_panel \<Rightarrow> debug_panel \<times> action option" where
  "press parse ReadinessButton p = map_prod id (map_option Readiness) (runReadiness_start p)"
| "press parse DryRunButton p =
     map_prod id (map_option DryRun) (runProtectedRegistrationDryRun_start p)"
| "press parse ApprovalButton p =
     map_prod id (map_option Approval) (runProtectedRegistrationApprovalDryRun_start parse p)"
| "press parse CommandButton p =
     map_prod id (map_option CommandCreate) (runProtectedRegistrationCommandCreate_start parse p)"
| "press parse ExecutionButton p =
     map_prod id (map_option ExecutionVerify) (runProtectedRegistrationExecutionVerify_start parse p)"
| "press parse RealExecutionButton p =
     map_prod id (map_option RealExecution) (submitRealExecution_start p)"

fun settle :: "action \<Rightarrow> reply \<Rightarrow> debug_panel \<Rightarrow> debug_panel" where
  "settle (Readiness q) (RealReply r) p = runReadiness_finish r p"
| "settle (RealExecution q) (RealReply r) p = submitRealExecution_finish r p"
| "settle (DryRun q) (StageReply r) p = runProtectedRegistrationDryRun_finish r p"
| "settle (Approval q) (StageReply r) p = runProtectedRegistrationApprovalDryRun_finish r p"
| "settle (CommandCreate q) (StageReply r) p = runProtectedRegistrationCommandCreate_finish r p"
| "settle (ExecutionVerify q) (StageReply r) p = runProtectedRegistrationExecutionVerify_finish r p"
| "settle a r p = p"

text \<open>The exception a failed \<^verbatim>\<open>ensureCsrfToken\<close> raises inside the handler's \<^verbatim>\<open>try\<close>.\<close>

fun thrown :: "action \<Rightarrow> jsstr option \<Rightarrow> reply" where
  "thrown (Readiness q) e = RealReply (Rejected e)"
| "thrown (RealExecution q) e = RealReply (Rejected e)"
| "thrown a e = StageReply (Rejected e)"

lemma thrown_fits [simp]: "reply_fits a (thrown a e)"
  by (cases a) simp_all

fun request_of_action :: "action \<Rightarrow> jsstr \<Rightarrow> api_request" where
  "request_of_action (Readiness q) t =
     request_of (RequestTransitHaproxyRouteRealExecutionReadiness (json_real_execution_request q) t)"
| "request_of_action (DryRun q) t =
     request_of (RequestProtectedResourceRegistrationDryRun (json_registration_request q) t)"
| "request_of_action (Approval q) t =
     request_of (RequestProtectedResourceRegistrationApprovalDryRun (json_approval_request q) t)"
| "request_of_action (CommandCreate q) t =
     request_of (CreateProtectedResourceRegistrationCommand (json_command_create_request q) t)"
| "request_of_action (ExecutionVerify q) t =
     request_of (RunProtectedResourceRegistrationExecutionVerify (json_execution_verify_request q) t)"
| "request_of_action (RealExecution q) t =
     request_of (CreateTransitHaproxyRouteRealExecution (json_real_execution_request q) t)"

fun busy :: "button \<Rightarrow> debug_panel \<Rightarrow> bool" where
  "busy ReadinessButton p = dp_loadingReadiness p"
| "busy DryRunButton p = dp_loadingProtectedRegistrationDryRun p"
| "busy ApprovalButton p = dp_loadingProtectedRegistrationApprovalDryRun p"
| "busy CommandButton p = dp_loadingProtectedRegistrationCommandCreate p"
| "busy ExecutionButton p = dp_loadingProtectedRegistrationExecutionVerify p"
| "busy RealExecutionButton p = dp_submittingRealExecution p"

subsection \<open>Edits\<close>

datatype edit =
    EditForm form_edit
  | EditConfirmation confirmation_key bool
  | EditDraft draft_edit
  | EditApproval approval_key bool
  | EditCommand command_key bool
  | EditExecution execution_key bool
  | ClearForm
  | ClearDraft
  | ClearApproval
  | ClearCommand
  | ClearExecution
  | ClearDryRunResult
  | PreviewApproval
  | ApprovalSource jsstr
  | ApprovalText jsstr
  | PreviewCommand
  | CommandSource jsstr
  | PreviewExecution
  | ExecutionSource jsstr
  | ExecutionCommandId jsstr
  | ExecutionText jsstr
  | SelectResource jsstr
  | SelectNode jsstr
  | SelectCandidate jsstr
  | ApplyCandidate
  | ManualConfirm jsstr
  | Copy jsstr "unit settled"

fun apply_edit :: "edit \<Rightarrow> debug_panel \<Rightarrow> debug_panel" where
  "apply_edit (EditForm e) p = updateForm e p"
| "apply_edit (EditConfirmation k v) p = updateConfirmation k v p"
| "apply_edit (EditDraft e) p = updateProtectedRegistrationDraft e p"
| "apply_edit (EditApproval k v) p = updateProtectedRegistrationApprovalConfirmation k v p"
| "apply_edit (EditCommand k v) p = updateProtectedRegistrationCommandConfirmation k v p"
| "apply_edit (EditExecution k v) p = updateProtectedRegistrationExecutionConfirmation k v p"
| "apply_edit ClearForm p = clearForm p"
| "apply_edit ClearDraft p = clearProtectedRegistrationDraft p"
| "apply_edit ClearApproval p = clearProtectedRegistrationApprovalDraft p"
| "apply_edit ClearCommand p = clearProtectedRegistrationCommandDraft p"
| "apply_edit ClearExecution p = clearProtectedRegistrationExecutionDraft p"
| "apply_edit ClearDryRunResult p = clear_dry_run_result p"
| "apply_edit PreviewApproval p = preview_approval_payload p"
| "apply_edit (ApprovalSource t) p = input_approval_source t p"
| "apply_edit (ApprovalText t) p = input_approval_text t p"
| "apply_edit PreviewCommand p = preview_command_payload p"
| "apply_edit (CommandSource t) p = input_command_source t p"
| "apply_edit PreviewExecution p = preview_execution_payload p"
| "apply_edit (ExecutionSource t) p = input_execution_source t p"
| "apply_edit (ExecutionCommandId t) p = input_execution_command_id t p"
| "apply_edit (ExecutionText t) p = input_execution_text t p"
| "apply_edit (SelectResource t) p = p\<lparr>dp_selectedTransitResourceId := t\<rparr>"
| "apply_edit (SelectNode t) p = p\<lparr>dp_selectedLandingNodeId := t\<rparr>"
| "apply_edit (SelectCandidate t) p = selectDryRunCandidate t p"
| "apply_edit ApplyCandidate p = applyDebugContextCandidate (selectedDryRunCandidate p) p"
| "apply_edit (ManualConfirm t) p = p\<lparr>dp_manualRealExecutionConfirm := t\<rparr>"
| "apply_edit (Copy m r) p = copyText m r p"

text \<open>Edits of the main form are always possible; those of the wizard need a candidate.\<close>

fun main_edit :: "edit \<Rightarrow> bool" where
  "main_edit (EditForm e) = True"
| "main_edit (EditConfirmation k v) = True"
| "main_edit ClearForm = True"
| "main_edit (SelectResource t) = True"
| "main_edit (SelectNode t) = True"
| "main_edit (SelectCandidate t) = True"
| "main_edit (ManualConfirm t) = True"
| "main_edit (Copy m r) = True"
| "main_edit e = False"

text \<open>The fields of the draft that have an input; the others are constants or candidate hints.\<close>

fun rendered_field :: "draft_edit \<Rightarrow> bool" where
  "rendered_field (Draft_transit_resource_type t) = False"
| "rendered_field (Draft_transit_worker_role t) = False"
| "rendered_field (Draft_landing_expected_status t) = False"
| "rendered_field (Draft_landing_share_link_handling t) = False"
| "rendered_field (Draft_source_dry_run_command_id t) = False"
| "rendered_field (Draft_source_candidate_route_name t) = False"
| "rendered_field (Draft_source_candidate_listen_port t) = False"
| "rendered_field (Draft_source_candidate_landing_host t) = False"
| "rendered_field (Draft_source_candidate_landing_port t) = False"
| "rendered_field e = True"

fun edit_enabled :: "edit \<Rightarrow> debug_panel \<Rightarrow> bool" where
  "edit_enabled ClearDryRunResult p \<longleftrightarrow>
     selectedDryRunCandidate p \<noteq> None \<and> dp_protectedRegistrationDryRunResult p \<noteq> None"
| "edit_enabled (EditDraft e) p \<longleftrightarrow> selectedDryRunCandidate p \<noteq> None \<and> rendered_field e"
| "edit_enabled e p \<longleftrightarrow> main_edit e \<or> selectedDryRunCandidate p \<noteq> None"

text \<open>The edits that change what \<^verbatim>\<open>requestPayload\<close> is computed from.\<close>

fun payload_edit :: "edit \<Rightarrow> bool" where
  "payload_edit (EditForm e) = True"
| "payload_edit (EditConfirmation k v) = True"
| "payload_edit ClearForm = True"
| "payload_edit ApplyCandidate = True"
| "payload_edit e = False"

subsection \<open>The step relation\<close>

datatype pending = AwaitCsrf action | AwaitReply action | AwaitContext

datatype log_entry = Sent action jsstr | Answered action reply

record debug_system =
  ds_panel :: debug_panel
  ds_pending :: "pending list"
  ds_log :: "log_entry list"

definition debug_system_initial :: debug_system where
  "debug_system_initial =
     \<lparr>ds_panel = debug_panel_initial, ds_pending = [], ds_log = []\<rparr>"

definition on_panel :: "(debug_panel \<Rightarrow> debug_panel) \<Rightarrow> debug_system \<Rightarrow> debug_system" where
  "on_panel f s = s\<lparr>ds_panel := candidate_effect (ds_panel s) (f (ds_panel s))\<rparr>"

text \<open>
  The first parameter says which edits the run allows in which state; \<open>anything\<close> allows all.
\<close>

inductive debug_step ::
  "(edit \<Rightarrow> debug_panel \<Rightarrow> bool) \<Rightarrow> json_parser \<Rightarrow> debug_system \<Rightarrow> debug_system \<Rightarrow> bool"
  for allow parse where
  edit:
    "edit_enabled e (ds_panel s) \<Longrightarrow> allow e (ds_panel s) \<Longrightarrow>
     debug_step allow parse s (on_panel (apply_edit e) s)"
| pressed:
    "button_enabled parse b (ds_panel s) \<Longrightarrow> press parse b (ds_panel s) = (p, Some a) \<Longrightarrow>
     debug_step allow parse s ((on_panel (\<lambda>_. p) s)\<lparr>ds_pending := AwaitCsrf a # ds_pending s\<rparr>)"
| refused:
    "button_enabled parse b (ds_panel s) \<Longrightarrow> press parse b (ds_panel s) = (p, None) \<Longrightarrow>
     debug_step allow parse s (on_panel (\<lambda>_. p) s)"
| csrf_token:
    "AwaitCsrf a \<in> set (ds_pending s) \<Longrightarrow> ensureCsrfToken r = Resolved token \<Longrightarrow>
     debug_step allow parse s
       (s\<lparr>ds_pending := AwaitReply a # remove1 (AwaitCsrf a) (ds_pending s),
          ds_log := Sent a token # ds_log s\<rparr>)"
| csrf_failed:
    "AwaitCsrf a \<in> set (ds_pending s) \<Longrightarrow> ensureCsrfToken r = Rejected e \<Longrightarrow>
     debug_step allow parse s
       ((on_panel (settle a (thrown a e)) s)\<lparr>ds_pending := remove1 (AwaitCsrf a) (ds_pending s)\<rparr>)"
| answered:
    "AwaitReply a \<in> set (ds_pending s) \<Longrightarrow> reply_fits a r \<Longrightarrow>
     debug_step allow parse s
       ((on_panel (settle a r) s)
          \<lparr>ds_pending := remove1 (AwaitReply a) (ds_pending s), ds_log := Answered a r # ds_log s\<rparr>)"
| read_context:
    "\<not> dp_loadingContext (ds_panel s) \<Longrightarrow>
     debug_step allow parse s
       ((on_panel loadDebugContext_start s)\<lparr>ds_pending := AwaitContext # ds_pending s\<rparr>)"
| context_answered:
    "AwaitContext \<in> set (ds_pending s) \<Longrightarrow>
     debug_step allow parse s
       ((on_panel (loadDebugContext_finish c) s)\<lparr>ds_pending := remove1 AwaitContext (ds_pending s)\<rparr>)"

inductive debug_reachable ::
  "(edit \<Rightarrow> debug_panel \<Rightarrow> bool) \<Rightarrow> json_parser \<Rightarrow> debug_system \<Rightarrow> bool" for allow parse where
  initial: "debug_reachable allow parse debug_system_initial"
| step: "debug_reachable allow parse s \<Longrightarrow> debug_step allow parse s s' \<Longrightarrow> debug_reachable allow parse s'"

definition anything :: "edit \<Rightarrow> debug_panel \<Rightarrow> bool" where
  "anything e p = True"

text \<open>Runs that leave the request alone while its readiness check is under way.\<close>

definition calm :: "edit \<Rightarrow> debug_panel \<Rightarrow> bool" where
  "calm e p \<longleftrightarrow> \<not> (payload_edit e \<and> dp_loadingReadiness p)"

end
