(* ===== verification/DebugPanelSafety.thy ===== *)
theory DebugPanelSafety
  imports DebugPanelSystem
begin

text \<open>
  What holds of every run of the debug panel: the contract of a guarded asynchronous call and
  its six interpretations, the single-flight and provenance invariants of the system, the
  authorisation of each call that is sent, and the two races the guards leave open.
\<close>

subsection \<open>The contract of a guarded asynchronous call\<close>

locale guarded_call =
  fixes enabled :: "'p \<Rightarrow> bool"
    and start :: "'p \<Rightarrow> 'p \<times> 'q option"
    and finish :: "'a \<Rightarrow> 'p \<Rightarrow> 'p"
    and loading :: "'p \<Rightarrow> bool"
  assumes enabled_idle: "enabled p \<Longrightarrow> \<not> loading p"
    and enabled_sends: "enabled p \<Longrightarrow> \<exists>q. snd (start p) = Some q"
    and sends_loading: "snd (start p) = Some q \<Longrightarrow> loading (fst (start p))"
    and refused_same: "snd (start p) = None \<Longrightarrow> loading (fst (start p)) = loading p"
    and finish_idle: "\<not> loading (finish a p)"
begin

text \<open>An enabled button sends, and is disabled until the answer has been handled.\<close>

lemma single_flight:
  assumes "enabled p"
  obtains q where "start p = (fst (start p), Some q)" "\<not> loading p" "\<not> enabled (fst (start p))"
  using assms enabled_sends [OF assms] sends_loading enabled_idle
  by (metis prod.collapse)

lemma flights_balanced:
  assumes "n = (if loading p then 1 else (0::nat))" and "enabled p"
  shows "n + 1 = (if loading (fst (start p)) then 1 else 0)"
    "n = 0"
  using assms enabled_idle enabled_sends sends_loading by fastforce+

lemma finish_then_loading: "loading (finish a p) = False"
  using finish_idle by simp

end

lemmas start_defs =
  runReadiness_start_def runProtectedRegistrationDryRun_start_def
  runProtectedRegistrationApprovalDryRun_start_def runProtectedRegistrationCommandCreate_start_def
  runProtectedRegistrationExecutionVerify_start_def submitRealExecution_start_def

lemmas ready_defs =
  canRunReadiness_def canRunProtectedRegistrationDryRun_def
  protectedRegistrationApprovalReady_def protectedRegistrationCommandReady_def
  protectedRegistrationExecutionReady_def canCreateRealExecution_def Let_def

lemma readiness_guard:
  "canRunReadiness p \<Longrightarrow> \<exists>c. selectedDryRunCandidate p = Some c \<and> cd_integrity_ready c"
  by (auto simp: canRunReadiness_def selectedCandidateIntegrityReady_def split: option.splits)

interpretation readiness_call: guarded_call "button_enabled parse ReadinessButton"
    runReadiness_start runReadiness_finish dp_loadingReadiness
proof (unfold_locales, goal_cases)
  case (2 p)
  then show ?case
    using readiness_guard [of p] by (auto simp: runReadiness_start_def canRunReadiness_def)
next
  case (5 a p)
  then show ?case by (cases "(a, p)" rule: runReadiness_finish.cases) simp_all
qed (simp_all add: runReadiness_start_def split: if_splits)

interpretation dry_run_call: guarded_call "button_enabled parse DryRunButton"
    runProtectedRegistrationDryRun_start runProtectedRegistrationDryRun_finish
    dp_loadingProtectedRegistrationDryRun
proof (unfold_locales, goal_cases)
  case (5 a p)
  then show ?case by (cases "(a, p)" rule: runProtectedRegistrationDryRun_finish.cases) simp_all
qed (auto simp: runProtectedRegistrationDryRun_start_def canRunProtectedRegistrationDryRun_def
      split: if_splits)

interpretation approval_call: guarded_call "button_enabled parse ApprovalButton"
    "runProtectedRegistrationApprovalDryRun_start parse" runProtectedRegistrationApprovalDryRun_finish
    dp_loadingProtectedRegistrationApprovalDryRun for parse
proof (unfold_locales, goal_cases)
  case (5 a p)
  then show ?case
    by (cases "(a, p)" rule: runProtectedRegistrationApprovalDryRun_finish.cases) simp_all
qed (auto simp: runProtectedRegistrationApprovalDryRun_start_def
      protectedRegistrationApprovalReady_def Let_def split: if_splits)

interpretation command_call: guarded_call "button_enabled parse CommandButton"
    "runProtectedRegistrationCommandCreate_start parse" runProtectedRegistrationCommandCreate_finish
    dp_loadingProtectedRegistrationCommandCreate for parse
proof (unfold_locales, goal_cases)
  case (5 a p)
  then show ?case
    by (cases "(a, p)" rule: runProtectedRegistrationCommandCreate_finish.cases) simp_all
qed (auto simp: runProtectedRegistrationCommandCreate_start_def
      protectedRegistrationCommandReady_def Let_def split: if_splits)

interpretation execution_call: guarded_call "button_enabled parse ExecutionButton"
    "runProtectedRegistrationExecutionVerify_start parse"
    runProtectedRegistrationExecutionVerify_finish
    dp_loadingProtectedRegistrationExecutionVerify for parse
proof (unfold_locales, goal_cases)
  case (5 a p)
  then show ?case
    by (cases "(a, p)" rule: runProtectedRegistrationExecutionVerify_finish.cases) simp_all
qed (auto simp: runProtectedRegistrationExecutionVerify_start_def
      protectedRegistrationExecutionReady_def Let_def split: if_splits)

interpretation real_execution_call: guarded_call "button_enabled parse RealExecutionButton"
    submitRealExecution_start submitRealExecution_finish dp_submittingRealExecution
proof (unfold_locales, goal_cases)
  case (5 a p)
  then show ?case by (cases "(a, p)" rule: submitRealExecution_finish.cases) simp_all
qed (auto simp: submitRealExecution_start_def canCreateRealExecution_def split: if_splits)

subsection \<open>What the handlers leave alone\<close>

lemma candidate_effect_keeps [simp]:
  "dp_form (candidate_effect p q) = dp_form q"
  "dp_confirmations (candidate_effect p q) = dp_confirmations q"
  "dp_readinessResult (candidate_effect p q) = dp_readinessResult q"
  "dp_realExecutionResult (candidate_effect p q) = dp_realExecutionResult q"
  "dp_loadingReadiness (candidate_effect p q) = dp_loadingReadiness q"
  "dp_debugContext (candidate_effect p q) = dp_debugContext q"
  "dp_selectedDryRunCommandId (candidate_effect p q) = dp_selectedDryRunCommandId q"
  "dp_loadingContext (candidate_effect p q) = dp_loadingContext q"
  "dp_manualRealExecutionConfirm (candidate_effect p q) = dp_manualRealExecutionConfirm q"
  "busy b (candidate_effect p q) = busy b q"
  by (simp_all add: candidate_effect_def reset_registration_wizard_def) (cases b; simp)

lemma candidate_effect_results:
  "dp_protectedRegistrationDryRunResult (candidate_effect p q) = Some v \<Longrightarrow>
     dp_protectedRegistrationDryRunResult q = Some v"
  "dp_protectedRegistrationApprovalResult (candidate_effect p q) = Some v \<Longrightarrow>
     dp_protectedRegistrationApprovalResult q = Some v"
  "dp_protectedRegistrationCommandResult (candidate_effect p q) = Some v \<Longrightarrow>
     dp_protectedRegistrationCommandResult q = Some v"
  "dp_protectedRegistrationExecutionResult (candidate_effect p q) = Some v \<Longrightarrow>
     dp_protectedRegistrationExecutionResult q = Some v"
  by (simp_all add: candidate_effect_def reset_registration_wizard_def split: if_splits)

lemmas edit_defs =
  updateForm_def updateConfirmation_def updateProtectedRegistrationDraft_def
  updateProtectedRegistrationApprovalConfirmation_def updateProtectedRegistrationCommandConfirmation_def
  updateProtectedRegistrationExecutionConfirmation_def clearForm_def clearProtectedRegistrationDraft_def
  clearProtectedRegistrationApprovalDraft_def clearProtectedRegistrationCommandDraft_def
  clearProtectedRegistrationExecutionDraft_def clear_dry_run_result_def preview_approval_payload_def
  input_approval_source_def input_approval_text_def preview_command_payload_def input_command_source_def
  preview_execution_payload_def input_execution_source_def input_execution_command_id_def
  input_execution_text_def

lemma copyText_eq: "copyText m r p = p\<lparr>dp_message := dp_message (copyText m r p)\<rparr>"
  by (cases r) simp_all

lemma selectDryRunCandidate_eq:
  "selectDryRunCandidate t p =
     p\<lparr>dp_selectedDryRunCommandId := t,
       dp_selectedTransitResourceId := dp_selectedTransitResourceId (selectDryRunCandidate t p),
       dp_selectedLandingNodeId := dp_selectedLandingNodeId (selectDryRunCandidate t p)\<rparr>"
  by (simp add: selectDryRunCandidate_def Let_def split: option.split)

text \<open>An edit never touches the flags of the asynchronous handlers, nor makes up a result.\<close>

lemma edit_busy [simp]: "busy b (apply_edit e p) = busy b p"
proof (cases e)
  case ApplyCandidate
  then show ?thesis
    by (cases b) (simp_all add: applyDebugContextCandidate_def split: option.split)
next
  case (SelectCandidate t)
  then show ?thesis by (cases b) (simp_all add: selectDryRunCandidate_def Let_def split: option.split)
next
  case (Copy m r)
  then show ?thesis by (cases b; cases r) simp_all
qed (cases b; simp add: edit_defs)+

lemma edit_loadingReadiness [simp]: "dp_loadingReadiness (apply_edit e p) = dp_loadingReadiness p"
  using edit_busy [of ReadinessButton e p] by (simp only: busy.simps)

lemma edit_loadingContext [simp]: "dp_loadingContext (apply_edit e p) = dp_loadingContext p"
proof (cases e)
  case (Copy m r)
  then show ?thesis by (cases r) simp_all
qed (simp_all add: edit_defs applyDebugContextCandidate_def selectDryRunCandidate_def Let_def
      split: option.split)

text \<open>
  The results of the panel, one per button. A stage result is the JSON of the response.
\<close>

datatype outcome = RealOutcome real_execution_result | StageOutcome jsval

fun outcome_of :: "button \<Rightarrow> debug_panel \<Rightarrow> outcome option" where
  "outcome_of ReadinessButton p = map_option RealOutcome (dp_readinessResult p)"
| "outcome_of RealExecutionButton p = map_option RealOutcome (dp_realExecutionResult p)"
| "outcome_of DryRunButton p = map_option StageOutcome (dp_protectedRegistrationDryRunResult p)"
| "outcome_of ApprovalButton p = map_option StageOutcome (dp_protectedRegistrationApprovalResult p)"
| "outcome_of CommandButton p = map_option StageOutcome (dp_protectedRegistrationCommandResult p)"
| "outcome_of ExecutionButton p = map_option StageOutcome (dp_protectedRegistrationExecutionResult p)"

fun reply_outcome :: "reply \<Rightarrow> outcome option" where
  "reply_outcome (RealReply (Resolved (ApiSuccess r m))) = Some (RealOutcome r)"
| "reply_outcome (StageReply (Resolved (ApiSuccess v m))) = Some (StageOutcome v)"
| "reply_outcome r = None"

lemma outcome_effect: "outcome_of b (candidate_effect p q) = Some x \<Longrightarrow> outcome_of b q = Some x"
  by (cases b) (auto dest: candidate_effect_results)

lemma outcome_edit: "outcome_of b (apply_edit e p) = Some x \<Longrightarrow> outcome_of b p = Some x"
proof (cases e)
  case ApplyCandidate
  then show "outcome_of b (apply_edit e p) = Some x \<Longrightarrow> ?thesis"
    by (cases b) (auto simp: applyDebugContextCandidate_def split: option.splits if_splits)
next
  case (SelectCandidate t)
  then show "outcome_of b (apply_edit e p) = Some x \<Longrightarrow> ?thesis"
    by (cases b) (simp_all add: selectDryRunCandidate_def Let_def split: option.splits)
next
  case (Copy m r)
  then show "outcome_of b (apply_edit e p) = Some x \<Longrightarrow> ?thesis" by (cases b; cases r) simp_all
next
  case (EditApproval k v)
  then show "outcome_of b (apply_edit e p) = Some x \<Longrightarrow> ?thesis"
    by (cases b) (auto simp: updateProtectedRegistrationApprovalConfirmation_def split: if_splits)
qed (cases b; simp add: edit_defs)+

lemma outcome_press: "press parse b' p = (p', a) \<Longrightarrow> outcome_of b p' = outcome_of b p"
  by (cases b'; cases b) (auto simp: start_defs split: if_splits)

lemma outcome_settle:
  "reply_fits a r \<Longrightarrow> outcome_of b (settle a r p) = Some x \<Longrightarrow>
   outcome_of b p = Some x \<or> (b = button_of a \<and> reply_outcome r = Some x)"
  by (cases "(a, r, p)" rule: settle.cases; cases r; simp; rename_tac y;
      case_tac y; simp; (rename_tac z; case_tac z; simp)?; cases b; auto)

lemma outcome_context:
  "outcome_of b (loadDebugContext_start p) = outcome_of b p"
  "outcome_of b (loadDebugContext_finish c p) = outcome_of b p"
  by (cases b; simp add: loadDebugContext_start_def)
    (cases "(c, p)" rule: loadDebugContext_finish.cases; cases b;
      simp add: Let_def split: list.split)

subsection \<open>Single flight\<close>

fun flight_of :: "pending \<Rightarrow> button option" where
  "flight_of (AwaitCsrf a) = Some (button_of a)"
| "flight_of (AwaitReply a) = Some (button_of a)"
| "flight_of AwaitContext = None"

definition flights :: "button \<Rightarrow> pending list \<Rightarrow> nat" where
  "flights b xs = length (List.filter (\<lambda>x. flight_of x = Some b) xs)"

lemma flights_simps [simp]:
  "flights b [] = 0"
  "flights b (x # xs) = (if flight_of x = Some b then 1 else 0) + flights b xs"
  by (simp_all add: flights_def)

lemma flights_member: "x \<in> set xs \<Longrightarrow> flight_of x = Some b \<Longrightarrow> 0 < flights b xs"
  by (induction xs) auto

lemma flights_remove [simp]:
  "x \<in> set xs \<Longrightarrow> flights b (remove1 x xs) = flights b xs - (if flight_of x = Some b then 1 else 0)"
proof (induction xs)
  case (Cons y xs)
  then show ?case using flights_member [of x xs b] by auto
qed simp

lemma start_sends: "map_prod id (map_option f) x = (p, Some a) \<longleftrightarrow> (\<exists>q. x = (p, Some q) \<and> a = f q)"
  by (cases x) auto

lemma press_busy:
  assumes "button_enabled parse b p" and "press parse b p = (p', Some a)"
  shows "button_of a = b" "\<not> busy b p" "busy b' p' = (b' = b \<or> busy b' p)"
proof -
  show "button_of a = b" using assms(2) by (cases b) (auto simp: start_sends)
  show "\<not> busy b p" using assms(1) by (cases b) (auto simp: ready_defs)
  show "busy b' p' = (b' = b \<or> busy b' p)"
    using assms(2) by (cases b; cases b') (auto simp: start_defs split: if_splits)
qed

lemma press_sends: "button_enabled parse b p \<Longrightarrow> \<exists>p' a. press parse b p = (p', Some a)"
  using readiness_call.enabled_sends [of parse p] dry_run_call.enabled_sends [of parse p]
    approval_call.enabled_sends [of parse p] command_call.enabled_sends [of parse p]
    execution_call.enabled_sends [of parse p] real_execution_call.enabled_sends [of parse p]
  by (cases b) (auto simp: map_prod_def split: prod.splits)

lemma settle_busy [simp]:
  "reply_fits a r \<Longrightarrow> busy b (settle a r p) = (b \<noteq> button_of a \<and> busy b p)"
  by (cases "(a, r, p)" rule: settle.cases; cases r; simp; rename_tac y;
      case_tac y; simp; (rename_tac z; case_tac z; simp)?; cases b; simp)

lemma context_busy [simp]:
  "busy b (loadDebugContext_start p) = busy b p"
  "busy b (loadDebugContext_finish c p) = busy b p"
  by (cases b; simp add: loadDebugContext_start_def)
    (cases "(c, p)" rule: loadDebugContext_finish.cases; cases b;
      simp add: Let_def split: list.split)

definition single_flight :: "debug_system \<Rightarrow> bool" where
  "single_flight s \<longleftrightarrow> (\<forall>b. flights b (ds_pending s) = (if busy b (ds_panel s) then 1 else 0))"

lemma step_single_flight:
  assumes "debug_step allow parse s s'" and "single_flight s"
  shows "single_flight s'"
  using assms
proof (induction rule: debug_step.induct)
  case (pressed b s p a)
  then show ?case
    using press_busy [OF pressed(1,2)] by (auto simp: single_flight_def on_panel_def)
next
  case (refused b s p)
  then show ?case using press_sends by fastforce
next
  case (csrf_token a s r token)
  then have "0 < flights (button_of a) (ds_pending s)"
    by (auto intro: flights_member)
  with csrf_token show ?case
    by (auto simp: single_flight_def split: if_splits)
next
  case (csrf_failed a s r e)
  then show ?case by (auto simp: single_flight_def on_panel_def)
next
  case (answered a s r)
  then show ?case by (auto simp: single_flight_def on_panel_def)
qed (auto simp: single_flight_def on_panel_def)

lemma reachable_single_flight: "debug_reachable allow parse s \<Longrightarrow> single_flight s"
proof (induction rule: debug_reachable.induct)
  case initial
  have "\<not> busy b debug_panel_initial" for b by (cases b) (simp_all add: debug_panel_initial_def)
  then show ?case by (simp add: single_flight_def debug_system_initial_def)
qed (rule step_single_flight)

subsection \<open>Results come from responses\<close>

definition provenance :: "debug_system \<Rightarrow> bool" where
  "provenance s \<longleftrightarrow>
     (\<forall>b x. outcome_of b (ds_panel s) = Some x \<longrightarrow>
        (\<exists>a r. button_of a = b \<and> Answered a r \<in> set (ds_log s) \<and> reply_outcome r = Some x))"

lemma provenance_step:
  assumes "provenance s"
    and "\<And>b x. outcome_of b (ds_panel s') = Some x \<Longrightarrow>
          outcome_of b (ds_panel s) = Some x
          \<or> (\<exists>a r. button_of a = b \<and> Answered a r \<in> set (ds_log s') \<and> reply_outcome r = Some x)"
    and "set (ds_log s) \<subseteq> set (ds_log s')"
  shows "provenance s'"
  using assms unfolding provenance_def by blast

lemma thrown_outcome [simp]: "reply_outcome (thrown a e) = None"
  by (cases a) simp_all

lemma step_provenance:
  assumes "debug_step allow parse s s'" and "provenance s"
  shows "provenance s'"
  using assms
proof (induction rule: debug_step.induct)
  case (edit e s)
  show ?case
    by (rule provenance_step [OF edit(3)])
      (auto simp: on_panel_def dest!: outcome_effect outcome_edit)
next
  case (pressed b s p a)
  show ?case
    by (rule provenance_step [OF pressed(3)])
      (auto simp: on_panel_def outcome_press [OF pressed(2)] dest!: outcome_effect)
next
  case (refused b s p)
  show ?case
    by (rule provenance_step [OF refused(3)])
      (auto simp: on_panel_def outcome_press [OF refused(2)] dest!: outcome_effect)
next
  case (csrf_token a s r token)
  show ?case by (rule provenance_step [OF csrf_token(3)]) auto
next
  case (csrf_failed a s r e)
  show ?case
    by (rule provenance_step [OF csrf_failed(3)])
      (auto simp: on_panel_def dest!: outcome_effect outcome_settle [OF thrown_fits])
next
  case (answered a s r)
  show ?case
    by (rule provenance_step [OF answered(3)])
      (auto simp: on_panel_def dest!: outcome_effect outcome_settle [OF answered(2)])
next
  case (read_context s)
  show ?case
    by (rule provenance_step [OF read_context(2)])
      (auto simp: on_panel_def outcome_context dest!: outcome_effect)
next
  case (context_answered s c)
  show ?case
    by (rule provenance_step [OF context_answered(2)])
      (auto simp: on_panel_def outcome_context dest!: outcome_effect)
qed

lemma reachable_provenance: "debug_reachable allow parse s \<Longrightarrow> provenance s"
proof (induction rule: debug_reachable.induct)
  case initial
  have "outcome_of b debug_panel_initial = None" for b
    by (cases b) (simp_all add: debug_panel_initial_def)
  then show ?case by (simp add: provenance_def debug_system_initial_def)
qed (rule step_provenance)

lemma provenance_readiness:
  assumes "provenance s" and "dp_readinessResult (ds_panel s) = Some r"
  shows "\<exists>q m. Answered (Readiness q) (RealReply (Resolved (ApiSuccess r m))) \<in> set (ds_log s)"
proof -
  have "outcome_of ReadinessButton (ds_panel s) = Some (RealOutcome r)" using assms(2) by simp
  then obtain a y where a: "button_of a = ReadinessButton" "Answered a y \<in> set (ds_log s)"
    "reply_outcome y = Some (RealOutcome r)"
    using assms(1) unfolding provenance_def by blast
  then obtain q where "a = Readiness q" by (cases a) auto
  moreover obtain m where "y = RealReply (Resolved (ApiSuccess r m))"
    using a(3) by (cases y rule: reply_outcome.cases) auto
  ultimately show ?thesis using a(2) by blast
qed

subsection \<open>What each call that is sent has been through\<close>

fun authorised :: "log_entry list \<Rightarrow> action \<Rightarrow> bool" where
  "authorised L (Readiness q) \<longleftrightarrow> request_well_formed q"
| "authorised L (RealExecution q) \<longleftrightarrow>
     request_well_formed q
     \<and> (\<exists>q' r m. Answered (Readiness q') (RealReply (Resolved (ApiSuccess r m))) \<in> set L
          \<and> xr_ready_for_real_execution r
          \<and> xr_expected_real_execution_text r = xq_real_execution_text q)"
| "authorised L (DryRun q) \<longleftrightarrow> preview_complete q"
| "authorised L (Approval q) \<longleftrightarrow>
     aps_ready_for_next_stage (ap_source_registration_dry_run q)
     \<and> aps_expected_approval_text (ap_source_registration_dry_run q) \<noteq> []
     \<and> ap_approval_text q = aps_expected_approval_text (ap_source_registration_dry_run q)
     \<and> list_all snd (approval_entries (ap_confirmations q))"
| "authorised L (CommandCreate q) \<longleftrightarrow>
     cqs_approved_for_next_stage (cq_source_approval_dry_run q)
     \<and> cqs_ready_for_command_create_next_stage (cq_source_approval_dry_run q)
     \<and> list_all id (command_values (cq_confirmations q))"
| "authorised L (ExecutionVerify q) \<longleftrightarrow>
     (\<exists>commandId. commandId \<noteq> [] \<and> eq_command_id q = trim commandId
        \<and> eq_execution_approval_text q = (js ''EXECUTE_PROTECTED_RESOURCE_REGISTRATION:'') @ commandId)
     \<and> list_all id (execution_values (eq_confirmations q))"

lemma authorised_mono: "authorised L a \<Longrightarrow> set L \<subseteq> set L' \<Longrightarrow> authorised L' a"
  by (cases a) fastforce+

lemma press_authorised:
  assumes "provenance s" and "button_enabled parse b (ds_panel s)"
    and "press parse b (ds_panel s) = (p, Some a)"
  shows "authorised (ds_log s) a"
proof (cases b)
  case ReadinessButton
  then show ?thesis
    using assms(3) buildPayloadOrNull_well_formed
    by (auto simp: start_sends runReadiness_start_def requestPayload_def split: if_splits)
next
  case RealExecutionButton
  then obtain q where q: "a = RealExecution q" "requestPayload (ds_panel s) = Some q"
    "canCreateRealExecution (ds_panel s)"
    using assms(3) by (auto simp: start_sends submitRealExecution_start_def split: if_splits)
  from q(3) obtain r where r: "dp_readinessResult (ds_panel s) = Some r"
    "xr_ready_for_real_execution r"
    "trim (df_real_execution_text (dp_form (ds_panel s))) = xr_expected_real_execution_text r"
    by (auto simp: canCreateRealExecution_def split: option.splits)
  have "xq_real_execution_text q = trim (df_real_execution_text (dp_form (ds_panel s)))"
    using q(2) by (auto simp: requestPayload_def buildPayloadOrNull_def split: option.splits if_splits)
  moreover have "request_well_formed q"
    using q(2) buildPayloadOrNull_well_formed by (auto simp: requestPayload_def)
  ultimately show ?thesis
    using provenance_readiness [OF assms(1) r(1)] r q(1) by auto
next
  case DryRunButton
  then show ?thesis
    using assms(3) draft_valid_iff
    by (auto simp: start_sends runProtectedRegistrationDryRun_start_def protectedRegistrationReady_def
        protectedRegistrationErrors_def protectedRegistrationPayloadPreview_def split: if_splits)
next
  case ApprovalButton
  then show ?thesis
    using assms(3)
    by (auto simp: start_sends runProtectedRegistrationApprovalDryRun_start_def Let_def
        protectedRegistrationApprovalReady_def protectedRegistrationApprovalPayload_def
        protectedRegistrationApprovalTextMatches_def buildProtectedRegistrationApprovalPayload_def
        approval_text_matches_def approval_entries_def split: if_splits)
next
  case CommandButton
  then show ?thesis
    using assms(3)
    by (auto simp: start_sends runProtectedRegistrationCommandCreate_start_def Let_def
        protectedRegistrationCommandReady_def protectedRegistrationCommandPayload_def
        buildProtectedRegistrationCommandCreatePayload_def split: if_splits)
next
  case ExecutionButton
  then show ?thesis
    using assms(3)
    by (auto simp: start_sends runProtectedRegistrationExecutionVerify_start_def Let_def
        protectedRegistrationExecutionReady_def protectedRegistrationExecutionPayload_def
        protectedRegistrationExecutionTextMatches_def protectedRegistrationExecutionExpectedText_def
        makeProtectedRegistrationExecutionExpectedText_def
        buildProtectedRegistrationExecutionPayload_def split: if_splits)
qed

definition all_authorised :: "debug_system \<Rightarrow> bool" where
  "all_authorised s \<longleftrightarrow>
     (\<forall>a. AwaitCsrf a \<in> set (ds_pending s) \<or> AwaitReply a \<in> set (ds_pending s)
          \<or> (\<exists>t. Sent a t \<in> set (ds_log s)) \<longrightarrow> authorised (ds_log s) a)"

lemma step_all_authorised:
  assumes "debug_step allow parse s s'" and "provenance s" and "all_authorised s"
  shows "all_authorised s'"
  using assms
proof (induction rule: debug_step.induct)
  case (pressed b s p a)
  then show ?case
    using press_authorised [OF pressed(3,1,2)] by (auto simp: all_authorised_def on_panel_def)
next
  case (csrf_token a s r token)
  have "authorised (Sent a token # ds_log s) x" if "authorised (ds_log s) x" for x
    using authorised_mono [OF that, of "Sent a token # ds_log s"] by auto
  with csrf_token show ?case
    unfolding all_authorised_def by (auto dest: notin_set_remove1 set_remove1_subset [THEN subsetD])
next
  case (answered a s r)
  have "authorised (Answered a r # ds_log s) x" if "authorised (ds_log s) x" for x
    using authorised_mono [OF that, of "Answered a r # ds_log s"] by auto
  with answered show ?case
    unfolding all_authorised_def by (auto simp: on_panel_def dest: set_remove1_subset [THEN subsetD])
qed (auto simp: all_authorised_def on_panel_def dest: set_remove1_subset [THEN subsetD])

lemma reachable_all_authorised:
  assumes "debug_reachable allow parse s" shows "all_authorised s"
  using assms
proof (induction rule: debug_reachable.induct)
  case initial
  then show ?case by (simp add: all_authorised_def debug_system_initial_def)
next
  case (step s s')
  then show ?case using step_all_authorised reachable_provenance by blast
qed

subsection \<open>The wizard follows the selected candidate\<close>

definition draft_source :: "debug_panel \<Rightarrow> jsstr" where
  "draft_source p = pd_source_dry_run_command_id (dp_protectedRegistrationDraft p)"

definition draft_follows :: "debug_panel \<Rightarrow> bool" where
  "draft_follows p \<longleftrightarrow> draft_source p = nullish (selected_candidate_id p) []"

lemma built_draft_source:
  "pd_source_dry_run_command_id (buildProtectedResourceRegistrationDraft cand)
     = nullish (map_option cd_id cand) []"
  by (simp add: buildProtectedResourceRegistrationDraft_def Let_def nullish_def split: option.split)

lemma selected_candidate_cong:
  "dp_debugContext p = dp_debugContext q \<Longrightarrow> dp_selectedDryRunCommandId p = dp_selectedDryRunCommandId q
   \<Longrightarrow> selectedDryRunCandidate p = selectedDryRunCandidate q"
  by (simp add: selectedDryRunCandidate_def split: option.split)

lemma reset_selected [simp]:
  "selectedDryRunCandidate (reset_registration_wizard c p) = selectedDryRunCandidate p"
  by (rule selected_candidate_cong) (simp_all add: reset_registration_wizard_def)

lemma selected_candidate_effect [simp]:
  "selectedDryRunCandidate (candidate_effect p q) = selectedDryRunCandidate q"
  by (rule selected_candidate_cong) simp_all

text \<open>A handler that keeps the source field or rebuilds the draft keeps the panel in step.\<close>

lemma effect_follows:
  assumes "draft_follows p"
    and "draft_source q = draft_source p
         \<or> draft_source q = nullish (selected_candidate_id p) []"
  shows "draft_follows (candidate_effect p q)"
  using assms
proof (cases "selected_candidate_id q = selected_candidate_id p")
  case True
  with assms show ?thesis by (auto simp: draft_follows_def candidate_effect_def)
next
  case False
  then have "draft_source (candidate_effect p q) = nullish (selected_candidate_id q) []"
    by (simp add: candidate_effect_def draft_source_def reset_registration_wizard_def
        built_draft_source selected_candidate_id_def)
  then show ?thesis by (simp add: draft_follows_def selected_candidate_id_def)
qed

lemma rendered_keeps_source:
  "rendered_field e \<Longrightarrow>
   pd_source_dry_run_command_id (set_draft e d) = pd_source_dry_run_command_id d"
  by (cases e) simp_all

lemma edit_source:
  "edit_enabled e p \<Longrightarrow>
   draft_source (apply_edit e p) = draft_source p
   \<or> draft_source (apply_edit e p) = nullish (selected_candidate_id p) []"
proof (cases e)
  case (EditDraft d)
  assume "edit_enabled e p"
  with EditDraft show ?thesis
    by (simp add: draft_source_def updateProtectedRegistrationDraft_def rendered_keeps_source)
next
  case (Copy m r)
  then show ?thesis by (cases r) (simp_all add: draft_source_def)
qed (simp_all add: edit_defs draft_source_def built_draft_source selected_candidate_id_def
      applyDebugContextCandidate_def selectDryRunCandidate_def Let_def split: option.split)

lemma press_source: "press parse b p = (p', a) \<Longrightarrow> draft_source p' = draft_source p"
  by (cases b) (auto simp: start_defs draft_source_def split: if_splits)

lemma settle_source: "reply_fits a r \<Longrightarrow> draft_source (settle a r p) = draft_source p"
  by (cases "(a, r, p)" rule: settle.cases; cases r; simp; rename_tac y;
      case_tac y; simp; (rename_tac z; case_tac z; simp)?; simp add: draft_source_def)

lemma context_source:
  "draft_source (loadDebugContext_start p) = draft_source p"
  "draft_source (loadDebugContext_finish c p) = draft_source p"
  by (simp add: loadDebugContext_start_def draft_source_def)
    (cases "(c, p)" rule: loadDebugContext_finish.cases;
      simp add: Let_def draft_source_def split: list.split)

lemma step_follows:
  assumes "debug_step allow parse s s'" and "draft_follows (ds_panel s)"
  shows "draft_follows (ds_panel s')"
  using assms
  by (induction rule: debug_step.induct)
    (auto simp: on_panel_def settle_source press_source context_source
      dest: edit_source intro!: effect_follows)

lemma reachable_follows: "debug_reachable allow parse s \<Longrightarrow> draft_follows (ds_panel s)"
proof (induction rule: debug_reachable.induct)
  case initial
  show ?case
    by (simp add: draft_follows_def draft_source_def debug_system_initial_def debug_panel_initial_def
        built_draft_source selected_candidate_id_def selectedDryRunCandidate_def)
qed (rule step_follows)

subsection \<open>Runs without edits during the check\<close>

lemma requestPayload_effect [simp]: "requestPayload (candidate_effect p q) = requestPayload q"
  by (simp add: requestPayload_def)

lemma edit_payload:
  "\<not> payload_edit e \<Longrightarrow> requestPayload (apply_edit e p) = requestPayload p"
  "dp_readinessResult (apply_edit e p) = Some r \<Longrightarrow>
     dp_readinessResult p = Some r \<and> requestPayload (apply_edit e p) = requestPayload p"
proof -
  have *: "(\<not> payload_edit e \<longrightarrow> requestPayload (apply_edit e p) = requestPayload p) \<and>
    (dp_readinessResult (apply_edit e p) = Some r \<longrightarrow>
     dp_readinessResult p = Some r \<and> requestPayload (apply_edit e p) = requestPayload p)"
  proof (cases e)
    case (Copy m x)
    then show ?thesis by (cases x) (simp_all add: requestPayload_def)
  qed (simp_all add: edit_defs requestPayload_def applyDebugContextCandidate_def
        selectDryRunCandidate_def Let_def split: option.split)
  show "\<not> payload_edit e \<Longrightarrow> requestPayload (apply_edit e p) = requestPayload p"
    using * by blast
  show "dp_readinessResult (apply_edit e p) = Some r \<Longrightarrow>
     dp_readinessResult p = Some r \<and> requestPayload (apply_edit e p) = requestPayload p"
    using * by blast
qed

lemma press_payload: "press parse b p = (p', a) \<Longrightarrow> requestPayload p' = requestPayload p"
  by (cases b) (auto simp: start_defs requestPayload_def split: if_splits)

lemma settle_payload: "reply_fits a r \<Longrightarrow> requestPayload (settle a r p) = requestPayload p"
  by (cases "(a, r, p)" rule: settle.cases; cases r; simp; rename_tac y;
      case_tac y; simp; (rename_tac z; case_tac z; simp)?; simp add: requestPayload_def)

lemma context_payload:
  "requestPayload (loadDebugContext_start p) = requestPayload p"
  "requestPayload (loadDebugContext_finish c p) = requestPayload p"
  by (simp add: loadDebugContext_start_def requestPayload_def)
    (cases "(c, p)" rule: loadDebugContext_finish.cases;
      simp add: Let_def requestPayload_def split: list.split)

text \<open>The response that checked the request \<open>q\<close>.\<close>

definition checked_with :: "log_entry list \<Rightarrow> real_execution_request \<Rightarrow> real_execution_result \<Rightarrow> bool" where
  "checked_with L q r \<longleftrightarrow>
     (\<exists>m. Answered (Readiness q) (RealReply (Resolved (ApiSuccess r m))) \<in> set L)"

lemma checked_with_Cons: "checked_with L q r \<Longrightarrow> checked_with (x # L) q r"
  by (auto simp: checked_with_def)

definition was_checked :: "log_entry list \<Rightarrow> real_execution_request \<Rightarrow> bool" where
  "was_checked L q \<longleftrightarrow> (\<exists>r. checked_with L q r \<and> xr_ready_for_real_execution r)"

lemma was_checked_Cons: "was_checked L q \<Longrightarrow> was_checked (x # L) q"
  by (auto simp: was_checked_def intro: checked_with_Cons)

definition checked_current :: "debug_system \<Rightarrow> bool" where
  "checked_current s \<longleftrightarrow>
     (\<forall>r. dp_readinessResult (ds_panel s) = Some r \<longrightarrow>
        (\<exists>q. requestPayload (ds_panel s) = Some q \<and> checked_with (ds_log s) q r))
     \<and> (\<forall>q. AwaitCsrf (Readiness q) \<in> set (ds_pending s) \<or> AwaitReply (Readiness q) \<in> set (ds_pending s)
          \<longrightarrow> requestPayload (ds_panel s) = Some q)"

definition executed_checked :: "debug_system \<Rightarrow> bool" where
  "executed_checked s \<longleftrightarrow>
     (\<forall>q. AwaitCsrf (RealExecution q) \<in> set (ds_pending s) \<or> AwaitReply (RealExecution q) \<in> set (ds_pending s)
          \<or> (\<exists>t. Sent (RealExecution q) t \<in> set (ds_log s))
        \<longrightarrow> was_checked (ds_log s) q)"

lemma idle_no_flight:
  assumes "single_flight s" and "\<not> busy b (ds_panel s)" and "button_of a = b"
  shows "AwaitCsrf a \<notin> set (ds_pending s)" "AwaitReply a \<notin> set (ds_pending s)"
proof -
  have "flights b (ds_pending s) = 0" using assms(1,2) by (simp add: single_flight_def)
  then show "AwaitCsrf a \<notin> set (ds_pending s)" "AwaitReply a \<notin> set (ds_pending s)"
    using assms(3) flights_member by fastforce+
qed

lemma press_readiness_result:
  "press parse b p = (p', a) \<Longrightarrow> dp_readinessResult p' = dp_readinessResult p"
  using outcome_press [of parse b p p' a ReadinessButton]
  by (cases "dp_readinessResult p"; cases "dp_readinessResult p'") auto

lemma settle_readiness_result:
  assumes "reply_fits a r" and "dp_readinessResult (settle a r p) = Some x"
  shows "dp_readinessResult p = Some x
    \<or> (\<exists>q m. a = Readiness q \<and> r = RealReply (Resolved (ApiSuccess x m)))"
  using outcome_settle [OF assms(1), of ReadinessButton p "RealOutcome x"] assms(2)
  by (cases a; cases r rule: reply_outcome.cases) auto

lemma context_readiness_result [simp]:
  "dp_readinessResult (loadDebugContext_start p) = dp_readinessResult p"
  "dp_readinessResult (loadDebugContext_finish c p) = dp_readinessResult p"
  by (simp add: loadDebugContext_start_def)
    (cases "(c, p)" rule: loadDebugContext_finish.cases; simp add: Let_def split: list.split)

end
