(* ===== verification/DebugPanelRuns.thy ===== *)
theory DebugPanelRuns
  imports DebugPanelSafety
begin

text \<open>
  The properties of whole runs of the debug panel, with sample runs that exercise them: a run
  in which a request is checked and then executed, one in which the request is edited while its
  check is under way, and one in which another candidate unlocks the check.
\<close>

subsection \<open>Calm runs execute what was checked\<close>

lemma step_checked_current:
  assumes "debug_step calm parse s s'" and "single_flight s" and "checked_current s"
  shows "checked_current s'"
  using assms
proof (induction rule: debug_step.induct)
  case (edit e s)
  let ?p = "ds_panel s"
  have "requestPayload (apply_edit e ?p) = requestPayload ?p"
    if "AwaitCsrf (Readiness q) \<in> set (ds_pending s) \<or> AwaitReply (Readiness q) \<in> set (ds_pending s)" for q
  proof -
    have "dp_loadingReadiness ?p"
      using idle_no_flight [OF edit(3), of ReadinessButton "Readiness q"] that by auto
    then show ?thesis using edit(2) edit_payload(1) by (auto simp: calm_def)
  qed
  then show ?case
    using edit(4) edit_payload(2) [of e ?p]
    by (simp add: checked_current_def on_panel_def del: apply_edit.simps)
next
  case (pressed b s p a)
  have "requestPayload (ds_panel s) = Some q" if "a = Readiness q" for q
    using pressed(2) that
    by (cases b) (auto simp: start_sends runReadiness_start_def split: if_splits)
  then show ?case
    using pressed(4) press_payload [OF pressed(2)] press_readiness_result [OF pressed(2)]
    by (auto simp: checked_current_def on_panel_def)
next
  case (refused b s p)
  then show ?case using press_sends by fastforce
next
  case (csrf_token a s r token)
  then show ?case
    by (auto simp: checked_current_def checked_with_Cons dest: set_remove1_subset [THEN subsetD])
next
  case (csrf_failed a s r e)
  have "dp_readinessResult (settle a (thrown a e) (ds_panel s)) = Some x \<Longrightarrow>
      dp_readinessResult (ds_panel s) = Some x" for x
    using settle_readiness_result [OF thrown_fits, of a e "ds_panel s" x] by auto
  with csrf_failed show ?case
    by (auto simp: checked_current_def on_panel_def settle_payload
        dest: set_remove1_subset [THEN subsetD])
next
  case (answered a s r)
  have pay: "requestPayload (settle a r (ds_panel s)) = requestPayload (ds_panel s)"
    by (rule settle_payload [OF answered(2)])
  have "\<exists>q. requestPayload (ds_panel s) = Some q \<and> checked_with (Answered a r # ds_log s) q x"
    if "dp_readinessResult (settle a r (ds_panel s)) = Some x" for x
    using settle_readiness_result [OF answered(2) that]
  proof
    assume "dp_readinessResult (ds_panel s) = Some x"
    with answered(4) show ?thesis unfolding checked_current_def by (blast intro: checked_with_Cons)
  next
    assume "\<exists>q m. a = Readiness q \<and> r = RealReply (Resolved (ApiSuccess x m))"
    with answered(1,4) show ?thesis unfolding checked_current_def by (auto simp: checked_with_def)
  qed
  with answered(4) pay show ?case
    by (auto simp: checked_current_def on_panel_def dest: set_remove1_subset [THEN subsetD])
next
  case (read_context s)
  then show ?case by (auto simp: checked_current_def on_panel_def context_payload)
next
  case (context_answered s c)
  then show ?case
    by (auto simp: checked_current_def on_panel_def context_payload
        dest: set_remove1_subset [THEN subsetD])
qed

lemma reachable_checked_current:
  assumes "debug_reachable calm parse s" shows "checked_current s"
  using assms
proof (induction rule: debug_reachable.induct)
  case initial
  show ?case by (simp add: checked_current_def debug_system_initial_def debug_panel_initial_def)
next
  case (step s s')
  then show ?case using step_checked_current reachable_single_flight by blast
qed

lemma step_executed_checked:
  assumes "debug_step calm parse s s'" and "checked_current s" and "executed_checked s"
  shows "executed_checked s'"
  using assms
proof (induction rule: debug_step.induct)
  case (pressed b s p a)
  have "was_checked (ds_log s) q" if "a = RealExecution q" for q
  proof -
    have q: "requestPayload (ds_panel s) = Some q" "canCreateRealExecution (ds_panel s)"
      using pressed(2) that
      by (cases b; auto simp: start_sends submitRealExecution_start_def split: if_splits)+
    then obtain r where "dp_readinessResult (ds_panel s) = Some r" "xr_ready_for_real_execution r"
      by (auto simp: canCreateRealExecution_def split: option.splits)
    with pressed(3) q(1) show ?thesis unfolding checked_current_def was_checked_def by fastforce
  qed
  with pressed(4) show ?case by (auto simp: executed_checked_def on_panel_def)
next
  case (csrf_token a s r token)
  then show ?case
    unfolding executed_checked_def
    by (auto intro: was_checked_Cons dest: set_remove1_subset [THEN subsetD])
next
  case (answered a s r)
  then show ?case
    unfolding executed_checked_def
    by (auto simp: on_panel_def intro: was_checked_Cons dest: set_remove1_subset [THEN subsetD])
qed (auto simp: executed_checked_def on_panel_def dest: set_remove1_subset [THEN subsetD])

lemma reachable_executed_checked:
  assumes "debug_reachable calm parse s" shows "executed_checked s"
  using assms
proof (induction rule: debug_reachable.induct)
  case initial
  show ?case by (simp add: executed_checked_def debug_system_initial_def)
next
  case (step s s')
  then show ?case using step_executed_checked reachable_checked_current by blast
qed

subsection \<open>Sample runs\<close>

text \<open>
  The context holds the candidate that will be applied and a second one, which is complete.
\<close>

definition second_candidate :: dry_run_candidate where
  "second_candidate = (candidate_with [] True)\<lparr>cd_id := (js ''cmd-2'')\<rparr>"

definition sample_context :: "bool \<Rightarrow> debug_context" where
  "sample_context ready =
     \<lparr>dc_transit_resources = [], dc_landing_nodes = [],
      dc_haproxy_dry_run_commands = [candidate_with [] ready, second_candidate],
      dc_generated_at = [], dc_safety_boundary = []\<rparr>"

definition confirm_all :: "edit list" where
  "confirm_all =
     [EditConfirmation Confirm_firewall_security_group_confirmed True,
      EditConfirmation Confirm_cloud_firewall_confirmed True,
      EditConfirmation Confirm_server_firewall_confirmed True,
      EditConfirmation Confirm_no_cutover_confirmed True,
      EditConfirmation Confirm_no_node_share_link_change_confirmed True,
      EditConfirmation Confirm_no_transit_share_link_write_confirmed True,
      EditConfirmation Confirm_no_full_client_link_confirmed True,
      ManualConfirm MANUAL_REAL_EXECUTION_CONFIRM]"

fun run_edits :: "edit list \<Rightarrow> debug_system \<Rightarrow> debug_system" where
  "run_edits [] s = s"
| "run_edits (e # es) s = run_edits es (on_panel (apply_edit e) s)"

definition lenient :: "(edit \<Rightarrow> debug_panel \<Rightarrow> bool) \<Rightarrow> bool" where
  "lenient allow \<longleftrightarrow> (\<forall>e p. \<not> dp_loadingReadiness p \<longrightarrow> allow e p)"

lemma lenient_runs [simp]: "lenient calm" "lenient anything"
  by (simp_all add: lenient_def calm_def anything_def)

lemma main_edit_enabled: "main_edit e \<Longrightarrow> edit_enabled e p"
  by (cases e) simp_all

lemma run_edits_reachable:
  assumes "debug_reachable allow parse s" and "lenient allow" and "list_all main_edit es"
    and "\<not> dp_loadingReadiness (ds_panel s)"
  shows "debug_reachable allow parse (run_edits es s)"
  using assms
proof (induction es arbitrary: s)
  case (Cons e es)
  have "debug_step allow parse s (on_panel (apply_edit e) s)"
    using Cons.prems main_edit_enabled by (intro debug_step.edit) (auto simp: lenient_def)
  then have "debug_reachable allow parse (on_panel (apply_edit e) s)"
    using Cons.prems(1) debug_reachable.step by blast
  then show ?case using Cons by (auto simp: on_panel_def)
qed simp

text \<open>The context has been read, its first candidate applied, everything confirmed.\<close>

definition after_context :: "bool \<Rightarrow> debug_system" where
  "after_context ready =
     (on_panel (loadDebugContext_finish (Resolved (ApiSuccess (sample_context ready) [])))
        ((on_panel loadDebugContext_start debug_system_initial)\<lparr>ds_pending := [AwaitContext]\<rparr>))
        \<lparr>ds_pending := []\<rparr>"

definition prepared :: "bool \<Rightarrow> debug_system" where
  "prepared ready =
     run_edits confirm_all (on_panel (apply_edit ApplyCandidate) (after_context ready))"

lemma after_context_reachable: "debug_reachable allow parse (after_context ready)"
proof -
  let ?s = "(on_panel loadDebugContext_start debug_system_initial)\<lparr>ds_pending := [AwaitContext]\<rparr>"
  have "debug_step allow parse debug_system_initial ?s"
    using debug_step.read_context [of debug_system_initial allow parse]
    by (simp add: debug_system_initial_def debug_panel_initial_def on_panel_def)
  then have "debug_reachable allow parse ?s" using debug_reachable.intros by blast
  moreover have "debug_step allow parse ?s (after_context ready)"
    using debug_step.context_answered [of ?s allow parse "Resolved (ApiSuccess (sample_context ready) [])"]
    by (simp add: after_context_def)
  ultimately show ?thesis using debug_reachable.step by blast
qed

lemma candidate_with_id [simp]: "cd_id (candidate_with cs ready) = (js ''cmd-1'')"
  by (simp add: candidate_with_def)

lemma initial_idle [simp]: "\<not> busy b debug_panel_initial" "\<not> dp_loadingReadiness debug_panel_initial"
  by (cases b; simp add: debug_panel_initial_def) (simp add: debug_panel_initial_def)

lemma context_finish_selects [simp]:
  "dp_debugContext (loadDebugContext_finish (Resolved (ApiSuccess (sample_context ready) m)) p)
     = Some (sample_context ready)"
  "dp_selectedDryRunCommandId (loadDebugContext_finish (Resolved (ApiSuccess (sample_context ready) m)) p)
     = (js ''cmd-1'')"
  by (simp_all add: Let_def sample_context_def)

lemma select_sample:
  assumes "dp_debugContext p = Some (sample_context ready)" and "dp_selectedDryRunCommandId p = (js ''cmd-1'')"
  shows "selectedDryRunCandidate p = Some (candidate_with [] ready)"
  using assms by (simp add: selectedDryRunCandidate_def sample_context_def find_opt_def)

lemma after_context_facts:
  fixes ready
  defines "p \<equiv> ds_panel (after_context ready)"
  shows "\<not> busy b p" "\<not> dp_loadingReadiness p"
    "dp_debugContext p = Some (sample_context ready)" "dp_selectedDryRunCommandId p = (js ''cmd-1'')"
    "selectedDryRunCandidate p = Some (candidate_with [] ready)"
    "ds_pending (after_context ready) = []" "ds_log (after_context ready) = []"
proof -
  show b: "\<not> busy b p" for b
    by (simp add: p_def after_context_def on_panel_def debug_system_initial_def
        del: loadDebugContext_finish.simps)
  show "\<not> dp_loadingReadiness p" using b [of ReadinessButton] by simp
  show c: "dp_debugContext p = Some (sample_context ready)" "dp_selectedDryRunCommandId p = (js ''cmd-1'')"
    by (simp_all add: p_def after_context_def on_panel_def del: loadDebugContext_finish.simps)
  show "selectedDryRunCandidate p = Some (candidate_with [] ready)"
    by (rule select_sample [OF c])
  show "ds_pending (after_context ready) = []" "ds_log (after_context ready) = []"
    by (simp_all add: after_context_def on_panel_def debug_system_initial_def)
qed

lemma run_edits_keeps [simp]:
  "ds_pending (run_edits es s) = ds_pending s"
  "ds_log (run_edits es s) = ds_log s"
  "busy b (ds_panel (run_edits es s)) = busy b (ds_panel s)"
  by (induction es arbitrary: s) (simp_all add: on_panel_def)

lemma sample_port_text: "string_of_int 8443 = (js ''8443'')" "string_of_int 443 = (js ''443'')"
  by (simp_all add: string_of_int_def digits_of.simps js_def)

lemma sample_expected_text:
  "expectedTextForPort (js ''8443'') = (js ''CONFIRM_REAL_HAPROXY_ROUTE_CREATE_8443'')"
proof -
  have "parse_int (js ''8443'') = Some 8443"
    using parse_int_digits_of [of 8443] sample_port_text(1) by (simp add: string_of_int_def)
  then show ?thesis
    by (simp add: expectedTextForPort_def sample_port_text js_def string_of_int_def digits_of.simps)
qed

lemma candidate_form_sample [simp]: "candidate_form (candidate_with [] ready) = sample_form"
  by (simp add: candidate_form_def Let_def candidate_with_def sample_form_def nullish_def
      sample_port_text sample_expected_text)

lemma applied_facts:
  fixes ready
  defines "p \<equiv> ds_panel (on_panel (apply_edit ApplyCandidate) (after_context ready))"
  shows "dp_form p = sample_form" "dp_confirmations p = defaultConfirmations"
    "dp_readinessResult p = None" "dp_debugContext p = Some (sample_context ready)"
    "dp_selectedDryRunCommandId p = (js ''cmd-1'')"
proof -
  have "blank (cd_transit_resource_id (candidate_with [] ready)) = False"
    "blank (cd_landing_node_id (candidate_with [] ready)) = False"
    "port_missing (cd_planned_listen_port (candidate_with [] ready)) = False"
    "blank (cd_landing_target_host (candidate_with [] ready)) = False"
    "port_missing (cd_landing_target_port (candidate_with [] ready)) = False"
    "blank (cd_route_name (candidate_with [] ready)) = False"
    by (simp_all add: candidate_with_def port_missing_def)
  then show "dp_form p = sample_form" "dp_confirmations p = defaultConfirmations"
    "dp_readinessResult p = None" "dp_debugContext p = Some (sample_context ready)"
    "dp_selectedDryRunCommandId p = (js ''cmd-1'')"
    using after_context_facts [where ready = ready]
    by (simp_all add: p_def on_panel_def applyDebugContextCandidate_def)
qed

lemma prepared_facts:
  fixes ready
  defines "p \<equiv> ds_panel (prepared ready)"
  shows "dp_form p = sample_form" "dp_confirmations p = sample_confirmations"
    "dp_readinessResult p = None" "dp_debugContext p = Some (sample_context ready)"
    "dp_selectedDryRunCommandId p = (js ''cmd-1'')"
    "dp_manualRealExecutionConfirm p = MANUAL_REAL_EXECUTION_CONFIRM"
    "\<not> busy b p" "ds_pending (prepared ready) = []" "ds_log (prepared ready) = []"
proof -
  note facts = applied_facts [where ready = ready] after_context_facts [where ready = ready]
  show "dp_form p = sample_form" "dp_confirmations p = sample_confirmations"
    "dp_readinessResult p = None" "dp_debugContext p = Some (sample_context ready)"
    "dp_selectedDryRunCommandId p = (js ''cmd-1'')"
    "dp_manualRealExecutionConfirm p = MANUAL_REAL_EXECUTION_CONFIRM"
    unfolding p_def prepared_def using facts
    by (simp_all add: confirm_all_def on_panel_def updateConfirmation_def sample_confirmations_def
        defaultConfirmations_def)
  show "\<not> busy b p" "ds_pending (prepared ready) = []" "ds_log (prepared ready) = []"
    unfolding p_def prepared_def using facts
    by (simp_all add: on_panel_def del: apply_edit.simps)
qed

lemma prepared_reachable: "lenient allow \<Longrightarrow> debug_reachable allow parse (prepared ready)"
proof -
  assume allow: "lenient allow"
  note facts = after_context_facts [where ready = ready]
  have "debug_step allow parse (after_context ready)
      (on_panel (apply_edit ApplyCandidate) (after_context ready))"
    using allow facts by (intro debug_step.edit) (auto simp: lenient_def)
  then have "debug_reachable allow parse (on_panel (apply_edit ApplyCandidate) (after_context ready))"
    using after_context_reachable debug_reachable.step by blast
  then show ?thesis
    unfolding prepared_def using allow facts(2)
    by (intro run_edits_reachable)
      (simp_all add: confirm_all_def on_panel_def del: apply_edit.simps)
qed

subsection \<open>Checking and executing\<close>

text \<open>
  The steps of a successful check and of the execution, for any state in which the two buttons
  are enabled.
\<close>

definition ready_result :: real_execution_result where
  "ready_result =
     \<lparr>xr_ready_for_real_execution = True, xr_blocked = False, xr_summary = [], xr_next_action = [],
      xr_dry_run_command_id = (js ''cmd-1''), xr_planned_service_name = [], xr_planned_listen_port = 8443,
      xr_landing_target_host = (js ''10.0.0.2''), xr_landing_target_port = 443,
      xr_forwarding_method = (js ''haproxy_tcp''), xr_route_name = (js ''r1''), xr_route_display_name = None,
      xr_final_approval_text = FINAL_APPROVAL_TEXT,
      xr_expected_real_execution_text = (js ''CONFIRM_REAL_HAPROXY_ROUTE_CREATE_8443''),
      xr_target_worker_id = None, xr_target_worker_version = None,
      xr_minimum_supported_worker_version = [], xr_checks = [], xr_safety_boundary = [],
      xr_command = None, xr_worker_command_created = False,
      xr_real_execution_command_created = False, xr_route_created = False,
      xr_transit_route_active_record_created = False, xr_haproxy_installed = False,
      xr_listener_bound = False, xr_firewall_modified = False, xr_share_link_mutated = False,
      xr_cutover = False\<rparr>"

definition token_response :: "jsstr api_response settled" where
  "token_response = Resolved (ApiSuccess (js ''t'') [])"

definition ready_reply :: reply where
  "ready_reply = RealReply (Resolved (ApiSuccess ready_result []))"

text \<open>A click, and the token that follows it.\<close>

definition press_and_send :: "json_parser \<Rightarrow> button \<Rightarrow> debug_system \<Rightarrow> debug_system" where
  "press_and_send parse b s =
     (case press parse b (ds_panel s) of
        (p, Some a) \<Rightarrow>
          (on_panel (\<lambda>_. p) s)
            \<lparr>ds_pending := AwaitReply a # ds_pending s, ds_log := Sent a (js ''t'') # ds_log s\<rparr>
      | (p, None) \<Rightarrow> s)"

lemma press_and_send_reachable:
  assumes "debug_reachable allow parse s" and "button_enabled parse b (ds_panel s)"
  shows "debug_reachable allow parse (press_and_send parse b s)"
proof -
  obtain p a where pa: "press parse b (ds_panel s) = (p, Some a)"
    using press_sends [OF assms(2)] by blast
  let ?s1 = "(on_panel (\<lambda>_. p) s)\<lparr>ds_pending := AwaitCsrf a # ds_pending s\<rparr>"
  have "debug_step allow parse s ?s1" using assms(2) pa by (rule debug_step.pressed)
  then have 1: "debug_reachable allow parse ?s1" using assms(1) debug_reachable.step by blast
  have "debug_step allow parse ?s1
      (?s1\<lparr>ds_pending := AwaitReply a # remove1 (AwaitCsrf a) (ds_pending ?s1),
           ds_log := Sent a (js ''t'') # ds_log ?s1\<rparr>)"
    by (rule debug_step.csrf_token [where r = token_response]) (simp_all add: token_response_def)
  then have "debug_step allow parse ?s1 (press_and_send parse b s)"
    by (simp add: press_and_send_def pa on_panel_def)
  with 1 show ?thesis using debug_reachable.step by blast
qed

lemma press_and_send_facts:
  assumes "press parse b (ds_panel s) = (p, Some a)"
  shows "ds_log (press_and_send parse b s) = Sent a (js ''t'') # ds_log s"
    "ds_panel (press_and_send parse b s) = candidate_effect (ds_panel s) p"
  by (simp_all add: press_and_send_def assms on_panel_def)

definition answer :: "action \<Rightarrow> reply \<Rightarrow> debug_system \<Rightarrow> debug_system" where
  "answer a r s =
     (on_panel (settle a r) s)
       \<lparr>ds_pending := remove1 (AwaitReply a) (ds_pending s), ds_log := Answered a r # ds_log s\<rparr>"

lemma answer_reachable:
  assumes "debug_reachable allow parse s" and "AwaitReply a \<in> set (ds_pending s)" and "reply_fits a r"
  shows "debug_reachable allow parse (answer a r s)"
  using assms debug_step.answered [OF assms(2,3)] debug_reachable.step
  unfolding answer_def by blast

lemma sample_request:
  obtains q where "buildPayloadOrNull sample_form sample_confirmations = Some q"
  using sample_form_builds by blast

lemma readiness_pressed:
  assumes "buildPayloadOrNull (dp_form p) (dp_confirmations p) = Some q"
    and "df_forwarding_method (dp_form p) = (js ''haproxy_tcp'')"
    and "selectedDryRunCandidate p = Some c" and "cd_integrity_ready c" and "\<not> dp_loadingReadiness p"
  shows "button_enabled parse ReadinessButton p"
    and "\<exists>m. press parse ReadinessButton p = (p\<lparr>dp_loadingReadiness := True, dp_message := m\<rparr>, Some (Readiness q))"
proof -
  have "formErrors p = []"
    using assms(1,2) buildPayloadOrNull_Some_iff [of "dp_form p" "dp_confirmations p"]
    unfolding formErrors_def validateForm_Nil_iff by blast
  then show "button_enabled parse ReadinessButton p"
    using assms by (simp add: canRunReadiness_def requestPayload_def selectedCandidateIntegrityReady_def)
  show "\<exists>m. press parse ReadinessButton p = (p\<lparr>dp_loadingReadiness := True, dp_message := m\<rparr>, Some (Readiness q))"
    using assms by (simp add: runReadiness_start_def requestPayload_def) blast
qed

lemma execution_pressed:
  assumes "buildPayloadOrNull (dp_form p) (dp_confirmations p) = Some q"
    and "all_confirmed (dp_confirmations p)"
    and "selectedDryRunCandidate p = Some c" and "cd_integrity_ready c"
    and "\<not> dp_submittingRealExecution p" and "dp_readinessResult p = Some ready_result"
    and "trim (df_real_execution_text (dp_form p)) = (js ''CONFIRM_REAL_HAPROXY_ROUTE_CREATE_8443'')"
    and "trim (dp_manualRealExecutionConfirm p) = MANUAL_REAL_EXECUTION_CONFIRM"
  shows "button_enabled parse RealExecutionButton p"
    and "\<exists>m. press parse RealExecutionButton p
           = (p\<lparr>dp_submittingRealExecution := True, dp_message := m\<rparr>, Some (RealExecution q))"
proof -
  have "canCreateRealExecution p"
    using assms by (simp add: canCreateRealExecution_def requestPayload_def ready_result_def
        selectedCandidateIntegrityReady_def)
  then show "button_enabled parse RealExecutionButton p"
    and "\<exists>m. press parse RealExecutionButton p
           = (p\<lparr>dp_submittingRealExecution := True, dp_message := m\<rparr>, Some (RealExecution q))"
    using assms(1) by (simp_all add: submitRealExecution_start_def requestPayload_def) blast
qed

lemma sample_texts:
  "trim (js ''CONFIRM_REAL_HAPROXY_ROUTE_CREATE_8443'') = (js ''CONFIRM_REAL_HAPROXY_ROUTE_CREATE_8443'')"
  "trim MANUAL_REAL_EXECUTION_CONFIRM = MANUAL_REAL_EXECUTION_CONFIRM"
  "trim (js ''10.0.0.9'') = (js ''10.0.0.9'')" "trim (js ''10.0.0.2'') = (js ''10.0.0.2'')" "trim (js ''cmd-1'') = (js ''cmd-1'')"
proof -
  have t: "trim (js s) = js s" if "s \<noteq> []" "\<not> is_space (of_char (hd s))" "\<not> is_space (of_char (last s))" for s
    using that by (simp add: trim_id js_def hd_map last_map)
  show "trim (js ''CONFIRM_REAL_HAPROXY_ROUTE_CREATE_8443'') = (js ''CONFIRM_REAL_HAPROXY_ROUTE_CREATE_8443'')"
    "trim MANUAL_REAL_EXECUTION_CONFIRM = MANUAL_REAL_EXECUTION_CONFIRM"
    "trim (js ''10.0.0.9'') = (js ''10.0.0.9'')" "trim (js ''10.0.0.2'') = (js ''10.0.0.2'')" "trim (js ''cmd-1'') = (js ''cmd-1'')"
    by (simp_all add: MANUAL_REAL_EXECUTION_CONFIRM_def t is_space_def)
qed

lemma select_kept:
  assumes "dp_debugContext p = Some (sample_context ready)" and "dp_selectedDryRunCommandId p = (js ''cmd-1'')"
  shows "selectedDryRunCandidate p = Some (candidate_with [] ready)"
  by (rule select_sample [OF assms])

lemma sample_confirmed [simp]: "all_confirmed sample_confirmations"
  by (simp add: all_confirmed_def sample_confirmations_def)

lemma candidate_with_ready [simp]: "cd_integrity_ready (candidate_with cs ready) = ready"
  by (simp add: candidate_with_def)

lemma payload_host:
  assumes "buildPayloadOrNull f c = Some q" and "trim h \<noteq> []"
  shows "buildPayloadOrNull (f\<lparr>df_landing_target_host := h\<rparr>) c = Some (q\<lparr>xq_landing_target_host := trim h\<rparr>)"
  using assms by (auto simp: buildPayloadOrNull_def split: option.splits if_splits)

lemma sample_request_fields:
  "buildPayloadOrNull sample_form sample_confirmations = Some q \<Longrightarrow>
     xq_landing_target_host q = (js ''10.0.0.2'') \<and> xq_dry_run_command_id q = (js ''cmd-1'')"
  using sample_texts
  by (auto simp: buildPayloadOrNull_def sample_form_def split: option.splits if_splits)

text \<open>
  After the click on the check, an optional edit of the target host, the positive answer and the
  click on the execution.
\<close>

definition check_clicked :: "json_parser \<Rightarrow> debug_system" where
  "check_clicked parse = press_and_send parse ReadinessButton (prepared True)"

definition host_edit :: edit where
  "host_edit = EditForm (Form_landing_target_host (js ''10.0.0.9''))"

definition executing :: "json_parser \<Rightarrow> real_execution_request \<Rightarrow> debug_system \<Rightarrow> debug_system" where
  "executing parse q s = press_and_send parse RealExecutionButton (answer (Readiness q) ready_reply s)"

lemma effect_loading [simp]:
  "dp_loadingProtectedRegistrationDryRun (candidate_effect p q) = dp_loadingProtectedRegistrationDryRun q"
  "dp_loadingProtectedRegistrationApprovalDryRun (candidate_effect p q) = dp_loadingProtectedRegistrationApprovalDryRun q"
  "dp_loadingProtectedRegistrationCommandCreate (candidate_effect p q) = dp_loadingProtectedRegistrationCommandCreate q"
  "dp_loadingProtectedRegistrationExecutionVerify (candidate_effect p q) = dp_loadingProtectedRegistrationExecutionVerify q"
  "dp_submittingRealExecution (candidate_effect p q) = dp_submittingRealExecution q"
  by (simp_all add: candidate_effect_def reset_registration_wizard_def)

lemma check_clicked_facts:
  fixes parse
  assumes q: "buildPayloadOrNull sample_form sample_confirmations = Some q"
  defines "p \<equiv> ds_panel (check_clicked parse)"
  shows "dp_form p = sample_form" "dp_confirmations p = sample_confirmations"
    "dp_debugContext p = Some (sample_context True)" "dp_selectedDryRunCommandId p = (js ''cmd-1'')"
    "dp_manualRealExecutionConfirm p = MANUAL_REAL_EXECUTION_CONFIRM"
    "busy b p = (b = ReadinessButton)"
    "ds_pending (check_clicked parse) = [AwaitReply (Readiness q)]"
    "ds_log (check_clicked parse) = [Sent (Readiness q) (js ''t'')]"
    "lenient allow \<Longrightarrow> debug_reachable allow parse (check_clicked parse)"
proof -
  note facts = prepared_facts [where ready = True]
  let ?p = "ds_panel (prepared True)"
  have idle: "\<not> dp_loadingReadiness ?p" using facts(7) [of ReadinessButton] by simp
  note pressed = readiness_pressed [of ?p q "candidate_with [] True" parse]
  have en: "button_enabled parse ReadinessButton ?p"
    and "\<exists>m. press parse ReadinessButton ?p = (?p\<lparr>dp_loadingReadiness := True, dp_message := m\<rparr>, Some (Readiness q))"
    using pressed q facts idle select_kept [OF facts(4,5)] by (simp_all add: sample_form_def)
  then obtain m where m: "press parse ReadinessButton ?p
      = (?p\<lparr>dp_loadingReadiness := True, dp_message := m\<rparr>, Some (Readiness q))" by blast
  show "dp_form p = sample_form" "dp_confirmations p = sample_confirmations"
    "dp_debugContext p = Some (sample_context True)" "dp_selectedDryRunCommandId p = (js ''cmd-1'')"
    "dp_manualRealExecutionConfirm p = MANUAL_REAL_EXECUTION_CONFIRM"
    "ds_pending (check_clicked parse) = [AwaitReply (Readiness q)]"
    "ds_log (check_clicked parse) = [Sent (Readiness q) (js ''t'')]"
    using facts by (simp_all add: p_def check_clicked_def press_and_send_def m on_panel_def del: press.simps)
  show "busy b p = (b = ReadinessButton)"
    using facts(7) [of b] by (cases b) (simp_all add: p_def check_clicked_def press_and_send_def m on_panel_def del: press.simps)
  show "lenient allow \<Longrightarrow> debug_reachable allow parse (check_clicked parse)"
    unfolding check_clicked_def by (rule press_and_send_reachable [OF prepared_reachable en])
qed

lemma executing_facts:
  assumes "debug_reachable allow parse s" and "AwaitReply (Readiness q) \<in> set (ds_pending s)"
    and "buildPayloadOrNull (dp_form (ds_panel s)) sample_confirmations = Some q'"
    and "dp_confirmations (ds_panel s) = sample_confirmations"
    and "dp_debugContext (ds_panel s) = Some (sample_context True)"
    and "dp_selectedDryRunCommandId (ds_panel s) = (js ''cmd-1'')"
    and "dp_manualRealExecutionConfirm (ds_panel s) = MANUAL_REAL_EXECUTION_CONFIRM"
    and "df_real_execution_text (dp_form (ds_panel s)) = (js ''CONFIRM_REAL_HAPROXY_ROUTE_CREATE_8443'')"
    and "\<not> dp_submittingRealExecution (ds_panel s)"
  shows "debug_reachable allow parse (executing parse q s)"
    and "ds_log (executing parse q s) =
      Sent (RealExecution q') (js ''t'') # Answered (Readiness q) ready_reply # ds_log s"
proof -
  let ?s = "answer (Readiness q) ready_reply s"
  let ?p = "ds_panel ?s"
  have p: "dp_form ?p = dp_form (ds_panel s)" "dp_confirmations ?p = dp_confirmations (ds_panel s)"
    "dp_debugContext ?p = dp_debugContext (ds_panel s)"
    "dp_selectedDryRunCommandId ?p = dp_selectedDryRunCommandId (ds_panel s)"
    "dp_manualRealExecutionConfirm ?p = dp_manualRealExecutionConfirm (ds_panel s)"
    "dp_readinessResult ?p = Some ready_result"
    by (simp_all add: answer_def on_panel_def ready_reply_def)
  have idle: "\<not> dp_submittingRealExecution ?p"
    using assms(9) by (simp add: answer_def on_panel_def ready_reply_def )
  note pressed = execution_pressed [of ?p q' "candidate_with [] True" parse]
  have en: "button_enabled parse RealExecutionButton ?p"
    and "\<exists>m. press parse RealExecutionButton ?p
           = (?p\<lparr>dp_submittingRealExecution := True, dp_message := m\<rparr>, Some (RealExecution q'))"
    using pressed idle assms(3-8) select_kept [of ?p True] by (simp_all add: p sample_texts)
  then obtain m where m: "press parse RealExecutionButton ?p
      = (?p\<lparr>dp_submittingRealExecution := True, dp_message := m\<rparr>, Some (RealExecution q'))" by blast
  have "debug_reachable allow parse ?s"
    using answer_reachable [OF assms(1,2), of ready_reply] by (simp add: ready_reply_def)
  then show "debug_reachable allow parse (executing parse q s)"
    unfolding executing_def using en by (rule press_and_send_reachable)
  show "ds_log (executing parse q s) =
      Sent (RealExecution q') (js ''t'') # Answered (Readiness q) ready_reply # ds_log s"
    by (simp add: executing_def press_and_send_def m del: press.simps) (simp add: answer_def)
qed

lemma host_edit_facts:
  assumes "dp_form (ds_panel s) = f" and "dp_confirmations (ds_panel s) = c"
  defines "p \<equiv> ds_panel (on_panel (apply_edit host_edit) s)"
  shows "dp_form p = f\<lparr>df_landing_target_host := (js ''10.0.0.9'')\<rparr>" "dp_confirmations p = c"
    "dp_debugContext p = dp_debugContext (ds_panel s)"
    "dp_selectedDryRunCommandId p = dp_selectedDryRunCommandId (ds_panel s)"
    "dp_manualRealExecutionConfirm p = dp_manualRealExecutionConfirm (ds_panel s)"
    "dp_submittingRealExecution p = dp_submittingRealExecution (ds_panel s)"
    "ds_pending (on_panel (apply_edit host_edit) s) = ds_pending s"
    "ds_log (on_panel (apply_edit host_edit) s) = ds_log s"
  using assms(1,2) by (simp_all add: p_def on_panel_def host_edit_def updateForm_def)

lemma checked_run:
  fixes parse
  assumes q: "buildPayloadOrNull sample_form sample_confirmations = Some q" and "lenient allow"
  defines "s \<equiv> executing parse q (check_clicked parse)"
  shows "debug_reachable allow parse s"
    "ds_log s = [Sent (RealExecution q) (js ''t''), Answered (Readiness q) ready_reply, Sent (Readiness q) (js ''t'')]"
proof -
  note facts = check_clicked_facts [OF q, where parse = parse]
  have "\<not> dp_submittingRealExecution (ds_panel (check_clicked parse))"
    using facts(6) [of RealExecutionButton] by simp
  then show "debug_reachable allow parse s"
    "ds_log s = [Sent (RealExecution q) (js ''t''), Answered (Readiness q) ready_reply, Sent (Readiness q) (js ''t'')]"
    unfolding s_def
    using executing_facts [of allow parse "check_clicked parse" q q] facts(1-5,7,8) facts(9) [OF assms(2)] q
    by (simp_all add: sample_form_def)
qed

text \<open>The request as it is after the edit of the target host.\<close>

definition edited :: "real_execution_request \<Rightarrow> real_execution_request" where
  "edited q = q\<lparr>xq_landing_target_host := (js ''10.0.0.9'')\<rparr>"

lemma edited_run:
  fixes parse
  assumes q: "buildPayloadOrNull sample_form sample_confirmations = Some q"
  defines "s \<equiv> executing parse q (on_panel (apply_edit host_edit) (check_clicked parse))"
  shows "debug_reachable anything parse s"
    "ds_log s = [Sent (RealExecution (edited q)) (js ''t''), Answered (Readiness q) ready_reply, Sent (Readiness q) (js ''t'')]"
proof -
  note facts = check_clicked_facts [OF q, where parse = parse]
  let ?s = "on_panel (apply_edit host_edit) (check_clicked parse)"
  note e = host_edit_facts [OF facts(1,2)]
  have "debug_step anything parse (check_clicked parse) ?s"
    by (rule debug_step.edit) (simp_all add: host_edit_def anything_def)
  then have r: "debug_reachable anything parse ?s"
    using facts(9) [of anything] debug_reachable.step lenient_runs(2) by blast
  have b: "buildPayloadOrNull (dp_form (ds_panel ?s)) sample_confirmations = Some (edited q)"
    unfolding e(1) edited_def using payload_host [OF q, of "(js ''10.0.0.9'')"] sample_texts(3) by simp
  have "\<not> dp_submittingRealExecution (ds_panel (check_clicked parse))"
    using facts(6) [of RealExecutionButton] by simp
  then show "debug_reachable anything parse s"
    "ds_log s = [Sent (RealExecution (edited q)) (js ''t''), Answered (Readiness q) ready_reply, Sent (Readiness q) (js ''t'')]"
    unfolding s_def using executing_facts [OF r _ b] e facts(3,4,5,7,8)
    by (simp_all add: sample_form_def)
qed

lemma edited_differs:
  "buildPayloadOrNull sample_form sample_confirmations = Some q \<Longrightarrow> edited q \<noteq> q"
proof -
  assume "buildPayloadOrNull sample_form sample_confirmations = Some q"
  then have "xq_landing_target_host q = (js ''10.0.0.2'')" using sample_request_fields by blast
  moreover have "xq_landing_target_host (edited q) = (js ''10.0.0.9'')" by (simp add: edited_def)
  moreover have "(js ''10.0.0.2'') \<noteq> (js ''10.0.0.9'')" by simp
  ultimately show ?thesis by metis
qed

text \<open>A parser for the samples, which paste nothing.\<close>

definition null_parser :: json_parser where
  "null_parser t = Resolved JNull"

subsection \<open>Properties\<close>

text \<open>
  C1. In every run, whatever the interleaving, each call the panel sends has
  passed its gate: a readiness check and a real execution carry a well-formed request with all its
  confirmations, a real execution also the text demanded by a positive readiness answer; a registration
  dry-run a complete draft; an approval the exact approval text and every confirmation of a ready
  dry-run; a command creation an approved source and all fourteen confirmations; an execution the
  text that names its command and all sixteen confirmations.
\<close>

theorem sent_calls_are_authorised:
  assumes "debug_reachable allow parse s" and "Sent a t \<in> set (ds_log s)"
  shows "authorised (ds_log s) a"
  using reachable_all_authorised [OF assms(1)] assms(2) unfolding all_authorised_def by blast

theorem sent_calls_are_authorised_witness:
  "\<exists>q s. debug_reachable anything null_parser s \<and> Sent (RealExecution q) (js ''t'') \<in> set (ds_log s)
     \<and> authorised (ds_log s) (RealExecution q)"
proof -
  obtain q where q: "buildPayloadOrNull sample_form sample_confirmations = Some q"
    by (rule sample_request)
  note run = checked_run [OF q lenient_runs(2), of null_parser]
  show ?thesis
    using run sent_calls_are_authorised [OF run(1), of "RealExecution q" "(js ''t'')"]
    by (metis list.set_intros(1))
qed

text \<open>
  C7. In a run that leaves the form and the confirmations alone
  while a readiness check is under way, a real execution is only ever sent for the very request
  whose readiness check was answered positively.
\<close>

theorem checked_request_is_executed:
  assumes "debug_reachable calm parse s" and "Sent (RealExecution q) t \<in> set (ds_log s)"
  shows "\<exists>r m. Answered (Readiness q) (RealReply (Resolved (ApiSuccess r m))) \<in> set (ds_log s)
           \<and> xr_ready_for_real_execution r"
  using reachable_executed_checked [OF assms(1)] assms(2)
  unfolding executed_checked_def was_checked_def checked_with_def by blast

theorem checked_request_is_executed_witness:
  "\<exists>q s. debug_reachable calm null_parser s \<and> Sent (RealExecution q) (js ''t'') \<in> set (ds_log s)
     \<and> (\<exists>r m. Answered (Readiness q) (RealReply (Resolved (ApiSuccess r m))) \<in> set (ds_log s)
           \<and> xr_ready_for_real_execution r)"
proof -
  obtain q where q: "buildPayloadOrNull sample_form sample_confirmations = Some q"
    by (rule sample_request)
  note run = checked_run [OF q lenient_runs(1), of null_parser]
  show ?thesis
    using run checked_request_is_executed [OF run(1), of q "(js ''t'')"] by (metis list.set_intros(1))
qed

text \<open>
  C14. The inputs stay enabled while a readiness check is
  under way, and its late answer is installed whatever the form holds by then: a run without the
  restriction above sends a real execution, to a target host that was edited during the check,
  for a request that no readiness check was ever answered for.
\<close>

theorem edit_during_check_is_executed_unchecked:
  "\<exists>s q. debug_reachable anything parse s \<and> Sent (RealExecution q) (js ''t'') \<in> set (ds_log s)
     \<and> (\<forall>r. Answered (Readiness q) r \<notin> set (ds_log s))"
proof -
  obtain q where q: "buildPayloadOrNull sample_form sample_confirmations = Some q"
    by (rule sample_request)
  note run = edited_run [OF q, of parse]
  have "Sent (RealExecution (edited q)) (js ''t'') \<in> set (ds_log (executing parse q
      (on_panel (apply_edit host_edit) (check_clicked parse))))"
    and "\<forall>r. Answered (Readiness (edited q)) r \<notin> set (ds_log (executing parse q
      (on_panel (apply_edit host_edit) (check_clicked parse))))"
    unfolding run(2) using edited_differs [OF q] by simp_all
  with run(1) show ?thesis by blast
qed


text \<open>
  C31. Whatever result the panel shows for a button is the data of a
  successful response to a call of that very button; nothing else ever installs one.
\<close>

theorem results_come_from_responses:
  assumes "debug_reachable allow parse s" and "outcome_of b (ds_panel s) = Some x"
  shows "\<exists>a r. button_of a = b \<and> Answered a r \<in> set (ds_log s) \<and> reply_outcome r = Some x"
  using reachable_provenance [OF assms(1)] assms(2) unfolding provenance_def by blast

lemma answered_facts:
  assumes q: "buildPayloadOrNull sample_form sample_confirmations = Some q" and "lenient allow"
  shows "debug_reachable allow parse (answer (Readiness q) ready_reply (check_clicked parse))"
    "outcome_of ReadinessButton (ds_panel (answer (Readiness q) ready_reply (check_clicked parse)))
       = Some (RealOutcome ready_result)"
  using answer_reachable [OF check_clicked_facts(9) [OF assms], where a = "Readiness q" and r = ready_reply]
    check_clicked_facts(7) [OF q, where parse = parse]
  by (simp_all add: ready_reply_def) (simp add: answer_def on_panel_def)

theorem results_come_from_responses_witness:
  "\<exists>s a r. debug_reachable anything null_parser s \<and> button_of a = ReadinessButton
     \<and> Answered a r \<in> set (ds_log s) \<and> reply_outcome r = Some (RealOutcome ready_result)"
proof -
  obtain q where q: "buildPayloadOrNull sample_form sample_confirmations = Some q"
    by (rule sample_request)
  note facts = answered_facts [OF q lenient_runs(2), where parse = null_parser]
  show ?thesis using results_come_from_responses [OF facts] facts(1) by blast
qed

text \<open>
  C16. At any time at most one call of each button is under way: exactly one while its
  loading flag is set and none otherwise, and an enabled button has none.
\<close>

theorem one_call_in_flight:
  assumes "debug_reachable allow parse s"
  shows "flights b (ds_pending s) = (if busy b (ds_panel s) then 1 else 0)
    \<and> (button_enabled parse b (ds_panel s) \<longrightarrow> flights b (ds_pending s) = 0)"
proof -
  have f: "flights b (ds_pending s) = (if busy b (ds_panel s) then 1 else 0)"
    using reachable_single_flight [OF assms] unfolding single_flight_def by blast
  have "\<not> busy b (ds_panel s)" if "button_enabled parse b (ds_panel s)"
    using that press_sends press_busy(2) by blast
  with f show ?thesis by simp
qed

theorem one_call_in_flight_witness:
  "\<exists>s. debug_reachable anything null_parser s
     \<and> flights ReadinessButton (ds_pending s) = 1 \<and> flights RealExecutionButton (ds_pending s) = 0"
proof -
  obtain q where q: "buildPayloadOrNull sample_form sample_confirmations = Some q"
    by (rule sample_request)
  note facts = check_clicked_facts [OF q, where parse = null_parser]
  show ?thesis
    using facts(9) [OF lenient_runs(2)] facts(6)
      one_call_in_flight [OF facts(9) [OF lenient_runs(2)], of ReadinessButton]
      one_call_in_flight [OF facts(9) [OF lenient_runs(2)], of RealExecutionButton] by auto
qed

text \<open>
  C33. A button whose loading flag is set has a suspended handler, and the
  event that ends it (a token refused, or any answer, an exception included) releases the flag.
\<close>

theorem loading_flag_is_released:
  assumes "debug_reachable allow parse s" and "busy b (ds_panel s)"
  shows "\<exists>a. button_of a = b \<and> (AwaitCsrf a \<in> set (ds_pending s) \<or> AwaitReply a \<in> set (ds_pending s))
           \<and> (\<forall>r. reply_fits a r \<longrightarrow> \<not> busy b (settle a r (ds_panel s)))
           \<and> (\<exists>s'. debug_step allow parse s s' \<and> \<not> busy b (ds_panel s'))"
proof -
  have "0 < flights b (ds_pending s)"
    using reachable_single_flight [OF assms(1)] assms(2) unfolding single_flight_def by simp
  then obtain x where x: "x \<in> set (ds_pending s)" "flight_of x = Some b"
    unfolding flights_def length_greater_0_conv filter_empty_conv by blast
  from x(2) obtain a where a: "x = AwaitCsrf a \<or> x = AwaitReply a" "button_of a = b"
    by (cases x) auto
  have "\<exists>s'. debug_step allow parse s s' \<and> \<not> busy b (ds_panel s')"
    using a(1)
  proof
    assume "x = AwaitCsrf a"
    then show ?thesis
      using debug_step.csrf_failed [of a s "Rejected None" None allow parse] x(1) a(2)
      by (auto simp: on_panel_def simp del: settle.simps)
  next
    assume "x = AwaitReply a"
    then show ?thesis
      using debug_step.answered [of a s "thrown a None" allow parse] x(1) a(2)
      by (auto simp: on_panel_def simp del: settle.simps)
  qed
  with x(1) a show ?thesis by auto
qed

theorem loading_flag_is_released_witness:
  "\<exists>s. debug_reachable anything null_parser s \<and> busy ReadinessButton (ds_panel s)
     \<and> (\<exists>s'. debug_step anything null_parser s s' \<and> \<not> busy ReadinessButton (ds_panel s'))"
proof -
  obtain q where q: "buildPayloadOrNull sample_form sample_confirmations = Some q"
    by (rule sample_request)
  note facts = check_clicked_facts [OF q, where parse = null_parser]
  have "busy ReadinessButton (ds_panel (check_clicked null_parser))" using facts(6) by blast
  then show ?thesis
    using loading_flag_is_released [OF facts(9) [OF lenient_runs(2)], of ReadinessButton]
      facts(9) [OF lenient_runs(2)] by blast
qed

text \<open>
  Whatever the order of edits, context refreshes and answers, the
  registration dry-run the panel would send names the candidate that is selected.
\<close>

theorem dry_run_names_selected_candidate:
  assumes "debug_reachable allow parse s" and "selectedDryRunCandidate (ds_panel s) = Some cand"
  shows "prs_dry_run_command_id (pr_source (protectedRegistrationPayloadPreview (ds_panel s)))
           = trim (cd_id cand)"
  using reachable_follows [OF assms(1)] assms(2)
  by (simp add: draft_follows_def draft_source_def selected_candidate_id_def nullish_def
      protectedRegistrationPayloadPreview_def buildProtectedResourceRegistrationPayloadPreview_def)

theorem dry_run_names_selected_candidate_witness:
  "prs_dry_run_command_id (pr_source (protectedRegistrationPayloadPreview (ds_panel (prepared True))))
     = (js ''cmd-1'')"
  using dry_run_names_selected_candidate [OF prepared_reachable [OF lenient_runs(2)], of True "candidate_with [] True"]
    select_kept [OF prepared_facts(4,5) [where ready = True]] sample_texts(5) by simp

end
