(* ===== verification/CustomerLines.thy ===== *)
theory CustomerLines
  imports ApiClient "HOL-Library.Multiset"
begin

text \<open>
  \<^verbatim>\<open>CustomerLinesPanel\<close>: the classification of nodes and transit routes into customer
  lines, the merged, sorted and filtered list, and the modal state machine with its local edits.
  \<^verbatim>\<open>String.prototype.localeCompare\<close> depends on the browser's collation and is a parameter
  \<open>collate\<close>.
\<close>

subsection \<open>Types\<close>

datatype line_health = NormalHealth | RiskHealth | AbnormalHealth
datatype line_kind = DirectLine | TransitLine
datatype line_mode = MainLine | BackupLine
datatype line_source = SourceNode | SourceRoute | SourceDemo
datatype modal_mode = DetailModal | EditModal | ClientModal | MonitorModal

fun mode_text :: "line_mode \<Rightarrow> jsstr" where
  "mode_text MainLine = (uni ''%u4E3B%u7EBF'')"
| "mode_text BackupLine = (uni ''%u5907%u7528'')"

fun kind_label :: "line_kind \<Rightarrow> jsstr" where
  "kind_label TransitLine = (uni ''%u4E2D%u8F6C%u7EBF%u8DEF'')"
| "kind_label DirectLine = (uni ''%u76F4%u8FDE%u7EBF%u8DEF'')"

record customer_line =
  cl_id :: jsstr
  cl_source :: line_source
  cl_name :: jsstr
  cl_customer :: jsstr
  cl_platform :: jsstr
  cl_kind :: line_kind
  cl_kindLabel :: jsstr
  cl_mode :: line_mode
  cl_purpose :: jsstr
  cl_health :: line_health
  cl_statusLabel :: jsstr
  cl_lastIssue :: jsstr
  cl_entryHost :: jsstr
  cl_entryPort :: "int option"
  cl_targetLabel :: jsstr
  cl_transitLabel :: jsstr
  cl_landingLabel :: jsstr
  cl_regionLabel :: jsstr
  cl_note :: jsstr
  cl_configGenerated :: bool
  cl_createdAt :: "jsstr option"

record edit_draft =
  ed_name :: jsstr
  ed_customer :: jsstr
  ed_platform :: jsstr
  ed_kind :: line_kind
  ed_mode :: line_mode
  ed_purpose :: jsstr
  ed_note :: jsstr

record line_override =
  ov_name :: "jsstr option"
  ov_customer :: "jsstr option"
  ov_platform :: "jsstr option"
  ov_kind :: "line_kind option"
  ov_kindLabel :: "jsstr option"
  ov_mode :: "line_mode option"
  ov_purpose :: "jsstr option"
  ov_note :: "jsstr option"

definition defaultDemoLines :: "customer_line list" where
  "defaultDemoLines =
     [\<lparr>cl_id = (js ''demo-facebook-vn-primary''), cl_source = SourceDemo, cl_name = (uni ''%u5BA2%u6237A-Facebook%u8D8A%u5357%u4E3B%u7EBF''),
       cl_customer = (uni ''%u5BA2%u6237A''), cl_platform = (js ''Facebook''), cl_kind = DirectLine, cl_kindLabel = (uni ''%u76F4%u8FDE%u7EBF%u8DEF''),
       cl_mode = MainLine, cl_purpose = (uni ''%u4E3B%u7528%u7EBF%u8DEF''), cl_health = NormalHealth, cl_statusLabel = (uni ''%u6B63%u5E38''),
       cl_lastIssue = (js ''-''), cl_entryHost = (js ''vn1.livecdn.net''), cl_entryPort = Some 443,
       cl_targetLabel = (js ''Facebook''), cl_transitLabel = (uni ''%u76F4%u8FDE%uFF08%u65E0%u4E2D%u8F6C%uFF09''), cl_landingLabel = (uni ''%u8D8A%u5357 %u00B7 %u80E1%u5FD7%u660E%u5E02''),
       cl_regionLabel = (uni ''%u8D8A%u5357 %u00B7 %u80E1%u5FD7%u660E%u5E02''), cl_note = (uni ''%u8D8A%u5357%u65B9%u5411%u4E3B%u7528%u7EBF%u8DEF%uFF0C%u7A33%u5B9A%u6027%u4F18%u5148%u3002''), cl_configGenerated = True,
       cl_createdAt = Some (js ''2026-06-28T11:20:00+08:00'')\<rparr>,
      \<lparr>cl_id = (js ''demo-facebook-vn-backup''), cl_source = SourceDemo, cl_name = (uni ''%u5BA2%u6237A-Facebook%u8D8A%u5357%u5907%u7528%u7EBF''),
       cl_customer = (uni ''%u5BA2%u6237A''), cl_platform = (js ''Facebook''), cl_kind = DirectLine, cl_kindLabel = (uni ''%u76F4%u8FDE%u7EBF%u8DEF''),
       cl_mode = BackupLine, cl_purpose = (uni ''%u5907%u7528%u7EBF%u8DEF''), cl_health = NormalHealth, cl_statusLabel = (uni ''%u6B63%u5E38''),
       cl_lastIssue = (js ''-''), cl_entryHost = (js ''vn2.livecdn.net''), cl_entryPort = Some 443,
       cl_targetLabel = (js ''Facebook''), cl_transitLabel = (uni ''%u76F4%u8FDE%uFF08%u65E0%u4E2D%u8F6C%uFF09''), cl_landingLabel = (uni ''%u8D8A%u5357 %u00B7 %u80E1%u5FD7%u660E%u5E02''),
       cl_regionLabel = (uni ''%u8D8A%u5357 %u00B7 %u80E1%u5FD7%u660E%u5E02''), cl_note = (uni ''%u4E3B%u7EBF%u4E0D%u53EF%u7528%u65F6%u5207%u6362%uFF0C%u4FDD%u6301%u540C%u5E73%u53F0%u914D%u7F6E%u3002''), cl_configGenerated = True,
       cl_createdAt = Some (js ''2026-06-28T12:10:00+08:00'')\<rparr>,
      \<lparr>cl_id = (js ''demo-tiktok-sg-primary''), cl_source = SourceDemo, cl_name = (uni ''%u5BA2%u6237B-TikTok%u65B0%u52A0%u5761%u4E3B%u7EBF''),
       cl_customer = (uni ''%u5BA2%u6237B''), cl_platform = (js ''TikTok''), cl_kind = TransitLine, cl_kindLabel = (uni ''%u4E2D%u8F6C%u7EBF%u8DEF''),
       cl_mode = MainLine, cl_purpose = (uni ''%u4E3B%u7528%u7EBF%u8DEF''), cl_health = RiskHealth, cl_statusLabel = (uni ''%u98CE%u9669''),
       cl_lastIssue = (uni ''%u6628%u5929 16:10''), cl_entryHost = (js ''109.244.79.147''), cl_entryPort = Some 29833,
       cl_targetLabel = (js ''TikTok''), cl_transitLabel = (uni ''%u5E7F%u5DDEIEPL-%u9999%u6E2F%u51FA%u53E301''), cl_landingLabel = (uni ''%u65B0%u52A0%u5761%u843D%u573001''),
       cl_regionLabel = (uni ''%u65B0%u52A0%u5761''), cl_note = (uni ''%u4E2D%u8F6C%u7AEF%u53E3%u8FD1%u671F%u5B58%u5728%u6CE2%u52A8%uFF0C%u5EFA%u8BAE%u68C0%u67E5%u653E%u884C%u914D%u7F6E%u3002''), cl_configGenerated = True,
       cl_createdAt = Some (js ''2026-06-27T16:35:00+08:00'')\<rparr>,
      \<lparr>cl_id = (js ''demo-youtube-hk-primary''), cl_source = SourceDemo, cl_name = (uni ''%u5BA2%u6237C-YouTube%u9999%u6E2F%u4E3B%u7EBF''),
       cl_customer = (uni ''%u5BA2%u6237C''), cl_platform = (js ''YouTube''), cl_kind = DirectLine, cl_kindLabel = (uni ''%u76F4%u8FDE%u7EBF%u8DEF''),
       cl_mode = MainLine, cl_purpose = (uni ''%u4E3B%u7528%u7EBF%u8DEF''), cl_health = NormalHealth, cl_statusLabel = (uni ''%u6B63%u5E38''),
       cl_lastIssue = (js ''-''), cl_entryHost = (js ''hk1.livecdn.net''), cl_entryPort = Some 443,
       cl_targetLabel = (js ''YouTube''), cl_transitLabel = (uni ''%u76F4%u8FDE%uFF08%u65E0%u4E2D%u8F6C%uFF09''), cl_landingLabel = (uni ''%u4E2D%u56FD%u9999%u6E2F''),
       cl_regionLabel = (uni ''%u4E2D%u56FD%u9999%u6E2F''), cl_note = (uni ''%u9999%u6E2F%u65B9%u5411%u4E3B%u7EBF%uFF0C%u5F53%u524D%u670D%u52A1%u8FD0%u884C%u6B63%u5E38%u3002''), cl_configGenerated = True,
       cl_createdAt = Some (js ''2026-06-26T15:10:00+08:00'')\<rparr>,
      \<lparr>cl_id = (js ''demo-meta-vn-primary''), cl_source = SourceDemo, cl_name = (uni ''%u81EA%u5DF1%u4F7F%u7528-Meta%u8D8A%u5357%u4E3B%u7EBF''),
       cl_customer = (uni ''%u81EA%u5DF1%u4F7F%u7528''), cl_platform = (js ''Meta''), cl_kind = DirectLine, cl_kindLabel = (uni ''%u76F4%u8FDE%u7EBF%u8DEF''),
       cl_mode = MainLine, cl_purpose = (uni ''%u770B%u89C6%u9891 / %u65E5%u5E38%u4F7F%u7528''), cl_health = AbnormalHealth,
       cl_statusLabel = (uni ''%u5F02%u5E38''), cl_lastIssue = (uni ''%u4ECA%u5929 09:42''), cl_entryHost = (js ''vn-meta.livecdn.net''),
       cl_entryPort = Some 443, cl_targetLabel = (js ''Meta''), cl_transitLabel = (uni ''%u76F4%u8FDE%uFF08%u65E0%u4E2D%u8F6C%uFF09''),
       cl_landingLabel = (uni ''%u8D8A%u5357 %u00B7 %u80E1%u5FD7%u660E%u5E02''), cl_regionLabel = (uni ''%u8D8A%u5357 %u00B7 %u80E1%u5FD7%u660E%u5E02''),
       cl_note = (uni ''%u81EA%u7528%u7EBF%u8DEF%uFF0C%u6700%u8FD1%u4E00%u6B21%u68C0%u6D4B%u5F02%u5E38%uFF0C%u9700%u8981%u7A0D%u540E%u590D%u6838%u3002''), cl_configGenerated = True,
       cl_createdAt = Some (js ''2026-06-25T09:42:00+08:00'')\<rparr>]"

subsection \<open>Classification by keywords\<close>

text \<open>
  \<^verbatim>\<open>/\bword\b/i\<close>: an occurrence of the word that is not preceded or followed by an ASCII
  letter, digit or underscore.
\<close>

definition is_word_unit :: "u16 \<Rightarrow> bool" where
  "is_word_unit c \<longleftrightarrow> is_alpha c \<or> is_digit c \<or> c = 95"

fun word_from :: "bool \<Rightarrow> jsstr \<Rightarrow> jsstr \<Rightarrow> bool" where
  "word_from after_word [] w = False"
| "word_from after_word (c # s) w =
     ((\<not> after_word \<and> starts_with (c # s) w
       \<and> (case drop (length w) (c # s) of [] \<Rightarrow> True | d # r \<Rightarrow> \<not> is_word_unit d))
      \<or> word_from (is_word_unit c) s w)"

definition matches_word_i :: "jsstr \<Rightarrow> jsstr \<Rightarrow> bool" where
  "matches_word_i s w \<longleftrightarrow> word_from False (fold_case s) w"

definition classifyCustomer :: "jsstr \<Rightarrow> jsstr" where
  "classifyCustomer text =
     (if matches_i text (uni ''%u5BA2%u6237a'') then (uni ''%u5BA2%u6237A'')
      else if matches_i text (uni ''%u5BA2%u6237b'') then (uni ''%u5BA2%u6237B'')
      else if matches_i text (uni ''%u5BA2%u6237c'') then (uni ''%u5BA2%u6237C'')
      else if matches_i text (uni ''%u81EA%u5DF1'') \<or> matches_i text (uni ''%u81EA%u7528'') \<or> matches_i text (uni ''%u4E2A%u4EBA'') then (uni ''%u81EA%u5DF1%u4F7F%u7528'')
      else (uni ''%u672A%u5206%u914D''))"

definition classifyPlatform :: "jsstr \<Rightarrow> jsstr" where
  "classifyPlatform text =
     (if matches_i text (js ''facebook'') \<or> matches_word_i text (js ''fb'') then (js ''Facebook'')
      else if matches_i text (js ''tiktok'') \<or> matches_word_i text (js ''tk'') then (js ''TikTok'')
      else if matches_i text (js ''youtube'') \<or> matches_word_i text (js ''yt'') then (js ''YouTube'')
      else if matches_i text (js ''meta'') \<or> matches_i text (js ''instagram'') \<or> matches_i text (js ''whatsapp'') then (js ''Meta'')
      else (uni ''%u672A%u8BBE%u7F6E''))"

definition classifyMode :: "jsstr \<Rightarrow> line_mode" where
  "classifyMode text =
     (if matches_i text (uni ''%u5907%u7528'') \<or> matches_i text (js ''backup'') then BackupLine else MainLine)"

definition classifyPurpose :: "jsstr \<Rightarrow> line_mode \<Rightarrow> jsstr" where
  "classifyPurpose text mode =
     (if matches_i text (uni ''%u6D4B%u8BD5'') \<or> matches_i text (js ''test'') then (uni ''%u6D4B%u8BD5%u7EBF%u8DEF'')
      else if matches_i text (uni ''%u89C6%u9891'') \<or> matches_i text (uni ''%u65E5%u5E38'') then (uni ''%u770B%u89C6%u9891 / %u65E5%u5E38%u4F7F%u7528'')
      else if mode = BackupLine then (uni ''%u5907%u7528%u7EBF%u8DEF'') else (uni ''%u4E3B%u7528%u7EBF%u8DEF''))"

fun healthLabel :: "line_health \<Rightarrow> jsstr" where
  "healthLabel NormalHealth = (uni ''%u6B63%u5E38'')"
| "healthLabel RiskHealth = (uni ''%u98CE%u9669'')"
| "healthLabel AbnormalHealth = (uni ''%u5F02%u5E38'')"

definition healthFromStatus :: "jsstr \<Rightarrow> bool \<Rightarrow> line_health" where
  "healthFromStatus status hasConfig =
     (if status \<in> {(js ''failed''), (js ''timeout''), (js ''deleted'')} then AbnormalHealth
      else if status \<noteq> (js ''active'') \<or> \<not> hasConfig then RiskHealth
      else NormalHealth)"

definition lineAddress :: "jsstr \<Rightarrow> int option \<Rightarrow> jsstr" where
  "lineAddress host port =
     (case port of None \<Rightarrow> host
      | Some n \<Rightarrow> if n = 0 then host else host @ (js '':'') @ string_of_int n)"

text \<open>\<^verbatim>\<open>[...].filter(Boolean).join(" ")\<close> on optional strings.\<close>

definition joined_text :: "jsstr option list \<Rightarrow> jsstr" where
  "joined_text xs = join (js '' '') (map the (List.filter (\<lambda>x. \<not> blank x) xs))"

definition flag_set :: "bool option \<Rightarrow> bool" where
  "flag_set b \<longleftrightarrow> b = Some True"

definition lineFromNode :: "node_data \<Rightarrow> customer_line" where
  "lineFromNode node =
     (let text = joined_text [Some (nd_node_name node), nd_vps_ip node,
                   nd_reality_server_name node, nd_reality_dest node];
          mode = classifyMode text;
          hasConfig = (flag_set (nd_share_link_present node) \<or> flag_set (nd_has_share_link node)
                       \<or> \<not> blank (nd_masked_share_link node));
          health = healthFromStatus (nd_status node) hasConfig
      in \<lparr>cl_id = (js ''node-'') @ nd_id node,
          cl_source = SourceNode,
          cl_name = nd_node_name node,
          cl_customer = classifyCustomer text,
          cl_platform = classifyPlatform text,
          cl_kind = DirectLine,
          cl_kindLabel = (uni ''%u76F4%u8FDE%u7EBF%u8DEF''),
          cl_mode = mode,
          cl_purpose = classifyPurpose text mode,
          cl_health = health,
          cl_statusLabel = healthLabel health,
          cl_lastIssue = (if health = NormalHealth then (js ''-'') else (uni ''%u6700%u8FD1%u72B6%u6001%u672A%u5B8C%u5168%u6B63%u5E38'')),
          cl_entryHost = nullish (nd_vps_ip node) (uni ''%u672A%u8FD4%u56DE''),
          cl_entryPort = nd_port node,
          cl_targetLabel =
            (if classifyPlatform text = (uni ''%u672A%u8BBE%u7F6E'') then (uni ''%u76EE%u6807%u5E73%u53F0'') else classifyPlatform text),
          cl_transitLabel = (uni ''%u76F4%u8FDE%uFF08%u65E0%u4E2D%u8F6C%uFF09''),
          cl_landingLabel = nullish (nd_reality_dest node) (nullish (nd_vps_ip node) (uni ''%u843D%u5730%u8282%u70B9'')),
          cl_regionLabel = nullish (nd_reality_server_name node) (uni ''%u843D%u5730%u5730%u533A%u672A%u8BBE%u7F6E''),
          cl_note = (uni ''%u76F4%u8FDE%u7EBF%u8DEF%uFF0C%u53EF%u5728%u8BE6%u60C5%u4E2D%u67E5%u770B%u8FDE%u63A5%u5165%u53E3%u6458%u8981%u3002''),
          cl_configGenerated = hasConfig,
          cl_createdAt = nd_created_at node\<rparr>)"

definition lineFromRoute :: "transit_route_data \<Rightarrow> transit_resource_data option \<Rightarrow> customer_line" where
  "lineFromRoute route resource =
     (let of_resource = (\<lambda>f. case resource of None \<Rightarrow> None | Some r \<Rightarrow> f r);
          text = joined_text [Some (rt_name route), rt_transit_resource_name route, rt_node_name route,
                   of_resource tr_notes, of_resource tr_entry_region, of_resource tr_exit_region];
          mode = classifyMode text;
          health = healthFromStatus (rt_status route) True;
          platform = classifyPlatform text
      in \<lparr>cl_id = (js ''route-'') @ rt_id route,
          cl_source = SourceRoute,
          cl_name = rt_name route,
          cl_customer = classifyCustomer text,
          cl_platform = platform,
          cl_kind = TransitLine,
          cl_kindLabel = (uni ''%u4E2D%u8F6C%u7EBF%u8DEF''),
          cl_mode = mode,
          cl_purpose = classifyPurpose text mode,
          cl_health = health,
          cl_statusLabel = healthLabel health,
          cl_lastIssue = (if health = NormalHealth then (js ''-'') else (uni ''%u4E2D%u8F6C%u72B6%u6001%u9700%u590D%u6838'')),
          cl_entryHost = nullish (of_resource tr_entry_host)
            (nullish (rt_transit_resource_name route) (uni ''%u4E2D%u8F6C%u5165%u53E3'')),
          cl_entryPort = Some (rt_listen_port route),
          cl_targetLabel = (if platform = (uni ''%u672A%u8BBE%u7F6E'') then (uni ''%u76EE%u6807%u5E73%u53F0'') else platform),
          cl_transitLabel = nullish (map_option tr_name resource)
            (nullish (rt_transit_resource_name route) (uni ''%u4E2D%u8F6C%u5165%u53E3'')),
          cl_landingLabel = nullish (rt_node_name route)
            (rt_target_host route @ (js '':'') @ string_of_int (rt_target_port route)),
          cl_regionLabel = nullish (of_resource tr_exit_region)
            (nullish (of_resource tr_entry_region) (uni ''%u7EBF%u8DEF%u5730%u533A%u672A%u8BBE%u7F6E'')),
          cl_note = (uni ''%u901A%u8FC7%u4E2D%u8F6C%u5165%u53E3%u8BBF%u95EE%u843D%u5730%u8282%u70B9%uFF0C%u9002%u5408%u9700%u8981%u4F18%u5316%u8DEF%u5F84%u7684%u5BA2%u6237%u7EBF%u8DEF%u3002''),
          cl_configGenerated = (rt_status route = (js ''active'')),
          cl_createdAt = rt_created_at route\<rparr>)"

definition mergeLineOverride :: "customer_line \<Rightarrow> line_override option \<Rightarrow> customer_line" where
  "mergeLineOverride line override =
     (case override of
        None \<Rightarrow> line
      | Some ov \<Rightarrow>
          let kind = nullish (ov_kind ov) (cl_kind line)
          in line\<lparr>cl_name := nullish (ov_name ov) (cl_name line),
                  cl_customer := nullish (ov_customer ov) (cl_customer line),
                  cl_platform := nullish (ov_platform ov) (cl_platform line),
                  cl_kind := kind,
                  cl_kindLabel := nullish (ov_kindLabel ov) (kind_label kind),
                  cl_mode := nullish (ov_mode ov) (cl_mode line),
                  cl_purpose := nullish (ov_purpose ov) (cl_purpose line),
                  cl_note := nullish (ov_note ov) (cl_note line)\<rparr>)"

definition toEditDraft :: "customer_line \<Rightarrow> edit_draft" where
  "toEditDraft line =
     \<lparr>ed_name = cl_name line, ed_customer = cl_customer line, ed_platform = cl_platform line,
      ed_kind = cl_kind line, ed_mode = cl_mode line, ed_purpose = cl_purpose line,
      ed_note = cl_note line\<rparr>"

fun healthTone :: "line_health \<Rightarrow> jsstr" where
  "healthTone NormalHealth = (js ''success'')"
| "healthTone RiskHealth = (js ''warning'')"
| "healthTone AbnormalHealth = (js ''danger'')"

fun productTone :: "line_health \<Rightarrow> jsstr" where
  "productTone NormalHealth = (js ''green'')"
| "productTone RiskHealth = (js ''orange'')"
| "productTone AbnormalHealth = (js ''red'')"

definition maskConnection :: "customer_line \<Rightarrow> bool \<Rightarrow> jsstr" where
  "maskConnection line revealed =
     (if \<not> revealed then (uni ''%u8FDE%u63A5%u5185%u5BB9%u5DF2%u9690%u85CF%uFF0C%u4EC5%u624B%u52A8%u67E5%u770B%u3002%u2022%u2022%u2022%u2022 %u2022%u2022%u2022%u2022 %u2022%u2022%u2022%u2022 %u2022%u2022%u2022%u2022'')
      else (uni ''%u670D%u52A1%u5668 '') @ cl_entryHost line @ (uni '' / %u7AEF%u53E3 '')
        @ (case cl_entryPort line of None \<Rightarrow> (js ''-'') | Some n \<Rightarrow> string_of_int n)
        @ (js '' / '') @ cl_kindLabel line @ (js '' / '') @ cl_platform line @ (uni ''%u3002%u5B8C%u6574%u5BA2%u6237%u7AEF%u5185%u5BB9%u4ECD%u4FDD%u6301%u9690%u85CF%u3002''))"

subsection \<open>The panel\<close>

record lines_panel =
  lp_nodes :: "node_data list"
  lp_routes :: "transit_route_data list"
  lp_resources :: "transit_resource_data list"
  lp_selectedLineId :: "jsstr option"
  lp_modalMode :: "modal_mode option"
  lp_activeFilter :: "line_health option"
  lp_search :: jsstr
  lp_customerFilter :: jsstr
  lp_platformFilter :: jsstr
  lp_openMenuId :: "jsstr option"
  lp_lineOverrides :: "jsstr \<rightharpoonup> line_override"
  lp_editDraft :: "edit_draft option"
  lp_showConnectionContent :: bool
  lp_message :: jsstr

definition lines_panel_initial :: lines_panel where
  "lines_panel_initial =
     \<lparr>lp_nodes = [], lp_routes = [], lp_resources = [], lp_selectedLineId = None,
      lp_modalMode = None, lp_activeFilter = None, lp_search = [], lp_customerFilter = (js ''all''),
      lp_platformFilter = (js ''all''), lp_openMenuId = None, lp_lineOverrides = Map.empty,
      lp_editDraft = None, lp_showConnectionContent = False, lp_message = (uni ''%u6B63%u5728%u8BFB%u53D6%u5BA2%u6237%u7EBF%u8DEF%u3002'')\<rparr>"

text \<open>\<^verbatim>\<open>Promise.all\<close> rejects when one call throws, and the panel keeps its state.\<close>

fun loadLines_done ::
  "node_data list api_response settled \<Rightarrow> transit_route_data list api_response settled
   \<Rightarrow> transit_resource_data list api_response settled \<Rightarrow> lines_panel \<Rightarrow> lines_panel" where
  "loadLines_done (Resolved nodeResult) (Resolved routeResult) (Resolved resourceResult) p =
     p\<lparr>lp_nodes := (case nodeResult of ApiSuccess d m \<Rightarrow> d | ApiFailure c m e \<Rightarrow> lp_nodes p),
       lp_routes := (case routeResult of ApiSuccess d m \<Rightarrow> d | ApiFailure c m e \<Rightarrow> lp_routes p),
       lp_resources := (case resourceResult of ApiSuccess d m \<Rightarrow> d | ApiFailure c m e \<Rightarrow> lp_resources p),
       lp_message :=
         (if api_ok nodeResult \<and> api_ok routeResult \<and> api_ok resourceResult
          then (uni ''%u5BA2%u6237%u7EBF%u8DEF%u5DF2%u5237%u65B0%u3002'') else (uni ''%u90E8%u5206%u5BA2%u6237%u7EBF%u8DEF%u6570%u636E%u6682%u65F6%u65E0%u6CD5%u8BFB%u53D6%u3002''))\<rparr>"
| "loadLines_done a b c p = p"

text \<open>\<^verbatim>\<open>sort\<close> is stable; the order of two lines is that of customer, then name.\<close>

definition line_order :: "(jsstr \<Rightarrow> jsstr \<Rightarrow> int) \<Rightarrow> customer_line \<Rightarrow> customer_line \<Rightarrow> int" where
  "line_order collate a b =
     (let c = collate (cl_customer a) (cl_customer b)
      in if c \<noteq> 0 then c else collate (cl_name a) (cl_name b))"

fun insert_by :: "('a \<Rightarrow> 'a \<Rightarrow> int) \<Rightarrow> 'a \<Rightarrow> 'a list \<Rightarrow> 'a list" where
  "insert_by cmp x [] = [x]"
| "insert_by cmp x (y # ys) = (if cmp x y \<le> 0 then x # y # ys else y # insert_by cmp x ys)"

definition sort_by :: "('a \<Rightarrow> 'a \<Rightarrow> int) \<Rightarrow> 'a list \<Rightarrow> 'a list" where
  "sort_by cmp xs = foldr (insert_by cmp) xs []"

definition liveLines :: "lines_panel \<Rightarrow> customer_line list" where
  "liveLines p =
     map (\<lambda>route. lineFromRoute route
            (find_opt (\<lambda>resource. tr_id resource = rt_transit_resource_id route) (lp_resources p)))
       (List.filter (\<lambda>route. rt_status route = (js ''active'') \<and> blank (rt_deleted_at route)) (lp_routes p))
     @ map lineFromNode (List.filter (\<lambda>node. nd_status node = (js ''active'')) (lp_nodes p))"

definition baseLines :: "lines_panel \<Rightarrow> customer_line list" where
  "baseLines p = (if liveLines p \<noteq> [] then liveLines p else defaultDemoLines)"

definition customerLines :: "(jsstr \<Rightarrow> jsstr \<Rightarrow> int) \<Rightarrow> lines_panel \<Rightarrow> customer_line list" where
  "customerLines collate p =
     sort_by (line_order collate)
       (map (\<lambda>line. mergeLineOverride line (lp_lineOverrides p (cl_id line))) (baseLines p))"

definition searchable :: "customer_line \<Rightarrow> jsstr" where
  "searchable line =
     to_lower (cl_name line @ (js '' '') @ cl_customer line @ (js '' '') @ cl_platform line @ (js '' '')
       @ cl_kindLabel line @ (js '' '') @ mode_text (cl_mode line))"

definition line_matches :: "lines_panel \<Rightarrow> customer_line \<Rightarrow> bool" where
  "line_matches p line \<longleftrightarrow>
     (case lp_activeFilter p of None \<Rightarrow> True | Some h \<Rightarrow> cl_health line = h)
     \<and> (lp_customerFilter p = (js ''all'') \<or> cl_customer line = lp_customerFilter p)
     \<and> (lp_platformFilter p = (js ''all'') \<or> cl_platform line = lp_platformFilter p)
     \<and> (let keyword = to_lower (trim (lp_search p)) in keyword = [] \<or> contains (searchable line) keyword)"

definition filteredLines :: "(jsstr \<Rightarrow> jsstr \<Rightarrow> int) \<Rightarrow> lines_panel \<Rightarrow> customer_line list" where
  "filteredLines collate p = List.filter (line_matches p) (customerLines collate p)"

definition selectedLine :: "(jsstr \<Rightarrow> jsstr \<Rightarrow> int) \<Rightarrow> lines_panel \<Rightarrow> customer_line option" where
  "selectedLine collate p =
     (case lp_selectedLineId p of None \<Rightarrow> None
      | Some i \<Rightarrow> if i = [] then None
                  else find_opt (\<lambda>line. cl_id line = i) (customerLines collate p))"

definition health_count :: "(jsstr \<Rightarrow> jsstr \<Rightarrow> int) \<Rightarrow> line_health \<Rightarrow> lines_panel \<Rightarrow> nat" where
  "health_count collate h p = length (List.filter (\<lambda>line. cl_health line = h) (customerLines collate p))"

definition customerOptions :: "(jsstr \<Rightarrow> jsstr \<Rightarrow> int) \<Rightarrow> lines_panel \<Rightarrow> jsstr list" where
  "customerOptions collate p = dedup (map cl_customer (customerLines collate p))"

definition platformOptions :: "(jsstr \<Rightarrow> jsstr \<Rightarrow> int) \<Rightarrow> lines_panel \<Rightarrow> jsstr list" where
  "platformOptions collate p = dedup (map cl_platform (customerLines collate p))"

subsection \<open>Handlers\<close>

definition openModal :: "customer_line \<Rightarrow> modal_mode \<Rightarrow> lines_panel \<Rightarrow> lines_panel" where
  "openModal line mode p =
     p\<lparr>lp_selectedLineId := Some (cl_id line),
       lp_modalMode := Some mode,
       lp_openMenuId := None,
       lp_showConnectionContent := False,
       lp_editDraft := Some (toEditDraft line)\<rparr>"

definition closeModal :: "lines_panel \<Rightarrow> lines_panel" where
  "closeModal p =
     p\<lparr>lp_selectedLineId := None,
       lp_modalMode := None,
       lp_editDraft := None,
       lp_showConnectionContent := False\<rparr>"

fun copyLineText :: "jsstr \<Rightarrow> unit settled \<Rightarrow> lines_panel \<Rightarrow> lines_panel" where
  "copyLineText label (Resolved u) p = p\<lparr>lp_message := label @ (uni ''%u5DF2%u590D%u5236%u3002'')\<rparr>"
| "copyLineText label (Rejected e) p = p\<lparr>lp_message := label @ (uni ''%u590D%u5236%u5931%u8D25%uFF0C%u8BF7%u624B%u52A8%u9009%u62E9%u3002'')\<rparr>"

definition override_of :: "customer_line \<Rightarrow> edit_draft \<Rightarrow> line_override" where
  "override_of line draft =
     \<lparr>ov_name = Some (or_str (trim (ed_name draft)) (cl_name line)),
      ov_customer = Some (ed_customer draft),
      ov_platform = Some (ed_platform draft),
      ov_kind = Some (ed_kind draft),
      ov_kindLabel = Some (kind_label (ed_kind draft)),
      ov_mode = Some (ed_mode draft),
      ov_purpose = Some (ed_purpose draft),
      ov_note = Some (ed_note draft)\<rparr>"

definition saveEditDemo :: "(jsstr \<Rightarrow> jsstr \<Rightarrow> int) \<Rightarrow> lines_panel \<Rightarrow> lines_panel" where
  "saveEditDemo collate p =
     (case (selectedLine collate p, lp_editDraft p) of
        (Some line, Some draft) \<Rightarrow>
          closeModal (p\<lparr>lp_lineOverrides := (lp_lineOverrides p)(cl_id line \<mapsto> override_of line draft),
                        lp_message := (uni ''%u7EBF%u8DEF%u663E%u793A%u4FE1%u606F%u5DF2%u4FDD%u5B58%uFF08%u524D%u7AEF%u6F14%u793A%uFF0C%u4E0D%u4F1A%u4FEE%u6539%u6570%u636E%u5E93%uFF09%u3002'')\<rparr>)
      | _ \<Rightarrow> p)"

definition demoAction :: "jsstr \<Rightarrow> lines_panel \<Rightarrow> lines_panel" where
  "demoAction label p =
     p\<lparr>lp_openMenuId := None,
       lp_message := label @ (uni ''%u4E3A%u524D%u7AEF%u6F14%u793A%u64CD%u4F5C%uFF0C%u4E0D%u4F1A%u89E6%u53D1%u771F%u5B9E%u521B%u5EFA%u3001%u5220%u9664%u6216%u8FDC%u7A0B%u4EFB%u52A1%u3002'')\<rparr>"

text \<open>The inline handlers of the row menu and the modals.\<close>

definition toggleMenu :: "customer_line \<Rightarrow> lines_panel \<Rightarrow> lines_panel" where
  "toggleMenu line p =
     p\<lparr>lp_openMenuId := (if lp_openMenuId p = Some (cl_id line) then None else Some (cl_id line))\<rparr>"

definition toggleReveal :: "lines_panel \<Rightarrow> lines_panel" where
  "toggleReveal p = p\<lparr>lp_showConnectionContent := \<not> lp_showConnectionContent p\<rparr>"

definition restoreDraft :: "(jsstr \<Rightarrow> jsstr \<Rightarrow> int) \<Rightarrow> lines_panel \<Rightarrow> lines_panel" where
  "restoreDraft collate p =
     (case selectedLine collate p of None \<Rightarrow> p
      | Some line \<Rightarrow> p\<lparr>lp_editDraft := Some (toEditDraft line)\<rparr>)"

subsection \<open>The panel as a state machine\<close>

text \<open>
  Which handler can run is what the page renders: row actions exist for the filtered lines, menu
  actions for the line whose menu is open, modal actions for the modal that is shown.
\<close>

inductive lines_step :: "(jsstr \<Rightarrow> jsstr \<Rightarrow> int) \<Rightarrow> lines_panel \<Rightarrow> lines_panel \<Rightarrow> bool" for collate where
  loaded: "lines_step collate p (loadLines_done a b c p)"
| filter_health: "lines_step collate p (p\<lparr>lp_activeFilter := h\<rparr>)"
| filter_text: "lines_step collate p (p\<lparr>lp_search := t\<rparr>)"
| filter_customer: "lines_step collate p (p\<lparr>lp_customerFilter := t\<rparr>)"
| filter_platform: "lines_step collate p (p\<lparr>lp_platformFilter := t\<rparr>)"
| open_detail: "line \<in> set (filteredLines collate p) \<Longrightarrow> lines_step collate p (openModal line DetailModal p)"
| menu: "line \<in> set (filteredLines collate p) \<Longrightarrow> lines_step collate p (toggleMenu line p)"
| open_menu_item:
    "line \<in> set (filteredLines collate p) \<Longrightarrow> lp_openMenuId p = Some (cl_id line) \<Longrightarrow>
     mode \<in> {EditModal, ClientModal, MonitorModal} \<Longrightarrow> lines_step collate p (openModal line mode p)"
| demo: "lines_step collate p (demoAction label p)"
| close: "lp_modalMode p = Some m \<Longrightarrow> selectedLine collate p \<noteq> None \<Longrightarrow> lines_step collate p (closeModal p)"
| detail_to_edit:
    "lp_modalMode p = Some DetailModal \<Longrightarrow> selectedLine collate p \<noteq> None \<Longrightarrow>
     lines_step collate p (p\<lparr>lp_modalMode := Some EditModal\<rparr>)"
| detail_to_client:
    "lp_modalMode p = Some DetailModal \<Longrightarrow> selectedLine collate p \<noteq> None \<Longrightarrow>
     lines_step collate p (p\<lparr>lp_modalMode := Some ClientModal\<rparr>)"
| monitor_to_detail:
    "lp_modalMode p = Some MonitorModal \<Longrightarrow> selectedLine collate p \<noteq> None \<Longrightarrow>
     lines_step collate p (p\<lparr>lp_modalMode := Some DetailModal\<rparr>)"
| change_draft:
    "lp_modalMode p = Some EditModal \<Longrightarrow> selectedLine collate p \<noteq> None \<Longrightarrow> lp_editDraft p \<noteq> None \<Longrightarrow>
     lines_step collate p (p\<lparr>lp_editDraft := Some d\<rparr>)"
| restore:
    "lp_modalMode p = Some EditModal \<Longrightarrow> lp_editDraft p \<noteq> None \<Longrightarrow> lines_step collate p (restoreDraft collate p)"
| save:
    "lp_modalMode p = Some EditModal \<Longrightarrow> lines_step collate p (saveEditDemo collate p)"
| reveal:
    "lp_modalMode p = Some ClientModal \<Longrightarrow> selectedLine collate p \<noteq> None \<Longrightarrow>
     lines_step collate p (toggleReveal p)"
| copy: "lines_step collate p (copyLineText label r p)"

inductive lines_reachable :: "(jsstr \<Rightarrow> jsstr \<Rightarrow> int) \<Rightarrow> lines_panel \<Rightarrow> bool" for collate where
  initial: "lines_reachable collate lines_panel_initial"
| step: "lines_reachable collate p \<Longrightarrow> lines_step collate p q \<Longrightarrow> lines_reachable collate q"

definition modal_consistent :: "lines_panel \<Rightarrow> bool" where
  "modal_consistent p \<longleftrightarrow>
     (lp_modalMode p = None \<longleftrightarrow> lp_selectedLineId p = None)
     \<and> (lp_modalMode p = None \<longleftrightarrow> lp_editDraft p = None)
     \<and> (lp_showConnectionContent p \<longrightarrow> lp_modalMode p = Some ClientModal)"

lemmas lines_handler_defs =
  openModal_def closeModal_def saveEditDemo_def demoAction_def toggleMenu_def toggleReveal_def
  restoreDraft_def

lemma copyLineText_keeps [simp]:
  "lp_modalMode (copyLineText label r p) = lp_modalMode p"
  "lp_selectedLineId (copyLineText label r p) = lp_selectedLineId p"
  "lp_editDraft (copyLineText label r p) = lp_editDraft p"
  "lp_showConnectionContent (copyLineText label r p) = lp_showConnectionContent p"
  by (cases r; simp)+

lemma loadLines_keeps [simp]:
  "lp_modalMode (loadLines_done a b c p) = lp_modalMode p"
  "lp_selectedLineId (loadLines_done a b c p) = lp_selectedLineId p"
  "lp_editDraft (loadLines_done a b c p) = lp_editDraft p"
  "lp_showConnectionContent (loadLines_done a b c p) = lp_showConnectionContent p"
  by (cases "(a, b, c, p)" rule: loadLines_done.cases; simp)+

lemma lines_step_consistent:
  "lines_step collate p q \<Longrightarrow> modal_consistent p \<Longrightarrow> modal_consistent q"
  by (induction rule: lines_step.induct)
    (auto simp: modal_consistent_def lines_handler_defs split: option.splits)

lemma lines_reachable_consistent: "lines_reachable collate p \<Longrightarrow> modal_consistent p"
proof (induction rule: lines_reachable.induct)
  case initial
  show ?case by (simp add: modal_consistent_def lines_panel_initial_def)
qed (rule lines_step_consistent)

subsection \<open>Sorting\<close>

text \<open>What a collation guarantees: it is a total preorder, with the sign turned on exchange.\<close>

definition collation :: "('a \<Rightarrow> 'a \<Rightarrow> int) \<Rightarrow> bool" where
  "collation cmp \<longleftrightarrow>
     (\<forall>a b. cmp a b < 0 \<longleftrightarrow> 0 < cmp b a)
     \<and> (\<forall>a b c. cmp a b \<le> 0 \<longrightarrow> cmp b c \<le> 0 \<longrightarrow> cmp a c \<le> 0)"

lemma set_insert_by [simp]: "set (insert_by cmp x ys) = insert x (set ys)"
  by (induction ys) auto

lemma mset_insert_by [simp]: "mset (insert_by cmp x ys) = add_mset x (mset ys)"
  by (induction ys) auto

lemma mset_sort_by [simp]: "mset (sort_by cmp xs) = mset xs"
  by (induction xs) (simp_all add: sort_by_def)

lemma set_sort_by [simp]: "set (sort_by cmp xs) = set xs"
  using mset_sort_by [of cmp xs] by (metis set_mset_mset)

lemma sorted_insert_by:
  assumes "collation cmp" and "sorted_wrt (\<lambda>a b. cmp a b \<le> 0) ys"
  shows "sorted_wrt (\<lambda>a b. cmp a b \<le> 0) (insert_by cmp x ys)"
  using assms(2)
proof (induction ys)
  case (Cons y ys)
  have t: "cmp a c \<le> 0" if "cmp a b \<le> 0" "cmp b c \<le> 0" for a b c
    using assms(1) that unfolding collation_def by blast
  have "cmp y x \<le> 0" if "\<not> cmp x y \<le> 0"
    using assms(1) that unfolding collation_def by (meson not_less order.asym order.strict_implies_order)
  with Cons t show ?case by auto
qed simp

lemma sorted_sort_by: "collation cmp \<Longrightarrow> sorted_wrt (\<lambda>a b. cmp a b \<le> 0) (sort_by cmp xs)"
  by (induction xs) (simp_all add: sort_by_def sorted_insert_by)

lemma stable_insert_by:
  assumes "collation cmp"
  shows "List.filter (\<lambda>y. cmp y z = 0) (insert_by cmp x ys) = List.filter (\<lambda>y. cmp y z = 0) (x # ys)"
proof (induction ys)
  case (Cons y ys)
  have "cmp x y \<le> 0" if "cmp x z = 0" "cmp y z = 0"
  proof -
    have "cmp z y \<le> 0"
      using assms that(2) unfolding collation_def by (metis less_irrefl not_less)
    moreover have "cmp x z \<le> 0" using that(1) by simp
    ultimately show ?thesis using assms unfolding collation_def by blast
  qed
  with Cons show ?case by auto
qed simp

lemma stable_sort_by:
  "collation cmp \<Longrightarrow> List.filter (\<lambda>y. cmp y z = 0) (sort_by cmp xs) = List.filter (\<lambda>y. cmp y z = 0) xs"
  by (induction xs) (simp_all add: sort_by_def stable_insert_by)

lemma line_order_collation:
  assumes "collation collate" shows "collation (line_order collate)"
proof -
  have s: "collate a b < 0 \<longleftrightarrow> 0 < collate b a" for a b
    using assms unfolding collation_def by blast
  have t: "collate a b \<le> 0 \<Longrightarrow> collate b c \<le> 0 \<Longrightarrow> collate a c \<le> 0" for a b c
    using assms unfolding collation_def by blast
  have z: "collate a b = 0 \<longleftrightarrow> collate b a = 0" for a b
    using s [of a b] s [of b a] by linarith
  have "line_order collate a b < 0 \<longleftrightarrow> 0 < line_order collate b a" for a b
    using s z by (auto simp: line_order_def Let_def)
  moreover have "line_order collate a c \<le> 0"
    if "line_order collate a b \<le> 0" "line_order collate b c \<le> 0" for a b c
  proof -
    let ?k = cl_customer
    have ab: "collate (?k a) (?k b) \<le> 0" and bc: "collate (?k b) (?k c) \<le> 0"
      using that by (auto simp: line_order_def Let_def split: if_splits)
    have ac: "collate (?k a) (?k c) \<le> 0" using t ab bc by blast
    show ?thesis
    proof (cases "collate (?k a) (?k c) = 0")
      case False
      with ac show ?thesis by (simp add: line_order_def Let_def)
    next
      case True
      then have ca: "collate (?k c) (?k a) \<le> 0" using z by (metis order_refl)
      have "collate (?k b) (?k a) \<le> 0" using t bc ca by blast
      then have "collate (?k a) (?k b) = 0" using ab s [of "?k a" "?k b"] by linarith
      moreover have "collate (?k c) (?k b) \<le> 0" using t ca ab by blast
      then have "collate (?k b) (?k c) = 0" using bc s [of "?k b" "?k c"] by linarith
      ultimately show ?thesis
        using that True t by (auto simp: line_order_def Let_def)
    qed
  qed
  ultimately show ?thesis unfolding collation_def by blast
qed

subsection \<open>Properties\<close>

definition mergedLines :: "lines_panel \<Rightarrow> customer_line list" where
  "mergedLines p = map (\<lambda>line. mergeLineOverride line (lp_lineOverrides p (cl_id line))) (baseLines p)"

lemma customerLines_merged: "customerLines collate p = sort_by (line_order collate) (mergedLines p)"
  by (simp add: customerLines_def mergedLines_def)


text \<open>A collation for the samples: by length.\<close>

definition by_length :: "jsstr \<Rightarrow> jsstr \<Rightarrow> int" where
  "by_length a b = int (length a) - int (length b)"

lemma collation_by_length: "collation by_length"
  by (auto simp: collation_def by_length_def)


lemma mergeLineOverride_keeps [simp]:
  "cl_id (mergeLineOverride line ov) = cl_id line"
  "cl_source (mergeLineOverride line ov) = cl_source line"
  "cl_health (mergeLineOverride line ov) = cl_health line"
  by (simp_all add: mergeLineOverride_def Let_def split: option.split)

text \<open>The line with the fields of a saved draft; name, when blank, is that of the edited line.\<close>

definition with_draft :: "customer_line \<Rightarrow> edit_draft \<Rightarrow> customer_line \<Rightarrow> customer_line" where
  "with_draft edited d line =
     (if cl_id line \<noteq> cl_id edited then line
      else line\<lparr>cl_name := or_str (trim (ed_name d)) (cl_name edited),
                cl_customer := ed_customer d, cl_platform := ed_platform d, cl_kind := ed_kind d,
                cl_kindLabel := kind_label (ed_kind d), cl_mode := ed_mode d,
                cl_purpose := ed_purpose d, cl_note := ed_note d\<rparr>)"

lemma merge_override_of:
  "mergeLineOverride line (if cl_id line = cl_id edited then Some (override_of edited d) else ov)
     = with_draft edited d (mergeLineOverride line ov)"
  by (simp add: mergeLineOverride_def override_of_def with_draft_def Let_def nullish_def split: option.split)

lemma selectedLine_mem: "selectedLine collate p = Some line \<Longrightarrow> line \<in> set (customerLines collate p)"
  by (auto simp: selectedLine_def split: option.splits if_splits dest: find_opt_SomeD)

text \<open>
  Saving an edit changes exactly the lines with the edited id, in exactly the seven
  fields of the form and the label of the kind; health, address and source stay what the live
  data says, a blank name keeps the old one, and the modal closes.
\<close>

theorem saved_edit_is_shown:
  assumes "selectedLine collate p = Some line" and "lp_editDraft p = Some d"
  shows "mset (customerLines collate (saveEditDemo collate p))
           = image_mset (with_draft line d) (mset (customerLines collate p))
    \<and> lp_modalMode (saveEditDemo collate p) = None"
proof -
  let ?q = "saveEditDemo collate p"
  have b: "baseLines ?q = baseLines p" and
    o: "lp_lineOverrides ?q = (lp_lineOverrides p)(cl_id line \<mapsto> override_of line d)" and
    m: "lp_modalMode ?q = None"
    using assms by (simp_all add: saveEditDemo_def closeModal_def baseLines_def liveLines_def)
  have "mergeLineOverride l (lp_lineOverrides ?q (cl_id l))
      = with_draft line d (mergeLineOverride l (lp_lineOverrides p (cl_id l)))" for l
    using merge_override_of [of l line d "lp_lineOverrides p (cl_id l)"] by (simp add: o)
  then have "mergedLines ?q = map (with_draft line d) (mergedLines p)"
    by (simp add: mergedLines_def b)
  with m show ?thesis by (simp add: customerLines_merged)
qed

lemma health_of_active [simp]:
  "healthFromStatus (js ''active'') hasConfig = (if hasConfig then NormalHealth else RiskHealth)"
  by (simp add: healthFromStatus_def)

lemma lineFromNode_origin [simp]:
  "cl_source (lineFromNode node) = SourceNode" "cl_id (lineFromNode node) = (js ''node-'') @ nd_id node"
  "nd_status node = (js ''active'') \<Longrightarrow> cl_health (lineFromNode node) \<noteq> AbnormalHealth"
  by (simp_all add: lineFromNode_def Let_def)

lemma lineFromRoute_origin [simp]:
  "cl_source (lineFromRoute route r) = SourceRoute" "cl_id (lineFromRoute route r) = (js ''route-'') @ rt_id route"
  "rt_status route = (js ''active'') \<Longrightarrow> cl_health (lineFromRoute route r) = NormalHealth"
  by (simp_all add: lineFromRoute_def Let_def)

lemma liveLines_health:
  "line \<in> set (liveLines p) \<Longrightarrow>
   cl_health line \<noteq> AbnormalHealth \<and> (cl_source line = SourceRoute \<longrightarrow> cl_health line = NormalHealth)
   \<and> cl_source line \<noteq> SourceDemo"
  by (auto simp: liveLines_def)

lemma customerLines_origin:
  "line \<in> set (customerLines collate p) \<Longrightarrow>
   \<exists>base \<in> set (baseLines p). cl_id line = cl_id base \<and> cl_source line = cl_source base
      \<and> cl_health line = cl_health base"
  unfolding customerLines_merged by (auto simp: mergedLines_def)

text \<open>
  Only active nodes and routes become lines, so with live data
  the abnormal counter is always 0 and no transit route is ever at risk: of all the lines the
  panel can show only the built-in demonstration lines reach the abnormal tab.
\<close>

theorem live_lines_are_never_abnormal:
  assumes "liveLines p \<noteq> []"
  shows "health_count collate AbnormalHealth p = 0
    \<and> (\<forall>line \<in> set (customerLines collate p). cl_source line = SourceRoute \<longrightarrow> cl_health line = NormalHealth)"
proof -
  have "cl_health line \<noteq> AbnormalHealth \<and> (cl_source line = SourceRoute \<longrightarrow> cl_health line = NormalHealth)"
    if line: "line \<in> set (customerLines collate p)" for line
    using customerLines_origin [OF line] assms liveLines_health unfolding baseLines_def by fastforce
  then show ?thesis by (simp add: health_count_def filter_empty_conv)
qed

definition sample_route :: transit_route_data where
  "sample_route =
     \<lparr>rt_id = (js ''1''), rt_name = (uni ''%u5BA2%u6237B-TikTok%u5907%u7528''), rt_transit_resource_id = (js ''r''), rt_transit_resource_name = None,
      rt_node_id = (js ''n''), rt_node_name = None, rt_landing_vps_id = None, rt_landing_vps_ip = None,
      rt_listen_port = 8443, rt_target_host = (js ''10.0.0.2''), rt_target_port = 443,
      rt_forwarding_method = (js ''haproxy_tcp''), rt_service_name = [], rt_service_path = [],
      rt_status = (js ''active''), rt_share_link = None, rt_created_at = None, rt_updated_at = None,
      rt_deleted_at = None\<rparr>"

definition sample_lines_panel :: lines_panel where
  "sample_lines_panel = lines_panel_initial\<lparr>lp_routes := [sample_route]\<rparr>"

lemma sample_live: "liveLines sample_lines_panel = [lineFromRoute sample_route None]"
  by (simp add: liveLines_def sample_lines_panel_def lines_panel_initial_def sample_route_def find_opt_def)

theorem live_lines_are_never_abnormal_witness:
  "health_count by_length AbnormalHealth sample_lines_panel = 0"
  using live_lines_are_never_abnormal [of sample_lines_panel by_length] by (simp add: sample_live)

text \<open>
  When the lines cannot be read, what the panel lists as
  the operator's customer lines is the five demonstration lines, one of them abnormal, next to the
  message that some data could not be read.
\<close>

theorem failed_load_shows_demo_lines:
  "let p = loadLines_done (Resolved (ApiFailure c m d)) (Resolved (ApiFailure c' m' d'))
             (Resolved (ApiFailure c'' m'' d'')) lines_panel_initial
   in lp_message p = (uni ''%u90E8%u5206%u5BA2%u6237%u7EBF%u8DEF%u6570%u636E%u6682%u65F6%u65E0%u6CD5%u8BFB%u53D6%u3002'')
      \<and> mset (customerLines collate p) = mset defaultDemoLines
      \<and> health_count collate AbnormalHealth p = 1"
proof -
  let ?p = "loadLines_done (Resolved (ApiFailure c m d)) (Resolved (ApiFailure c' m' d'))
             (Resolved (ApiFailure c'' m'' d'')) lines_panel_initial"
  have "mergedLines ?p = defaultDemoLines"
    by (simp add: mergedLines_def lines_panel_initial_def mergeLineOverride_def baseLines_def
        liveLines_def)
  then have m: "mset (customerLines collate ?p) = mset defaultDemoLines"
    by (simp add: customerLines_merged)
  have "health_count collate AbnormalHealth ?p
      = size (filter_mset (\<lambda>l. cl_health l = AbnormalHealth) (mset (customerLines collate ?p)))"
    unfolding health_count_def mset_filter [symmetric] size_mset ..
  also have "\<dots> = length (List.filter (\<lambda>l. cl_health l = AbnormalHealth) defaultDemoLines)"
    unfolding m mset_filter [symmetric] size_mset ..
  also have "\<dots> = 1" by (simp add: defaultDemoLines_def)
  finally show ?thesis using m by (simp add: Let_def)
qed

lemma distinct_live:
  assumes "distinct (map nd_id (lp_nodes p))" and "distinct (map rt_id (lp_routes p))"
  shows "distinct (map cl_id (liveLines p))"
proof -
  have f: "inj_on g (set (List.filter P xs))" if "distinct (map g xs)" for g :: "'a \<Rightarrow> jsstr" and P xs
    using that by (auto simp: distinct_map intro: inj_on_subset)
  have "(js ''node-'') @ x \<noteq> (js ''route-'') @ y" "(js ''route-'') @ y \<noteq> (js ''node-'') @ x" for x y
    by (simp_all add: js_def)
  with assms f [OF assms(1)] f [OF assms(2)] show ?thesis
    by (auto simp: liveLines_def distinct_map inj_on_def comp_def dest: distinct_filter)
qed

text \<open>
  When the backend's ids are distinct, so are the ids of the listed lines: the
  prefix keeps a node and a route with the same id apart, and an edit cannot make two lines
  collide, so the row that is opened is the row that was clicked.
\<close>

theorem line_ids_are_unique:
  assumes "distinct (map nd_id (lp_nodes p))" and "distinct (map rt_id (lp_routes p))"
    and "line \<in> set (customerLines collate p)" and "cl_id line \<noteq> []"
  shows "distinct (map cl_id (customerLines collate p))
    \<and> selectedLine collate (openModal line mode p) = Some line"
proof -
  have "distinct (map cl_id (baseLines p))"
    using distinct_live [OF assms(1,2)] by (simp add: baseLines_def) (simp add: defaultDemoLines_def)
  then have "distinct (map cl_id (mergedLines p))"
    by (simp add: mergedLines_def comp_def)
  then have d: "distinct (map cl_id (customerLines collate p))"
    unfolding customerLines_merged by (metis mset_eq_imp_distinct_iff mset_map mset_sort_by)
  have c: "customerLines collate (openModal line mode p) = customerLines collate p"
    by (simp add: customerLines_def openModal_def baseLines_def liveLines_def)
  obtain l where l: "find_opt (\<lambda>x. cl_id x = cl_id line) (customerLines collate p) = Some l"
    using assms(3) find_opt_None_iff [of "\<lambda>x. cl_id x = cl_id line" "customerLines collate p"] by fastforce
  then have "l \<in> set (customerLines collate p)" "cl_id l = cl_id line"
    by (auto dest: find_opt_SomeD)
  with d assms(3) have "l = line" by (auto simp: distinct_map inj_on_def)
  with l c assms(4) d show ?thesis by (simp add: selectedLine_def openModal_def)
qed

lemma sample_line_listed:
  "lineFromRoute sample_route None \<in> set (customerLines by_length sample_lines_panel)"
  unfolding customerLines_merged
  by (simp add: mergedLines_def baseLines_def sample_live)
    (simp add: sample_lines_panel_def lines_panel_initial_def mergeLineOverride_def)

theorem line_ids_are_unique_witness:
  "selectedLine by_length (openModal (lineFromRoute sample_route None) EditModal sample_lines_panel)
     = Some (lineFromRoute sample_route None)"
proof -
  have "distinct (map nd_id (lp_nodes sample_lines_panel))"
    and "distinct (map rt_id (lp_routes sample_lines_panel))"
    by (simp_all add: sample_lines_panel_def lines_panel_initial_def)
  then show ?thesis
    using line_ids_are_unique [OF _ _ sample_line_listed, of EditModal] by simp
qed

theorem saved_edit_is_shown_witness:
  "lp_modalMode (saveEditDemo by_length
     ((openModal (lineFromRoute sample_route None) EditModal sample_lines_panel))) = None"
proof -
  let ?p = "openModal (lineFromRoute sample_route None) EditModal sample_lines_panel"
  have "customerLines by_length ?p = [lineFromRoute sample_route None]"
    unfolding customerLines_def baseLines_def
    by (simp add: openModal_def sample_lines_panel_def lines_panel_initial_def sample_route_def
        liveLines_def sort_by_def mergeLineOverride_def find_opt_def)
  then have "selectedLine by_length ?p = Some (lineFromRoute sample_route None)"
    by (simp add: selectedLine_def) (simp add: openModal_def find_opt_def js_def)
  moreover have "lp_editDraft ?p = Some (toEditDraft (lineFromRoute sample_route None))"
    by (simp add: openModal_def)
  ultimately show ?thesis using saved_edit_is_shown by blast
qed

text \<open>
  In every state the panel can reach, the connection text is only
  revealed while the client modal is open, and no modal is open without a selected line and a
  draft for it.
\<close>

theorem revealed_connection_is_confined:
  assumes "lines_reachable collate p"
  shows "(lp_showConnectionContent p \<longrightarrow> lp_modalMode p = Some ClientModal)
    \<and> (lp_modalMode p = None \<longleftrightarrow> lp_selectedLineId p = None)
    \<and> (lp_modalMode p = None \<longleftrightarrow> lp_editDraft p = None)"
  using lines_reachable_consistent [OF assms] unfolding modal_consistent_def by blast

lemma initial_lists_demo:
  "set (filteredLines collate lines_panel_initial) = set defaultDemoLines"
proof -
  have m: "mergedLines lines_panel_initial = defaultDemoLines"
    by (simp add: mergedLines_def lines_panel_initial_def mergeLineOverride_def baseLines_def
        liveLines_def)
  have "line_matches lines_panel_initial line" for line
    by (simp add: line_matches_def lines_panel_initial_def Let_def trim_def trim_start_def)
  then show ?thesis by (simp add: filteredLines_def customerLines_merged m)
qed

theorem revealed_connection_is_confined_witness:
  "\<exists>p. lines_reachable by_length p \<and> lp_showConnectionContent p \<and> lp_modalMode p = Some ClientModal"
proof -
  let ?c = by_length
  obtain line where line: "line \<in> set (filteredLines ?c lines_panel_initial)" "cl_id line \<noteq> []"
    unfolding initial_lists_demo
    using that [of "hd defaultDemoLines"] by (simp add: initial_lists_demo defaultDemoLines_def)
  let ?p1 = "openModal line DetailModal lines_panel_initial"
  let ?p2 = "?p1\<lparr>lp_modalMode := Some ClientModal\<rparr>"
  let ?p3 = "toggleReveal ?p2"
  have c: "customerLines ?c ?p1 = customerLines ?c lines_panel_initial" "customerLines ?c ?p2 = customerLines ?c lines_panel_initial"
    by (simp_all add: customerLines_def openModal_def baseLines_def liveLines_def)
  have "line \<in> set (customerLines ?c lines_panel_initial)"
    using line(1) by (simp add: filteredLines_def)
  then have "find_opt (\<lambda>l. cl_id l = cl_id line) (customerLines ?c lines_panel_initial) \<noteq> None"
    by (auto simp: find_opt_None_iff)
  then have sel: "selectedLine ?c ?p1 \<noteq> None" "selectedLine ?c ?p2 \<noteq> None"
    using line(2) c by (simp_all add: selectedLine_def) (simp_all add: openModal_def)
  have "lines_reachable ?c ?p1"
    using lines_step.open_detail [OF line(1)] lines_reachable.intros by blast
  moreover have "lines_step ?c ?p1 ?p2"
    using sel(1) by (intro lines_step.detail_to_client) (simp_all add: openModal_def)
  moreover have "lines_step ?c ?p2 ?p3"
    using sel(2) by (intro lines_step.reveal) simp_all
  ultimately have r: "lines_reachable ?c ?p3" using lines_reachable.step by blast
  have "lp_showConnectionContent ?p3" by (simp add: toggleReveal_def openModal_def)
  then show ?thesis using r revealed_connection_is_confined [OF r] by blast
qed

end
