(* ===== verification/ReadonlyPreflight.thy ===== *)
theory ReadonlyPreflight
  imports ApiTypes
begin

text \<open>
  \<^verbatim>\<open>TransitReadonlyPreflightSimplePanel\<close>: how the result of a remote read-only preflight
  command is judged, summarised and turned into advice. The panel has no state; its functions read
  the unvalidated \<^verbatim>\<open>result_json\<close> of the command.
\<close>

subsection \<open>Reading the result\<close>

definition workerCommandStatusLabel :: "jsstr \<Rightarrow> jsstr" where
  "workerCommandStatusLabel status =
     (case map_of [((js ''pending''), (uni ''%u7B49%u5F85%u4E2D'')), ((js ''claimed''), (uni ''%u5DF2%u9886%u53D6'')), ((js ''running''), (uni ''%u6267%u884C%u4E2D'')), ((js ''succeeded''), (uni ''%u6210%u529F'')),
                   ((js ''failed''), (uni ''%u5931%u8D25'')), ((js ''expired''), (uni ''%u5DF2%u8FC7%u671F'')), ((js ''cancelled''), (uni ''%u5DF2%u53D6%u6D88''))] status of
        None \<Rightarrow> status | Some label \<Rightarrow> label)"

definition objectValue :: "jsval \<Rightarrow> jsval option" where
  "objectValue v = (if is_obj v then Some v else None)"

text \<open>\<^verbatim>\<open>record?.[key]\<close>\<close>

definition member_of :: "jsval option \<Rightarrow> jsstr \<Rightarrow> jsval" where
  "member_of record key = (case record of None \<Rightarrow> JUndef | Some v \<Rightarrow> field v key)"

definition stringValue :: "jsval option \<Rightarrow> jsstr \<Rightarrow> jsstr" where
  "stringValue record key =
     (case member_of record key of JStr s \<Rightarrow> if s \<noteq> [] then s else (js ''-'') | _ \<Rightarrow> (js ''-''))"

definition booleanLabel :: "bool \<Rightarrow> jsstr" where
  "booleanLabel v = (if v then (uni ''%u662F'') else (uni ''%u5426''))"

definition in_progress :: "jsstr list" where
  "in_progress = [(js ''pending''), (js ''claimed''), (js ''running'')]"

definition unsuccessful :: "jsstr list" where
  "unsuccessful = [(js ''failed''), (js ''expired''), (js ''cancelled'')]"

lemmas status_lists = in_progress_def unsuccessful_def

record overall_state =
  os_className :: jsstr
  os_label :: jsstr
  os_description :: jsstr

definition preflightOverallState :: "worker_command_data option \<Rightarrow> overall_state" where
  "preflightOverallState command =
     (case command of
        None \<Rightarrow> \<lparr>os_className = (js ''muted''), os_label = (uni ''%u672A%u5F00%u59CB''),
                  os_description = (uni ''%u5C1A%u672A%u521B%u5EFA%u8FDC%u7A0B%u53EA%u8BFB%u9884%u68C0%u547D%u4EE4%u3002'')\<rparr>
      | Some c \<Rightarrow>
          if wc_status c \<in> set in_progress then
            \<lparr>os_className = (js ''warn''), os_label = (uni ''%u8FD0%u884C%u4E2D''),
             os_description = (uni ''Worker command %u5DF2%u521B%u5EFA%uFF0C%u7B49%u5F85%u56FA%u5B9A%u53EA%u8BFB%u68C0%u67E5%u8FD4%u56DE%u7ED3%u679C%u3002'')\<rparr>
          else if wc_status c \<in> set unsuccessful then
            \<lparr>os_className = (js ''bad''), os_label = (uni ''%u5931%u8D25''),
             os_description = (uni ''Worker command %u672A%u6210%u529F%u5B8C%u6210%uFF0C%u8BF7%u5148%u67E5%u770B%u9519%u8BEF%u6458%u8981%uFF0C%u4E0D%u8981%u8FDB%u5165%u771F%u5B9E%u521B%u5EFA%u3002'')\<rparr>
          else
            let result = objectValue (wc_result_json c)
            in if wc_status c = (js ''succeeded'') \<and> member_of result (js ''passed'') = JBool True then
                 \<lparr>os_className = (js ''ok''), os_label = (uni ''%u901A%u8FC7''),
                  os_description = (uni ''%u56FA%u5B9A%u53EA%u8BFB%u68C0%u67E5%u5DF2%u901A%u8FC7%uFF1B%u8FD9%u4ECD%u4E0D%u4EE3%u8868%u53EF%u4EE5%u521B%u5EFA%u771F%u5B9E%u8F6C%u53D1%u3002'')\<rparr>
               else if wc_status c = (js ''succeeded'') then
                 \<lparr>os_className = (js ''warn''), os_label = (uni ''%u9700%u8981%u4EBA%u5DE5%u5904%u7406''),
                  os_description = (uni ''%u53EA%u8BFB%u68C0%u67E5%u5DF2%u5B8C%u6210%uFF0C%u4F46%u5B58%u5728%u672A%u901A%u8FC7%u9879%uFF0C%u9700%u8981%u5148%u5904%u7406%u6216%u91CD%u65B0%u89C4%u5212%u3002'')\<rparr>
               else
                 \<lparr>os_className = (js ''warn''), os_label = workerCommandStatusLabel (wc_status c),
                  os_description = (uni ''%u547D%u4EE4%u72B6%u6001%u5C1A%u672A%u5F52%u7C7B%uFF0C%u8BF7%u5237%u65B0%u6216%u67E5%u770B%u4EFB%u52A1%u8BE6%u60C5%u3002'')\<rparr>)"

definition commandPillClass :: "worker_command_data option \<Rightarrow> bool \<Rightarrow> jsstr" where
  "commandPillClass command ready =
     (case command of
        None \<Rightarrow> (if ready then (js ''ok'') else (js ''bad''))
      | Some c \<Rightarrow>
          if wc_status c = (js ''succeeded'') then (js ''ok'')
          else if wc_status c = (js ''failed'') then (js ''bad'')
          else if ready then (js ''ok'') else (js ''bad''))"

record check_view =
  cv_id :: jsstr
  cv_label :: jsstr
  cv_status :: jsstr
  cv_passed :: bool
  cv_detail :: jsstr

definition check_view_of :: "nat \<Rightarrow> jsval \<Rightarrow> check_view" where
  "check_view_of index item =
     (let check = objectValue item
      in \<lparr>cv_id = (if stringValue check (js ''id'') = (js ''-'') then (js ''check_'') @ string_of_int (int index + 1)
                    else stringValue check (js ''id'')),
          cv_label = (if stringValue check (js ''label'') = (js ''-'') then (uni ''%u68C0%u67E5%u9879 '') @ string_of_int (int index + 1)
                    else stringValue check (js ''label'')),
          cv_status = stringValue check (js ''status''),
          cv_passed = (member_of check (js ''passed'') = JBool True),
          cv_detail = stringValue check (js ''detail'')\<rparr>)"

definition checksFromCommand :: "worker_command_data option \<Rightarrow> check_view list" where
  "checksFromCommand command =
     (let result = (case command of None \<Rightarrow> None | Some c \<Rightarrow> objectValue (wc_result_json c));
          checks = (case member_of result (js ''checks'') of JArr items \<Rightarrow> items | _ \<Rightarrow> [])
      in map (\<lambda>(index, item). check_view_of index item) (enumerate 0 checks))"

definition actionForFailedCheck :: "check_view \<Rightarrow> jsstr" where
  "actionForFailedCheck check =
     (let id = to_lower (cv_id check)
      in if contains id (js ''port'') then
           (uni ''%u786E%u8BA4%u8BA1%u5212%u76D1%u542C%u7AEF%u53E3%u672A%u88AB%u5360%u7528%uFF1B%u5982%u88AB%u5360%u7528%uFF0C%u6362%u4E00%u4E2A%u65B0%u7AEF%u53E3%u5E76%u540C%u6B65%u68C0%u67E5%u4E91%u5B89%u5168%u7EC4 / %u4E91%u9632%u706B%u5899 / %u670D%u52A1%u5668%u9632%u706B%u5899%u3002'')
         else if contains id (js ''reachability'') \<or> contains id (js ''tcp'') \<or> contains id (js ''connectivity'') then
           (uni ''%u68C0%u67E5%u4E2D%u8F6C%u670D%u52A1%u5668%u5230%u843D%u5730%u8282%u70B9%u76EE%u6807%u7AEF%u53E3%u7684 TCP %u53EF%u8FBE%u6027%uFF0C%u5E76%u786E%u8BA4%u843D%u5730%u8282%u70B9%u670D%u52A1%u548C%u9632%u706B%u5899%u72B6%u6001%u3002'')
         else if contains id (js ''worker'') then
           (uni ''%u786E%u8BA4%u76EE%u6807 Worker %u5728%u7EBF%u3001%u89D2%u8272%u4E3A transit%u3001%u7248%u672C%u6EE1%u8DB3%u53EA%u8BFB%u9884%u68C0%u8981%u6C42%u3002'')
         else if contains id (js ''socat'') \<or> contains id (js ''gost'') then
           (uni ''%u67E5%u770B%u53EA%u8BFB%u72B6%u6001%u6458%u8981%uFF1B%u4E0D%u8981%u5728%u672C%u9636%u6BB5%u542F%u52A8%u3001%u505C%u6B62%u3001%u91CD%u542F%u6216%u6539%u5199 socat / gost%u3002'')
         else if contains id (js ''firewall'') then
           (uni ''%u4EBA%u5DE5%u6838%u5BF9%u4E91%u5B89%u5168%u7EC4%u3001%u4E91%u9632%u706B%u5899%u548C%u670D%u52A1%u5668%u672C%u673A%u9632%u706B%u5899%uFF0C%u786E%u8BA4%u53EA%u8BFB%u9884%u68C0%u6CA1%u6709%u53D1%u73B0%u660E%u663E%u963B%u585E%u3002'')
         else (uni ''%u4FDD%u7559%u5F53%u524D No-Go %u72B6%u6001%uFF0C%u67E5%u770B%u8131%u654F%u8BE6%u60C5%u5E76%u5904%u7406%u540E%u518D%u91CD%u65B0%u6267%u884C%u53EA%u8BFB%u9884%u68C0%u3002''))"

definition failed_checks :: "check_view list \<Rightarrow> check_view list" where
  "failed_checks checks = List.filter (\<lambda>check. \<not> cv_passed check) checks"

definition failureSummaries :: "worker_command_data option \<Rightarrow> check_view list \<Rightarrow> jsstr list" where
  "failureSummaries command checks =
     (case command of
        None \<Rightarrow> [(uni ''%u5C1A%u672A%u6267%u884C%u8FDC%u7A0B%u53EA%u8BFB%u9884%u68C0%u3002'')]
      | Some c \<Rightarrow>
          if \<not> blank (wc_error_message c) then [the (wc_error_message c)]
          else if failed_checks checks \<noteq> [] then
            map (\<lambda>check. cv_label check @ (uni ''%uFF1A'') @ cv_detail check) (failed_checks checks)
          else [(uni ''%u6682%u65E0%u5931%u8D25%u9879%u3002'')])"

definition manualActions :: "worker_command_data option \<Rightarrow> check_view list \<Rightarrow> jsstr list" where
  "manualActions command checks =
     (case command of
        None \<Rightarrow> [(uni ''%u5B8C%u6210%u672C%u5730%u8BA1%u5212%u786E%u8BA4%u540E%uFF0C%u70B9%u51FB%u201C%u6267%u884C%u8FDC%u7A0B%u53EA%u8BFB%u9884%u68C0%u201D%u3002'')]
      | Some c \<Rightarrow>
          if wc_status c \<in> set in_progress then [(uni ''%u7B49%u5F85 Worker %u8FD4%u56DE%u7ED3%u679C%uFF0C%u6216%u7A0D%u540E%u70B9%u51FB%u201C%u5237%u65B0%u7ED3%u679C%u201D%u3002'')]
          else if wc_status c \<in> set unsuccessful then
            [(uni ''%u5148%u67E5%u770B%u547D%u4EE4%u9519%u8BEF%uFF0C%u4E0D%u8981%u8FDB%u5165%u771F%u5B9E%u521B%u5EFA%uFF1B%u5FC5%u8981%u65F6%u786E%u8BA4 Worker %u5728%u7EBF%u540E%u91CD%u65B0%u6267%u884C%u53EA%u8BFB%u9884%u68C0%u3002'')]
          else if failed_checks checks \<noteq> [] then map actionForFailedCheck (failed_checks checks)
          else [(uni ''%u53EA%u8BFB%u9884%u68C0%u901A%u8FC7%u540E%u4ECD%u9700%u5355%u72EC%u8FDB%u5165%u771F%u5B9E%u521B%u5EFA%u5BA1%u6279%uFF1B%u672C%u9875%u9762%u4E0D%u4F1A%u521B%u5EFA%u771F%u5B9E%u8F6C%u53D1%u3002'')])"

text \<open>
  The texts \<^verbatim>\<open>renderRemoteCommandResult\<close> shows: its head, the rows of the detail grid (none
  without a command), the two columns, the list of checks with their pills, the redacted summary
  when there is one, and the boundary notes.
\<close>

record result_view =
  rv_state :: overall_state
  rv_details :: "(jsstr \<times> jsstr) list"
  rv_failures :: "jsstr list"
  rv_actions :: "jsstr list"
  rv_checks :: "(jsstr \<times> jsstr \<times> jsstr \<times> jsstr \<times> jsstr) list"
  rv_redacted_summary :: "jsstr option"
  rv_boundary :: "jsstr list"

definition renderRemoteCommandResult :: "worker_command_data option \<Rightarrow> result_view" where
  "renderRemoteCommandResult command =
     (let state = preflightOverallState command;
          checks = checksFromCommand command;
          failures = failureSummaries command checks;
          actions = dedup (manualActions command checks)
      in case command of
           None \<Rightarrow>
             \<lparr>rv_state = state, rv_details = [], rv_failures = failures, rv_actions = actions,
              rv_checks = [], rv_redacted_summary = None,
              rv_boundary = [(uni ''%u53EA%u8BFB%u9884%u68C0%u4E0D%u4F1A%u521B%u5EFA%u771F%u5B9E%u8F6C%u53D1%uFF0C%u4E0D%u4F1A%u65B0%u589E%u76D1%u542C%u7AEF%u53E3%uFF0C%u4E0D%u4F1A%u4FEE%u6539%u9632%u706B%u5899%u6216 nodes.share_link%u3002'')]\<rparr>
         | Some c \<Rightarrow>
             let result = objectValue (wc_result_json c);
                 redactedSummary = stringValue result (js ''redacted_summary'')
             in \<lparr>rv_state = state,
                 rv_details =
                   [((js ''Worker command''), wc_id c),
                    ((uni ''%u547D%u4EE4%u72B6%u6001''), workerCommandStatusLabel (wc_status c)),
                    ((uni ''%u76EE%u6807 Worker''), wc_target_worker_id c),
                    ((uni ''Worker %u7248%u672C''), nullish (wc_target_worker_version c) (js ''-'')),
                    ((uni ''%u7ED3%u679C%u6458%u8981''), stringValue result (js ''summary''))],
                 rv_failures = failures,
                 rv_actions = actions,
                 rv_checks =
                   map (\<lambda>check. (cv_label check, cv_id check,
                          if cv_passed check then (js ''ok'') else (js ''bad''),
                          if cv_passed check then (uni ''%u901A%u8FC7'') else (uni ''%u5931%u8D25''), cv_detail check)) checks,
                 rv_redacted_summary = (if redactedSummary \<noteq> (js ''-'') then Some redactedSummary else None),
                 rv_boundary =
                   [(uni ''%u8BE5%u7ED3%u679C%u6765%u81EA%u56FA%u5B9A allowlist %u53EA%u8BFB%u68C0%u67E5%uFF1B%u4E0D%u4F1A%u5B89%u88C5%u3001%u542F%u52A8%u3001%u505C%u6B62%u6216%u91CD%u542F socat / gost%u3002''),
                    (uni ''%u4E0D%u4F1A%u7ED1%u5B9A%u76D1%u542C%u7AEF%u53E3%uFF0C%u4E0D%u4F1A%u4FEE%u6539%u9632%u706B%u5899%u3001Xray%u3001nodes.share_link%uFF0C%u4E5F%u4E0D%u4F1A%u751F%u6210%u6216%u5C55%u793A%u771F%u5B9E%u5BA2%u6237%u7AEF%u94FE%u63A5%u3002'')]\<rparr>)"

subsection \<open>Properties\<close>

text \<open>
  The preflight is only reported as passed for a command that succeeded and whose
  result says \<^verbatim>\<open>passed: true\<close>, literally: a missing result, another type or a truthy string never
  counts; and then no failure advice is left out, since every failed check of any finished
  command appears among the failures unless an error message takes their place.
\<close>

theorem preflight_passes_iff_confirmed:
  "(os_className (preflightOverallState command) = (js ''ok'') \<longleftrightarrow>
      (\<exists>c kvs. command = Some c \<and> wc_status c = (js ''succeeded'') \<and> wc_result_json c = JObj kvs
         \<and> entry kvs (js ''passed'') = JBool True))
   \<and> (\<forall>c check. command = Some c \<and> blank (wc_error_message c)
         \<and> check \<in> set (checksFromCommand command) \<and> \<not> cv_passed check
        \<longrightarrow> cv_label check @ (uni ''%uFF1A'') @ cv_detail check \<in> set (rv_failures (renderRemoteCommandResult command)))"
proof -
  have m: "member_of (objectValue v) k = JBool b \<longleftrightarrow> (\<exists>kvs. v = JObj kvs \<and> entry kvs k = JBool b)" for v k b
    by (cases v) (simp_all add: objectValue_def member_of_def)
  have "os_className (preflightOverallState command) = (js ''ok'') \<longleftrightarrow>
      (\<exists>c kvs. command = Some c \<and> wc_status c = (js ''succeeded'') \<and> wc_result_json c = JObj kvs
         \<and> entry kvs (js ''passed'') = JBool True)"
    by (auto simp: preflightOverallState_def Let_def m status_lists split: option.split)
  moreover have "cv_label check @ (uni ''%uFF1A'') @ cv_detail check \<in> set (rv_failures (renderRemoteCommandResult command))"
    if "command = Some c" "blank (wc_error_message c)" "check \<in> set (checksFromCommand command)"
      "\<not> cv_passed check" for c check
  proof -
    have "check \<in> set (failed_checks (checksFromCommand command))"
      using that(3,4) by (simp add: failed_checks_def)
    moreover from this have "failed_checks (checksFromCommand command) \<noteq> []" by auto
    ultimately show ?thesis
      using that(1,2) by (auto simp: renderRemoteCommandResult_def Let_def failureSummaries_def)
  qed
  ultimately show ?thesis by blast
qed

definition sample_command :: "jsstr \<Rightarrow> jsval \<Rightarrow> worker_command_data" where
  "sample_command status result =
     \<lparr>wc_id = (js ''c1''), wc_worker_id = (js ''w1''), wc_target_worker_id = (js ''w1''), wc_target_worker_version = None,
      wc_server_type = None, wc_server_id = None, wc_command_type = (js ''readonly_preflight''),
      wc_status = status, wc_lease_until = None, wc_claimed_at = None, wc_completed_at = None,
      wc_result_json = result, wc_result_summary = None, wc_error_message = None, wc_attempts = 1,
      wc_created_at = None, wc_updated_at = None\<rparr>"

text \<open>A succeeded command whose only check failed.\<close>

definition sample_failed_result :: jsval where
  "sample_failed_result =
     JObj [((js ''passed''), JBool False),
           ((js ''checks''), JArr [JObj [((js ''id''), JStr (js ''port'')), ((js ''label''), JStr (js ''Port'')), ((js ''detail''), JStr (js ''in use'')),
                                  ((js ''passed''), JBool False)]])]"

theorem preflight_passes_iff_confirmed_witness:
  "os_className (preflightOverallState (Some (sample_command (js ''succeeded'') (JObj [((js ''passed''), JBool True)])))) = (js ''ok'')
   \<and> (js ''Port'') @ (uni ''%uFF1A'') @ (js ''in use'') \<in> set (rv_failures (renderRemoteCommandResult
       (Some (sample_command (js ''succeeded'') sample_failed_result))))"
proof -
  let ?ok = "Some (sample_command (js ''succeeded'') (JObj [((js ''passed''), JBool True)]))"
  let ?bad = "Some (sample_command (js ''succeeded'') sample_failed_result)"
  let ?check = "check_view_of 0 (JObj [((js ''id''), JStr (js ''port'')), ((js ''label''), JStr (js ''Port'')), ((js ''detail''), JStr (js ''in use'')),
                                  ((js ''passed''), JBool False)])"
  have c: "checksFromCommand ?bad = [?check]"
    by (simp add: checksFromCommand_def sample_command_def sample_failed_result_def objectValue_def
        member_of_def entry_def)
  have f: "cv_label ?check = (js ''Port'')" "cv_detail ?check = (js ''in use'')" "\<not> cv_passed ?check"
    by (simp_all add: check_view_of_def stringValue_def objectValue_def member_of_def entry_def)
  have "os_className (preflightOverallState ?ok) = (js ''ok'')"
    using preflight_passes_iff_confirmed [of ?ok] by (simp add: sample_command_def entry_def)
  moreover have "blank (wc_error_message (sample_command (js ''succeeded'') sample_failed_result))"
    by (simp add: sample_command_def)
  then have "cv_label ?check @ (uni ''%uFF1A'') @ cv_detail ?check \<in> set (rv_failures (renderRemoteCommandResult ?bad))"
    using preflight_passes_iff_confirmed [of ?bad] c f(3) by auto
  ultimately show ?thesis unfolding f by blast
qed

text \<open>
  The pill of the action bar looks at the status alone: it is green for a
  command that succeeded with failed checks, which the result panel reports as needing attention, and for
  an expired command, which the result panel reports as failed, when the local plan is ready.
\<close>

theorem pill_contradicts_result:
  "commandPillClass (Some (sample_command (js ''succeeded'') sample_failed_result)) ready = (js ''ok'')
   \<and> os_className (preflightOverallState (Some (sample_command (js ''succeeded'') sample_failed_result))) = (js ''warn'')
   \<and> commandPillClass (Some (sample_command (js ''expired'') JNull)) True = (js ''ok'')
   \<and> os_className (preflightOverallState (Some (sample_command (js ''expired'') JNull))) = (js ''bad'')"
  by (simp add: commandPillClass_def preflightOverallState_def sample_command_def
      sample_failed_result_def objectValue_def member_of_def entry_def status_lists Let_def)

text \<open>
  For a command that ended as expired (or failed, or cancelled) without an
  error message and without checks the result panel reports a failure and, beneath it, that nothing failed.
\<close>

theorem failure_without_reason:
  "let view = renderRemoteCommandResult (Some (sample_command (js ''expired'') JNull))
   in os_label (rv_state view) = (uni ''%u5931%u8D25'') \<and> rv_failures view = [(uni ''%u6682%u65E0%u5931%u8D25%u9879%u3002'')]"
  by (simp add: renderRemoteCommandResult_def preflightOverallState_def sample_command_def
      failureSummaries_def failed_checks_def checksFromCommand_def objectValue_def member_of_def
      status_lists Let_def)

end
