(* ===== verification/TopologyPreview.thy ===== *)
theory TopologyPreview
  imports ApiClient
begin

text \<open>
  \<^verbatim>\<open>TransitTopologyPreviewPanel\<close>: the text preview of a transit topology and the panel
  that selects its resource and node. The port field is read with \<^verbatim>\<open>Number(value)\<close>, whose
  grammar (decimals, exponents, hexadecimal) belongs to the engine: \<open>to_number\<close>, a
  parameter, returns the value when it is an integer and \<open>None\<close> otherwise.
\<close>

subsection \<open>Texts\<close>

definition resourceTypeLabels :: "(jsstr \<times> jsstr) list" where
  "resourceTypeLabels =
     [((js ''server''), (uni ''%u516C%u7F51%u4E2D%u8F6C%u670D%u52A1%u5668'')), ((js ''iepl''), (uni ''IEPL %u7EBF%u8DEF'')), ((js ''iplc''), (uni ''IPLC %u7EBF%u8DEF'')), ((js ''other''), (uni ''%u5176%u4ED6%u8D44%u6E90''))]"

definition forwardingMethodLabels :: "(jsstr \<times> jsstr) list" where
  "forwardingMethodLabels =
     [((js ''gost''), (js ''gost'')), ((js ''nginx_stream''), (js ''nginx stream'')), ((js ''socat''), (js ''socat'')),
      ((js ''xray_dokodemo''), (js ''Xray dokodemo-door'')), ((js ''manual''), (uni ''%u4EBA%u5DE5%u914D%u7F6E'')), ((js ''unknown''), (uni ''%u672A%u77E5''))]"

text \<open>\<^verbatim>\<open>labels[key] ?? key\<close>\<close>

definition label_of :: "(jsstr \<times> jsstr) list \<Rightarrow> jsstr \<Rightarrow> jsstr" where
  "label_of labels key = nullish (map_of labels key) key"

definition displayText :: "jsstr option \<Rightarrow> jsstr" where
  "displayText v = (if blank v then (js ''-'') else the v)"

definition displayNumber :: "int option \<Rightarrow> jsstr" where
  "displayNumber v = (case v of None \<Rightarrow> (js ''-'') | Some n \<Rightarrow> string_of_int n)"

type_synonym number_reader = "jsstr \<Rightarrow> int option"

definition parsePreviewPort :: "number_reader \<Rightarrow> jsstr \<Rightarrow> int option" where
  "parsePreviewPort to_number v =
     (if trim v = [] then None
      else (case to_number v of
              None \<Rightarrow> None
            | Some port \<Rightarrow> if 1 \<le> port \<and> port \<le> 65535 then Some port else None))"

definition listen_port_text :: "number_reader \<Rightarrow> jsstr \<Rightarrow> jsstr" where
  "listen_port_text to_number listenPort =
     (case parsePreviewPort to_number listenPort of
        None \<Rightarrow> (uni ''%u7AEF%u53E3%u672A%u586B%u5199%u6216%u4E0D%u5408%u6CD5'') | Some p \<Rightarrow> string_of_int p)"

definition preview_header ::
  "number_reader \<Rightarrow> transit_resource_data \<Rightarrow> node_data \<Rightarrow> jsstr \<Rightarrow> jsstr \<Rightarrow> jsstr list" where
  "preview_header to_number resource node listenPort forwardingMethod =
     [(js ''PREVIEW ONLY''),
      (js ''NOT USABLE''),
      (uni ''%u8FD9%u53EA%u662F%u6D4F%u89C8%u5668%u672C%u5730%u9884%u89C8%uFF0C%u4E0D%u662F%u4E00%u6761%u53EF%u7528%u7EBF%u8DEF%u3002''),
      (uni ''%u672A%u8FDE%u63A5%u8FDC%u7AEF''),
      (uni ''%u672A%u5199%u5165%u914D%u7F6E''),
      (uni ''%u672A%u4FDD%u5B58 route''),
      (uni ''%u672A%u751F%u6210%u771F%u5B9E%u53EF%u7528%u4E2D%u8F6C%u94FE%u63A5''),
      (uni ''%u672A%u4FEE%u6539 node.share_link''),
      (uni ''%u672A%u5B8C%u6210%u771F%u5B9E%u4E2D%u8F6C%u914D%u7F6E''),
      [],
      (uni ''%u4E2D%u8F6C%u8D44%u6E90%uFF1A'') @ tr_name resource,
      (uni ''%u8D44%u6E90%u7C7B%u578B%uFF1A'') @ label_of resourceTypeLabels (tr_resource_type resource),
      (uni ''%u5165%u53E3%uFF1A'') @ displayText (tr_entry_host resource) @ (js '':'') @ displayNumber (tr_entry_port resource),
      (uni ''%u5165%u53E3%u5730%u533A%uFF1A'') @ displayText (tr_entry_region resource),
      (uni ''%u51FA%u53E3%u5730%u533A%uFF1A'') @ displayText (tr_exit_region resource),
      (uni ''%u843D%u5730%u8282%u70B9%uFF1A'') @ nd_node_name node,
      (uni ''%u843D%u5730 VPS%uFF1A'') @ displayText (nd_vps_ip node),
      (uni ''%u843D%u5730%u8282%u70B9%u7AEF%u53E3%uFF1A'') @ displayNumber (nd_port node),
      (uni ''%u9884%u671F%u4E2D%u8F6C%u5165%u53E3%u7AEF%u53E3 / preview port%uFF1A'') @ listen_port_text to_number listenPort,
      (uni ''%u7AEF%u53E3%u8BF4%u660E%uFF1Apreview port %u53EA%u662F%u8BA1%u5212%u503C%uFF0C%u4E0D%u4EE3%u8868%u8FDC%u7AEF%u5DF2%u7ECF%u5B9E%u9645%u76D1%u542C%u3002''),
      (uni ''%u8F6C%u53D1%u65B9%u5F0F%u9884%u89C8%uFF1A'') @ label_of forwardingMethodLabels forwardingMethod,
      []]"

definition preview_lines ::
  "number_reader \<Rightarrow> transit_resource_data \<Rightarrow> node_data \<Rightarrow> jsstr \<Rightarrow> jsstr \<Rightarrow> jsstr list" where
  "preview_lines to_number resource node listenPort forwardingMethod =
     preview_header to_number resource node listenPort forwardingMethod @
     (if tr_resource_type resource = (js ''iepl'') \<or> tr_resource_type resource = (js ''iplc'') then
        [(uni ''%u7EBF%u8DEF%u9884%u89C8%uFF1Aclient -> IEPL/IPLC entry -> provider/private line -> landing VPS/node -> platform''),
         [],
         (uni ''%u914D%u7F6E%u8D23%u4EFB%u8FB9%u754C%u9884%u89C8%uFF1A''),
         (uni ''- %u4F9B%u5E94%u5546%u4FA7%uFF1A%u53EF%u80FD%u9700%u8981%u5B8C%u6210%u5165%u53E3%u5230%u51FA%u53E3%u7684%u7EBF%u8DEF%u6620%u5C04%u3002''),
         (uni ''- LiveLine Console%uFF1A%u540E%u7EED%u9636%u6BB5%u624D%u4F1A%u8003%u8651%u843D%u5730%u4FA7%u914D%u7F6E%u3002''),
         (uni ''- Stage 3.2%uFF1A%u4E0D%u9A8C%u8BC1%u7EBF%u8DEF%uFF0C%u4E0D%u8FDE%u63A5%u4F9B%u5E94%u5546%uFF0C%u4E0D%u8FDE%u63A5%u843D%u5730 VPS%uFF0C%u4E0D%u914D%u7F6E Xray%u3002''),
         [],
         (uni ''%u672A%u6765%u94FE%u63A5%u7ED3%u6784%u9884%u89C8%uFF1APREVIEW ONLY / NOT USABLE / %u4E0D%u751F%u6210%u6B63%u5F0F%u5BA2%u6237%u7AEF%u94FE%u63A5%u3002'')]
      else if tr_resource_type resource = (js ''server'') then
        [(uni ''%u516C%u7F51%u670D%u52A1%u5668%u4E2D%u8F6C%u9884%u89C8%uFF1Aclient -> transit server -> landing VPS/node -> platform''),
         [],
         (uni ''%u672A%u6765%u53EF%u80FD%u914D%u7F6E%u7684%u8F6C%u53D1%u5173%u7CFB%uFF1A''),
         (js ''- listen: 0.0.0.0:'') @ listen_port_text to_number listenPort,
         (js ''- target: '') @ nullish (nd_vps_ip node) (uni ''landing VPS IP %u672A%u77E5'') @ (js '':'')
           @ nullish (map_option string_of_int (nd_port node)) (uni ''%u8282%u70B9%u7AEF%u53E3%u672A%u77E5''),
         (js ''- method: '') @ label_of forwardingMethodLabels forwardingMethod,
         [],
         (uni ''%u6CE8%u610F%uFF1A%u672C%u9636%u6BB5%u4E0D%u5B89%u88C5 gost/nginx/socat%uFF0C%u4E0D%u914D%u7F6E Xray dokodemo-door%uFF0C%u4E0D%u5199%u9632%u706B%u5899%u6216 iptables%u3002''),
         (uni ''%u672A%u6765%u94FE%u63A5%u7ED3%u6784%u9884%u89C8%uFF1APREVIEW ONLY / NOT USABLE / %u4E0D%u751F%u6210%u6B63%u5F0F%u5BA2%u6237%u7AEF%u94FE%u63A5%u3002'')]
      else
        [(uni ''%u5176%u4ED6%u8D44%u6E90%u9884%u89C8%uFF1Aclient -> transit resource -> landing VPS/node -> platform''),
         [],
         (uni ''%u8BE5%u8D44%u6E90%u7C7B%u578B%u9700%u8981%u540E%u7EED%u9636%u6BB5%u8FDB%u4E00%u6B65%u786E%u8BA4%u8F6C%u53D1%u8D23%u4EFB%u8FB9%u754C%u548C%u914D%u7F6E%u65B9%u5F0F%u3002''),
         (uni ''Stage 3.2 %u53EA%u5C55%u793A%u7ED3%u6784%u9884%u89C8%uFF0C%u4E0D%u6267%u884C%u4EFB%u4F55%u8FDE%u63A5%u3001%u6D4B%u8BD5%u6216%u914D%u7F6E%u3002'')])"

definition previewForResource ::
  "number_reader \<Rightarrow> transit_resource_data option \<Rightarrow> node_data option \<Rightarrow> jsstr \<Rightarrow> jsstr \<Rightarrow> jsstr" where
  "previewForResource to_number resource node listenPort forwardingMethod =
     (case (resource, node) of
        (Some r, Some n) \<Rightarrow> join [10] (preview_lines to_number r n listenPort forwardingMethod)
      | _ \<Rightarrow> (uni ''%u8BF7%u9009%u62E9%u4E00%u4E2A%u542F%u7528%u7684%u4E2D%u8F6C%u8D44%u6E90%u548C%u4E00%u4E2A active %u8282%u70B9%u540E%u751F%u6210%u9884%u89C8%u3002''))"

subsection \<open>The panel\<close>

record preview_panel =
  pv_resources :: "transit_resource_data list"
  pv_nodes :: "node_data list"
  pv_selectedResourceId :: jsstr
  pv_selectedNodeId :: jsstr
  pv_listenPort :: jsstr
  pv_forwardingMethod :: jsstr
  pv_message :: jsstr

definition preview_panel_initial :: preview_panel where
  "preview_panel_initial =
     \<lparr>pv_resources = [], pv_nodes = [], pv_selectedResourceId = [], pv_selectedNodeId = [],
      pv_listenPort = (js ''443''), pv_forwardingMethod = (js ''unknown''),
      pv_message = (uni ''%u4E2D%u8F6C%u62D3%u6251%u9884%u89C8%u53EA%u5728%u6D4F%u89C8%u5668%u672C%u5730%u751F%u6210%uFF0C%u4E0D%u4FDD%u5B58 route%u3002'')\<rparr>"

fun loadPreviewData_done ::
  "transit_resource_data list api_response settled \<Rightarrow> node_data list api_response settled
   \<Rightarrow> preview_panel \<Rightarrow> preview_panel" where
  "loadPreviewData_done (Resolved (ApiFailure c m d)) (Resolved nodeResult) p = p\<lparr>pv_message := m\<rparr>"
| "loadPreviewData_done (Resolved (ApiSuccess rs m)) (Resolved (ApiFailure c m' d)) p = p\<lparr>pv_message := m'\<rparr>"
| "loadPreviewData_done (Resolved (ApiSuccess rs m)) (Resolved (ApiSuccess ns m')) p =
     (let activeResources = List.filter (\<lambda>resource. tr_status resource = (js ''active'')) rs;
          activeNodes = List.filter (\<lambda>node. nd_status node = (js ''active'')) ns
      in p\<lparr>pv_resources := activeResources,
           pv_nodes := activeNodes,
           pv_selectedResourceId := or_str (pv_selectedResourceId p) (first_id tr_id activeResources),
           pv_selectedNodeId := or_str (pv_selectedNodeId p) (first_id nd_id activeNodes),
           pv_message := (uni ''%u8BF7%u9009%u62E9%u4E2D%u8F6C%u8D44%u6E90%u548C active %u8282%u70B9%u67E5%u770B%u9884%u89C8%u3002'')\<rparr>)"
| "loadPreviewData_done a b p = p"

definition selectedResource :: "preview_panel \<Rightarrow> transit_resource_data option" where
  "selectedResource p = find_opt (\<lambda>resource. tr_id resource = pv_selectedResourceId p) (pv_resources p)"

definition selectedNode :: "preview_panel \<Rightarrow> node_data option" where
  "selectedNode p = find_opt (\<lambda>node. nd_id node = pv_selectedNodeId p) (pv_nodes p)"

definition configPreview :: "number_reader \<Rightarrow> preview_panel \<Rightarrow> jsstr" where
  "configPreview to_number p =
     previewForResource to_number (selectedResource p) (selectedNode p) (pv_listenPort p) (pv_forwardingMethod p)"

definition listenPortValid :: "number_reader \<Rightarrow> preview_panel \<Rightarrow> bool" where
  "listenPortValid to_number p \<longleftrightarrow> parsePreviewPort to_number (pv_listenPort p) \<noteq> None"

text \<open>The rows of the topology card.\<close>

definition topology_rows :: "number_reader \<Rightarrow> preview_panel \<Rightarrow> (jsstr \<times> jsstr) list" where
  "topology_rows to_number p =
     (let r = selectedResource p; n = selectedNode p
      in [((uni ''%u4E2D%u8F6C%u8D44%u6E90%u540D%u79F0''), nullish (map_option tr_name (selectedResource p)) (js ''-'')),
          ((uni ''%u8D44%u6E90%u7C7B%u578B''), (case r of None \<Rightarrow> (js ''-'')
             | Some resource \<Rightarrow> label_of resourceTypeLabels (tr_resource_type resource))),
          ((uni ''%u8D44%u6E90%u5165%u53E3''), displayText (Option.bind r tr_entry_host) @ (js '':'') @ displayNumber (Option.bind r tr_entry_port)),
          ((uni ''%u8D44%u6E90%u5730%u533A''), displayText (Option.bind r tr_entry_region) @ (uni '' %u2192 '') @ displayText (Option.bind r tr_exit_region)),
          ((uni ''active %u8282%u70B9''), nullish (map_option nd_node_name (selectedNode p)) (js ''-'')),
          ((uni ''%u843D%u5730 IP / %u7AEF%u53E3''), displayText (Option.bind n nd_vps_ip) @ (js '':'') @ displayNumber (Option.bind n nd_port)),
          ((uni ''%u9884%u671F%u7AEF%u53E3 / preview port''), (case parsePreviewPort to_number (pv_listenPort p) of
             None \<Rightarrow> (uni ''%u7AEF%u53E3%u672A%u586B%u5199%u6216%u4E0D%u5408%u6CD5'') | Some port \<Rightarrow> pv_listenPort p)),
          ((uni ''%u8F6C%u53D1%u65B9%u5F0F''), label_of forwardingMethodLabels (pv_forwardingMethod p))])"

subsection \<open>Properties\<close>

lemma preview_lines_marked:
  "take 2 (preview_lines to_number r n listenPort forwardingMethod) = [(js ''PREVIEW ONLY''), (js ''NOT USABLE'')]"
  by (simp add: preview_lines_def preview_header_def)

text \<open>
  A preview is marked as unusable in its first two lines, for every resource type,
  and depends on the node only through its name, address and port: neither a share link nor a
  uuid of the node can reach the text.
\<close>

lemma preview_never_shows_a_link:
  "take 2 (preview_lines to_number r n listenPort forwardingMethod) = [(js ''PREVIEW ONLY''), (js ''NOT USABLE'')]
   \<and> previewForResource to_number (Some r) (Some n) listenPort forwardingMethod
     = previewForResource to_number (Some r)
         (Some (n\<lparr>nd_share_link := secret, nd_masked_share_link := masked, nd_uuid := uuid,
                 nd_reality_public_key := pk, nd_reality_short_id := sid\<rparr>)) listenPort forwardingMethod"
  using preview_lines_marked
  by (simp add: previewForResource_def preview_lines_def preview_header_def)

text \<open>
  A refresh keeps the selected id even when the refreshed list no longer
  holds it, although other resources are active: the preview falls back to asking for a choice.
\<close>

lemma stale_selection_blanks_preview:
  assumes "pv_selectedResourceId p \<noteq> []" and "\<forall>r \<in> set rs. tr_id r \<noteq> pv_selectedResourceId p"
  shows "configPreview to_number (loadPreviewData_done (Resolved (ApiSuccess rs m)) (Resolved (ApiSuccess ns m')) p)
           = (uni ''%u8BF7%u9009%u62E9%u4E00%u4E2A%u542F%u7528%u7684%u4E2D%u8F6C%u8D44%u6E90%u548C%u4E00%u4E2A active %u8282%u70B9%u540E%u751F%u6210%u9884%u89C8%u3002'')"
proof -
  let ?q = "loadPreviewData_done (Resolved (ApiSuccess rs m)) (Resolved (ApiSuccess ns m')) p"
  have "selectedResource ?q = None"
    using assms by (auto simp: selectedResource_def find_opt_None_iff or_str_def Let_def)
  then show ?thesis by (simp add: configPreview_def previewForResource_def)
qed

end
