(* ===== verification/RouteTypes.thy ===== *)
theory RouteTypes
  imports ApiTypes
begin

text \<open>
  The object types of \<^verbatim>\<open>frontend/lib/api.ts\<close> that the transit panels read or build, in the form
  of theory ApiTypes: one record per type, and for a request type the object that is handed to
  \<^verbatim>\<open>JSON.stringify\<close>, which leaves out a field that is \<^verbatim>\<open>undefined\<close>.
\<close>

definition opt_field :: "jsstr \<Rightarrow> jsval option \<Rightarrow> (jsstr \<times> jsval) list" where
  "opt_field k v = (case v of None \<Rightarrow> [] | Some x \<Rightarrow> [(k, x)])"

lemma opt_field_simps [simp]:
  "opt_field k None = []"
  "opt_field k (Some x) = [(k, x)]"
  by (simp_all add: opt_field_def)

record worker_token =
  wt_token_id :: jsstr
  wt_role :: jsstr
  wt_expires_at :: jsstr
  wt_install_command :: jsstr
  wt_masked_token :: jsstr
  wt_status :: jsstr
  wt_server_id :: "jsstr option"

record resource_payload =
  trp_name :: jsstr
  trp_resource_type :: jsstr
  trp_provider :: "jsstr option"
  trp_entry_host :: "jsstr option"
  trp_entry_port :: "int option"
  trp_entry_region :: "jsstr option"
  trp_exit_region :: "jsstr option"
  trp_bandwidth_mbps :: "int option"
  trp_traffic_limit_gb :: "int option"
  trp_traffic_used_gb :: "int option"
  trp_protocol_hint :: jsstr
  trp_has_ssh :: bool
  trp_ssh_host :: "jsstr option"
  trp_ssh_port :: "int option"
  trp_ssh_username :: "jsstr option"
  trp_status :: jsstr
  trp_expires_at :: "jsstr option"
  trp_notes :: "jsstr option"

record route_rename_result =
  rr_id :: jsstr
  rr_name :: jsstr
  rr_listen_port :: int
  rr_target_host :: jsstr
  rr_target_port :: int
  rr_forwarding_method :: jsstr
  rr_status :: jsstr
  rr_updated_at :: "jsstr option"
  rr_share_link_present :: bool

record candidate_summary =
  cs_route_id :: jsstr
  cs_route_name :: jsstr
  cs_transit_resource_id :: jsstr
  cs_transit_resource_name :: "jsstr option"
  cs_entry_host :: jsstr
  cs_listen_port :: int
  cs_target_host :: jsstr
  cs_target_port :: int
  cs_forwarding_method :: jsstr
  cs_service_name :: jsstr
  cs_service_path :: jsstr
  cs_status :: jsstr
  cs_landing_node_id :: jsstr
  cs_landing_node_name :: "jsstr option"
  cs_landing_vps_ip :: "jsstr option"
  cs_route_share_link_present :: bool
  cs_share_link_present :: bool
  cs_recommended_candidate :: bool
  cs_cutover_status :: jsstr
  cs_safety_boundary :: "jsstr list"

record candidate_export_request =
  ceq_confirm_transient_export :: bool
  ceq_confirm_no_database_write :: bool
  ceq_confirm_no_share_link_mutation :: bool
  ceq_confirm_no_cutover :: bool
  ceq_reason :: jsstr

record candidate_export =
  ce_route_id :: jsstr
  ce_route_name :: jsstr
  ce_candidate_name :: jsstr
  ce_server :: jsstr
  ce_port :: int
  ce_protocol :: jsstr
  ce_security :: jsstr
  ce_network :: jsstr
  ce_flow :: "jsstr option"
  ce_sni :: "jsstr option"
  ce_fingerprint :: "jsstr option"
  ce_reality_public_key_present :: bool
  ce_reality_short_id_present :: bool
  ce_uuid_present :: bool
  ce_masked_candidate_link :: jsstr
  ce_candidate_link :: jsstr
  ce_export_mode :: "jsstr option"
  ce_persistence :: "jsstr option"
  ce_warning :: jsstr
  ce_cutover_status :: jsstr
  ce_database_write_performed :: bool
  ce_nodes_share_link_mutated :: bool
  ce_transit_route_share_link_mutated :: bool
  ce_safety_boundary :: "jsstr list"

record plan_request =
  plq_transit_resource_id :: "jsstr option"
  plq_transit_resource_name :: "jsstr option"
  plq_transit_host_hint :: "jsstr option"
  plq_landing_node_id :: "jsstr option"
  plq_landing_node_name :: "jsstr option"
  plq_landing_host_hint :: "jsstr option"
  plq_landing_target_port :: jsstr
  plq_planned_listen_port :: jsstr
  plq_route_purpose :: "jsstr option"
  plq_firewall_security_group_confirmed :: bool
  plq_cloud_firewall_confirmed :: bool
  plq_server_firewall_confirmed :: bool
  plq_local_backup_confirmed :: bool
  plq_user_approved_readonly_preflight :: bool
  plq_workbuddy_authorized :: bool
  plq_no_cutover_confirmed :: bool
  plq_no_node_share_link_change_confirmed :: bool

record plan_response =
  plr_ready :: bool
  plr_blocked :: bool
  plr_status :: jsstr
  plr_summary :: jsstr
  plr_next_action :: jsstr
  plr_checks :: "check_item list"
  plr_safety_boundary :: "jsstr list"
  plr_redacted_summary :: jsstr

record preflight_request =
  pfq_transit_resource_id :: jsstr
  pfq_landing_node_id :: jsstr
  pfq_planned_listen_port :: int
  pfq_landing_target_port :: int
  pfq_forwarding_method :: jsstr
  pfq_purpose :: "jsstr option"
  pfq_readonly :: bool

record preflight_response =
  pfr_command :: worker_command_data
  pfr_target_worker_id :: jsstr
  pfr_target_worker_version :: "jsstr option"
  pfr_minimum_supported_worker_version :: jsstr
  pfr_safety_boundary :: "jsstr list"

record readiness_request =
  raq_transit_resource_id :: jsstr
  raq_landing_node_id :: jsstr
  raq_planned_listen_port :: int
  raq_landing_target_port :: int
  raq_forwarding_method :: jsstr
  raq_purpose :: "jsstr option"
  raq_firewall_security_group_confirmed :: bool
  raq_cloud_firewall_confirmed :: bool
  raq_server_firewall_confirmed :: bool
  raq_no_cutover_confirmed :: bool
  raq_no_node_share_link_change_confirmed :: bool
  raq_no_full_client_link_confirmed :: bool

record readiness_resource =
  rars_id :: jsstr
  rars_name :: "jsstr option"
  rars_entry_host :: "jsstr option"
  rars_status :: jsstr
  rars_deleted :: bool

record readiness_worker =
  rarw_id :: "jsstr option"
  rarw_role :: "jsstr option"
  rarw_status :: jsstr
  rarw_worker_version :: "jsstr option"
  rarw_interface_name :: "jsstr option"
  rarw_minimum_supported_worker_version :: jsstr

record readiness_node =
  rarn_id :: jsstr
  rarn_name :: "jsstr option"
  rarn_target_host :: "jsstr option"
  rarn_target_port :: "int option"
  rarn_status :: jsstr

record readiness_route =
  rarr_route_name :: jsstr
  rarr_planned_listen_port :: int
  rarr_landing_target_host :: "jsstr option"
  rarr_landing_target_port :: int
  rarr_forwarding_method :: jsstr
  rarr_purpose :: "jsstr option"
  rarr_service_name :: jsstr
  rarr_dry_readiness_only :: bool

record readiness_result =
  rar_ready :: bool
  rar_blocked :: bool
  rar_status :: jsstr
  rar_summary :: jsstr
  rar_next_action :: jsstr
  rar_transit_resource :: readiness_resource
  rar_transit_worker :: readiness_worker
  rar_landing_node :: readiness_node
  rar_planned_route :: readiness_route
  rar_checks :: "check_item list"
  rar_safety_boundary :: "jsstr list"

record haproxy_dry_run_request =
  hdq_transit_resource_id :: jsstr
  hdq_landing_node_id :: jsstr
  hdq_planned_listen_port :: int
  hdq_landing_target_host :: jsstr
  hdq_landing_target_port :: int
  hdq_forwarding_method :: jsstr
  hdq_purpose :: "jsstr option"
  hdq_route_name :: jsstr
  hdq_route_display_name :: "jsstr option"
  hdq_approval_stage :: jsstr
  hdq_readiness_approval_confirmed :: bool
  hdq_dry_run :: bool
  hdq_approval_required :: bool
  hdq_firewall_security_group_confirmed :: bool
  hdq_cloud_firewall_confirmed :: bool
  hdq_server_firewall_confirmed :: bool
  hdq_no_cutover_confirmed :: bool
  hdq_no_node_share_link_change_confirmed :: bool
  hdq_no_full_client_link_confirmed :: bool

record haproxy_dry_run =
  hdr_command :: worker_command_data
  hdr_target_worker_id :: jsstr
  hdr_target_worker_version :: "jsstr option"
  hdr_minimum_supported_worker_version :: jsstr
  hdr_dry_run :: bool
  hdr_approval_required :: bool
  hdr_real_execution :: bool
  hdr_route_created :: bool
  hdr_haproxy_installed :: bool
  hdr_listener_bound :: bool
  hdr_firewall_modified :: bool
  hdr_share_link_mutated :: bool
  hdr_cutover :: bool
  hdr_planned_service_name :: jsstr
  hdr_planned_listen_port :: int
  hdr_landing_target_host :: jsstr
  hdr_landing_target_port :: int
  hdr_forwarding_method :: jsstr
  hdr_route_name :: jsstr
  hdr_route_display_name :: "jsstr option"
  hdr_readiness_summary :: jsstr
  hdr_checks :: "check_item list"
  hdr_safety_boundary :: "jsstr list"
  hdr_next_stage :: jsstr

record final_approval_request =
  faq_dry_run_command_id :: jsstr
  faq_transit_resource_id :: jsstr
  faq_landing_node_id :: jsstr
  faq_planned_listen_port :: int
  faq_landing_target_host :: jsstr
  faq_landing_target_port :: int
  faq_forwarding_method :: jsstr
  faq_route_name :: jsstr
  faq_route_display_name :: "jsstr option"
  faq_planned_service_name :: jsstr
  faq_approval_stage :: jsstr
  faq_dry_run_verified :: bool
  faq_firewall_security_group_confirmed :: bool
  faq_cloud_firewall_confirmed :: bool
  faq_server_firewall_confirmed :: bool
  faq_no_cutover_confirmed :: bool
  faq_no_node_share_link_change_confirmed :: bool
  faq_no_full_client_link_confirmed :: bool
  faq_final_approval_text :: jsstr

record final_approval =
  far_ready_for_real_create :: bool
  far_blocked :: bool
  far_summary :: jsstr
  far_next_action :: jsstr
  far_dry_run_command_id :: jsstr
  far_planned_service_name :: jsstr
  far_planned_listen_port :: int
  far_landing_target_host :: jsstr
  far_landing_target_port :: int
  far_forwarding_method :: jsstr
  far_route_name :: jsstr
  far_route_display_name :: "jsstr option"
  far_final_approval_text :: jsstr
  far_expected_real_execution_text :: jsstr
  far_target_worker_id :: "jsstr option"
  far_target_worker_version :: "jsstr option"
  far_minimum_supported_worker_version :: jsstr
  far_checks :: "check_item list"
  far_safety_boundary :: "jsstr list"
  far_next_stage :: jsstr
  far_worker_command_created :: bool
  far_real_execution_command_created :: bool
  far_route_created :: bool
  far_transit_route_active_record_created :: bool
  far_haproxy_installed :: bool
  far_listener_bound :: bool
  far_firewall_modified :: bool
  far_share_link_mutated :: bool
  far_cutover :: bool

record create_execute_request =
  xcq_transit_resource_id :: jsstr
  xcq_landing_node_id :: jsstr
  xcq_planned_listen_port :: int
  xcq_landing_target_host :: jsstr
  xcq_landing_target_port :: int
  xcq_forwarding_method :: jsstr
  xcq_purpose :: "jsstr option"
  xcq_route_name :: jsstr
  xcq_approval_stage :: jsstr
  xcq_dry_run :: bool
  xcq_approval_required :: bool
  xcq_user_approved_real_execution :: bool
  xcq_firewall_security_group_confirmed :: bool
  xcq_cloud_firewall_confirmed :: bool
  xcq_server_firewall_confirmed :: bool
  xcq_no_node_share_link_change_confirmed :: bool
  xcq_no_full_client_link_confirmed :: bool
  xcq_no_cutover_confirmed :: bool

record create_execute_response =
  xcr_command :: worker_command_data
  xcr_target_worker_id :: jsstr
  xcr_target_worker_version :: "jsstr option"
  xcr_minimum_supported_worker_version :: jsstr
  xcr_execution_mode :: jsstr
  xcr_approval_required :: bool
  xcr_safety_boundary :: "jsstr list"

record cleanup_result =
  cu_command_id :: "jsstr option"
  cu_cleanup_type :: "jsstr option"
  cu_status :: "jsstr option"
  cu_remote_cleanup_required :: "bool option"
  cu_system_record_delete_after_success :: "bool option"
  cu_command :: "worker_command_data option"
  cu_id :: "jsstr option"
  cu_target_type :: "jsstr option"
  cu_deleted :: "bool option"
  cu_delete_mode :: "jsstr option"
  cu_remote_cleanup_executed :: "bool option"
  cu_remote_action_performed :: "bool option"
  cu_worker_command_created :: "bool option"
  cu_cutover_occurred :: "bool option"
  cu_share_link_mutated :: "bool option"
  cu_resource_marked_deleted :: "bool option"
  cu_node_marked_deleted :: "bool option"
  cu_route_marked_deleted :: "bool option"
  cu_nodes_marked_deleted :: "int option"
  cu_routes_marked_deleted :: "int option"
  cu_workers_marked_deleted :: "int option"
  cu_message :: jsstr

record command_created =
  wcc_command :: worker_command_data
  wcc_requested_worker_id :: "jsstr option"
  wcc_target_worker_id :: jsstr
  wcc_target_worker_version :: "jsstr option"
  wcc_target_worker_changed :: bool
  wcc_minimum_supported_worker_version :: jsstr

record install_command_request =
  icq_confirmation :: jsstr
  icq_expires_in_minutes :: "int option"
  icq_interface_name :: "jsstr option"

record install_command =
  icr_resource :: transit_resource_data
  icr_token :: worker_token
  icr_install_command :: jsstr
  icr_expires_at :: jsstr
  icr_controller_url :: jsstr
  icr_role :: jsstr
  icr_token_expires_in_minutes :: int
  icr_safety_notice :: "jsstr list"

subsection \<open>Request bodies\<close>

definition json_resource_payload :: "resource_payload \<Rightarrow> jsval" where
  "json_resource_payload r = JObj [
     ((js ''name''), JStr (trp_name r)),
     ((js ''resource_type''), JStr (trp_resource_type r)),
     ((js ''provider''), jopt_str (trp_provider r)),
     ((js ''entry_host''), jopt_str (trp_entry_host r)),
     ((js ''entry_port''), jopt_num (trp_entry_port r)),
     ((js ''entry_region''), jopt_str (trp_entry_region r)),
     ((js ''exit_region''), jopt_str (trp_exit_region r)),
     ((js ''bandwidth_mbps''), jopt_num (trp_bandwidth_mbps r)),
     ((js ''traffic_limit_gb''), jopt_num (trp_traffic_limit_gb r)),
     ((js ''traffic_used_gb''), jopt_num (trp_traffic_used_gb r)),
     ((js ''protocol_hint''), JStr (trp_protocol_hint r)),
     ((js ''has_ssh''), JBool (trp_has_ssh r)),
     ((js ''ssh_host''), jopt_str (trp_ssh_host r)),
     ((js ''ssh_port''), jopt_num (trp_ssh_port r)),
     ((js ''ssh_username''), jopt_str (trp_ssh_username r)),
     ((js ''status''), JStr (trp_status r)),
     ((js ''expires_at''), jopt_str (trp_expires_at r)),
     ((js ''notes''), jopt_str (trp_notes r))]"

definition json_candidate_export_request :: "candidate_export_request \<Rightarrow> jsval" where
  "json_candidate_export_request r = JObj [
     ((js ''confirm_transient_export''), JBool (ceq_confirm_transient_export r)),
     ((js ''confirm_no_database_write''), JBool (ceq_confirm_no_database_write r)),
     ((js ''confirm_no_share_link_mutation''), JBool (ceq_confirm_no_share_link_mutation r)),
     ((js ''confirm_no_cutover''), JBool (ceq_confirm_no_cutover r)),
     ((js ''reason''), JStr (ceq_reason r))]"

definition json_plan_request :: "plan_request \<Rightarrow> jsval" where
  "json_plan_request r = JObj [
     ((js ''transit_resource_id''), jopt_str (plq_transit_resource_id r)),
     ((js ''transit_resource_name''), jopt_str (plq_transit_resource_name r)),
     ((js ''transit_host_hint''), jopt_str (plq_transit_host_hint r)),
     ((js ''landing_node_id''), jopt_str (plq_landing_node_id r)),
     ((js ''landing_node_name''), jopt_str (plq_landing_node_name r)),
     ((js ''landing_host_hint''), jopt_str (plq_landing_host_hint r)),
     ((js ''landing_target_port''), JStr (plq_landing_target_port r)),
     ((js ''planned_listen_port''), JStr (plq_planned_listen_port r)),
     ((js ''route_purpose''), jopt_str (plq_route_purpose r)),
     ((js ''firewall_security_group_confirmed''), JBool (plq_firewall_security_group_confirmed r)),
     ((js ''cloud_firewall_confirmed''), JBool (plq_cloud_firewall_confirmed r)),
     ((js ''server_firewall_confirmed''), JBool (plq_server_firewall_confirmed r)),
     ((js ''local_backup_confirmed''), JBool (plq_local_backup_confirmed r)),
     ((js ''user_approved_readonly_preflight''), JBool (plq_user_approved_readonly_preflight r)),
     ((js ''workbuddy_authorized''), JBool (plq_workbuddy_authorized r)),
     ((js ''no_cutover_confirmed''), JBool (plq_no_cutover_confirmed r)),
     ((js ''no_node_share_link_change_confirmed''), JBool (plq_no_node_share_link_change_confirmed r))]"

definition json_preflight_request :: "preflight_request \<Rightarrow> jsval" where
  "json_preflight_request r = JObj [
     ((js ''transit_resource_id''), JStr (pfq_transit_resource_id r)),
     ((js ''landing_node_id''), JStr (pfq_landing_node_id r)),
     ((js ''planned_listen_port''), JNum (pfq_planned_listen_port r)),
     ((js ''landing_target_port''), JNum (pfq_landing_target_port r)),
     ((js ''forwarding_method''), JStr (pfq_forwarding_method r)),
     ((js ''purpose''), jopt_str (pfq_purpose r)),
     ((js ''readonly''), JBool (pfq_readonly r))]"

definition json_readiness_request :: "readiness_request \<Rightarrow> jsval" where
  "json_readiness_request r = JObj [
     ((js ''transit_resource_id''), JStr (raq_transit_resource_id r)),
     ((js ''landing_node_id''), JStr (raq_landing_node_id r)),
     ((js ''planned_listen_port''), JNum (raq_planned_listen_port r)),
     ((js ''landing_target_port''), JNum (raq_landing_target_port r)),
     ((js ''forwarding_method''), JStr (raq_forwarding_method r)),
     ((js ''purpose''), jopt_str (raq_purpose r)),
     ((js ''firewall_security_group_confirmed''), JBool (raq_firewall_security_group_confirmed r)),
     ((js ''cloud_firewall_confirmed''), JBool (raq_cloud_firewall_confirmed r)),
     ((js ''server_firewall_confirmed''), JBool (raq_server_firewall_confirmed r)),
     ((js ''no_cutover_confirmed''), JBool (raq_no_cutover_confirmed r)),
     ((js ''no_node_share_link_change_confirmed''), JBool (raq_no_node_share_link_change_confirmed r)),
     ((js ''no_full_client_link_confirmed''), JBool (raq_no_full_client_link_confirmed r))]"

definition json_haproxy_dry_run_request :: "haproxy_dry_run_request \<Rightarrow> jsval" where
  "json_haproxy_dry_run_request r = JObj (
     [((js ''transit_resource_id''), JStr (hdq_transit_resource_id r))] @
     [((js ''landing_node_id''), JStr (hdq_landing_node_id r))] @
     [((js ''planned_listen_port''), JNum (hdq_planned_listen_port r))] @
     [((js ''landing_target_host''), JStr (hdq_landing_target_host r))] @
     [((js ''landing_target_port''), JNum (hdq_landing_target_port r))] @
     [((js ''forwarding_method''), JStr (hdq_forwarding_method r))] @
     [((js ''purpose''), jopt_str (hdq_purpose r))] @
     [((js ''route_name''), JStr (hdq_route_name r))] @
     opt_field (js ''route_display_name'') (map_option JStr (hdq_route_display_name r)) @
     [((js ''approval_stage''), JStr (hdq_approval_stage r))] @
     [((js ''readiness_approval_confirmed''), JBool (hdq_readiness_approval_confirmed r))] @
     [((js ''dry_run''), JBool (hdq_dry_run r))] @
     [((js ''approval_required''), JBool (hdq_approval_required r))] @
     [((js ''firewall_security_group_confirmed''), JBool (hdq_firewall_security_group_confirmed r))] @
     [((js ''cloud_firewall_confirmed''), JBool (hdq_cloud_firewall_confirmed r))] @
     [((js ''server_firewall_confirmed''), JBool (hdq_server_firewall_confirmed r))] @
     [((js ''no_cutover_confirmed''), JBool (hdq_no_cutover_confirmed r))] @
     [((js ''no_node_share_link_change_confirmed''), JBool (hdq_no_node_share_link_change_confirmed r))] @
     [((js ''no_full_client_link_confirmed''), JBool (hdq_no_full_client_link_confirmed r))])"

definition json_final_approval_request :: "final_approval_request \<Rightarrow> jsval" where
  "json_final_approval_request r = JObj [
     ((js ''dry_run_command_id''), JStr (faq_dry_run_command_id r)),
     ((js ''transit_resource_id''), JStr (faq_transit_resource_id r)),
     ((js ''landing_node_id''), JStr (faq_landing_node_id r)),
     ((js ''planned_listen_port''), JNum (faq_planned_listen_port r)),
     ((js ''landing_target_host''), JStr (faq_landing_target_host r)),
     ((js ''landing_target_port''), JNum (faq_landing_target_port r)),
     ((js ''forwarding_method''), JStr (faq_forwarding_method r)),
     ((js ''route_name''), JStr (faq_route_name r)),
     ((js ''route_display_name''), jopt_str (faq_route_display_name r)),
     ((js ''planned_service_name''), JStr (faq_planned_service_name r)),
     ((js ''approval_stage''), JStr (faq_approval_stage r)),
     ((js ''dry_run_verified''), JBool (faq_dry_run_verified r)),
     ((js ''firewall_security_group_confirmed''), JBool (faq_firewall_security_group_confirmed r)),
     ((js ''cloud_firewall_confirmed''), JBool (faq_cloud_firewall_confirmed r)),
     ((js ''server_firewall_confirmed''), JBool (faq_server_firewall_confirmed r)),
     ((js ''no_cutover_confirmed''), JBool (faq_no_cutover_confirmed r)),
     ((js ''no_node_share_link_change_confirmed''), JBool (faq_no_node_share_link_change_confirmed r)),
     ((js ''no_full_client_link_confirmed''), JBool (faq_no_full_client_link_confirmed r)),
     ((js ''final_approval_text''), JStr (faq_final_approval_text r))]"

definition json_create_execute_request :: "create_execute_request \<Rightarrow> jsval" where
  "json_create_execute_request r = JObj [
     ((js ''transit_resource_id''), JStr (xcq_transit_resource_id r)),
     ((js ''landing_node_id''), JStr (xcq_landing_node_id r)),
     ((js ''planned_listen_port''), JNum (xcq_planned_listen_port r)),
     ((js ''landing_target_host''), JStr (xcq_landing_target_host r)),
     ((js ''landing_target_port''), JNum (xcq_landing_target_port r)),
     ((js ''forwarding_method''), JStr (xcq_forwarding_method r)),
     ((js ''purpose''), jopt_str (xcq_purpose r)),
     ((js ''route_name''), JStr (xcq_route_name r)),
     ((js ''approval_stage''), JStr (xcq_approval_stage r)),
     ((js ''dry_run''), JBool (xcq_dry_run r)),
     ((js ''approval_required''), JBool (xcq_approval_required r)),
     ((js ''user_approved_real_execution''), JBool (xcq_user_approved_real_execution r)),
     ((js ''firewall_security_group_confirmed''), JBool (xcq_firewall_security_group_confirmed r)),
     ((js ''cloud_firewall_confirmed''), JBool (xcq_cloud_firewall_confirmed r)),
     ((js ''server_firewall_confirmed''), JBool (xcq_server_firewall_confirmed r)),
     ((js ''no_node_share_link_change_confirmed''), JBool (xcq_no_node_share_link_change_confirmed r)),
     ((js ''no_full_client_link_confirmed''), JBool (xcq_no_full_client_link_confirmed r)),
     ((js ''no_cutover_confirmed''), JBool (xcq_no_cutover_confirmed r))]"

definition json_install_command_request :: "install_command_request \<Rightarrow> jsval" where
  "json_install_command_request r = JObj (
     [((js ''confirmation''), JStr (icq_confirmation r))] @
     opt_field (js ''expires_in_minutes'') (map_option JNum (icq_expires_in_minutes r)) @
     opt_field (js ''interface_name'') (map_option JStr (icq_interface_name r)))"

end
