(* ===== verification/ServerTypes.thy ===== *)
theory ServerTypes
  imports RouteTypes
begin

text \<open>
  The object types of \<^verbatim>\<open>frontend/lib/api.ts\<close> for the landing servers: nodes and their plans, BBR
  plans, installation tokens.
\<close>

record node_plan_request =
  npq_listen_port :: int
  npq_protocol :: jsstr
  npq_security :: jsstr
  npq_flow :: jsstr
  npq_server_name :: jsstr
  npq_dest :: jsstr
  npq_fingerprint :: jsstr
  npq_remark :: "jsstr option"
  npq_allow_install_xray :: bool
  npq_allow_modify_firewall :: bool
  npq_allow_generate_share_link :: bool
  npq_allow_overwrite_existing_config :: bool
  npq_cloud_security_group_confirmed :: bool
  npq_cloud_firewall_confirmed :: bool
  npq_server_firewall_confirmed :: bool
  npq_require_manual_cloud_firewall_confirmation :: bool
  npq_require_preflight_success :: bool

record node_plan =
  np_plan_id :: jsstr
  np_server_id :: jsstr
  np_mode :: jsstr
  np_ready :: bool
  np_will_install_xray :: bool
  np_will_create_config :: bool
  np_will_open_local_firewall :: bool
  np_will_modify_cloud_security_group :: bool
  np_listen_port :: int
  np_protocol :: jsstr
  np_security :: jsstr
  np_flow :: jsstr
  np_server_name :: jsstr
  np_dest :: jsstr
  np_fingerprint :: jsstr
  np_key_generation_strategy :: jsval
  np_required_user_confirmations :: "jsstr list"
  np_preflight_summary :: jsval
  np_warnings :: "jsstr list"
  np_blocked_reasons :: "jsstr list"
  np_next_stage_required :: jsstr
  np_execution_guard :: "jsstr list"
  np_safety_boundary :: "jsstr list"

record node_create_request =
  ncq_approved_port :: int
  ncq_node_name :: "jsstr option"
  ncq_server_name :: "jsstr option"
  ncq_dest :: "jsstr option"
  ncq_fingerprint :: "jsstr option"
  ncq_confirm_firewall_open :: bool
  ncq_confirm_generate_share_link :: bool
  ncq_confirm_write_share_link_after_success :: bool
  ncq_confirm_no_existing_xray :: bool
  ncq_confirm_rollback_new_artifacts_only :: bool

record node_created =
  nc_command_id :: jsstr
  nc_command :: worker_command_data
  nc_target_worker_id :: jsstr
  nc_target_worker_version :: "jsstr option"
  nc_server_id :: jsstr
  nc_approved_port :: int
  nc_status :: jsstr
  nc_next_action :: jsstr
  nc_safety_boundary :: "jsstr list"

record server_node =
  sn_id :: jsstr
  sn_name :: jsstr
  sn_address :: "jsstr option"
  sn_ip :: "jsstr option"
  sn_port :: "int option"
  sn_protocol :: jsstr
  sn_status :: jsstr
  sn_service_status :: "jsstr option"
  sn_connectivity_status :: "jsstr option"
  sn_service_display_label :: "jsstr option"
  sn_connectivity_display_status :: "jsstr option"
  sn_connectivity_display_label :: "jsstr option"
  sn_node_health_summary :: "jsstr option"
  sn_share_link_present :: bool
  sn_created_at :: "jsstr option"

record vps_server =
  sv_id :: jsstr
  sv_name :: jsstr
  sv_ip :: jsstr
  sv_ssh_port :: int
  sv_ssh_user :: jsstr
  sv_ssh_username :: jsstr
  sv_notes :: "jsstr option"
  sv_status :: jsstr
  sv_last_ssh_status :: jsstr
  sv_last_ssh_check_at :: "jsstr option"
  sv_last_ssh_error :: "jsstr option"
  sv_connection_mode :: jsstr
  sv_worker_id :: "jsstr option"
  sv_worker_status :: "jsstr option"
  sv_worker_role :: "jsstr option"
  sv_worker_hostname :: "jsstr option"
  sv_worker_interface_name :: "jsstr option"
  sv_worker_version :: "jsstr option"
  sv_worker_last_heartbeat_at :: "jsstr option"
  sv_worker_heartbeat_status :: "jsstr option"
  sv_worker_heartbeat_age_seconds :: "int option"
  sv_worker_is_heartbeat_stale :: bool
  sv_worker_display_status :: "jsstr option"
  sv_worker_online :: bool
  sv_display_status :: jsstr
  sv_created_at :: "jsstr option"
  sv_updated_at :: "jsstr option"
  sv_nodes :: "server_node list"

record bbr_action =
  ba_step :: jsstr
  ba_executed :: bool
  ba_command_preview :: "jsstr option"
  ba_path_preview :: "jsstr option"

record bbr_plan =
  bp_ready :: bool
  bp_already_enabled :: bool
  bp_server_id :: jsstr
  bp_latest_preflight_id :: "jsstr option"
  bp_latest_preflight_at :: "jsstr option"
  bp_bbr :: jsval
  bp_recommendation :: jsstr
  bp_blocked_reasons :: "jsstr list"
  bp_warnings :: "jsstr list"
  bp_planned_actions :: "bbr_action list"
  bp_required_confirmations :: "jsstr list"
  bp_safety_boundary :: "jsstr list"

record bbr_dry_run =
  bd_command :: worker_command_data
  bd_target_worker_id :: jsstr
  bd_target_worker_version :: "jsstr option"
  bd_target_worker_changed :: bool
  bd_minimum_supported_worker_version :: jsstr
  bd_server_id :: jsstr
  bd_plan :: bbr_plan
  bd_next_action :: jsstr
  bd_safety_boundary :: "jsstr list"

record bbr_execution =
  bx_command :: worker_command_data
  bx_target_worker_id :: jsstr
  bx_target_worker_version :: "jsstr option"
  bx_target_worker_changed :: bool
  bx_minimum_supported_worker_version :: jsstr
  bx_server_id :: jsstr
  bx_plan :: bbr_plan
  bx_latest_dry_run_command_id :: jsstr
  bx_confirmation_text :: jsstr
  bx_next_action :: jsstr
  bx_safety_boundary :: "jsstr list"

record vps_bootstrap_request =
  vbq_name :: jsstr
  vbq_ip :: jsstr
  vbq_expires_in_minutes :: "int option"
  vbq_interface_name :: "jsstr option"

record vps_bootstrap =
  vb_server :: vps_server
  vb_token :: worker_token
  vb_install_command :: jsstr
  vb_expires_at :: jsstr

record transit_bootstrap_request =
  tbq_name :: jsstr
  tbq_ip :: jsstr
  tbq_expires_in_minutes :: "int option"
  tbq_interface_name :: "jsstr option"

record transit_bootstrap =
  tb_resource :: transit_resource_data
  tb_token :: worker_token
  tb_install_command :: jsstr
  tb_expires_at :: jsstr

record share_link_export =
  sl_node_id :: jsstr
  sl_node_name :: jsstr
  sl_share_link :: jsstr
  sl_warning :: jsstr

subsection \<open>Request bodies\<close>

definition json_node_plan_request :: "node_plan_request \<Rightarrow> jsval" where
  "json_node_plan_request r = JObj [
     ((js ''listen_port''), JNum (npq_listen_port r)),
     ((js ''protocol''), JStr (npq_protocol r)),
     ((js ''security''), JStr (npq_security r)),
     ((js ''flow''), JStr (npq_flow r)),
     ((js ''server_name''), JStr (npq_server_name r)),
     ((js ''dest''), JStr (npq_dest r)),
     ((js ''fingerprint''), JStr (npq_fingerprint r)),
     ((js ''remark''), jopt_str (npq_remark r)),
     ((js ''allow_install_xray''), JBool (npq_allow_install_xray r)),
     ((js ''allow_modify_firewall''), JBool (npq_allow_modify_firewall r)),
     ((js ''allow_generate_share_link''), JBool (npq_allow_generate_share_link r)),
     ((js ''allow_overwrite_existing_config''), JBool (npq_allow_overwrite_existing_config r)),
     ((js ''cloud_security_group_confirmed''), JBool (npq_cloud_security_group_confirmed r)),
     ((js ''cloud_firewall_confirmed''), JBool (npq_cloud_firewall_confirmed r)),
     ((js ''server_firewall_confirmed''), JBool (npq_server_firewall_confirmed r)),
     ((js ''require_manual_cloud_firewall_confirmation''), JBool (npq_require_manual_cloud_firewall_confirmation r)),
     ((js ''require_preflight_success''), JBool (npq_require_preflight_success r))]"

definition json_node_create_request :: "node_create_request \<Rightarrow> jsval" where
  "json_node_create_request r = JObj (
     [((js ''approved_port''), JNum (ncq_approved_port r))] @
     [((js ''node_name''), jopt_str (ncq_node_name r))] @
     opt_field (js ''server_name'') (map_option JStr (ncq_server_name r)) @
     opt_field (js ''dest'') (map_option JStr (ncq_dest r)) @
     opt_field (js ''fingerprint'') (map_option JStr (ncq_fingerprint r)) @
     [((js ''confirm_firewall_open''), JBool (ncq_confirm_firewall_open r))] @
     [((js ''confirm_generate_share_link''), JBool (ncq_confirm_generate_share_link r))] @
     [((js ''confirm_write_share_link_after_success''), JBool (ncq_confirm_write_share_link_after_success r))] @
     [((js ''confirm_no_existing_xray''), JBool (ncq_confirm_no_existing_xray r))] @
     [((js ''confirm_rollback_new_artifacts_only''), JBool (ncq_confirm_rollback_new_artifacts_only r))])"

definition json_vps_bootstrap_request :: "vps_bootstrap_request \<Rightarrow> jsval" where
  "json_vps_bootstrap_request r = JObj (
     [((js ''name''), JStr (vbq_name r))] @
     [((js ''ip''), JStr (vbq_ip r))] @
     opt_field (js ''expires_in_minutes'') (map_option JNum (vbq_expires_in_minutes r)) @
     opt_field (js ''interface_name'') (map_option JStr (vbq_interface_name r)))"

definition json_transit_bootstrap_request :: "transit_bootstrap_request \<Rightarrow> jsval" where
  "json_transit_bootstrap_request r = JObj (
     [((js ''name''), JStr (tbq_name r))] @
     [((js ''ip''), JStr (tbq_ip r))] @
     opt_field (js ''expires_in_minutes'') (map_option JNum (tbq_expires_in_minutes r)) @
     opt_field (js ''interface_name'') (map_option JStr (tbq_interface_name r)))"

end
