(* ===== verification/ShellTypes.thy ===== *)
theory ShellTypes
  imports ServerTypes
begin

text \<open>
  The remaining object types of \<^verbatim>\<open>frontend/lib/api.ts\<close>: the signed-in administrator, the
  health report and the product overview of the dashboard.
\<close>

record auth_user =
  au_admin_id :: jsstr
  au_username :: jsstr

record component_health =
  ch_status :: jsstr
  ch_detail :: "jsstr option"

record health_data =
  hd_backend :: component_health
  hd_database :: component_health
  hd_redis :: component_health
  hd_worker :: component_health

record overview_health =
  oh_ok :: bool
  oh_status :: jsstr
  oh_label :: jsstr
  oh_detail :: jsstr
  oh_last_refreshed_label :: jsstr

record overview_stats =
  os_normal_lines :: int
  os_risk_lines :: int
  os_abnormal_lines :: int
  os_pending_items :: int

datatype attention_tone = ToneSuccess | ToneWarning | ToneDanger | ToneInfo

record attention_item =
  ai_id :: jsstr
  ai_summary :: jsstr
  ai_detail :: jsstr
  ai_tone :: attention_tone
  ai_source_type :: jsstr
  ai_source_id :: "jsstr option"
  ai_created_at :: "jsstr option"
  ai_time_label :: jsstr

datatype created_type = LandingServerCreated | DirectNodeCreated | TransitResourceCreated | TransitRouteCreated

record recent_created_item =
  rc_id :: jsstr
  rc_name :: jsstr
  rc_type :: created_type
  rc_type_label :: jsstr
  rc_status :: jsstr
  rc_created_at :: "jsstr option"
  rc_created_by :: jsstr

record product_overview =
  po_generated_at :: jsstr
  po_health :: overview_health
  po_stats :: overview_stats
  po_attention_items :: "attention_item list"
  po_recent_created :: "recent_created_item list"
  po_tips :: "jsstr list"
  po_safety_boundary :: "jsstr list"

record worker_token_request =
  wtq_role :: jsstr
  wtq_name :: "jsstr option"
  wtq_server_id :: "jsstr option"
  wtq_expires_in_minutes :: "int option"
  wtq_interface_name :: "jsstr option"

text \<open>
  The body of a token request. The one caller writes every field, in the order \<^verbatim>\<open>role\<close>,
  \<^verbatim>\<open>name\<close>, \<^verbatim>\<open>server_id\<close>, \<^verbatim>\<open>expires_in_minutes\<close>, \<^verbatim>\<open>interface_name\<close>.
\<close>

definition json_worker_token_request :: "worker_token_request \<Rightarrow> jsval" where
  "json_worker_token_request r = JObj (
     [((js ''role''), JStr (wtq_role r))] @
     [((js ''name''), jopt_str (wtq_name r))] @
     [((js ''server_id''), jopt_str (wtq_server_id r))] @
     opt_field (js ''expires_in_minutes'') (map_option JNum (wtq_expires_in_minutes r)) @
     opt_field (js ''interface_name'') (map_option JStr (wtq_interface_name r)))"

end
