(* ===== verification/Async.thy ===== *)
theory Async
  imports ApiClient ShellTypes "HOL-Library.Multiset"
begin

text \<open>
  Asynchronous handlers. An \<^verbatim>\<open>async\<close> function of the console is synchronous code between its
  \<^verbatim>\<open>await\<close>s. A piece of synchronous code is an \<open>act\<close>: it maps the state of its panel to
  the new state and to the tasks it leaves behind. A task is what the event loop holds until
  something happens outside: a request that waits for its response, a \<^verbatim>\<open>Promise.all\<close>, a timer.
  A function that is awaited takes the rest of its caller as continuation \<open>k\<close>, and what
  a \<^verbatim>\<open>catch\<close> of the caller does with an exception as continuation \<open>h\<close>; a function started
  with \<^verbatim>\<open>void f()\<close> takes \<open>done\<close> and \<open>unhandled\<close>.
  Events are chosen by the environment, in any order: \<open>perform\<close> lets the event loop resume one
  of the waiting tasks.
\<close>

subsection \<open>Replies\<close>

text \<open>The one reply type that a panel declares for itself (\<^verbatim>\<open>TransitRoutesPanel.tsx\<close>).\<close>

record worker_create_plan =
  wp_command :: worker_command_data
  wp_target_worker_id :: jsstr
  wp_target_worker_version :: "jsstr option"
  wp_minimum_supported_worker_version :: jsstr
  wp_dry_run :: bool
  wp_planned_service_name :: jsstr
  wp_planned_listen_port :: int
  wp_landing_target_host :: jsstr
  wp_landing_target_port :: int
  wp_safety_boundary :: "jsstr list"

datatype reply_value =
    RCsrf "jsstr api_response settled"
  | RResources "transit_resource_data list api_response settled"
  | RNodes "node_data list api_response settled"
  | RRoutes "transit_route_data list api_response settled"
  | RServers "vps_server list api_response settled"
  | RCommands "worker_command_data list api_response settled"
  | RCommand "worker_command_data api_response settled"
  | RCreated "command_created api_response settled"
  | RResource "transit_resource_data api_response settled"
  | RInstall "install_command api_response settled"
  | RCleanup "cleanup_result api_response settled"
  | RPlan "plan_response api_response settled"
  | RPreflight "preflight_response api_response settled"
  | RReadiness "readiness_result api_response settled"
  | RDryRun "haproxy_dry_run api_response settled"
  | RFinal "final_approval api_response settled"
  | RReal "real_execution_result api_response settled"
  | RExecute "create_execute_response api_response settled"
  | RRename "route_rename_result api_response settled"
  | RSummary "candidate_summary api_response settled"
  | RExport "candidate_export api_response settled"
  | RWorkerPlan "worker_create_plan api_response settled"
  | RNode "node_data api_response settled"
  | RShareLink "share_link_export api_response settled"
  | RServer "(vps_server \<times> bool) api_response settled"
  | RVpsBootstrap "vps_bootstrap api_response settled"
  | RTransitBootstrap "transit_bootstrap api_response settled"
  | RBbrPlan "bbr_plan api_response settled"
  | RBbrDryRun "bbr_dry_run api_response settled"
  | RBbrReal "bbr_execution api_response settled"
  | RNodePlan "node_plan api_response settled"
  | RNodeCreate "node_created api_response settled"
  | RToken "worker_token api_response settled"
  | RTasks "task_data list api_response settled"
  | RUser "auth_user api_response settled"
  | RHealth "health_data api_response settled"
  | ROverview "product_overview api_response settled"
  | RDone "unit api_response settled"
  | RClipboard "unit settled"

definition "as_csrf r = (case r of RCsrf x \<Rightarrow> Some x | _ \<Rightarrow> None)"
definition "as_resources r = (case r of RResources x \<Rightarrow> Some x | _ \<Rightarrow> None)"
definition "as_nodes r = (case r of RNodes x \<Rightarrow> Some x | _ \<Rightarrow> None)"
definition "as_routes r = (case r of RRoutes x \<Rightarrow> Some x | _ \<Rightarrow> None)"
definition "as_servers r = (case r of RServers x \<Rightarrow> Some x | _ \<Rightarrow> None)"
definition "as_commands r = (case r of RCommands x \<Rightarrow> Some x | _ \<Rightarrow> None)"
definition "as_command r = (case r of RCommand x \<Rightarrow> Some x | _ \<Rightarrow> None)"
definition "as_created r = (case r of RCreated x \<Rightarrow> Some x | _ \<Rightarrow> None)"
definition "as_resource r = (case r of RResource x \<Rightarrow> Some x | _ \<Rightarrow> None)"
definition "as_install r = (case r of RInstall x \<Rightarrow> Some x | _ \<Rightarrow> None)"
definition "as_cleanup r = (case r of RCleanup x \<Rightarrow> Some x | _ \<Rightarrow> None)"
definition "as_plan r = (case r of RPlan x \<Rightarrow> Some x | _ \<Rightarrow> None)"
definition "as_preflight r = (case r of RPreflight x \<Rightarrow> Some x | _ \<Rightarrow> None)"
definition "as_readiness r = (case r of RReadiness x \<Rightarrow> Some x | _ \<Rightarrow> None)"
definition "as_dry_run r = (case r of RDryRun x \<Rightarrow> Some x | _ \<Rightarrow> None)"
definition "as_final r = (case r of RFinal x \<Rightarrow> Some x | _ \<Rightarrow> None)"
definition "as_real r = (case r of RReal x \<Rightarrow> Some x | _ \<Rightarrow> None)"
definition "as_execute r = (case r of RExecute x \<Rightarrow> Some x | _ \<Rightarrow> None)"
definition "as_rename r = (case r of RRename x \<Rightarrow> Some x | _ \<Rightarrow> None)"
definition "as_summary r = (case r of RSummary x \<Rightarrow> Some x | _ \<Rightarrow> None)"
definition "as_export r = (case r of RExport x \<Rightarrow> Some x | _ \<Rightarrow> None)"
definition "as_worker_plan r = (case r of RWorkerPlan x \<Rightarrow> Some x | _ \<Rightarrow> None)"
definition "as_node r = (case r of RNode x \<Rightarrow> Some x | _ \<Rightarrow> None)"
definition "as_share_link r = (case r of RShareLink x \<Rightarrow> Some x | _ \<Rightarrow> None)"
definition "as_server r = (case r of RServer x \<Rightarrow> Some x | _ \<Rightarrow> None)"
definition "as_vps_bootstrap r = (case r of RVpsBootstrap x \<Rightarrow> Some x | _ \<Rightarrow> None)"
definition "as_transit_bootstrap r = (case r of RTransitBootstrap x \<Rightarrow> Some x | _ \<Rightarrow> None)"
definition "as_bbr_plan r = (case r of RBbrPlan x \<Rightarrow> Some x | _ \<Rightarrow> None)"
definition "as_bbr_dry_run r = (case r of RBbrDryRun x \<Rightarrow> Some x | _ \<Rightarrow> None)"
definition "as_bbr_real r = (case r of RBbrReal x \<Rightarrow> Some x | _ \<Rightarrow> None)"
definition "as_node_plan r = (case r of RNodePlan x \<Rightarrow> Some x | _ \<Rightarrow> None)"
definition "as_node_create r = (case r of RNodeCreate x \<Rightarrow> Some x | _ \<Rightarrow> None)"
definition "as_token r = (case r of RToken x \<Rightarrow> Some x | _ \<Rightarrow> None)"
definition "as_tasks r = (case r of RTasks x \<Rightarrow> Some x | _ \<Rightarrow> None)"
definition "as_user r = (case r of RUser x \<Rightarrow> Some x | _ \<Rightarrow> None)"
definition "as_health r = (case r of RHealth x \<Rightarrow> Some x | _ \<Rightarrow> None)"
definition "as_overview r = (case r of ROverview x \<Rightarrow> Some x | _ \<Rightarrow> None)"
definition "as_done r = (case r of RDone x \<Rightarrow> Some x | _ \<Rightarrow> None)"
definition "as_clipboard r = (case r of RClipboard x \<Rightarrow> Some x | _ \<Rightarrow> None)"

lemma as_simps [simp]:
  "as_csrf (RCsrf x1) = Some x1" "as_resources (RResources x2) = Some x2"
  "as_nodes (RNodes x3) = Some x3" "as_routes (RRoutes x4) = Some x4"
  "as_servers (RServers x5) = Some x5" "as_commands (RCommands x6) = Some x6"
  "as_command (RCommand x7) = Some x7" "as_created (RCreated x8) = Some x8"
  "as_resource (RResource x9) = Some x9" "as_install (RInstall x10) = Some x10"
  "as_cleanup (RCleanup x11) = Some x11" "as_plan (RPlan x12) = Some x12"
  "as_preflight (RPreflight x13) = Some x13" "as_readiness (RReadiness x14) = Some x14"
  "as_dry_run (RDryRun x15) = Some x15" "as_final (RFinal x16) = Some x16"
  "as_real (RReal x17) = Some x17" "as_execute (RExecute x18) = Some x18"
  "as_rename (RRename x19) = Some x19" "as_summary (RSummary x20) = Some x20"
  "as_export (RExport x21) = Some x21" "as_worker_plan (RWorkerPlan x22) = Some x22"
  "as_node (RNode x23) = Some x23" "as_share_link (RShareLink x24) = Some x24"
  "as_server (RServer x25) = Some x25" "as_vps_bootstrap (RVpsBootstrap x26) = Some x26"
  "as_transit_bootstrap (RTransitBootstrap x27) = Some x27" "as_bbr_plan (RBbrPlan x28) = Some x28"
  "as_bbr_dry_run (RBbrDryRun x29) = Some x29" "as_bbr_real (RBbrReal x30) = Some x30"
  "as_node_plan (RNodePlan x31) = Some x31" "as_node_create (RNodeCreate x32) = Some x32"
  "as_token (RToken x40) = Some x40" "as_tasks (RTasks x41) = Some x41" "as_user (RUser x42) = Some x42" "as_health (RHealth x43) = Some x43" "as_overview (ROverview x44) = Some x44" "as_done (RDone x45) = Some x45"
  "as_clipboard (RClipboard x33) = Some x33"
  by (simp_all add: as_csrf_def as_resources_def as_nodes_def as_routes_def as_servers_def
      as_commands_def as_command_def as_created_def as_resource_def as_install_def as_cleanup_def
      as_plan_def as_preflight_def as_readiness_def as_dry_run_def as_final_def as_real_def
      as_execute_def as_rename_def as_summary_def as_export_def as_worker_plan_def as_node_def
      as_share_link_def as_server_def as_vps_bootstrap_def as_transit_bootstrap_def as_bbr_plan_def
      as_bbr_dry_run_def as_bbr_real_def as_node_plan_def as_node_create_def as_clipboard_def
      as_token_def as_tasks_def as_user_def as_health_def as_overview_def as_done_def)

lemma fits [simp]:
  "\<exists>r y. as_csrf r = Some y"
  "\<exists>r y. as_resources r = Some y"
  "\<exists>r y. as_nodes r = Some y"
  "\<exists>r y. as_routes r = Some y"
  "\<exists>r y. as_servers r = Some y"
  "\<exists>r y. as_commands r = Some y"
  "\<exists>r y. as_command r = Some y"
  "\<exists>r y. as_created r = Some y"
  "\<exists>r y. as_resource r = Some y"
  "\<exists>r y. as_install r = Some y"
  "\<exists>r y. as_cleanup r = Some y"
  "\<exists>r y. as_plan r = Some y"
  "\<exists>r y. as_preflight r = Some y"
  "\<exists>r y. as_readiness r = Some y"
  "\<exists>r y. as_dry_run r = Some y"
  "\<exists>r y. as_final r = Some y"
  "\<exists>r y. as_real r = Some y"
  "\<exists>r y. as_execute r = Some y"
  "\<exists>r y. as_rename r = Some y"
  "\<exists>r y. as_summary r = Some y"
  "\<exists>r y. as_export r = Some y"
  "\<exists>r y. as_worker_plan r = Some y"
  "\<exists>r y. as_node r = Some y"
  "\<exists>r y. as_share_link r = Some y"
  "\<exists>r y. as_server r = Some y"
  "\<exists>r y. as_vps_bootstrap r = Some y"
  "\<exists>r y. as_transit_bootstrap r = Some y"
  "\<exists>r y. as_bbr_plan r = Some y"
  "\<exists>r y. as_bbr_dry_run r = Some y"
  "\<exists>r y. as_bbr_real r = Some y"
  "\<exists>r y. as_node_plan r = Some y"
  "\<exists>r y. as_node_create r = Some y"
  "\<exists>r y. as_token r = Some y"
  "\<exists>r y. as_tasks r = Some y"
  "\<exists>r y. as_user r = Some y"
  "\<exists>r y. as_health r = Some y"
  "\<exists>r y. as_overview r = Some y"
  "\<exists>r y. as_done r = Some y"
  "\<exists>r y. as_clipboard r = Some y"
  by (metis as_simps)+

subsection \<open>Tasks and acts\<close>

text \<open>What a handler asks of the outside: an API call, or a write to the clipboard.\<close>

datatype effect = Http api_request | Clipboard jsstr

text \<open>
  \<open>Call e k\<close>: the effect has been started, \<open>k\<close> is the rest of the handler; it is defined on
  the replies that fit the effect. \<open>CallAll es k\<close>: \<^verbatim>\<open>await Promise.all(es)\<close>, whose results
  are read together. \<open>EachOf xs k h\<close>: \<^verbatim>\<open>await Promise.all(xs.map(f))\<close> for an
  asynchronous \<open>f\<close> that makes one call and then updates the state or throws; after a throw
  the others go on, but nobody waits for them. \<open>Timer d alive a\<close>: a timer of \<open>d\<close>
  milliseconds, which fires unless it has been cleared in the meantime.
\<close>

datatype 's task =
    Call effect "reply_value \<Rightarrow> ('s \<Rightarrow> 's \<times> 's task list) option"
  | CallAll "effect list" "reply_value list \<Rightarrow> ('s \<Rightarrow> 's \<times> 's task list) option"
  | EachOf "(effect \<times> (reply_value \<Rightarrow> (jsstr option + ('s \<Rightarrow> 's)) option)) list"
      "'s \<Rightarrow> 's \<times> 's task list" "jsstr option \<Rightarrow> 's \<Rightarrow> 's \<times> 's task list"
  | Timer nat "'s \<Rightarrow> bool" "'s \<Rightarrow> 's \<times> 's task list"

type_synonym 's act = "'s \<Rightarrow> 's \<times> 's task list"
type_synonym 's each = "effect \<times> (reply_value \<Rightarrow> (jsstr option + ('s \<Rightarrow> 's)) option)"

definition finished :: "'s act" where
  "finished s = (s, [])"

definition unhandled :: "jsstr option \<Rightarrow> 's act" where
  "unhandled e s = (s, [])"

text \<open>\<^verbatim>\<open>await\<close> of one effect, and of an API call that may throw.\<close>

definition call :: "effect \<Rightarrow> (reply_value \<Rightarrow> 'a option) \<Rightarrow> ('a \<Rightarrow> 's act) \<Rightarrow> 's act" where
  "call e as k s = (s, [Call e (\<lambda>r. map_option k (as r))])"

definition fetch ::
  "api_request \<Rightarrow> (reply_value \<Rightarrow> 'a api_response settled option) \<Rightarrow> ('a api_response \<Rightarrow> 's act)
   \<Rightarrow> (jsstr option \<Rightarrow> 's act) \<Rightarrow> 's act" where
  "fetch q as k h =
     call (Http q) as (\<lambda>x. case x of Resolved r \<Rightarrow> k r | Rejected e \<Rightarrow> h e)"

definition call_all ::
  "effect list \<Rightarrow> (reply_value list \<Rightarrow> 'a option) \<Rightarrow> ('a \<Rightarrow> 's act) \<Rightarrow> 's act" where
  "call_all es as k s = (s, [CallAll es (\<lambda>rs. map_option k (as rs))])"

definition sleep :: "nat \<Rightarrow> 's act \<Rightarrow> 's act" where
  "sleep d k s = (s, [Timer d (\<lambda>_. True) k])"

text \<open>\<^verbatim>\<open>Promise.all\<close> of no promise does not wait.\<close>

definition each_of :: "'s each list \<Rightarrow> 's act \<Rightarrow> (jsstr option \<Rightarrow> 's act) \<Rightarrow> 's act" where
  "each_of xs k h s = (if xs = [] then k s else (s, [EachOf xs k h]))"

text \<open>\<^verbatim>\<open>void f(); rest\<close>: both leave tasks behind.\<close>

definition alongside :: "'s act \<Rightarrow> 's act \<Rightarrow> 's act" where
  "alongside f k s = (let (s1, ts) = f s; (s2, us) = k s1 in (s2, ts @ us))"

subsection \<open>The event loop\<close>

datatype event =
    Reply nat reply_value
  | ReplyAll nat "reply_value list"
  | ReplyEach nat nat reply_value
  | Fire nat

fun event_index :: "event \<Rightarrow> nat" where
  "event_index (Reply i r) = i"
| "event_index (ReplyAll i rs) = i"
| "event_index (ReplyEach i j r) = i"
| "event_index (Fire i) = i"

text \<open>A call of an abandoned \<^verbatim>\<open>Promise.all\<close>: it still updates the state.\<close>

definition detached :: "'s each \<Rightarrow> 's task" where
  "detached x =
     Call (fst x)
       (\<lambda>r. map_option (\<lambda>v s. case v of Inl e \<Rightarrow> (s, []) | Inr f \<Rightarrow> (f s, [])) (snd x r))"

definition without :: "nat \<Rightarrow> 'a list \<Rightarrow> 'a list" where
  "without j xs = take j xs @ drop (Suc j) xs"

fun resume :: "event \<Rightarrow> 's task \<Rightarrow> 's \<Rightarrow> ('s \<times> 's task list) option" where
  "resume (Reply i r) (Call e k) s = map_option (\<lambda>a. a s) (k r)"
| "resume (ReplyAll i rs) (CallAll es k) s =
     (if length rs = length es then map_option (\<lambda>a. a s) (k rs) else None)"
| "resume (ReplyEach i j r) (EachOf xs k h) s =
     (if j < length xs then
        (case snd (xs ! j) r of
           None \<Rightarrow> None
         | Some (Inr f) \<Rightarrow>
             Some (if without j xs = [] then k (f s) else (f s, [EachOf (without j xs) k h]))
         | Some (Inl e) \<Rightarrow>
             Some (fst (h e s), map detached (without j xs) @ snd (h e s)))
      else None)"
| "resume (Fire i) (Timer d alive a) s = (if alive s then Some (a s) else None)"
| "resume ev t s = None"

definition perform :: "event \<Rightarrow> 's \<times> 's task list \<Rightarrow> ('s \<times> 's task list) option" where
  "perform ev c =
     (if event_index ev < length (snd c) then
        (case resume ev (snd c ! event_index ev) (fst c) of
           None \<Rightarrow> None
         | Some (s', new) \<Rightarrow>
             Some (s', take (event_index ev) (snd c) @ new @ drop (Suc (event_index ev)) (snd c)))
      else None)"

fun run_events :: "event list \<Rightarrow> 's \<times> 's task list \<Rightarrow> ('s \<times> 's task list) option" where
  "run_events [] c = Some c"
| "run_events (ev # evs) c =
     (case perform ev c of None \<Rightarrow> None | Some c' \<Rightarrow> run_events evs c')"

lemma act_simps:
  "finished s = (s, [])"
  "unhandled e s = (s, [])"
  "call ef as k s = (s, [Call ef (\<lambda>r. map_option k (as r))])"
  "fetch q as' k' h s =
     (s, [Call (Http q) (\<lambda>r. map_option (\<lambda>x. case x of Resolved r \<Rightarrow> k' r | Rejected e \<Rightarrow> h e) (as' r))])"
  "call_all es as'' k'' s = (s, [CallAll es (\<lambda>rs. map_option k'' (as'' rs))])"
  "sleep d a s = (s, [Timer d (\<lambda>_. True) a])"
  by (simp_all add: finished_def unhandled_def call_def fetch_def call_all_def sleep_def)

lemma set_without: "set (without j xs) \<subseteq> set xs"
  by (auto simp: without_def dest: in_set_takeD in_set_dropD)

lemma length_without: "j < length xs \<Longrightarrow> length (without j xs) < length xs"
  by (simp add: without_def)

subsection \<open>Invariants of tasks\<close>

text \<open>
  A task keeps a predicate of the state if every act it can still run preserves it, whatever
  the other tasks and the user do in between.
\<close>

inductive task_keeps :: "('s \<Rightarrow> bool) \<Rightarrow> 's task \<Rightarrow> bool" for I where
  task_keeps: "(\<And>ev s s' new. resume ev t s = Some (s', new) \<Longrightarrow>
      (I s \<longrightarrow> I s') \<and> (\<forall>u \<in> set new. task_keeps I u)) \<Longrightarrow> task_keeps I t"

inductive_cases task_keepsE: "task_keeps I t"

lemma task_keepsD:
  "task_keeps I t \<Longrightarrow> resume ev t s = Some (s', new)
    \<Longrightarrow> (I s \<longrightarrow> I s') \<and> (\<forall>u \<in> set new. task_keeps I u)"
  by (elim task_keepsE) blast

text \<open>
  \<open>ok I P c\<close>: if \<open>P\<close>, the predicate holds in \<open>c\<close>; and the tasks of \<open>c\<close> keep it.
  An act that keeps the predicate satisfies \<open>ok I P (a s)\<close> whenever \<open>P\<close> implies
  \<open>I s\<close>; with \<open>P = False\<close> only the tasks count.
\<close>

definition ok :: "('s \<Rightarrow> bool) \<Rightarrow> bool \<Rightarrow> 's \<times> 's task list \<Rightarrow> bool" where
  "ok I P c \<longleftrightarrow> (P \<longrightarrow> I (fst c)) \<and> (\<forall>t \<in> set (snd c). task_keeps I t)"

named_theorems ok_intros \<open>how acts are built from acts that keep a predicate\<close>

lemma ok_pair: "(P \<longrightarrow> I s) \<Longrightarrow> (\<And>t. t \<in> set ts \<Longrightarrow> task_keeps I t) \<Longrightarrow> ok I P (s, ts)"
  by (simp add: ok_def)

lemma okD: "ok I P (s, ts) \<Longrightarrow> (P \<longrightarrow> I s) \<and> (\<forall>t \<in> set ts. task_keeps I t)"
  by (simp add: ok_def)

lemma ok_implied: "ok I P c \<Longrightarrow> (Q \<longrightarrow> P) \<Longrightarrow> ok I Q c"
  by (auto simp: ok_def)

lemma task_keeps_call:
  assumes "\<And>r a s. k r = Some a \<Longrightarrow> ok I (I s) (a s)"
  shows "task_keeps I (Call e k)"
proof (rule task_keeps.intros)
  fix ev s s' new
  assume "resume ev (Call e k) s = Some (s', new)"
  then obtain r a where "k r = Some a" "a s = (s', new)" by (cases ev) auto
  with assms [of r a s] show "(I s \<longrightarrow> I s') \<and> (\<forall>u \<in> set new. task_keeps I u)"
    by (simp add: ok_def)
qed

lemma task_keeps_call_all:
  assumes "\<And>rs a s. k rs = Some a \<Longrightarrow> ok I (I s) (a s)"
  shows "task_keeps I (CallAll es k)"
proof (rule task_keeps.intros)
  fix ev s s' new
  assume "resume ev (CallAll es k) s = Some (s', new)"
  then obtain r a where "k r = Some a" "a s = (s', new)" by (cases ev) (auto split: if_splits)
  with assms [of r a s] show "(I s \<longrightarrow> I s') \<and> (\<forall>u \<in> set new. task_keeps I u)"
    by (simp add: ok_def)
qed

lemma task_keeps_timer:
  assumes "\<And>s. ok I (I s) (a s)" shows "task_keeps I (Timer d alive a)"
proof (rule task_keeps.intros)
  fix ev s s' new
  assume "resume ev (Timer d alive a) s = Some (s', new)"
  then have "a s = (s', new)" by (cases ev) (auto split: if_splits)
  with assms [of s] show "(I s \<longrightarrow> I s') \<and> (\<forall>u \<in> set new. task_keeps I u)"
    by (simp add: ok_def)
qed

text \<open>The calls of a \<^verbatim>\<open>Promise.all\<close> update the state one by one.\<close>

definition each_keeps :: "('s \<Rightarrow> bool) \<Rightarrow> 's each \<Rightarrow> bool" where
  "each_keeps I x \<longleftrightarrow> (\<forall>r f s. snd x r = Some (Inr f) \<longrightarrow> I s \<longrightarrow> I (f s))"

lemma task_keeps_detached:
  fixes x :: "'a each"
  assumes "each_keeps I x" shows "task_keeps I (detached x)"
  unfolding detached_def
proof (rule task_keeps_call)
  fix r a s
  assume "map_option (\<lambda>v s. case v of Inl e \<Rightarrow> (s, []) | Inr f \<Rightarrow> (f s, [] :: 'a task list)) (snd x r) = Some a"
  then obtain v where v: "snd x r = Some v"
    and a: "a = (\<lambda>s. case v of Inl e \<Rightarrow> (s, []) | Inr f \<Rightarrow> (f s, [] :: 'a task list))" by auto
  have "I s \<longrightarrow> I (f s)" if "v = Inr f" for f
    using assms v that unfolding each_keeps_def by blast
  then show "ok I (I s) (a s)" by (cases v) (simp_all add: a ok_def)
qed

lemma task_keeps_each_of:
  assumes k: "\<And>P s. (P \<longrightarrow> I s) \<Longrightarrow> ok I P (k s)" and h: "\<And>e s. ok I (I s) (h e s)"
    and "\<forall>x \<in> set xs. each_keeps I x"
  shows "task_keeps I (EachOf xs k h)"
  using assms(3)
proof (induction "length xs" arbitrary: xs rule: less_induct)
  case less
  show ?case
  proof (rule task_keeps.intros)
    fix ev s s' new
    assume r: "resume ev (EachOf xs k h) s = Some (s', new)"
    then obtain i j v where j: "j < length xs" and ev: "ev = ReplyEach i j v"
      by (cases ev) (simp_all split: if_splits)
    have sub: "\<forall>x \<in> set (without j xs). each_keeps I x"
      using less(2) set_without [of j xs] by auto
    obtain y where y: "snd (xs ! j) v = Some y"
      using r j ev by (auto split: option.splits)
    show "(I s \<longrightarrow> I s') \<and> (\<forall>u \<in> set new. task_keeps I u)"
    proof (cases y)
      case (Inl e)
      then have "s' = fst (h e s)" "new = map detached (without j xs) @ snd (h e s)"
        using r ev j y by auto
      with h [of s e] sub show ?thesis by (auto simp: ok_def task_keeps_detached)
    next
      case (Inr f)
      have f: "I s \<longrightarrow> I (f s)"
        using less(2) nth_mem [OF j] y Inr unfolding each_keeps_def by blast
      show ?thesis
      proof (cases "without j xs = []")
        case True
        then have "k (f s) = (s', new)" using r ev j y Inr by simp
        with k [of "I s" "f s"] f show ?thesis by (simp add: ok_def)
      next
        case False
        then have "s' = f s" "new = [EachOf (without j xs) k h]" using r ev j y Inr by auto
        with f less(1) [of "without j xs"] sub length_without [OF j] show ?thesis by simp
      qed
    qed
  qed
qed

lemma ok_finished [ok_intros]: "(P \<longrightarrow> I s) \<Longrightarrow> ok I P (finished s)"
  by (simp add: ok_def finished_def)

lemma ok_unhandled [ok_intros]: "(P \<longrightarrow> I s) \<Longrightarrow> ok I P (unhandled e s)"
  by (simp add: ok_def unhandled_def)

lemma ok_call [ok_intros]:
  "(P \<longrightarrow> I s) \<Longrightarrow> (\<And>x Q s. (Q \<longrightarrow> I s) \<Longrightarrow> ok I Q (k x s)) \<Longrightarrow> ok I P (call e as k s)"
  by (auto simp: call_def intro!: ok_pair task_keeps_call)

lemma ok_fetch [ok_intros]:
  "(P \<longrightarrow> I s) \<Longrightarrow> (\<And>r Q s. (Q \<longrightarrow> I s) \<Longrightarrow> ok I Q (k r s))
    \<Longrightarrow> (\<And>e Q s. (Q \<longrightarrow> I s) \<Longrightarrow> ok I Q (h e s)) \<Longrightarrow> ok I P (fetch q as k h s)"
  unfolding fetch_def by (rule ok_call) (auto split: settled.split)

lemma ok_sleep [ok_intros]:
  "(P \<longrightarrow> I s) \<Longrightarrow> (\<And>Q s. (Q \<longrightarrow> I s) \<Longrightarrow> ok I Q (k s)) \<Longrightarrow> ok I P (sleep d k s)"
  by (auto simp: sleep_def intro!: ok_pair task_keeps_timer)

lemma ok_each_of [ok_intros]:
  assumes "P \<longrightarrow> I s" and "\<forall>x \<in> set xs. each_keeps I x"
    and "\<And>Q s. (Q \<longrightarrow> I s) \<Longrightarrow> ok I Q (k s)" and "\<And>e Q s. (Q \<longrightarrow> I s) \<Longrightarrow> ok I Q (h e s)"
  shows "ok I P (each_of xs k h s)"
  using assms by (auto simp: each_of_def intro!: ok_pair task_keeps_each_of)

lemma ok_call_all [ok_intros]:
  "(P \<longrightarrow> I s) \<Longrightarrow> (\<And>x Q s. (Q \<longrightarrow> I s) \<Longrightarrow> ok I Q (k x s)) \<Longrightarrow> ok I P (call_all es as k s)"
  by (auto simp: call_all_def intro!: ok_pair task_keeps_call_all)

lemma ok_alongside [ok_intros]:
  assumes "ok I P (f s)" and "\<And>Q s. (Q \<longrightarrow> I s) \<Longrightarrow> ok I Q (k s)"
  shows "ok I P (alongside f k s)"
proof -
  obtain s1 ts where f: "f s = (s1, ts)" by fastforce
  obtain s2 us where k: "k s1 = (s2, us)" by fastforce
  have "P \<longrightarrow> I s1" using assms(1) f by (simp add: ok_def)
  then have "ok I P (s2, us)" using assms(2) [of P s1] k by simp
  then show ?thesis using assms(1) f k by (auto simp: ok_def alongside_def)
qed

lemma ok_if [ok_intros]:
  "(b \<Longrightarrow> ok I P (a s)) \<Longrightarrow> (\<not> b \<Longrightarrow> ok I P (c s)) \<Longrightarrow> ok I P ((if b then a else c) s)"
  by simp

lemma perform_keeps:
  assumes "perform ev (s, ts) = Some (s', ts')" and "\<forall>t \<in> set ts. task_keeps I t"
  shows "(I s \<longrightarrow> I s') \<and> (\<forall>t \<in> set ts'. task_keeps I t)"
proof -
  let ?i = "event_index ev"
  obtain new where i: "?i < length ts" and r: "resume ev (ts ! ?i) s = Some (s', new)"
    and ts': "ts' = take ?i ts @ new @ drop (Suc ?i) ts"
    using assms(1) by (auto simp: perform_def split: if_splits option.splits)
  have "(I s \<longrightarrow> I s') \<and> (\<forall>u \<in> set new. task_keeps I u)"
    by (rule task_keepsD [OF _ r]) (use assms(2) i in simp)
  then show ?thesis
    using assms(2) ts' by (auto dest: in_set_takeD in_set_dropD)
qed

subsection \<open>Systems\<close>

text \<open>
  A panel as a whole: the user starts handlers, as far as the buttons of the current state
  allow (\<open>may\<close>), and the event loop resumes waiting tasks, in any order.
\<close>

inductive system_reach ::
  "('s \<Rightarrow> 's act \<Rightarrow> bool) \<Rightarrow> 's \<Rightarrow> 's \<times> 's task list \<Rightarrow> bool" for may and s0 where
  initial: "system_reach may s0 (s0, [])"
| started: "system_reach may s0 (s, ts) \<Longrightarrow> may s a
    \<Longrightarrow> system_reach may s0 (fst (a s), ts @ snd (a s))"
| resumed: "system_reach may s0 c \<Longrightarrow> perform ev c = Some c' \<Longrightarrow> system_reach may s0 c'"

lemma system_keeps:
  assumes "system_reach may s0 c" and "P \<longrightarrow> I s0"
    and "\<And>s a Q. may s a \<Longrightarrow> (Q \<longrightarrow> P \<and> I s) \<Longrightarrow> ok I Q (a s)"
  shows "ok I P c"
  using assms(1)
proof (induction rule: system_reach.induct)
  case initial
  show ?case using assms(2) by (simp add: ok_def)
next
  case (started s ts a)
  then have "ok I P (a s)" by (intro assms(3)) (auto simp: ok_def)
  with started show ?case by (auto simp: ok_def)
next
  case (resumed c ev c')
  then show ?case
    using perform_keeps [of ev "fst c" "snd c" "fst c'" "snd c'" I] by (simp add: ok_def)
qed

text \<open>
  Busy flags. A task \<open>frees\<close> a flag if it can always be resumed, and whenever it is resumed,
  the flag is down afterwards or one of the tasks it leaves behind frees it. If every act that
  raises the flag leaves such a task behind, and no task raises it, then a raised flag always
  belongs to a waiting task that will lower it.
\<close>

definition resumable :: "'s task \<Rightarrow> bool" where
  "resumable t \<longleftrightarrow> (\<forall>s. \<exists>ev c. resume ev t s = Some c)"

inductive frees :: "('s \<Rightarrow> bool) \<Rightarrow> 's task \<Rightarrow> bool" for busy where
  frees: "resumable t \<Longrightarrow> (\<And>ev s s' new. resume ev t s = Some (s', new) \<Longrightarrow>
      \<not> busy s' \<or> (\<exists>u \<in> set new. frees busy u)) \<Longrightarrow> frees busy t"

inductive_cases freesE: "frees busy t"

definition frees_after :: "('s \<Rightarrow> bool) \<Rightarrow> 's \<times> 's task list \<Rightarrow> bool" where
  "frees_after busy c \<longleftrightarrow> \<not> busy (fst c) \<or> (\<exists>u \<in> set (snd c). frees busy u)"

named_theorems frees_intros \<open>acts that end by lowering a flag\<close>

lemma frees_down: "\<not> busy s \<Longrightarrow> frees_after busy (s, ts)"
  by (simp add: frees_after_def)

lemma frees_task: "frees busy t \<Longrightarrow> frees_after busy (s, [t])"
  by (simp add: frees_after_def)

lemma frees_call:
  assumes "\<And>x s. frees_after busy (k x s)" and "\<exists>r y. as r = Some y"
  shows "frees_after busy (call e as k s)"
  unfolding call_def
proof (rule frees_task, rule frees.intros)
  obtain r x where r: "as r = Some x" using assms(2) by auto
  show "resumable (Call e (\<lambda>r. map_option k (as r)))"
    unfolding resumable_def
  proof
    fix s
    have "resume (Reply 0 r) (Call e (\<lambda>r. map_option k (as r))) s = Some (k x s)" by (simp add: r)
    then show "\<exists>ev c. resume ev (Call e (\<lambda>r. map_option k (as r))) s = Some c" by blast
  qed
next
  fix ev s s' new
  assume "resume ev (Call e (\<lambda>r. map_option k (as r))) s = Some (s', new)"
  then obtain x where "k x s = (s', new)" by (cases ev) auto
  with assms(1) [of x s] show "\<not> busy s' \<or> (\<exists>u \<in> set new. frees busy u)"
    by (simp add: frees_after_def)
qed

lemma frees_fetch [frees_intros]:
  "(\<And>r s. frees_after busy (k r s)) \<Longrightarrow> (\<And>e s. frees_after busy (h e s)) \<Longrightarrow> \<exists>r y. as r = Some y
    \<Longrightarrow> frees_after busy (fetch q as k h s)"
  unfolding fetch_def by (rule frees_call) (auto split: settled.split)

lemma frees_call_all:
  assumes "\<And>x s. frees_after busy (k x s)" and "\<exists>rs y. length rs = length es \<and> as rs = Some y"
  shows "frees_after busy (call_all es as k s)"
  unfolding call_all_def
proof (rule frees_task, rule frees.intros)
  obtain rs y where rs: "length rs = length es" "as rs = Some y" using assms(2) by auto
  show "resumable (CallAll es (\<lambda>rs. map_option k (as rs)))"
    unfolding resumable_def
  proof
    fix s
    have "resume (ReplyAll 0 rs) (CallAll es (\<lambda>rs. map_option k (as rs))) s = Some (k y s)"
      by (simp add: rs)
    then show "\<exists>ev c. resume ev (CallAll es (\<lambda>rs. map_option k (as rs))) s = Some c" by blast
  qed
next
  fix ev s s' new
  assume "resume ev (CallAll es (\<lambda>rs. map_option k (as rs))) s = Some (s', new)"
  then obtain x where "k x s = (s', new)" by (cases ev) (auto split: if_splits)
  with assms(1) [of x s] show "\<not> busy s' \<or> (\<exists>u \<in> set new. frees busy u)"
    by (simp add: frees_after_def)
qed

lemma frees_sleep [frees_intros]:
  assumes "\<And>s. frees_after busy (k s)" shows "frees_after busy (sleep d k s)"
  unfolding sleep_def
proof (rule frees_task, rule frees.intros)
  show "resumable (Timer d (\<lambda>_. True) k)"
    unfolding resumable_def by (metis resume.simps(4))
next
  fix ev s s' new
  assume "resume ev (Timer d (\<lambda>_. True) k) s = Some (s', new)"
  then have "k s = (s', new)" by (cases ev) auto
  with assms [of s] show "\<not> busy s' \<or> (\<exists>u \<in> set new. frees busy u)"
    by (simp add: frees_after_def)
qed

definition can_settle :: "'s each \<Rightarrow> bool" where
  "can_settle x \<longleftrightarrow> (\<exists>r. snd x r \<noteq> None)"

lemma frees_each_of_task:
  assumes "\<And>s. frees_after busy (k s)" and "\<And>e s. frees_after busy (h e s)"
    and "xs \<noteq> []" and "\<forall>x \<in> set xs. can_settle x"
  shows "frees busy (EachOf xs k h)"
  using assms(3,4)
proof (induction "length xs" arbitrary: xs rule: less_induct)
  case less
  then obtain x ys where xs: "xs = x # ys" by (cases xs) auto
  then obtain r where r: "snd x r \<noteq> None" using less(3) by (auto simp: can_settle_def)
  show ?case
  proof (rule frees.intros)
    show "resumable (EachOf xs k h)"
      unfolding resumable_def
    proof
      fix s
      have "resume (ReplyEach 0 0 r) (EachOf xs k h) s \<noteq> None"
        using r xs by (auto split: sum.split)
      then show "\<exists>ev c. resume ev (EachOf xs k h) s = Some c" by blast
    qed
  next
    fix ev s s' new
    assume a: "resume ev (EachOf xs k h) s = Some (s', new)"
    then obtain i j v where j: "j < length xs" and ev: "ev = ReplyEach i j v"
      by (cases ev) (auto split: if_splits)
    obtain y where y: "snd (xs ! j) v = Some y" using a j ev by (auto split: option.splits)
    show "\<not> busy s' \<or> (\<exists>u \<in> set new. frees busy u)"
    proof (cases y)
      case (Inl e)
      then have "s' = fst (h e s)" "new = map detached (without j xs) @ snd (h e s)"
        using a ev j y by auto
      with assms(2) [of e s] show ?thesis by (auto simp: frees_after_def)
    next
      case (Inr f)
      show ?thesis
      proof (cases "without j xs = []")
        case True
        then have "k (f s) = (s', new)" using a ev j y Inr by simp
        with assms(1) [of "f s"] show ?thesis by (simp add: frees_after_def)
      next
        case False
        then have "new = [EachOf (without j xs) k h]" using a ev j y Inr by simp
        moreover have "frees busy (EachOf (without j xs) k h)"
          using less(1) [of "without j xs"] length_without [OF j] False less(3) set_without [of j xs]
          by blast
        ultimately show ?thesis by simp
      qed
    qed
  qed
qed

lemma frees_each_of [frees_intros]:
  "(\<And>s. frees_after busy (k s)) \<Longrightarrow> (\<And>e s. frees_after busy (h e s)) \<Longrightarrow> \<forall>x \<in> set xs. can_settle x
    \<Longrightarrow> frees_after busy (each_of xs k h s)"
  by (auto simp: each_of_def intro!: frees_task frees_each_of_task)

lemma frees_alongside [frees_intros]:
  assumes "\<And>s. frees_after busy (k s)" shows "frees_after busy (alongside f k s)"
proof -
  obtain s1 ts where f: "f s = (s1, ts)" by fastforce
  obtain s2 us where k: "k s1 = (s2, us)" by fastforce
  show ?thesis using assms [of s1] f k by (auto simp: alongside_def frees_after_def)
qed

lemma frees_if [frees_intros]:
  "(b \<Longrightarrow> frees_after busy (a s)) \<Longrightarrow> (\<not> b \<Longrightarrow> frees_after busy (c s))
    \<Longrightarrow> frees_after busy ((if b then a else c) s)"
  by simp

lemma perform_frees:
  assumes "perform ev (s, ts) = Some (s', ts')" and "frees_after busy (s, ts)"
    and "\<forall>t \<in> set ts. task_keeps (\<lambda>s. \<not> busy s) t"
  shows "frees_after busy (s', ts')"
proof -
  let ?i = "event_index ev"
  obtain new where i: "?i < length ts" and r: "resume ev (ts ! ?i) s = Some (s', new)"
    and ts': "ts' = take ?i ts @ new @ drop (Suc ?i) ts"
    using assms(1) by (auto simp: perform_def split: if_splits option.splits)
  show ?thesis
  proof (cases "busy s")
    case False
    then show ?thesis using perform_keeps [OF assms(1,3)] by (simp add: frees_after_def)
  next
    case True
    then obtain u where u: "u \<in> set ts" "frees busy u"
      using assms(2) by (auto simp: frees_after_def)
    have "set ts = set (take ?i ts @ ts ! ?i # drop (Suc ?i) ts)"
      using id_take_nth_drop [OF i] by simp
    then consider "u = ts ! ?i" | "u \<in> set (take ?i ts) \<union> set (drop (Suc ?i) ts)"
      using u(1) by auto
    then show ?thesis
    proof cases
      case 1
      then have "\<not> busy s' \<or> (\<exists>u \<in> set new. frees busy u)"
        using u(2) r by (elim freesE) blast
      then show ?thesis using ts' by (auto simp: frees_after_def)
    next
      case 2
      then show ?thesis using u(2) ts' by (auto simp: frees_after_def)
    qed
  qed
qed

lemma system_frees:
  assumes "system_reach may s0 c" and "\<not> busy s0"
    and acts: "\<And>s a. may s a \<Longrightarrow> \<not> busy s \<Longrightarrow> frees_after busy (a s)"
    and tasks: "\<And>s a. may s a \<Longrightarrow> ok (\<lambda>s. \<not> busy s) False (a s)"
  shows "frees_after busy c"
proof -
  have "frees_after busy c \<and> ok (\<lambda>s. \<not> busy s) False c"
    using assms(1)
  proof (induction rule: system_reach.induct)
    case initial
    show ?case using assms(2) by (simp add: frees_after_def ok_def)
  next
    case (started s ts a)
    have "frees_after busy (fst (a s), ts @ snd (a s))"
    proof (cases "busy s")
      case True
      then show ?thesis using started by (auto simp: frees_after_def)
    next
      case False
      then show ?thesis using acts [OF started(2)] by (auto simp: frees_after_def)
    qed
    then show ?case using started tasks [OF started(2)] by (auto simp: ok_def)
  next
    case (resumed c ev c')
    obtain s ts s' ts' where c: "c = (s, ts)" "c' = (s', ts')" by fastforce
    then have k: "\<forall>t \<in> set ts. task_keeps (\<lambda>s. \<not> busy s) t" using resumed(3) by (simp add: ok_def)
    show ?case
      using perform_frees [of ev s ts s' ts' busy] perform_keeps [of ev s ts s' ts' "\<lambda>s. \<not> busy s"]
        resumed k c by (simp add: ok_def)
  qed
  then show ?thesis ..
qed

lemma system_act:
  assumes "system_reach may s0 (s, [])" and "may s a" and "a s = c"
  shows "system_reach may s0 c"
  using system_reach.started [of may s0 s "[]" a] assms by simp

lemma system_run:
  assumes "system_reach may s0 c" and "run_events evs c = Some c'"
  shows "system_reach may s0 c'"
  using assms
proof (induction evs arbitrary: c)
  case (Cons ev evs)
  then show ?case by (auto split: option.splits intro: system_reach.resumed)
qed simp

subsection \<open>Runs come to an end\<close>

text \<open>
  \<open>follows\<close> relates a task to the tasks that resuming it can leave behind. It is well
  founded, so that without new input the event loop runs dry, in whatever order and with
  whatever replies the tasks are resumed.
\<close>

definition follows :: "('s task \<times> 's task) set" where
  "follows = {(u, t). \<exists>ev s s' new. resume ev t s = Some (s', new) \<and> u \<in> set new}"

abbreviation settles :: "'s task \<Rightarrow> bool" where
  "settles t \<equiv> t \<in> Wellfounded.acc follows"

lemma settlesI:
  "(\<And>ev s s' new u. resume ev t s = Some (s', new) \<Longrightarrow> u \<in> set new \<Longrightarrow> settles u) \<Longrightarrow> settles t"
  by (rule accI) (auto simp: follows_def)

lemma resume_detached: "resume ev (detached x) s = Some (s', new) \<Longrightarrow> new = []"
  by (cases ev) (auto simp: detached_def split: sum.splits)

lemma settles_detached: "settles (detached x)"
  by (rule settlesI) (auto dest: resume_detached)

lemma settles_each_of:
  assumes "\<And>s u. u \<in> set (snd (k s)) \<Longrightarrow> settles u"
    and "\<And>e s u. u \<in> set (snd (h e s)) \<Longrightarrow> settles u"
  shows "settles (EachOf xs k h)"
proof (induction "length xs" arbitrary: xs rule: less_induct)
  case less
  show ?case
  proof (rule settlesI)
    fix ev s s' new u
    assume r: "resume ev (EachOf xs k h) s = Some (s', new)" and u: "u \<in> set new"
    then obtain i j v where j: "j < length xs" and ev: "ev = ReplyEach i j v"
      by (cases ev) (auto split: if_splits)
    have rest: "settles (EachOf (without j xs) k h)"
      using less length_without [OF j] by blast
    obtain y where y: "snd (xs ! j) v = Some y"
      using r j ev by (auto split: option.splits)
    show "settles u"
    proof (cases y)
      case (Inl e)
      then have "u \<in> set (map detached (without j xs)) \<or> u \<in> set (snd (h e s))"
        using r ev j y u by auto
      then show ?thesis using assms(2) settles_detached by auto
    next
      case (Inr f)
      then show ?thesis
        using r ev j y u rest assms(1) [of u "f s"] by (auto split: if_splits)
    qed
  qed
qed

lemma all_settle: "settles t"
proof (induction t)
  case (Call e k)
  show ?case
  proof (rule settlesI)
    fix ev s s' new u
    assume "resume ev (Call e k) s = Some (s', new)" and u: "u \<in> set new"
    then obtain r a where "k r = Some a" "a s = (s', new)" by (cases ev) auto
    with u Call show "settles u" by (metis option.set_intros rangeI snds.intros snd_conv)
  qed
next
  case (CallAll es k)
  show ?case
  proof (rule settlesI)
    fix ev s s' new u
    assume "resume ev (CallAll es k) s = Some (s', new)" and u: "u \<in> set new"
    then obtain r a where "k r = Some a" "a s = (s', new)" by (cases ev) (auto split: if_splits)
    with u CallAll show "settles u" by (metis option.set_intros rangeI snds.intros snd_conv)
  qed
next
  case (EachOf xs k h)
  show ?case
    by (rule settles_each_of) (use EachOf in \<open>metis rangeI snds.intros prod.collapse\<close>)+
next
  case (Timer d alive a)
  show ?case
  proof (rule settlesI)
    fix ev s s' new u
    assume "resume ev (Timer d alive a) s = Some (s', new)" and u: "u \<in> set new"
    then have "a s = (s', new)" by (cases ev) (auto split: if_splits)
    with u Timer show "settles u" by (metis rangeI snds.intros snd_conv)
  qed
qed

lemma wf_follows: "wf follows"
  unfolding wf_iff_acc using all_settle by blast

definition loop_step :: "(('s \<times> 's task list) \<times> ('s \<times> 's task list)) set" where
  "loop_step = {(c', c). \<exists>ev. perform ev c = Some c'}"

theorem event_loop_terminates: "wf loop_step"
proof -
  have "loop_step \<subseteq> inv_image (mult follows) (\<lambda>c. mset (snd c))"
  proof (rule subsetI, clarify)
    fix s' :: 's and ts' :: "'s task list" and s :: 's and ts :: "'s task list"
    assume "((s', ts'), s, ts) \<in> loop_step"
    then obtain ev new where i: "event_index ev < length ts"
      and r: "resume ev (ts ! event_index ev) s = Some (s', new)"
      and ts': "ts' = take (event_index ev) ts @ new @ drop (Suc (event_index ev)) ts"
      by (auto simp: loop_step_def perform_def split: if_splits option.splits)
    let ?rest = "mset (take (event_index ev) ts) + mset (drop (Suc (event_index ev)) ts)"
    have "mset ts = ?rest + {#ts ! event_index ev#}"
      by (subst id_take_nth_drop [OF i]) simp
    moreover have "mset ts' = ?rest + mset new" by (simp add: ts')
    moreover have "\<forall>u \<in># mset new. (u, ts ! event_index ev) \<in> follows"
      using r by (auto simp: follows_def)
    ultimately have "(mset ts', mset ts) \<in> mult follows"
      by (metis empty_not_add_mset in_diff_count add.commute one_step_implies_mult
          set_mset_single singletonI insert_iff)
    then show "((s', ts'), s, ts) \<in> inv_image (mult follows) (\<lambda>c. mset (snd c))" by simp
  qed
  then show ?thesis by (rule wf_subset [OF wf_inv_image [OF wf_mult [OF wf_follows]]])
qed

subsection \<open>Counting\<close>

text \<open>
  \<open>at_most P n t\<close>: however \<open>t\<close> and what it leaves behind are resumed, at most \<open>n\<close> of
  the resumed tasks satisfy \<open>P\<close>.
\<close>

inductive at_most :: "('s task \<Rightarrow> bool) \<Rightarrow> nat \<Rightarrow> 's task \<Rightarrow> bool" for P where
  at_most: "(\<And>ev s s' new. resume ev t s = Some (s', new) \<Longrightarrow>
      \<exists>ns. list_all2 (at_most P) ns new \<and> sum_list ns + of_bool (P t) \<le> n) \<Longrightarrow> at_most P n t"

inductive_cases at_mostE: "at_most P n t"

definition counted :: "('s task \<Rightarrow> bool) \<Rightarrow> nat \<Rightarrow> 's \<times> 's task list \<Rightarrow> bool" where
  "counted P n c \<longleftrightarrow> (\<exists>ns. list_all2 (at_most P) ns (snd c) \<and> sum_list ns \<le> n)"

fun performed :: "('s task \<Rightarrow> bool) \<Rightarrow> event list \<Rightarrow> 's \<times> 's task list \<Rightarrow> nat" where
  "performed P [] c = 0"
| "performed P (ev # evs) c =
     (case perform ev c of
        None \<Rightarrow> 0
      | Some c' \<Rightarrow> of_bool (P (snd c ! event_index ev)) + performed P evs c')"

lemma performed_bound:
  "list_all2 (at_most P) ns ts \<Longrightarrow> performed P evs (s, ts) \<le> sum_list ns"
proof (induction evs arbitrary: s ts ns)
  case (Cons ev evs)
  let ?i = "event_index ev"
  show ?case
  proof (cases "perform ev (s, ts)")
    case (Some c')
    then obtain s' new where i: "?i < length ts" and r: "resume ev (ts ! ?i) s = Some (s', new)"
      and c': "c' = (s', take ?i ts @ new @ drop (Suc ?i) ts)"
      by (auto simp: perform_def split: if_splits option.splits)
    have "at_most P (ns ! ?i) (ts ! ?i)"
      using Cons.prems i by (simp add: list_all2_conv_all_nth)
    then obtain ms where ms: "list_all2 (at_most P) ms new"
      and le: "sum_list ms + of_bool (P (ts ! ?i)) \<le> ns ! ?i"
      using r by (elim at_mostE) blast
    have "list_all2 (at_most P) (take ?i ns @ ms @ drop (Suc ?i) ns) (snd c')"
      using Cons.prems ms c' by (auto intro!: list_all2_appendI list_all2_takeI list_all2_dropI)
    then have "performed P evs c' \<le> sum_list (take ?i ns @ ms @ drop (Suc ?i) ns)"
      using Cons.IH c' by (metis snd_conv)
    moreover have "sum_list ns = sum_list (take ?i ns) + (ns ! ?i + sum_list (drop (Suc ?i) ns))"
      using i Cons.prems id_take_nth_drop [of ?i ns]
      by (metis list_all2_lengthD sum_list.append sum_list.Cons)
    ultimately show ?thesis using Some le by simp
  qed simp
qed simp

lemma performed_counted: "counted P n c \<Longrightarrow> performed P evs c \<le> n"
  using performed_bound [of P _ "snd c" evs "fst c"] unfolding counted_def
  by (metis order_trans prod.collapse)

lemma counted_mono: "counted P m c \<Longrightarrow> m \<le> n \<Longrightarrow> counted P n c"
  unfolding counted_def by (meson order_trans)

lemma counted_nothing: "counted P n (finished s)" "counted P n (unhandled e s)"
  by (auto simp: counted_def finished_def unhandled_def)

lemma countedD:
  assumes "counted P n (s', new)"
  obtains ns where "list_all2 (at_most P) ns new" and "sum_list ns \<le> n"
  using assms unfolding counted_def by (metis snd_conv)

lemma counted_one: "at_most P n t \<Longrightarrow> counted P n (s, [t])"
  unfolding counted_def by (rule exI [of _ "[n]"]) simp

lemma at_most_mono: "at_most P m t \<Longrightarrow> m \<le> n \<Longrightarrow> at_most P n t"
proof (elim at_mostE, rule at_most.intros)
  fix ev s s' new
  assume "m \<le> n" and "resume ev t s = Some (s', new)"
    and "\<And>ev s s' new. resume ev t s = Some (s', new) \<Longrightarrow>
      \<exists>ns. list_all2 (at_most P) ns new \<and> sum_list ns + of_bool (P t) \<le> m"
  then obtain ns where "list_all2 (at_most P) ns new" "sum_list ns + of_bool (P t) \<le> m"
    by blast
  with \<open>m \<le> n\<close>
  show "\<exists>ns. list_all2 (at_most P) ns new \<and> sum_list ns + of_bool (P t) \<le> n"
    by (intro exI [of _ ns]) simp
qed

lemma at_most_call:
  assumes "\<And>r a s. k r = Some a \<Longrightarrow> counted P n (a s)" and "\<And>f. P (Call e f) \<Longrightarrow> c = 1"
  shows "at_most P (c + n) (Call e k)"
proof (rule at_most.intros)
  fix ev s s' new
  assume "resume ev (Call e k) s = Some (s', new)"
  then obtain r a where "k r = Some a" "a s = (s', new)" by (cases ev) auto
  then have "counted P n (s', new)" using assms(1) by metis
  then obtain ns where "list_all2 (at_most P) ns new" "sum_list ns \<le> n" by (rule countedD)
  moreover have "of_bool (P (Call e k)) \<le> c" using assms(2) by auto
  ultimately show "\<exists>ns. list_all2 (at_most P) ns new \<and> sum_list ns + of_bool (P (Call e k)) \<le> c + n"
    by (intro exI [of _ ns]) simp
qed

lemma counted_call:
  assumes "\<And>x s. counted P n (k x s)" and "\<And>f. P (Call e f) \<Longrightarrow> c = 1"
  shows "counted P (c + n) (call e as k s)"
  unfolding call_def using assms by (intro counted_one at_most_call) auto

lemma counted_fetch:
  assumes "\<And>r s. counted P n (k r s)" and "\<And>e s. counted P n (h e s)"
    and "\<And>f. P (Call (Http q) f) \<Longrightarrow> c = 1"
  shows "counted P (c + n) (fetch q as k h s)"
  unfolding fetch_def by (rule counted_call) (use assms in \<open>auto split: settled.split\<close>)

lemma counted_call_all:
  assumes "\<And>x s. counted P n (k x s)" and "\<And>f. \<not> P (CallAll es f)"
  shows "counted P n (call_all es as k s)"
  unfolding call_all_def
proof (rule counted_one, rule at_most.intros)
  fix ev s1 s' new
  assume "resume ev (CallAll es (\<lambda>rs. map_option k (as rs))) s1 = Some (s', new)"
  then obtain x where "k x s1 = (s', new)" by (cases ev) (auto split: if_splits)
  then have "counted P n (s', new)" using assms(1) by metis
  then obtain ns where "list_all2 (at_most P) ns new" "sum_list ns \<le> n" by (rule countedD)
  then show "\<exists>ns. list_all2 (at_most P) ns new
      \<and> sum_list ns + of_bool (P (CallAll es (\<lambda>rs. map_option k (as rs)))) \<le> n"
    using assms(2) by (intro exI [of _ ns]) simp
qed

lemma counted_sleep:
  assumes "\<And>s. counted P n (k s)" and "\<And>alive a. P (Timer d alive a) \<Longrightarrow> c = 1"
  shows "counted P (c + n) (sleep d k s)"
  unfolding sleep_def
proof (rule counted_one, rule at_most.intros)
  fix ev and s1 s' :: 'a and new
  assume "resume ev (Timer d (\<lambda>_. True) k) s1 = Some (s', new)"
  then have "k s1 = (s', new)" by (cases ev) auto
  then have "counted P n (s', new)" using assms(1) by metis
  then obtain ns where "list_all2 (at_most P) ns new" "sum_list ns \<le> n" by (rule countedD)
  moreover have "of_bool (P (Timer d (\<lambda>_. True) k)) \<le> c" using assms(2) by auto
  ultimately show "\<exists>ns. list_all2 (at_most P) ns new
      \<and> sum_list ns + of_bool (P (Timer d (\<lambda>_. True) k)) \<le> c + n"
    by (intro exI [of _ ns]) simp
qed

lemma list_all2_zeros:
  "(\<And>u. u \<in> set us \<Longrightarrow> at_most P 0 u) \<Longrightarrow> \<exists>ns. list_all2 (at_most P) ns us \<and> sum_list ns = 0"
  by (rule exI [of _ "replicate (length us) 0"]) (simp add: list_all2_conv_all_nth)

lemma count_detached:
  assumes "\<And>f. \<not> P (Call (fst x) f)" shows "at_most P 0 (detached x)"
proof (rule at_most.intros)
  fix ev s s' new
  assume "resume ev (detached x) s = Some (s', new)"
  then have "new = []" by (rule resume_detached)
  moreover have "\<not> P (detached x)" using assms by (simp add: detached_def)
  ultimately show "\<exists>ns. list_all2 (at_most P) ns new \<and> sum_list ns + of_bool (P (detached x)) \<le> 0"
    by simp
qed

lemma count_each_of_task:
  assumes "\<And>s. counted P n (k s)" and "\<And>e s. counted P n (h e s)"
    and "\<And>xs. \<not> P (EachOf xs k h)" and "\<And>x f. x \<in> set xs \<Longrightarrow> \<not> P (Call (fst x) f)"
  shows "at_most P n (EachOf xs k h)"
  using assms(4)
proof (induction "length xs" arbitrary: xs rule: less_induct)
  case less
  show ?case
  proof (rule at_most.intros)
    fix ev s s' new
    assume r: "resume ev (EachOf xs k h) s = Some (s', new)"
    then obtain i j v where j: "j < length xs" and ev: "ev = ReplyEach i j v"
      by (cases ev) (auto split: if_splits)
    have sub: "x \<in> set xs" if "x \<in> set (without j xs)" for x
      using that set_without by fastforce
    have rest: "at_most P n (EachOf (without j xs) k h)"
      using less sub length_without [OF j] by blast
    obtain y where y: "snd (xs ! j) v = Some y"
      using r j ev by (auto split: option.splits)
    have "\<exists>ns. list_all2 (at_most P) ns new \<and> sum_list ns \<le> n"
    proof (cases y)
      case (Inl e)
      obtain ms where ms: "list_all2 (at_most P) ms (map detached (without j xs))" "sum_list ms = 0"
      proof -
        have "at_most P 0 u" if "u \<in> set (map detached (without j xs))" for u
          using that less(2) sub count_detached by (metis (no_types, lifting) imageE list.set_map)
        from list_all2_zeros [OF this] show ?thesis using that by blast
      qed
      obtain ns where "list_all2 (at_most P) ns (snd (h e s))" "sum_list ns \<le> n"
        using assms(2) [of e s] unfolding counted_def by blast
      moreover from this have "sum_list (ms @ ns) \<le> n" unfolding sum_list.append ms(2) by simp
      moreover have "new = map detached (without j xs) @ snd (h e s)" using r ev j y Inl by auto
      ultimately show ?thesis using ms(1) list_all2_appendI by blast
    next
      case (Inr f)
      show ?thesis
      proof (cases "without j xs = []")
        case True
        then have "new = snd (k (f s))" using r ev j y Inr by simp
        then show ?thesis using assms(1) [of "f s"] unfolding counted_def by blast
      next
        case False
        then have "new = [EachOf (without j xs) k h]" using r ev j y Inr by simp
        then show ?thesis using rest by (intro exI [of _ "[n]"]) simp
      qed
    qed
    then show "\<exists>ns. list_all2 (at_most P) ns new \<and> sum_list ns + of_bool (P (EachOf xs k h)) \<le> n"
      using assms(3) by simp
  qed
qed

lemma counted_each_of:
  assumes "\<And>s. counted P n (k s)" and "\<And>e s. counted P n (h e s)"
    and "\<And>xs. \<not> P (EachOf xs k h)" and "\<And>x f. x \<in> set xs \<Longrightarrow> \<not> P (Call (fst x) f)"
  shows "counted P n (each_of xs k h s)"
  using count_each_of_task [of P n k h xs] assms by (auto simp: each_of_def intro: counted_one)

lemma counted_alongside:
  assumes "counted P m (f s)" and "\<And>s. counted P n (k s)"
  shows "counted P (m + n) (alongside f k s)"
proof -
  obtain s1 ts where f: "f s = (s1, ts)" by fastforce
  obtain s2 us where k: "k s1 = (s2, us)" by fastforce
  obtain ms where ms: "list_all2 (at_most P) ms ts" "sum_list ms \<le> m"
    using assms(1) f by (metis countedD)
  obtain ns where ns: "list_all2 (at_most P) ns us" "sum_list ns \<le> n"
    using assms(2) k by (metis countedD)
  have "list_all2 (at_most P) (ms @ ns) (snd (alongside f k s)) \<and> sum_list (ms @ ns) \<le> m + n"
    using f k ms ns by (auto simp: alongside_def intro: list_all2_appendI)
  then show ?thesis unfolding counted_def by blast
qed

end
