(* ===== verification/TransitHelpers.thy ===== *)
theory TransitHelpers
  imports Async
begin

text \<open>
  The types, constants and helper functions at the head of \<^verbatim>\<open>TransitRoutesPanel.tsx\<close>, which
  both of its panels share: labels, ports and numbers, the draft of a transit resource and the
  payload made from it, the search for a listen port that is already taken, and the two
  asynchronous helpers. \<^verbatim>\<open>Date.parse\<close> and \<^verbatim>\<open>toISOString\<close> depend on the engine and
  are parameters; a time is a number of milliseconds.
\<close>

subsection \<open>Types\<close>

datatype protocol_hint = HintHaproxy | HintSocat | HintUnknown

fun hint_text :: "protocol_hint \<Rightarrow> jsstr" where
  "hint_text HintHaproxy = (js ''haproxy_tcp'')"
| "hint_text HintSocat = (js ''socat'')"
| "hint_text HintUnknown = (js ''unknown'')"

record resource_form =
  tf_name :: jsstr
  tf_provider :: jsstr
  tf_entryHost :: jsstr
  tf_sshHost :: jsstr
  tf_sshPort :: jsstr
  tf_sshUsername :: jsstr
  tf_entryRegion :: jsstr
  tf_exitRegion :: jsstr
  tf_bandwidthMbps :: jsstr
  tf_trafficLimitGb :: jsstr
  tf_plannedInterface :: jsstr
  tf_protocolHint :: protocol_hint
  tf_hasSsh :: bool
  tf_notes :: jsstr

text \<open>\<^verbatim>\<open>TransitForwardingMethod\<close>; a route is created with one of two of them.\<close>

datatype forwarding = Socat | Gost | HaproxyTcp
datatype create_forwarding = CreateSocat | CreateHaproxy

fun forwarding_text :: "forwarding \<Rightarrow> jsstr" where
  "forwarding_text Socat = (js ''socat'')"
| "forwarding_text Gost = (js ''gost'')"
| "forwarding_text HaproxyTcp = (js ''haproxy_tcp'')"

fun create_forwarding_text :: "create_forwarding \<Rightarrow> jsstr" where
  "create_forwarding_text CreateSocat = (js ''socat'')"
| "create_forwarding_text CreateHaproxy = (js ''haproxy_tcp'')"

record route_draft =
  rd_transitResourceId :: jsstr
  rd_landingNodeId :: jsstr
  rd_plannedListenPort :: jsstr
  rd_forwardingMethod :: forwarding
  rd_purpose :: jsstr

record create_form =
  cf_routeName :: jsstr
  cf_transitResourceId :: jsstr
  cf_landingNodeId :: jsstr
  cf_listenPort :: jsstr
  cf_forwardingMethod :: create_forwarding
  cf_firewallConfirmed :: bool

datatype create_step =
    StepIdle
  | StepPreflightCreate
  | StepPreflightRunning
  | StepCommandCreate
  | StepCommandRunning
  | StepRealCreateConfirm
  | StepRefresh
  | StepExportLink
  | StepComplete
  | StepFailed

datatype delete_mode = RemoteCleanup | OfflineLocalRemove
datatype install_mode = InstallWorker | UpgradeWorker

record install_context =
  ix_mode :: install_mode
  ix_targetWorkerVersion :: jsstr
  ix_generatedAt :: jsstr
  ix_interfaceName :: jsstr

record haproxy_context =
  hx_transitResourceId :: jsstr
  hx_landingNodeId :: jsstr
  hx_dryRun :: haproxy_dry_run
  hx_finalApproval :: final_approval

record readiness_confirmations =
  hc_securityGroup :: bool
  hc_cloudFirewall :: bool
  hc_serverFirewall :: bool
  hc_noCutover :: bool
  hc_noShareLinkMutation :: bool
  hc_noFullClientLink :: bool

definition emptyHaproxyReadinessConfirmations :: readiness_confirmations where
  "emptyHaproxyReadinessConfirmations =
     \<lparr>hc_securityGroup = False, hc_cloudFirewall = False, hc_serverFirewall = False,
      hc_noCutover = False, hc_noShareLinkMutation = False, hc_noFullClientLink = False\<rparr>"

subsection \<open>Constants\<close>

definition HAPROXY_FINAL_APPROVAL_TEXT :: jsstr where
  "HAPROXY_FINAL_APPROVAL_TEXT = (js ''CONFIRM_HAPROXY_ROUTE_CREATE_FINAL_APPROVAL_ONLY'')"

definition HAPROXY_REAL_EXECUTION_TEXT :: jsstr where
  "HAPROXY_REAL_EXECUTION_TEXT = (js ''CONFIRM_REAL_HAPROXY_ROUTE_CREATE_23843'')"

definition CURRENT_WORKER_INSTALL_VERSION :: jsstr where
  "CURRENT_WORKER_INSTALL_VERSION = (js ''0.1.41-stage-3.3.206-bbr-sysctl-sandbox-fix'')"

definition requiredTransitWorkerVersion :: jsstr where
  "requiredTransitWorkerVersion = CURRENT_WORKER_INSTALL_VERSION"

definition transitWorkerInstallCommandConfirmText :: jsstr where
  "transitWorkerInstallCommandConfirmText = (js ''CONFIRM_REAL_WORKER_INSTALL_COMMAND_GENERATION_NEXT_STAGE'')"

definition approvedTransitRouteName :: jsstr where
  "approvedTransitRouteName = (js ''hk-socat-live-23843'')"

definition approvedTransitListenPort :: int where
  "approvedTransitListenPort = 23843"

definition approvedTransitRealCreateStage :: jsstr where
  "approvedTransitRealCreateStage = (js ''Stage 3.3.73d-transit-route-real-create-code-path'')"

definition transitCreateTerminalStatuses :: "jsstr list" where
  "transitCreateTerminalStatuses = [(js ''succeeded''), (js ''failed''), (js ''cancelled''), (js ''expired'')]"

definition cleanupCommandTerminalStatuses :: "jsstr list" where
  "cleanupCommandTerminalStatuses = [(js ''succeeded''), (js ''failed''), (js ''cancelled''), (js ''timeout''), (js ''expired'')]"

definition cleanupCommandPollIntervalMs :: nat where "cleanupCommandPollIntervalMs = 2000"
definition cleanupCommandMaxPolls :: nat where "cleanupCommandMaxPolls = 30"
definition workerInstallPollIntervalMs :: nat where "workerInstallPollIntervalMs = 3000"
definition workerInstallMaxPolls :: nat where "workerInstallMaxPolls = 60"
definition workerCommandNotFoundRetryMs :: int where "workerCommandNotFoundRetryMs = 30000"

definition emptyTransitResourceDraftForm :: resource_form where
  "emptyTransitResourceDraftForm =
     \<lparr>tf_name = [], tf_provider = [], tf_entryHost = [], tf_sshHost = [], tf_sshPort = (js ''22''),
      tf_sshUsername = (js ''root''), tf_entryRegion = [], tf_exitRegion = [], tf_bandwidthMbps = [],
      tf_trafficLimitGb = [], tf_plannedInterface = (js ''eth0''), tf_protocolHint = HintHaproxy,
      tf_hasSsh = False, tf_notes = []\<rparr>"

definition emptyRouteDraft :: route_draft where
  "emptyRouteDraft =
     \<lparr>rd_transitResourceId = [], rd_landingNodeId = [], rd_plannedListenPort = (js ''23843''),
      rd_forwardingMethod = Socat, rd_purpose = (uni ''%u76F4%u64AD'')\<rparr>"

definition emptyRouteCreateForm :: create_form where
  "emptyRouteCreateForm =
     \<lparr>cf_routeName = approvedTransitRouteName, cf_transitResourceId = [], cf_landingNodeId = [],
      cf_listenPort = string_of_int approvedTransitListenPort, cf_forwardingMethod = CreateSocat,
      cf_firewallConfirmed = False\<rparr>"

subsection \<open>Deletion modes\<close>

definition isOfflineLocalRemoveOffer :: "jsval option \<Rightarrow> bool" where
  "isOfflineLocalRemoveOffer data =
     (case data of
        Some (JObj kvs) \<Rightarrow>
          (js ''offline_local_remove_available'') \<in> fst ` set kvs
          \<and> truthy (entry kvs (js ''offline_local_remove_available''))
      | _ \<Rightarrow> False)"

fun requiredDeleteConfirmText :: "delete_mode \<Rightarrow> jsstr" where
  "requiredDeleteConfirmText OfflineLocalRemove = OFFLINE_LOCAL_REMOVE_CONFIRM_TEXT"
| "requiredDeleteConfirmText RemoteCleanup = REMOTE_CLEANUP_CONFIRM_TEXT"

subsection \<open>The browser\<close>

text \<open>
  What the panels ask of the engine: \<^verbatim>\<open>Date.parse\<close> (\<open>None\<close> is \<^verbatim>\<open>NaN\<close>),
  \<^verbatim>\<open>toISOString\<close>, \<^verbatim>\<open>Number\<close> on a text (\<open>None\<close> unless it denotes a finite
  integral number), and whether there is a clipboard.
\<close>

type_synonym date_reader = "jsstr \<Rightarrow> int option"

record browser =
  br_date_parse :: date_reader
  br_to_iso :: "int \<Rightarrow> jsstr"
  br_to_number :: "jsstr \<Rightarrow> int option"
  br_clipboard :: bool

subsection \<open>Interface names and times\<close>

definition defaultWorkerInterfaceName :: "jsstr option \<Rightarrow> jsstr" where
  "defaultWorkerInterfaceName v =
     (case v of None \<Rightarrow> (js ''eth0'') | Some s \<Rightarrow> or_str (trim s) (js ''eth0''))"

definition interface_unit :: "u16 \<Rightarrow> bool" where
  "interface_unit c \<longleftrightarrow> is_alpha c \<or> is_digit c \<or> c = 95 \<or> c = 46 \<or> c = 45"

definition isValidWorkerInterfaceName :: "jsstr \<Rightarrow> bool" where
  "isValidWorkerInterfaceName v \<longleftrightarrow>
     trim v \<noteq> [] \<and> length (trim v) \<le> 80 \<and> list_all interface_unit (trim v)"

definition timestampAtOrAfter :: "date_reader \<Rightarrow> jsstr option \<Rightarrow> jsstr option \<Rightarrow> bool" where
  "timestampAtOrAfter date_parse v baseline =
     (case (date_parse (nullish v []), date_parse (nullish baseline [])) of
        (Some a, Some b) \<Rightarrow> b \<le> a
      | _ \<Rightarrow> False)"

definition generatedAtFromExpiry ::
  "date_reader \<Rightarrow> (int \<Rightarrow> jsstr) \<Rightarrow> int \<Rightarrow> jsstr option \<Rightarrow> int option \<Rightarrow> jsstr" where
  "generatedAtFromExpiry date_parse to_iso now expiresAt expiresInMinutes =
     (case (date_parse (nullish expiresAt []), expiresInMinutes) of
        (Some ms, Some m) \<Rightarrow> if m = 0 then to_iso now else to_iso (ms - m * 60000)
      | _ \<Rightarrow> to_iso now)"

subsection \<open>Labels\<close>

definition forwardingMethodLabel :: "jsstr option \<Rightarrow> jsstr" where
  "forwardingMethodLabel method =
     (if method = Some (js ''haproxy_tcp'') then (js ''HAProxy TCP mode'')
      else if method = Some (js ''socat'') then (js ''socat'')
      else if method = Some (js ''gost'') then (js ''gost'')
      else or_str (nullish method []) (js ''-''))"

definition isHaproxyForwardingMethod :: "jsstr option \<Rightarrow> bool" where
  "isHaproxyForwardingMethod method =
     (let cleaned = map (\<lambda>c. if c = 45 then 95 else c) (to_lower (trim (nullish method [])))
      in cleaned = (js ''haproxy'') \<or> cleaned = (js ''haproxy_tcp''))"

definition defaultTransitRouteName :: "create_forwarding \<Rightarrow> jsstr \<Rightarrow> jsstr" where
  "defaultTransitRouteName method listenPort =
     (let cleanedPort = or_str (trim listenPort) (string_of_int approvedTransitListenPort)
      in if method = CreateHaproxy then (js ''haproxy-tcp-'') @ cleanedPort else approvedTransitRouteName)"

fun transitRouteCreateProgressLabels :: "create_step \<Rightarrow> jsstr" where
  "transitRouteCreateProgressLabels StepIdle = (uni ''%u51C6%u5907%u4E2D'')"
| "transitRouteCreateProgressLabels StepPreflightCreate = (uni ''%u521B%u5EFA%u53EA%u8BFB%u9884%u68C0'')"
| "transitRouteCreateProgressLabels StepPreflightRunning = (uni ''%u9884%u68C0%u4E2D'')"
| "transitRouteCreateProgressLabels StepCommandCreate = (uni ''%u521B%u5EFA%u4E2D%u8F6C%u547D%u4EE4'')"
| "transitRouteCreateProgressLabels StepCommandRunning = (uni ''%u521B%u5EFA socat %u670D%u52A1 / %u68C0%u67E5%u76D1%u542C'')"
| "transitRouteCreateProgressLabels StepRealCreateConfirm = (uni ''%u9884%u68C0%u6210%u529F%uFF0C%u7B49%u5F85%u786E%u8BA4%u771F%u5B9E%u521B%u5EFA'')"
| "transitRouteCreateProgressLabels StepRefresh = (uni ''%u5237%u65B0%u4E2D%u8F6C%u94FE%u8DEF'')"
| "transitRouteCreateProgressLabels StepExportLink = (uni ''%u751F%u6210%u5BA2%u6237%u7AEF%u94FE%u63A5'')"
| "transitRouteCreateProgressLabels StepComplete = (uni ''%u5B8C%u6210'')"
| "transitRouteCreateProgressLabels StepFailed = (uni ''%u521B%u5EFA%u672A%u5B8C%u6210'')"

definition transitRouteCreateProgressLabel :: "create_step \<Rightarrow> create_forwarding \<Rightarrow> jsstr" where
  "transitRouteCreateProgressLabel step method =
     (if step = StepCommandRunning then
        (if method = CreateHaproxy then (uni ''%u521B%u5EFA HAProxy TCP %u670D%u52A1 / %u68C0%u67E5%u76D1%u542C'') else (uni ''%u521B%u5EFA socat %u670D%u52A1 / %u68C0%u67E5%u76D1%u542C''))
      else transitRouteCreateProgressLabels step)"

definition transitRouteCreateProgressSteps :: "create_forwarding \<Rightarrow> create_step list" where
  "transitRouteCreateProgressSteps method =
     (let baseSteps = [StepPreflightCreate, StepPreflightRunning, StepCommandCreate, StepCommandRunning];
          finalSteps = [StepRefresh, StepExportLink, StepComplete]
      in if method = CreateHaproxy then baseSteps @ [StepRealCreateConfirm] @ finalSteps
         else baseSteps @ finalSteps)"

definition statusClass_transit :: "jsstr \<Rightarrow> jsstr" where
  "statusClass_transit status =
     (if status \<in> set [(js ''active''), (js ''online''), (js ''worker_online''), (js ''succeeded''), (js ''success''), (js ''passed'')] then (js ''ok'')
      else if status \<in> set [(js ''failed''), (js ''error''), (js ''deleted''), (js ''offline''), (js ''stale'')] then (js ''bad'')
      else (js ''warn''))"

text \<open>\<^verbatim>\<open>labels[status ?? ""] ?? status ?? fallback\<close> for a table of labels.\<close>

definition label_or :: "(jsstr \<times> jsstr) list \<Rightarrow> jsstr option \<Rightarrow> jsstr \<Rightarrow> jsstr" where
  "label_or labels v fallback =
     (case map_of labels (nullish v []) of Some l \<Rightarrow> l | None \<Rightarrow> nullish v fallback)"

definition displayStatusLabels :: "(jsstr \<times> jsstr) list" where
  "displayStatusLabels =
     [((js ''active''), (uni ''%u5DF2%u542F%u7528'')), ((js ''disabled''), (uni ''%u5DF2%u505C%u7528'')), ((js ''pending_worker''), (uni ''%u7B49%u5F85 Worker'')),
      ((js ''worker_online''), (uni ''Worker %u5728%u7EBF'')), ((js ''worker_offline''), (uni ''Worker %u79BB%u7EBF'')), ((js ''online''), (uni ''%u5728%u7EBF'')),
      ((js ''stale''), (uni ''%u5FC3%u8DF3%u8FC7%u671F / %u79BB%u7EBF'')), ((js ''offline''), (uni ''%u79BB%u7EBF'')), ((js ''unchecked''), (uni ''%u672A%u68C0%u6D4B'')), ((js ''creating''), (uni ''%u521B%u5EFA%u4E2D'')),
      ((js ''error''), (uni ''%u5F02%u5E38'')), ((js ''deleted''), (uni ''%u5DF2%u5220%u9664'')), ((js ''succeeded''), (uni ''%u6210%u529F'')), ((js ''failed''), (uni ''%u5931%u8D25'')),
      ((js ''running''), (uni ''%u6267%u884C%u4E2D'')), ((js ''pending''), (uni ''%u7B49%u5F85%u4E2D'')), ((js ''cancelled''), (uni ''%u5DF2%u53D6%u6D88'')), ((js ''timeout''), (uni ''%u8D85%u65F6'')),
      ((js ''expired''), (uni ''%u5DF2%u8FC7%u671F''))]"

definition displayStatusLabel :: "jsstr option \<Rightarrow> jsstr" where
  "displayStatusLabel status = label_or displayStatusLabels status (uni ''%u672A%u77E5'')"

definition protocolHintLabel :: "jsstr option \<Rightarrow> jsstr" where
  "protocolHintLabel v =
     label_or [((js ''haproxy_tcp''), (js ''HAProxy TCP'')), ((js ''socat''), (js ''socat'')), ((js ''tcp''), (js ''TCP'')), ((js ''udp''), (js ''UDP'')),
       ((js ''tcp_udp''), (js ''TCP/UDP'')), ((js ''unknown''), (uni ''%u5F85%u786E%u8BA4''))] v (uni ''%u5F85%u786E%u8BA4'')"

definition displayValue :: "jsstr option \<Rightarrow> jsstr" where
  "displayValue v = (if blank v then (js ''-'') else the v)"

subsection \<open>Ports, numbers and texts\<close>

definition nullableText :: "jsstr \<Rightarrow> jsstr option" where
  "nullableText v = (if trim v = [] then None else Some (trim v))"

text \<open>
  \<^verbatim>\<open>/^\d+$/\<close> and \<^verbatim>\<open>Number\<close>: a text of digits denotes its decimal value (exact below
  \<open>2 ^ 53\<close>). \<open>to_number\<close> is \<^verbatim>\<open>Number\<close> on the other texts that denote a finite integral number.
\<close>

definition all_digits :: "jsstr \<Rightarrow> bool" where
  "all_digits s \<longleftrightarrow> s \<noteq> [] \<and> list_all is_digit s"

definition nullableInteger :: "jsstr \<Rightarrow> int option" where
  "nullableInteger v =
     (if all_digits (trim v) then Some (int (digits_value (trim v))) else None)"

definition nullableDecimal :: "(jsstr \<Rightarrow> int option) \<Rightarrow> jsstr \<Rightarrow> int option" where
  "nullableDecimal to_number v =
     (if trim v = [] then None
      else (case to_number (trim v) of None \<Rightarrow> None | Some n \<Rightarrow> if 0 \<le> n then Some n else None))"

definition parseTransitPort :: "jsstr \<Rightarrow> int option" where
  "parseTransitPort v =
     (if \<not> all_digits (trim v) then None
      else let port = int (digits_value (trim v))
           in if 1 \<le> port \<and> port \<le> 65535 then Some port else None)"

subsection \<open>Listen ports that are taken\<close>

definition findTransitPortConflictRoute ::
  "transit_route_data list \<Rightarrow> jsstr option \<Rightarrow> int option \<Rightarrow> transit_route_data option" where
  "findTransitPortConflictRoute routes transitResourceId listenPort =
     (if blank transitResourceId \<or> listenPort = None then None
      else find_opt (\<lambda>route.
             Some (rt_transit_resource_id route) = transitResourceId
             \<and> Some (rt_listen_port route) = listenPort
             \<and> blank (rt_deleted_at route)
             \<and> rt_status route \<in> set [(js ''active''), (js ''creating'')]) routes)"

definition duplicateTransitPortMessage :: "create_forwarding \<Rightarrow> int \<Rightarrow> transit_route_data \<Rightarrow> jsstr" where
  "duplicateTransitPortMessage method listenPort route =
     (if method = CreateHaproxy then
        (uni ''%u8BE5%u4E2D%u8F6C%u670D%u52A1%u5668%u7684%u7AEF%u53E3 '') @ string_of_int listenPort @ (uni '' %u5DF2%u5B58%u5728%u53EF%u7528%u4E2D%u8F6C%u94FE%u8DEF%uFF1A'') @ rt_name route
          @ (uni ''%u3002%u8BF7%u76F4%u63A5%u4F7F%u7528%u73B0%u6709%u94FE%u8DEF%u7684%u4E34%u65F6%u5BFC%u51FA%uFF0C%u6216%u5148%u8FDC%u7A0B%u6E05%u7406%u5220%u9664%u65E7%u94FE%u8DEF%u540E%u518D%u521B%u5EFA%u3002'')
      else
        (uni ''%u8BE5%u4E2D%u8F6C%u670D%u52A1%u5668%u7684%u7AEF%u53E3 '') @ string_of_int listenPort @ (uni '' %u5DF2%u5B58%u5728%u4E2D%u8F6C%u94FE%u8DEF%uFF1A'') @ rt_name route
          @ (uni ''%u3002%u8BF7%u76F4%u63A5%u4F7F%u7528%u73B0%u6709%u94FE%u8DEF%uFF0C%u6216%u5148%u8FDC%u7A0B%u6E05%u7406%u5220%u9664%u65E7%u94FE%u8DEF%u540E%u518D%u521B%u5EFA%u3002''))"

subsection \<open>The draft of a transit resource\<close>

definition buildTransitResourceDraftNotes :: "resource_form \<Rightarrow> jsstr" where
  "buildTransitResourceDraftNotes form =
     join [10]
       ([(js ''Draft resource only. No Worker install credential generated.''),
         (js ''Planned interface: '') @ or_str (trim (tf_plannedInterface form)) (js ''pending''),
         (js ''Preferred forwarding: '') @ hint_text (tf_protocolHint form)]
        @ (if trim (tf_notes form) = [] then []
           else [(js ''Operator notes: '') @ trim (tf_notes form)]))"

definition transitResourcePayloadFromForm ::
  "(jsstr \<Rightarrow> int option) \<Rightarrow> resource_form \<Rightarrow> jsstr \<Rightarrow> resource_payload" where
  "transitResourcePayloadFromForm to_number form status =
     \<lparr>trp_name = trim (tf_name form),
      trp_resource_type = (js ''server''),
      trp_provider = nullableText (tf_provider form),
      trp_entry_host = nullableText (tf_entryHost form),
      trp_entry_port = None,
      trp_entry_region = nullableText (tf_entryRegion form),
      trp_exit_region = nullableText (tf_exitRegion form),
      trp_bandwidth_mbps = nullableInteger (tf_bandwidthMbps form),
      trp_traffic_limit_gb = nullableDecimal to_number (tf_trafficLimitGb form),
      trp_traffic_used_gb = None,
      trp_protocol_hint = hint_text (tf_protocolHint form),
      trp_has_ssh = tf_hasSsh form,
      trp_ssh_host = (if tf_hasSsh form then nullableText (tf_sshHost form) else None),
      trp_ssh_port = (if tf_hasSsh form then nullableInteger (tf_sshPort form) else None),
      trp_ssh_username = (if tf_hasSsh form then nullableText (tf_sshUsername form) else None),
      trp_status = status,
      trp_expires_at = None,
      trp_notes = Some (buildTransitResourceDraftNotes form)\<rparr>"

definition draftFormFromResource :: "transit_resource_data \<Rightarrow> resource_form" where
  "draftFormFromResource resource =
     \<lparr>tf_name = tr_name resource,
      tf_provider = nullish (tr_provider resource) [],
      tf_entryHost = nullish (tr_entry_host resource) [],
      tf_sshHost = nullish (tr_ssh_host resource) [],
      tf_sshPort = (case tr_ssh_port resource of
          None \<Rightarrow> (js ''22'') | Some p \<Rightarrow> if p = 0 then (js ''22'') else string_of_int p),
      tf_sshUsername = nullish (tr_ssh_username resource) (js ''root''),
      tf_entryRegion = nullish (tr_entry_region resource) [],
      tf_exitRegion = nullish (tr_exit_region resource) [],
      tf_bandwidthMbps =
        (case tr_bandwidth_mbps resource of None \<Rightarrow> [] | Some n \<Rightarrow> string_of_int n),
      tf_trafficLimitGb =
        (case tr_traffic_limit_gb resource of None \<Rightarrow> [] | Some n \<Rightarrow> string_of_int n),
      tf_plannedInterface = nullish (tr_worker_interface_name resource) (js ''eth0''),
      tf_protocolHint =
        (if tr_protocol_hint resource = (js ''haproxy_tcp'') then HintHaproxy
         else if tr_protocol_hint resource = (js ''socat'') then HintSocat
         else HintUnknown),
      tf_hasSsh = tr_has_ssh resource,
      tf_notes = nullish (tr_notes resource) []\<rparr>"

subsection \<open>Resources and nodes\<close>

definition isPlanningSelectableTransitResource :: "transit_resource_data \<Rightarrow> bool" where
  "isPlanningSelectableTransitResource resource \<longleftrightarrow>
     tr_resource_type resource = (js ''server'')
     \<and> (tr_status resource = (js ''active'') \<or> tr_worker_online resource
        \<or> tr_display_status resource = (js ''online'') \<or> tr_display_status resource = (js ''worker_online''))"

definition isTransitResourceWorkerOnline :: "transit_resource_data \<Rightarrow> bool" where
  "isTransitResourceWorkerOnline resource \<longleftrightarrow>
     (let displayStatus = tr_display_status resource;
          workerDisplayStatus = nullish (tr_worker_display_status resource) []
      in tr_worker_online resource
         \<or> tr_worker_heartbeat_status resource = Some (js ''online'')
         \<or> displayStatus = (js ''online'')
         \<or> displayStatus = (js ''worker_online'')
         \<or> workerDisplayStatus = (js ''online'')
         \<or> workerDisplayStatus = (js ''worker_online'')
         \<or> (\<not> blank (tr_worker_id resource) \<and> \<not> blank (tr_worker_last_heartbeat_at resource)
            \<and> \<not> tr_worker_is_heartbeat_stale resource))"

definition targetPortForNode :: "node_data option \<Rightarrow> int" where
  "targetPortForNode node =
     (case node of None \<Rightarrow> 0 | Some n \<Rightarrow> (case nd_port n of None \<Rightarrow> 0 | Some p \<Rightarrow> p))"

definition landingHostForNode :: "node_data option \<Rightarrow> jsstr" where
  "landingHostForNode node = (case node of None \<Rightarrow> [] | Some n \<Rightarrow> nullish (nd_vps_ip n) [])"

subsection \<open>Asynchronous helpers\<close>

definition ensureCsrfToken_await :: "(jsstr \<Rightarrow> 's act) \<Rightarrow> (jsstr option \<Rightarrow> 's act) \<Rightarrow> 's act" where
  "ensureCsrfToken_await k h =
     fetch (get_request (js ''/api/auth/csrf'')) as_csrf
       (\<lambda>csrf. case csrf of ApiSuccess token m \<Rightarrow> k token | ApiFailure c m d \<Rightarrow> h (Some m))
       h"

lemma ok_ensureCsrfToken [ok_intros]:
  assumes "P \<longrightarrow> I s" and "\<And>t Q s. (Q \<longrightarrow> I s) \<Longrightarrow> ok I Q (k t s)"
    and "\<And>e Q s. (Q \<longrightarrow> I s) \<Longrightarrow> ok I Q (h e s)"
  shows "ok I P (ensureCsrfToken_await k h s)"
  unfolding ensureCsrfToken_await_def using assms by (intro ok_fetch) (auto split: api_response.split)

lemma frees_ensureCsrfToken [frees_intros]:
  "(\<And>t s. frees_after busy (k t s)) \<Longrightarrow> (\<And>e s. frees_after busy (h e s))
    \<Longrightarrow> frees_after busy (ensureCsrfToken_await k h s)"
  unfolding ensureCsrfToken_await_def by (intro frees_fetch) (auto split: api_response.split)

text \<open>Without a clipboard the helper throws at once.\<close>

definition copyText_await :: "bool \<Rightarrow> jsstr \<Rightarrow> 's act \<Rightarrow> (jsstr option \<Rightarrow> 's act) \<Rightarrow> 's act" where
  "copyText_await clipboard v k h =
     (if \<not> clipboard then h (Some (js ''Clipboard API unavailable''))
      else call (Clipboard v) as_clipboard
             (\<lambda>x. case x of Resolved u \<Rightarrow> k | Rejected e \<Rightarrow> h e))"

lemma ok_copyText [ok_intros]:
  "(P \<longrightarrow> I s) \<Longrightarrow> (\<And>Q s. (Q \<longrightarrow> I s) \<Longrightarrow> ok I Q (k s))
    \<Longrightarrow> (\<And>e Q s. (Q \<longrightarrow> I s) \<Longrightarrow> ok I Q (h e s)) \<Longrightarrow> ok I P (copyText_await c v k h s)"
  unfolding copyText_await_def by (auto intro!: ok_intros split: settled.split)

text \<open>\<^verbatim>\<open>`${result.error_code}: ${result.message}`\<close>\<close>

definition api_error_text :: "jsstr \<Rightarrow> jsstr \<Rightarrow> jsstr" where
  "api_error_text code msg = code @ (js '': '') @ msg"

subsection \<open>Facts about the helpers\<close>

lemma all_digits_digits_of: "all_digits (digits_of n)"
  using digits_of_all_digit by (simp add: all_digits_def)

lemma parseTransitPort_Some_iff:
  "parseTransitPort v = Some p \<longleftrightarrow>
     all_digits (trim v) \<and> p = int (digits_value (trim v)) \<and> 1 \<le> p \<and> p \<le> 65535"
  by (auto simp: parseTransitPort_def Let_def)

text \<open>
  The port field accepts exactly the decimal texts, surrounded by white
  space and possibly with leading zeros, of the numbers from 1 to 65535.
\<close>

theorem transit_port_texts:
  "(parseTransitPort v = Some p) =
     (1 \<le> p \<and> p \<le> 65535 \<and> list_all is_digit (trim v) \<and> int (digits_value (trim v)) = p)"
proof -
  have "digits_value [] = 0" by (simp add: digits_value_def)
  then show ?thesis
    unfolding parseTransitPort_Some_iff all_digits_def by (cases "trim v = []") auto
qed

lemma nullableText_trimmed: "trim s = s \<Longrightarrow> nullableText s = (if s = [] then None else Some s)"
  by (simp add: nullableText_def)

lemma nullableInteger_digits: "0 \<le> n \<Longrightarrow> nullableInteger (string_of_int n) = Some n"
  by (simp add: nullableInteger_def string_of_int_def all_digits_digits_of digits_value_digits_of)

text \<open>What the panel itself writes: texts that are present are trimmed and not empty.\<close>

definition clean_text :: "jsstr option \<Rightarrow> bool" where
  "clean_text x \<longleftrightarrow> (case x of None \<Rightarrow> True | Some s \<Rightarrow> s \<noteq> [] \<and> trim s = s)"

lemma nullableText_clean: "clean_text x \<Longrightarrow> nullableText (nullish x []) = x"
  by (cases x) (simp_all add: clean_text_def nullableText_def)

text \<open>
  Opening the edit form of a server and saving it unchanged
  sends back its name, provider, hosts, regions, bandwidth, SSH data and status, provided these
  are as the form writes them, and its protocol hint if it is one of the two the form offers.
\<close>

theorem unchanged_edit_keeps_most_fields:
  assumes "trim (tr_name r) = tr_name r" and "clean_text (tr_provider r)"
    and "clean_text (tr_entry_host r)" and "clean_text (tr_entry_region r)"
    and "clean_text (tr_exit_region r)" and "tr_bandwidth_mbps r \<noteq> None \<longrightarrow> 0 \<le> the (tr_bandwidth_mbps r)"
    and "tr_has_ssh r" and "clean_text (tr_ssh_host r)" and "tr_ssh_port r = Some port" and "1 \<le> port"
    and "tr_ssh_username r = Some user" and "clean_text (Some user)"
    and "tr_protocol_hint r \<in> {(js ''haproxy_tcp''), (js ''socat'')}"
  shows "transitResourcePayloadFromForm to_number (draftFormFromResource r) (tr_status r) =
    \<lparr>trp_name = tr_name r, trp_resource_type = (js ''server''), trp_provider = tr_provider r,
     trp_entry_host = tr_entry_host r, trp_entry_port = None, trp_entry_region = tr_entry_region r,
     trp_exit_region = tr_exit_region r, trp_bandwidth_mbps = tr_bandwidth_mbps r,
     trp_traffic_limit_gb = nullableDecimal to_number
       (case tr_traffic_limit_gb r of None \<Rightarrow> [] | Some n \<Rightarrow> string_of_int n),
     trp_traffic_used_gb = None, trp_protocol_hint = tr_protocol_hint r, trp_has_ssh = tr_has_ssh r,
     trp_ssh_host = tr_ssh_host r, trp_ssh_port = tr_ssh_port r, trp_ssh_username = tr_ssh_username r,
     trp_status = tr_status r, trp_expires_at = None,
     trp_notes = Some (buildTransitResourceDraftNotes (draftFormFromResource r))\<rparr>"
proof -
  have "nullableInteger (case tr_bandwidth_mbps r of None \<Rightarrow> [] | Some n \<Rightarrow> string_of_int n) =
      tr_bandwidth_mbps r"
    using assms(6) by (cases "tr_bandwidth_mbps r")
      (simp_all add: nullableInteger_digits, simp add: nullableInteger_def all_digits_def)
  moreover have "nullableText user = Some user"
    using assms(12) by (simp add: clean_text_def nullableText_def)
  moreover have "hint_text (tf_protocolHint (draftFormFromResource r)) = tr_protocol_hint r"
    using assms(13) by (auto simp: draftFormFromResource_def)
  ultimately show ?thesis
    using assms by (simp add: transitResourcePayloadFromForm_def draftFormFromResource_def
        nullableText_clean nullableInteger_digits)
qed

definition sample_server :: "jsstr \<Rightarrow> jsstr \<Rightarrow> transit_resource_data" where
  "sample_server i n =
     \<lparr>tr_id = i, tr_name = n, tr_resource_type = (js ''server''), tr_provider = None,
      tr_entry_host = Some (js ''203.0.113.7''), tr_entry_port = Some 443, tr_entry_region = None,
      tr_exit_region = None, tr_bandwidth_mbps = Some 100, tr_traffic_limit_gb = None,
      tr_traffic_used_gb = Some 7, tr_protocol_hint = (js ''socat''), tr_has_ssh = True,
      tr_ssh_host = None, tr_ssh_port = Some 22, tr_ssh_username = Some (js ''root''), tr_status = (js ''active''),
      tr_connection_mode = (js ''worker''), tr_worker_id = None, tr_worker_status = None,
      tr_worker_role = None, tr_worker_hostname = None, tr_worker_interface_name = None,
      tr_worker_version = None, tr_worker_last_heartbeat_at = None,
      tr_worker_heartbeat_status = None, tr_worker_heartbeat_age_seconds = None,
      tr_worker_is_heartbeat_stale = False, tr_worker_display_status = None,
      tr_worker_online = False, tr_display_status = (js ''offline''),
      tr_expires_at = Some (js ''2027-01-01T00:00:00Z''), tr_notes = Some (js ''rented''), tr_created_at = None,
      tr_updated_at = None, tr_deleted_at = None\<rparr>"

lemma sample_server_simps [simp]:
  "tr_id (sample_server i n) = i" "tr_worker_id (sample_server i n) = None"
  "tr_worker_online (sample_server i n) = False" "tr_status (sample_server i n) = (js ''active'')"
  "tr_deleted_at (sample_server i n) = None" "tr_name (sample_server i n) = n"
  by (simp_all add: sample_server_def)

lemma trim_samples: "trim (js ''hk'') = (js ''hk'')" "trim (js ''root'') = (js ''root'')" "trim (js ''203.0.113.7'') = (js ''203.0.113.7'')"
    "trim (js ''rented'') = (js ''rented'')"
  by (rule trim_id; simp add: js_def is_space_def)+

theorem unchanged_edit_keeps_most_fields_witness:
  "trp_ssh_port (transitResourcePayloadFromForm (\<lambda>s. None)
     (draftFormFromResource (sample_server (js ''r1'') (js ''hk''))) (tr_status (sample_server (js ''r1'') (js ''hk'')))) = Some 22"
  by (subst unchanged_edit_keeps_most_fields [where port = 22 and user = "(js ''root'')"])
    (simp_all add: sample_server_def clean_text_def trim_samples)

text \<open>
  The same unchanged edit erases the entry port, the used
  traffic and the expiry date, whatever they were, and it wraps the stored notes into a new
  preamble: the notes end in the old ones and are more than 60 units longer.
\<close>

theorem unchanged_edit_damages_the_record:
  assumes "tr_notes r = Some notes" and "trim notes = notes" and "notes \<noteq> []"
  shows "\<exists>preamble. transitResourcePayloadFromForm to_number (draftFormFromResource r) (tr_status r)
      = (transitResourcePayloadFromForm to_number (draftFormFromResource r) (tr_status r))
          \<lparr>trp_entry_port := None, trp_traffic_used_gb := None, trp_expires_at := None,
           trp_notes := Some (preamble @ notes)\<rparr> \<and> 60 < length preamble"
proof -
  let ?f = "draftFormFromResource r"
  let ?head = "[(js ''Draft resource only. No Worker install credential generated.''),
         (js ''Planned interface: '') @ or_str (trim (tf_plannedInterface ?f)) (js ''pending''),
         (js ''Preferred forwarding: '') @ hint_text (tf_protocolHint ?f)]"
  have "tf_notes ?f = notes" using assms(1) by (simp add: draftFormFromResource_def)
  then have "buildTransitResourceDraftNotes ?f =
      (join [10] ?head @ [10] @ (js ''Operator notes: '')) @ notes"
    using assms(2,3) by (simp add: buildTransitResourceDraftNotes_def)
  moreover have "60 < length (join [10] ?head @ [10] @ (js ''Operator notes: ''))" by simp
  ultimately show ?thesis
    by (intro exI [of _ "join [10] ?head @ [10] @ (js ''Operator notes: '')"])
      (simp add: transitResourcePayloadFromForm_def)
qed

theorem unchanged_edit_damages_the_record_witness:
  "\<exists>preamble. transitResourcePayloadFromForm (\<lambda>s. None)
      (draftFormFromResource (sample_server (js ''r1'') (js ''hk''))) (tr_status (sample_server (js ''r1'') (js ''hk'')))
      = (transitResourcePayloadFromForm (\<lambda>s. None)
          (draftFormFromResource (sample_server (js ''r1'') (js ''hk''))) (tr_status (sample_server (js ''r1'') (js ''hk''))))
          \<lparr>trp_entry_port := None, trp_traffic_used_gb := None, trp_expires_at := None,
           trp_notes := Some (preamble @ (js ''rented''))\<rparr> \<and> 60 < length preamble"
  by (rule unchanged_edit_damages_the_record) (simp_all add: sample_server_def trim_samples)

text \<open>
  The conflict search finds a route exactly when an active or creating
  route that is not deleted already listens on that port of that server, and the route it finds is
  one of these.
\<close>

theorem port_conflict_is_found:
  assumes "i \<noteq> []"
  shows "(findTransitPortConflictRoute routes (Some i) (Some p) \<noteq> None) =
      (\<exists>route \<in> set routes. rt_transit_resource_id route = i \<and> rt_listen_port route = p
         \<and> blank (rt_deleted_at route) \<and> rt_status route \<in> {(js ''active''), (js ''creating'')})
    \<and> (\<forall>route. findTransitPortConflictRoute routes (Some i) (Some p) = Some route \<longrightarrow>
         route \<in> set routes \<and> rt_transit_resource_id route = i \<and> rt_listen_port route = p)"
  using assms find_opt_None_iff [of _ routes]
  by (auto simp: findTransitPortConflictRoute_def dest!: find_opt_SomeD)

definition sample_transit_route :: "jsstr \<Rightarrow> int \<Rightarrow> transit_route_data" where
  "sample_transit_route i port =
     \<lparr>rt_id = i, rt_name = (js ''line''), rt_transit_resource_id = (js ''r1''), rt_transit_resource_name = None,
      rt_node_id = (js ''n1''), rt_node_name = None, rt_landing_vps_id = None, rt_landing_vps_ip = None,
      rt_listen_port = port, rt_target_host = (js ''10.0.0.2''), rt_target_port = 443,
      rt_forwarding_method = (js ''socat''), rt_service_name = (js ''svc''), rt_service_path = [],
      rt_status = (js ''active''), rt_share_link = None, rt_created_at = None, rt_updated_at = None,
      rt_deleted_at = None\<rparr>"

lemma sample_transit_route_simps [simp]:
  "rt_id (sample_transit_route i p) = i" "rt_transit_resource_id (sample_transit_route i p) = (js ''r1'')"
  "rt_listen_port (sample_transit_route i p) = p" "rt_node_id (sample_transit_route i p) = (js ''n1'')"
  "rt_target_port (sample_transit_route i p) = 443" "rt_forwarding_method (sample_transit_route i p) = (js ''socat'')"
  "rt_status (sample_transit_route i p) = (js ''active'')" "rt_deleted_at (sample_transit_route i p) = None"
  "rt_name (sample_transit_route i p) = (js ''line'')"
  by (simp_all add: sample_transit_route_def)

theorem port_conflict_is_found_witness:
  "findTransitPortConflictRoute [sample_transit_route (js ''t1'') 8443, sample_transit_route (js ''t2'') 23843] (Some (js ''r1'')) (Some 23843) \<noteq> None"
  using port_conflict_is_found [of "(js ''r1'')" "[sample_transit_route (js ''t1'') 8443, sample_transit_route (js ''t2'') 23843]" 23843]
  by simp

lemma lower_active: "to_lower (js ''active'') \<noteq> (js ''deleted'')"
  by (simp add: js_def)

definition sample_browser :: browser where
  "sample_browser = \<lparr>br_date_parse = (\<lambda>s. Some 0), br_to_iso = (\<lambda>n. []),
     br_to_number = (\<lambda>s. None), br_clipboard = True\<rparr>"

end
