(* ===== verification/TransitServers.thy ===== *)
theory TransitServers
  imports TransitHelpers
begin

text \<open>
  \<^verbatim>\<open>TransitServersPanel\<close> of \<^verbatim>\<open>TransitRoutesPanel.tsx\<close>: the list of transit servers, the
  ids whose deletion is under way, the drafts, the installation of a Worker with the polling
  for its heartbeat, and the deletion with the polling of its cleanup command.

  The state holds the \<^verbatim>\<open>useState\<close> values and the refs. A handler reads the state values of
  the rendering it was created in, so these are read when it starts and passed on; refs and
  functional updates read the current state. Two fields stand for the browser:
  \<open>ts_clock\<close> is \<^verbatim>\<open>Date.now()\<close>, and \<open>ts_nextTimer\<close> and \<open>ts_cleared\<close> are the
  timer ids given out and cleared.
\<close>

subsection \<open>State\<close>

datatype server_modal = AddModal | EditResourceModal | DeleteModal

record servers_panel =
  ts_resources :: "transit_resource_data list"
  ts_loading :: bool
  ts_message :: jsstr
  ts_modalMode :: "server_modal option"
  ts_selectedResource :: "transit_resource_data option"
  ts_draftForm :: resource_form
  ts_workerCommands :: "jsstr \<rightharpoonup> worker_command_data list"
  ts_deleteMode :: delete_mode
  ts_approvalPreviewResource :: "transit_resource_data option"
  ts_installResult :: "install_command option"
  ts_installCopied :: bool
  ts_installGenerating :: bool
  ts_installError :: jsstr
  ts_installInterfaceName :: jsstr
  ts_heartbeatMessage :: jsstr
  ts_pollTimeout :: "nat option"
  ts_pollResourceId :: "jsstr option"
  ts_pollContext :: "install_context option"
  ts_autoCloseTimeout :: "nat option"
  ts_pendingDeleted :: "jsstr set"
  ts_submitting :: bool
  ts_clock :: int
  ts_nextTimer :: nat
  ts_cleared :: "nat set"

definition servers_initial :: servers_panel where
  "servers_initial =
     \<lparr>ts_resources = [], ts_loading = True, ts_message = (uni ''%u4E2D%u8F6C%u670D%u52A1%u5668%u5217%u8868%u6B63%u5728%u52A0%u8F7D%u3002''),
      ts_modalMode = None, ts_selectedResource = None,
      ts_draftForm = emptyTransitResourceDraftForm, ts_workerCommands = Map.empty,
      ts_deleteMode = RemoteCleanup, ts_approvalPreviewResource = None, ts_installResult = None,
      ts_installCopied = False, ts_installGenerating = False, ts_installError = [],
      ts_installInterfaceName = (js ''eth0''), ts_heartbeatMessage = [], ts_pollTimeout = None,
      ts_pollResourceId = None, ts_pollContext = None, ts_autoCloseTimeout = None,
      ts_pendingDeleted = {}, ts_submitting = False, ts_clock = 0, ts_nextTimer = 0,
      ts_cleared = {}\<rparr>"

definition set_message :: "jsstr \<Rightarrow> servers_panel \<Rightarrow> servers_panel" where
  "set_message m s = s\<lparr>ts_message := m\<rparr>"

subsection \<open>Timers\<close>

definition clearWorkerInstallPolling :: "servers_panel \<Rightarrow> servers_panel" where
  "clearWorkerInstallPolling s =
     s\<lparr>ts_cleared := (case ts_pollTimeout s of None \<Rightarrow> ts_cleared s | Some i \<Rightarrow> insert i (ts_cleared s)),
       ts_pollTimeout := None, ts_pollResourceId := None, ts_pollContext := None\<rparr>"

definition clearWorkerInstallAutoClose :: "servers_panel \<Rightarrow> servers_panel" where
  "clearWorkerInstallAutoClose s =
     s\<lparr>ts_cleared := (case ts_autoCloseTimeout s of None \<Rightarrow> ts_cleared s | Some i \<Rightarrow> insert i (ts_cleared s)),
       ts_autoCloseTimeout := None\<rparr>"

definition not_cleared :: "nat \<Rightarrow> servers_panel \<Rightarrow> bool" where
  "not_cleared i s \<longleftrightarrow> i \<notin> ts_cleared s"

subsection \<open>Pending deletions and the visible list\<close>

definition resource_deleted :: "transit_resource_data \<Rightarrow> bool" where
  "resource_deleted r \<longleftrightarrow> to_lower (tr_status r) = (js ''deleted'') \<or> \<not> blank (tr_deleted_at r)"

definition filterVisibleTransitResources ::
  "servers_panel \<Rightarrow> transit_resource_data list \<Rightarrow> transit_resource_data list" where
  "filterVisibleTransitResources s nextResources =
     List.filter (\<lambda>r. tr_id r \<notin> ts_pendingDeleted s \<and> \<not> resource_deleted r) nextResources"

definition setVisibleTransitResources ::
  "transit_resource_data list \<Rightarrow> servers_panel \<Rightarrow> servers_panel" where
  "setVisibleTransitResources nextResources s =
     s\<lparr>ts_resources := filterVisibleTransitResources s nextResources\<rparr>"

definition markTransitResourcePendingDelete :: "jsstr \<Rightarrow> servers_panel \<Rightarrow> servers_panel" where
  "markTransitResourcePendingDelete resourceId s =
     (let s1 = s\<lparr>ts_pendingDeleted := insert resourceId (ts_pendingDeleted s)\<rparr>;
          s2 = (if ts_pollResourceId s1 = Some resourceId then clearWorkerInstallPolling s1 else s1)
      in s2\<lparr>ts_resources := filterVisibleTransitResources s2 (ts_resources s2)\<rparr>)"

definition releaseTransitResourcePendingDelete :: "jsstr \<Rightarrow> servers_panel \<Rightarrow> servers_panel" where
  "releaseTransitResourcePendingDelete resourceId s =
     s\<lparr>ts_pendingDeleted := ts_pendingDeleted s - {resourceId}\<rparr>"

subsection \<open>Loading\<close>

definition store_commands :: "jsstr \<Rightarrow> worker_command_data list \<Rightarrow> servers_panel \<Rightarrow> servers_panel" where
  "store_commands workerId cs s = s\<lparr>ts_workerCommands := (ts_workerCommands s)(workerId \<mapsto> cs)\<rparr>"

definition loadWorkerCommands ::
  "jsstr \<Rightarrow> servers_panel act \<Rightarrow> (jsstr option \<Rightarrow> servers_panel act) \<Rightarrow> servers_panel act" where
  "loadWorkerCommands workerId k h =
     fetch (listWorkerCommands workerId) as_commands
       (\<lambda>result. case result of
          ApiSuccess cs m \<Rightarrow> (\<lambda>s. k (store_commands workerId cs s))
        | ApiFailure c m d \<Rightarrow> k)
       h"

text \<open>The same call as one of several that \<^verbatim>\<open>Promise.all\<close> waits for.\<close>

definition load_commands_each :: "jsstr \<Rightarrow> servers_panel each" where
  "load_commands_each workerId =
     (Http (listWorkerCommands workerId),
      \<lambda>r. map_option (\<lambda>x. case x of
            Resolved (ApiSuccess cs m) \<Rightarrow> Inr (store_commands workerId cs)
          | Resolved (ApiFailure c m d) \<Rightarrow> Inr id
          | Rejected e \<Rightarrow> Inl e) (as_commands r))"

definition worker_ids :: "transit_resource_data list \<Rightarrow> jsstr list" where
  "worker_ids rs =
     map (\<lambda>r. the (tr_worker_id r)) (List.filter (\<lambda>r. \<not> blank (tr_worker_id r)) rs)"

definition resources_request :: api_request where
  "resources_request = get_request (js ''/api/transit-resources?resource_type=server'')"

definition loadResources ::
  "servers_panel act \<Rightarrow> (jsstr option \<Rightarrow> servers_panel act) \<Rightarrow> servers_panel act" where
  "loadResources k h s =
     fetch resources_request as_resources
       (\<lambda>result. case result of
          ApiFailure c m d \<Rightarrow>
            (\<lambda>s. k ((set_message (api_error_text c m) s)\<lparr>ts_loading := False\<rparr>))
        | ApiSuccess rs m \<Rightarrow>
            (\<lambda>s. each_of (map load_commands_each (worker_ids (filterVisibleTransitResources s rs)))
               (\<lambda>s. k ((set_message (uni ''%u4E2D%u8F6C%u670D%u52A1%u5668%u5217%u8868%u5DF2%u5237%u65B0%u3002'') s)\<lparr>ts_loading := False\<rparr>))
               h
               (setVisibleTransitResources rs s)))
       h
       (s\<lparr>ts_loading := True\<rparr>)"

text \<open>\<^verbatim>\<open>command?.target_worker_id || command?.worker_id\<close>\<close>

definition command_worker :: "worker_command_data \<Rightarrow> jsstr" where
  "command_worker c = or_str (wc_target_worker_id c) (wc_worker_id c)"

definition loadWorkerCommands_of ::
  "worker_command_data option \<Rightarrow> servers_panel act \<Rightarrow> (jsstr option \<Rightarrow> servers_panel act)
   \<Rightarrow> servers_panel act" where
  "loadWorkerCommands_of command k h =
     (case command of
        None \<Rightarrow> k
      | Some c \<Rightarrow> if command_worker c = [] then k else loadWorkerCommands (command_worker c) k h)"

definition scheduleResourceRefresh :: "worker_command_data option \<Rightarrow> servers_panel act" where
  "scheduleResourceRefresh command =
     (let refresh = alongside (loadResources finished unhandled)
                      (loadWorkerCommands_of command finished unhandled)
      in alongside (sleep 1500 refresh) (sleep 4000 refresh))"

subsection \<open>Waiting for a cleanup command\<close>

definition cleanup_outcome_text :: "jsstr \<Rightarrow> jsstr" where
  "cleanup_outcome_text status =
     (if status = (js ''succeeded'') then (uni ''%u6E05%u7406%u4EFB%u52A1%u5DF2%u5B8C%u6210%uFF0C%u4E2D%u8F6C%u670D%u52A1%u5668%u5217%u8868%u5DF2%u81EA%u52A8%u5237%u65B0%u3002'')
      else (uni ''%u6E05%u7406%u4EFB%u52A1%u5DF2%u8FDB%u5165%u7EC8%u6001%uFF1A'') @ displayStatusLabel (Some status)
        @ (uni ''%u3002%u5217%u8868%u5DF2%u81EA%u52A8%u5237%u65B0%uFF0C%u8BF7%u67E5%u770B%u6700%u8FD1%u547D%u4EE4%u8BE6%u60C5%u3002''))"

definition cleanup_finished :: "worker_command_data \<Rightarrow> jsstr option \<Rightarrow> servers_panel act" where
  "cleanup_finished c resourceId s =
     loadResources
       (loadWorkerCommands_of (Some c)
         (\<lambda>s. finished (set_message (cleanup_outcome_text (wc_status c)) s)) unhandled)
       unhandled
       (if wc_status c \<noteq> (js ''succeeded'') \<and> \<not> blank resourceId
        then releaseTransitResourcePendingDelete (the resourceId) s else s)"

definition cleanup_still_running :: "worker_command_data \<Rightarrow> servers_panel act" where
  "cleanup_still_running latest =
     loadResources
       (loadWorkerCommands_of (Some latest)
         (\<lambda>s. finished (set_message
            (uni ''%u6E05%u7406%u4EFB%u52A1%u4ECD%u5728%u6267%u884C%uFF0C%u4E2D%u8F6C%u670D%u52A1%u5668%u5217%u8868%u5DF2%u518D%u6B21%u5237%u65B0%uFF1B%u8BF7%u7A0D%u540E%u67E5%u770B%u4EFB%u52A1%u4E2D%u5FC3%u6216%u518D%u6B21%u5237%u65B0%u3002'') s)) unhandled)
       unhandled"

function cleanup_polls ::
  "jsstr \<Rightarrow> jsstr option \<Rightarrow> worker_command_data \<Rightarrow> nat \<Rightarrow> servers_panel act" where
  "cleanup_polls commandId resourceId latest attempt =
     (if attempt < cleanupCommandMaxPolls then
        sleep cleanupCommandPollIntervalMs
          (fetch (getWorkerCommand commandId) as_command
            (\<lambda>result. case result of
               ApiSuccess c m \<Rightarrow>
                 if wc_status c \<in> set cleanupCommandTerminalStatuses
                 then cleanup_finished c resourceId
                 else cleanup_polls commandId resourceId c (Suc attempt)
             | ApiFailure e m d \<Rightarrow> cleanup_polls commandId resourceId latest (Suc attempt))
            unhandled)
      else cleanup_still_running latest)"
  by pat_completeness auto
termination
  by (relation "measure (\<lambda>(i, r, c, attempt). cleanupCommandMaxPolls - attempt)") auto

definition refreshWhenResourceCleanupCommandCompletes ::
  "worker_command_data option \<Rightarrow> jsstr option \<Rightarrow> servers_panel act" where
  "refreshWhenResourceCleanupCommandCompletes command resourceId =
     (case command of
        None \<Rightarrow> finished
      | Some c \<Rightarrow> if wc_id c = [] then finished else cleanup_polls (wc_id c) resourceId c 0)"

subsection \<open>Waiting for the Worker's heartbeat\<close>

definition closeApprovalPreview :: "servers_panel \<Rightarrow> servers_panel" where
  "closeApprovalPreview s =
     (clearWorkerInstallAutoClose s)
       \<lparr>ts_approvalPreviewResource := None, ts_installResult := None, ts_installCopied := False,
        ts_installGenerating := False, ts_installError := [], ts_installInterfaceName := (js ''eth0'')\<rparr>"

definition scheduleWorkerInstallAutoClose :: "servers_panel act" where
  "scheduleWorkerInstallAutoClose s =
     (let s1 = clearWorkerInstallAutoClose s;
          i = ts_nextTimer s1
      in (s1\<lparr>ts_nextTimer := Suc i, ts_autoCloseTimeout := Some i\<rparr>,
          [Timer 1200 (not_cleared i)
             (\<lambda>s. finished ((closeApprovalPreview s)\<lparr>ts_autoCloseTimeout := None\<rparr>))]))"

definition workerUpgradeStatusMessage :: "transit_resource_data option \<Rightarrow> install_context \<Rightarrow> jsstr" where
  "workerUpgradeStatusMessage resource context =
     (uni ''%u7B49%u5F85 Worker %u5347%u7EA7%u5230%u76EE%u6807%u7248%u672C... %u5F53%u524D%u7248%u672C%uFF1A'')
       @ or_str (nullish (Option.bind resource tr_worker_version) []) (uni ''%u672A%u8FD4%u56DE'')
       @ (uni ''%uFF1B%u76EE%u6807%u7248%u672C%uFF1A'') @ ix_targetWorkerVersion context"

text \<open>
  What one poll concludes from the resource it has read: \<open>Inl\<close> when the Worker has arrived,
  otherwise the state in which to go on.
\<close>

definition upgraded :: "browser \<Rightarrow> install_context \<Rightarrow> transit_resource_data \<Rightarrow> bool" where
  "upgraded b context resource \<longleftrightarrow>
     tr_worker_version resource = Some (ix_targetWorkerVersion context)
     \<and> timestampAtOrAfter (br_date_parse b) (tr_worker_last_heartbeat_at resource)
         (Some (ix_generatedAt context))"

definition polling_upgrade :: "install_context option \<Rightarrow> bool" where
  "polling_upgrade context \<longleftrightarrow> (case context of None \<Rightarrow> False | Some c \<Rightarrow> ix_mode c = UpgradeWorker)"

definition worker_arrived :: "jsstr \<Rightarrow> jsstr \<Rightarrow> servers_panel act" where
  "worker_arrived heartbeat m s =
     scheduleWorkerInstallAutoClose
       ((clearWorkerInstallPolling s)\<lparr>ts_heartbeatMessage := heartbeat, ts_message := m\<rparr>)"

definition check_heartbeat ::
  "browser \<Rightarrow> transit_resource_data option \<Rightarrow> servers_panel
   \<Rightarrow> (servers_panel act) option \<times> servers_panel" where
  "check_heartbeat b resource s =
     (case resource of
        None \<Rightarrow> (None, s)
      | Some r \<Rightarrow>
          if polling_upgrade (ts_pollContext s) then
            (let context = the (ts_pollContext s)
             in if upgraded b context r then
                  (let m = (uni ''Worker %u5DF2%u5347%u7EA7%u5230 '') @ ix_targetWorkerVersion context @ (uni ''%uFF0C%u4E2D%u8F6C%u670D%u52A1%u5668%u5217%u8868%u5DF2%u81EA%u52A8%u5237%u65B0%u3002'')
                   in (Some (worker_arrived m m), s))
                else (None, s\<lparr>ts_heartbeatMessage := workerUpgradeStatusMessage resource context\<rparr>))
          else if isTransitResourceWorkerOnline r then
            (Some (worker_arrived (uni ''%u5DF2%u68C0%u6D4B%u5230 Worker %u5728%u7EBF%u3002'') (uni ''%u5DF2%u68C0%u6D4B%u5230 Worker %u5728%u7EBF%uFF0C%u4E2D%u8F6C%u670D%u52A1%u5668%u5217%u8868%u5DF2%u81EA%u52A8%u5237%u65B0%u3002'')), s)
          else (None, s))"

definition poll_timeout_message :: "install_context option \<Rightarrow> jsstr" where
  "poll_timeout_message context =
     (if polling_upgrade context then
        (uni ''%u5C1A%u672A%u68C0%u6D4B%u5230%u76EE%u6807%u7248%u672C Worker%uFF0C%u8BF7%u786E%u8BA4%u547D%u4EE4%u662F%u5426%u5DF2%u5728%u5BF9%u5E94 VPS %u6267%u884C%u3002%u76EE%u6807%u7248%u672C%uFF1A'') @ ix_targetWorkerVersion (the context)
      else (uni ''%u672A%u68C0%u6D4B%u5230 Worker %u4E0A%u7EBF%uFF0C%u8BF7%u68C0%u67E5%u5B89%u88C5%u547D%u4EE4%u662F%u5426%u6267%u884C%u6210%u529F%u3001curl %u662F%u5426%u53EF%u7528%u3001systemd %u662F%u5426%u6B63%u5E38%u3001VPS %u662F%u5426%u80FD%u8BBF%u95EE%u4E3B%u63A7 backend%u3002''))"

definition poll_timed_out :: "servers_panel act" where
  "poll_timed_out s =
     (let m = poll_timeout_message (ts_pollContext s)
      in loadResources
           (\<lambda>s. finished (s\<lparr>ts_heartbeatMessage := m, ts_message := m\<rparr>))
           unhandled
           (clearWorkerInstallPolling s))"

definition poll_abandoned :: "jsstr \<Rightarrow> servers_panel \<Rightarrow> bool" where
  "poll_abandoned resourceId s \<longleftrightarrow>
     ts_pollResourceId s \<noteq> Some resourceId \<or> resourceId \<in> ts_pendingDeleted s"

function pollTransitWorkerInstallHeartbeat :: "browser \<Rightarrow> jsstr \<Rightarrow> nat \<Rightarrow> servers_panel act" where
  "pollTransitWorkerInstallHeartbeat b resourceId attempt s =
     (if poll_abandoned resourceId s then
        finished (if resourceId \<in> ts_pendingDeleted s then clearWorkerInstallPolling s else s)
      else
        (let again = (\<lambda>s.
               if workerInstallMaxPolls \<le> attempt + 1 then poll_timed_out s
               else
                 (let s1 = (if polling_upgrade (ts_pollContext s) then s
                            else s\<lparr>ts_heartbeatMessage := (uni ''%u7B49%u5F85 Worker %u4E0A%u7EBF...'')\<rparr>);
                      i = ts_nextTimer s1
                  in (s1\<lparr>ts_nextTimer := Suc i, ts_pollTimeout := Some i\<rparr>,
                      [Timer workerInstallPollIntervalMs (not_cleared i)
                         (\<lambda>s. pollTransitWorkerInstallHeartbeat b resourceId (attempt + 1) s)])));
             conclude = (\<lambda>resource s.
               case check_heartbeat b resource s of
                 (Some done, s1) \<Rightarrow> done s1
               | (None, s1) \<Rightarrow> again s1)
         in fetch resources_request as_resources
              (\<lambda>result. case result of
                 ApiFailure c m d \<Rightarrow> again
               | ApiSuccess rs m \<Rightarrow>
                   (\<lambda>s. let s1 = setVisibleTransitResources rs s;
                            resource = find_opt (\<lambda>r. tr_id r = resourceId) (ts_resources s1)
                        in (case Option.bind resource tr_worker_id of
                              Some w \<Rightarrow> if w = [] then conclude resource
                                         else loadWorkerCommands w (conclude resource) unhandled
                            | None \<Rightarrow> conclude resource) s1))
              unhandled s))"
  by pat_completeness auto
termination
  by (relation "measure (\<lambda>(b, r, attempt, s). workerInstallMaxPolls - attempt)") auto

definition startTransitWorkerInstallPolling ::
  "browser \<Rightarrow> jsstr \<Rightarrow> install_context \<Rightarrow> servers_panel act" where
  "startTransitWorkerInstallPolling b resourceId context s =
     (let s1 = (clearWorkerInstallAutoClose (clearWorkerInstallPolling s))
            \<lparr>ts_pollResourceId := Some resourceId, ts_pollContext := Some context\<rparr>;
          s2 = (if ix_mode context = UpgradeWorker then
                  s1\<lparr>ts_heartbeatMessage := (uni ''%u7B49%u5F85 Worker %u5347%u7EA7%u5230%u76EE%u6807%u7248%u672C... %u76EE%u6807%u7248%u672C%uFF1A'') @ ix_targetWorkerVersion context,
                     ts_message := (uni ''Worker %u5B89%u88C5%u547D%u4EE4%u5DF2%u751F%u6210%uFF0C%u6B63%u5728%u7B49%u5F85%u76EE%u6807%u7248%u672C Worker %u4E0A%u62A5 heartbeat%u3002'')\<rparr>
                else
                  s1\<lparr>ts_heartbeatMessage := (uni ''%u7B49%u5F85 Worker %u4E0A%u7EBF...''),
                     ts_message := (uni ''Worker %u5B89%u88C5%u547D%u4EE4%u5DF2%u751F%u6210%uFF0C%u6B63%u5728%u7B49%u5F85 Worker %u6CE8%u518C%u548C heartbeat%u3002'')\<rparr>)
      in pollTransitWorkerInstallHeartbeat b resourceId 0 s2)"

subsection \<open>Opening and closing\<close>

definition closeModal_servers :: "servers_panel \<Rightarrow> servers_panel" where
  "closeModal_servers s =
     s\<lparr>ts_modalMode := None, ts_selectedResource := None,
       ts_draftForm := emptyTransitResourceDraftForm, ts_deleteMode := RemoteCleanup\<rparr>"

definition openAdd :: "servers_panel \<Rightarrow> servers_panel" where
  "openAdd s =
     s\<lparr>ts_selectedResource := None, ts_draftForm := emptyTransitResourceDraftForm,
       ts_modalMode := Some AddModal\<rparr>"

definition openEdit :: "transit_resource_data \<Rightarrow> servers_panel \<Rightarrow> servers_panel" where
  "openEdit resource s =
     s\<lparr>ts_selectedResource := Some resource, ts_draftForm := draftFormFromResource resource,
       ts_modalMode := Some EditResourceModal\<rparr>"

definition openDeleteResource :: "transit_resource_data \<Rightarrow> servers_panel \<Rightarrow> servers_panel" where
  "openDeleteResource resource s =
     s\<lparr>ts_selectedResource := Some resource,
       ts_deleteMode := (if tr_worker_online resource then RemoteCleanup else OfflineLocalRemove),
       ts_modalMode := Some DeleteModal\<rparr>"

definition openWorkerInstallApprovalPreview :: "transit_resource_data \<Rightarrow> servers_panel \<Rightarrow> servers_panel" where
  "openWorkerInstallApprovalPreview resource s =
     (clearWorkerInstallAutoClose s)
       \<lparr>ts_approvalPreviewResource := Some resource, ts_installResult := None,
        ts_installCopied := False, ts_installGenerating := False, ts_installError := [],
        ts_installInterfaceName := defaultWorkerInterfaceName (tr_worker_interface_name resource),
        ts_heartbeatMessage := []\<rparr>"

datatype resource_edit =
    EditName jsstr
  | EditProvider jsstr
  | EditEntryHost jsstr
  | EditEntryRegion jsstr
  | EditExitRegion jsstr
  | EditBandwidth jsstr
  | EditTrafficLimit jsstr
  | EditPlannedInterface jsstr
  | EditProtocolHint protocol_hint
  | EditHasSsh bool
  | EditSshHost jsstr
  | EditSshPort jsstr
  | EditSshUsername jsstr
  | EditNotes jsstr

fun edit_resource_form :: "resource_edit \<Rightarrow> resource_form \<Rightarrow> resource_form" where
  "edit_resource_form (EditName v) f = f\<lparr>tf_name := v\<rparr>"
| "edit_resource_form (EditProvider v) f = f\<lparr>tf_provider := v\<rparr>"
| "edit_resource_form (EditEntryHost v) f = f\<lparr>tf_entryHost := v\<rparr>"
| "edit_resource_form (EditEntryRegion v) f = f\<lparr>tf_entryRegion := v\<rparr>"
| "edit_resource_form (EditExitRegion v) f = f\<lparr>tf_exitRegion := v\<rparr>"
| "edit_resource_form (EditBandwidth v) f = f\<lparr>tf_bandwidthMbps := v\<rparr>"
| "edit_resource_form (EditTrafficLimit v) f = f\<lparr>tf_trafficLimitGb := v\<rparr>"
| "edit_resource_form (EditPlannedInterface v) f = f\<lparr>tf_plannedInterface := v\<rparr>"
| "edit_resource_form (EditProtocolHint v) f = f\<lparr>tf_protocolHint := v\<rparr>"
| "edit_resource_form (EditHasSsh v) f = f\<lparr>tf_hasSsh := v\<rparr>"
| "edit_resource_form (EditSshHost v) f = f\<lparr>tf_sshHost := v\<rparr>"
| "edit_resource_form (EditSshPort v) f = f\<lparr>tf_sshPort := v\<rparr>"
| "edit_resource_form (EditSshUsername v) f = f\<lparr>tf_sshUsername := v\<rparr>"
| "edit_resource_form (EditNotes v) f = f\<lparr>tf_notes := v\<rparr>"

subsection \<open>The installation command\<close>

definition install_request :: "jsstr \<Rightarrow> install_command_request" where
  "install_request interfaceName =
     \<lparr>icq_confirmation = transitWorkerInstallCommandConfirmText,
      icq_expires_in_minutes = Some 60, icq_interface_name = Some interfaceName\<rparr>"

definition install_failed :: "jsstr \<Rightarrow> servers_panel \<Rightarrow> servers_panel" where
  "install_failed e s = s\<lparr>ts_installResult := None, ts_installError := e, ts_message := e\<rparr>"

definition install_context_for ::
  "browser \<Rightarrow> int \<Rightarrow> transit_resource_data \<Rightarrow> install_command \<Rightarrow> jsstr \<Rightarrow> install_context" where
  "install_context_for b now resource d interfaceName =
     \<lparr>ix_mode = (if isTransitResourceWorkerOnline resource then UpgradeWorker else InstallWorker),
      ix_targetWorkerVersion = requiredTransitWorkerVersion,
      ix_generatedAt = generatedAtFromExpiry (br_date_parse b) (br_to_iso b) now
        (Some (icr_expires_at d)) (Some (icr_token_expires_in_minutes d)),
      ix_interfaceName = interfaceName\<rparr>"

definition generateWorkerInstallCommandForPreview :: "browser \<Rightarrow> servers_panel act" where
  "generateWorkerInstallCommandForPreview b s =
     (case ts_approvalPreviewResource s of
        None \<Rightarrow> finished s
      | Some resource \<Rightarrow>
          let interfaceName = trim (ts_installInterfaceName s) in
          if \<not> isValidWorkerInterfaceName interfaceName then
            (let e = (uni ''%u7F51%u5361%u4E0D%u80FD%u4E3A%u7A7A%uFF0C%u4E14%u53EA%u80FD%u5305%u542B%u5B57%u6BCD%u3001%u6570%u5B57%u3001%u70B9%u3001%u4E0B%u5212%u7EBF%u6216%u77ED%u6A2A%u7EBF%u3002'')
             in finished (s\<lparr>ts_installError := e, ts_message := e\<rparr>))
          else
            (let end = (\<lambda>s. finished (s\<lparr>ts_installGenerating := False\<rparr>));
                 caught = (\<lambda>e s. end (install_failed (error_text e (uni ''%u751F%u6210 Worker %u5B89%u88C5%u547D%u4EE4%u5931%u8D25%u3002'')) s))
             in ensureCsrfToken_await
                  (\<lambda>csrfToken.
                     fetch (generateTransitWorkerInstallCommand (tr_id resource)
                              (json_install_command_request (install_request interfaceName)) csrfToken)
                       as_install
                       (\<lambda>result. case result of
                          ApiFailure c m d \<Rightarrow> (\<lambda>s. end (install_failed (api_error_text c m) s))
                        | ApiSuccess d m \<Rightarrow>
                            (\<lambda>s. alongside
                               (startTransitWorkerInstallPolling b (tr_id (icr_resource d))
                                  (install_context_for b (ts_clock s) resource d interfaceName))
                               end
                               (s\<lparr>ts_installResult := Some d, ts_installError := []\<rparr>)))
                       caught)
                  caught
                  ((clearWorkerInstallPolling
                     (s\<lparr>ts_installResult := None, ts_installCopied := False, ts_installError := []\<rparr>))
                     \<lparr>ts_installGenerating := True\<rparr>)))"

definition copyGeneratedWorkerInstallCommand :: "browser \<Rightarrow> servers_panel act" where
  "copyGeneratedWorkerInstallCommand b s =
     (case ts_installResult s of
        None \<Rightarrow> finished s
      | Some d \<Rightarrow>
          copyText_await (br_clipboard b) (icr_install_command d)
            (\<lambda>s. finished (s\<lparr>ts_installCopied := True,
               ts_message := (uni ''%u5B89%u88C5%u547D%u4EE4%u5DF2%u590D%u5236%u3002%u8BF7%u4E0D%u8981%u7C98%u8D34%u5230 README/docs/PR/chat/logs%u3002'')\<rparr>))
            (\<lambda>e s. finished (s\<lparr>ts_installCopied := False,
               ts_message := (case e of Some m \<Rightarrow> (uni ''%u590D%u5236%u5931%u8D25%uFF1A'') @ m | None \<Rightarrow> (uni ''%u590D%u5236%u5B89%u88C5%u547D%u4EE4%u5931%u8D25%u3002''))\<rparr>))
            s)"

subsection \<open>Saving a resource\<close>

definition draft_error :: "resource_form \<Rightarrow> jsstr option" where
  "draft_error form =
     (if trim (tf_name form) = [] then Some (uni ''%u8BF7%u586B%u5199%u4E2D%u8F6C%u8D44%u6E90%u540D%u79F0%u3002'')
      else if tf_hasSsh form \<and> trim (tf_sshPort form) \<noteq> [] \<and> parseTransitPort (tf_sshPort form) = None
      then Some (uni ''SSH %u7AEF%u53E3%u5FC5%u987B%u662F 1-65535 %u4E4B%u95F4%u7684%u6574%u6570%uFF1B%u4E5F%u53EF%u4EE5%u53D6%u6D88 SSH %u7BA1%u7406%u80FD%u529B%u3002'')
      else None)"

definition end_submit :: "servers_panel act" where
  "end_submit s = finished (s\<lparr>ts_submitting := False\<rparr>)"

text \<open>The common end of both saves: an error text, or a message, the closed modal and a reload.\<close>

definition after_save ::
  "jsstr \<Rightarrow> (jsstr option \<Rightarrow> servers_panel act) \<Rightarrow> 'a api_response \<Rightarrow> servers_panel act" where
  "after_save done_message caught result =
     (case result of
        ApiFailure c m d \<Rightarrow> (\<lambda>s. end_submit (set_message (api_error_text c m) s))
      | ApiSuccess d m \<Rightarrow>
          (\<lambda>s. loadResources end_submit caught (closeModal_servers (set_message done_message s))))"

definition submitDraftResource :: "browser \<Rightarrow> servers_panel act" where
  "submitDraftResource b s =
     (let payload = transitResourcePayloadFromForm (br_to_number b) (ts_draftForm s) (js ''pending_worker'')
      in case draft_error (ts_draftForm s) of
           Some e \<Rightarrow> finished (set_message e s)
         | None \<Rightarrow>
             (let caught = (\<lambda>e s. end_submit (set_message (error_text e (uni ''%u4FDD%u5B58%u4E2D%u8F6C VPS %u8349%u7A3F%u5931%u8D25%u3002'')) s))
              in ensureCsrfToken_await
                   (\<lambda>csrfToken.
                      fetch (createTransitResource (json_resource_payload payload) csrfToken) as_resource
                        (after_save (uni ''%u4E2D%u8F6C VPS %u8349%u7A3F%u5DF2%u4FDD%u5B58%u4E3A pending_worker%uFF1B%u672A%u751F%u6210 Worker token%uFF0C%u672A%u751F%u6210%u5B89%u88C5%u547D%u4EE4%uFF0C%u672A%u6267%u884C%u8FDC%u7A0B%u64CD%u4F5C%u3002'')
                           caught)
                        caught)
                   caught
                   (s\<lparr>ts_submitting := True\<rparr>)))"

definition patch_resource_request :: "jsstr \<Rightarrow> resource_payload \<Rightarrow> jsstr \<Rightarrow> api_request" where
  "patch_resource_request resourceId payload csrfToken =
     \<lparr>req_path = (js ''/api/transit-resources/'') @ resourceId, req_method = Some (js ''PATCH''),
      req_headers = [((js ''X-CSRF-Token''), csrfToken)], req_body = Some (json_resource_payload payload)\<rparr>"

definition submitEdit_servers :: "browser \<Rightarrow> servers_panel act" where
  "submitEdit_servers b s =
     (case ts_selectedResource s of
        None \<Rightarrow> finished s
      | Some resource \<Rightarrow>
          let payload = transitResourcePayloadFromForm (br_to_number b) (ts_draftForm s) (tr_status resource);
              caught = (\<lambda>e s. end_submit (set_message (error_text e (uni ''%u4FDD%u5B58%u4E2D%u8F6C%u670D%u52A1%u5668%u5931%u8D25%u3002'')) s))
          in ensureCsrfToken_await
               (\<lambda>csrfToken.
                  fetch (patch_resource_request (tr_id resource) payload csrfToken) as_resource
                    (after_save (uni ''%u4E2D%u8F6C%u670D%u52A1%u5668%u672C%u5730%u8BB0%u5F55%u5DF2%u66F4%u65B0%uFF1B%u672A%u6267%u884C%u8FDC%u7A0B%u64CD%u4F5C%u3002'') caught)
                    caught)
               caught
               (s\<lparr>ts_submitting := True\<rparr>))"

subsection \<open>The Worker check\<close>

definition can_check :: "transit_resource_data \<Rightarrow> bool" where
  "can_check resource \<longleftrightarrow> \<not> blank (tr_worker_id resource) \<and> tr_worker_online resource"

definition worker_check_payload :: "transit_resource_data \<Rightarrow> jsval" where
  "worker_check_payload resource =
     JObj [((js ''command_type''), JStr (js ''collect_status'')), ((js ''payload''), JNull),
       ((js ''server_id''), JStr (tr_id resource)), ((js ''server_type''), JStr (js ''transit''))]"

definition runWorkerCheck :: "transit_resource_data \<Rightarrow> servers_panel act" where
  "runWorkerCheck resource s =
     (if \<not> can_check resource then finished (set_message (uni ''Worker %u672A%u5728%u7EBF%uFF0C%u4E0D%u80FD%u521B%u5EFA%u68C0%u67E5%u547D%u4EE4%u3002'') s)
      else
        (let caught = (\<lambda>e s. finished (set_message (error_text e (uni ''%u521B%u5EFA Worker %u68C0%u67E5%u547D%u4EE4%u5931%u8D25%u3002'')) s))
         in ensureCsrfToken_await
              (\<lambda>csrfToken.
                 fetch (createWorkerCommand (the (tr_worker_id resource)) (worker_check_payload resource) csrfToken)
                   as_created
                   (\<lambda>result. case result of
                      ApiFailure c m d \<Rightarrow> (\<lambda>s. finished (set_message (api_error_text c m) s))
                    | ApiSuccess d m \<Rightarrow>
                        (\<lambda>s. loadWorkerCommands (wcc_target_worker_id d) finished caught
                           (set_message ((uni ''Worker %u68C0%u67E5%u547D%u4EE4%u5DF2%u521B%u5EFA%uFF1A'') @ wc_id (wcc_command d)) s)))
                   caught)
              caught s))"

subsection \<open>Deletion\<close>

definition delete_started_text :: "delete_mode \<Rightarrow> jsstr" where
  "delete_started_text mode =
     (if mode = OfflineLocalRemove then
        (uni ''%u6B63%u5728%u672C%u5730%u79FB%u9664%u4E2D%u8F6C%u670D%u52A1%u5668%u8BB0%u5F55%uFF1B%u4E0D%u4F1A%u521B%u5EFA Worker command %u6216%u6267%u884C%u8FDC%u7A0B%u6E05%u7406%u3002'')
      else (uni ''%u6B63%u5728%u521B%u5EFA%u4E2D%u8F6C%u670D%u52A1%u5668%u8FDC%u7A0B%u6E05%u7406%u4EFB%u52A1%uFF1B%u6E05%u7406%u6210%u529F%u540E%u624D%u4F1A%u8F6F%u5220%u9664%u7CFB%u7EDF%u8BB0%u5F55%u3002''))"

definition delete_done_text :: "cleanup_result \<Rightarrow> jsstr" where
  "delete_done_text d =
     (if cu_delete_mode d = Some (js ''offline_local_remove'') then
        (uni ''%u5DF2%u672C%u5730%u79FB%u9664%u8BB0%u5F55%u3002%u7531%u4E8E Worker %u79BB%u7EBF%uFF0C%u672A%u6267%u884C%u8FDC%u7A0B%u6E05%u7406%u3002'')
      else (uni ''%u6E05%u7406%u4EFB%u52A1%u5DF2%u521B%u5EFA%uFF1A'') @ nullish (cu_command_id d) (js ''undefined'')
        @ (uni ''%u3002%u7B49%u5F85 Worker %u6267%u884C%uFF1B%u8FDC%u7A0B%u6E05%u7406%u6210%u529F%u540E%u5C06%u8F6F%u5220%u9664%u7CFB%u7EDF%u8BB0%u5F55%u3002''))"

definition delete_refused :: "jsstr \<Rightarrow> jsstr \<Rightarrow> jsval option \<Rightarrow> servers_panel \<Rightarrow> servers_panel" where
  "delete_refused code m data s =
     (if code = (js ''REMOTE_CLEANUP_UNAVAILABLE'') \<and> isOfflineLocalRemoveOffer data
      then s\<lparr>ts_deleteMode := OfflineLocalRemove, ts_message := m\<rparr>
      else set_message (api_error_text code m) s)"

definition delete_caught :: "jsstr \<Rightarrow> jsstr option \<Rightarrow> servers_panel act" where
  "delete_caught resourceId e s =
     loadResources
       (\<lambda>s. end_submit (set_message (error_text e (uni ''%u5220%u9664%u4E2D%u8F6C%u670D%u52A1%u5668%u5931%u8D25%u3002'')) s))
       (\<lambda>e. end_submit)
       (releaseTransitResourcePendingDelete resourceId s)"

definition submitDeleteResource :: "servers_panel act" where
  "submitDeleteResource s =
     (case ts_selectedResource s of
        None \<Rightarrow> finished s
      | Some resource \<Rightarrow>
          let resourceId = tr_id resource;
              confirm = requiredDeleteConfirmText (ts_deleteMode s);
              caught = delete_caught resourceId
          in ensureCsrfToken_await
               (\<lambda>csrfToken.
                  fetch (remoteCleanupDeleteTransitResource resourceId csrfToken confirm) as_cleanup
                    (\<lambda>result. case result of
                       ApiFailure c m d \<Rightarrow>
                         (\<lambda>s. loadResources (\<lambda>s. end_submit (delete_refused c m d s)) caught
                            (releaseTransitResourcePendingDelete resourceId s))
                     | ApiSuccess d m \<Rightarrow>
                         (\<lambda>s. loadResources
                            (alongside (scheduleResourceRefresh (cu_command d))
                              (alongside
                                (refreshWhenResourceCleanupCommandCompletes (cu_command d) (Some resourceId))
                                end_submit))
                            caught
                            (closeModal_servers (set_message (delete_done_text d) s))))
                    caught)
               caught
               ((set_message (delete_started_text (ts_deleteMode s))
                  (markTransitResourcePendingDelete resourceId s))\<lparr>ts_submitting := True\<rparr>))"

end
