(* ===== verification/PendingDelete.thy ===== *)
theory PendingDelete
  imports Async
begin

text \<open>
  The contract of a list with pending deletions, as three panels keep one: the records (\<open>items\<close>)
  of what the backend last returned, less those that are marked as deleted and those whose deletion has been
  requested and not been refused. The abstract specification is a directory of two sets of ids,
  what is shown and what is held back.
\<close>

record directory =
  dir_shown :: "jsstr set"
  dir_held :: "jsstr set"

inductive directory_step :: "directory \<Rightarrow> directory \<Rightarrow> bool" where
  load: "directory_step d (d\<lparr>dir_shown := ids - dir_held d\<rparr>)"
| hold: "directory_step d (d\<lparr>dir_shown := dir_shown d - {i}, dir_held := insert i (dir_held d)\<rparr>)"
| release: "directory_step d (d\<lparr>dir_held := dir_held d - {i}\<rparr>)"

inductive_cases directory_stepE: "directory_step d e"

text \<open>
  Who may do what: the user's click holds an id back, an event (a response, a timer) loads the
  list or releases an id; most clicks and events leave the directory as it is.
\<close>

inductive directory_click :: "directory \<Rightarrow> directory \<Rightarrow> bool" where
  "directory_click d d"
| "directory_click d (d\<lparr>dir_shown := dir_shown d - {i}, dir_held := insert i (dir_held d)\<rparr>)"

inductive directory_event :: "directory \<Rightarrow> directory \<Rightarrow> bool" where
  "directory_event d d"
| "directory_event d (d\<lparr>dir_shown := ids - dir_held d\<rparr>)"
| "directory_event d (d\<lparr>dir_held := dir_held d - {i}\<rparr>)"

lemma directory_click_steps: "directory_click d e \<Longrightarrow> directory_step\<^sup>*\<^sup>* d e"
  by (erule directory_click.cases) (auto intro: directory_step.intros)

lemma directory_event_steps: "directory_event d e \<Longrightarrow> directory_step\<^sup>*\<^sup>* d e"
  by (erule directory_event.cases) (auto intro: directory_step.intros)

abbreviation directory_steps :: "directory \<Rightarrow> directory \<Rightarrow> bool" where
  "directory_steps \<equiv> directory_step\<^sup>*\<^sup>*"

definition empty_directory :: directory where
  "empty_directory = \<lparr>dir_shown = {}, dir_held = {}\<rparr>"

lemma directory_step_disjoint:
  "directory_step d e \<Longrightarrow> dir_shown d \<inter> dir_held d = {} \<Longrightarrow> dir_shown e \<inter> dir_held e = {}"
  by (erule directory_stepE) auto

lemma directory_steps_disjoint:
  "directory_steps d e \<Longrightarrow> dir_shown d \<inter> dir_held d = {} \<Longrightarrow> dir_shown e \<inter> dir_held e = {}"
  by (induction rule: rtranclp_induct) (auto dest: directory_step_disjoint)

text \<open>The records of a list that may be shown while the ids in \<open>P\<close> are held back.\<close>

definition visible :: "('x \<Rightarrow> jsstr) \<Rightarrow> ('x \<Rightarrow> bool) \<Rightarrow> jsstr set \<Rightarrow> 'x list \<Rightarrow> 'x list" where
  "visible ident gone P xs = List.filter (\<lambda>x. ident x \<notin> P \<and> \<not> gone x) xs"

lemma set_visible: "set (visible ident gone P xs) = {x \<in> set xs. ident x \<notin> P \<and> \<not> gone x}"
  by (auto simp: visible_def)

lemma ids_visible: "ident ` set (visible ident gone P xs) = ident ` {x \<in> set xs. \<not> gone x} - P"
  by (auto simp: set_visible)

locale pending_list =
  fixes pending :: "'s \<Rightarrow> jsstr set"
    and listed :: "'s \<Rightarrow> 'x list"
    and ident :: "'x \<Rightarrow> jsstr"
    and gone :: "'x \<Rightarrow> bool"
    and items :: "'r \<Rightarrow> 's \<Rightarrow> 'x list"
    and reload :: "'r \<Rightarrow> 's \<Rightarrow> 's"
    and mark :: "jsstr \<Rightarrow> 's \<Rightarrow> 's"
    and release :: "jsstr \<Rightarrow> 's \<Rightarrow> 's"
  assumes reload_listed: "listed (reload xs s) = visible ident gone (pending s) (items xs s)"
    and reload_pending: "pending (reload xs s) = pending s"
    and mark_listed: "listed (mark i s) = visible ident gone (insert i (pending s)) (listed s)"
    and mark_pending: "pending (mark i s) = insert i (pending s)"
    and release_listed: "listed (release i s) = listed s"
    and release_pending: "pending (release i s) = pending s - {i}"
begin

definition consistent :: "'s \<Rightarrow> bool" where
  "consistent s \<longleftrightarrow> (\<forall>x \<in> set (listed s). ident x \<notin> pending s \<and> \<not> gone x)"

definition directory_of :: "'s \<Rightarrow> directory" where
  "directory_of s = \<lparr>dir_shown = ident ` set (listed s), dir_held = pending s\<rparr>"

definition implements :: "directory \<Rightarrow> 's \<Rightarrow> bool" where
  "implements d s \<longleftrightarrow> consistent s \<and> directory_steps d (directory_of s)"

lemma implements_consistentD: "implements d s \<Longrightarrow> x \<in> set (listed s) \<Longrightarrow> ident x \<notin> pending s \<and> \<not> gone x"
  by (auto simp: implements_def consistent_def)

lemma implements_directory: "implements d s \<Longrightarrow> directory_steps d (directory_of s)"
  by (simp add: implements_def)

lemma implements_start: "listed s = [] \<Longrightarrow> pending s = {} \<Longrightarrow> implements empty_directory s"
  by (simp add: implements_def consistent_def directory_of_def empty_directory_def)

lemma implements_same:
  "implements d s \<Longrightarrow> listed t = listed s \<Longrightarrow> pending t = pending s \<Longrightarrow> implements d t"
  by (simp add: implements_def consistent_def directory_of_def)

text \<open>What each operation does to the directory.\<close>

lemma reload_view:
  "directory_of (reload xs s) =
     (directory_of s)\<lparr>dir_shown := ident ` {x \<in> set (items xs s). \<not> gone x} - dir_held (directory_of s)\<rparr>"
  by (simp add: directory_of_def reload_listed reload_pending ids_visible)

lemma mark_view:
  assumes "consistent s"
  shows "directory_of (mark i s) =
     (directory_of s)\<lparr>dir_shown := dir_shown (directory_of s) - {i},
        dir_held := insert i (dir_held (directory_of s))\<rparr>"
proof -
  have "ident ` {x \<in> set (listed s). \<not> gone x} - insert i (pending s) = ident ` set (listed s) - {i}"
    using assms by (auto simp: consistent_def)
  then show ?thesis by (simp add: directory_of_def mark_listed mark_pending ids_visible)
qed

lemma release_view:
  "directory_of (release i s) = (directory_of s)\<lparr>dir_held := dir_held (directory_of s) - {i}\<rparr>"
  by (simp add: directory_of_def release_listed release_pending)

lemma operations_consistent:
  "consistent (reload xs s)"
  "consistent s \<Longrightarrow> consistent (mark i s)"
  "consistent s \<Longrightarrow> consistent (release i s)"
  by (simp_all add: consistent_def reload_listed reload_pending mark_listed mark_pending
      release_listed release_pending set_visible)

lemma implements_step:
  "implements d s \<Longrightarrow> directory_step (directory_of s) (directory_of t) \<Longrightarrow> consistent t \<Longrightarrow> implements d t"
  unfolding implements_def by (blast intro: rtranclp.rtrancl_into_rtrancl)

lemma implements_reload: "implements d s \<Longrightarrow> implements d (reload xs s)"
  by (erule implements_step) (simp_all only: reload_view directory_step.load operations_consistent)

lemma implements_mark: "implements d s \<Longrightarrow> implements d (mark i s)"
  by (frule implements_step [of d s "mark i s"])
    (simp_all add: implements_def mark_view directory_step.hold operations_consistent)

lemma implements_release: "implements d s \<Longrightarrow> implements d (release i s)"
  by (frule implements_step [of d s "release i s"])
    (simp_all add: implements_def release_view directory_step.release operations_consistent)

text \<open>A list that only loses records is that of a load.\<close>

lemma implements_fewer:
  assumes "implements d s" and "pending t = pending s" and "set (listed t) \<subseteq> set (listed s)"
  shows "implements d t"
proof -
  have "dir_shown (directory_of t) \<inter> dir_held (directory_of s) = {}"
    using assms(1,3) by (auto simp: implements_def consistent_def directory_of_def)
  then have "directory_of t = (directory_of s)\<lparr>dir_shown :=
      dir_shown (directory_of t) - dir_held (directory_of s)\<rparr>"
    using assms(2) by (auto simp: directory_of_def)
  then have "directory_step (directory_of s) (directory_of t)"
    by (metis directory_step.load)
  moreover have "consistent t"
    using assms by (auto simp: implements_def consistent_def)
  ultimately show ?thesis using implements_step [OF assms(1)] by blast
qed

text \<open>Which kind of step each operation is.\<close>

lemma reload_event: "directory_event (directory_of s) (directory_of (reload xs s))"
  unfolding reload_view by (rule directory_event.intros(2))

lemma release_event: "directory_event (directory_of s) (directory_of (release i s))"
  unfolding release_view by (rule directory_event.intros(3))

lemma mark_click: "consistent s \<Longrightarrow> directory_click (directory_of s) (directory_of (mark i s))"
  by (simp only: mark_view directory_click.intros(2))

lemma same_view:
  assumes "listed t = listed s" and "pending t = pending s"
  shows "directory_of t = directory_of s" and "consistent t = consistent s"
  using assms by (simp_all add: directory_of_def consistent_def)

text \<open>While an id is held back, no reload brings it back.\<close>

lemma reload_hides: "i \<in> pending s \<Longrightarrow> i \<notin> ident ` set (listed (reload xs s))"
  by (auto simp: reload_listed set_visible)

lemma mark_hides: "i \<notin> ident ` set (listed (mark i s))"
  by (auto simp: mark_listed set_visible)

lemma reload_shows:
  "x \<in> set (items xs s) \<Longrightarrow> \<not> gone x \<Longrightarrow> ident x \<notin> pending s
    \<Longrightarrow> x \<in> set (listed (reload xs s))"
  by (simp add: reload_listed set_visible)

end

end
