(* ===== verification/TransitServersSystem.thy ===== *)
theory TransitServersSystem
  imports TransitServers PendingDelete
begin

text \<open>
  The transit server panel as a system of interleaved handlers, and what holds in all its runs.
\<close>

subsection \<open>What the user can start\<close>

text \<open>
  The buttons and inputs of the panel, with the conditions under which it shows or enables them;
  \<open>Tick\<close> lets the clock advance, \<open>Unmount\<close> is the cleanup of the effect.
\<close>

inductive servers_may :: "browser \<Rightarrow> servers_panel \<Rightarrow> servers_panel act \<Rightarrow> bool" for b where
  Refresh: "servers_may b s (loadResources finished unhandled)"
| Tick: "ts_clock s \<le> now \<Longrightarrow> servers_may b s (\<lambda>s. finished (s\<lparr>ts_clock := now\<rparr>))"
| Unmount: "servers_may b s (\<lambda>s. finished (clearWorkerInstallAutoClose (clearWorkerInstallPolling s)))"
| Add: "servers_may b s (\<lambda>s. finished (openAdd s))"
| Edit: "\<not> ts_loading s \<Longrightarrow> r \<in> set (ts_resources s) \<Longrightarrow> servers_may b s (\<lambda>s. finished (openEdit r s))"
| Delete: "\<not> ts_loading s \<Longrightarrow> r \<in> set (ts_resources s)
    \<Longrightarrow> servers_may b s (\<lambda>s. finished (openDeleteResource r s))"
| Install: "\<not> ts_loading s \<Longrightarrow> r \<in> set (ts_resources s)
    \<Longrightarrow> servers_may b s (\<lambda>s. finished (openWorkerInstallApprovalPreview r s))"
| Check: "\<not> ts_loading s \<Longrightarrow> r \<in> set (ts_resources s) \<Longrightarrow> can_check r
    \<Longrightarrow> servers_may b s (runWorkerCheck r)"
| Cancel: "ts_modalMode s \<noteq> None \<Longrightarrow> servers_may b s (\<lambda>s. finished (closeModal_servers s))"
| Input: "ts_modalMode s \<in> {Some AddModal, Some EditResourceModal}
    \<Longrightarrow> servers_may b s (\<lambda>s. finished (s\<lparr>ts_draftForm := edit_resource_form e (ts_draftForm s)\<rparr>))"
| SaveNew: "ts_modalMode s = Some AddModal \<Longrightarrow> \<not> ts_submitting s \<Longrightarrow> servers_may b s (submitDraftResource b)"
| SaveEdit: "ts_modalMode s = Some EditResourceModal \<Longrightarrow> \<not> ts_submitting s
    \<Longrightarrow> servers_may b s (submitEdit_servers b)"
| ConfirmDelete: "ts_modalMode s = Some DeleteModal \<Longrightarrow> ts_selectedResource s \<noteq> None \<Longrightarrow> \<not> ts_submitting s
    \<Longrightarrow> servers_may b s submitDeleteResource"
| Interface: "ts_approvalPreviewResource s \<noteq> None
    \<Longrightarrow> servers_may b s (\<lambda>s. finished (s\<lparr>ts_installInterfaceName := v\<rparr>))"
| Generate: "ts_approvalPreviewResource s \<noteq> None \<Longrightarrow> \<not> ts_installGenerating s
    \<Longrightarrow> servers_may b s (generateWorkerInstallCommandForPreview b)"
| Copy: "ts_approvalPreviewResource s \<noteq> None \<Longrightarrow> ts_installResult s \<noteq> None
    \<Longrightarrow> servers_may b s (copyGeneratedWorkerInstallCommand b)"
| ClosePreview: "ts_approvalPreviewResource s \<noteq> None \<Longrightarrow> servers_may b s (\<lambda>s. finished (closeApprovalPreview s))"

abbreviation servers_reach :: "browser \<Rightarrow> servers_panel \<times> servers_panel task list \<Rightarrow> bool" where
  "servers_reach b \<equiv> system_reach (servers_may b) servers_initial"

subsection \<open>The list implements the directory\<close>

interpretation servers: pending_list ts_pendingDeleted ts_resources tr_id resource_deleted "\<lambda>rs s. rs"
    setVisibleTransitResources markTransitResourcePendingDelete releaseTransitResourcePendingDelete
  by unfold_locales
    (simp_all add: setVisibleTransitResources_def filterVisibleTransitResources_def visible_def
      markTransitResourcePendingDelete_def releaseTransitResourcePendingDelete_def
      clearWorkerInstallPolling_def Let_def)

text \<open>
  The invariant of the panel: the list implements the directory, a poll has an id exactly when it
  has a context, and nothing is polled for a resource that is being deleted.
\<close>

definition polling_consistent :: "servers_panel \<Rightarrow> bool" where
  "polling_consistent s \<longleftrightarrow> (ts_pollResourceId s = None \<longleftrightarrow> ts_pollContext s = None)"

definition polls_no_deleted :: "servers_panel \<Rightarrow> bool" where
  "polls_no_deleted s \<longleftrightarrow> (\<forall>i. ts_pollResourceId s = Some i \<longrightarrow> i \<notin> ts_pendingDeleted s)"

definition servers_inv :: "directory \<Rightarrow> servers_panel \<Rightarrow> bool" where
  "servers_inv d s \<longleftrightarrow> servers.implements d s \<and> polling_consistent s \<and> polls_no_deleted s"

declare cleanup_polls.simps [simp del] pollTransitWorkerInstallHeartbeat.simps [simp del]

text \<open>
  What a predicate of the panel must satisfy for all handlers to keep it: it survives changes
  outside the list, the pending ids, the polling and the two busy flags, lowering a flag, and the
  primitive operations on the rest. The handlers are checked once, against this contract; the
  invariant above and the two flags fulfil it.
\<close>

definition frame :: "servers_panel \<Rightarrow> servers_panel \<Rightarrow> bool" where
  "frame s t \<longleftrightarrow> ts_resources t = ts_resources s \<and> ts_pendingDeleted t = ts_pendingDeleted s
     \<and> ts_pollResourceId t = ts_pollResourceId s \<and> ts_pollContext t = ts_pollContext s
     \<and> (ts_submitting t \<longrightarrow> ts_submitting s) \<and> (ts_installGenerating t \<longrightarrow> ts_installGenerating s)"

definition poll_for :: "jsstr \<Rightarrow> install_context \<Rightarrow> servers_panel \<Rightarrow> servers_panel" where
  "poll_for i c s = s\<lparr>ts_pollResourceId := Some i, ts_pollContext := Some c\<rparr>"

locale servers_invariant =
  fixes I :: "servers_panel \<Rightarrow> bool"
  assumes framed: "I s \<Longrightarrow> frame s t \<Longrightarrow> I t"
    and reloaded: "I s \<Longrightarrow> I (setVisibleTransitResources rs s)"
    and marked: "I s \<Longrightarrow> I (markTransitResourcePendingDelete i s)"
    and released: "I s \<Longrightarrow> I (releaseTransitResourcePendingDelete i s)"
    and stopped: "I s \<Longrightarrow> I (clearWorkerInstallPolling s)"
    and polled: "I s \<Longrightarrow> i \<notin> ts_pendingDeleted s \<Longrightarrow> I (poll_for i c s)"
    and polled_in_vain: "I s \<Longrightarrow> I (clearWorkerInstallPolling (poll_for i c s))"
begin

lemma updates [simp]:
  "I s \<Longrightarrow> I (s\<lparr>ts_message := m\<rparr>)"
  "I s \<Longrightarrow> I (s\<lparr>ts_loading := x\<rparr>)"
  "I s \<Longrightarrow> I (s\<lparr>ts_submitting := False\<rparr>)"
  "I s \<Longrightarrow> I (s\<lparr>ts_deleteMode := dm\<rparr>)"
  "I s \<Longrightarrow> I (s\<lparr>ts_clock := n\<rparr>)"
  "I s \<Longrightarrow> I (s\<lparr>ts_draftForm := f\<rparr>)"
  "I s \<Longrightarrow> I (s\<lparr>ts_heartbeatMessage := m\<rparr>)"
  "I s \<Longrightarrow> I (s\<lparr>ts_installGenerating := False\<rparr>)"
  "I s \<Longrightarrow> I (s\<lparr>ts_installCopied := x\<rparr>)"
  "I s \<Longrightarrow> I (s\<lparr>ts_installResult := ir\<rparr>)"
  "I s \<Longrightarrow> I (s\<lparr>ts_installError := m\<rparr>)"
  "I s \<Longrightarrow> I (s\<lparr>ts_installInterfaceName := m\<rparr>)"
  "I s \<Longrightarrow> I (s\<lparr>ts_autoCloseTimeout := x1\<rparr>)"
  "I s \<Longrightarrow> I (s\<lparr>ts_pollTimeout := x1\<rparr>)"
  "I s \<Longrightarrow> I (s\<lparr>ts_nextTimer := k\<rparr>)"
  "I s \<Longrightarrow> I (s\<lparr>ts_modalMode := mm\<rparr>)"
  "I s \<Longrightarrow> I (s\<lparr>ts_selectedResource := r\<rparr>)"
  "I s \<Longrightarrow> I (s\<lparr>ts_approvalPreviewResource := r\<rparr>)"
  "I s \<Longrightarrow> I (store_commands w cs s)"
  "I s \<Longrightarrow> I (set_message m s)"
  "I s \<Longrightarrow> I (clearWorkerInstallAutoClose s)"
  by (erule framed, simp add: frame_def store_commands_def set_message_def
      clearWorkerInstallAutoClose_def)+

lemmas core_updates [simp] = reloaded marked released stopped

lemma modals [simp]:
  "I s \<Longrightarrow> I (closeModal_servers s)"
  "I s \<Longrightarrow> I (openAdd s)"
  "I s \<Longrightarrow> I (openEdit r s)"
  "I s \<Longrightarrow> I (openDeleteResource r s)"
  "I s \<Longrightarrow> I (openWorkerInstallApprovalPreview r s)"
  "I s \<Longrightarrow> I (closeApprovalPreview s)"
  "I s \<Longrightarrow> I (install_failed e s)"
  "I s \<Longrightarrow> I (delete_refused c m x s)"
  by (simp_all add: closeModal_servers_def openAdd_def openEdit_def openDeleteResource_def
      openWorkerInstallApprovalPreview_def closeApprovalPreview_def install_failed_def delete_refused_def)

lemma ok_loadWorkerCommands [ok_intros]:
  assumes "P \<longrightarrow> I s" and "\<And>Q s. (Q \<longrightarrow> I s) \<Longrightarrow> ok I Q (k s)"
    and "\<And>e Q s. (Q \<longrightarrow> I s) \<Longrightarrow> ok I Q (h e s)"
  shows "ok I P (loadWorkerCommands w k h s)"
  unfolding loadWorkerCommands_def using assms
  by (intro ok_fetch) (auto split: api_response.split)

lemma each_keeps_load: "each_keeps I (load_commands_each w)"
  unfolding each_keeps_def
proof (intro allI impI)
  fix r f s
  assume "snd (load_commands_each w) r = Some (Inr f)" and s: "I s"
  then obtain x where "(case x of Resolved (ApiSuccess cs m) \<Rightarrow> Inr (store_commands w cs)
      | Resolved (ApiFailure c m d) \<Rightarrow> Inr id | Rejected e \<Rightarrow> Inl e) = Inr f"
    by (auto simp: load_commands_each_def)
  then show "I (f s)" using s by (auto split: settled.splits api_response.splits)
qed

lemma ok_loadResources [ok_intros]:
  assumes "P \<longrightarrow> I s" and "\<And>Q s. (Q \<longrightarrow> I s) \<Longrightarrow> ok I Q (k s)"
    and "\<And>e Q s. (Q \<longrightarrow> I s) \<Longrightarrow> ok I Q (h e s)"
  shows "ok I P (loadResources k h s)"
  unfolding loadResources_def using assms
  by (intro ok_fetch) (auto intro!: ok_each_of each_keeps_load split: api_response.split)

lemma ok_loadWorkerCommands_of [ok_intros]:
  assumes "P \<longrightarrow> I s" and "\<And>Q s. (Q \<longrightarrow> I s) \<Longrightarrow> ok I Q (k s)"
    and "\<And>e Q s. (Q \<longrightarrow> I s) \<Longrightarrow> ok I Q (h e s)"
  shows "ok I P (loadWorkerCommands_of c k h s)"
  using assms by (auto simp: loadWorkerCommands_of_def intro!: ok_loadWorkerCommands split: option.split)

lemma ok_scheduleResourceRefresh [ok_intros]:
  "(P \<longrightarrow> I s) \<Longrightarrow> ok I P (scheduleResourceRefresh c s)"
  unfolding scheduleResourceRefresh_def Let_def by (auto intro!: ok_intros)

lemma ok_cleanup_finished [ok_intros]: "(P \<longrightarrow> I s) \<Longrightarrow> ok I P (cleanup_finished c i s)"
  unfolding cleanup_finished_def by (auto intro!: ok_intros)

lemma ok_cleanup_still_running [ok_intros]: "(P \<longrightarrow> I s) \<Longrightarrow> ok I P (cleanup_still_running c s)"
  unfolding cleanup_still_running_def by (auto intro!: ok_intros)

lemma ok_cleanup_polls [ok_intros]: "(P \<longrightarrow> I s) \<Longrightarrow> ok I P (cleanup_polls c i l n s)"
proof (induction c i l n arbitrary: P s rule: cleanup_polls.induct)
  case (1 c i l n)
  show ?case
  proof (cases "n < cleanupCommandMaxPolls")
    case True
    show ?thesis
      by (subst cleanup_polls.simps)
        (use 1 True in \<open>auto intro!: ok_intros split: api_response.split\<close>)
  next
    case False
    then show ?thesis by (subst cleanup_polls.simps) (auto intro!: ok_intros 1)
  qed
qed

lemma ok_refreshWhen [ok_intros]:
  "(P \<longrightarrow> I s) \<Longrightarrow> ok I P (refreshWhenResourceCleanupCommandCompletes c i s)"
  unfolding refreshWhenResourceCleanupCommandCompletes_def
  by (auto intro!: ok_intros split: option.split)

lemma ok_worker_arrived [ok_intros]: "(P \<longrightarrow> I s) \<Longrightarrow> ok I P (worker_arrived hb m s)"
  unfolding worker_arrived_def scheduleWorkerInstallAutoClose_def Let_def
  by (auto intro!: ok_pair task_keeps_timer ok_intros)

lemma check_heartbeat_keeps:
  assumes "check_heartbeat b r s = (x, s')"
  shows "I s \<longrightarrow> I s'" and "x = Some done \<Longrightarrow> (P \<longrightarrow> I t) \<Longrightarrow> ok I P (done t)"
  using assms by (auto simp: check_heartbeat_def Let_def intro!: ok_intros split: option.splits if_splits)

lemma ok_poll_timed_out [ok_intros]: "(P \<longrightarrow> I s) \<Longrightarrow> ok I P (poll_timed_out s)"
  unfolding poll_timed_out_def Let_def by (auto intro!: ok_intros)

lemma ok_poll [ok_intros]:
  "(P \<longrightarrow> I s) \<Longrightarrow> ok I P (pollTransitWorkerInstallHeartbeat b i n s)"
proof (induction b i n s arbitrary: P rule: pollTransitWorkerInstallHeartbeat.induct)
  case (1 b i n s)
  let ?again = "\<lambda>s. if workerInstallMaxPolls \<le> n + 1 then poll_timed_out s
    else (let s1 = (if polling_upgrade (ts_pollContext s) then s
                    else s\<lparr>ts_heartbeatMessage := (uni ''%u7B49%u5F85 Worker %u4E0A%u7EBF...'')\<rparr>);
              k = ts_nextTimer s1
          in (s1\<lparr>ts_nextTimer := Suc k, ts_pollTimeout := Some k\<rparr>,
              [Timer workerInstallPollIntervalMs (not_cleared k)
                 (\<lambda>s. pollTransitWorkerInstallHeartbeat b i (n + 1) s)]))"
  let ?conclude = "\<lambda>resource s. case check_heartbeat b resource s of
      (Some done, s1) \<Rightarrow> done s1 | (None, s1) \<Rightarrow> ?again s1"
  show ?case
  proof (cases "poll_abandoned i s")
    case True
    then show ?thesis
      using 1(2) by (subst pollTransitWorkerInstallHeartbeat.simps) (auto intro!: ok_intros)
  next
    case False
    have again: "ok I Q (?again t)" if "Q \<longrightarrow> I t" for Q t
      using that 1(1) False by (auto simp: Let_def intro!: ok_intros ok_pair task_keeps_timer)
    have conclude: "ok I Q (?conclude r t)" if "Q \<longrightarrow> I t" for Q r t
    proof (cases "check_heartbeat b r t")
      case (Pair x t')
      note found = check_heartbeat_keeps [OF Pair]
      have "Q \<longrightarrow> I t'" using found(1) that by blast
      then show ?thesis
        using found(2) [of _ Q t'] again [of Q t'] by (cases x) (auto simp: Pair simp del: if_split)
    qed
    have after: "ok I Q
        ((case x of Some w \<Rightarrow> if w = [] then ?conclude r else loadWorkerCommands w (?conclude r) unhandled
                  | None \<Rightarrow> ?conclude r) t)" if "Q \<longrightarrow> I t" for Q x r t
    proof (cases x)
      case None
      then show ?thesis using conclude [OF that] by simp
    next
      case (Some w)
      then show ?thesis
        using conclude that
        by (cases "w = []") (auto simp del: split_paired_All intro!: ok_loadWorkerCommands ok_unhandled)
    qed
    have "ok I P
        (fetch resources_request as_resources
          (\<lambda>result. case result of
             ApiFailure c m e \<Rightarrow> ?again
           | ApiSuccess rs m \<Rightarrow>
               (\<lambda>s. let s1 = setVisibleTransitResources rs s;
                        resource = find_opt (\<lambda>r. tr_id r = i) (ts_resources s1)
                    in (case Option.bind resource tr_worker_id of
                          Some w \<Rightarrow> if w = [] then ?conclude resource
                                     else loadWorkerCommands w (?conclude resource) unhandled
                        | None \<Rightarrow> ?conclude resource) s1))
          unhandled s)"
      by (rule ok_fetch)
        (use 1(2) again after in \<open>auto simp: Let_def simp del: if_split intro: ok_unhandled split: api_response.split\<close>)
    then show ?thesis
      by (subst pollTransitWorkerInstallHeartbeat.simps) (simp only: False if_False Let_def)
  qed
qed

text \<open>A poll may be started for a resource that is being deleted: it ends at once.\<close>

lemma ok_poll_started:
  assumes "P \<longrightarrow> I s" shows "ok I P (pollTransitWorkerInstallHeartbeat b i n (poll_for i c s))"
proof (cases "i \<in> ts_pendingDeleted s")
  case True
  then have "i \<in> ts_pendingDeleted (poll_for i c s)" by (simp add: poll_for_def)
  then show ?thesis
    using polled_in_vain [of s i c] assms
    by (subst pollTransitWorkerInstallHeartbeat.simps) (simp add: poll_abandoned_def ok_finished)
next
  case False
  then show ?thesis using assms by (intro ok_poll impI polled) auto
qed

lemma ok_startPolling [ok_intros]:
  assumes "P \<longrightarrow> I s" shows "ok I P (startTransitWorkerInstallPolling b i c s)"
proof -
  let ?s = "clearWorkerInstallAutoClose (clearWorkerInstallPolling s)"
  have *: "ok I P (pollTransitWorkerInstallHeartbeat b i 0
      ((poll_for i c ?s)\<lparr>ts_heartbeatMessage := h, ts_message := m\<rparr>))" for h m
  proof -
    have "(poll_for i c ?s)\<lparr>ts_heartbeatMessage := h, ts_message := m\<rparr> =
        poll_for i c (?s\<lparr>ts_heartbeatMessage := h, ts_message := m\<rparr>)"
      by (rule servers_panel.equality) (simp_all add: poll_for_def)
    then show ?thesis using assms by (auto intro: ok_poll_started)
  qed
  show ?thesis
    unfolding startTransitWorkerInstallPolling_def Let_def using * by (simp add: poll_for_def)
qed

lemma ok_end_submit [ok_intros]: "(P \<longrightarrow> I s) \<Longrightarrow> ok I P (end_submit s)"
  unfolding end_submit_def by (auto intro!: ok_intros)

lemma ok_copy [ok_intros]: "(P \<longrightarrow> I s) \<Longrightarrow> ok I P (copyGeneratedWorkerInstallCommand b s)"
  unfolding copyGeneratedWorkerInstallCommand_def copyText_await_def
  by (auto intro!: ok_intros split: option.split settled.split)

lemma ok_after_save [ok_intros]:
  assumes "P \<longrightarrow> I s" and "\<And>e Q s. (Q \<longrightarrow> I s) \<Longrightarrow> ok I Q (h e s)"
  shows "ok I P (after_save m h r s)"
  unfolding after_save_def using assms by (auto intro!: ok_intros split: api_response.split)

lemma ok_check [ok_intros]: "(P \<longrightarrow> I s) \<Longrightarrow> ok I P (runWorkerCheck r s)"
  unfolding runWorkerCheck_def Let_def by (auto intro!: ok_intros split: api_response.split)

lemma ok_delete_caught [ok_intros]: "(P \<longrightarrow> I s) \<Longrightarrow> ok I P (delete_caught i e s)"
  unfolding delete_caught_def by (auto intro!: ok_intros)

text \<open>The handlers that raise a flag keep the predicate if raising the flag does.\<close>

definition raising :: "bool \<Rightarrow> bool" where
  "raising P \<longleftrightarrow> (P \<longrightarrow> (\<forall>s. I s \<longrightarrow> I (s\<lparr>ts_submitting := True\<rparr>) \<and> I (s\<lparr>ts_installGenerating := True\<rparr>)))"

lemma raise:
  "raising P \<Longrightarrow> P \<Longrightarrow> I s \<Longrightarrow> I (s\<lparr>ts_submitting := True\<rparr>)"
  "raising P \<Longrightarrow> P \<Longrightarrow> I s \<Longrightarrow> I (s\<lparr>ts_installGenerating := True\<rparr>)"
  by (simp_all add: raising_def)

lemma ok_generate:
  "(P \<longrightarrow> I s) \<Longrightarrow> raising P \<Longrightarrow> ok I P (generateWorkerInstallCommandForPreview b s)"
  unfolding generateWorkerInstallCommandForPreview_def Let_def
  by (auto intro!: ok_intros intro: raise split: option.split api_response.split)

lemma ok_submitDraft: "(P \<longrightarrow> I s) \<Longrightarrow> raising P \<Longrightarrow> ok I P (submitDraftResource b s)"
  unfolding submitDraftResource_def Let_def
  by (auto intro!: ok_intros intro: raise split: option.split)

lemma ok_submitEdit: "(P \<longrightarrow> I s) \<Longrightarrow> raising P \<Longrightarrow> ok I P (submitEdit_servers b s)"
  unfolding submitEdit_servers_def Let_def
  by (auto intro!: ok_intros intro: raise split: option.split)

lemma ok_submitDelete: "(P \<longrightarrow> I s) \<Longrightarrow> raising P \<Longrightarrow> ok I P (submitDeleteResource s)"
  unfolding submitDeleteResource_def Let_def
  by (auto intro!: ok_intros intro: raise split: option.split api_response.split)

lemma ok_servers_action: "servers_may b s a \<Longrightarrow> (P \<longrightarrow> I s) \<Longrightarrow> raising P \<Longrightarrow> ok I P (a s)"
  by (induction rule: servers_may.induct)
    (auto intro!: ok_intros ok_generate ok_submitDraft ok_submitEdit ok_submitDelete)

end

subsection \<open>The invariant and the flags fulfil the contract\<close>

lemma implements_frame: "servers.implements d s \<Longrightarrow> frame s t \<Longrightarrow> servers.implements d t"
  unfolding frame_def using servers.implements_same by metis

interpretation core: servers_invariant "servers_inv d" for d
proof
  fix s t :: servers_panel and rs i c
  assume s: "servers_inv d s"
  show "servers_inv d t" if "frame s t"
    using s that implements_frame [of d s t]
    by (auto simp: servers_inv_def polling_consistent_def polls_no_deleted_def frame_def)
  show "servers_inv d (setVisibleTransitResources rs s)"
    using s servers.implements_reload [of d s rs]
    by (simp add: servers_inv_def setVisibleTransitResources_def polling_consistent_def polls_no_deleted_def)
  show "servers_inv d (markTransitResourcePendingDelete i s)"
    using s servers.implements_mark [of d s i]
    by (auto simp: servers_inv_def markTransitResourcePendingDelete_def clearWorkerInstallPolling_def
        polling_consistent_def polls_no_deleted_def Let_def)
  show "servers_inv d (releaseTransitResourcePendingDelete i s)"
    using s servers.implements_release [of d s i]
    by (auto simp: servers_inv_def releaseTransitResourcePendingDelete_def polling_consistent_def
        polls_no_deleted_def)
  show "servers_inv d (clearWorkerInstallPolling s)"
    using s servers.implements_same [of d s "clearWorkerInstallPolling s"]
    by (simp add: servers_inv_def clearWorkerInstallPolling_def polling_consistent_def polls_no_deleted_def)
  show "servers_inv d (poll_for i c s)" if "i \<notin> ts_pendingDeleted s"
    using s that servers.implements_same [of d s "poll_for i c s"]
    by (simp add: servers_inv_def poll_for_def polling_consistent_def polls_no_deleted_def)
  show "servers_inv d (clearWorkerInstallPolling (poll_for i c s))"
    using s servers.implements_same [of d s "clearWorkerInstallPolling (poll_for i c s)"]
    by (simp add: servers_inv_def clearWorkerInstallPolling_def poll_for_def polling_consistent_def
        polls_no_deleted_def)
qed

interpretation submit_flag: servers_invariant "\<lambda>s. \<not> ts_submitting s"
  by unfold_locales
    (auto simp: frame_def setVisibleTransitResources_def markTransitResourcePendingDelete_def
      releaseTransitResourcePendingDelete_def clearWorkerInstallPolling_def poll_for_def Let_def)

interpretation generate_flag: servers_invariant "\<lambda>s. \<not> ts_installGenerating s"
  by unfold_locales
    (auto simp: frame_def setVisibleTransitResources_def markTransitResourcePendingDelete_def
      releaseTransitResourcePendingDelete_def clearWorkerInstallPolling_def poll_for_def Let_def)

lemma core_raising: "core.raising d P"
  unfolding core.raising_def
  using servers.implements_same
  by (auto simp: servers_inv_def polling_consistent_def polls_no_deleted_def)

lemma servers_reach_inv: "servers_reach b c \<Longrightarrow> ok (servers_inv empty_directory) True c"
proof (erule system_keeps)
  show "True \<longrightarrow> servers_inv empty_directory servers_initial"
    using servers.implements_start [of servers_initial]
    by (simp add: servers_inv_def polling_consistent_def polls_no_deleted_def servers_initial_def)
qed (auto intro: core.ok_servers_action core_raising)

text \<open>
  C11 (invariant). In every state the panel can reach, with any
  interleaving of clicks, timers and responses, no listed resource is deleted or has a deletion
  pending; and the heartbeat polling has a context exactly when it runs, and never runs for a
  resource whose deletion is pending.
\<close>

theorem pending_resource_is_never_listed:
  assumes "system_reach (servers_may b) servers_initial (s, ts)"
  shows "list_all (\<lambda>r. tr_id r \<notin> ts_pendingDeleted s \<and> \<not> resource_deleted r) (ts_resources s)
    \<and> (ts_pollResourceId s = None) = (ts_pollContext s = None)
    \<and> ts_pollResourceId s \<notin> Some ` ts_pendingDeleted s"
proof -
  have inv: "servers_inv empty_directory s"
    using servers_reach_inv [OF assms] by (simp add: ok_def)
  then have "list_all (\<lambda>r. tr_id r \<notin> ts_pendingDeleted s \<and> \<not> resource_deleted r) (ts_resources s)"
    using servers.implements_consistentD by (fastforce simp: servers_inv_def list_all_iff)
  then show ?thesis
    using inv by (auto simp: servers_inv_def polling_consistent_def polls_no_deleted_def)
qed

subsection \<open>A sample run\<close>

lemma sample_server_not_deleted [simp]: "\<not> resource_deleted (sample_server i n)"
  using lower_active by (simp add: resource_deleted_def)

definition two_servers :: reply_value where
  "two_servers = RResources (Resolved (ApiSuccess [sample_server (js ''r1'') (js ''hk''), sample_server (js ''r2'') (js ''sg'')] []))"

lemma sample_load:
  "run_events [Reply 0 two_servers] (loadResources finished unhandled s) =
     Some (s\<lparr>ts_resources := filterVisibleTransitResources s [sample_server (js ''r1'') (js ''hk''), sample_server (js ''r2'') (js ''sg'')],
             ts_message := (uni ''%u4E2D%u8F6C%u670D%u52A1%u5668%u5217%u8868%u5DF2%u5237%u65B0%u3002''), ts_loading := False\<rparr>, [])"
  by (simp add: loadResources_def act_simps perform_def two_servers_def each_of_def worker_ids_def
      filterVisibleTransitResources_def setVisibleTransitResources_def set_message_def)

definition loaded :: servers_panel where
  "loaded = servers_initial\<lparr>ts_resources := [sample_server (js ''r1'') (js ''hk''), sample_server (js ''r2'') (js ''sg'')],
     ts_message := (uni ''%u4E2D%u8F6C%u670D%u52A1%u5668%u5217%u8868%u5DF2%u5237%u65B0%u3002''), ts_loading := False\<rparr>"

lemma js_distinct_ids [simp]: "(js ''r1'') \<noteq> (js ''r2'')" "(js ''r2'') \<noteq> (js ''r1'')"
  by simp_all

lemma loaded_reach: "servers_reach b (loaded, [])"
proof -
  let ?a = "loadResources finished unhandled"
  have "servers_reach b (?a servers_initial)"
    by (rule system_act [where may = "servers_may b" and s = servers_initial and a = ?a])
      (rule system_reach.initial servers_may.Refresh refl)+
  moreover have "run_events [Reply 0 two_servers] (?a servers_initial) = Some (loaded, [])"
    unfolding sample_load
    by (simp add: loaded_def filterVisibleTransitResources_def servers_initial_def)
  ultimately show ?thesis by (rule system_run)
qed

definition deleting :: "servers_panel \<times> servers_panel task list" where
  "deleting = submitDeleteResource (openDeleteResource (sample_server (js ''r1'') (js ''hk'')) loaded)"

lemma loaded_simps [simp]:
  "\<not> ts_loading loaded" "ts_resources loaded = [sample_server (js ''r1'') (js ''hk''), sample_server (js ''r2'') (js ''sg'')]"
  "ts_pendingDeleted loaded = {}" "\<not> ts_submitting loaded" "ts_pollResourceId loaded = None"
  by (simp_all add: loaded_def servers_initial_def)

lemma opened_reach: "servers_reach b (openDeleteResource (sample_server (js ''r1'') (js ''hk'')) loaded, [])"
proof (rule system_act [OF loaded_reach])
  show "servers_may b loaded (\<lambda>s. finished (openDeleteResource (sample_server (js ''r1'') (js ''hk'')) s))"
    by (rule servers_may.Delete) simp_all
qed (simp add: finished_def)

lemma deleting_reach: "servers_reach b deleting"
  unfolding deleting_def
  by (rule system_act [OF opened_reach servers_may.ConfirmDelete])
    (simp_all add: openDeleteResource_def)

lemma deleting_panel:
  "fst deleting = (set_message (delete_started_text OfflineLocalRemove)
     (markTransitResourcePendingDelete (js ''r1'') (openDeleteResource (sample_server (js ''r1'') (js ''hk'')) loaded)))
       \<lparr>ts_submitting := True\<rparr>"
  by (simp add: deleting_def submitDeleteResource_def openDeleteResource_def Let_def
      ensureCsrfToken_await_def act_simps)

lemma deleting_list: "ts_pendingDeleted (fst deleting) = {(js ''r1'')}"
    "ts_resources (fst deleting) = [sample_server (js ''r2'') (js ''sg'')]"
  unfolding deleting_panel
  by (simp_all add: markTransitResourcePendingDelete_def openDeleteResource_def set_message_def
      filterVisibleTransitResources_def Let_def)

theorem pending_resource_is_never_listed_witness:
  "\<exists>s ts. system_reach (servers_may sample_browser) servers_initial (s, ts)
     \<and> ts_pendingDeleted s = {(js ''r1'')} \<and> ts_resources s = [sample_server (js ''r2'') (js ''sg'')]
     \<and> list_all (\<lambda>r. tr_id r \<notin> ts_pendingDeleted s \<and> \<not> resource_deleted r) (ts_resources s)"
proof -
  obtain s ts where c: "deleting = (s, ts)" by fastforce
  have reach: "system_reach (servers_may sample_browser) servers_initial (s, ts)"
    using deleting_reach c by metis
  have s: "fst deleting = s" by (simp add: c)
  show ?thesis
    using reach deleting_list [unfolded s] pending_resource_is_never_listed [OF reach] by blast
qed

subsection \<open>Polling ends\<close>

definition poll_wait :: "servers_panel task \<Rightarrow> bool" where
  "poll_wait t \<longleftrightarrow> (\<exists>alive a. t = Timer cleanupCommandPollIntervalMs alive a)"

lemma not_poll_wait [simp]:
  "\<not> poll_wait (EachOf xs k h)" "\<not> poll_wait (Call e f)"
  by (simp_all add: poll_wait_def)

lemma quiet_fetch:
  "(\<And>r s. counted poll_wait n (k r s)) \<Longrightarrow> (\<And>e s. counted poll_wait n (h e s))
    \<Longrightarrow> counted poll_wait n (fetch q as k h s)"
  using counted_fetch [of poll_wait n k h q 0 as s] by simp

lemma count_loadWorkerCommands_of:
  "(\<And>s. counted poll_wait n (k s)) \<Longrightarrow> (\<And>e s. counted poll_wait n (h e s))
    \<Longrightarrow> counted poll_wait n (loadWorkerCommands_of c k h s)"
  unfolding loadWorkerCommands_of_def loadWorkerCommands_def
  by (auto intro!: quiet_fetch split: option.split api_response.split)

lemma count_loadResources:
  "(\<And>s. counted poll_wait n (k s)) \<Longrightarrow> (\<And>e s. counted poll_wait n (h e s))
    \<Longrightarrow> counted poll_wait n (loadResources k h s)"
  unfolding loadResources_def
  by (auto intro!: quiet_fetch counted_each_of split: api_response.split)

lemma count_cleanup_end:
  "counted poll_wait n (cleanup_finished c i s)" "counted poll_wait n (cleanup_still_running c s)"
  unfolding cleanup_finished_def cleanup_still_running_def
  by (intro count_loadResources count_loadWorkerCommands_of counted_nothing)+

lemma count_cleanup_polls:
  "counted poll_wait (cleanupCommandMaxPolls - n) (cleanup_polls c i l n s)"
proof (induction c i l n arbitrary: s rule: cleanup_polls.induct)
  case (1 c i l n)
  show ?case
  proof (cases "n < cleanupCommandMaxPolls")
    case True
    have "counted poll_wait (1 + (cleanupCommandMaxPolls - Suc n)) (cleanup_polls c i l n s)"
      by (subst cleanup_polls.simps, simp only: True if_True, rule counted_sleep)
        (use True 1 in \<open>auto intro!: quiet_fetch counted_nothing count_cleanup_end split: api_response.split\<close>)
    then show ?thesis using True by (simp add: Suc_diff_Suc)
  next
    case False
    then show ?thesis by (subst cleanup_polls.simps) (simp add: count_cleanup_end)
  qed
qed

text \<open>
  C21 (termination). Whatever the backend answers and in whatever order the events
  arrive, the watch over a cleanup command waits at most 30 times before a status request, and it
  has no infinite run.
\<close>

theorem cleanup_watch_ends:
  "performed poll_wait evs (refreshWhenResourceCleanupCommandCompletes command resourceId s) \<le> 30
   \<and> \<not> (\<exists>f. f 0 = refreshWhenResourceCleanupCommandCompletes command resourceId s
            \<and> (\<forall>n. (f (Suc n), f n) \<in> loop_step))"
proof
  have "counted poll_wait 30 (refreshWhenResourceCleanupCommandCompletes command resourceId s)"
    using count_cleanup_polls [where n = 0]
    by (auto simp: refreshWhenResourceCleanupCommandCompletes_def cleanupCommandMaxPolls_def
        intro: counted_nothing split: option.split)
  then show "performed poll_wait evs (refreshWhenResourceCleanupCommandCompletes command resourceId s) \<le> 30"
    by (rule performed_counted)
  show "\<not> (\<exists>f. f 0 = refreshWhenResourceCleanupCommandCompletes command resourceId s
            \<and> (\<forall>n. (f (Suc n), f n) \<in> loop_step))"
    using event_loop_terminates unfolding wf_iff_no_infinite_down_chain by blast
qed

subsection \<open>A busy flag belongs to a waiting request\<close>

lemma can_settle_load: "can_settle (load_commands_each w)"
  unfolding can_settle_def load_commands_each_def
  by (intro exI [of _ "RCommands (Rejected None)"]) simp

lemma frees_loadResources [frees_intros]:
  "(\<And>s. frees_after busy (k s)) \<Longrightarrow> (\<And>e s. frees_after busy (h e s))
    \<Longrightarrow> frees_after busy (loadResources k h s)"
  unfolding loadResources_def
  by (intro frees_fetch) (auto intro!: frees_each_of can_settle_load split: api_response.split)

lemma frees_end_submit [frees_intros]: "frees_after ts_submitting (end_submit s)"
  by (simp add: end_submit_def finished_def frees_down)

lemma frees_delete_caught [frees_intros]: "frees_after ts_submitting (delete_caught i e s)"
  unfolding delete_caught_def by (intro frees_intros)

lemma frees_after_save [frees_intros]:
  "(\<And>e s. frees_after ts_submitting (h e s)) \<Longrightarrow> frees_after ts_submitting (after_save m h r s)"
  unfolding after_save_def by (auto intro!: frees_intros split: api_response.split)

lemma frees_submits:
  "\<not> ts_submitting s \<Longrightarrow> frees_after ts_submitting (submitDraftResource b s)"
  "\<not> ts_submitting s \<Longrightarrow> frees_after ts_submitting (submitEdit_servers b s)"
  "\<not> ts_submitting s \<Longrightarrow> frees_after ts_submitting (submitDeleteResource s)"
  unfolding submitDraftResource_def submitEdit_servers_def submitDeleteResource_def Let_def
  by (auto intro!: frees_intros simp: finished_def frees_down set_message_def
      split: option.split api_response.split)

lemma frees_generate:
  "\<not> ts_installGenerating s \<Longrightarrow> frees_after ts_installGenerating (generateWorkerInstallCommandForPreview b s)"
  unfolding generateWorkerInstallCommandForPreview_def Let_def
  by (auto intro!: frees_intros simp: finished_def frees_down split: option.split api_response.split)

lemma generate_keeps_submitting:
  "ts_submitting (fst (generateWorkerInstallCommandForPreview b s)) = ts_submitting s"
  by (simp add: generateWorkerInstallCommandForPreview_def ensureCsrfToken_await_def act_simps Let_def
      clearWorkerInstallPolling_def split: option.split)

lemma submits_keep_generating:
  "ts_installGenerating (fst (submitDraftResource b s)) = ts_installGenerating s"
  "ts_installGenerating (fst (submitEdit_servers b s)) = ts_installGenerating s"
  "ts_installGenerating (fst (submitDeleteResource s)) = ts_installGenerating s"
  by (simp_all add: submitDraftResource_def submitEdit_servers_def submitDeleteResource_def
      ensureCsrfToken_await_def act_simps Let_def set_message_def markTransitResourcePendingDelete_def
      clearWorkerInstallPolling_def split: option.split)

lemma ok_frees: "ok (\<lambda>s. \<not> busy s) True c \<Longrightarrow> frees_after busy c"
  by (simp add: ok_def frees_after_def)

lemma quiet_frees: "busy (fst c) = busy s \<Longrightarrow> \<not> busy s \<Longrightarrow> frees_after busy c"
  by (simp add: frees_after_def)

lemma submit_frees:
  "servers_may b s a \<Longrightarrow> \<not> ts_submitting s \<Longrightarrow> frees_after ts_submitting (a s)"
  by (induction rule: servers_may.induct)
    (auto intro: frees_submits quiet_frees [where busy = ts_submitting, OF generate_keeps_submitting] ok_frees intro!: ok_intros)

lemma generate_frees:
  "servers_may b s a \<Longrightarrow> \<not> ts_installGenerating s \<Longrightarrow> frees_after ts_installGenerating (a s)"
  by (induction rule: servers_may.induct)
    (auto intro: frees_generate quiet_frees [where busy = ts_installGenerating, OF submits_keep_generating(1)]
      quiet_frees [where busy = ts_installGenerating, OF submits_keep_generating(2)] quiet_frees [where busy = ts_installGenerating, OF submits_keep_generating(3)]
      ok_frees intro!: ok_intros)

text \<open>
  C15 (liveness). In every reachable state, a set submitting or generating flag
  belongs to a waiting task that can be resumed and that, however it is resumed, either lowers the
  flag or leaves such a task behind; since runs end, the buttons come back.
\<close>

theorem busy_panel_is_waiting:
  assumes "system_reach (servers_may b) servers_initial (s, ts)"
  shows "(ts_submitting s \<longrightarrow> (\<exists>t \<in> set ts. frees ts_submitting t))
    \<and> (ts_installGenerating s \<longrightarrow> (\<exists>t \<in> set ts. frees ts_installGenerating t))"
proof -
  have "frees_after ts_submitting (s, ts)"
    using assms
    by (rule system_frees)
      (auto simp: servers_initial_def submit_flag.raising_def
        intro: submit_frees submit_flag.ok_servers_action)
  moreover have "frees_after ts_installGenerating (s, ts)"
    using assms
    by (rule system_frees)
      (auto simp: servers_initial_def generate_flag.raising_def
        intro: generate_frees generate_flag.ok_servers_action)
  ultimately show ?thesis by (simp add: frees_after_def)
qed

theorem busy_panel_is_waiting_witness:
  "ts_submitting (fst deleting) \<and> (\<exists>t \<in> set (snd deleting). frees ts_submitting t)"
proof -
  have "system_reach (servers_may sample_browser) servers_initial (fst deleting, snd deleting)"
    using deleting_reach by simp
  moreover have "ts_submitting (fst deleting)" by (simp add: deleting_panel)
  ultimately show ?thesis using busy_panel_is_waiting by blast
qed

subsection \<open>What the polling leaves behind\<close>

text \<open>
  When the list request throws, nothing catches the exception:
  the panel stays in its loading state, in which it shows no row, and no task is left to end it.
\<close>

theorem failed_network_keeps_loading:
  "run_events [Reply 0 (RResources (Rejected e))] (loadResources finished unhandled s) =
     Some (s\<lparr>ts_loading := True\<rparr>, [])"
  by (simp add: loadResources_def act_simps perform_def)

text \<open>One round of the watch that finds the command still running.\<close>

definition running_round :: "worker_command_data \<Rightarrow> event list" where
  "running_round c = [Fire 0, Reply 0 (RCommand (Resolved (ApiSuccess c [])))]"

lemma run_events_append:
  "run_events (es @ fs) c = (case run_events es c of None \<Rightarrow> None | Some d \<Rightarrow> run_events fs d)"
  by (induction es arbitrary: c) (auto split: option.split)

lemma one_round:
  assumes "n < cleanupCommandMaxPolls" and "wc_status c \<notin> set cleanupCommandTerminalStatuses"
  shows "run_events (running_round c) (cleanup_polls i r l n s) = Some (cleanup_polls i r c (Suc n) s)"
  by (subst cleanup_polls.simps) (use assms in \<open>simp add: running_round_def act_simps perform_def\<close>)

lemma rounds:
  assumes "wc_status c \<notin> set cleanupCommandTerminalStatuses"
  shows "n \<le> cleanupCommandMaxPolls \<Longrightarrow>
    run_events (concat (replicate n (running_round c)))
      (cleanup_polls i r c (cleanupCommandMaxPolls - n) s) = Some (cleanup_polls i r c cleanupCommandMaxPolls s)"
proof (induction n)
  case (Suc n)
  then have "cleanupCommandMaxPolls - Suc n < cleanupCommandMaxPolls"
    "Suc (cleanupCommandMaxPolls - Suc n) = cleanupCommandMaxPolls - n" by simp_all
  with Suc one_round [OF _ assms, of "cleanupCommandMaxPolls - Suc n" i r c s] show ?case
    by (simp add: run_events_append)
qed simp


definition running_command :: worker_command_data where
  "running_command =
     \<lparr>wc_id = (js ''c1''), wc_worker_id = (js ''w1''), wc_target_worker_id = (js ''w1''),
      wc_target_worker_version = None, wc_server_type = Some (js ''transit''), wc_server_id = Some (js ''r1''),
      wc_command_type = (js ''cleanup_transit_resource''), wc_status = (js ''running''), wc_lease_until = None,
      wc_claimed_at = None, wc_completed_at = None, wc_result_json = JNull,
      wc_result_summary = None, wc_error_message = None, wc_attempts = 1, wc_created_at = None,
      wc_updated_at = None\<rparr>"


end
