(* ===== verification/TransitRoutes.thy ===== *)
theory TransitRoutes
  imports TransitHelpers PendingDelete
begin

text \<open>
  \<^verbatim>\<open>TransitRoutesPanel\<close> of \<^verbatim>\<open>TransitRoutesPanel.tsx\<close>: its state, the values derived from
  it in every rendering, the loading of resources, nodes and routes, the list with its pending
  deletions, the renaming and deletion of a route, and the summary and the transient export of
  a candidate link. The state is grouped by concern; each field is one \<^verbatim>\<open>useState\<close> or ref.
\<close>

subsection \<open>State\<close>

record preflight_state =
  pf_readonlyPlan :: "plan_response option"
  pf_readonlyPreflightLoading :: bool
  pf_remotePreflightLoading :: bool
  pf_remotePreflightCommand :: "worker_command_data option"
  pf_readonlyPreflightApiMessage :: jsstr
  pf_remotePreflightMessage :: jsstr
  pf_healthConfirmed :: bool
  pf_boundaryConfirmed :: bool
  pf_workerBoundaryConfirmed :: bool
  pf_preflightSummaryCopied :: bool
  pf_workerCreatePlan :: "worker_create_plan option"
  pf_workerCreateLoading :: bool

record haproxy_state =
  ho_readiness :: "readiness_result option"
  ho_readinessLoading :: bool
  ho_readinessMessage :: jsstr
  ho_confirmations :: readiness_confirmations
  ho_dryRun :: "haproxy_dry_run option"
  ho_dryRunLoading :: bool
  ho_dryRunMessage :: jsstr
  ho_finalApproval :: "final_approval option"
  ho_finalApprovalLoading :: bool
  ho_finalApprovalMessage :: jsstr
  ho_finalApprovalText :: jsstr
  ho_realExecution :: "real_execution_result option"
  ho_realExecutionLoading :: bool
  ho_realExecutionMessage :: jsstr
  ho_realExecutionText :: jsstr

record candidate_state =
  ca_summary :: "candidate_summary option"
  ca_export :: "candidate_export option"
  ca_loading :: bool
  ca_message :: jsstr
  ca_copyFallbackRequired :: bool
  ca_exportModalOpen :: bool
  ca_exportRouteId :: jsstr
  ca_routeId :: jsstr

record route_edit_state =
  re_editRouteId :: jsstr
  re_editRouteName :: jsstr
  re_editRouteSaving :: bool
  re_editRouteError :: jsstr
  re_deleteRouteId :: jsstr
  re_deleteRouteMode :: delete_mode

record create_state =
  cr_modalOpen :: bool
  cr_form :: create_form
  cr_step :: create_step
  cr_command :: "worker_command_data option"
  cr_executeResult :: "create_execute_response option"
  cr_haproxyContext :: "haproxy_context option"
  cr_haproxyRealExecution :: "real_execution_result option"
  cr_haproxyRealExecutionLoading :: bool
  cr_createdRoute :: "transit_route_data option"
  cr_export :: "candidate_export option"
  cr_error :: jsstr
  cr_copyFallbackRequired :: bool
  cr_qrVisible :: bool

record routes_panel =
  ro_resources :: "transit_resource_data list"
  ro_nodes :: "node_data list"
  ro_routes :: "transit_route_data list"
  ro_draft :: route_draft
  ro_loading :: bool
  ro_message :: jsstr
  ro_preflight :: preflight_state
  ro_haproxy :: haproxy_state
  ro_candidate :: candidate_state
  ro_edit :: route_edit_state
  ro_create :: create_state
  ro_advancedOpen :: bool
  ro_pendingDeleted :: "jsstr set"
  ro_clock :: int

text \<open>The initial state.\<close>

definition preflight_initial :: preflight_state where
  "preflight_initial =
     \<lparr>pf_readonlyPlan = None, pf_readonlyPreflightLoading = False,
      pf_remotePreflightLoading = False, pf_remotePreflightCommand = None,
      pf_readonlyPreflightApiMessage = [], pf_remotePreflightMessage = [],
      pf_healthConfirmed = False, pf_boundaryConfirmed = False,
      pf_workerBoundaryConfirmed = False, pf_preflightSummaryCopied = False,
      pf_workerCreatePlan = None, pf_workerCreateLoading = False\<rparr>"

definition haproxy_initial :: haproxy_state where
  "haproxy_initial =
     \<lparr>ho_readiness = None, ho_readinessLoading = False,
      ho_readinessMessage = (uni ''HAProxy TCP readiness %u5C1A%u672A%u751F%u6210%u3002''),
      ho_confirmations = emptyHaproxyReadinessConfirmations,
      ho_dryRun = None, ho_dryRunLoading = False,
      ho_dryRunMessage = (uni ''HAProxy route dry-run %u5C1A%u672A%u751F%u6210%u3002''),
      ho_finalApproval = None, ho_finalApprovalLoading = False,
      ho_finalApprovalMessage = (uni ''HAProxy route %u6700%u7EC8%u5BA1%u6279%u5305%u5C1A%u672A%u751F%u6210%u3002''), ho_finalApprovalText = [],
      ho_realExecution = None, ho_realExecutionLoading = False,
      ho_realExecutionMessage = (uni ''HAProxy route %u771F%u5B9E%u521B%u5EFA%u5C1A%u672A%u6388%u6743%u3002''), ho_realExecutionText = []\<rparr>"

definition candidate_initial :: candidate_state where
  "candidate_initial =
     \<lparr>ca_summary = None, ca_export = None, ca_loading = False,
      ca_message = (uni ''%u5019%u9009%u94FE%u8DEF%u6458%u8981%u5C1A%u672A%u52A0%u8F7D%uFF1B%u4E0D%u4F1A%u81EA%u52A8%u5BFC%u51FA%u5B8C%u6574%u6D4B%u8BD5%u914D%u7F6E%u3002''),
      ca_copyFallbackRequired = False, ca_exportModalOpen = False, ca_exportRouteId = [],
      ca_routeId = []\<rparr>"

definition route_edit_initial :: route_edit_state where
  "route_edit_initial =
     \<lparr>re_editRouteId = [], re_editRouteName = [], re_editRouteSaving = False,
      re_editRouteError = [], re_deleteRouteId = [], re_deleteRouteMode = RemoteCleanup\<rparr>"

definition create_initial :: create_state where
  "create_initial =
     \<lparr>cr_modalOpen = False, cr_form = emptyRouteCreateForm, cr_step = StepIdle, cr_command = None,
      cr_executeResult = None, cr_haproxyContext = None, cr_haproxyRealExecution = None,
      cr_haproxyRealExecutionLoading = False, cr_createdRoute = None, cr_export = None,
      cr_error = [], cr_copyFallbackRequired = False, cr_qrVisible = False\<rparr>"

definition routes_initial :: routes_panel where
  "routes_initial =
     \<lparr>ro_resources = [], ro_nodes = [], ro_routes = [], ro_draft = emptyRouteDraft,
      ro_loading = True,
      ro_message = (uni ''%u4E2D%u8F6C%u94FE%u8DEF%u9875%u9762%u53EA%u505A Worker %u89C4%u5212%u3001%u53EA%u8BFB%u9884%u68C0%u548C%u53D7%u63A7 dry-run%uFF1B%u4E0D%u4F1A%u521B%u5EFA%u771F%u5B9E%u8F6C%u53D1%u3002''),
      ro_preflight = preflight_initial, ro_haproxy = haproxy_initial,
      ro_candidate = candidate_initial, ro_edit = route_edit_initial, ro_create = create_initial,
      ro_advancedOpen = False, ro_pendingDeleted = {}, ro_clock = 0\<rparr>"

text \<open>Updates of one group.\<close>

definition on_preflight :: "(preflight_state \<Rightarrow> preflight_state) \<Rightarrow> routes_panel \<Rightarrow> routes_panel" where
  "on_preflight f s = s\<lparr>ro_preflight := f (ro_preflight s)\<rparr>"

definition on_haproxy :: "(haproxy_state \<Rightarrow> haproxy_state) \<Rightarrow> routes_panel \<Rightarrow> routes_panel" where
  "on_haproxy f s = s\<lparr>ro_haproxy := f (ro_haproxy s)\<rparr>"

definition on_candidate :: "(candidate_state \<Rightarrow> candidate_state) \<Rightarrow> routes_panel \<Rightarrow> routes_panel" where
  "on_candidate f s = s\<lparr>ro_candidate := f (ro_candidate s)\<rparr>"

definition on_edit :: "(route_edit_state \<Rightarrow> route_edit_state) \<Rightarrow> routes_panel \<Rightarrow> routes_panel" where
  "on_edit f s = s\<lparr>ro_edit := f (ro_edit s)\<rparr>"

definition on_create :: "(create_state \<Rightarrow> create_state) \<Rightarrow> routes_panel \<Rightarrow> routes_panel" where
  "on_create f s = s\<lparr>ro_create := f (ro_create s)\<rparr>"

definition say :: "jsstr \<Rightarrow> routes_panel \<Rightarrow> routes_panel" where
  "say m s = s\<lparr>ro_message := m\<rparr>"

subsection \<open>The visible lists\<close>

definition filterVisibleRouteResources :: "transit_resource_data list \<Rightarrow> transit_resource_data list" where
  "filterVisibleRouteResources nextResources =
     List.filter (\<lambda>r. to_lower (tr_status r) \<noteq> (js ''deleted'') \<and> blank (tr_deleted_at r)) nextResources"

definition filterVisibleRouteNodes :: "node_data list \<Rightarrow> node_data list" where
  "filterVisibleRouteNodes nextNodes = List.filter (\<lambda>n. to_lower (nd_status n) \<noteq> (js ''deleted'')) nextNodes"

definition route_deleted :: "transit_route_data \<Rightarrow> bool" where
  "route_deleted r \<longleftrightarrow> to_lower (rt_status r) = (js ''deleted'') \<or> \<not> blank (rt_deleted_at r)"

definition filterVisibleTransitRoutes :: "routes_panel \<Rightarrow> transit_route_data list \<Rightarrow> transit_route_data list" where
  "filterVisibleTransitRoutes s nextRoutes =
     List.filter (\<lambda>r. rt_id r \<notin> ro_pendingDeleted s \<and> \<not> route_deleted r) nextRoutes"

definition set_routes :: "transit_route_data list \<Rightarrow> routes_panel \<Rightarrow> routes_panel" where
  "set_routes rs s = s\<lparr>ro_routes := filterVisibleTransitRoutes s rs\<rparr>"

definition markTransitRoutePendingDelete :: "jsstr \<Rightarrow> routes_panel \<Rightarrow> routes_panel" where
  "markTransitRoutePendingDelete routeId s =
     (let s1 = s\<lparr>ro_pendingDeleted := insert routeId (ro_pendingDeleted s)\<rparr>
      in s1\<lparr>ro_routes := filterVisibleTransitRoutes s1 (ro_routes s1)\<rparr>)"

definition releaseTransitRoutePendingDelete :: "jsstr \<Rightarrow> routes_panel \<Rightarrow> routes_panel" where
  "releaseTransitRoutePendingDelete routeId s =
     s\<lparr>ro_pendingDeleted := ro_pendingDeleted s - {routeId}\<rparr>"

subsection \<open>Values derived in every rendering\<close>

text \<open>\<^verbatim>\<open>xs.find(p) ?? xs[0] ?? null\<close>\<close>

definition find_or_first :: "('a \<Rightarrow> bool) \<Rightarrow> 'a list \<Rightarrow> 'a option" where
  "find_or_first P xs =
     (case find_opt P xs of Some x \<Rightarrow> Some x | None \<Rightarrow> (case xs of [] \<Rightarrow> None | x # r \<Rightarrow> Some x))"

lemma find_or_first_mem: "find_or_first P xs = Some x \<Longrightarrow> x \<in> set xs"
  by (auto simp: find_or_first_def dest: find_opt_SomeD split: option.splits list.splits)

definition selectableResources :: "routes_panel \<Rightarrow> transit_resource_data list" where
  "selectableResources s = List.filter isPlanningSelectableTransitResource (ro_resources s)"

definition activeNodes :: "routes_panel \<Rightarrow> node_data list" where
  "activeNodes s = List.filter (\<lambda>n. nd_status n = (js ''active'')) (ro_nodes s)"

definition primaryActiveRoute :: "routes_panel \<Rightarrow> transit_route_data option" where
  "primaryActiveRoute s =
     (case find_opt (\<lambda>r. rt_status r = (js ''active'') \<and> blank (rt_deleted_at r)) (ro_routes s) of
        Some r \<Rightarrow> Some r
      | None \<Rightarrow> find_opt (\<lambda>r. blank (rt_deleted_at r)) (ro_routes s))"

definition route_by_id :: "routes_panel \<Rightarrow> jsstr \<Rightarrow> transit_route_data option" where
  "route_by_id s i = find_opt (\<lambda>r. rt_id r = i) (ro_routes s)"

definition candidateExportRoute :: "routes_panel \<Rightarrow> transit_route_data option" where
  "candidateExportRoute s = route_by_id s (ca_exportRouteId (ro_candidate s))"

definition editRoute :: "routes_panel \<Rightarrow> transit_route_data option" where
  "editRoute s = route_by_id s (re_editRouteId (ro_edit s))"

definition deleteRoute :: "routes_panel \<Rightarrow> transit_route_data option" where
  "deleteRoute s = route_by_id s (re_deleteRouteId (ro_edit s))"

definition selectedResource_routes :: "routes_panel \<Rightarrow> transit_resource_data option" where
  "selectedResource_routes s =
     find_or_first (\<lambda>r. tr_id r = rd_transitResourceId (ro_draft s)) (selectableResources s)"

definition selectedNode_routes :: "routes_panel \<Rightarrow> node_data option" where
  "selectedNode_routes s = find_or_first (\<lambda>n. nd_id n = rd_landingNodeId (ro_draft s)) (activeNodes s)"

definition createResource :: "routes_panel \<Rightarrow> transit_resource_data option" where
  "createResource s =
     find_or_first (\<lambda>r. tr_id r = cf_transitResourceId (cr_form (ro_create s))) (selectableResources s)"

definition createNode :: "routes_panel \<Rightarrow> node_data option" where
  "createNode s =
     find_or_first (\<lambda>n. nd_id n = cf_landingNodeId (cr_form (ro_create s))) (activeNodes s)"

definition plannedPort :: "routes_panel \<Rightarrow> int option" where
  "plannedPort s = parseTransitPort (rd_plannedListenPort (ro_draft s))"

definition targetPort :: "routes_panel \<Rightarrow> int" where
  "targetPort s = targetPortForNode (selectedNode_routes s)"

definition createListenPort :: "routes_panel \<Rightarrow> int option" where
  "createListenPort s = parseTransitPort (cf_listenPort (cr_form (ro_create s)))"

definition createTargetPort :: "routes_panel \<Rightarrow> int" where
  "createTargetPort s = targetPortForNode (createNode s)"

definition createPortConflictRoute :: "routes_panel \<Rightarrow> transit_route_data option" where
  "createPortConflictRoute s =
     findTransitPortConflictRoute (ro_routes s) (map_option tr_id (createResource s)) (createListenPort s)"

definition createPortConflictMessage :: "routes_panel \<Rightarrow> jsstr" where
  "createPortConflictMessage s =
     (case (createListenPort s, createPortConflictRoute s) of
        (Some p, Some r) \<Rightarrow> duplicateTransitPortMessage (cf_forwardingMethod (cr_form (ro_create s))) p r
      | _ \<Rightarrow> [])"

definition running_steps :: "create_step list" where
  "running_steps =
     [StepPreflightCreate, StepPreflightRunning, StepCommandCreate, StepCommandRunning,
      StepRealCreateConfirm, StepRefresh, StepExportLink]"

definition createReady :: "routes_panel \<Rightarrow> bool" where
  "createReady s \<longleftrightarrow>
     (let form = cr_form (ro_create s)
      in trim (cf_routeName form) \<noteq> []
         \<and> createResource s \<noteq> None
         \<and> createNode s \<noteq> None
         \<and> createListenPort s \<noteq> None
         \<and> 0 < createTargetPort s
         \<and> cf_firewallConfirmed form
         \<and> createPortConflictRoute s = None
         \<and> cr_step (ro_create s) \<notin> set running_steps)"

definition planningIssues :: "routes_panel \<Rightarrow> jsstr list" where
  "planningIssues s =
     concat [
       if selectedResource_routes s = None then [(uni ''%u6682%u65E0%u53EF%u7528%u4E8E%u672C%u5730%u89C4%u5212%u7684%u4E2D%u8F6C%u670D%u52A1%u5668%u3002'')] else [],
       if selectedNode_routes s = None then [(uni ''%u6682%u65E0 active %u843D%u5730%u8282%u70B9%u3002'')] else [],
       if plannedPort s = None then [(uni ''%u8BA1%u5212%u76D1%u542C%u7AEF%u53E3%u5FC5%u987B%u662F 1-65535 %u4E4B%u95F4%u7684%u6574%u6570%u3002'')] else [],
       if targetPort s \<le> 0 then [(uni ''%u76EE%u6807%u8282%u70B9%u7F3A%u5C11%u76EE%u6807%u7AEF%u53E3%u3002'')] else [],
       if \<not> pf_healthConfirmed (ro_preflight s) then [(uni ''%u8BF7%u786E%u8BA4%u672C%u5730 health %u548C%u4EFB%u52A1%u961F%u5217%u72B6%u6001%u3002'')] else [],
       if \<not> pf_boundaryConfirmed (ro_preflight s)
       then [(uni ''%u8BF7%u786E%u8BA4%u672C%u9636%u6BB5%u4E0D%u521B%u5EFA%u771F%u5B9E%u8F6C%u53D1%u3001%u4E0D%u4FEE%u6539 nodes.share_link%u3001%u4E0D cutover%u3002'')] else [],
       if \<not> pf_workerBoundaryConfirmed (ro_preflight s)
       then [(uni ''%u8BF7%u786E%u8BA4%u53EA%u901A%u8FC7 Worker allowlist %u6267%u884C%u56FA%u5B9A%u53EA%u8BFB%u68C0%u67E5%u3002'')] else []]"

definition preflightReady :: "routes_panel \<Rightarrow> bool" where
  "preflightReady s \<longleftrightarrow> planningIssues s = []
     \<and> (case pf_readonlyPlan (ro_preflight s) of None \<Rightarrow> False | Some p \<Rightarrow> plr_ready p)"

definition routeTransitResource :: "routes_panel \<Rightarrow> transit_route_data \<Rightarrow> transit_resource_data option" where
  "routeTransitResource s route =
     find_opt (\<lambda>r. tr_id r = rt_transit_resource_id route) (ro_resources s)"

definition routeEntry :: "routes_panel \<Rightarrow> transit_route_data \<Rightarrow> jsstr" where
  "routeEntry s route =
     (let host = (case Option.bind (routeTransitResource s route) tr_entry_host of
            Some h \<Rightarrow> h
          | None \<Rightarrow> nullish (rt_transit_resource_name route) (rt_transit_resource_id route))
      in displayValue (Some host) @ (js '':'') @ string_of_int (rt_listen_port route))"

definition routeCutoverStatusLabel :: "routes_panel \<Rightarrow> jsstr \<Rightarrow> jsstr" where
  "routeCutoverStatusLabel s routeId =
     (case ca_summary (ro_candidate s) of
        Some c \<Rightarrow>
          if cs_route_id c = routeId \<and> cs_cutover_status c \<noteq> (js ''not_cutover'') then cs_cutover_status c
          else (uni ''%u672A%u5207%u6362'')
      | None \<Rightarrow> (uni ''%u672A%u5207%u6362''))"

definition routeHasShareLink :: "transit_route_data \<Rightarrow> bool" where
  "routeHasShareLink route \<longleftrightarrow> \<not> blank (rt_share_link route)"

subsection \<open>Effects\<close>

text \<open>
  The two effects of the panel. The first runs when the lists of resources and nodes have been
  replaced and completes the draft; the second runs when one of its dependencies has changed and
  clears everything that was approved for the previous plan.
\<close>

definition first_or_empty :: "('a \<Rightarrow> jsstr) \<Rightarrow> 'a list \<Rightarrow> jsstr" where
  "first_or_empty ident xs = (case xs of [] \<Rightarrow> [] | x # r \<Rightarrow> ident x)"

definition draft_effect :: "routes_panel \<Rightarrow> routes_panel" where
  "draft_effect s =
     s\<lparr>ro_draft := (ro_draft s)
        \<lparr>rd_transitResourceId := or_str (rd_transitResourceId (ro_draft s))
            (first_or_empty tr_id (selectableResources s)),
         rd_landingNodeId := or_str (rd_landingNodeId (ro_draft s))
            (first_or_empty nd_id (activeNodes s)),
         rd_plannedListenPort := or_str (rd_plannedListenPort (ro_draft s)) (js ''23843'')\<rparr>\<rparr>"

definition reset_haproxy :: "haproxy_state \<Rightarrow> haproxy_state" where
  "reset_haproxy h =
     h\<lparr>ho_readiness := None, ho_readinessMessage := (uni ''HAProxy TCP readiness %u5C1A%u672A%u751F%u6210%u3002''),
       ho_dryRun := None, ho_dryRunMessage := (uni ''HAProxy route dry-run %u5C1A%u672A%u751F%u6210%u3002''),
       ho_finalApproval := None, ho_finalApprovalMessage := (uni ''HAProxy route %u6700%u7EC8%u5BA1%u6279%u5305%u5C1A%u672A%u751F%u6210%u3002''),
       ho_finalApprovalText := [],
       ho_realExecution := None, ho_realExecutionMessage := (uni ''HAProxy route %u771F%u5B9E%u521B%u5EFA%u5C1A%u672A%u6388%u6743%u3002''),
       ho_realExecutionText := []\<rparr>"

type_synonym planning_key =
  "jsstr option \<times> jsstr option \<times> jsstr \<times> forwarding \<times> int \<times> readiness_confirmations"

definition planning_key :: "routes_panel \<Rightarrow> planning_key" where
  "planning_key s =
     (map_option tr_id (selectedResource_routes s), map_option nd_id (selectedNode_routes s),
      rd_plannedListenPort (ro_draft s), rd_forwardingMethod (ro_draft s), targetPort s,
      ho_confirmations (ro_haproxy s))"

definition haproxy_effect :: "routes_panel \<Rightarrow> routes_panel \<Rightarrow> routes_panel" where
  "haproxy_effect before s =
     (if planning_key s = planning_key before then s else on_haproxy reset_haproxy s)"

subsection \<open>Loading\<close>

type_synonym loaded_data = "transit_resource_data list \<times> node_data list \<times> transit_route_data list"

definition as_lists ::
  "reply_value list \<Rightarrow> (transit_resource_data list api_response settled
     \<times> node_data list api_response settled \<times> transit_route_data list api_response settled) option" where
  "as_lists rs =
     (case rs of [RResources a, RNodes b, RRoutes c] \<Rightarrow> Some (a, b, c) | _ \<Rightarrow> None)"

definition failure_text :: "'a api_response \<Rightarrow> jsstr option" where
  "failure_text r =
     (case r of ApiSuccess d m \<Rightarrow> None | ApiFailure c m d \<Rightarrow> Some (api_error_text c m))"

definition say_failure :: "'a api_response \<Rightarrow> routes_panel \<Rightarrow> routes_panel" where
  "say_failure r s = (case failure_text r of None \<Rightarrow> s | Some m \<Rightarrow> say m s)"

definition receive_resources ::
  "transit_resource_data list api_response \<Rightarrow> routes_panel \<Rightarrow> routes_panel" where
  "receive_resources r s =
     (case r of ApiSuccess d m \<Rightarrow> s\<lparr>ro_resources := filterVisibleRouteResources d\<rparr> | _ \<Rightarrow> say_failure r s)"

definition receive_nodes :: "node_data list api_response \<Rightarrow> routes_panel \<Rightarrow> routes_panel" where
  "receive_nodes r s =
     (case r of ApiSuccess d m \<Rightarrow> s\<lparr>ro_nodes := filterVisibleRouteNodes d\<rparr> | _ \<Rightarrow> say_failure r s)"

definition receive_routes :: "transit_route_data list api_response \<Rightarrow> routes_panel \<Rightarrow> routes_panel" where
  "receive_routes r s = (case r of ApiSuccess d m \<Rightarrow> set_routes d s | _ \<Rightarrow> say_failure r s)"

text \<open>
  The result of \<^verbatim>\<open>loadData\<close>: the lists it has just stored, or those of the rendering \<open>c\<close>
  in which the handler was created.
\<close>

definition loaded_lists ::
  "routes_panel \<Rightarrow> transit_resource_data list api_response \<Rightarrow> node_data list api_response
   \<Rightarrow> transit_route_data list api_response \<Rightarrow> routes_panel \<Rightarrow> loaded_data" where
  "loaded_lists c ra rb rc s =
     ((case ra of ApiSuccess d m \<Rightarrow> filterVisibleRouteResources d | _ \<Rightarrow> ro_resources c),
      (case rb of ApiSuccess d m \<Rightarrow> filterVisibleRouteNodes d | _ \<Rightarrow> ro_nodes c),
      (case rc of ApiSuccess d m \<Rightarrow> filterVisibleTransitRoutes s d | _ \<Rightarrow> ro_routes c))"

definition store_lists ::
  "transit_resource_data list api_response \<Rightarrow> node_data list api_response
   \<Rightarrow> transit_route_data list api_response \<Rightarrow> routes_panel \<Rightarrow> routes_panel" where
  "store_lists ra rb rc s =
     (let s1 = (receive_routes rc (receive_nodes rb (receive_resources ra s)))\<lparr>ro_loading := False\<rparr>
      in haproxy_effect s (if api_ok ra \<or> api_ok rb then draft_effect s1 else s1))"

definition loadData_routes ::
  "routes_panel \<Rightarrow> (loaded_data \<Rightarrow> routes_panel act) \<Rightarrow> (jsstr option \<Rightarrow> routes_panel act)
   \<Rightarrow> routes_panel act" where
  "loadData_routes c k h s =
     call_all [Http (get_request (js ''/api/transit-resources?resource_type=server'')),
               Http (get_request (js ''/api/nodes'')), Http (get_request (js ''/api/transit-routes''))]
       as_lists
       (\<lambda>x. case x of
          (Resolved ra, Resolved rb, Resolved rc) \<Rightarrow>
            (\<lambda>s. k (loaded_lists c ra rb rc s) (store_lists ra rb rc s))
        | (Rejected e, b, r) \<Rightarrow> h e
        | (a, Rejected e, r) \<Rightarrow> h e
        | (a, b, Rejected e) \<Rightarrow> h e)
       (s\<lparr>ro_loading := True\<rparr>)"

definition scheduleRouteDataRefresh :: "routes_panel \<Rightarrow> routes_panel act" where
  "scheduleRouteDataRefresh c =
     (let refresh = loadData_routes c (\<lambda>d. finished) unhandled
      in alongside (sleep 1500 refresh) (sleep 4000 refresh))"

end
