(* ===== verification/TransitRouteCreate.thy ===== *)
theory TransitRouteCreate
  imports TransitRoutes
begin

text \<open>
  The creation of a transit route in the modal of \<^verbatim>\<open>TransitRoutesPanel\<close>: opening and
  closing it, its form, the wait for a Worker command, and the two flows, which end with the
  created route and a transient client link. In \<open>submitSimplifiedTransitRouteCreate\<close> and
  \<open>confirmHaproxyRealCreateFromModal\<close>, \<open>c\<close> is the state of the rendering in which the
  handler was created: whatever the handler reads of the component's variables comes from it.
\<close>

subsection \<open>Opening, closing and the form\<close>

definition cleared_create :: "create_state \<Rightarrow> create_state" where
  "cleared_create x =
     x\<lparr>cr_command := None, cr_executeResult := None, cr_haproxyContext := None,
       cr_haproxyRealExecution := None, cr_haproxyRealExecutionLoading := False,
       cr_createdRoute := None, cr_export := None, cr_error := [],
       cr_copyFallbackRequired := False, cr_qrVisible := False\<rparr>"

definition openCreateRouteModal :: "routes_panel \<Rightarrow> routes_panel" where
  "openCreateRouteModal s =
     on_create (\<lambda>x. (cleared_create x)
       \<lparr>cr_form := emptyRouteCreateForm
          \<lparr>cf_transitResourceId :=
             (case selectedResource_routes s of
                Some r \<Rightarrow> tr_id r | None \<Rightarrow> first_or_empty tr_id (selectableResources s)),
           cf_landingNodeId :=
             (case selectedNode_routes s of
                Some n \<Rightarrow> nd_id n | None \<Rightarrow> first_or_empty nd_id (activeNodes s))\<rparr>,
        cr_step := StepIdle, cr_modalOpen := True\<rparr>) s"

definition closed_create :: "create_state \<Rightarrow> create_state" where
  "closed_create x =
     (cleared_create x)\<lparr>cr_modalOpen := False, cr_form := emptyRouteCreateForm, cr_step := StepIdle\<rparr>"

definition closeCreateRouteModal :: "routes_panel \<Rightarrow> bool \<Rightarrow> routes_panel act" where
  "closeCreateRouteModal c refresh s =
     (if refresh then loadData_routes c (\<lambda>d. finished) unhandled else finished)
       (on_create closed_create s)"

datatype create_edit =
    CreateName jsstr
  | CreateResourceId jsstr
  | CreateNodeId jsstr
  | CreateListenPort jsstr
  | CreateMethod create_forwarding
  | CreateFirewall bool

text \<open>The inputs; a default name follows the port and the method.\<close>

fun edit_create_form :: "create_edit \<Rightarrow> create_form \<Rightarrow> create_form" where
  "edit_create_form (CreateName v) f = f\<lparr>cf_routeName := v\<rparr>"
| "edit_create_form (CreateResourceId v) f = f\<lparr>cf_transitResourceId := v\<rparr>"
| "edit_create_form (CreateNodeId v) f = f\<lparr>cf_landingNodeId := v\<rparr>"
| "edit_create_form (CreateListenPort v) f =
     f\<lparr>cf_listenPort := v,
       cf_routeName :=
         (if cf_routeName f = defaultTransitRouteName (cf_forwardingMethod f) (cf_listenPort f)
          then defaultTransitRouteName (cf_forwardingMethod f) v else cf_routeName f)\<rparr>"
| "edit_create_form (CreateMethod m) f =
     f\<lparr>cf_forwardingMethod := m, cf_routeName := defaultTransitRouteName m (cf_listenPort f)\<rparr>"
| "edit_create_form (CreateFirewall v) f = f\<lparr>cf_firewallConfirmed := v\<rparr>"

definition set_step :: "create_step \<Rightarrow> routes_panel \<Rightarrow> routes_panel" where
  "set_step st = on_create (\<lambda>x. x\<lparr>cr_step := st\<rparr>)"

definition set_command_shown :: "worker_command_data \<Rightarrow> routes_panel \<Rightarrow> routes_panel" where
  "set_command_shown cmd = on_create (\<lambda>x. x\<lparr>cr_command := Some cmd\<rparr>)"

subsection \<open>Errors\<close>

definition formatApiError ::
  "jsstr option \<Rightarrow> jsstr option \<Rightarrow> jsstr option \<Rightarrow> jsval option \<Rightarrow> jsstr" where
  "formatApiError error_code msg err detail =
     (let code = or_str (nullish error_code []) (js ''REQUEST_FAILED'');
          detailText = (case detail of
              Some (JStr d) \<Rightarrow> d
            | Some (JArr (x # xs)) \<Rightarrow> (uni ''%u8BF7%u6C42%u53C2%u6570%u4E0D%u6B63%u786E%u3002'')
            | _ \<Rightarrow> [])
      in code @ (js '': '') @ or_str (nullish msg [])
           (or_str (nullish err []) (or_str detailText (uni ''%u8BF7%u6C42%u5931%u8D25%uFF0C%u8BF7%u7A0D%u540E%u91CD%u8BD5%u3002''))))"

text \<open>
  \<^verbatim>\<open>toUpperCase\<close>, as far as a comparison with the three codes below can tell: no unit
  outside ASCII has an upper case that could match them.
\<close>

definition to_upper :: "jsstr \<Rightarrow> jsstr" where
  "to_upper = map (\<lambda>c. if 97 \<le> c \<and> c \<le> 122 then c - 32 else c)"

definition isWorkerCommandNotFound :: "jsstr option \<Rightarrow> jsstr option \<Rightarrow> jsval option \<Rightarrow> bool" where
  "isWorkerCommandNotFound error_code msg detail \<longleftrightarrow>
     (let code = to_upper (nullish error_code []);
          m = to_lower (nullish msg [] @ (js '' '') @ (case detail of Some (JStr d) \<Rightarrow> d | _ \<Rightarrow> []))
      in code \<in> set [(js ''WORKER_COMMAND_NOT_FOUND''), (js ''COMMAND_NOT_FOUND''), (js ''NOT_FOUND'')]
         \<or> contains m (js ''not found'') \<or> contains m (uni ''%u4E0D%u5B58%u5728''))"

text \<open>The message shown for an exception; \<open>None\<close> is one without a message.\<close>

definition friendlyTransitCreateError :: "jsstr option \<Rightarrow> jsstr" where
  "friendlyTransitCreateError e =
     (let raw = error_text e (uni ''%u521B%u5EFA%u5931%u8D25%u3002'') in
      if contains_any raw [(js ''WORKER_COMMAND_STATUS_UNAVAILABLE''), (js ''WORKER_COMMAND_NOT_FOUND''),
           (js ''COMMAND_NOT_FOUND''), (js ''NOT_FOUND''), (uni ''%u6682%u4E0D%u53EF%u8BFB''), (js ''404'')]
      then (uni ''Worker %u547D%u4EE4%u72B6%u6001%u6682%u4E0D%u53EF%u8BFB%uFF1A%u8BF7%u7A0D%u5019%u5237%u65B0%u4EFB%u52A1%u72B6%u6001%uFF0C%u6216%u91CD%u65B0%u6253%u5F00%u5F39%u7A97%u67E5%u770B%u662F%u5426%u5DF2%u5B8C%u6210%u3002'')
      else if contains_any raw [(js ''TRANSIT_PREFLIGHT_REQUIRED''), (js ''TRANSIT_PREFLIGHT_TARGET_MISMATCH'')]
      then (uni ''%u53EA%u8BFB%u9884%u68C0%u4E0D%u5339%u914D%uFF1A%u8BF7%u5148%u7528%u5F53%u524D%u4E2D%u8F6C%u670D%u52A1%u5668%u3001%u843D%u5730%u8282%u70B9%u3001%u76D1%u542C%u7AEF%u53E3%u548C%u76EE%u6807%u7AEF%u53E3%u91CD%u65B0%u5B8C%u6210%u53EA%u8BFB%u9884%u68C0%u3002'')
      else if contains_any raw [(js ''READONLY_PREFLIGHT''), (js ''preflight''), (uni ''%u9884%u68C0'')]
      then (uni ''%u53EA%u8BFB%u9884%u68C0%u672A%u901A%u8FC7%uFF1A%u8BF7%u786E%u8BA4 Worker %u5728%u7EBF%u3001%u76D1%u542C%u7AEF%u53E3%u672A%u5360%u7528%u3001%u843D%u5730%u76EE%u6807%u7AEF%u53E3%u53EF%u8FBE%u3002'')
      else if contains_any raw [(js ''TRANSIT_PORT_ALREADY_EXISTS''), (js ''TRANSIT_PORT_ALREADY_PLANNED''),
                (js ''LISTEN''), (js ''listen''), (uni ''%u7AEF%u53E3'')]
      then (uni ''%u4E2D%u8F6C%u76D1%u542C%u7AEF%u53E3%u4E0D%u53EF%u7528%uFF1A%u7AEF%u53E3%u53EF%u80FD%u5DF2%u5B58%u5728%u94FE%u8DEF%u3001%u672A%u653E%u884C%uFF0C%u6216 Worker %u672A%u68C0%u6D4B%u5230%u76D1%u542C%u6210%u529F%u3002'')
      else if contains raw (js ''TRANSIT_WORKER_INTERFACE_MISMATCH'')
      then (uni ''%u4E2D%u8F6C Worker %u7F51%u5361%u4E0E%u6700%u8FD1%u6210%u529F%u53EA%u8BFB%u9884%u68C0%u4E0D%u4E00%u81F4%uFF1A%u8BF7%u786E%u8BA4%u9009%u62E9%u7684%u662F%u540C%u4E00%u53F0%u5728%u7EBF%u4E2D%u8F6C%u670D%u52A1%u5668%uFF0C%u5E76%u91CD%u65B0%u6267%u884C%u53EA%u8BFB%u9884%u68C0%u3002'')
      else if contains_any raw [(js ''TRANSIT_WORKER''), (js ''WORKER''), (js ''Worker'')]
      then (uni ''%u4E2D%u8F6C Worker %u4E0D%u5728%u7EBF%u6216%u7248%u672C%u4E0D%u6EE1%u8DB3%uFF0C%u8BF7%u68C0%u67E5%u4E2D%u8F6C%u670D%u52A1%u5668 Worker %u72B6%u6001%u3002'')
      else if contains_any raw [(js ''APPROVAL''), (js ''MISMATCH''), (uni ''%u5BA1%u6279'')]
      then (uni ''%u53D7%u4FDD%u62A4%u521B%u5EFA%u5BA1%u6279%u672A%u901A%u8FC7%uFF1A%u8BF7%u786E%u8BA4%u4E2D%u8F6C%u670D%u52A1%u5668%u3001%u843D%u5730%u8282%u70B9%u3001%u7AEF%u53E3%u3001%u53EA%u8BFB%u9884%u68C0%u7ED3%u679C%u548C Worker %u7ED1%u5B9A%u5173%u7CFB%u4E00%u81F4%u3002'')
      else if contains_any raw [(js ''share_link''), (uni ''%u94FE%u63A5'')]
      then (uni ''%u5BA2%u6237%u7AEF%u94FE%u63A5%u751F%u6210%u5931%u8D25%uFF1A%u8BF7%u786E%u8BA4%u843D%u5730%u76F4%u8FDE%u8282%u70B9%u5DF2%u7ECF%u6210%u529F%u751F%u6210%u5206%u4EAB%u94FE%u63A5%u3002'')
      else raw)"

text \<open>\<^verbatim>\<open>if (!result.success) throw new Error(...)\<close>\<close>

definition or_throw ::
  "(jsstr option \<Rightarrow> 's act) \<Rightarrow> ('a \<Rightarrow> 's act) \<Rightarrow> 'a api_response \<Rightarrow> 's act" where
  "or_throw h k result =
     (case result of
        ApiFailure c m d \<Rightarrow> h (Some (api_error_text c m))
      | ApiSuccess d m \<Rightarrow> k d)"

subsection \<open>Waiting for a Worker command\<close>

definition wait_limit :: nat where "wait_limit = 90"
definition wait_interval :: nat where "wait_interval = 2000"

function wait_attempts ::
  "jsstr \<Rightarrow> create_step \<Rightarrow> int \<Rightarrow> (worker_command_data \<Rightarrow> routes_panel act)
   \<Rightarrow> (jsstr option \<Rightarrow> routes_panel act) \<Rightarrow> nat \<Rightarrow> routes_panel act" where
  "wait_attempts commandId runningStep startedAt k h attempt =
     (if attempt < wait_limit then
        fetch (getWorkerCommand commandId) as_command
          (\<lambda>result. case result of
             ApiFailure c m d \<Rightarrow>
               (if isWorkerCommandNotFound (Some c) (Some m) None then
                  (\<lambda>s. if ro_clock s - startedAt < workerCommandNotFoundRetryMs then
                         sleep wait_interval (wait_attempts commandId runningStep startedAt k h (Suc attempt))
                           (set_step runningStep s)
                       else h (Some (uni ''WORKER_COMMAND_STATUS_UNAVAILABLE: Worker %u547D%u4EE4%u72B6%u6001%u6682%u4E0D%u53EF%u8BFB%uFF0C%u8BF7%u5237%u65B0%u540E%u68C0%u67E5%u4EFB%u52A1%u4E2D%u5FC3%u3002'')) s)
                else h (Some (formatApiError (Some c) (Some m) None None)))
           | ApiSuccess cmd m \<Rightarrow>
               (if wc_status cmd \<in> set transitCreateTerminalStatuses then
                  (\<lambda>s. k cmd (set_command_shown cmd s))
                else
                  (\<lambda>s. sleep wait_interval (wait_attempts commandId runningStep startedAt k h (Suc attempt))
                         (set_step runningStep (set_command_shown cmd s)))))
          h
      else h (Some (uni ''Worker %u547D%u4EE4%u7B49%u5F85%u8D85%u65F6%u3002%u8BF7%u5237%u65B0%u5217%u8868%u67E5%u770B%u6700%u65B0%u72B6%u6001%u3002'')))"
  by pat_completeness auto
termination
  by (relation "measure (\<lambda>(i, st, t, k, h, attempt). wait_limit - attempt)") auto

definition waitForTransitCommandCompletion ::
  "jsstr \<Rightarrow> create_step \<Rightarrow> (worker_command_data \<Rightarrow> routes_panel act)
   \<Rightarrow> (jsstr option \<Rightarrow> routes_panel act) \<Rightarrow> routes_panel act" where
  "waitForTransitCommandCompletion commandId runningStep k h s =
     wait_attempts commandId runningStep (ro_clock s) k h 0 s"

text \<open>The command must have succeeded.\<close>

definition wait_success ::
  "jsstr \<Rightarrow> create_step \<Rightarrow> jsstr \<Rightarrow> routes_panel act \<Rightarrow> (jsstr option \<Rightarrow> routes_panel act)
   \<Rightarrow> routes_panel act" where
  "wait_success commandId runningStep failed k h =
     waitForTransitCommandCompletion commandId runningStep
       (\<lambda>cmd. if wc_status cmd = (js ''succeeded'') then k
              else h (Some (or_str (nullish (wc_error_message cmd) []) failed)))
       h"

subsection \<open>The created route and its client link\<close>

definition findCreatedTransitRoute ::
  "routes_panel \<Rightarrow> transit_route_data list \<Rightarrow> transit_route_data option" where
  "findCreatedTransitRoute c routeList =
     (case (createResource c, createNode c, createListenPort c) of
        (Some r, Some n, Some p) \<Rightarrow>
          find_opt (\<lambda>route.
            rt_transit_resource_id route = tr_id r
            \<and> rt_node_id route = nd_id n
            \<and> rt_listen_port route = p
            \<and> rt_target_port route = createTargetPort c
            \<and> rt_forwarding_method route = create_forwarding_text (cf_forwardingMethod (cr_form (ro_create c)))
            \<and> rt_status route = (js ''active'')
            \<and> blank (rt_deleted_at route)) routeList
      | _ \<Rightarrow> None)"

definition export_request :: "jsstr \<Rightarrow> candidate_export_request" where
  "export_request reason =
     \<lparr>ceq_confirm_transient_export = True, ceq_confirm_no_database_write = True,
      ceq_confirm_no_share_link_mutation = True, ceq_confirm_no_cutover = True,
      ceq_reason = reason\<rparr>"

definition refresh_and_export ::
  "routes_panel \<Rightarrow> jsstr \<Rightarrow> jsstr \<Rightarrow> jsstr \<Rightarrow> jsstr \<Rightarrow> routes_panel act
   \<Rightarrow> (jsstr option \<Rightarrow> routes_panel act) \<Rightarrow> routes_panel act" where
  "refresh_and_export c csrfToken reason missing complete k h s =
     loadData_routes c
       (\<lambda>d. case findCreatedTransitRoute c (snd (snd d)) of
          None \<Rightarrow> h (Some missing)
        | Some route \<Rightarrow>
            (\<lambda>s. fetch (exportTransitRouteCandidate (rt_id route)
                    (json_candidate_export_request (export_request reason)) csrfToken) as_export
               (or_throw h (\<lambda>x s. k (say complete
                  (on_create (\<lambda>cr. cr\<lparr>cr_export := Some x, cr_step := StepComplete\<rparr>) s))))
               h
               (on_create (\<lambda>cr. cr\<lparr>cr_createdRoute := Some route, cr_step := StepExportLink\<rparr>) s)))
       h
       (set_step StepRefresh s)"

subsection \<open>The requests of a creation\<close>

text \<open>
  Built from what the handler captured: the resource \<open>r\<close>, the node \<open>n\<close>, the listen port
  \<open>p\<close>, and the form of the rendering \<open>c\<close>.
\<close>

definition create_display_name :: "routes_panel \<Rightarrow> jsstr" where
  "create_display_name c = trim (cf_routeName (cr_form (ro_create c)))"

definition create_route_name :: "routes_panel \<Rightarrow> jsstr" where
  "create_route_name c =
     (let form = cr_form (ro_create c)
      in if cf_forwardingMethod form = CreateHaproxy
         then defaultTransitRouteName CreateHaproxy (cf_listenPort form)
         else or_str (create_display_name c)
                (defaultTransitRouteName (cf_forwardingMethod form) (cf_listenPort form)))"

definition create_payload_name :: "routes_panel \<Rightarrow> jsstr" where
  "create_payload_name c = or_str (create_display_name c) (create_route_name c)"

definition firewall_confirmed :: "routes_panel \<Rightarrow> bool" where
  "firewall_confirmed c = cf_firewallConfirmed (cr_form (ro_create c))"

definition create_readiness_request ::
  "routes_panel \<Rightarrow> transit_resource_data \<Rightarrow> node_data \<Rightarrow> int \<Rightarrow> readiness_request" where
  "create_readiness_request c r n p =
     \<lparr>raq_transit_resource_id = tr_id r, raq_landing_node_id = nd_id n,
      raq_planned_listen_port = p, raq_landing_target_port = createTargetPort c,
      raq_forwarding_method = (js ''haproxy_tcp''), raq_purpose = Some (uni ''%u76F4%u64AD''),
      raq_firewall_security_group_confirmed = firewall_confirmed c,
      raq_cloud_firewall_confirmed = firewall_confirmed c,
      raq_server_firewall_confirmed = firewall_confirmed c,
      raq_no_cutover_confirmed = True, raq_no_node_share_link_change_confirmed = True,
      raq_no_full_client_link_confirmed = True\<rparr>"

definition create_dry_run_request ::
  "routes_panel \<Rightarrow> transit_resource_data \<Rightarrow> node_data \<Rightarrow> int \<Rightarrow> haproxy_dry_run_request" where
  "create_dry_run_request c r n p =
     \<lparr>hdq_transit_resource_id = tr_id r, hdq_landing_node_id = nd_id n,
      hdq_planned_listen_port = p, hdq_landing_target_host = landingHostForNode (Some n),
      hdq_landing_target_port = createTargetPort c, hdq_forwarding_method = (js ''haproxy_tcp''),
      hdq_purpose = Some (uni ''%u76F4%u64AD''), hdq_route_name = create_route_name c,
      hdq_route_display_name = Some (create_payload_name c),
      hdq_approval_stage = (js ''Stage 3.3.137-new-transit-haproxy-route-create-dry-run''),
      hdq_readiness_approval_confirmed = True, hdq_dry_run = True, hdq_approval_required = True,
      hdq_firewall_security_group_confirmed = firewall_confirmed c,
      hdq_cloud_firewall_confirmed = firewall_confirmed c,
      hdq_server_firewall_confirmed = firewall_confirmed c,
      hdq_no_cutover_confirmed = True, hdq_no_node_share_link_change_confirmed = True,
      hdq_no_full_client_link_confirmed = True\<rparr>"

definition create_final_request ::
  "routes_panel \<Rightarrow> transit_resource_data \<Rightarrow> node_data \<Rightarrow> int \<Rightarrow> haproxy_dry_run \<Rightarrow> final_approval_request" where
  "create_final_request c r n p dryRun =
     \<lparr>faq_dry_run_command_id = wc_id (hdr_command dryRun),
      faq_transit_resource_id = tr_id r, faq_landing_node_id = nd_id n,
      faq_planned_listen_port = p, faq_landing_target_host = landingHostForNode (Some n),
      faq_landing_target_port = createTargetPort c, faq_forwarding_method = (js ''haproxy_tcp''),
      faq_route_name = create_route_name c,
      faq_route_display_name = Some (nullish (hdr_route_display_name dryRun) (create_payload_name c)),
      faq_planned_service_name = hdr_planned_service_name dryRun,
      faq_approval_stage = (js ''Stage 3.3.138-new-transit-haproxy-route-create-final-approval''),
      faq_dry_run_verified = True,
      faq_firewall_security_group_confirmed = firewall_confirmed c,
      faq_cloud_firewall_confirmed = firewall_confirmed c,
      faq_server_firewall_confirmed = firewall_confirmed c,
      faq_no_cutover_confirmed = True, faq_no_node_share_link_change_confirmed = True,
      faq_no_full_client_link_confirmed = True,
      faq_final_approval_text = HAPROXY_FINAL_APPROVAL_TEXT\<rparr>"

definition create_preflight_request ::
  "routes_panel \<Rightarrow> transit_resource_data \<Rightarrow> node_data \<Rightarrow> int \<Rightarrow> preflight_request" where
  "create_preflight_request c r n p =
     \<lparr>pfq_transit_resource_id = tr_id r, pfq_landing_node_id = nd_id n,
      pfq_planned_listen_port = p, pfq_landing_target_port = createTargetPort c,
      pfq_forwarding_method = create_forwarding_text (cf_forwardingMethod (cr_form (ro_create c))),
      pfq_purpose = Some (uni ''%u76F4%u64AD''), pfq_readonly = True\<rparr>"

definition create_execute_request_of ::
  "routes_panel \<Rightarrow> transit_resource_data \<Rightarrow> node_data \<Rightarrow> int \<Rightarrow> create_execute_request" where
  "create_execute_request_of c r n p =
     \<lparr>xcq_transit_resource_id = tr_id r, xcq_landing_node_id = nd_id n,
      xcq_planned_listen_port = p, xcq_landing_target_host = landingHostForNode (Some n),
      xcq_landing_target_port = createTargetPort c,
      xcq_forwarding_method = create_forwarding_text (cf_forwardingMethod (cr_form (ro_create c))),
      xcq_purpose = Some (uni ''%u76F4%u64AD''), xcq_route_name = create_route_name c,
      xcq_approval_stage = approvedTransitRealCreateStage,
      xcq_dry_run = False, xcq_approval_required = False, xcq_user_approved_real_execution = True,
      xcq_firewall_security_group_confirmed = firewall_confirmed c,
      xcq_cloud_firewall_confirmed = firewall_confirmed c,
      xcq_server_firewall_confirmed = firewall_confirmed c,
      xcq_no_node_share_link_change_confirmed = True, xcq_no_full_client_link_confirmed = True,
      xcq_no_cutover_confirmed = True\<rparr>"

definition real_create_request :: "haproxy_context \<Rightarrow> real_execution_request" where
  "real_create_request x =
     (let dryRun = hx_dryRun x; finalApproval = hx_finalApproval x in
      \<lparr>xq_dry_run_command_id = wc_id (hdr_command dryRun),
       xq_transit_resource_id = hx_transitResourceId x,
       xq_landing_node_id = hx_landingNodeId x,
       xq_planned_listen_port = far_planned_listen_port finalApproval,
       xq_landing_target_host = far_landing_target_host finalApproval,
       xq_landing_target_port = far_landing_target_port finalApproval,
       xq_forwarding_method = (js ''haproxy_tcp''),
       xq_route_name = far_route_name finalApproval,
       xq_route_display_name =
         (case far_route_display_name finalApproval of
            Some v \<Rightarrow> Some v | None \<Rightarrow> hdr_route_display_name dryRun),
       xq_approval_stage = (js ''Stage 3.3.139-new-transit-haproxy-route-create-real-execution''),
       xq_final_approval_text = HAPROXY_FINAL_APPROVAL_TEXT,
       xq_real_execution_text = HAPROXY_REAL_EXECUTION_TEXT,
       xq_firewall_security_group_confirmed = True, xq_cloud_firewall_confirmed = True,
       xq_server_firewall_confirmed = True, xq_no_cutover_confirmed = True,
       xq_no_node_share_link_change_confirmed = True, xq_no_full_client_link_confirmed = True\<rparr>)"

subsection \<open>The two flows of the form\<close>

definition create_failed :: "jsstr \<Rightarrow> routes_panel \<Rightarrow> routes_panel" where
  "create_failed friendly s =
     say (friendly @ (uni '' %u5931%u8D25%u65F6%u4E0D%u4F1A%u5199%u5165 transit_routes.share_link%uFF0C%u4E0D%u4F1A cutover%uFF0C%u4E5F%u4E0D%u4F1A%u663E%u793A%u5B8C%u6574%u5BA2%u6237%u7AEF%u94FE%u63A5%u3002''))
       (on_create (\<lambda>x. x\<lparr>cr_step := StepFailed, cr_error := friendly\<rparr>) s)"

definition create_caught :: "jsstr option \<Rightarrow> routes_panel act" where
  "create_caught e s = finished (create_failed (friendlyTransitCreateError e) s)"

text \<open>HAProxy: readiness, dry-run, the wait for it, final approval; then the user must confirm.\<close>

definition approve_haproxy ::
  "routes_panel \<Rightarrow> transit_resource_data \<Rightarrow> node_data \<Rightarrow> int \<Rightarrow> jsstr \<Rightarrow> haproxy_dry_run \<Rightarrow> routes_panel act" where
  "approve_haproxy c r n p csrfToken dryRun =
     fetch (requestTransitHaproxyRouteFinalApproval
         (json_final_approval_request (create_final_request c r n p dryRun)) csrfToken) as_final
       (or_throw create_caught
          (\<lambda>d. if \<not> far_ready_for_real_create d \<or> far_blocked d
               then create_caught (Some (or_str (far_summary d) (uni ''HAProxy TCP %u6700%u7EC8%u5BA1%u6279%u672A%u901A%u8FC7%u3002'')))
               else (\<lambda>s. finished (say (uni ''%u9884%u68C0%u6210%u529F%uFF0C%u7B49%u5F85%u786E%u8BA4%u771F%u5B9E%u521B%u5EFA%u3002'')
                 (on_create (\<lambda>x. x\<lparr>cr_haproxyContext := Some
                      \<lparr>hx_transitResourceId = tr_id r, hx_landingNodeId = nd_id n,
                       hx_dryRun = dryRun, hx_finalApproval = d\<rparr>,
                    cr_step := StepRealCreateConfirm\<rparr>) s)))))
       create_caught"

definition dry_run_haproxy ::
  "routes_panel \<Rightarrow> transit_resource_data \<Rightarrow> node_data \<Rightarrow> int \<Rightarrow> jsstr \<Rightarrow> routes_panel act" where
  "dry_run_haproxy c r n p csrfToken s =
     fetch (createTransitHaproxyRouteDryRun
         (json_haproxy_dry_run_request (create_dry_run_request c r n p)) csrfToken) as_dry_run
       (or_throw create_caught
          (\<lambda>d s. wait_success (wc_id (hdr_command d)) StepCommandRunning (uni ''HAProxy TCP dry-run %u672A%u901A%u8FC7%u3002'')
             (approve_haproxy c r n p csrfToken d) create_caught
             (set_command_shown (hdr_command d) s)))
       create_caught
       (set_step StepCommandCreate s)"

definition create_haproxy ::
  "routes_panel \<Rightarrow> transit_resource_data \<Rightarrow> node_data \<Rightarrow> int \<Rightarrow> jsstr \<Rightarrow> routes_panel act" where
  "create_haproxy c r n p csrfToken =
     fetch (requestTransitHaproxyReadinessApproval
         (json_readiness_request (create_readiness_request c r n p))) as_readiness
       (or_throw create_caught
          (\<lambda>d. if \<not> rar_ready d \<or> rar_blocked d
               then create_caught (Some (or_str (rar_summary d) (uni ''HAProxy TCP %u521B%u5EFA%u5BA1%u6279%u5305%u672A%u901A%u8FC7%u3002'')))
               else dry_run_haproxy c r n p csrfToken))
       create_caught"

text \<open>socat: preflight, the wait for it, the creation, the wait for it, the list and the link.\<close>

definition execute_socat ::
  "routes_panel \<Rightarrow> transit_resource_data \<Rightarrow> node_data \<Rightarrow> int \<Rightarrow> jsstr \<Rightarrow> routes_panel act" where
  "execute_socat c r n p csrfToken s =
     fetch (createTransitRouteWorkerExecuteCommand
         (json_create_execute_request (create_execute_request_of c r n p)) csrfToken) as_execute
       (or_throw create_caught
          (\<lambda>d s. wait_success (wc_id (xcr_command d)) StepCommandRunning (uni ''%u4E2D%u8F6C%u94FE%u8DEF%u521B%u5EFA%u547D%u4EE4%u6267%u884C%u5931%u8D25%u3002'')
             (refresh_and_export c csrfToken (js ''transit_route_create_success'')
                (uni ''%u4E2D%u8F6C%u94FE%u8DEF%u521B%u5EFA%u547D%u4EE4%u5DF2%u6210%u529F%uFF0C%u4F46%u5217%u8868%u5237%u65B0%u540E%u672A%u627E%u5230 active %u94FE%u8DEF%u3002%u8BF7%u5237%u65B0%u9875%u9762%u786E%u8BA4%u3002'')
                (uni ''%u4E2D%u8F6C%u94FE%u8DEF%u521B%u5EFA%u5B8C%u6210%u3002%u53EF%u4EE5%u590D%u5236%u5BA2%u6237%u7AEF%u94FE%u63A5%u6216%u4E34%u65F6%u663E%u793A%u4E8C%u7EF4%u7801%u3002'') finished create_caught)
             create_caught
             (set_command_shown (xcr_command d) (on_create (\<lambda>x. x\<lparr>cr_executeResult := Some d\<rparr>) s))))
       create_caught
       (set_step StepCommandCreate s)"

definition create_socat ::
  "routes_panel \<Rightarrow> transit_resource_data \<Rightarrow> node_data \<Rightarrow> int \<Rightarrow> jsstr \<Rightarrow> routes_panel act" where
  "create_socat c r n p csrfToken =
     fetch (createTransitReadonlyPreflightCommand
         (json_preflight_request (create_preflight_request c r n p)) csrfToken) as_preflight
       (or_throw create_caught
          (\<lambda>d s. wait_success (wc_id (pfr_command d)) StepPreflightRunning (uni ''%u4E2D%u8F6C%u53EA%u8BFB%u9884%u68C0%u672A%u901A%u8FC7%u3002'')
             (execute_socat c r n p csrfToken) create_caught
             (set_command_shown (pfr_command d) s)))
       create_caught"

definition create_error :: "jsstr \<Rightarrow> routes_panel \<Rightarrow> routes_panel" where
  "create_error m = on_create (\<lambda>x. x\<lparr>cr_error := m\<rparr>)"

definition create_started :: "routes_panel \<Rightarrow> routes_panel" where
  "create_started s =
     say (if cf_forwardingMethod (cr_form (ro_create s)) = CreateHaproxy
          then (uni ''%u6B63%u5728%u6267%u884C HAProxy TCP %u5BA1%u6279%u548C dry-run%uFF1B%u9884%u68C0%u6210%u529F%u540E%u9700%u8981%u786E%u8BA4%u771F%u5B9E%u521B%u5EFA%u3002'')
          else (uni ''%u6B63%u5728%u81EA%u52A8%u6267%u884C%u4E2D%u8F6C%u53EA%u8BFB%u9884%u68C0%u548C%u53D7%u4FDD%u62A4%u521B%u5EFA%u6D41%u7A0B%u3002%u6210%u529F%u540E%u624D%u4F1A%u4E34%u65F6%u751F%u6210%u5BA2%u6237%u7AEF%u94FE%u63A5%u548C%u4E8C%u7EF4%u7801%u3002''))
       (on_create (\<lambda>x. (cleared_create x)\<lparr>cr_step := StepPreflightCreate\<rparr>) s)"

definition submitSimplifiedTransitRouteCreate :: "routes_panel act" where
  "submitSimplifiedTransitRouteCreate s =
     (case (createResource s, createNode s, createListenPort s) of
        (Some r, Some n, Some p) \<Rightarrow>
          if createTargetPort s \<le> 0 then
            finished (create_error (uni ''%u8BF7%u5148%u9009%u62E9%u4E2D%u8F6C%u670D%u52A1%u5668%u3001%u843D%u5730%u8282%u70B9%uFF0C%u5E76%u586B%u5199%u5408%u6CD5%u7684%u4E2D%u8F6C%u76D1%u542C%u7AEF%u53E3%u3002'') s)
          else if \<not> firewall_confirmed s then
            finished (create_error (uni ''%u8BF7%u5148%u786E%u8BA4%u4E2D%u8F6C%u76D1%u542C%u7AEF%u53E3%u5DF2%u5728%u4E91%u5B89%u5168%u7EC4%u3001%u4E91%u9632%u706B%u5899%u548C%u670D%u52A1%u5668%u672C%u673A%u9632%u706B%u5899%u653E%u884C%u3002'') s)
          else
            (case findTransitPortConflictRoute (ro_routes s) (Some (tr_id r)) (Some p) of
               Some route \<Rightarrow>
                 finished (say (uni ''%u68C0%u6D4B%u5230%u540C%u4E00%u4E2D%u8F6C%u670D%u52A1%u5668%u5DF2%u6709%u76F8%u540C%u76D1%u542C%u7AEF%u53E3%u7684 active/creating %u94FE%u8DEF%uFF0C%u5DF2%u963B%u6B62%u521B%u5EFA%u6D41%u7A0B%u3002'')
                   (create_error
                      (duplicateTransitPortMessage (cf_forwardingMethod (cr_form (ro_create s))) p route) s))
             | None \<Rightarrow>
                 ensureCsrfToken_await
                   (if cf_forwardingMethod (cr_form (ro_create s)) = CreateHaproxy
                    then create_haproxy s r n p else create_socat s r n p)
                   create_caught
                   (create_started s))
      | _ \<Rightarrow> finished (create_error (uni ''%u8BF7%u5148%u9009%u62E9%u4E2D%u8F6C%u670D%u52A1%u5668%u3001%u843D%u5730%u8282%u70B9%uFF0C%u5E76%u586B%u5199%u5408%u6CD5%u7684%u4E2D%u8F6C%u76D1%u542C%u7AEF%u53E3%u3002'') s))"

subsection \<open>The confirmed HAProxy creation\<close>

definition real_create_ended :: "routes_panel act" where
  "real_create_ended s = finished (on_create (\<lambda>x. x\<lparr>cr_haproxyRealExecutionLoading := False\<rparr>) s)"

definition real_create_caught :: "jsstr option \<Rightarrow> routes_panel act" where
  "real_create_caught e s = real_create_ended (create_failed (error_text e (uni ''HAProxy TCP %u771F%u5B9E%u521B%u5EFA%u5931%u8D25%u3002'')) s)"

definition real_create_started :: "routes_panel \<Rightarrow> routes_panel" where
  "real_create_started s =
     say (uni ''%u6B63%u5728%u521B%u5EFA HAProxy TCP %u771F%u5B9E%u521B%u5EFA Worker command%u3002'')
       (on_create (\<lambda>x. x\<lparr>cr_haproxyRealExecutionLoading := True, cr_error := [],
                         cr_step := StepCommandCreate\<rparr>) s)"

definition real_create_answered ::
  "routes_panel \<Rightarrow> jsstr \<Rightarrow> real_execution_result \<Rightarrow> routes_panel act" where
  "real_create_answered c csrfToken d =
     (case xr_command d of
        None \<Rightarrow> real_create_caught
          (Some (or_str (xr_summary d) (uni ''HAProxy TCP %u771F%u5B9E%u521B%u5EFA%u547D%u4EE4%u672A%u8FD4%u56DE%uFF0C%u8BF7%u5237%u65B0%u4EFB%u52A1%u4E2D%u5FC3%u68C0%u67E5%u3002'')))
      | Some cmd \<Rightarrow>
          (\<lambda>s. wait_success (wc_id cmd) StepCommandRunning (uni ''HAProxy TCP %u771F%u5B9E%u521B%u5EFA%u547D%u4EE4%u6267%u884C%u5931%u8D25%u3002'')
             (refresh_and_export c csrfToken (js ''haproxy_transit_route_create_success'')
                (uni ''HAProxy TCP %u521B%u5EFA%u547D%u4EE4%u5DF2%u6210%u529F%uFF0C%u4F46%u5217%u8868%u5237%u65B0%u540E%u672A%u627E%u5230 active %u94FE%u8DEF%u3002%u8BF7%u5237%u65B0%u9875%u9762%u786E%u8BA4%u3002'')
                (uni ''HAProxy TCP %u4E2D%u8F6C%u94FE%u8DEF%u521B%u5EFA%u5B8C%u6210%u3002%u53EF%u4EE5%u590D%u5236%u5BA2%u6237%u7AEF%u94FE%u63A5%u6216%u4E34%u65F6%u663E%u793A%u4E8C%u7EF4%u7801%u3002'')
                real_create_ended real_create_caught)
             real_create_caught
             (set_command_shown cmd (on_create (\<lambda>x. x\<lparr>cr_haproxyRealExecution := Some d\<rparr>) s))))"

definition confirmHaproxyRealCreateFromModal :: "routes_panel act" where
  "confirmHaproxyRealCreateFromModal s =
     (case cr_haproxyContext (ro_create s) of
        None \<Rightarrow>
          finished (on_create (\<lambda>x. x\<lparr>cr_step := StepFailed,
            cr_error := (uni ''%u7F3A%u5C11%u5DF2%u901A%u8FC7%u7684 HAProxy TCP dry-run / final approval%uFF0C%u4E0D%u80FD%u53D1%u8D77%u771F%u5B9E%u521B%u5EFA%u3002'')\<rparr>) s)
      | Some x \<Rightarrow>
          ensureCsrfToken_await
            (\<lambda>csrfToken.
               fetch (createTransitHaproxyRouteRealExecution
                   (json_real_execution_request (real_create_request x)) csrfToken) as_real
                 (or_throw real_create_caught (real_create_answered s csrfToken))
                 real_create_caught)
            real_create_caught
            (real_create_started s))"

subsection \<open>The created link\<close>

definition copyCreatedLink :: "browser \<Rightarrow> candidate_export \<Rightarrow> routes_panel act" where
  "copyCreatedLink b d =
     copyText_await (br_clipboard b) (ce_candidate_link d)
       (\<lambda>s. finished (say (uni ''%u4E2D%u8F6C%u5BA2%u6237%u7AEF%u94FE%u63A5%u5DF2%u590D%u5236%u3002%u8BF7%u59A5%u5584%u4FDD%u5B58%uFF0C%u4EC5%u81EA%u5DF1%u4F7F%u7528%u3002'')
          (on_create (\<lambda>x. x\<lparr>cr_copyFallbackRequired := False\<rparr>) s)))
       (\<lambda>e s. finished (say (uni ''%u5F53%u524D HTTP %u73AF%u5883%u4E0D%u652F%u6301%u81EA%u52A8%u590D%u5236%uFF0C%u8BF7%u4F7F%u7528%u4E0B%u65B9%u6587%u672C%u6846%u624B%u52A8%u590D%u5236%u3002'')
          (on_create (\<lambda>x. x\<lparr>cr_copyFallbackRequired := True\<rparr>) s)))"

definition show_qr :: "routes_panel \<Rightarrow> routes_panel" where
  "show_qr = on_create (\<lambda>x. x\<lparr>cr_qrVisible := True\<rparr>)"

text \<open>The code is on the page (its frame has an \<^verbatim>\<open>svg\<close>) under these conditions.\<close>

definition created_link_shown :: "routes_panel \<Rightarrow> bool" where
  "created_link_shown s \<longleftrightarrow>
     cr_modalOpen (ro_create s) \<and> cr_step (ro_create s) \<noteq> StepIdle
     \<and> cr_createdRoute (ro_create s) \<noteq> None \<and> cr_export (ro_create s) \<noteq> None"

definition qr_on_page :: "routes_panel \<Rightarrow> bool" where
  "qr_on_page s \<longleftrightarrow> created_link_shown s \<and> cr_qrVisible (ro_create s)"

definition qr_file_name :: "candidate_export \<Rightarrow> jsstr" where
  "qr_file_name d = or_str (ce_route_name d) (js ''liveline-transit'') @ (js ''-qr.svg'')"

definition downloadCreateTransitQrCode :: "routes_panel \<Rightarrow> jsstr option \<times> routes_panel" where
  "downloadCreateTransitQrCode s =
     (case (qr_on_page s, cr_export (ro_create s)) of
        (True, Some d) \<Rightarrow> (Some (qr_file_name d), say (uni ''%u4E2D%u8F6C%u6D4B%u8BD5%u4E8C%u7EF4%u7801%u5DF2%u4E0B%u8F7D%u3002%u8BF7%u59A5%u5584%u4FDD%u5B58%uFF0C%u4E0D%u8981%u516C%u5F00%u5206%u4EAB%u3002'') s)
      | _ \<Rightarrow> (None, say (uni ''%u8BF7%u5148%u663E%u793A%u4E8C%u7EF4%u7801%u3002'') s))"

end
