(* ===== verification/LandingHelpers.thy ===== *)
theory LandingHelpers
  imports TransitRouteCreate
begin

text \<open>
  The types, constants and helper functions at the head of \<^verbatim>\<open>ServerManagementPanel.tsx\<close>. The
  helpers it has in common with \<^verbatim>\<open>TransitRoutesPanel.tsx\<close>, where the text of the functions
  is the same (deletion modes, interface names, times), are those of \<open>TransitHelpers\<close>.
\<close>

subsection \<open>Types\<close>

datatype landing_modal =
    AddServerModal | EditServerModal | DeleteServerModal | DeleteNodeModal | NodePlanModal | WorkerCommandModal

record server_form =
  sf_name :: jsstr
  sf_ip :: jsstr
  sf_sshPort :: jsstr
  sf_sshUser :: jsstr
  sf_notes :: jsstr

record node_plan_form =
  nf_nodeName :: jsstr
  nf_listenPort :: jsstr
  nf_protocol :: jsstr
  nf_security :: jsstr
  nf_flow :: jsstr
  nf_serverName :: jsstr
  nf_dest :: jsstr
  nf_fingerprint :: jsstr
  nf_remark :: jsstr
  nf_allowInstallXray :: bool
  nf_allowModifyFirewall :: bool
  nf_allowGenerateShareLink :: bool
  nf_allowOverwriteExistingConfig :: bool
  nf_cloudSecurityGroupConfirmed :: bool
  nf_cloudFirewallConfirmed :: bool
  nf_serverFirewallConfirmed :: bool
  nf_requirePreflightSuccess :: bool
  nf_protectedCreateConfirmed :: bool

record bootstrap_form =
  bf_name :: jsstr
  bf_ip :: jsstr
  bf_interfaceName :: jsstr
  bf_expiresInMinutes :: jsstr

datatype node_create_step =
    NodeIdle | NodePreflightCreate | NodePreflightRunning | NodePlanStep | NodeCommandCreate
  | NodeCommandRunning | NodeRefresh | NodeComplete | NodeFailed

subsection \<open>Constants\<close>

definition BBR_REAL_EXECUTION_CONFIRM_TEXT :: jsstr where
  "BBR_REAL_EXECUTION_CONFIRM_TEXT = (js ''CONFIRM_ENABLE_BBR_ON_LANDING_VPS'')"

definition DEFAULT_LANDING_LISTEN_PORT :: int where "DEFAULT_LANDING_LISTEN_PORT = 27939"
definition LANDING_LISTEN_PORT_MIN :: int where "LANDING_LISTEN_PORT_MIN = 10000"
definition LANDING_LISTEN_PORT_MAX :: int where "LANDING_LISTEN_PORT_MAX = 30000"
definition DEFAULT_REALITY_SNI :: jsstr where "DEFAULT_REALITY_SNI = (js ''dash.cloudflare.com'')"
definition DEFAULT_REALITY_DEST :: jsstr where "DEFAULT_REALITY_DEST = (js ''dash.cloudflare.com:443'')"
definition DEFAULT_REALITY_FINGERPRINT :: jsstr where "DEFAULT_REALITY_FINGERPRINT = (js ''chrome'')"

definition BLOCKED_NODE_LISTEN_PORTS :: "int list" where
  "BLOCKED_NODE_LISTEN_PORTS =
     [22, 80, 443, 8080, 8443, 18443, 3000, 3200, 8000, 8200, 5432, 6379, 15432, 16379, 10000, 27017]"

definition emptyServerForm :: server_form where
  "emptyServerForm =
     \<lparr>sf_name = [], sf_ip = [], sf_sshPort = (js ''22''), sf_sshUser = (js ''root''), sf_notes = []\<rparr>"

definition default_node_name :: "jsstr \<Rightarrow> jsstr" where
  "default_node_name port = (js ''liveline-reality-'') @ port"

definition createEmptyNodePlanForm :: node_plan_form where
  "createEmptyNodePlanForm =
     \<lparr>nf_nodeName = default_node_name (string_of_int DEFAULT_LANDING_LISTEN_PORT),
      nf_listenPort = string_of_int DEFAULT_LANDING_LISTEN_PORT, nf_protocol = (js ''vless''),
      nf_security = (js ''reality''), nf_flow = (js ''xtls-rprx-vision''), nf_serverName = DEFAULT_REALITY_SNI,
      nf_dest = DEFAULT_REALITY_DEST, nf_fingerprint = DEFAULT_REALITY_FINGERPRINT, nf_remark = [],
      nf_allowInstallXray = True, nf_allowModifyFirewall = False, nf_allowGenerateShareLink = True,
      nf_allowOverwriteExistingConfig = False, nf_cloudSecurityGroupConfirmed = True,
      nf_cloudFirewallConfirmed = True, nf_serverFirewallConfirmed = True,
      nf_requirePreflightSuccess = True, nf_protectedCreateConfirmed = False\<rparr>"

fun NODE_CREATE_PROGRESS_LABELS :: "node_create_step \<Rightarrow> jsstr" where
  "NODE_CREATE_PROGRESS_LABELS NodeIdle = (uni ''%u51C6%u5907%u4E2D'')"
| "NODE_CREATE_PROGRESS_LABELS NodePreflightCreate = (uni ''%u521B%u5EFA%u53EA%u8BFB%u9884%u68C0'')"
| "NODE_CREATE_PROGRESS_LABELS NodePreflightRunning = (uni ''%u9884%u68C0%u4E2D'')"
| "NODE_CREATE_PROGRESS_LABELS NodePlanStep = (uni ''%u751F%u6210%u521B%u5EFA%u8BA1%u5212'')"
| "NODE_CREATE_PROGRESS_LABELS NodeCommandCreate = (uni ''%u521B%u5EFA Reality %u8282%u70B9%u547D%u4EE4'')"
| "NODE_CREATE_PROGRESS_LABELS NodeCommandRunning = (uni ''%u5B89%u88C5 Xray / %u5199%u5165%u914D%u7F6E / %u542F%u52A8%u670D%u52A1 / %u68C0%u67E5%u7AEF%u53E3'')"
| "NODE_CREATE_PROGRESS_LABELS NodeRefresh = (uni ''%u5237%u65B0%u8282%u70B9%u6458%u8981'')"
| "NODE_CREATE_PROGRESS_LABELS NodeComplete = (uni ''%u5B8C%u6210'')"
| "NODE_CREATE_PROGRESS_LABELS NodeFailed = (uni ''%u5931%u8D25'')"

definition NODE_CREATE_TERMINAL_STATUSES :: "jsstr list" where
  "NODE_CREATE_TERMINAL_STATUSES = [(js ''succeeded''), (js ''failed''), (js ''expired''), (js ''cancelled'')]"

definition CLEANUP_COMMAND_TERMINAL_STATUSES :: "jsstr list" where
  "CLEANUP_COMMAND_TERMINAL_STATUSES = [(js ''succeeded''), (js ''failed''), (js ''cancelled''), (js ''timeout''), (js ''expired'')]"

definition CLEANUP_COMMAND_POLL_INTERVAL_MS :: nat where "CLEANUP_COMMAND_POLL_INTERVAL_MS = 2000"
definition CLEANUP_COMMAND_MAX_POLLS :: nat where "CLEANUP_COMMAND_MAX_POLLS = 30"
definition WORKER_INSTALL_POLL_INTERVAL_MS :: nat where "WORKER_INSTALL_POLL_INTERVAL_MS = 3000"
definition WORKER_INSTALL_MAX_POLLS :: nat where "WORKER_INSTALL_MAX_POLLS = 60"

definition BBR_RECOMMENDATION_LABELS :: "(jsstr \<times> jsstr) list" where
  "BBR_RECOMMENDATION_LABELS =
     [((js ''already_enabled''), (uni ''%u5DF2%u5F00%u542F'')),
      ((js ''can_enable_with_approval''), (uni ''%u53EF%u5BA1%u6279%u5F00%u542F'')),
      ((js ''module_available_needs_load_approval''), (uni ''%u6A21%u5757%u5B58%u5728%uFF0C%u9700%u5BA1%u6279%u52A0%u8F7D'')),
      ((js ''latest_landing_preflight_required''), (uni ''%u9700%u8981%u5148%u5B8C%u6210%u53EA%u8BFB%u9884%u68C0'')),
      ((js ''bbr_readonly_result_required''), (uni ''%u9700%u8981%u6700%u65B0 BBR %u53EA%u8BFB%u7ED3%u679C'')),
      ((js ''bbr_not_available''), (uni ''%u672A%u786E%u8BA4%u652F%u6301'')),
      ((js ''not_available_or_needs_manual_check''), (uni ''%u672A%u786E%u8BA4%u652F%u6301'')),
      ((js ''sysctl_config_file_missing''), (uni ''BBR %u56FA%u5B9A%u914D%u7F6E%u6587%u4EF6%u4E0D%u5B58%u5728%uFF0C%u8BF7%u91CD%u65B0%u5B89%u88C5/%u5347%u7EA7 Worker'')),
      ((js ''sysctl_config_file_not_writable''), (uni ''BBR %u56FA%u5B9A%u914D%u7F6E%u6587%u4EF6%u4E0D%u53EF%u5199%uFF0C%u8BF7%u91CD%u65B0%u5B89%u88C5/%u5347%u7EA7 Worker'')),
      ((js ''sysctl_d_directory_missing''), (uni ''sysctl.d %u76EE%u5F55%u4E0D%u5B58%u5728''))]"

definition BBR_CONFIRMATION_LABELS :: "(jsstr \<times> jsstr) list" where
  "BBR_CONFIRMATION_LABELS =
     [((js ''confirm_load_tcp_bbr_module''), (uni ''%u786E%u8BA4%u5141%u8BB8%u540E%u7EED%u5BA1%u6279%u9636%u6BB5%u52A0%u8F7D tcp_bbr %u6A21%u5757'')),
      ((js ''confirm_write_sysctl_config''), (uni ''%u786E%u8BA4%u5141%u8BB8%u540E%u7EED%u5BA1%u6279%u9636%u6BB5%u5199%u5165 sysctl %u914D%u7F6E'')),
      ((js ''confirm_reload_sysctl''), (uni ''%u786E%u8BA4%u5141%u8BB8%u540E%u7EED%u5BA1%u6279%u9636%u6BB5%u91CD%u65B0%u52A0%u8F7D sysctl'')),
      ((js ''confirm_no_network_restart_expected''), (uni ''%u786E%u8BA4%u9884%u671F%u4E0D%u91CD%u542F%u7F51%u7EDC%u670D%u52A1'')),
      ((js ''confirm_rollback_plan_understood''), (uni ''%u786E%u8BA4%u5DF2%u7406%u89E3%u56DE%u6EDA%u65B9%u6848''))]"

definition BBR_ACTION_LABELS :: "(jsstr \<times> jsstr) list" where
  "BBR_ACTION_LABELS =
     [((js ''load_tcp_bbr_module''), (uni ''%u52A0%u8F7D tcp_bbr %u6A21%u5757'')),
      ((js ''persist_default_qdisc_fq''), (uni ''%u6301%u4E45%u5316%u9ED8%u8BA4%u961F%u5217 fq'')),
      ((js ''persist_congestion_control_bbr''), (uni ''%u6301%u4E45%u5316%u62E5%u585E%u63A7%u5236 bbr'')),
      ((js ''reload_sysctl''), (uni ''%u91CD%u65B0%u52A0%u8F7D sysctl'')),
      ((js ''verify_available_congestion_control''), (uni ''%u9A8C%u8BC1 bbr %u51FA%u73B0%u5728%u53EF%u7528%u62E5%u585E%u63A7%u5236%u5217%u8868'')),
      ((js ''verify_current_congestion_control''), (uni ''%u9A8C%u8BC1%u5F53%u524D%u62E5%u585E%u63A7%u5236%u53D8%u4E3A bbr''))]"

definition BBR_SAFETY_LABELS :: "(jsstr \<times> jsstr) list" where
  "BBR_SAFETY_LABELS =
     [((js ''readonly plan only''), (uni ''%u4EC5%u751F%u6210%u53EA%u8BFB%u65B9%u6848'')),
      ((js ''no worker command created''), (uni ''%u4E0D%u521B%u5EFA Worker command'')),
      ((js ''no remote execution''), (uni ''%u4E0D%u8FDC%u7A0B%u6267%u884C'')),
      ((js ''no modprobe''), (uni ''%u4E0D%u6267%u884C modprobe'')),
      ((js ''no sysctl write''), (uni ''%u4E0D%u5199 sysctl'')),
      ((js ''no sysctl reload''), (uni ''%u4E0D%u91CD%u65B0%u52A0%u8F7D sysctl'')),
      ((js ''no service restart''), (uni ''%u4E0D%u91CD%u542F%u670D%u52A1'')),
      ((js ''no port/share_link/cutover changes''), (uni ''%u4E0D%u4FEE%u6539%u7AEF%u53E3%u3001share_link %u6216 cutover''))]"

definition BBR_DRY_RUN_CHECK_LABELS :: "(jsstr \<times> jsstr) list" where
  "BBR_DRY_RUN_CHECK_LABELS =
     [((js ''modprobe_preview''), (js ''modprobe dry-run'')),
      ((js ''sysctl_d_exists''), (uni ''sysctl.d %u76EE%u5F55%u5B58%u5728'')),
      ((js ''sysctl_config_file_exists''), (uni ''BBR %u56FA%u5B9A%u914D%u7F6E%u6587%u4EF6%u5B58%u5728'')),
      ((js ''sysctl_config_file_writable''), (uni ''BBR %u56FA%u5B9A%u914D%u7F6E%u6587%u4EF6%u53EF%u5199'')),
      ((js ''running_as_root''), (uni ''Worker %u4EE5 root %u8FD0%u884C''))]"

definition emptyWorkerBootstrapForm :: bootstrap_form where
  "emptyWorkerBootstrapForm =
     \<lparr>bf_name = [], bf_ip = [], bf_interfaceName = (js ''eth0''), bf_expiresInMinutes = (js ''60'')\<rparr>"

subsection \<open>Labels\<close>

text \<open>\<^verbatim>\<open>LABELS[value] ?? value\<close>\<close>

definition label_in :: "(jsstr \<times> jsstr) list \<Rightarrow> jsstr \<Rightarrow> jsstr" where
  "label_in labels v = nullish (map_of labels v) v"

definition bbrRecommendationLabel :: "jsstr \<Rightarrow> jsstr" where
  "bbrRecommendationLabel v = label_in BBR_RECOMMENDATION_LABELS v"

definition bbrActionLabel :: "jsstr \<Rightarrow> jsstr" where
  "bbrActionLabel v = label_in BBR_ACTION_LABELS v"

definition bbrConfirmationLabel :: "jsstr \<Rightarrow> jsstr" where
  "bbrConfirmationLabel v = label_in BBR_CONFIRMATION_LABELS v"

definition bbrSafetyLabel :: "jsstr \<Rightarrow> jsstr" where
  "bbrSafetyLabel v = label_in BBR_SAFETY_LABELS v"

definition bbrDryRunCheckLabel :: "jsstr \<Rightarrow> jsstr" where
  "bbrDryRunCheckLabel v = label_in BBR_DRY_RUN_CHECK_LABELS v"

definition sshStatusLabel :: "jsstr \<Rightarrow> jsstr" where
  "sshStatusLabel status =
     label_in [((js ''online''), (uni ''%u5728%u7EBF'')), ((js ''offline''), (uni ''%u79BB%u7EBF'')), ((js ''unchecked''), (uni ''%u672A%u68C0%u6D4B''))] status"

definition displayStatusLabel_landing :: "jsstr \<Rightarrow> jsstr" where
  "displayStatusLabel_landing status =
     nullish (map_of [((js ''pending_worker''), (uni ''%u5F85%u63A5%u5165'')), ((js ''online''), (uni ''%u5728%u7EBF'')), ((js ''stale''), (uni ''%u5FC3%u8DF3%u8FC7%u671F / %u79BB%u7EBF'')),
        ((js ''offline''), (uni ''%u79BB%u7EBF'')), ((js ''unchecked''), (uni ''%u672A%u68C0%u6D4B'')), ((js ''disabled''), (uni ''%u5DF2%u505C%u7528'')), ((js ''deleted''), (uni ''%u5DF2%u5220%u9664''))] status)
       (sshStatusLabel status)"

definition statusClass_landing :: "jsstr \<Rightarrow> jsstr" where
  "statusClass_landing status =
     (if status = (js ''online'') \<or> status = (js ''active'') \<or> status = (js ''success'') \<or> status = (js ''worker_online'') then (js ''ok'')
      else if status = (js ''offline'') \<or> status = (js ''stale'') \<or> status = (js ''deleted'') \<or> status = (js ''failed'')
              \<or> status = (js ''worker_offline'') then (js ''bad'')
      else if status = (js ''unchecked'') \<or> status = (js ''pending'') \<or> status = (js ''pending_worker'') then (js ''warn'')
      else if status = (js ''not_checked'') then (js ''warn'')
      else (js ''muted''))"

definition isVpsServerWorkerOnline :: "vps_server \<Rightarrow> bool" where
  "isVpsServerWorkerOnline server \<longleftrightarrow>
     (let displayStatus = sv_display_status server;
          workerDisplayStatus = nullish (sv_worker_display_status server) []
      in sv_worker_online server
         \<or> sv_worker_heartbeat_status server = Some (js ''online'')
         \<or> displayStatus = (js ''online'')
         \<or> displayStatus = (js ''worker_online'')
         \<or> displayStatus = (js ''active'')
         \<or> workerDisplayStatus = (js ''online'')
         \<or> workerDisplayStatus = (js ''worker_online'')
         \<or> (\<not> blank (sv_worker_id server) \<and> \<not> blank (sv_worker_last_heartbeat_at server)
            \<and> \<not> sv_worker_is_heartbeat_stale server))"

definition nodeStatusLabel :: "jsstr option \<Rightarrow> jsstr" where
  "nodeStatusLabel status =
     label_or [((js ''active''), (uni ''%u5DF2%u542F%u7528'')), ((js ''disabled''), (uni ''%u5DF2%u505C%u7528'')), ((js ''deleted''), (uni ''%u5DF2%u5220%u9664'')), ((js ''pending''), (uni ''%u7B49%u5F85%u4E2D'')),
       ((js ''running''), (uni ''%u6267%u884C%u4E2D'')), ((js ''success''), (uni ''%u6210%u529F'')), ((js ''completed''), (uni ''%u6210%u529F'')), ((js ''failed''), (uni ''%u5931%u8D25'')),
       ((js ''not_checked''), (uni ''%u672A%u68C0%u6D4B'')), ((js ''cancelled''), (uni ''%u5DF2%u53D6%u6D88'')), ((js ''timeout''), (uni ''%u8D85%u65F6'')), ((js ''unknown''), (uni ''%u672A%u77E5''))] status (js ''-'')"

text \<open>\<^verbatim>\<open>toLocaleString\<close> depends on the engine.\<close>

definition formatTime_landing :: "(jsstr \<Rightarrow> jsstr) \<Rightarrow> jsstr option \<Rightarrow> jsstr" where
  "formatTime_landing to_locale v = (if blank v then (uni ''%u6682%u65E0'') else to_locale (the v))"

definition workerCommandTypeLabel :: "jsstr \<Rightarrow> jsstr" where
  "workerCommandTypeLabel commandType =
     label_in [((js ''ping''), (js ''Ping'')), ((js ''collect_status''), (uni ''%u72B6%u6001%u91C7%u96C6'')), ((js ''service_status''), (uni ''%u670D%u52A1%u72B6%u6001'')),
       ((js ''landing_preflight''), (uni ''%u53EA%u8BFB%u9884%u68C0'')), ((js ''bbr_enable_dry_run''), (uni ''BBR %u5F00%u542F dry-run'')),
       ((js ''bbr_enable_real_execution''), (uni ''BBR %u53D7%u4FDD%u62A4%u5F00%u542F'')), ((js ''landing_node_create''), (uni ''%u6B63%u5F0F%u521B%u5EFA%u843D%u5730%u8282%u70B9''))] commandType"

definition workerCommandStatusLabel_landing :: "jsstr \<Rightarrow> jsstr" where
  "workerCommandStatusLabel_landing status =
     label_in [((js ''pending''), (uni ''%u7B49%u5F85%u4E2D'')), ((js ''claimed''), (uni ''%u5DF2%u9886%u53D6'')), ((js ''running''), (uni ''%u6267%u884C%u4E2D'')), ((js ''succeeded''), (uni ''%u6210%u529F'')),
       ((js ''failed''), (uni ''%u5931%u8D25'')), ((js ''expired''), (uni ''%u5DF2%u8FC7%u671F'')), ((js ''cancelled''), (uni ''%u5DF2%u53D6%u6D88'')), ((js ''timeout''), (uni ''%u8D85%u65F6''))] status"

definition maskShareLink :: "jsstr \<Rightarrow> jsstr" where
  "maskShareLink shareLink =
     (if length shareLink \<le> 40 then take 12 shareLink @ (js ''...'')
      else take 24 shareLink @ (js ''...'') @ drop (length shareLink - 12) shareLink)"

definition nodeEntryLabel :: "server_node \<Rightarrow> jsstr \<Rightarrow> jsstr" where
  "nodeEntryLabel node serverIp =
     (let host = or_str (nullish (sn_ip node) []) (or_str (nullish (sn_address node) []) serverIp)
      in case sn_port node of
           None \<Rightarrow> host
         | Some p \<Rightarrow> if p = 0 then host else host @ (js '':'') @ string_of_int p)"

text \<open>The argument stands for \<^verbatim>\<open>node.protocol\<close>, which both node types have.\<close>

definition nodeProtocolSummary :: "jsstr \<Rightarrow> jsstr" where
  "nodeProtocolSummary protocol =
     (if protocol = (js ''vless'') then (js ''VLESS Reality'')
      else if protocol \<noteq> [] then to_upper protocol else (js ''-''))"

text \<open>The arguments stand for the two fields read, which both node types have.\<close>

definition nodeServiceStatusLabel :: "jsstr option \<Rightarrow> jsstr option \<Rightarrow> jsstr" where
  "nodeServiceStatusLabel service_status service_display_label =
     (let status = nullish service_status []
      in if status = (js ''active'') \<or> status = (js ''running'') then (uni ''%u670D%u52A1%u5DF2%u542F%u52A8'')
         else if status = (js ''inactive'') \<or> status = (js ''stopped'') \<or> status = (js ''not_started'') then (uni ''%u672A%u542F%u52A8'')
         else if status = (js ''failed'') \<or> status = (js ''error'') then (uni ''%u5F02%u5E38'')
         else nullish service_display_label
                (if status \<noteq> [] then nodeStatusLabel (Some status) else (uni ''%u672A%u8FD4%u56DE'')))"

text \<open>A node summary always has \<^verbatim>\<open>share_link_present\<close>; a full node may lack both fields.\<close>

definition nodeClientConfigLabel :: "bool option \<Rightarrow> bool option \<Rightarrow> jsstr" where
  "nodeClientConfigLabel share_link_present has_share_link =
     (if nullish share_link_present (has_share_link = Some True) then (uni ''%u5DF2%u751F%u6210'') else (uni ''%u672A%u751F%u6210''))"

subsection \<open>Values of unknown type\<close>

fun stringValue_landing :: "jsval \<Rightarrow> jsstr" where
  "stringValue_landing (JStr s) = (if trim s \<noteq> [] then s else (uni ''%u672A%u8FD4%u56DE''))"
| "stringValue_landing v = (uni ''%u672A%u8FD4%u56DE'')"

fun numericValue :: "jsval \<Rightarrow> jsstr" where
  "numericValue (JNum n) = string_of_int n"
| "numericValue v = (js ''0'')"

text \<open>
  \<^verbatim>\<open>v && typeof v === "object" ? v : {}\<close>. An array counts as an object that has none of the
  keys that are read.
\<close>

fun object_or_empty :: "jsval \<Rightarrow> jsval" where
  "object_or_empty (JObj kvs) = JObj kvs"
| "object_or_empty (JArr xs) = JArr xs"
| "object_or_empty v = JObj []"

fun is_object :: "jsval \<Rightarrow> bool" where
  "is_object (JObj kvs) = True"
| "is_object (JArr xs) = True"
| "is_object v = False"

fun array_items :: "jsval \<Rightarrow> jsval list" where
  "array_items (JArr xs) = xs"
| "array_items v = []"

definition serviceByName :: "jsval \<Rightarrow> jsstr \<Rightarrow> jsval" where
  "serviceByName v name =
     (case find_opt (\<lambda>item. is_object item \<and> field item (js ''name'') = JStr name) (array_items v) of
        None \<Rightarrow> JObj []
      | Some item \<Rightarrow> item)"

subsection \<open>Facts about the helpers\<close>

text \<open>
  A masked share link shows at most its first 24 and last 12 units: for a link
  longer than 40 units, any two links that agree on these have the same mask.
\<close>

theorem mask_hides_the_link:
  assumes "40 < length s" and "40 < length t" and "take 24 s = take 24 t"
    and "drop (length s - 12) s = drop (length t - 12) t"
  shows "maskShareLink s = maskShareLink t \<and> length (maskShareLink s) = 39"
  using assms by (simp add: maskShareLink_def)

text \<open>The ports of the creation form.\<close>

definition landing_port_allowed :: "int \<Rightarrow> bool" where
  "landing_port_allowed p \<longleftrightarrow>
     LANDING_LISTEN_PORT_MIN \<le> p \<and> p \<le> LANDING_LISTEN_PORT_MAX \<and> p \<notin> set BLOCKED_NODE_LISTEN_PORTS"

lemma default_landing_port: "landing_port_allowed DEFAULT_LANDING_LISTEN_PORT"
  by (simp add: landing_port_allowed_def LANDING_LISTEN_PORT_MIN_def LANDING_LISTEN_PORT_MAX_def
      DEFAULT_LANDING_LISTEN_PORT_def BLOCKED_NODE_LISTEN_PORTS_def)

end
