(* ===== verification/LandingServers.thy ===== *)
theory LandingServers
  imports LandingHelpers PendingDelete TransitServers
begin

text \<open>
  \<^verbatim>\<open>ServerManagementPanel\<close> of \<^verbatim>\<open>ServerManagementPanel.tsx\<close>, first part: its state, the
  list of landing servers with their nodes and the ids whose deletion is under way, loading, the
  timers and the polling for a Worker's heartbeat, opening and closing, the installation command,
  and the reading of Worker commands.

  As in \<open>TransitServers\<close>, a handler reads the \<^verbatim>\<open>useState\<close> values when it starts; refs and
  functional updates read the current state. Three fields stand for the browser and the user in front
  of it: \<open>la_willConfirm\<close> is the answer \<^verbatim>\<open>window.confirm\<close> would get now, \<open>la_execCopies\<close> is what
  \<^verbatim>\<open>document.execCommand("copy")\<close> would return now, and \<open>la_pasteboard\<close> is the text it has copied.
\<close>

subsection \<open>State\<close>

record install_state =
  li_form :: bootstrap_form
  li_token :: "worker_token option"
  li_heartbeatMessage :: jsstr
  li_pollTimeout :: "nat option"
  li_pollServerId :: "jsstr option"
  li_pollContext :: "install_context option"
  li_autoCloseTimeout :: "nat option"

record node_create_state =
  ln_form :: node_plan_form
  ln_plan :: "node_plan option"
  ln_formal :: "node_created option"
  ln_step :: node_create_step
  ln_command :: "worker_command_data option"
  ln_created :: "server_node option"
  ln_error :: "jsstr option"

record command_state =
  lc_byWorker :: "jsstr \<rightharpoonup> worker_command_data list"
  lc_latest :: "jsstr \<rightharpoonup> worker_command_data"
  lc_loadingId :: "jsstr option"

record bbr_state =
  lb_plans :: "jsstr \<rightharpoonup> bbr_plan"
  lb_planLoading :: "jsstr option"
  lb_dryRunLoading :: "jsstr option"
  lb_realLoading :: "jsstr option"
  lb_confirmServer :: "vps_server option"
  lb_confirmText :: jsstr
  lb_confirmError :: "jsstr option"

record node_detail_state =
  ld_node :: "node_data option"
  ld_loading :: bool
  ld_showFull :: bool
  ld_showQr :: bool
  ld_exported :: "jsstr option"

record landing_panel =
  la_servers :: "vps_server list"
  la_loading :: bool
  la_message :: jsstr
  la_modalMode :: "landing_modal option"
  la_selectedServer :: "vps_server option"
  la_serverForm :: server_form
  la_deleteMode :: delete_mode
  la_selectedNode :: "server_node option"
  la_submitting :: bool
  la_install :: install_state
  la_create :: node_create_state
  la_commands :: command_state
  la_bbr :: bbr_state
  la_detail :: node_detail_state
  la_pendingServers :: "jsstr set"
  la_pendingNodes :: "jsstr set"
  la_clock :: int
  la_nextTimer :: nat
  la_cleared :: "nat set"
  la_willConfirm :: bool
  la_execCopies :: bool
  la_pasteboard :: "jsstr option"

definition on_install :: "(install_state \<Rightarrow> install_state) \<Rightarrow> landing_panel \<Rightarrow> landing_panel" where
  "on_install f s = s\<lparr>la_install := f (la_install s)\<rparr>"

definition on_node_create :: "(node_create_state \<Rightarrow> node_create_state) \<Rightarrow> landing_panel \<Rightarrow> landing_panel" where
  "on_node_create f s = s\<lparr>la_create := f (la_create s)\<rparr>"

definition on_commands :: "(command_state \<Rightarrow> command_state) \<Rightarrow> landing_panel \<Rightarrow> landing_panel" where
  "on_commands f s = s\<lparr>la_commands := f (la_commands s)\<rparr>"

definition on_bbr :: "(bbr_state \<Rightarrow> bbr_state) \<Rightarrow> landing_panel \<Rightarrow> landing_panel" where
  "on_bbr f s = s\<lparr>la_bbr := f (la_bbr s)\<rparr>"

definition on_detail :: "(node_detail_state \<Rightarrow> node_detail_state) \<Rightarrow> landing_panel \<Rightarrow> landing_panel" where
  "on_detail f s = s\<lparr>la_detail := f (la_detail s)\<rparr>"

definition notify :: "jsstr \<Rightarrow> landing_panel \<Rightarrow> landing_panel" where
  "notify m s = s\<lparr>la_message := m\<rparr>"

definition landing_initial :: landing_panel where
  "landing_initial =
     \<lparr>la_servers = [], la_loading = True,
      la_message = (uni ''%u843D%u5730%u670D%u52A1%u5668%u7BA1%u7406%u53EA%u8BFB%u53D6%u672C%u5730%u7CFB%u7EDF%u8BB0%u5F55%uFF1B%u4E0D%u4F1A%u5728%u9875%u9762%u52A0%u8F7D%u65F6%u6267%u884C SSH%u3002''),
      la_modalMode = None, la_selectedServer = None, la_serverForm = emptyServerForm,
      la_deleteMode = RemoteCleanup, la_selectedNode = None, la_submitting = False,
      la_install = \<lparr>li_form = emptyWorkerBootstrapForm, li_token = None, li_heartbeatMessage = [],
        li_pollTimeout = None, li_pollServerId = None, li_pollContext = None, li_autoCloseTimeout = None\<rparr>,
      la_create = \<lparr>ln_form = createEmptyNodePlanForm, ln_plan = None, ln_formal = None,
        ln_step = NodeIdle, ln_command = None, ln_created = None, ln_error = None\<rparr>,
      la_commands = \<lparr>lc_byWorker = Map.empty, lc_latest = Map.empty, lc_loadingId = None\<rparr>,
      la_bbr = \<lparr>lb_plans = Map.empty, lb_planLoading = None, lb_dryRunLoading = None,
        lb_realLoading = None, lb_confirmServer = None, lb_confirmText = [], lb_confirmError = None\<rparr>,
      la_detail = \<lparr>ld_node = None, ld_loading = False, ld_showFull = False, ld_showQr = False,
        ld_exported = None\<rparr>,
      la_pendingServers = {}, la_pendingNodes = {}, la_clock = 0, la_nextTimer = 0, la_cleared = {},
      la_willConfirm = False, la_execCopies = False, la_pasteboard = None\<rparr>"

subsection \<open>Timers\<close>

definition clear_timer :: "nat option \<Rightarrow> landing_panel \<Rightarrow> landing_panel" where
  "clear_timer i s =
     s\<lparr>la_cleared := (case i of None \<Rightarrow> la_cleared s | Some n \<Rightarrow> insert n (la_cleared s))\<rparr>"

definition clearWorkerInstallPolling_landing :: "landing_panel \<Rightarrow> landing_panel" where
  "clearWorkerInstallPolling_landing s =
     on_install (\<lambda>x. x\<lparr>li_pollTimeout := None, li_pollServerId := None, li_pollContext := None\<rparr>)
       (clear_timer (li_pollTimeout (la_install s)) s)"

definition clearWorkerInstallAutoClose_landing :: "landing_panel \<Rightarrow> landing_panel" where
  "clearWorkerInstallAutoClose_landing s =
     on_install (\<lambda>x. x\<lparr>li_autoCloseTimeout := None\<rparr>)
       (clear_timer (li_autoCloseTimeout (la_install s)) s)"

definition timer_alive :: "nat \<Rightarrow> landing_panel \<Rightarrow> bool" where
  "timer_alive i s \<longleftrightarrow> i \<notin> la_cleared s"

subsection \<open>Pending deletions and the visible list\<close>

definition server_deleted :: "vps_server \<Rightarrow> bool" where
  "server_deleted sv \<longleftrightarrow> to_lower (sv_status sv) = (js ''deleted'')"

definition node_deleted :: "server_node \<Rightarrow> bool" where
  "node_deleted n \<longleftrightarrow> to_lower (sn_status n) = (js ''deleted'')"

definition visible_nodes :: "jsstr set \<Rightarrow> vps_server \<Rightarrow> vps_server" where
  "visible_nodes pendingNodeIds sv =
     sv\<lparr>sv_nodes := List.filter (\<lambda>n. sn_id n \<notin> pendingNodeIds \<and> \<not> node_deleted n) (sv_nodes sv)\<rparr>"

definition filterVisibleServers :: "landing_panel \<Rightarrow> vps_server list \<Rightarrow> vps_server list" where
  "filterVisibleServers s nextServers =
     map (visible_nodes (la_pendingNodes s))
       (List.filter (\<lambda>sv. sv_id sv \<notin> la_pendingServers s \<and> \<not> server_deleted sv) nextServers)"

definition setVisibleServers :: "vps_server list \<Rightarrow> landing_panel \<Rightarrow> landing_panel" where
  "setVisibleServers nextServers s = s\<lparr>la_servers := filterVisibleServers s nextServers\<rparr>"

definition markServerPendingDelete :: "jsstr \<Rightarrow> landing_panel \<Rightarrow> landing_panel" where
  "markServerPendingDelete serverId s =
     (let s1 = s\<lparr>la_pendingServers := insert serverId (la_pendingServers s)\<rparr>;
          s2 = (if li_pollServerId (la_install s1) = Some serverId
                then clearWorkerInstallPolling_landing s1 else s1)
      in s2\<lparr>la_servers := filterVisibleServers s2 (la_servers s2)\<rparr>)"

definition releaseServerPendingDelete :: "jsstr \<Rightarrow> landing_panel \<Rightarrow> landing_panel" where
  "releaseServerPendingDelete serverId s =
     s\<lparr>la_pendingServers := la_pendingServers s - {serverId}\<rparr>"

definition markNodePendingDelete :: "jsstr \<Rightarrow> landing_panel \<Rightarrow> landing_panel" where
  "markNodePendingDelete nodeId s =
     (let s1 = s\<lparr>la_pendingNodes := insert nodeId (la_pendingNodes s)\<rparr>
      in s1\<lparr>la_servers := filterVisibleServers s1 (la_servers s1)\<rparr>)"

definition releaseNodePendingDelete :: "jsstr \<Rightarrow> landing_panel \<Rightarrow> landing_panel" where
  "releaseNodePendingDelete nodeId s = s\<lparr>la_pendingNodes := la_pendingNodes s - {nodeId}\<rparr>"

subsection \<open>Loading\<close>

definition store_latest :: "jsstr \<Rightarrow> worker_command_data \<Rightarrow> landing_panel \<Rightarrow> landing_panel" where
  "store_latest serverId c = on_commands (\<lambda>x. x\<lparr>lc_latest := (lc_latest x)(serverId \<mapsto> c)\<rparr>)"

definition store_list :: "jsstr \<Rightarrow> worker_command_data list \<Rightarrow> landing_panel \<Rightarrow> landing_panel" where
  "store_list workerId cs = on_commands (\<lambda>x. x\<lparr>lc_byWorker := (lc_byWorker x)(workerId \<mapsto> cs)\<rparr>)"

definition store_first :: "jsstr option \<Rightarrow> worker_command_data list \<Rightarrow> landing_panel \<Rightarrow> landing_panel" where
  "store_first serverId cs =
     (case cs of
        [] \<Rightarrow> id
      | c # rest \<Rightarrow> if blank serverId then id else store_latest (the serverId) c)"

definition loadWorkerCommands_landing ::
  "jsstr \<Rightarrow> jsstr option \<Rightarrow> landing_panel act \<Rightarrow> (jsstr option \<Rightarrow> landing_panel act)
   \<Rightarrow> landing_panel act" where
  "loadWorkerCommands_landing workerId serverId k h =
     fetch (listWorkerCommands workerId) as_commands
       (\<lambda>result. case result of
          ApiFailure c m d \<Rightarrow> (\<lambda>s. k (notify (api_error_text c m) s))
        | ApiSuccess cs m \<Rightarrow> (\<lambda>s. k (store_first serverId cs (store_list workerId cs s))))
       h"

definition load_server_commands :: "vps_server \<Rightarrow> landing_panel each" where
  "load_server_commands sv =
     (Http (listWorkerCommands (the (sv_worker_id sv))),
      \<lambda>r. map_option (\<lambda>x. case x of
            Resolved (ApiSuccess cs m) \<Rightarrow>
              Inr (\<lambda>s. store_first (Some (sv_id sv)) cs (store_list (the (sv_worker_id sv)) cs s))
          | Resolved (ApiFailure c m d) \<Rightarrow> Inr (notify (api_error_text c m))
          | Rejected e \<Rightarrow> Inl e) (as_commands r))"

definition servers_request :: api_request where
  "servers_request = get_request (js ''/api/vps'')"

text \<open>\<open>k\<close> receives the visible servers, or none if the request was refused.\<close>

definition loadServers ::
  "(vps_server list \<Rightarrow> landing_panel act) \<Rightarrow> (jsstr option \<Rightarrow> landing_panel act)
   \<Rightarrow> landing_panel act" where
  "loadServers k h s =
     fetch servers_request as_servers
       (\<lambda>result. case result of
          ApiSuccess svs m \<Rightarrow>
            (\<lambda>s. let visibleServers = filterVisibleServers s svs
                 in each_of (map load_server_commands
                        (List.filter (\<lambda>sv. \<not> blank (sv_worker_id sv)) visibleServers))
                      (\<lambda>s. k visibleServers ((notify (uni ''%u670D%u52A1%u5668%u5217%u8868%u5DF2%u5237%u65B0%u3002'') s)\<lparr>la_loading := False\<rparr>))
                      h
                      (setVisibleServers svs s))
        | ApiFailure c m d \<Rightarrow>
            (\<lambda>s. k [] ((notify (api_error_text c m) s)\<lparr>la_loading := False\<rparr>)))
       h
       (s\<lparr>la_loading := True\<rparr>)"

definition worker_of :: "worker_command_data \<Rightarrow> jsstr" where
  "worker_of c = or_str (wc_target_worker_id c) (wc_worker_id c)"

definition loadWorkerCommands_after ::
  "worker_command_data option \<Rightarrow> jsstr option \<Rightarrow> landing_panel act
   \<Rightarrow> (jsstr option \<Rightarrow> landing_panel act) \<Rightarrow> landing_panel act" where
  "loadWorkerCommands_after command serverId k h =
     (case command of
        None \<Rightarrow> k
      | Some c \<Rightarrow> if worker_of c = [] then k else loadWorkerCommands_landing (worker_of c) serverId k h)"

definition scheduleServerRefresh ::
  "worker_command_data option \<Rightarrow> jsstr option \<Rightarrow> landing_panel act" where
  "scheduleServerRefresh command serverId =
     (let refresh = alongside (loadServers (\<lambda>svs. finished) unhandled)
                      (loadWorkerCommands_after command serverId finished unhandled)
      in alongside (sleep 1500 refresh) (sleep 4000 refresh))"

subsection \<open>Opening and closing\<close>

definition reset_node_create :: "node_create_state \<Rightarrow> node_create_state" where
  "reset_node_create x =
     x\<lparr>ln_form := createEmptyNodePlanForm, ln_plan := None, ln_formal := None, ln_step := NodeIdle,
       ln_command := None, ln_created := None, ln_error := None\<rparr>"

definition closeModal_landing :: "landing_panel \<Rightarrow> landing_panel" where
  "closeModal_landing s =
     on_install (\<lambda>x. x\<lparr>li_form := emptyWorkerBootstrapForm, li_token := None, li_heartbeatMessage := []\<rparr>)
       (on_node_create reset_node_create
         ((clearWorkerInstallAutoClose_landing s)
           \<lparr>la_modalMode := None, la_selectedServer := None, la_serverForm := emptyServerForm,
            la_deleteMode := RemoteCleanup, la_selectedNode := None\<rparr>))"

definition closeNodeDetail :: "landing_panel \<Rightarrow> landing_panel" where
  "closeNodeDetail =
     on_detail (\<lambda>x. x\<lparr>ld_node := None, ld_showFull := False, ld_showQr := False, ld_exported := None\<rparr>)"

definition openAddServer :: "landing_panel \<Rightarrow> landing_panel" where
  "openAddServer s =
     (on_install (\<lambda>x. x\<lparr>li_form := emptyWorkerBootstrapForm, li_token := None, li_heartbeatMessage := []\<rparr>)
       (clearWorkerInstallAutoClose_landing s))
       \<lparr>la_serverForm := emptyServerForm, la_selectedServer := None, la_modalMode := Some AddServerModal\<rparr>"

definition openWorkerCommand :: "vps_server \<Rightarrow> landing_panel \<Rightarrow> landing_panel" where
  "openWorkerCommand sv s =
     (on_install (\<lambda>x. x\<lparr>li_form := \<lparr>bf_name = or_str (sv_name sv) (sv_ip sv), bf_ip = sv_ip sv,
          bf_interfaceName = defaultWorkerInterfaceName (sv_worker_interface_name sv),
          bf_expiresInMinutes = (js ''60'')\<rparr>, li_token := None, li_heartbeatMessage := []\<rparr>)
       (clearWorkerInstallAutoClose_landing s))
       \<lparr>la_selectedServer := Some sv, la_modalMode := Some WorkerCommandModal\<rparr>"

definition openEdit_landing :: "vps_server \<Rightarrow> landing_panel \<Rightarrow> landing_panel" where
  "openEdit_landing sv s =
     s\<lparr>la_selectedServer := Some sv,
       la_serverForm := emptyServerForm\<lparr>sf_name := sv_name sv, sf_ip := sv_ip sv,
         sf_sshPort := string_of_int (sv_ssh_port sv),
         sf_sshUser := or_str (sv_ssh_user sv) (or_str (sv_ssh_username sv) (js ''root'')),
         sf_notes := nullish (sv_notes sv) []\<rparr>,
       la_modalMode := Some EditServerModal\<rparr>"

definition delete_mode_for :: "vps_server \<Rightarrow> delete_mode" where
  "delete_mode_for sv = (if sv_worker_online sv then RemoteCleanup else OfflineLocalRemove)"

definition openDelete_landing :: "vps_server \<Rightarrow> landing_panel \<Rightarrow> landing_panel" where
  "openDelete_landing sv s =
     s\<lparr>la_selectedServer := Some sv, la_deleteMode := delete_mode_for sv,
       la_modalMode := Some DeleteServerModal\<rparr>"

definition openDeleteNode :: "vps_server \<Rightarrow> server_node \<Rightarrow> landing_panel \<Rightarrow> landing_panel" where
  "openDeleteNode sv n s =
     s\<lparr>la_selectedServer := Some sv, la_selectedNode := Some n, la_deleteMode := delete_mode_for sv,
       la_modalMode := Some DeleteNodeModal\<rparr>"

definition openNodePlan :: "vps_server \<Rightarrow> landing_panel \<Rightarrow> landing_panel" where
  "openNodePlan sv s =
     (on_node_create reset_node_create s)
       \<lparr>la_selectedServer := Some sv, la_modalMode := Some NodePlanModal\<rparr>"

definition closeNodeCreateModal :: "bool \<Rightarrow> landing_panel act" where
  "closeNodeCreateModal refreshAfterSuccess s =
     (if refreshAfterSuccess then
        loadServers (\<lambda>svs s. finished (notify (uni ''%u76F4%u8FDE%u8282%u70B9%u521B%u5EFA%u5B8C%u6210%uFF0C%u670D%u52A1%u5668%u548C%u8282%u70B9%u5217%u8868%u5DF2%u5237%u65B0%u3002'') s)) unhandled
          (closeModal_landing s)
      else finished (closeModal_landing s))"

subsection \<open>Waiting for the Worker's heartbeat\<close>

definition scheduleWorkerInstallAutoClose_landing :: "landing_panel act" where
  "scheduleWorkerInstallAutoClose_landing s =
     (let s1 = clearWorkerInstallAutoClose_landing s;
          i = la_nextTimer s1
      in (on_install (\<lambda>x. x\<lparr>li_autoCloseTimeout := Some i\<rparr>) (s1\<lparr>la_nextTimer := Suc i\<rparr>),
          [Timer 1200 (timer_alive i)
             (\<lambda>s. finished (on_install (\<lambda>x. x\<lparr>li_autoCloseTimeout := None\<rparr>) (closeModal_landing s)))]))"

definition workerUpgradeStatusMessage_landing :: "vps_server option \<Rightarrow> install_context \<Rightarrow> jsstr" where
  "workerUpgradeStatusMessage_landing server context =
     (uni ''%u7B49%u5F85 Worker %u5347%u7EA7%u5230%u76EE%u6807%u7248%u672C... %u5F53%u524D%u7248%u672C%uFF1A'')
       @ or_str (nullish (Option.bind server sv_worker_version) []) (uni ''%u672A%u8FD4%u56DE'')
       @ (uni ''%uFF1B%u76EE%u6807%u7248%u672C%uFF1A'') @ ix_targetWorkerVersion context"

definition upgraded_landing :: "browser \<Rightarrow> install_context \<Rightarrow> vps_server \<Rightarrow> bool" where
  "upgraded_landing b context server \<longleftrightarrow>
     sv_worker_version server = Some (ix_targetWorkerVersion context)
     \<and> timestampAtOrAfter (br_date_parse b) (sv_worker_last_heartbeat_at server)
         (Some (ix_generatedAt context))"

definition heartbeat_says :: "jsstr \<Rightarrow> landing_panel \<Rightarrow> landing_panel" where
  "heartbeat_says m = on_install (\<lambda>x. x\<lparr>li_heartbeatMessage := m\<rparr>)"

definition worker_came :: "jsstr \<Rightarrow> jsstr \<Rightarrow> landing_panel act" where
  "worker_came heartbeat m s =
     scheduleWorkerInstallAutoClose_landing
       (notify m (heartbeat_says heartbeat (clearWorkerInstallPolling_landing s)))"

definition check_landing_heartbeat ::
  "browser \<Rightarrow> vps_server option \<Rightarrow> landing_panel \<Rightarrow> (landing_panel act) option \<times> landing_panel" where
  "check_landing_heartbeat b server s =
     (case server of
        None \<Rightarrow> (None, s)
      | Some sv \<Rightarrow>
          if polling_upgrade (li_pollContext (la_install s)) then
            (let context = the (li_pollContext (la_install s))
             in if upgraded_landing b context sv then
                  (let m = (uni ''Worker %u5DF2%u5347%u7EA7%u5230 '') @ ix_targetWorkerVersion context @ (uni ''%uFF0C%u843D%u5730%u670D%u52A1%u5668%u5217%u8868%u5DF2%u81EA%u52A8%u5237%u65B0%u3002'')
                   in (Some (worker_came m m), s))
                else (None, heartbeat_says (workerUpgradeStatusMessage_landing server context) s))
          else if isVpsServerWorkerOnline sv then
            (Some (worker_came (uni ''%u5DF2%u68C0%u6D4B%u5230 Worker %u5728%u7EBF%u3002'') (uni ''%u5DF2%u68C0%u6D4B%u5230 Worker %u5728%u7EBF%uFF0C%u843D%u5730%u670D%u52A1%u5668%u5217%u8868%u5DF2%u81EA%u52A8%u5237%u65B0%u3002'')), s)
          else (None, s))"

definition landing_poll_timed_out :: "landing_panel act" where
  "landing_poll_timed_out s =
     (let m = poll_timeout_message (li_pollContext (la_install s))
      in loadServers (\<lambda>svs s. finished (notify m (heartbeat_says m s))) unhandled
           (clearWorkerInstallPolling_landing s))"

definition landing_poll_abandoned :: "jsstr \<Rightarrow> landing_panel \<Rightarrow> bool" where
  "landing_poll_abandoned serverId s \<longleftrightarrow>
     li_pollServerId (la_install s) \<noteq> Some serverId \<or> serverId \<in> la_pendingServers s"

function pollWorkerInstallHeartbeat :: "browser \<Rightarrow> jsstr \<Rightarrow> nat \<Rightarrow> landing_panel act" where
  "pollWorkerInstallHeartbeat b serverId attempt s =
     (if landing_poll_abandoned serverId s then
        finished (if serverId \<in> la_pendingServers s then clearWorkerInstallPolling_landing s else s)
      else
        (let again = (\<lambda>s.
               if WORKER_INSTALL_MAX_POLLS \<le> attempt + 1 then landing_poll_timed_out s
               else
                 (let s1 = (if polling_upgrade (li_pollContext (la_install s)) then s
                            else heartbeat_says (uni ''%u7B49%u5F85 Worker %u4E0A%u7EBF...'') s);
                      i = la_nextTimer s1
                  in (on_install (\<lambda>x. x\<lparr>li_pollTimeout := Some i\<rparr>) (s1\<lparr>la_nextTimer := Suc i\<rparr>),
                      [Timer WORKER_INSTALL_POLL_INTERVAL_MS (timer_alive i)
                         (\<lambda>s. pollWorkerInstallHeartbeat b serverId (attempt + 1) s)])));
             conclude = (\<lambda>server s.
               case check_landing_heartbeat b server s of
                 (Some done, s1) \<Rightarrow> done s1
               | (None, s1) \<Rightarrow> again s1)
         in fetch servers_request as_servers
              (\<lambda>result. case result of
                 ApiFailure c m d \<Rightarrow> again
               | ApiSuccess svs m \<Rightarrow>
                   (\<lambda>s. let s1 = setVisibleServers svs s;
                            server = find_opt (\<lambda>sv. sv_id sv = serverId) (la_servers s1)
                        in (case Option.bind server sv_worker_id of
                              Some w \<Rightarrow> if w = [] then conclude server
                                         else loadWorkerCommands_landing w (Some serverId) (conclude server) unhandled
                            | None \<Rightarrow> conclude server) s1))
              unhandled s))"
  by pat_completeness auto
termination
  by (relation "measure (\<lambda>(b, r, attempt, s). WORKER_INSTALL_MAX_POLLS - attempt)") auto

definition startWorkerInstallPolling ::
  "browser \<Rightarrow> jsstr \<Rightarrow> install_context \<Rightarrow> landing_panel act" where
  "startWorkerInstallPolling b serverId context s =
     (let s1 = on_install (\<lambda>x. x\<lparr>li_pollServerId := Some serverId, li_pollContext := Some context\<rparr>)
                 (clearWorkerInstallAutoClose_landing (clearWorkerInstallPolling_landing s));
          s2 = (if ix_mode context = UpgradeWorker then
                  notify (uni ''Worker %u5B89%u88C5%u547D%u4EE4%u5DF2%u751F%u6210%uFF0C%u6B63%u5728%u7B49%u5F85%u76EE%u6807%u7248%u672C Worker %u4E0A%u62A5 heartbeat%u3002'')
                    (heartbeat_says ((uni ''%u7B49%u5F85 Worker %u5347%u7EA7%u5230%u76EE%u6807%u7248%u672C... %u76EE%u6807%u7248%u672C%uFF1A'') @ ix_targetWorkerVersion context) s1)
                else
                  notify (uni ''Worker %u5B89%u88C5%u547D%u4EE4%u5DF2%u751F%u6210%uFF0C%u6B63%u5728%u7B49%u5F85 Worker %u6CE8%u518C%u548C heartbeat%u3002'')
                    (heartbeat_says (uni ''%u7B49%u5F85 Worker %u4E0A%u7EBF...'') s1))
      in pollWorkerInstallHeartbeat b serverId 0 s2)"

subsection \<open>The installation command\<close>

definition end_landing_submit :: "landing_panel act" where
  "end_landing_submit s = finished (s\<lparr>la_submitting := False\<rparr>)"

definition bootstrap_error :: "browser \<Rightarrow> landing_modal option \<Rightarrow> bootstrap_form \<Rightarrow> jsstr option" where
  "bootstrap_error b mode form =
     (if mode = Some AddServerModal \<and> trim (bf_name form) = [] then Some (uni ''%u8BF7%u586B%u5199%u670D%u52A1%u5668%u540D%u79F0%u3002'')
      else if mode = Some AddServerModal \<and> trim (bf_ip form) = [] then Some (uni ''%u8BF7%u586B%u5199%u670D%u52A1%u5668 IP%u3002'')
      else if (case br_to_number b (bf_expiresInMinutes form) of
                 None \<Rightarrow> True | Some n \<Rightarrow> n < 1 \<or> 10080 < n)
      then Some (uni ''%u8FC7%u671F%u65F6%u95F4%u5FC5%u987B%u662F 1 %u5230 10080 %u5206%u949F%u4E4B%u95F4%u7684%u6574%u6570%u3002'')
      else if \<not> isValidWorkerInterfaceName (trim (bf_interfaceName form))
      then Some (uni ''%u7F51%u5361%u4E0D%u80FD%u4E3A%u7A7A%uFF0C%u4E14%u53EA%u80FD%u5305%u542B%u5B57%u6BCD%u3001%u6570%u5B57%u3001%u70B9%u3001%u4E0B%u5212%u7EBF%u6216%u77ED%u6A2A%u7EBF%u3002'')
      else None)"

text \<open>Both kinds of answer end the same way: the token is kept, the list reloaded, the polling started.\<close>

definition install_ready ::
  "browser \<Rightarrow> install_mode \<Rightarrow> jsstr \<Rightarrow> int \<Rightarrow> worker_token \<Rightarrow> jsstr option
   \<Rightarrow> (jsstr option \<Rightarrow> landing_panel act) \<Rightarrow> landing_panel act" where
  "install_ready b mode interfaceName minutes token target caught s =
     loadServers
       (\<lambda>svs s. if blank target then
            end_landing_submit (notify (uni ''Worker %u5B89%u88C5%u547D%u4EE4%u5DF2%u751F%u6210%uFF0C%u8BF7%u5728 VPS %u4E0A%u6267%u884C%u540E%u624B%u52A8%u5237%u65B0%u5217%u8868%u67E5%u770B%u4E0A%u7EBF%u72B6%u6001%u3002'') s)
          else
            alongside
              (startWorkerInstallPolling b (the target)
                \<lparr>ix_mode = mode, ix_targetWorkerVersion = CURRENT_WORKER_INSTALL_VERSION,
                 ix_generatedAt = generatedAtFromExpiry (br_date_parse b) (br_to_iso b) (la_clock s)
                   (Some (wt_expires_at token)) (Some minutes),
                 ix_interfaceName = interfaceName\<rparr>)
              end_landing_submit s)
       caught
       (on_install (\<lambda>x. x\<lparr>li_token := Some token\<rparr>) s)"

text \<open>A server that is selected gets a new token; otherwise the server is created with its first one.\<close>

definition request_install_command ::
  "browser \<Rightarrow> jsstr \<Rightarrow> bootstrap_form \<Rightarrow> int \<Rightarrow> vps_server option \<Rightarrow> install_mode \<Rightarrow> jsstr \<Rightarrow> landing_panel act" where
  "request_install_command b role form minutes server pollingMode csrfToken =
     (let interfaceName = trim (bf_interfaceName form);
          caught = (\<lambda>e s. end_landing_submit (notify (error_text e (uni ''%u751F%u6210 Worker %u5B89%u88C5%u547D%u4EE4%u5931%u8D25%u3002'')) s));
          refused = (\<lambda>c m s. end_landing_submit (notify (api_error_text c m) s))
      in case server of
           Some sv \<Rightarrow>
             fetch (createWorkerToken (json_worker_token_request
                      \<lparr>wtq_role = role, wtq_name = Some (or_str (trim (bf_name form)) (sv_name sv)),
                       wtq_server_id = Some (sv_id sv), wtq_expires_in_minutes = Some minutes,
                       wtq_interface_name = Some interfaceName\<rparr>) csrfToken) as_token
               (\<lambda>result. case result of
                  ApiFailure c m d \<Rightarrow> refused c m
                | ApiSuccess token m \<Rightarrow>
                    install_ready b pollingMode interfaceName minutes token
                      (Some (nullish (wt_server_id token) (sv_id sv))) caught)
               caught
         | None \<Rightarrow>
             fetch (createVpsWorkerBootstrap (json_vps_bootstrap_request
                      \<lparr>vbq_name = trim (bf_name form), vbq_ip = trim (bf_ip form),
                       vbq_expires_in_minutes = Some minutes,
                       vbq_interface_name = Some interfaceName\<rparr>) csrfToken) as_vps_bootstrap
               (\<lambda>result. case result of
                  ApiFailure c m d \<Rightarrow> refused c m
                | ApiSuccess d m \<Rightarrow>
                    install_ready b pollingMode interfaceName minutes (vb_token d)
                      (Some (sv_id (vb_server d))) caught)
               caught)"

definition generateWorkerInstallCommand :: "browser \<Rightarrow> jsstr \<Rightarrow> landing_panel act" where
  "generateWorkerInstallCommand b role s =
     (let form = li_form (la_install s);
          mode = la_modalMode s;
          server = (if mode = Some WorkerCommandModal then la_selectedServer s else None);
          pollingMode = (if (case server of None \<Rightarrow> False | Some sv \<Rightarrow> isVpsServerWorkerOnline sv)
                         then UpgradeWorker else InstallWorker)
      in case bootstrap_error b mode form of
           Some e \<Rightarrow> finished (notify e s)
         | None \<Rightarrow>
             ensureCsrfToken_await
               (request_install_command b role form (the (br_to_number b (bf_expiresInMinutes form)))
                  server pollingMode)
               (\<lambda>e s. end_landing_submit (notify (error_text e (uni ''%u751F%u6210 Worker %u5B89%u88C5%u547D%u4EE4%u5931%u8D25%u3002'')) s))
               (notify (if mode = Some AddServerModal then (uni ''%u6B63%u5728%u4FDD%u5B58%u843D%u5730%u670D%u52A1%u5668%u5E76%u751F%u6210%u4E00%u6B21%u6027 Worker %u5B89%u88C5%u547D%u4EE4%u3002'')
                     else (uni ''%u6B63%u5728%u91CD%u65B0%u751F%u6210%u4E00%u6B21%u6027 Worker %u5B89%u88C5%u547D%u4EE4%u3002''))
                 (clearWorkerInstallAutoClose_landing (clearWorkerInstallPolling_landing
                   (on_install (\<lambda>x. x\<lparr>li_token := None, li_heartbeatMessage := []\<rparr>)
                     (s\<lparr>la_submitting := True\<rparr>))))))"

subsection \<open>Copying a text\<close>

text \<open>
  The fallback selects a text box and copies what the box shows; \<open>None\<close> stands for no box.
  \<open>shown\<close> is what it shows when the helper is called, \<open>box\<close> what it shows later.
\<close>

definition select_and_copy :: "jsstr option \<Rightarrow> (bool \<Rightarrow> landing_panel act) \<Rightarrow> landing_panel act" where
  "select_and_copy shown k s =
     (case shown of
        None \<Rightarrow> k False s
      | Some t \<Rightarrow> if la_execCopies s then k True (s\<lparr>la_pasteboard := Some t\<rparr>) else k False s)"

definition copyTextWithFallback ::
  "browser \<Rightarrow> jsstr \<Rightarrow> jsstr option \<Rightarrow> (landing_panel \<Rightarrow> jsstr option)
   \<Rightarrow> (bool \<Rightarrow> landing_panel act) \<Rightarrow> landing_panel act" where
  "copyTextWithFallback b txt shown box k =
     (if br_clipboard b then
        call (Clipboard txt) as_clipboard
          (\<lambda>x. case x of
             Resolved u \<Rightarrow> k True
           | Rejected e \<Rightarrow> (\<lambda>s. select_and_copy (if shown = None then None else box s) k s))
      else select_and_copy shown k)"

definition install_box :: "landing_panel \<Rightarrow> jsstr option" where
  "install_box s =
     (if la_modalMode s \<in> {Some AddServerModal, Some WorkerCommandModal}
      then map_option wt_install_command (li_token (la_install s)) else None)"

definition copyInstallCommand :: "browser \<Rightarrow> landing_panel act" where
  "copyInstallCommand b s =
     (case li_token (la_install s) of
        None \<Rightarrow> finished (notify (uni ''%u8BF7%u5148%u751F%u6210%u5B89%u88C5%u547D%u4EE4%u3002'') s)
      | Some token \<Rightarrow>
          if wt_install_command token = [] then finished (notify (uni ''%u8BF7%u5148%u751F%u6210%u5B89%u88C5%u547D%u4EE4%u3002'') s)
          else copyTextWithFallback b (wt_install_command token) (install_box s) install_box
                 (\<lambda>copied s. finished (notify
                    (if copied then (uni ''%u5DF2%u590D%u5236%u5B89%u88C5%u547D%u4EE4%u3002%u8BF7%u52FF%u628A%u8BE5%u547D%u4EE4%u5199%u5165%u6587%u6863%u3001%u65E5%u5FD7%u6216 Git%u3002'')
                     else (uni ''%u590D%u5236%u5931%u8D25%uFF0C%u8BF7%u70B9%u51FB%u547D%u4EE4%u6846%u540E%u6309 Ctrl+A / Ctrl+C%uFF0CMac %u4F7F%u7528 Command+A / Command+C%u3002'')) s))
                 s)"

end
