(* ===== verification/LandingActions.thy ===== *)
theory LandingActions
  imports LandingServers
begin

text \<open>
  \<^verbatim>\<open>ServerManagementPanel\<close>, second part: cleanup and BBR commands with the watches over them,
  the creation of a direct node, node details with the export of the client link, saving and
  deletion, and what the markup computes.
\<close>

subsection \<open>Waiting for a cleanup command\<close>

definition landing_cleanup_text :: "jsstr \<Rightarrow> jsstr" where
  "landing_cleanup_text status =
     (if status = (js ''succeeded'') then (uni ''%u6E05%u7406%u4EFB%u52A1%u5DF2%u5B8C%u6210%uFF0C%u670D%u52A1%u5668%u548C%u8282%u70B9%u5217%u8868%u5DF2%u81EA%u52A8%u5237%u65B0%u3002'')
      else (uni ''%u6E05%u7406%u4EFB%u52A1%u5DF2%u8FDB%u5165%u7EC8%u6001%uFF1A'') @ workerCommandStatusLabel_landing status @ (uni ''%u3002%u5217%u8868%u5DF2%u81EA%u52A8%u5237%u65B0%uFF0C%u8BF7%u67E5%u770B%u4EFB%u52A1%u8BE6%u60C5%u3002''))"

text \<open>What a finished command gives back: the server or the node it was to delete, unless it succeeded.\<close>

definition release_pending :: "jsstr option \<Rightarrow> jsstr option \<Rightarrow> landing_panel \<Rightarrow> landing_panel" where
  "release_pending pendingServer pendingNode s =
     (let s1 = (if blank pendingServer then s else releaseServerPendingDelete (the pendingServer) s)
      in if blank pendingNode then s1 else releaseNodePendingDelete (the pendingNode) s1)"

definition note_latest :: "jsstr option \<Rightarrow> worker_command_data \<Rightarrow> landing_panel \<Rightarrow> landing_panel" where
  "note_latest serverId c s = (if blank serverId then s else store_latest (the serverId) c s)"

definition landing_cleanup_finished ::
  "jsstr option \<Rightarrow> worker_command_data \<Rightarrow> jsstr option \<Rightarrow> jsstr option \<Rightarrow> landing_panel act" where
  "landing_cleanup_finished serverId c pendingServer pendingNode s =
     loadServers
       (\<lambda>svs. loadWorkerCommands_after (Some c) serverId
         (\<lambda>s. finished (notify (landing_cleanup_text (wc_status c)) s)) unhandled)
       unhandled
       (if wc_status c \<noteq> (js ''succeeded'') then release_pending pendingServer pendingNode s else s)"

definition landing_cleanup_still_running ::
  "jsstr option \<Rightarrow> worker_command_data \<Rightarrow> landing_panel act" where
  "landing_cleanup_still_running serverId latest =
     loadServers
       (\<lambda>svs. loadWorkerCommands_after (Some latest) serverId
         (\<lambda>s. finished (notify (uni ''%u6E05%u7406%u4EFB%u52A1%u4ECD%u5728%u6267%u884C%uFF0C%u5217%u8868%u5DF2%u518D%u6B21%u5237%u65B0%uFF1B%u8BF7%u7A0D%u540E%u67E5%u770B%u4EFB%u52A1%u4E2D%u5FC3%u6216%u518D%u6B21%u5237%u65B0%u3002'') s)) unhandled)
       unhandled"

function landing_cleanup_polls ::
  "jsstr \<Rightarrow> jsstr option \<Rightarrow> jsstr option \<Rightarrow> jsstr option \<Rightarrow> worker_command_data \<Rightarrow> nat
   \<Rightarrow> landing_panel act" where
  "landing_cleanup_polls commandId serverId pendingServer pendingNode latest attempt =
     (if attempt < CLEANUP_COMMAND_MAX_POLLS then
        sleep CLEANUP_COMMAND_POLL_INTERVAL_MS
          (fetch (getWorkerCommand commandId) as_command
            (\<lambda>result. case result of
               ApiSuccess c m \<Rightarrow>
                 (\<lambda>s. (if wc_status c \<in> set CLEANUP_COMMAND_TERMINAL_STATUSES
                       then landing_cleanup_finished serverId c pendingServer pendingNode
                       else landing_cleanup_polls commandId serverId pendingServer pendingNode c (Suc attempt))
                      (note_latest serverId c s))
             | ApiFailure e m d \<Rightarrow>
                 landing_cleanup_polls commandId serverId pendingServer pendingNode latest (Suc attempt))
            unhandled)
      else landing_cleanup_still_running serverId latest)"
  by pat_completeness auto
termination
  by (relation "measure (\<lambda>(i, v, p, q, c, attempt). CLEANUP_COMMAND_MAX_POLLS - attempt)") auto

definition refreshWhenCleanupCommandCompletes ::
  "worker_command_data option \<Rightarrow> jsstr option \<Rightarrow> jsstr option \<Rightarrow> jsstr option \<Rightarrow> landing_panel act" where
  "refreshWhenCleanupCommandCompletes command serverId pendingServer pendingNode =
     (case command of
        None \<Rightarrow> finished
      | Some c \<Rightarrow>
          if wc_id c = [] then finished
          else landing_cleanup_polls (wc_id c)
                 (case serverId of Some i \<Rightarrow> Some i | None \<Rightarrow> wc_server_id c)
                 pendingServer pendingNode c 0)"

subsection \<open>Checks and read-only preflights\<close>

definition can_command :: "vps_server \<Rightarrow> bool" where
  "can_command sv \<longleftrightarrow> \<not> blank (sv_worker_id sv) \<and> sv_worker_online sv"

definition landing_command_payload :: "jsstr \<Rightarrow> vps_server \<Rightarrow> jsval" where
  "landing_command_payload command_type sv =
     JObj [((js ''command_type''), JStr command_type), ((js ''payload''), JNull),
       ((js ''server_id''), JStr (sv_id sv)), ((js ''server_type''), JStr (js ''landing''))]"

definition set_command_loading :: "jsstr option \<Rightarrow> landing_panel \<Rightarrow> landing_panel" where
  "set_command_loading i = on_commands (\<lambda>x. x\<lparr>lc_loadingId := i\<rparr>)"

definition end_command :: "landing_panel act" where
  "end_command s = finished (set_command_loading None s)"

definition created_text :: "jsstr \<Rightarrow> jsstr \<Rightarrow> command_created \<Rightarrow> jsstr" where
  "created_text head changed d =
     head @ wc_id (wcc_command d) @ (uni ''%uFF1B%u76EE%u6807 Worker%uFF1A'') @ wcc_target_worker_id d @ (js '' / '')
       @ or_str (nullish (wcc_target_worker_version d) []) (uni ''%u672A%u77E5%u7248%u672C'') @ (uni ''%u3002'')
       @ (if wcc_target_worker_changed d then changed else [])"

text \<open>Both buttons send a fixed command; they differ in its type and in the texts.\<close>

definition send_landing_command ::
  "jsstr \<Rightarrow> jsstr \<Rightarrow> (jsstr \<Rightarrow> jsstr \<Rightarrow> jsstr) \<Rightarrow> (command_created \<Rightarrow> jsstr) \<Rightarrow> jsstr
   \<Rightarrow> vps_server \<Rightarrow> landing_panel act" where
  "send_landing_command command_type starting refused created failed sv s =
     (let caught = (\<lambda>e s. end_command (notify (error_text e failed) s))
      in ensureCsrfToken_await
           (\<lambda>csrfToken.
              fetch (createWorkerCommand (the (sv_worker_id sv)) (landing_command_payload command_type sv) csrfToken)
                as_created
                (\<lambda>result. case result of
                   ApiFailure c m d \<Rightarrow> (\<lambda>s. end_command (notify (refused c m) s))
                 | ApiSuccess d m \<Rightarrow>
                     (\<lambda>s. loadWorkerCommands_landing (wcc_target_worker_id d) (Some (sv_id sv)) end_command caught
                        (notify (created d) (store_latest (sv_id sv) (wcc_command d) s))))
                caught)
           caught
           (notify starting (set_command_loading (sv_worker_id sv) s)))"

definition runWorkerCheck_landing :: "vps_server \<Rightarrow> landing_panel act" where
  "runWorkerCheck_landing sv s =
     (if \<not> can_command sv then finished (notify (uni ''Worker %u672A%u5728%u7EBF%uFF0C%u4E0D%u80FD%u521B%u5EFA Worker %u68C0%u67E5%u547D%u4EE4%u3002'') s)
      else send_landing_command (js ''collect_status'')
             (uni ''%u6B63%u5728%u521B%u5EFA Worker %u72B6%u6001%u68C0%u67E5%u547D%u4EE4%u3002%u8BE5%u547D%u4EE4%u53EA%u4F1A%u7531 Worker %u8F6E%u8BE2%u6267%u884C%uFF0C%u4E0D%u4F1A SSH%u3002'')
             api_error_text
             (created_text (uni ''Worker %u68C0%u67E5%u547D%u4EE4%u5DF2%u521B%u5EFA%uFF1A'') (uni ''%u5DF2%u81EA%u52A8%u5207%u6362%u5230%u6700%u65B0%u652F%u6301%u547D%u4EE4%u7684 Worker%u3002''))
             (uni ''%u521B%u5EFA Worker %u68C0%u67E5%u547D%u4EE4%u5931%u8D25%u3002'') sv s)"

definition runLandingPreflight :: "vps_server \<Rightarrow> landing_panel act" where
  "runLandingPreflight sv s =
     (if \<not> can_command sv then finished (notify (uni ''Worker %u672A%u5728%u7EBF%uFF0C%u4E0D%u80FD%u521B%u5EFA%u843D%u5730%u670D%u52A1%u5668%u53EA%u8BFB%u9884%u68C0%u547D%u4EE4%u3002'') s)
      else send_landing_command (js ''landing_preflight'')
             (uni ''%u6B63%u5728%u521B%u5EFA%u843D%u5730%u670D%u52A1%u5668%u53EA%u8BFB%u9884%u68C0%u547D%u4EE4%u3002%u8BE5%u547D%u4EE4%u53EA%u7531%u5DF2%u6CE8%u518C Worker %u6267%u884C%u56FA%u5B9A%u53EA%u8BFB%u68C0%u67E5%uFF0C%u4E0D%u4F1A SSH %u6216%u521B%u5EFA%u8282%u70B9%u3002'')
             (\<lambda>c m. api_error_text c m
                @ (if c = (js ''WORKER_COMMAND_UNSUPPORTED'')
                   then (uni '' %u8BF7%u91CD%u65B0%u751F%u6210%u5B89%u88C5%u547D%u4EE4%u5E76%u5347%u7EA7%u8BE5%u670D%u52A1%u5668%u4E0A%u7684 liveline-worker %u540E%u518D%u8BD5%u3002'') else []))
             (created_text (uni ''%u53EA%u8BFB%u9884%u68C0%u547D%u4EE4%u5DF2%u521B%u5EFA%uFF1A'') (uni ''%u5DF2%u81EA%u52A8%u5207%u6362%u5230%u6700%u65B0%u652F%u6301%u53EA%u8BFB%u9884%u68C0%u7684 Worker%u3002''))
             (uni ''%u521B%u5EFA%u843D%u5730%u670D%u52A1%u5668%u53EA%u8BFB%u9884%u68C0%u547D%u4EE4%u5931%u8D25%u3002'') sv s)"

subsection \<open>BBR\<close>

definition store_bbr_plan :: "jsstr \<Rightarrow> bbr_plan \<Rightarrow> landing_panel \<Rightarrow> landing_panel" where
  "store_bbr_plan serverId p = on_bbr (\<lambda>x. x\<lparr>lb_plans := (lb_plans x)(serverId \<mapsto> p)\<rparr>)"

definition bbr_plan_text :: "bbr_plan \<Rightarrow> jsstr" where
  "bbr_plan_text p =
     (uni ''BBR %u5F00%u542F%u65B9%u6848%u5DF2%u751F%u6210%uFF1A'') @ bbrRecommendationLabel (bp_recommendation p) @ (js '' / '')
       @ (if bp_already_enabled p then (uni ''BBR %u5DF2%u5F00%u542F'') else if bp_ready p then (uni ''%u53EF%u8FDB%u5165%u540E%u7EED%u5BA1%u6279'') else (uni ''%u6682%u4E0D%u53EF%u5F00%u542F''))
       @ (uni ''%u3002%u672A%u521B%u5EFA Worker command%uFF0C%u672A%u8FDC%u7A0B%u6267%u884C%u3002'')"

definition openBbrEnablePlan :: "vps_server \<Rightarrow> landing_panel act" where
  "openBbrEnablePlan sv s =
     (let end = (\<lambda>s. finished (on_bbr (\<lambda>x. x\<lparr>lb_planLoading := None\<rparr>) s));
          caught = (\<lambda>e s. end (notify (error_text e (uni ''%u751F%u6210 BBR %u5F00%u542F%u65B9%u6848%u5931%u8D25%u3002'')) s))
      in ensureCsrfToken_await
           (\<lambda>csrfToken.
              fetch (requestBbrEnablePlan (sv_id sv) csrfToken) as_bbr_plan
                (\<lambda>result. case result of
                   ApiFailure c m d \<Rightarrow> (\<lambda>s. end (notify (api_error_text c m) s))
                 | ApiSuccess p m \<Rightarrow> (\<lambda>s. end (notify (bbr_plan_text p) (store_bbr_plan (sv_id sv) p s))))
                caught)
           caught
           (notify (uni ''%u6B63%u5728%u751F%u6210 BBR %u5F00%u542F%u5BA1%u6279%u65B9%u6848%u3002%u8BE5%u64CD%u4F5C%u53EA%u8BFB%u53D6%u6700%u65B0 landing_preflight %u7ED3%u679C%uFF0C%u4E0D%u521B%u5EFA Worker command%u3002'')
             (on_bbr (\<lambda>x. x\<lparr>lb_planLoading := Some (sv_id sv)\<rparr>) s)))"

text \<open>
  The watches over a dry run and over a real execution are the same loop with other texts: \<open>head\<close>
  introduces the final status, \<open>still\<close> says that the command is still running.
\<close>

definition bbr_outcome_text :: "jsstr \<Rightarrow> worker_command_data \<Rightarrow> jsstr" where
  "bbr_outcome_text head c =
     head @ workerCommandStatusLabel_landing (wc_status c)
       @ (if blank (wc_result_summary c) then [] else (js '' / '') @ the (wc_result_summary c)) @ (uni ''%u3002'')"

function bbr_polls ::
  "jsstr \<Rightarrow> jsstr \<Rightarrow> worker_command_data \<Rightarrow> jsstr \<Rightarrow> nat \<Rightarrow> landing_panel act" where
  "bbr_polls head still command serverId attempt =
     (if attempt < CLEANUP_COMMAND_MAX_POLLS then
        sleep CLEANUP_COMMAND_POLL_INTERVAL_MS
          (fetch (getWorkerCommand (wc_id command)) as_command
            (\<lambda>result. case result of
               ApiFailure e m d \<Rightarrow> bbr_polls head still command serverId (Suc attempt)
             | ApiSuccess c m \<Rightarrow>
                 (\<lambda>s. (if wc_status c \<in> set CLEANUP_COMMAND_TERMINAL_STATUSES
                       then loadWorkerCommands_landing (worker_of c) (Some serverId)
                              (\<lambda>s. finished (notify (bbr_outcome_text head c) s)) unhandled
                       else bbr_polls head still command serverId (Suc attempt))
                      (store_latest serverId c s)))
            unhandled)
      else
        loadWorkerCommands_landing (worker_of command) (Some serverId)
          (\<lambda>s. finished (notify still s)) unhandled)"
  by pat_completeness auto
termination
  by (relation "measure (\<lambda>(h, t, c, i, attempt). CLEANUP_COMMAND_MAX_POLLS - attempt)") auto

definition refreshBbrDryRunUntilTerminal :: "worker_command_data \<Rightarrow> jsstr \<Rightarrow> landing_panel act" where
  "refreshBbrDryRunUntilTerminal command serverId =
     bbr_polls (uni ''BBR %u5F00%u542F dry-run %u5DF2%u8FDB%u5165%u7EC8%u6001%uFF1A'')
       (uni ''BBR %u5F00%u542F dry-run %u4ECD%u5728%u6267%u884C%uFF0C%u6700%u8FD1%u547D%u4EE4%u5DF2%u5237%u65B0%uFF1B%u8BF7%u7A0D%u540E%u67E5%u770B%u4EFB%u52A1%u4E2D%u5FC3%u3002'') command serverId 0"

definition refreshBbrRealExecutionUntilTerminal :: "worker_command_data \<Rightarrow> jsstr \<Rightarrow> landing_panel act" where
  "refreshBbrRealExecutionUntilTerminal command serverId =
     bbr_polls (uni ''BBR %u53D7%u4FDD%u62A4%u5F00%u542F%u547D%u4EE4%u5DF2%u8FDB%u5165%u7EC8%u6001%uFF1A'')
       (uni ''BBR %u53D7%u4FDD%u62A4%u5F00%u542F%u547D%u4EE4%u4ECD%u5728%u6267%u884C%uFF0C%u6700%u8FD1%u547D%u4EE4%u5DF2%u5237%u65B0%uFF1B%u8BF7%u7A0D%u540E%u67E5%u770B%u4EFB%u52A1%u4E2D%u5FC3%u3002'') command serverId 0"

definition openBbrEnableDryRun :: "vps_server \<Rightarrow> landing_panel act" where
  "openBbrEnableDryRun sv s =
     (let end = (\<lambda>s. finished (on_bbr (\<lambda>x. x\<lparr>lb_dryRunLoading := None\<rparr>) s));
          caught = (\<lambda>e s. end (notify (error_text e (uni ''%u521B%u5EFA BBR %u5F00%u542F dry-run %u547D%u4EE4%u5931%u8D25%u3002'')) s))
      in ensureCsrfToken_await
           (\<lambda>csrfToken.
              fetch (requestBbrEnableDryRun (sv_id sv) csrfToken) as_bbr_dry_run
                (\<lambda>result. case result of
                   ApiFailure c m d \<Rightarrow> (\<lambda>s. end (notify (api_error_text c m) s))
                 | ApiSuccess d m \<Rightarrow>
                     (\<lambda>s. loadWorkerCommands_landing (bd_target_worker_id d) (Some (sv_id sv))
                        (alongside (refreshBbrDryRunUntilTerminal (bd_command d) (sv_id sv)) end)
                        caught
                        (notify ((uni ''BBR %u5F00%u542F dry-run %u547D%u4EE4%u5DF2%u521B%u5EFA%uFF1A'') @ wc_id (bd_command d)
                              @ (uni ''%u3002%u4E0D%u4F1A%u6267%u884C modprobe%u3001%u4E0D%u4F1A%u5199 sysctl%u3002''))
                          (store_latest (sv_id sv) (bd_command d)
                            (store_bbr_plan (sv_id sv) (bd_plan d) s)))))
                caught)
           caught
           (notify (uni ''%u6B63%u5728%u521B%u5EFA BBR %u5F00%u542F dry-run %u547D%u4EE4%u3002%u8BE5%u547D%u4EE4%u4E0D%u4F1A%u771F%u6B63%u5F00%u542F BBR%u3002'')
             (on_bbr (\<lambda>x. x\<lparr>lb_dryRunLoading := Some (sv_id sv)\<rparr>) s)))"

definition openBbrRealExecutionConfirm :: "vps_server \<Rightarrow> landing_panel \<Rightarrow> landing_panel" where
  "openBbrRealExecutionConfirm sv =
     on_bbr (\<lambda>x. x\<lparr>lb_confirmServer := Some sv, lb_confirmText := [], lb_confirmError := None\<rparr>)"

definition closeBbrRealExecutionConfirm :: "landing_panel \<Rightarrow> landing_panel" where
  "closeBbrRealExecutionConfirm =
     on_bbr (\<lambda>x. x\<lparr>lb_confirmServer := None, lb_confirmText := [], lb_confirmError := None\<rparr>)"

definition bbr_refused :: "jsstr \<Rightarrow> landing_panel \<Rightarrow> landing_panel" where
  "bbr_refused e s = notify e (on_bbr (\<lambda>x. x\<lparr>lb_confirmError := Some e\<rparr>) s)"

definition submitBbrRealExecution :: "landing_panel act" where
  "submitBbrRealExecution s =
     (case lb_confirmServer (la_bbr s) of
        None \<Rightarrow> finished s
      | Some sv \<Rightarrow>
          let txt = trim (lb_confirmText (la_bbr s)) in
          if txt \<noteq> BBR_REAL_EXECUTION_CONFIRM_TEXT then
            finished (on_bbr (\<lambda>x. x\<lparr>lb_confirmError :=
              Some ((uni ''%u8BF7%u8F93%u5165 '') @ BBR_REAL_EXECUTION_CONFIRM_TEXT @ (uni '' %u4EE5%u786E%u8BA4%u5F00%u542F BBR%u3002''))\<rparr>) s)
          else
            (let end = (\<lambda>s. finished (on_bbr (\<lambda>x. x\<lparr>lb_realLoading := None\<rparr>) s));
                 caught = (\<lambda>e s. end (bbr_refused (error_text e (uni ''%u521B%u5EFA BBR %u53D7%u4FDD%u62A4%u5F00%u542F%u547D%u4EE4%u5931%u8D25%u3002'')) s))
             in ensureCsrfToken_await
                  (\<lambda>csrfToken.
                     fetch (requestBbrEnableRealExecution (sv_id sv) csrfToken txt) as_bbr_real
                       (\<lambda>result. case result of
                          ApiFailure c m d \<Rightarrow> (\<lambda>s. end (bbr_refused (api_error_text c m) s))
                        | ApiSuccess d m \<Rightarrow>
                            (\<lambda>s. loadWorkerCommands_landing (bx_target_worker_id d) (Some (sv_id sv))
                               (alongside (refreshBbrRealExecutionUntilTerminal (bx_command d) (sv_id sv)) end)
                               caught
                               (closeBbrRealExecutionConfirm
                                 (notify ((uni ''BBR %u53D7%u4FDD%u62A4%u5F00%u542F%u547D%u4EE4%u5DF2%u521B%u5EFA%uFF1A'') @ wc_id (bx_command d)
                                       @ (uni ''%u3002%u4E0D%u4F1A%u91CD%u542F%u7F51%u7EDC%u670D%u52A1%uFF0C%u4E0D%u4F1A%u4FEE%u6539%u7AEF%u53E3%u3001share_link %u6216 cutover%u3002''))
                                   (store_latest (sv_id sv) (bx_command d)
                                     (store_bbr_plan (sv_id sv) (bx_plan d) s))))))
                       caught)
                  caught
                  (notify (uni ''%u6B63%u5728%u521B%u5EFA BBR %u53D7%u4FDD%u62A4%u771F%u5B9E%u5F00%u542F%u547D%u4EE4%u3002%u8BE5%u547D%u4EE4%u4F1A%u7B49%u5F85 Worker %u6309%u56FA%u5B9A%u6D41%u7A0B%u6267%u884C%u3002'')
                    (on_bbr (\<lambda>x. x\<lparr>lb_realLoading := Some (sv_id sv), lb_confirmError := None\<rparr>) s))))"

subsection \<open>Creating a direct node\<close>

definition on_step :: "node_create_step \<Rightarrow> landing_panel \<Rightarrow> landing_panel" where
  "on_step st = on_node_create (\<lambda>x. x\<lparr>ln_step := st\<rparr>)"

definition landing_wait_limit :: nat where "landing_wait_limit = 90"

definition landing_wait_timeout :: jsstr where
  "landing_wait_timeout = (uni ''Worker %u547D%u4EE4%u7B49%u5F85%u8D85%u65F6%u3002%u8BF7%u5237%u65B0%u5217%u8868%u67E5%u770B%u6700%u65B0%u72B6%u6001%u3002'')"

function waitForWorkerCommandCompletion_landing ::
  "jsstr \<Rightarrow> jsstr \<Rightarrow> jsstr \<Rightarrow> node_create_step \<Rightarrow> nat
   \<Rightarrow> (worker_command_data \<Rightarrow> landing_panel act) \<Rightarrow> (jsstr option \<Rightarrow> landing_panel act)
   \<Rightarrow> landing_panel act" where
  "waitForWorkerCommandCompletion_landing workerId commandId serverId runningStep attempt k h =
     (if attempt < landing_wait_limit then
        fetch (listWorkerCommands workerId) as_commands
          (or_throw h (\<lambda>cs s.
             let s1 = (case cs of [] \<Rightarrow> store_list workerId cs s
                       | c # rest \<Rightarrow> store_latest serverId c (store_list workerId cs s));
                 again = (\<lambda>s. sleep 2000
                   (waitForWorkerCommandCompletion_landing workerId commandId serverId runningStep (Suc attempt) k h)
                   (on_step runningStep s))
             in case find_opt (\<lambda>c. wc_id c = commandId) cs of
                  None \<Rightarrow> again s1
                | Some command \<Rightarrow>
                    (if wc_status command \<in> set NODE_CREATE_TERMINAL_STATUSES then k command else again)
                      (on_node_create (\<lambda>x. x\<lparr>ln_command := Some command\<rparr>) s1)))
          h
      else h (Some landing_wait_timeout))"
  by pat_completeness auto
termination
  by (relation "measure (\<lambda>(w, i, v, r, attempt, k, h). landing_wait_limit - attempt)") auto

definition friendlyNodeCreateError :: "jsstr option \<Rightarrow> jsstr" where
  "friendlyNodeCreateError e =
     (let raw = error_text e (uni ''%u521B%u5EFA%u5931%u8D25%u3002'') in
      if contains_any raw [(js ''FORMAL_SERVER_NOT_APPROVED''), (js ''FORMAL_PREFLIGHT_INTERFACE''),
           (js ''FORMAL_WORKER_INTERFACE_MISMATCH'')]
      then (uni ''%u6B63%u5F0F%u521B%u5EFA%u5BA1%u6279%u672A%u901A%u8FC7%uFF1A%u8BF7%u91CD%u65B0%u8FD0%u884C%u9884%u68C0%uFF0C%u786E%u8BA4%u5F53%u524D%u843D%u5730%u670D%u52A1%u5668 Worker %u5728%u7EBF%u3001%u7ED1%u5B9A%u670D%u52A1%u5668%u6B63%u786E%uFF0C%u5E76%u4E14 Worker %u7F51%u5361%u4E0E%u9ED8%u8BA4%u516C%u7F51%u7F51%u5361%u4E00%u81F4%u3002'')
      else if contains_any raw [(js ''WORKER''), (js ''Worker'')]
      then (uni ''Worker %u4E0D%u5728%u7EBF%u6216%u7248%u672C%u4E0D%u6EE1%u8DB3%uFF0C%u8BF7%u68C0%u67E5%u843D%u5730%u670D%u52A1%u5668 Worker %u72B6%u6001%u3002'')
      else if contains_any raw [(js ''PORT''), (js ''port''), (uni ''%u7AEF%u53E3'')]
      then (uni ''%u7AEF%u53E3%u68C0%u67E5%u5931%u8D25%uFF1A%u7AEF%u53E3%u53EF%u80FD%u5DF2%u88AB%u5360%u7528%uFF0C%u6216%u4E91%u5B89%u5168%u7EC4 / %u4E91%u9632%u706B%u5899 / %u670D%u52A1%u5668%u9632%u706B%u5899%u672A%u653E%u884C%u3002'')
      else if contains_any raw [(js ''XRAY''), (js ''Xray''), (js ''xray'')]
      then (uni ''Xray %u68C0%u67E5%u5931%u8D25%uFF1A%u53EF%u80FD%u5DF2%u5B58%u5728%u914D%u7F6E%uFF0C%u6216%u670D%u52A1%u542F%u52A8 / %u914D%u7F6E%u6D4B%u8BD5%u5931%u8D25%u3002'')
      else if contains_any raw [(js ''PREFLIGHT''), (js ''preflight''), (uni ''%u9884%u68C0'')]
      then (uni ''%u9884%u68C0%u5931%u8D25%uFF1A%u8BF7%u68C0%u67E5 Worker%u3001%u7AEF%u53E3%u76D1%u542C%u3001Xray %u72B6%u6001%u548C%u9632%u706B%u5899%u653E%u884C%u60C5%u51B5%u3002'')
      else raw)"

definition findCreatedNode :: "vps_server list \<Rightarrow> jsstr \<Rightarrow> int \<Rightarrow> server_node option" where
  "findCreatedNode serverList serverId listenPort =
     (case find_opt (\<lambda>sv. sv_id sv = serverId) serverList of
        None \<Rightarrow> None
      | Some sv \<Rightarrow> find_opt (\<lambda>n. sn_port n = Some listenPort \<and> sn_share_link_present n) (sv_nodes sv))"

definition blockedReasonLabel :: "jsstr \<Rightarrow> jsstr" where
  "blockedReasonLabel reason =
     label_in
       [((js ''preflight_missing''), (uni ''%u7F3A%u5C11%u6210%u529F%u7684 landing_preflight %u7ED3%u679C'')),
        ((js ''worker_offline''), (uni ''Worker %u672A%u5728%u7EBF'')),
        ((js ''worker_not_command_capable''), (uni ''Worker %u7248%u672C%u4E0D%u652F%u6301%u843D%u5730%u8282%u70B9%u521B%u5EFA%u9884%u6848'')),
        ((js ''interface_mismatch''), (uni ''Worker %u914D%u7F6E%u7F51%u5361%u4E0E%u7CFB%u7EDF%u9ED8%u8BA4%u516C%u7F51%u7F51%u5361%u4E0D%u4E00%u81F4'')),
        ((js ''port_already_listening''), (uni ''%u8BA1%u5212%u7AEF%u53E3%u5DF2%u7ECF%u76D1%u542C'')),
        ((js ''xray_existing_config_detected''), (uni ''%u68C0%u6D4B%u5230%u5DF2%u6709 Xray %u914D%u7F6E'')),
        ((js ''missing_cloud_firewall_confirmation''), (uni ''%u4E91%u5B89%u5168%u7EC4 / %u4E91%u9632%u706B%u5899 / %u670D%u52A1%u5668%u9632%u706B%u5899%u786E%u8BA4%u4E0D%u5B8C%u6574'')),
        ((js ''unsafe_port''), (uni ''%u7AEF%u53E3%u4E0D%u5B89%u5168%u6216%u4E0D%u53EF%u7528%u4E8E%u4E1A%u52A1%u8282%u70B9'')),
        ((js ''node_port_already_exists''), (uni ''%u8BE5%u843D%u5730%u670D%u52A1%u5668%u5DF2%u6709%u672A%u5220%u9664%u8282%u70B9%u4F7F%u7528%u6B64%u7AEF%u53E3'')),
        ((js ''transit_target_port_already_exists''), (uni ''%u5DF2%u6709%u672A%u5220%u9664%u4E2D%u8F6C%u94FE%u8DEF%u4F7F%u7528%u6B64%u7AEF%u53E3%u4F5C%u4E3A%u843D%u5730%u76EE%u6807'')),
        ((js ''share_link_generation_not_approved''), (uni ''%u672A%u5BA1%u6279%u751F%u6210%u5206%u4EAB%u94FE%u63A5''))] reason"

definition node_plan_request_of :: "node_plan_form \<Rightarrow> int \<Rightarrow> node_plan_request" where
  "node_plan_request_of form listenPort =
     \<lparr>npq_listen_port = listenPort, npq_protocol = nf_protocol form, npq_security = nf_security form,
      npq_flow = nf_flow form, npq_server_name = nf_serverName form, npq_dest = nf_dest form,
      npq_fingerprint = nf_fingerprint form,
      npq_remark = (if nf_nodeName form = [] then None else Some (nf_nodeName form)),
      npq_allow_install_xray = True, npq_allow_modify_firewall = False,
      npq_allow_generate_share_link = True, npq_allow_overwrite_existing_config = False,
      npq_cloud_security_group_confirmed = nf_protectedCreateConfirmed form,
      npq_cloud_firewall_confirmed = nf_protectedCreateConfirmed form,
      npq_server_firewall_confirmed = nf_protectedCreateConfirmed form,
      npq_require_manual_cloud_firewall_confirmation = True, npq_require_preflight_success = True\<rparr>"

definition node_create_request_of :: "node_plan_form \<Rightarrow> int \<Rightarrow> node_create_request" where
  "node_create_request_of form listenPort =
     \<lparr>ncq_approved_port = listenPort,
      ncq_node_name = (if nf_nodeName form = [] then None else Some (nf_nodeName form)),
      ncq_server_name = Some (nf_serverName form), ncq_dest = Some (nf_dest form),
      ncq_fingerprint = Some (nf_fingerprint form),
      ncq_confirm_firewall_open = nf_protectedCreateConfirmed form,
      ncq_confirm_generate_share_link = nf_protectedCreateConfirmed form,
      ncq_confirm_write_share_link_after_success = nf_protectedCreateConfirmed form,
      ncq_confirm_no_existing_xray = nf_protectedCreateConfirmed form,
      ncq_confirm_rollback_new_artifacts_only = nf_protectedCreateConfirmed form\<rparr>"

text \<open>The guards before the first request; \<open>Inr\<close> is the port to use.\<close>

definition node_create_guard :: "browser \<Rightarrow> vps_server \<Rightarrow> node_plan_form \<Rightarrow> jsstr + int" where
  "node_create_guard b sv form =
     (if \<not> can_command sv then Inl (uni ''Worker %u672A%u5728%u7EBF%uFF0C%u4E0D%u80FD%u521B%u5EFA%u76F4%u8FDE%u8282%u70B9%u3002'')
      else case br_to_number b (nf_listenPort form) of
        None \<Rightarrow> Inl ((uni ''%u7AEF%u53E3%u5FC5%u987B%u662F '') @ string_of_int LANDING_LISTEN_PORT_MIN @ (js ''-'')
                      @ string_of_int LANDING_LISTEN_PORT_MAX @ (uni '' %u4E4B%u95F4%u7684 TCP %u7AEF%u53E3%u3002''))
      | Some p \<Rightarrow>
          if p < LANDING_LISTEN_PORT_MIN \<or> LANDING_LISTEN_PORT_MAX < p
          then Inl ((uni ''%u7AEF%u53E3%u5FC5%u987B%u662F '') @ string_of_int LANDING_LISTEN_PORT_MIN @ (js ''-'')
                      @ string_of_int LANDING_LISTEN_PORT_MAX @ (uni '' %u4E4B%u95F4%u7684 TCP %u7AEF%u53E3%u3002''))
          else if p \<in> set BLOCKED_NODE_LISTEN_PORTS
          then Inl ((uni ''%u7AEF%u53E3 '') @ string_of_int p @ (uni '' %u662F%u5E38%u7528 / %u4FDD%u7559%u7AEF%u53E3%uFF0C%u8BF7%u6362%u4E00%u4E2A%u7AEF%u53E3%u3002''))
          else if \<not> nf_protectedCreateConfirmed form
          then Inl ((uni ''%u8BF7%u5148%u786E%u8BA4 '') @ string_of_int p @ (uni ''/TCP %u5DF2%u5728%u4E91%u5B89%u5168%u7EC4%u3001%u4E91%u9632%u706B%u5899%u548C%u670D%u52A1%u5668%u672C%u673A%u9632%u706B%u5899%u653E%u884C%u3002''))
          else Inr p)"

definition node_create_failed :: "jsstr option \<Rightarrow> landing_panel act" where
  "node_create_failed e s =
     (let friendly = friendlyNodeCreateError e
      in end_landing_submit (notify (friendly @ (uni '' %u5931%u8D25%u65F6%u4E0D%u4F1A%u5199%u5165 node.share_link%uFF0C%u4E5F%u4E0D%u4F1A%u751F%u6210%u5B8C%u6574%u94FE%u63A5%u3002''))
           (on_node_create (\<lambda>x. x\<lparr>ln_step := NodeFailed, ln_error := Some friendly\<rparr>) s)))"

definition node_create_refresh :: "jsstr \<Rightarrow> int \<Rightarrow> landing_panel act" where
  "node_create_refresh serverId listenPort s =
     loadServers
       (\<lambda>svs s. let createdNode = findCreatedNode svs serverId listenPort
                in end_landing_submit
                     (notify (if createdNode \<noteq> None then (uni ''%u76F4%u8FDE%u8282%u70B9%u521B%u5EFA%u5B8C%u6210%u3002%u53EF%u4EE5%u590D%u5236%u5BA2%u6237%u7AEF%u94FE%u63A5%u6216%u4E34%u65F6%u663E%u793A%u4E8C%u7EF4%u7801%u3002'')
                           else (uni ''%u76F4%u8FDE%u8282%u70B9%u521B%u5EFA%u547D%u4EE4%u5DF2%u6210%u529F%u3002%u5217%u8868%u5237%u65B0%u540E%u5982%u672A%u770B%u5230%u8282%u70B9%uFF0C%u8BF7%u518D%u6B21%u70B9%u51FB%u5237%u65B0%u3002''))
                       (on_node_create (\<lambda>x. x\<lparr>ln_created := createdNode, ln_step := NodeComplete\<rparr>) s)))
       node_create_failed
       (on_step NodeRefresh s)"

definition node_create_execute ::
  "vps_server \<Rightarrow> node_plan_form \<Rightarrow> int \<Rightarrow> jsstr \<Rightarrow> landing_panel act" where
  "node_create_execute sv form listenPort csrfToken s =
     fetch (createLandingNodeExecution (sv_id sv)
              (json_node_create_request (node_create_request_of form listenPort)) csrfToken) as_node_create
       (or_throw node_create_failed (\<lambda>d s.
          waitForWorkerCommandCompletion_landing (nc_target_worker_id d) (nc_command_id d) (sv_id sv)
            NodeCommandRunning 0
            (\<lambda>c. if wc_status c \<noteq> (js ''succeeded'')
                 then node_create_failed (Some (or_str (nullish (wc_error_message c) []) (uni ''%u521B%u5EFA%u547D%u4EE4%u6267%u884C%u5931%u8D25%u3002'')))
                 else node_create_refresh (sv_id sv) listenPort)
            node_create_failed
            (store_latest (sv_id sv) (nc_command d) (on_node_create (\<lambda>x. x\<lparr>ln_formal := Some d\<rparr>) s))))
       node_create_failed
       (on_step NodeCommandCreate s)"

definition node_create_plan ::
  "vps_server \<Rightarrow> node_plan_form \<Rightarrow> int \<Rightarrow> jsstr \<Rightarrow> landing_panel act" where
  "node_create_plan sv form listenPort csrfToken s =
     fetch (createLandingNodePlan (sv_id sv)
              (json_node_plan_request (node_plan_request_of form listenPort)) csrfToken) as_node_plan
       (or_throw node_create_failed (\<lambda>p s.
          (if \<not> np_ready p
           then node_create_failed (Some (if np_blocked_reasons p \<noteq> []
                  then join (uni ''%uFF1B'') (map blockedReasonLabel (np_blocked_reasons p)) else (uni ''%u521B%u5EFA%u8BA1%u5212%u672A%u901A%u8FC7%u3002'')))
           else node_create_execute sv form listenPort csrfToken)
            (on_node_create (\<lambda>x. x\<lparr>ln_plan := Some p\<rparr>) s)))
       node_create_failed
       (on_step NodePlanStep s)"

definition node_create_preflight ::
  "vps_server \<Rightarrow> node_plan_form \<Rightarrow> int \<Rightarrow> jsstr \<Rightarrow> landing_panel act" where
  "node_create_preflight sv form listenPort csrfToken s =
     fetch (createWorkerCommand (the (sv_worker_id sv))
              (landing_command_payload (js ''landing_preflight'') sv) csrfToken) as_created
       (or_throw node_create_failed (\<lambda>d s.
          waitForWorkerCommandCompletion_landing (wcc_target_worker_id d) (wc_id (wcc_command d)) (sv_id sv)
            NodePreflightRunning 0
            (\<lambda>c. if wc_status c \<noteq> (js ''succeeded'')
                 then node_create_failed (Some (or_str (nullish (wc_error_message c) []) (uni ''%u9884%u68C0%u672A%u901A%u8FC7%u3002'')))
                 else node_create_plan sv form listenPort csrfToken)
            node_create_failed
            (store_latest (sv_id sv) (wcc_command d) s)))
       node_create_failed
       (on_step NodePreflightCreate s)"

definition submitSimplifiedLandingNodeCreate :: "browser \<Rightarrow> landing_panel act" where
  "submitSimplifiedLandingNodeCreate b s =
     (case la_selectedServer s of
        None \<Rightarrow> finished s
      | Some sv \<Rightarrow>
          let form = ln_form (la_create s) in
          (case node_create_guard b sv form of
             Inl e \<Rightarrow> finished (notify e s)
           | Inr listenPort \<Rightarrow>
               ensureCsrfToken_await (node_create_preflight sv form listenPort) node_create_failed
                 (notify (uni ''%u6B63%u5728%u81EA%u52A8%u6267%u884C%u9884%u68C0%u548C%u521B%u5EFA%u6D41%u7A0B%uFF1B%u5B8C%u6574%u94FE%u63A5%u53EA%u4F1A%u5728%u521B%u5EFA%u6210%u529F%u540E%u901A%u8FC7%u53D7%u63A7%u5BFC%u51FA%u663E%u793A%u3002'')
                   (on_node_create (\<lambda>x. x\<lparr>ln_plan := None, ln_formal := None, ln_created := None,
                        ln_command := None, ln_error := None\<rparr>)
                     (s\<lparr>la_submitting := True\<rparr>)))))"

definition updateNodeListenPort :: "jsstr \<Rightarrow> node_plan_form \<Rightarrow> node_plan_form" where
  "updateNodeListenPort v current =
     (let shouldFollowPort = trim (nf_nodeName current) = []
            \<or> nf_nodeName current = default_node_name (nf_listenPort current)
      in current\<lparr>nf_listenPort := v,
           nf_nodeName := (if shouldFollowPort then default_node_name v else nf_nodeName current),
           nf_protectedCreateConfirmed := False\<rparr>)"

datatype node_plan_edit =
    PlanNodeName jsstr | PlanListenPort jsstr | PlanServerName jsstr | PlanDest jsstr
  | PlanFingerprint jsstr | PlanConfirm bool

fun edit_node_plan_form :: "node_plan_edit \<Rightarrow> node_plan_form \<Rightarrow> node_plan_form" where
  "edit_node_plan_form (PlanNodeName v) f = f\<lparr>nf_nodeName := v\<rparr>"
| "edit_node_plan_form (PlanListenPort v) f = updateNodeListenPort v f"
| "edit_node_plan_form (PlanServerName v) f = f\<lparr>nf_serverName := v\<rparr>"
| "edit_node_plan_form (PlanDest v) f = f\<lparr>nf_dest := v\<rparr>"
| "edit_node_plan_form (PlanFingerprint v) f = f\<lparr>nf_fingerprint := v\<rparr>"
| "edit_node_plan_form (PlanConfirm v) f = f\<lparr>nf_protectedCreateConfirmed := v\<rparr>"

datatype server_edit = ServerName jsstr | ServerIp jsstr | ServerPort jsstr | ServerUser jsstr | ServerNotes jsstr

fun edit_server_form :: "server_edit \<Rightarrow> server_form \<Rightarrow> server_form" where
  "edit_server_form (ServerName v) f = f\<lparr>sf_name := v\<rparr>"
| "edit_server_form (ServerIp v) f = f\<lparr>sf_ip := v\<rparr>"
| "edit_server_form (ServerPort v) f = f\<lparr>sf_sshPort := v\<rparr>"
| "edit_server_form (ServerUser v) f = f\<lparr>sf_sshUser := v\<rparr>"
| "edit_server_form (ServerNotes v) f = f\<lparr>sf_notes := v\<rparr>"

datatype bootstrap_edit = BootName jsstr | BootIp jsstr | BootExpiry jsstr | BootInterface jsstr

fun edit_bootstrap_form :: "bootstrap_edit \<Rightarrow> bootstrap_form \<Rightarrow> bootstrap_form" where
  "edit_bootstrap_form (BootName v) f = f\<lparr>bf_name := v\<rparr>"
| "edit_bootstrap_form (BootIp v) f = f\<lparr>bf_ip := v\<rparr>"
| "edit_bootstrap_form (BootExpiry v) f = f\<lparr>bf_expiresInMinutes := v\<rparr>"
| "edit_bootstrap_form (BootInterface v) f = f\<lparr>bf_interfaceName := v\<rparr>"

subsection \<open>Node details and the client link\<close>

definition fetchNodeDetail ::
  "jsstr \<Rightarrow> (node_data option \<Rightarrow> landing_panel act) \<Rightarrow> (jsstr option \<Rightarrow> landing_panel act)
   \<Rightarrow> landing_panel act" where
  "fetchNodeDetail nodeId k h s =
     fetch (get_request ((js ''/api/nodes/'') @ nodeId)) as_node
       (\<lambda>result. case result of
          ApiFailure c m d \<Rightarrow>
            (\<lambda>s. k None (on_detail (\<lambda>x. x\<lparr>ld_loading := False\<rparr>) (notify (api_error_text c m) s)))
        | ApiSuccess n m \<Rightarrow> (\<lambda>s. k (Some n) (on_detail (\<lambda>x. x\<lparr>ld_loading := False\<rparr>) s)))
       (\<lambda>e s. h e (on_detail (\<lambda>x. x\<lparr>ld_loading := False\<rparr>) s))
       (on_detail (\<lambda>x. x\<lparr>ld_loading := True\<rparr>) s)"

definition show_detail :: "node_data \<Rightarrow> landing_panel \<Rightarrow> landing_panel" where
  "show_detail n =
     on_detail (\<lambda>x. x\<lparr>ld_node := Some n, ld_showFull := False, ld_showQr := False, ld_exported := None\<rparr>)"

text \<open>What the text box of the detail dialog shows, if the dialog is open.\<close>

definition share_link_of :: "landing_panel \<Rightarrow> jsstr" where
  "share_link_of s = nullish (ld_exported (la_detail s)) []"

definition share_link_box :: "landing_panel \<Rightarrow> jsstr option" where
  "share_link_box s =
     (case ld_node (la_detail s) of
        None \<Rightarrow> None
      | Some n \<Rightarrow>
          Some (if share_link_of s \<noteq> [] then
                  (if ld_showFull (la_detail s) then share_link_of s else maskShareLink (share_link_of s))
                else nullish (nd_masked_share_link n) []))"

text \<open>The callers ignore the value it returns.\<close>

definition exportSelectedNodeShareLink ::
  "browser \<Rightarrow> jsstr \<Rightarrow> jsstr \<Rightarrow> bool \<Rightarrow> bool \<Rightarrow> bool \<Rightarrow> landing_panel act
   \<Rightarrow> (jsstr option \<Rightarrow> landing_panel act) \<Rightarrow> landing_panel act" where
  "exportSelectedNodeShareLink b nodeId reason copy reveal showQr k h s =
     (if \<not> la_willConfirm s then k s
      else
        ensureCsrfToken_await
          (\<lambda>csrfToken.
             fetch (exportNodeShareLink nodeId csrfToken reason) as_share_link
               (\<lambda>result. case result of
                  ApiFailure c m d \<Rightarrow> (\<lambda>s. k (notify (api_error_text c m) s))
                | ApiSuccess d m \<Rightarrow>
                    (\<lambda>s. let link = sl_share_link d;
                             s1 = on_detail (\<lambda>x. x\<lparr>ld_exported := Some link, ld_showFull := reveal,
                                    ld_showQr := showQr\<rparr>) s
                         in if copy then
                              copyTextWithFallback b link (share_link_box s) share_link_box
                                (\<lambda>copied s. k
                                   (if copied then notify (uni ''%u5BA2%u6237%u7AEF%u94FE%u63A5%u5DF2%u590D%u5236%u5230%u526A%u8D34%u677F%uFF0C%u8BF7%u59A5%u5584%u4FDD%u5B58%uFF0C%u4E0D%u8981%u516C%u5F00%u5206%u4EAB%u3002'') s
                                    else notify (uni ''%u5F53%u524D%u6D4F%u89C8%u5668%u4E0D%u652F%u6301%u81EA%u52A8%u590D%u5236%u3002%u8BF7%u5728%u8282%u70B9%u8BE6%u60C5%u5F39%u7A97%u4E2D%u4F7F%u7528%u94FE%u63A5%u6846%u624B%u52A8%u590D%u5236%uFF0C%u52FF%u516C%u5F00%u5206%u4EAB%u3002'')
                                           (on_detail (\<lambda>x. x\<lparr>ld_showFull := True\<rparr>) s)))
                                s1
                            else k (notify (uni ''%u8282%u70B9%u94FE%u63A5%u5DF2%u4E34%u65F6%u5BFC%u51FA%uFF0C%u8BF7%u52FF%u516C%u5F00%u5206%u4EAB%u3002'') s1)))
               h)
          h s)"

definition openNodeDetail :: "browser \<Rightarrow> server_node \<Rightarrow> bool \<Rightarrow> landing_panel act" where
  "openNodeDetail b node showQr s =
     fetchNodeDetail (sn_id node)
       (\<lambda>detail. case detail of
          None \<Rightarrow> finished
        | Some n \<Rightarrow>
            (\<lambda>s. let done = (\<lambda>s. finished (notify (uni ''%u8282%u70B9%u8BE6%u60C5%u5DF2%u8BFB%u53D6%u3002%u5B8C%u6574%u5206%u4EAB%u94FE%u63A5%u9ED8%u8BA4%u9690%u85CF%u3002'') s))
                 in (if showQr
                     then exportSelectedNodeShareLink b (nd_id n) (js ''qr_code'') False False True done unhandled
                     else done) (show_detail n s)))
       unhandled
       (notify (uni ''%u6B63%u5728%u8BFB%u53D6%u8282%u70B9%u8BE6%u60C5%u3002'') s)"

definition copyNodeShareLink :: "browser \<Rightarrow> server_node \<Rightarrow> landing_panel act" where
  "copyNodeShareLink b node s =
     (let export = exportSelectedNodeShareLink b (sn_id node) (js ''client_import'') True False False finished unhandled
      in if \<not> sn_share_link_present node then finished (notify (uni ''%u8BE5%u8282%u70B9%u8FD8%u6CA1%u6709%u53EF%u590D%u5236%u7684%u5206%u4EAB%u94FE%u63A5%u3002'') s)
         else if \<not> br_clipboard b then
           fetchNodeDetail (sn_id node)
             (\<lambda>detail. case detail of
                None \<Rightarrow> finished
              | Some n \<Rightarrow> (\<lambda>s. export (show_detail n s)))
             unhandled
             (notify (uni ''%u5F53%u524D HTTP %u73AF%u5883%u53EF%u80FD%u65E0%u6CD5%u81EA%u52A8%u590D%u5236%uFF0C%u6B63%u5728%u6253%u5F00%u8282%u70B9%u8BE6%u60C5%u4EE5%u4FBF%u624B%u52A8%u590D%u5236%u3002'') s)
         else export s)"

definition shareLinkAvailable :: "node_data \<Rightarrow> bool" where
  "shareLinkAvailable n =
     (case nd_has_share_link n of
        Some x \<Rightarrow> x
      | None \<Rightarrow> (case nd_share_link_present n of
                   Some x \<Rightarrow> x
                 | None \<Rightarrow> \<not> blank (nd_masked_share_link n)))"

definition toggle_full_link :: "browser \<Rightarrow> node_data \<Rightarrow> landing_panel act" where
  "toggle_full_link b n s =
     (if share_link_of s \<noteq> [] then finished (on_detail (\<lambda>x. x\<lparr>ld_showFull := \<not> ld_showFull x\<rparr>) s)
      else exportSelectedNodeShareLink b (nd_id n) (js ''temporary_reveal'') False True False finished unhandled s)"

definition toggle_qr :: "browser \<Rightarrow> node_data \<Rightarrow> landing_panel act" where
  "toggle_qr b n s =
     (if share_link_of s \<noteq> [] then finished (on_detail (\<lambda>x. x\<lparr>ld_showQr := \<not> ld_showQr x\<rparr>) s)
      else exportSelectedNodeShareLink b (nd_id n) (js ''qr_code'') False False True finished unhandled s)"

text \<open>The QR code on the page encodes the exported link; a download is its file name and that link.\<close>

definition qr_code_shown :: "landing_panel \<Rightarrow> jsstr option" where
  "qr_code_shown s =
     (if ld_node (la_detail s) \<noteq> None \<and> ld_showQr (la_detail s) \<and> share_link_of s \<noteq> []
      then Some (share_link_of s) else None)"

definition downloadNodeQrCode :: "landing_panel \<Rightarrow> (jsstr \<times> jsstr) option \<times> landing_panel" where
  "downloadNodeQrCode s =
     (case (qr_code_shown s, ld_node (la_detail s)) of
        (Some link, Some n) \<Rightarrow>
          (Some (or_str (nd_node_name n) (js ''liveline-node'') @ (js ''-qr.svg''), link),
           notify (uni ''%u4E8C%u7EF4%u7801%u5DF2%u4E0B%u8F7D%u3002%u8BF7%u59A5%u5584%u4FDD%u5B58%uFF0C%u4E0D%u8981%u516C%u5F00%u5206%u4EAB%u3002'') s)
      | _ \<Rightarrow> (None, notify (uni ''%u8BF7%u5148%u663E%u793A%u4E8C%u7EF4%u7801%u3002'') s))"

subsection \<open>Saving\<close>

text \<open>
  A text that is no number is sent as \<^verbatim>\<open>null\<close>, as \<^verbatim>\<open>JSON.stringify\<close> writes \<^verbatim>\<open>NaN\<close>.
\<close>

definition patch_server_request :: "browser \<Rightarrow> jsstr \<Rightarrow> server_form \<Rightarrow> jsstr \<Rightarrow> api_request" where
  "patch_server_request b serverId form csrfToken =
     \<lparr>req_path = (js ''/api/vps/'') @ serverId, req_method = Some (js ''PATCH''),
      req_headers = [((js ''X-CSRF-Token''), csrfToken)],
      req_body = Some (JObj [((js ''name''), JStr (sf_name form)), ((js ''ip''), JStr (sf_ip form)),
        ((js ''ssh_port''), jopt_num (br_to_number b (sf_sshPort form))),
        ((js ''ssh_user''), JStr (sf_sshUser form)), ((js ''notes''), JStr (sf_notes form))])\<rparr>"

definition submitEdit_landing :: "browser \<Rightarrow> landing_panel act" where
  "submitEdit_landing b s =
     (case la_selectedServer s of
        None \<Rightarrow> finished s
      | Some sv \<Rightarrow>
          let caught = (\<lambda>e s. end_landing_submit (notify (error_text e (uni ''%u7F16%u8F91%u670D%u52A1%u5668%u5931%u8D25%u3002'')) s))
          in ensureCsrfToken_await
               (\<lambda>csrfToken.
                  fetch (patch_server_request b (sv_id sv) (la_serverForm s) csrfToken) as_server
                    (\<lambda>result. case result of
                       ApiFailure c m d \<Rightarrow> (\<lambda>s. end_landing_submit (notify (api_error_text c m) s))
                     | ApiSuccess d m \<Rightarrow>
                         (\<lambda>s. loadServers (\<lambda>svs. end_landing_submit) caught
                            (closeModal_landing
                              (notify (if snd d then (uni ''%u670D%u52A1%u5668%u4FE1%u606F%u5DF2%u4FDD%u5B58%uFF0CSSH %u72B6%u6001%u5DF2%u91CD%u7F6E%u4E3A%u672A%u68C0%u6D4B%u3002'')
                                    else (uni ''%u670D%u52A1%u5668%u4FE1%u606F%u5DF2%u4FDD%u5B58%u3002'')) s))))
                    caught)
               caught
               (notify (uni ''%u6B63%u5728%u4FDD%u5B58%u670D%u52A1%u5668%u4FE1%u606F%u3002'') (s\<lparr>la_submitting := True\<rparr>)))"

subsection \<open>Deletion\<close>

definition landing_delete_done_text :: "cleanup_result \<Rightarrow> jsstr" where
  "landing_delete_done_text d =
     (if cu_delete_mode d = Some (js ''offline_local_remove'') then
        (uni ''%u5DF2%u672C%u5730%u79FB%u9664%u8BB0%u5F55%u3002%u7531%u4E8E Worker %u79BB%u7EBF%uFF0C%u672A%u6267%u884C%u8FDC%u7A0B%u6E05%u7406%u3002'')
      else (uni ''%u6E05%u7406%u4EFB%u52A1%u5DF2%u521B%u5EFA%uFF1A'') @ nullish (cu_command_id d) (js ''undefined'')
        @ (uni ''%u3002%u7B49%u5F85 Worker %u6267%u884C%uFF1B%u8FDC%u7A0B%u6E05%u7406%u6210%u529F%u540E%u5C06%u8F6F%u5220%u9664%u7CFB%u7EDF%u8BB0%u5F55%u3002''))"

definition landing_delete_refused ::
  "jsstr \<Rightarrow> jsstr \<Rightarrow> jsval option \<Rightarrow> landing_panel \<Rightarrow> landing_panel" where
  "landing_delete_refused code m data s =
     (if code = (js ''REMOTE_CLEANUP_UNAVAILABLE'') \<and> isOfflineLocalRemoveOffer data
      then notify m (s\<lparr>la_deleteMode := OfflineLocalRemove\<rparr>)
      else notify (api_error_text code m) s)"

text \<open>
  The two deletions differ in the request, in the id they hold back (a server or a node) and in the
  texts; \<open>release\<close> gives the id back.
\<close>

definition landing_delete_caught ::
  "(landing_panel \<Rightarrow> landing_panel) \<Rightarrow> jsstr \<Rightarrow> jsstr option \<Rightarrow> landing_panel act" where
  "landing_delete_caught release failed e s =
     loadServers (\<lambda>svs s. end_landing_submit (notify (error_text e failed) s)) (\<lambda>e. end_landing_submit)
       (release s)"

definition landing_delete ::
  "(jsstr \<Rightarrow> api_request) \<Rightarrow> (landing_panel \<Rightarrow> landing_panel) \<Rightarrow> jsstr option
   \<Rightarrow> jsstr option \<Rightarrow> jsstr option \<Rightarrow> jsstr \<Rightarrow> landing_panel act" where
  "landing_delete request release serverId pendingServer pendingNode failed =
     (let caught = landing_delete_caught release failed
      in ensureCsrfToken_await
           (\<lambda>csrfToken.
              fetch (request csrfToken) as_cleanup
                (\<lambda>result. case result of
                   ApiFailure c m d \<Rightarrow>
                     (\<lambda>s. loadServers (\<lambda>svs s. end_landing_submit (landing_delete_refused c m d s)) caught
                        (release s))
                 | ApiSuccess d m \<Rightarrow>
                     (\<lambda>s. loadServers
                        (\<lambda>svs. alongside (scheduleServerRefresh (cu_command d) serverId)
                          (alongside
                            (refreshWhenCleanupCommandCompletes (cu_command d) serverId pendingServer pendingNode)
                            end_landing_submit))
                        caught
                        (closeModal_landing (notify (landing_delete_done_text d) s))))
                caught)
           caught)"

definition submitDelete_landing :: "landing_panel act" where
  "submitDelete_landing s =
     (case la_selectedServer s of
        None \<Rightarrow> finished s
      | Some sv \<Rightarrow>
          landing_delete
            (\<lambda>csrfToken. remoteCleanupDeleteVpsServer (sv_id sv) csrfToken
               (requiredDeleteConfirmText (la_deleteMode s)))
            (releaseServerPendingDelete (sv_id sv)) (Some (sv_id sv)) (Some (sv_id sv)) None
            (uni ''%u5220%u9664%u670D%u52A1%u5668%u5931%u8D25%u3002'')
            (notify (if la_deleteMode s = OfflineLocalRemove then
                    (uni ''%u6B63%u5728%u672C%u5730%u79FB%u9664%u843D%u5730%u670D%u52A1%u5668%u8BB0%u5F55%uFF1B%u4E0D%u4F1A%u521B%u5EFA Worker command %u6216%u6267%u884C%u8FDC%u7A0B%u6E05%u7406%u3002'')
                  else (uni ''%u6B63%u5728%u521B%u5EFA%u843D%u5730%u670D%u52A1%u5668%u8FDC%u7A0B%u6E05%u7406%u4EFB%u52A1%uFF1B%u6E05%u7406%u6210%u529F%u540E%u624D%u4F1A%u8F6F%u5220%u9664%u7CFB%u7EDF%u8BB0%u5F55%u3002''))
              ((markServerPendingDelete (sv_id sv) s)\<lparr>la_submitting := True\<rparr>)))"

definition submitDeleteNode :: "landing_panel act" where
  "submitDeleteNode s =
     (case la_selectedNode s of
        None \<Rightarrow> finished s
      | Some n \<Rightarrow>
          landing_delete
            (\<lambda>csrfToken. remoteCleanupDeleteNode (sn_id n) csrfToken
               (requiredDeleteConfirmText (la_deleteMode s)))
            (releaseNodePendingDelete (sn_id n)) (map_option sv_id (la_selectedServer s)) None (Some (sn_id n))
            (uni ''%u5220%u9664%u8282%u70B9%u5931%u8D25%u3002'')
            (notify (if la_deleteMode s = OfflineLocalRemove then
                    (uni ''%u6B63%u5728%u672C%u5730%u79FB%u9664%u8282%u70B9%u8BB0%u5F55%uFF1B%u4E0D%u4F1A%u521B%u5EFA Worker command %u6216%u6267%u884C%u8FDC%u7A0B%u6E05%u7406%u3002'')
                  else (uni ''%u6B63%u5728%u521B%u5EFA%u8282%u70B9%u8FDC%u7A0B%u6E05%u7406%u4EFB%u52A1%uFF1B%u6E05%u7406%u6210%u529F%u540E%u624D%u4F1A%u8F6F%u5220%u9664%u7CFB%u7EDF%u8BB0%u5F55%u3002''))
              ((markNodePendingDelete (sn_id n) s)\<lparr>la_submitting := True\<rparr>)))"

subsection \<open>What the markup computes\<close>

definition latestWorkerCommandForServer :: "landing_panel \<Rightarrow> vps_server \<Rightarrow> worker_command_data option" where
  "latestWorkerCommandForServer s sv =
     (case lc_latest (la_commands s) (sv_id sv) of
        Some c \<Rightarrow> Some c
      | None \<Rightarrow>
          if blank (sv_worker_id sv) then None
          else (case lc_byWorker (la_commands s) (the (sv_worker_id sv)) of
                  Some (c # cs) \<Rightarrow> Some c | _ \<Rightarrow> None))"

definition dryRunSucceeded :: "landing_panel \<Rightarrow> jsstr \<Rightarrow> bool" where
  "dryRunSucceeded s serverId \<longleftrightarrow>
     (case lc_latest (la_commands s) serverId of
        None \<Rightarrow> False
      | Some c \<Rightarrow> wc_command_type c = (js ''bbr_enable_dry_run'') \<and> wc_status c = (js ''succeeded'')
                  \<and> field (wc_result_json c) (js ''status'') = JStr (js ''succeeded''))"

definition or_val :: "jsval \<Rightarrow> jsval \<Rightarrow> jsval" where
  "or_val v w = (if truthy v then v else w)"

definition positive_port :: "jsval \<Rightarrow> bool" where
  "positive_port v = (case v of JNum n \<Rightarrow> 0 < n | _ \<Rightarrow> False)"

text \<open>The lines of the preflight summary, in their order.\<close>

definition renderLandingPreflightSummary :: "jsval \<Rightarrow> jsstr list" where
  "renderLandingPreflightSummary resultJson =
     (let system = object_or_empty (field resultJson (js ''system''));
          network = object_or_empty (field resultJson (js ''network''));
          ports = object_or_empty (field resultJson (js ''ports''));
          xrayService = serviceByName (field resultJson (js ''services'')) (js ''xray'');
          firewall = object_or_empty (field resultJson (js ''firewall''));
          xray = object_or_empty (field resultJson (js ''xray_discovery''));
          bbr = object_or_empty (field resultJson (js ''bbr''));
          warnings = int (length (array_items (field resultJson (js ''warnings''))));
          listenCount = (case field ports (js ''listening_count'') of JNum n \<Rightarrow> n | _ \<Rightarrow> 0);
          importantPorts = object_or_empty (field ports (js ''important_ports''));
          workerConfigInterface = or_val (field network (js ''worker_config_interface''))
            (or_val (field system (js ''worker_config_interface'')) (field system (js ''interface_name'')));
          defaultRouteInterface = or_val (field network (js ''default_route_interface''))
            (field network (js ''primary_interface''));
          interfaceMismatch = (field network (js ''interface_mismatch'') = JBool True);
          validListeningPorts = map numericValue (List.filter positive_port
            (map (\<lambda>item. if is_object item then field item (js ''port'') else JUndef)
              (array_items (field ports (js ''listening_summary'')))));
          bbrRecommendation = (case field bbr (js ''recommendation'') of
             JStr r \<Rightarrow> bbrRecommendationLabel r | _ \<Rightarrow> (uni ''%u672A%u8FD4%u56DE''));
          bbrModuleFiles = List.filter typeof_string (array_items (field bbr (js ''module_files'')))
      in [(uni ''%u4E3B%u673A%uFF1A'') @ stringValue_landing (field system (js ''hostname'')),
          (uni ''Worker %u914D%u7F6E%u7F51%u5361%uFF1A'') @ stringValue_landing workerConfigInterface,
          (uni ''%u7CFB%u7EDF%u9ED8%u8BA4%u516C%u7F51%u7F51%u5361%uFF1A'') @ stringValue_landing defaultRouteInterface,
          (uni ''%u9ED8%u8BA4%u516C%u7F51%u7F51%u5173%uFF1A'') @ stringValue_landing (field network (js ''default_route_gateway'')),
          (uni ''%u9ED8%u8BA4%u516C%u7F51%u7F51%u5361 IP%uFF1A'') @ stringValue_landing (field network (js ''primary_interface_ip'')),
          (uni ''%u662F%u5426%u4E0D%u4E00%u81F4%uFF1A'') @ (if interfaceMismatch then (uni ''%u662F'') else (uni ''%u5426'')),
          (uni ''%u9ED8%u8BA4%u8DEF%u7531%uFF1A'') @ stringValue_landing (field network (js ''ip_route'')),
          (uni ''%u76D1%u542C%u7AEF%u53E3%uFF1A'') @ string_of_int listenCount,
          (uni ''%u6709%u6548%u76D1%u542C%uFF1A'') @ (if validListeningPorts \<noteq> [] then join (js '', '') validListeningPorts else (uni ''%u65E0'')),
          (uni ''443%uFF1A'') @ stringValue_landing (field (field importantPorts (js ''443'')) (js ''status'')),
          (uni ''Xray%uFF1A'') @ stringValue_landing (field xrayService (js ''active'')),
          (uni ''BBR%uFF1A'') @ bbrRecommendation,
          (uni ''BBR %u53EF%u7528%u7B97%u6CD5%uFF1A'') @ stringValue_landing (field bbr (js ''available_congestion_control'')),
          (uni ''%u5F53%u524D%u62E5%u585E%u63A7%u5236%uFF1A'') @ stringValue_landing (field bbr (js ''current_congestion_control'')),
          (uni ''%u9ED8%u8BA4%u961F%u5217%uFF1A'') @ stringValue_landing (field bbr (js ''default_qdisc'')),
          (uni ''BBR %u6A21%u5757%uFF1A'') @ stringValue_landing (field bbr (js ''module_status'')),
          (uni ''modinfo%uFF1A'') @ stringValue_landing (field bbr (js ''modinfo_status'')),
          (uni ''%u6A21%u5757%u6587%u4EF6%uFF1A'') @ (if bbrModuleFiles \<noteq> [] then string_of_int (int (length bbrModuleFiles)) @ (uni '' %u4E2A'')
                        else (uni ''%u672A%u8FD4%u56DE'')),
          (uni ''%u5185%u6838%u914D%u7F6E%uFF1A'') @ stringValue_landing (field bbr (js ''kernel_config_bbr'')),
          (uni ''%u9632%u706B%u5899%uFF1Aufw '') @ (if truthy (field firewall (js ''ufw_status'')) then (uni ''%u5DF2%u8FD4%u56DE%u6458%u8981'') else (uni ''%u672A%u8FD4%u56DE'')),
          (uni ''%u914D%u7F6E%u53D1%u73B0%uFF1A'') @ (case field xray (js ''paths'') of JArr xs \<Rightarrow> (uni ''%u5DF2%u8FD4%u56DE%u5143%u6570%u636E'') | _ \<Rightarrow> (uni ''%u672A%u8FD4%u56DE'')),
          (uni ''%u8B66%u544A%uFF1A'') @ numericValue (JNum warnings)])"

text \<open>The lines of a BBR plan: its status, its summary, the reasons, actions, confirmations and bounds.\<close>

definition bbr_action_line :: "bbr_action \<Rightarrow> jsstr" where
  "bbr_action_line a =
     bbrActionLabel (ba_step a)
       @ (if blank (ba_path_preview a) then [] else (js '' / '') @ the (ba_path_preview a))
       @ (if blank (ba_command_preview a) then [] else (js '' / '') @ the (ba_command_preview a))
       @ (uni '' / %u672A%u6267%u884C'')"

definition renderBbrEnablePlan :: "(jsstr \<Rightarrow> jsstr) \<Rightarrow> bbr_plan \<Rightarrow> jsstr list" where
  "renderBbrEnablePlan to_locale plan =
     (let bbr = object_or_empty (bp_bbr plan)
      in [(uni ''BBR %u5F00%u542F%u65B9%u6848%uFF1A'') @ (if bp_already_enabled plan then (uni ''%u5DF2%u5F00%u542F'')
            else if bp_ready plan then (uni ''%u53EF%u8FDB%u5165%u540E%u7EED%u5BA1%u6279'') else (uni ''%u6682%u4E0D%u53EF%u5F00%u542F'')),
          (uni ''%u63A8%u8350%uFF1A'') @ bbrRecommendationLabel (bp_recommendation plan),
          (uni ''%u6700%u65B0%u9884%u68C0%uFF1A'') @ or_str (nullish (bp_latest_preflight_id plan) []) (uni ''%u65E0''),
          (uni ''%u9884%u68C0%u65F6%u95F4%uFF1A'') @ formatTime_landing to_locale (bp_latest_preflight_at plan),
          (uni ''%u5F53%u524D%u62E5%u585E%u63A7%u5236%uFF1A'') @ stringValue_landing (field bbr (js ''current_congestion_control'')),
          (uni ''%u53EF%u7528%u7B97%u6CD5%uFF1A'') @ stringValue_landing (field bbr (js ''available_congestion_control'')),
          (uni ''%u9ED8%u8BA4%u961F%u5217%uFF1A'') @ stringValue_landing (field bbr (js ''default_qdisc'')),
          (uni ''%u6A21%u5757%u72B6%u6001%uFF1A'') @ stringValue_landing (field bbr (js ''module_status'')),
          (uni ''modinfo%uFF1A'') @ stringValue_landing (field bbr (js ''modinfo_status''))]
         @ (if bp_blocked_reasons plan \<noteq> []
            then [(uni ''%u963B%u585E%u539F%u56E0%uFF1A'') @ join (uni ''%u3001'') (map bbrRecommendationLabel (bp_blocked_reasons plan))] else [])
         @ (if bp_warnings plan \<noteq> [] then [(uni ''%u6CE8%u610F%uFF1A'') @ join (uni ''%u3001'') (bp_warnings plan)] else [])
         @ map bbr_action_line (bp_planned_actions plan)
         @ map bbrConfirmationLabel (bp_required_confirmations plan)
         @ map bbrSafetyLabel (bp_safety_boundary plan))"

text \<open>The lines of a dry run's result: its checks and the blocked reasons.\<close>

definition bbr_check_line :: "jsval \<Rightarrow> jsstr" where
  "bbr_check_line check =
     (let name = (case field check (js ''name'') of JStr s \<Rightarrow> s | _ \<Rightarrow> (js ''unknown''));
          status = (case field check (js ''status'') of JStr s \<Rightarrow> s | _ \<Rightarrow> (js ''-''))
      in bbrDryRunCheckLabel name @ (uni ''%uFF1A'') @ (if status = (js ''passed'') then (uni ''%u901A%u8FC7'') else (uni ''%u672A%u901A%u8FC7'')))"

definition renderBbrCommandResultSummary :: "jsval \<Rightarrow> jsstr list" where
  "renderBbrCommandResultSummary resultJson =
     map bbr_check_line (List.filter is_object (array_items (field resultJson (js ''dry_run_checks''))))
       @ concat (map (\<lambda>v. case v of JStr r \<Rightarrow> [bbrRecommendationLabel r] | _ \<Rightarrow> [])
           (array_items (field resultJson (js ''blocked_reasons''))))"

definition recent_command_text :: "worker_command_data \<Rightarrow> jsstr" where
  "recent_command_text c =
     (uni ''%u6700%u8FD1%u547D%u4EE4%uFF1A'') @ workerCommandTypeLabel (wc_command_type c) @ (js '' / '') @ workerCommandStatusLabel_landing (wc_status c)
       @ (if blank (wc_target_worker_version c) then [] else (js '' / Worker '') @ the (wc_target_worker_version c))
       @ (if blank (wc_result_summary c) then [] else (js '' / '') @ the (wc_result_summary c))
       @ (if blank (wc_error_message c) then [] else (js '' / '') @ the (wc_error_message c))"

definition renderRecentWorkerCommand :: "worker_command_data option \<Rightarrow> jsstr list" where
  "renderRecentWorkerCommand command =
     (case command of
        None \<Rightarrow> []
      | Some c \<Rightarrow>
          [recent_command_text c]
          @ (if wc_command_type c = (js ''landing_preflight'') \<and> wc_status c = (js ''succeeded'')
             then renderLandingPreflightSummary (wc_result_json c) else [])
          @ (if wc_command_type c = (js ''bbr_enable_dry_run'')
             then renderBbrCommandResultSummary (wc_result_json c) else []))"

text \<open>The progress bar: \<open>None\<close> when it is hidden, and for each step whether it is done or current.\<close>

datatype step_mark = StepDone | StepCurrent | StepAhead

definition node_create_steps :: "node_create_step list" where
  "node_create_steps = [NodePreflightCreate, NodePreflightRunning, NodePlanStep, NodeCommandCreate,
     NodeCommandRunning, NodeRefresh, NodeComplete]"

fun index_from :: "nat \<Rightarrow> 'a list \<Rightarrow> 'a \<Rightarrow> nat option" where
  "index_from n [] x = None"
| "index_from n (y # ys) x = (if x = y then Some n else index_from (Suc n) ys x)"

definition node_create_progress :: "node_create_step \<Rightarrow> (jsstr \<times> step_mark) list option" where
  "node_create_progress step =
     (if step = NodeIdle \<or> step = NodeFailed then None
      else Some (map (\<lambda>(i, st). (NODE_CREATE_PROGRESS_LABELS st,
        case index_from 0 node_create_steps step of
          None \<Rightarrow> StepAhead
        | Some k \<Rightarrow> if i < k then StepDone else if i = k then StepCurrent else StepAhead))
        (List.enumerate 0 node_create_steps)))"

text \<open>The entry shown for a created node is computed from the server that is selected now.\<close>

definition created_node_entry :: "landing_panel \<Rightarrow> jsstr option" where
  "created_node_entry s =
     map_option (\<lambda>n. nodeEntryLabel n (case la_selectedServer s of None \<Rightarrow> [] | Some sv \<Rightarrow> sv_ip sv))
       (ln_created (la_create s))"

end
