(* ===== verification/AsyncConduct.thy ===== *)
theory AsyncConduct
  imports Async
begin

text \<open>
  What an act does to the outside and to the state. \<open>conducts E A t\<close>: whenever the task \<open>t\<close>
  or one it leaves behind is resumed, the state moves by \<open>E\<close>, and all they ever ask for is in
  \<open>A\<close>. \<open>E\<close> can be the step relation of an abstract specification, which makes this a
  refinement, event by event; \<open>A\<close> can be what the code is allowed to send.
\<close>

fun asks :: "'s task \<Rightarrow> effect set" where
  "asks (Call e k) = {e}"
| "asks (CallAll es k) = set es"
| "asks (EachOf xs k h) = fst ` set xs"
| "asks (Timer d alive a) = {}"

inductive conducts :: "('s \<Rightarrow> 's \<Rightarrow> bool) \<Rightarrow> effect set \<Rightarrow> 's task \<Rightarrow> bool" for E A where
  conducts: "asks t \<subseteq> A \<Longrightarrow> (\<And>ev s s' new. resume ev t s = Some (s', new) \<Longrightarrow>
      E s s' \<and> (\<forall>u \<in> set new. conducts E A u)) \<Longrightarrow> conducts E A t"

inductive_cases conductsE: "conducts E A t"

lemma conducts_asks: "conducts E A t \<Longrightarrow> asks t \<subseteq> A"
  by (elim conductsE)

lemma conducts_resume:
  "conducts E A t \<Longrightarrow> resume ev t s = Some (s', new) \<Longrightarrow> E s s' \<and> (\<forall>u \<in> set new. conducts E A u)"
  by (elim conductsE) blast

text \<open>
  \<open>does E A P c\<close>: \<open>P\<close> holds of the state of \<open>c\<close>, and its tasks conduct themselves. For an act
  started by the user, \<open>P\<close> says how the state has moved since the click.
\<close>

definition does :: "('s \<Rightarrow> 's \<Rightarrow> bool) \<Rightarrow> effect set \<Rightarrow> ('s \<Rightarrow> bool) \<Rightarrow> 's \<times> 's task list \<Rightarrow> bool" where
  "does E A P c \<longleftrightarrow> P (fst c) \<and> (\<forall>t \<in> set (snd c). conducts E A t)"

named_theorems does_intros \<open>how acts are built from acts that conduct themselves\<close>

lemma does_pair: "P s \<Longrightarrow> (\<And>t. t \<in> set ts \<Longrightarrow> conducts E A t) \<Longrightarrow> does E A P (s, ts)"
  by (simp add: does_def)

lemma doesD: "does E A P (s, ts) \<Longrightarrow> P s \<and> (\<forall>t \<in> set ts. conducts E A t)"
  by (simp add: does_def)

lemma does_finished [does_intros]: "P s \<Longrightarrow> does E A P (finished s)"
  by (simp add: does_def finished_def)

lemma does_unhandled [does_intros]: "P s \<Longrightarrow> does E A P (unhandled e s)"
  by (simp add: does_def unhandled_def)

lemma conducts_call:
  assumes "e \<in> A" and "\<And>r a s. k r = Some a \<Longrightarrow> does E A (E s) (a s)"
  shows "conducts E A (Call e k)"
proof (rule conducts.intros)
  fix ev s s' new
  assume "resume ev (Call e k) s = Some (s', new)"
  then obtain r a where "k r = Some a" "a s = (s', new)" by (cases ev) auto
  with assms(2) [of r a s] show "E s s' \<and> (\<forall>u \<in> set new. conducts E A u)"
    by (simp add: does_def)
qed (use assms(1) in simp)

lemma does_call [does_intros]:
  "P s \<Longrightarrow> e \<in> A \<Longrightarrow> (\<And>x s. does E A (E s) (k x s)) \<Longrightarrow> does E A P (call e as k s)"
  by (auto simp: call_def intro!: does_pair conducts_call)

lemma does_fetch [does_intros]:
  "P s \<Longrightarrow> Http q \<in> A \<Longrightarrow> (\<And>r s. does E A (E s) (k r s)) \<Longrightarrow> (\<And>e s. does E A (E s) (h e s))
    \<Longrightarrow> does E A P (fetch q as k h s)"
  unfolding fetch_def by (rule does_call) (auto split: settled.split)

lemma does_call_all [does_intros]:
  assumes "P s" and "set es \<subseteq> A" and "\<And>x s. does E A (E s) (k x s)"
  shows "does E A P (call_all es as k s)"
  unfolding call_all_def
proof (rule does_pair)
  fix t
  assume t: "t \<in> set [CallAll es (\<lambda>rs. map_option k (as rs))]"
  show "conducts E A t"
  proof (rule conducts.intros)
    fix ev s s' new
    assume "resume ev t s = Some (s', new)"
    then obtain x where "k x s = (s', new)" using t by (cases ev) (auto split: if_splits)
    with assms(3) [of s x] show "E s s' \<and> (\<forall>u \<in> set new. conducts E A u)" by (simp add: does_def)
  qed (use t assms(2) in simp)
qed (rule assms(1))

lemma conducts_timer:
  assumes "\<And>s. does E A (E s) (a s)" shows "conducts E A (Timer d alive a)"
proof (rule conducts.intros)
  fix ev s s' new
  assume "resume ev (Timer d alive a) s = Some (s', new)"
  then have "a s = (s', new)" by (cases ev) (auto split: if_splits)
  with assms [of s] show "E s s' \<and> (\<forall>u \<in> set new. conducts E A u)" by (simp add: does_def)
qed simp

lemma does_sleep [does_intros]:
  "P s \<Longrightarrow> (\<And>s. does E A (E s) (k s)) \<Longrightarrow> does E A P (sleep d k s)"
  by (auto simp: sleep_def intro!: does_pair conducts_timer)

lemma does_alongside [does_intros]:
  assumes "does E A P (f s)" and "\<And>s. P s \<Longrightarrow> does E A P (k s)"
  shows "does E A P (alongside f k s)"
proof -
  obtain s1 ts where f: "f s = (s1, ts)" by fastforce
  obtain s2 us where k: "k s1 = (s2, us)" by fastforce
  show ?thesis
    using assms(1) assms(2) [of s1] f k by (auto simp: alongside_def does_def)
qed

text \<open>A \<^verbatim>\<open>Promise.all\<close> of calls that each update the state.\<close>

lemma conducts_detached:
  fixes x :: "'a each"
  assumes "fst x \<in> A" and "\<And>s. E s s" and "\<And>r f s. snd x r = Some (Inr f) \<Longrightarrow> E s (f s)"
  shows "conducts E A (detached x)"
  unfolding detached_def
proof (rule conducts_call [OF assms(1)])
  fix r a s
  assume "map_option (\<lambda>v s. case v of Inl e \<Rightarrow> (s, []) | Inr f \<Rightarrow> (f s, [] :: 'a task list)) (snd x r) = Some a"
  then obtain v where "snd x r = Some v"
    and "a = (\<lambda>s. case v of Inl e \<Rightarrow> (s, []) | Inr f \<Rightarrow> (f s, [] :: 'a task list))" by auto
  then show "does E A (E s) (a s)" using assms(2,3) by (cases v) (auto simp: does_def)
qed

lemma conducts_each_of:
  assumes "\<And>s. E s s" and "\<And>s t. E s t \<Longrightarrow> does E A (E s) (k t)" and "\<And>e s. does E A (E s) (h e s)"
    and "\<forall>x \<in> set xs. fst x \<in> A \<and> (\<forall>r f s. snd x r = Some (Inr f) \<longrightarrow> E s (f s))"
  shows "conducts E A (EachOf xs k h)"
  using assms(4)
proof (induction "length xs" arbitrary: xs rule: less_induct)
  case less
  show ?case
  proof (rule conducts.intros)
    show "asks (EachOf xs k h) \<subseteq> A" using less(2) by auto
    fix ev s s' new
    assume r: "resume ev (EachOf xs k h) s = Some (s', new)"
    then obtain i j v where j: "j < length xs" and ev: "ev = ReplyEach i j v"
      by (cases ev) (simp_all split: if_splits)
    have sub: "\<forall>x \<in> set (without j xs). fst x \<in> A \<and> (\<forall>r f s. snd x r = Some (Inr f) \<longrightarrow> E s (f s))"
      using less(2) set_without [of j xs] by auto
    obtain y where y: "snd (xs ! j) v = Some y"
      using r j ev by (auto split: option.splits)
    show "E s s' \<and> (\<forall>u \<in> set new. conducts E A u)"
    proof (cases y)
      case (Inl e)
      then have "s' = fst (h e s)" "new = map detached (without j xs) @ snd (h e s)"
        using r ev j y by auto
      with assms(3) [of s e] sub show ?thesis
        by (auto simp: does_def intro!: conducts_detached assms(1))
    next
      case (Inr f)
      have f: "E s (f s)" using less(2) nth_mem [OF j] y Inr by blast
      show ?thesis
      proof (cases "without j xs = []")
        case True
        then have "k (f s) = (s', new)" using r ev j y Inr by simp
        with assms(2) [OF f] show ?thesis by (simp add: does_def)
      next
        case False
        then have "s' = f s" "new = [EachOf (without j xs) k h]" using r ev j y Inr by auto
        with f less(1) [of "without j xs"] sub length_without [OF j] show ?thesis by simp
      qed
    qed
  qed
qed

lemma does_each_of:
  assumes "P s" and "does E A P (k s)" and "\<And>s. E s s" and "\<And>s t. E s t \<Longrightarrow> does E A (E s) (k t)"
    and "\<And>e s. does E A (E s) (h e s)"
    and "\<forall>x \<in> set xs. fst x \<in> A \<and> (\<forall>r f s. snd x r = Some (Inr f) \<longrightarrow> E s (f s))"
  shows "does E A P (each_of xs k h s)"
  using assms by (auto simp: each_of_def intro!: does_pair conducts_each_of)

lemma does_if [does_intros]:
  "(b \<Longrightarrow> does E A P (a s)) \<Longrightarrow> (\<not> b \<Longrightarrow> does E A P (c s)) \<Longrightarrow> does E A P ((if b then a else c) s)"
  by simp

lemma perform_conducts:
  assumes "perform ev (s, ts) = Some (s', ts')" and "\<forall>t \<in> set ts. conducts E A t"
  shows "E s s' \<and> (\<forall>t \<in> set ts'. conducts E A t)"
proof -
  let ?i = "event_index ev"
  obtain new where i: "?i < length ts" and r: "resume ev (ts ! ?i) s = Some (s', new)"
    and ts': "ts' = take ?i ts @ new @ drop (Suc ?i) ts"
    using assms(1) by (auto simp: perform_def split: if_splits option.splits)
  have "E s s' \<and> (\<forall>u \<in> set new. conducts E A u)"
    by (rule conducts_resume [OF _ r]) (use assms(2) i in simp)
  then show ?thesis using assms(2) ts' by (auto dest: in_set_takeD in_set_dropD)
qed

text \<open>
  The system: an invariant \<open>I\<close> that clicks and events preserve, and with it the conduct of every
  waiting task.
\<close>

lemma system_conducts:
  assumes "system_reach may s0 c" and "I s0"
    and act: "\<And>s a. may s a \<Longrightarrow> I s \<Longrightarrow> does E A I (a s)"
    and event: "\<And>s s'. E s s' \<Longrightarrow> I s \<Longrightarrow> I s'"
  shows "does E A I c"
  using assms(1)
proof (induction rule: system_reach.induct)
  case initial
  show ?case using assms(2) by (simp add: does_def)
next
  case (started s ts a)
  then have "does E A I (a s)" by (intro act) (auto simp: does_def)
  with started show ?case by (auto simp: does_def)
next
  case (resumed c ev c')
  then show ?case
    using perform_conducts [of ev "fst c" "snd c" "fst c'" "snd c'" E A] event
    by (auto simp: does_def)
qed

end
