(* ===== verification/LandingSystem.thy ===== *)
theory LandingSystem
  imports LandingActions AsyncConduct
begin

text \<open>
  The landing server panel as a system of interleaved handlers: what the user can start, the contract
  of its invariants, the two lists that implement directories, and the flags of its buttons.
\<close>

subsection \<open>What the user can start\<close>

definition listed_server :: "landing_panel \<Rightarrow> vps_server \<Rightarrow> bool" where
  "listed_server s sv \<longleftrightarrow> \<not> la_loading s \<and> sv \<in> set (la_servers s)"

definition bbr_plan_approved :: "landing_panel \<Rightarrow> vps_server \<Rightarrow> bool" where
  "bbr_plan_approved s sv \<longleftrightarrow>
     (case lb_plans (la_bbr s) (sv_id sv) of None \<Rightarrow> False | Some p \<Rightarrow> bp_ready p \<and> \<not> bp_already_enabled p)"

definition command_button :: "landing_panel \<Rightarrow> vps_server \<Rightarrow> bool" where
  "command_button s sv \<longleftrightarrow>
     listed_server s sv \<and> can_command sv \<and> lc_loadingId (la_commands s) \<noteq> sv_worker_id sv"

text \<open>
  The buttons and inputs with the conditions under which the panel shows and enables them;
  \<open>LandingWorld\<close> lets the clock advance and settles what a dialog and a copy would answer.
\<close>

inductive landing_may :: "browser \<Rightarrow> landing_panel \<Rightarrow> landing_panel act \<Rightarrow> bool" for b where
  LandingRefresh: "landing_may b s (loadServers (\<lambda>svs. finished) unhandled)"
| LandingWorld: "la_clock s \<le> now
    \<Longrightarrow> landing_may b s (\<lambda>s. finished (s\<lparr>la_clock := now, la_willConfirm := c, la_execCopies := e\<rparr>))"
| LandingUnmount: "landing_may b s
    (\<lambda>s. finished (clearWorkerInstallAutoClose_landing (clearWorkerInstallPolling_landing s)))"
| OpenAddServer: "landing_may b s (\<lambda>s. finished (openAddServer s))"
| OpenWorkerCommand: "listed_server s sv \<Longrightarrow> landing_may b s (\<lambda>s. finished (openWorkerCommand sv s))"
| OpenEditServer: "listed_server s sv \<Longrightarrow> landing_may b s (\<lambda>s. finished (openEdit_landing sv s))"
| OpenDeleteServer: "listed_server s sv \<Longrightarrow> landing_may b s (\<lambda>s. finished (openDelete_landing sv s))"
| OpenDeleteNode: "listed_server s sv \<Longrightarrow> n \<in> set (sv_nodes sv)
    \<Longrightarrow> landing_may b s (\<lambda>s. finished (openDeleteNode sv n s))"
| OpenNodePlan: "listed_server s sv \<Longrightarrow> landing_may b s (\<lambda>s. finished (openNodePlan sv s))"
| WorkerCheck: "command_button s sv \<Longrightarrow> landing_may b s (runWorkerCheck_landing sv)"
| LandingPreflight: "command_button s sv \<Longrightarrow> landing_may b s (runLandingPreflight sv)"
| BbrPlan: "listed_server s sv \<Longrightarrow> lb_planLoading (la_bbr s) \<noteq> Some (sv_id sv)
    \<Longrightarrow> landing_may b s (openBbrEnablePlan sv)"
| BbrDryRun: "listed_server s sv \<Longrightarrow> bbr_plan_approved s sv
    \<Longrightarrow> lb_dryRunLoading (la_bbr s) \<noteq> Some (sv_id sv) \<Longrightarrow> landing_may b s (openBbrEnableDryRun sv)"
| BbrConfirm: "listed_server s sv \<Longrightarrow> bbr_plan_approved s sv \<Longrightarrow> dryRunSucceeded s (sv_id sv)
    \<Longrightarrow> lb_realLoading (la_bbr s) \<noteq> Some (sv_id sv)
    \<Longrightarrow> landing_may b s (\<lambda>s. finished (openBbrRealExecutionConfirm sv s))"
| BbrText: "lb_confirmServer (la_bbr s) \<noteq> None
    \<Longrightarrow> landing_may b s (\<lambda>s. finished (on_bbr (\<lambda>x. x\<lparr>lb_confirmText := v\<rparr>) s))"
| BbrCancel: "lb_confirmServer (la_bbr s) \<noteq> None
    \<Longrightarrow> landing_may b s (\<lambda>s. finished (closeBbrRealExecutionConfirm s))"
| BbrExecute: "lb_confirmServer (la_bbr s) = Some sv \<Longrightarrow> lb_realLoading (la_bbr s) \<noteq> Some (sv_id sv)
    \<Longrightarrow> landing_may b s submitBbrRealExecution"
| CancelModal: "la_modalMode s \<notin> {None, Some NodePlanModal}
    \<Longrightarrow> landing_may b s (\<lambda>s. finished (closeModal_landing s))"
| BootstrapInput: "la_modalMode s \<in> {Some AddServerModal, Some WorkerCommandModal}
    \<Longrightarrow> (la_modalMode s = Some WorkerCommandModal \<longrightarrow> (\<forall>v. e \<noteq> BootName v \<and> e \<noteq> BootIp v))
    \<Longrightarrow> landing_may b s (\<lambda>s. finished (on_install (\<lambda>x. x\<lparr>li_form := edit_bootstrap_form e (li_form x)\<rparr>) s))"
| GenerateCommand: "la_modalMode s \<in> {Some AddServerModal, Some WorkerCommandModal} \<Longrightarrow> \<not> la_submitting s
    \<Longrightarrow> landing_may b s (generateWorkerInstallCommand b (js ''landing''))"
| CopyCommand: "install_box s \<noteq> None \<Longrightarrow> landing_may b s (copyInstallCommand b)"
| ServerInput: "la_modalMode s = Some EditServerModal
    \<Longrightarrow> landing_may b s (\<lambda>s. finished (s\<lparr>la_serverForm := edit_server_form f (la_serverForm s)\<rparr>))"
| SaveServer: "la_modalMode s = Some EditServerModal \<Longrightarrow> \<not> la_submitting s
    \<Longrightarrow> landing_may b s (submitEdit_landing b)"
| ConfirmDeleteServer: "la_modalMode s = Some DeleteServerModal \<Longrightarrow> la_selectedServer s \<noteq> None
    \<Longrightarrow> \<not> la_submitting s \<Longrightarrow> landing_may b s submitDelete_landing"
| ConfirmDeleteNode: "la_modalMode s = Some DeleteNodeModal \<Longrightarrow> la_selectedServer s \<noteq> None
    \<Longrightarrow> la_selectedNode s \<noteq> None \<Longrightarrow> \<not> la_submitting s \<Longrightarrow> landing_may b s submitDeleteNode"
| NodePlanInput: "la_modalMode s = Some NodePlanModal \<Longrightarrow> la_selectedServer s \<noteq> None
    \<Longrightarrow> landing_may b s (\<lambda>s. finished (on_node_create (\<lambda>x. x\<lparr>ln_form := edit_node_plan_form p (ln_form x)\<rparr>) s))"
| CreateNode: "la_modalMode s = Some NodePlanModal \<Longrightarrow> la_selectedServer s \<noteq> None \<Longrightarrow> \<not> la_submitting s
    \<Longrightarrow> ln_step (la_create s) \<noteq> NodeComplete \<Longrightarrow> nf_protectedCreateConfirmed (ln_form (la_create s))
    \<Longrightarrow> landing_may b s (submitSimplifiedLandingNodeCreate b)"
| CloseNodeModal: "la_modalMode s = Some NodePlanModal
    \<Longrightarrow> landing_may b s (closeNodeCreateModal (ln_step (la_create s) = NodeComplete))"
| NodeDetail: "listed_server s sv \<Longrightarrow> n \<in> set (sv_nodes sv) \<Longrightarrow> landing_may b s (openNodeDetail b n False)"
| NodeQr: "listed_server s sv \<Longrightarrow> n \<in> set (sv_nodes sv) \<Longrightarrow> sn_share_link_present n
    \<Longrightarrow> landing_may b s (openNodeDetail b n True)"
| NodeLink: "listed_server s sv \<Longrightarrow> n \<in> set (sv_nodes sv) \<Longrightarrow> sn_share_link_present n
    \<Longrightarrow> landing_may b s (copyNodeShareLink b n)"
| CreatedLink: "la_modalMode s = Some NodePlanModal \<Longrightarrow> ln_created (la_create s) = Some n
    \<Longrightarrow> landing_may b s (copyNodeShareLink b n)"
| CreatedDetail: "la_modalMode s = Some NodePlanModal \<Longrightarrow> ln_created (la_create s) = Some n
    \<Longrightarrow> landing_may b s (openNodeDetail b n q)"
| CloseDetail: "ld_node (la_detail s) \<noteq> None \<Longrightarrow> landing_may b s (\<lambda>s. finished (closeNodeDetail s))"
| DetailCopy: "ld_node (la_detail s) = Some d \<Longrightarrow> shareLinkAvailable d \<Longrightarrow> landing_may b s
    (exportSelectedNodeShareLink b (nd_id d) (js ''client_import'') True False False finished unhandled)"
| DetailReveal: "ld_node (la_detail s) = Some d \<Longrightarrow> shareLinkAvailable d \<Longrightarrow> landing_may b s (toggle_full_link b d)"
| DetailQr: "ld_node (la_detail s) = Some d \<Longrightarrow> shareLinkAvailable d \<Longrightarrow> landing_may b s (toggle_qr b d)"
| DownloadNodeQr: "qr_code_shown s \<noteq> None \<Longrightarrow> landing_may b s (\<lambda>s. finished (snd (downloadNodeQrCode s)))"

abbreviation landing_reach :: "browser \<Rightarrow> landing_panel \<times> landing_panel task list \<Rightarrow> bool" where
  "landing_reach b \<equiv> system_reach (landing_may b) landing_initial"

declare landing_cleanup_polls.simps [simp del] pollWorkerInstallHeartbeat.simps [simp del]
  bbr_polls.simps [simp del] waitForWorkerCommandCompletion_landing.simps [simp del]

subsection \<open>The flags\<close>

datatype landing_flag = Submitting | CommandLoading | PlanLoading | DryRunLoading | RealLoading | DetailLoading

fun raised :: "landing_flag \<Rightarrow> landing_panel \<Rightarrow> bool" where
  "raised Submitting s = la_submitting s"
| "raised CommandLoading s = (lc_loadingId (la_commands s) \<noteq> None)"
| "raised PlanLoading s = (lb_planLoading (la_bbr s) \<noteq> None)"
| "raised DryRunLoading s = (lb_dryRunLoading (la_bbr s) \<noteq> None)"
| "raised RealLoading s = (lb_realLoading (la_bbr s) \<noteq> None)"
| "raised DetailLoading s = ld_loading (la_detail s)"

subsection \<open>The contract of an invariant\<close>

text \<open>
  A predicate of the panel that survives changes outside the lists, the pending ids, the polling, the
  selection and the flags, and the primitive operations on these, is kept by every handler.
\<close>

definition landing_frame :: "landing_panel \<Rightarrow> landing_panel \<Rightarrow> bool" where
  "landing_frame s t \<longleftrightarrow> la_servers t = la_servers s \<and> la_pendingServers t = la_pendingServers s
     \<and> la_pendingNodes t = la_pendingNodes s
     \<and> li_pollServerId (la_install t) = li_pollServerId (la_install s)
     \<and> li_pollContext (la_install t) = li_pollContext (la_install s)
     \<and> la_modalMode t = la_modalMode s \<and> la_selectedServer t = la_selectedServer s
     \<and> la_selectedNode t = la_selectedNode s \<and> (\<forall>g. raised g t \<longrightarrow> raised g s)"

lemma landing_frameI:
  assumes "la_servers t = la_servers s" "la_pendingServers t = la_pendingServers s"
    "la_pendingNodes t = la_pendingNodes s"
    "li_pollServerId (la_install t) = li_pollServerId (la_install s)"
    "li_pollContext (la_install t) = li_pollContext (la_install s)"
    "la_modalMode t = la_modalMode s" "la_selectedServer t = la_selectedServer s"
    "la_selectedNode t = la_selectedNode s"
    "la_submitting t \<longrightarrow> la_submitting s"
    "lc_loadingId (la_commands t) \<noteq> None \<longrightarrow> lc_loadingId (la_commands s) \<noteq> None"
    "lb_planLoading (la_bbr t) \<noteq> None \<longrightarrow> lb_planLoading (la_bbr s) \<noteq> None"
    "lb_dryRunLoading (la_bbr t) \<noteq> None \<longrightarrow> lb_dryRunLoading (la_bbr s) \<noteq> None"
    "lb_realLoading (la_bbr t) \<noteq> None \<longrightarrow> lb_realLoading (la_bbr s) \<noteq> None"
    "ld_loading (la_detail t) \<longrightarrow> ld_loading (la_detail s)"
  shows "landing_frame s t"
  unfolding landing_frame_def
proof (intro conjI allI)
  show "raised g t \<longrightarrow> raised g s" for g using assms by (cases g) auto
qed (rule assms)+

definition landing_poll_for :: "jsstr \<Rightarrow> install_context \<Rightarrow> landing_panel \<Rightarrow> landing_panel" where
  "landing_poll_for i c = on_install (\<lambda>x. x\<lparr>li_pollServerId := Some i, li_pollContext := Some c\<rparr>)"

definition selection_fits :: "landing_modal option \<Rightarrow> vps_server option \<Rightarrow> server_node option \<Rightarrow> bool" where
  "selection_fits m sv n \<longleftrightarrow>
     (case m of
        None \<Rightarrow> sv = None \<and> n = None
      | Some AddServerModal \<Rightarrow> sv = None
      | Some DeleteNodeModal \<Rightarrow> sv \<noteq> None \<and> n \<noteq> None
      | Some other \<Rightarrow> sv \<noteq> None)"

definition select :: "landing_modal option \<Rightarrow> vps_server option \<Rightarrow> server_node option \<Rightarrow> landing_panel \<Rightarrow> landing_panel" where
  "select m sv n s = s\<lparr>la_modalMode := m, la_selectedServer := sv, la_selectedNode := n\<rparr>"

locale landing_invariant =
  fixes I :: "landing_panel \<Rightarrow> bool"
  assumes framed: "I s \<Longrightarrow> landing_frame s t \<Longrightarrow> I t"
    and reloaded: "I s \<Longrightarrow> I (setVisibleServers svs s)"
    and marked_server: "I s \<Longrightarrow> I (markServerPendingDelete i s)"
    and released_server: "I s \<Longrightarrow> I (releaseServerPendingDelete i s)"
    and marked_node: "I s \<Longrightarrow> I (markNodePendingDelete i s)"
    and released_node: "I s \<Longrightarrow> I (releaseNodePendingDelete i s)"
    and stopped: "I s \<Longrightarrow> I (clearWorkerInstallPolling_landing s)"
    and polled: "I s \<Longrightarrow> i \<notin> la_pendingServers s \<Longrightarrow> I (landing_poll_for i c s)"
    and polled_in_vain: "I s \<Longrightarrow> I (clearWorkerInstallPolling_landing (landing_poll_for i c s))"
    and selected: "I s \<Longrightarrow> selection_fits m sv n \<Longrightarrow> I (select m sv n s)"
begin

lemma updates [simp]:
  "I s \<Longrightarrow> I (notify m s)"
  "I s \<Longrightarrow> I (s\<lparr>la_loading := x\<rparr>)"
  "I s \<Longrightarrow> I (s\<lparr>la_submitting := False\<rparr>)"
  "I s \<Longrightarrow> I (s\<lparr>la_deleteMode := dm\<rparr>)"
  "I s \<Longrightarrow> I (s\<lparr>la_serverForm := f\<rparr>)"
  "I s \<Longrightarrow> I (s\<lparr>la_pasteboard := p\<rparr>)"
  "I s \<Longrightarrow> I (s\<lparr>la_clock := now, la_willConfirm := x, la_execCopies := y\<rparr>)"
  "I s \<Longrightarrow> I (s\<lparr>la_nextTimer := k\<rparr>)"
  "I s \<Longrightarrow> I (on_node_create h s)"
  "I s \<Longrightarrow> I (clear_timer t s)"
  "I s \<Longrightarrow> I (on_install (\<lambda>x. x\<lparr>li_form := bf x, li_token := tk, li_heartbeatMessage := m\<rparr>) s)"
  "I s \<Longrightarrow> I (on_install (\<lambda>x. x\<lparr>li_form := bf x\<rparr>) s)"
  "I s \<Longrightarrow> I (on_install (\<lambda>x. x\<lparr>li_token := tk, li_heartbeatMessage := m\<rparr>) s)"
  "I s \<Longrightarrow> I (on_install (\<lambda>x. x\<lparr>li_token := tk\<rparr>) s)"
  "I s \<Longrightarrow> I (on_install (\<lambda>x. x\<lparr>li_autoCloseTimeout := t1\<rparr>) s)"
  "I s \<Longrightarrow> I (on_install (\<lambda>x. x\<lparr>li_pollTimeout := t1\<rparr>) s)"
  "I s \<Longrightarrow> I (heartbeat_says m s)"
  "I s \<Longrightarrow> I (store_latest w c s)"
  "I s \<Longrightarrow> I (store_list w cs s)"
  "I s \<Longrightarrow> I (set_command_loading None s)"
  "I s \<Longrightarrow> I (store_bbr_plan w p1 s)"
  "I s \<Longrightarrow> I (on_bbr (\<lambda>x. x\<lparr>lb_planLoading := None\<rparr>) s)"
  "I s \<Longrightarrow> I (on_bbr (\<lambda>x. x\<lparr>lb_dryRunLoading := None\<rparr>) s)"
  "I s \<Longrightarrow> I (on_bbr (\<lambda>x. x\<lparr>lb_realLoading := None\<rparr>) s)"
  "I s \<Longrightarrow> I (on_bbr (\<lambda>x. x\<lparr>lb_confirmText := m\<rparr>) s)"
  "I s \<Longrightarrow> I (on_bbr (\<lambda>x. x\<lparr>lb_confirmError := e\<rparr>) s)"
  "I s \<Longrightarrow> I (openBbrRealExecutionConfirm sv s)"
  "I s \<Longrightarrow> I (closeBbrRealExecutionConfirm s)"
  "I s \<Longrightarrow> I (on_detail (\<lambda>x. x\<lparr>ld_loading := False\<rparr>) s)"
  "I s \<Longrightarrow> I (on_detail (\<lambda>x. x\<lparr>ld_showFull := sf x\<rparr>) s)"
  "I s \<Longrightarrow> I (on_detail (\<lambda>x. x\<lparr>ld_showQr := sf x\<rparr>) s)"
  "I s \<Longrightarrow> I (on_detail (\<lambda>x. x\<lparr>ld_exported := l, ld_showFull := r, ld_showQr := q\<rparr>) s)"
  "I s \<Longrightarrow> I (show_detail n s)"
  "I s \<Longrightarrow> I (closeNodeDetail s)"
  by (erule framed, rule landing_frameI; simp add: notify_def on_node_create_def clear_timer_def
      on_install_def heartbeat_says_def store_latest_def store_list_def on_commands_def
      set_command_loading_def store_bbr_plan_def on_bbr_def on_detail_def show_detail_def
      closeNodeDetail_def openBbrRealExecutionConfirm_def closeBbrRealExecutionConfirm_def)+

lemmas core_updates [simp] =
  reloaded marked_server released_server marked_node released_node stopped

lemma auto_close_cleared [simp]: "I s \<Longrightarrow> I (clearWorkerInstallAutoClose_landing s)"
  by (simp add: clearWorkerInstallAutoClose_landing_def)

text \<open>Opening and closing: what a dialog sets besides the selection is in the frame.\<close>

lemma modals [simp]:
  "I s \<Longrightarrow> I (closeModal_landing s)"
  "I s \<Longrightarrow> I (openAddServer s)"
  "I s \<Longrightarrow> I (openWorkerCommand sv s)"
  "I s \<Longrightarrow> I (openEdit_landing sv s)"
  "I s \<Longrightarrow> I (openDelete_landing sv s)"
  "I s \<Longrightarrow> I (openDeleteNode sv n s)"
  "I s \<Longrightarrow> I (openNodePlan sv s)"
proof -
  assume s: "I s"
  have fits: "selection_fits None None None" "selection_fits (Some AddServerModal) None k"
    "selection_fits (Some WorkerCommandModal) (Some sv) k" "selection_fits (Some EditServerModal) (Some sv) k"
    "selection_fits (Some DeleteServerModal) (Some sv) k" "selection_fits (Some NodePlanModal) (Some sv) k"
    "selection_fits (Some DeleteNodeModal) (Some sv) (Some n)" for k
    by (simp_all add: selection_fits_def)
  note open_defs = closeModal_landing_def openAddServer_def openWorkerCommand_def openEdit_landing_def
    openDelete_landing_def openDeleteNode_def openNodePlan_def select_def on_install_def
    on_node_create_def clearWorkerInstallAutoClose_landing_def clear_timer_def
  show "I (closeModal_landing s)"
    by (rule framed [OF selected [OF s fits(1)]], rule landing_frameI) (simp_all add: open_defs)
  show "I (openAddServer s)"
    by (rule framed [OF selected [OF s fits(2)]], rule landing_frameI) (simp_all add: open_defs)
  show "I (openWorkerCommand sv s)"
    by (rule framed [OF selected [OF s fits(3)]], rule landing_frameI) (simp_all add: open_defs)
  show "I (openEdit_landing sv s)"
    by (rule framed [OF selected [OF s fits(4)]], rule landing_frameI) (simp_all add: open_defs)
  show "I (openDelete_landing sv s)"
    by (rule framed [OF selected [OF s fits(5)]], rule landing_frameI) (simp_all add: open_defs)
  show "I (openNodePlan sv s)"
    by (rule framed [OF selected [OF s fits(6)]], rule landing_frameI) (simp_all add: open_defs)
  show "I (openDeleteNode sv n s)"
    by (rule framed [OF selected [OF s fits(7)]], rule landing_frameI) (simp_all add: open_defs)
qed

lemma more_updates [simp]:
  "I s \<Longrightarrow> I (store_first i cs s)"
  "I s \<Longrightarrow> I (note_latest i c s)"
  "I s \<Longrightarrow> I (release_pending p n s)"
  "I s \<Longrightarrow> I (on_step st s)"
  "I s \<Longrightarrow> I (bbr_refused e s)"
  "I s \<Longrightarrow> I (landing_delete_refused code m x s)"
  "I s \<Longrightarrow> I (snd (downloadNodeQrCode s))"
  by (simp_all add: store_first_def note_latest_def release_pending_def on_step_def bbr_refused_def
      landing_delete_refused_def downloadNodeQrCode_def Let_def split: list.split option.split)

lemma ok_loadWorkerCommands [ok_intros]:
  assumes "P \<longrightarrow> I s" and "\<And>Q s. (Q \<longrightarrow> I s) \<Longrightarrow> ok I Q (k s)"
    and "\<And>e Q s. (Q \<longrightarrow> I s) \<Longrightarrow> ok I Q (h e s)"
  shows "ok I P (loadWorkerCommands_landing w i k h s)"
  unfolding loadWorkerCommands_landing_def using assms
  by (intro ok_fetch) (auto split: api_response.split)

lemma each_keeps_load: "each_keeps I (load_server_commands sv)"
  unfolding each_keeps_def
proof (intro allI impI)
  fix r f s
  assume "snd (load_server_commands sv) r = Some (Inr f)" and s: "I s"
  then obtain x where "(case x of
      Resolved (ApiSuccess cs m) \<Rightarrow>
        Inr (\<lambda>s. store_first (Some (sv_id sv)) cs (store_list (the (sv_worker_id sv)) cs s))
      | Resolved (ApiFailure c m d) \<Rightarrow> Inr (notify (api_error_text c m)) | Rejected e \<Rightarrow> Inl e) = Inr f"
    by (auto simp: load_server_commands_def)
  then show "I (f s)" using s by (auto split: settled.splits api_response.splits)
qed

lemma ok_loadServers [ok_intros]:
  assumes "P \<longrightarrow> I s" and "\<And>svs Q s. (Q \<longrightarrow> I s) \<Longrightarrow> ok I Q (k svs s)"
    and "\<And>e Q s. (Q \<longrightarrow> I s) \<Longrightarrow> ok I Q (h e s)"
  shows "ok I P (loadServers k h s)"
  unfolding loadServers_def using assms
  by (intro ok_fetch) (auto simp: Let_def intro!: ok_each_of each_keeps_load split: api_response.split)

lemma ok_loadWorkerCommands_after [ok_intros]:
  assumes "P \<longrightarrow> I s" and "\<And>Q s. (Q \<longrightarrow> I s) \<Longrightarrow> ok I Q (k s)"
    and "\<And>e Q s. (Q \<longrightarrow> I s) \<Longrightarrow> ok I Q (h e s)"
  shows "ok I P (loadWorkerCommands_after c i k h s)"
  using assms by (auto simp: loadWorkerCommands_after_def intro!: ok_loadWorkerCommands split: option.split)

lemma ok_scheduleServerRefresh [ok_intros]: "(P \<longrightarrow> I s) \<Longrightarrow> ok I P (scheduleServerRefresh c i s)"
  unfolding scheduleServerRefresh_def Let_def by (auto intro!: ok_intros)

lemma ok_landing_cleanup_finished [ok_intros]:
  "(P \<longrightarrow> I s) \<Longrightarrow> ok I P (landing_cleanup_finished i c p n s)"
  unfolding landing_cleanup_finished_def by (auto intro!: ok_intros)

lemma ok_landing_cleanup_still_running [ok_intros]:
  "(P \<longrightarrow> I s) \<Longrightarrow> ok I P (landing_cleanup_still_running i c s)"
  unfolding landing_cleanup_still_running_def by (auto intro!: ok_intros)

lemma ok_landing_cleanup_polls [ok_intros]:
  "(P \<longrightarrow> I s) \<Longrightarrow> ok I P (landing_cleanup_polls c i p n l a s)"
proof (induction c i p n l a arbitrary: P s rule: landing_cleanup_polls.induct)
  case (1 c i p n l a)
  show ?case
  proof (cases "a < CLEANUP_COMMAND_MAX_POLLS")
    case True
    have step: "ok I Q ((case result of
        ApiSuccess cmd m \<Rightarrow>
          (\<lambda>s. (if wc_status cmd \<in> set CLEANUP_COMMAND_TERMINAL_STATUSES
                then landing_cleanup_finished i cmd p n
                else landing_cleanup_polls c i p n cmd (Suc a)) (note_latest i cmd s))
      | ApiFailure e m d \<Rightarrow> landing_cleanup_polls c i p n l (Suc a)) s)" if "Q \<longrightarrow> I s" for result Q s
      using 1(1,2) True that by (cases result) (simp_all add: ok_landing_cleanup_finished)
    show ?thesis
      unfolding landing_cleanup_polls.simps [of c i p n l a] if_P [OF True]
      by (intro ok_sleep ok_fetch step ok_unhandled) (use 1(3) in blast)+
  next
    case False
    then show ?thesis by (subst landing_cleanup_polls.simps) (simp add: ok_landing_cleanup_still_running 1(3))
  qed
qed

lemma ok_refreshWhen [ok_intros]:
  "(P \<longrightarrow> I s) \<Longrightarrow> ok I P (refreshWhenCleanupCommandCompletes c i p n s)"
  unfolding refreshWhenCleanupCommandCompletes_def by (auto intro!: ok_intros split: option.split)

lemma ok_bbr_polls [ok_intros]: "(P \<longrightarrow> I s) \<Longrightarrow> ok I P (bbr_polls head still c i a s)"
proof (induction head still c i a arbitrary: P s rule: bbr_polls.induct)
  case (1 head still c i a)
  show ?case
  proof (cases "a < CLEANUP_COMMAND_MAX_POLLS")
    case True
    show ?thesis
      by (subst bbr_polls.simps) (use 1 True in \<open>auto intro!: ok_intros split: api_response.split\<close>)
  next
    case False
    then show ?thesis by (subst bbr_polls.simps) (auto intro!: ok_intros 1)
  qed
qed

lemma ok_wait:
  assumes "\<And>c Q s. (Q \<longrightarrow> I s) \<Longrightarrow> ok I Q (k c s)" and "\<And>e Q s. (Q \<longrightarrow> I s) \<Longrightarrow> ok I Q (h e s)"
  shows "(P \<longrightarrow> I s) \<Longrightarrow> ok I P (waitForWorkerCommandCompletion_landing w c i r a k h s)"
  using assms
proof (induction w c i r a k h arbitrary: P s rule: waitForWorkerCommandCompletion_landing.induct)
  case (1 w c i r a k h)
  show ?case
  proof (cases "a < landing_wait_limit")
    case True
    have again: "ok I Q (sleep 2000
        (waitForWorkerCommandCompletion_landing w c i r (Suc a) k h) t)" if "Q \<longrightarrow> I t" for Q t
      by (intro ok_sleep that 1(1)) (use 1(3,4) True in simp_all)
    have stored: "Q \<longrightarrow> I (case cs of [] \<Rightarrow> store_list w cs t
        | x # rest \<Rightarrow> store_latest i x (store_list w cs t))" if "Q \<longrightarrow> I t" for Q cs t
      using that by (simp split: list.split)
    have step: "ok I Q ((case result of
        ApiFailure c m d \<Rightarrow> h (Some (api_error_text c m))
      | ApiSuccess cs m \<Rightarrow> (\<lambda>s.
          let s1 = (case cs of [] \<Rightarrow> store_list w cs s
                    | x # rest \<Rightarrow> store_latest i x (store_list w cs s));
              again = (\<lambda>s. sleep 2000 (waitForWorkerCommandCompletion_landing w c i r (Suc a) k h) (on_step r s))
          in case find_opt (\<lambda>x. wc_id x = c) cs of
               None \<Rightarrow> again s1
             | Some command \<Rightarrow>
                 (if wc_status command \<in> set NODE_CREATE_TERMINAL_STATUSES then k command else again)
                   (on_node_create (\<lambda>x. x\<lparr>ln_command := Some command\<rparr>) s1))) s)"
      if "Q \<longrightarrow> I s" for result Q s
    proof (cases result)
      case (ApiSuccess cs m)
      show ?thesis
        unfolding ApiSuccess api_response.case Let_def
        using stored [OF that, of cs] 1(3) again
        by (cases "find_opt (\<lambda>x. wc_id x = c) cs") auto
    qed (use 1(4) that in simp)
    show ?thesis
      unfolding waitForWorkerCommandCompletion_landing.simps [of w c i r a] if_P [OF True] or_throw_def
      by (rule ok_fetch) (use 1(2,4) step in auto)
  next
    case False
    then show ?thesis by (subst waitForWorkerCommandCompletion_landing.simps) (simp add: 1)
  qed
qed

lemma ok_worker_came [ok_intros]: "(P \<longrightarrow> I s) \<Longrightarrow> ok I P (worker_came hb m s)"
  unfolding worker_came_def scheduleWorkerInstallAutoClose_landing_def Let_def
  by (auto intro!: ok_pair task_keeps_timer ok_intros)

lemma check_landing_heartbeat_keeps:
  assumes "check_landing_heartbeat b r s = (x, s')"
  shows "I s \<longrightarrow> I s'" and "x = Some done \<Longrightarrow> (P \<longrightarrow> I t) \<Longrightarrow> ok I P (done t)"
  using assms
  by (auto simp: check_landing_heartbeat_def Let_def intro!: ok_intros split: option.splits if_splits)

lemma ok_landing_poll_timed_out [ok_intros]: "(P \<longrightarrow> I s) \<Longrightarrow> ok I P (landing_poll_timed_out s)"
  unfolding landing_poll_timed_out_def Let_def by (auto intro!: ok_intros)

lemma ok_end [ok_intros]:
  "(P \<longrightarrow> I s) \<Longrightarrow> ok I P (end_landing_submit s)" "(P \<longrightarrow> I s) \<Longrightarrow> ok I P (end_command s)"
  unfolding end_landing_submit_def end_command_def by (auto intro!: ok_intros)

lemma ok_node_create_failed [ok_intros]: "(P \<longrightarrow> I s) \<Longrightarrow> ok I P (node_create_failed e s)"
  unfolding node_create_failed_def Let_def by (auto intro!: ok_intros)

lemma ok_node_create_refresh [ok_intros]: "(P \<longrightarrow> I s) \<Longrightarrow> ok I P (node_create_refresh i p s)"
  unfolding node_create_refresh_def Let_def by (auto intro!: ok_intros)

lemma ok_node_create_execute [ok_intros]: "(P \<longrightarrow> I s) \<Longrightarrow> ok I P (node_create_execute sv f p t s)"
  unfolding node_create_execute_def or_throw_def
  by (auto intro!: ok_intros ok_wait split: api_response.split)

lemma ok_node_create_plan [ok_intros]: "(P \<longrightarrow> I s) \<Longrightarrow> ok I P (node_create_plan sv f p t s)"
  unfolding node_create_plan_def or_throw_def by (auto intro!: ok_intros split: api_response.split)

lemma ok_node_create_preflight [ok_intros]: "(P \<longrightarrow> I s) \<Longrightarrow> ok I P (node_create_preflight sv f p t s)"
  unfolding node_create_preflight_def or_throw_def
  by (auto intro!: ok_intros ok_wait split: api_response.split)

lemma ok_select_and_copy [ok_intros]:
  "(P \<longrightarrow> I s) \<Longrightarrow> (\<And>x Q s. (Q \<longrightarrow> I s) \<Longrightarrow> ok I Q (k x s)) \<Longrightarrow> ok I P (select_and_copy shown k s)"
  unfolding select_and_copy_def by (auto split: option.split)

lemma ok_copyTextWithFallback [ok_intros]:
  "(P \<longrightarrow> I s) \<Longrightarrow> (\<And>x Q s. (Q \<longrightarrow> I s) \<Longrightarrow> ok I Q (k x s)) \<Longrightarrow> ok I P (copyTextWithFallback b t sh bx k s)"
  unfolding copyTextWithFallback_def by (auto intro!: ok_intros split: settled.split)

lemma ok_copyInstallCommand [ok_intros]: "(P \<longrightarrow> I s) \<Longrightarrow> ok I P (copyInstallCommand b s)"
  unfolding copyInstallCommand_def by (auto intro!: ok_intros split: option.split)

lemma ok_export [ok_intros]:
  assumes "P \<longrightarrow> I s" and "\<And>Q s. (Q \<longrightarrow> I s) \<Longrightarrow> ok I Q (k s)"
    and "\<And>e Q s. (Q \<longrightarrow> I s) \<Longrightarrow> ok I Q (h e s)"
  shows "ok I P (exportSelectedNodeShareLink b i r c v q k h s)"
  unfolding exportSelectedNodeShareLink_def Let_def using assms
  by (auto intro!: ok_intros split: api_response.split)

lemma ok_closeNodeCreateModal [ok_intros]: "(P \<longrightarrow> I s) \<Longrightarrow> ok I P (closeNodeCreateModal r s)"
  unfolding closeNodeCreateModal_def by (auto intro!: ok_intros)

lemma ok_toggles [ok_intros]:
  "(P \<longrightarrow> I s) \<Longrightarrow> ok I P (toggle_full_link b n s)" "(P \<longrightarrow> I s) \<Longrightarrow> ok I P (toggle_qr b n s)"
  unfolding toggle_full_link_def toggle_qr_def by (auto intro!: ok_intros)

lemma ok_delete_caught [ok_intros]:
  "(P \<longrightarrow> I s) \<Longrightarrow> (\<And>s. I s \<Longrightarrow> I (r s)) \<Longrightarrow> ok I P (landing_delete_caught r f e s)"
  unfolding landing_delete_caught_def by (auto intro!: ok_intros)

lemma ok_landing_delete [ok_intros]:
  assumes "P \<longrightarrow> I s" and r: "\<And>s. I s \<Longrightarrow> I (r s)"
  shows "ok I P (landing_delete q r i p n f s)"
proof -
  have caught: "ok I Q (landing_delete_caught r f e t)" if "Q \<longrightarrow> I t" for Q e t
    using that r by (rule ok_delete_caught)
  have refused: "ok I Q (loadServers (\<lambda>svs s. end_landing_submit (landing_delete_refused c m d s))
      (landing_delete_caught r f) (r t))" if "Q \<longrightarrow> I t" for Q c m d t
    by (intro ok_loadServers ok_end caught) (use that r in auto)
  have accepted: "ok I Q (loadServers
      (\<lambda>svs. alongside (scheduleServerRefresh (cu_command d) i)
        (alongside (refreshWhenCleanupCommandCompletes (cu_command d) i p n) end_landing_submit))
      (landing_delete_caught r f) (closeModal_landing (notify (landing_delete_done_text d) t)))"
    if "Q \<longrightarrow> I t" for Q d t
    by (intro ok_loadServers ok_alongside ok_scheduleServerRefresh ok_refreshWhen ok_end caught)
      (use that in auto)
  show ?thesis
    unfolding landing_delete_def Let_def
    by (intro ok_ensureCsrfToken ok_fetch caught assms)
      (auto intro: refused accepted split: api_response.split)
qed

lemma ok_poll [ok_intros]:
  "(P \<longrightarrow> I s) \<Longrightarrow> ok I P (pollWorkerInstallHeartbeat b i n s)"
proof (induction b i n s arbitrary: P rule: pollWorkerInstallHeartbeat.induct)
  case (1 b i n s)
  let ?again = "\<lambda>s. if WORKER_INSTALL_MAX_POLLS \<le> n + 1 then landing_poll_timed_out s
    else (let s1 = (if polling_upgrade (li_pollContext (la_install s)) then s
                    else heartbeat_says (uni ''%u7B49%u5F85 Worker %u4E0A%u7EBF...'') s);
              k = la_nextTimer s1
          in (on_install (\<lambda>x. x\<lparr>li_pollTimeout := Some k\<rparr>) (s1\<lparr>la_nextTimer := Suc k\<rparr>),
              [Timer WORKER_INSTALL_POLL_INTERVAL_MS (timer_alive k)
                 (\<lambda>s. pollWorkerInstallHeartbeat b i (n + 1) s)]))"
  let ?conclude = "\<lambda>server s. case check_landing_heartbeat b server s of
      (Some done, s1) \<Rightarrow> done s1 | (None, s1) \<Rightarrow> ?again s1"
  show ?case
  proof (cases "landing_poll_abandoned i s")
    case True
    then show ?thesis
      using 1(2) by (subst pollWorkerInstallHeartbeat.simps) (auto intro!: ok_intros)
  next
    case False
    have again: "ok I Q (?again t)" if "Q \<longrightarrow> I t" for Q t
      using that 1(1) False by (auto simp: Let_def intro!: ok_intros ok_pair task_keeps_timer)
    have conclude: "ok I Q (?conclude r t)" if "Q \<longrightarrow> I t" for Q r t
    proof (cases "check_landing_heartbeat b r t")
      case (Pair x t')
      note found = check_landing_heartbeat_keeps [OF Pair]
      have "Q \<longrightarrow> I t'" using found(1) that by blast
      then show ?thesis
        using found(2) [of _ Q t'] again [of Q t'] by (cases x) (auto simp: Pair simp del: if_split)
    qed
    have after: "ok I Q
        ((case x of Some w \<Rightarrow> if w = [] then ?conclude r
                              else loadWorkerCommands_landing w (Some i) (?conclude r) unhandled
                  | None \<Rightarrow> ?conclude r) t)" if "Q \<longrightarrow> I t" for Q x r t
    proof (cases x)
      case None
      then show ?thesis using conclude [OF that] by simp
    next
      case (Some w)
      then show ?thesis
        using conclude that
        by (cases "w = []") (auto simp del: split_paired_All intro!: ok_loadWorkerCommands ok_unhandled)
    qed
    have "ok I P
        (fetch servers_request as_servers
          (\<lambda>result. case result of
             ApiFailure c m e \<Rightarrow> ?again
           | ApiSuccess svs m \<Rightarrow>
               (\<lambda>s. let s1 = setVisibleServers svs s;
                        server = find_opt (\<lambda>sv. sv_id sv = i) (la_servers s1)
                    in (case Option.bind server sv_worker_id of
                          Some w \<Rightarrow> if w = [] then ?conclude server
                                     else loadWorkerCommands_landing w (Some i) (?conclude server) unhandled
                        | None \<Rightarrow> ?conclude server) s1))
          unhandled s)"
      by (rule ok_fetch)
        (use 1(2) again after in \<open>auto simp: Let_def simp del: if_split intro: ok_unhandled split: api_response.split\<close>)
    then show ?thesis
      by (subst pollWorkerInstallHeartbeat.simps) (simp only: False if_False Let_def)
  qed
qed

lemma ok_poll_started:
  assumes "P \<longrightarrow> I s" shows "ok I P (pollWorkerInstallHeartbeat b i n (landing_poll_for i c s))"
proof (cases "i \<in> la_pendingServers s")
  case True
  then have "i \<in> la_pendingServers (landing_poll_for i c s)" by (simp add: landing_poll_for_def on_install_def)
  then show ?thesis
    using polled_in_vain [of s i c] assms
    by (subst pollWorkerInstallHeartbeat.simps) (simp add: landing_poll_abandoned_def ok_finished)
next
  case False
  then show ?thesis using assms by (intro ok_poll impI polled) auto
qed

lemma ok_startPolling [ok_intros]:
  assumes "P \<longrightarrow> I s" shows "ok I P (startWorkerInstallPolling b i c s)"
proof -
  let ?s = "clearWorkerInstallAutoClose_landing (clearWorkerInstallPolling_landing s)"
  have "ok I P (pollWorkerInstallHeartbeat b i 0 (notify m (heartbeat_says h (landing_poll_for i c ?s))))" for h m
  proof -
    have "notify m (heartbeat_says h (landing_poll_for i c ?s)) = landing_poll_for i c (notify m (heartbeat_says h ?s))"
      by (simp add: notify_def heartbeat_says_def landing_poll_for_def on_install_def)
    then show ?thesis using assms by (auto intro: ok_poll_started)
  qed
  then show ?thesis
    unfolding startWorkerInstallPolling_def Let_def by (simp add: landing_poll_for_def)
qed

lemma ok_install_ready [ok_intros]:
  "(P \<longrightarrow> I s) \<Longrightarrow> (\<And>e Q s. (Q \<longrightarrow> I s) \<Longrightarrow> ok I Q (h e s)) \<Longrightarrow> ok I P (install_ready b md i n t g h s)"
  unfolding install_ready_def by (auto intro!: ok_intros)

text \<open>The handlers that raise a flag keep the predicate if raisable the flag does.\<close>

definition raisable :: "bool \<Rightarrow> bool" where
  "raisable P \<longleftrightarrow> (P \<longrightarrow> (\<forall>s. I s \<longrightarrow> I (s\<lparr>la_submitting := True\<rparr>)
     \<and> (\<forall>i. I (set_command_loading i s))
     \<and> (\<forall>i. I (on_bbr (\<lambda>x. x\<lparr>lb_planLoading := i\<rparr>) s))
     \<and> (\<forall>i. I (on_bbr (\<lambda>x. x\<lparr>lb_dryRunLoading := i\<rparr>) s))
     \<and> (\<forall>i e. I (on_bbr (\<lambda>x. x\<lparr>lb_realLoading := i, lb_confirmError := e\<rparr>) s))
     \<and> I (on_detail (\<lambda>x. x\<lparr>ld_loading := True\<rparr>) s)))"

lemma raise:
  assumes "raisable P" and "P" and "I s"
  shows "I (s\<lparr>la_submitting := True\<rparr>)" "I (set_command_loading i s)"
    "I (on_bbr (\<lambda>x. x\<lparr>lb_planLoading := i\<rparr>) s)" "I (on_bbr (\<lambda>x. x\<lparr>lb_dryRunLoading := i\<rparr>) s)"
    "I (on_bbr (\<lambda>x. x\<lparr>lb_realLoading := i, lb_confirmError := e\<rparr>) s)"
    "I (on_detail (\<lambda>x. x\<lparr>ld_loading := True\<rparr>) s)"
  using assms unfolding raisable_def by blast+

lemma ok_request_install [ok_intros]:
  "(P \<longrightarrow> I s) \<Longrightarrow> ok I P (request_install_command b r f n sv md t s)"
  unfolding request_install_command_def Let_def
  by (auto intro!: ok_intros split: option.split api_response.split)

lemma ok_generate:
  assumes "P \<longrightarrow> I s" and "raisable P" shows "ok I P (generateWorkerInstallCommand b r s)"
proof -
  have "P \<longrightarrow> I (s\<lparr>la_submitting := True\<rparr>)" using assms raise(1) by blast
  then show ?thesis
    unfolding generateWorkerInstallCommand_def Let_def
    using assms(1) by (auto intro!: ok_intros split: option.split)
qed

lemma ok_send: "(P \<longrightarrow> I s) \<Longrightarrow> raisable P \<Longrightarrow> ok I P (send_landing_command t m rf cr f sv s)"
  unfolding send_landing_command_def Let_def
  by (auto intro!: ok_intros intro: raise updates(1,9) split: api_response.split)

lemma ok_checks:
  "(P \<longrightarrow> I s) \<Longrightarrow> raisable P \<Longrightarrow> ok I P (runWorkerCheck_landing sv s)"
  "(P \<longrightarrow> I s) \<Longrightarrow> raisable P \<Longrightarrow> ok I P (runLandingPreflight sv s)"
  unfolding runWorkerCheck_landing_def runLandingPreflight_def by (auto intro!: ok_intros ok_send)

lemma ok_bbr:
  "(P \<longrightarrow> I s) \<Longrightarrow> raisable P \<Longrightarrow> ok I P (openBbrEnablePlan sv s)"
  "(P \<longrightarrow> I s) \<Longrightarrow> raisable P \<Longrightarrow> ok I P (openBbrEnableDryRun sv s)"
  "(P \<longrightarrow> I s) \<Longrightarrow> raisable P \<Longrightarrow> ok I P (submitBbrRealExecution s)"
  unfolding openBbrEnablePlan_def openBbrEnableDryRun_def submitBbrRealExecution_def Let_def
    refreshBbrDryRunUntilTerminal_def refreshBbrRealExecutionUntilTerminal_def
  by (auto intro!: ok_intros intro: raise updates(1,9) split: api_response.split option.split)

lemma ok_fetchNodeDetail:
  assumes "P \<longrightarrow> I s" and "raisable P" and "\<And>n Q s. (Q \<longrightarrow> I s) \<Longrightarrow> ok I Q (k n s)"
    and "\<And>e Q s. (Q \<longrightarrow> I s) \<Longrightarrow> ok I Q (h e s)"
  shows "ok I P (fetchNodeDetail i k h s)"
  unfolding fetchNodeDetail_def using assms
  by (auto intro!: ok_intros intro: raise updates(1,9) split: api_response.split)

lemma ok_details:
  "(P \<longrightarrow> I s) \<Longrightarrow> raisable P \<Longrightarrow> ok I P (openNodeDetail b n q s)"
  "(P \<longrightarrow> I s) \<Longrightarrow> raisable P \<Longrightarrow> ok I P (copyNodeShareLink b n s)"
  unfolding openNodeDetail_def copyNodeShareLink_def Let_def
  by (auto intro!: ok_fetchNodeDetail ok_intros split: option.split)

lemma ok_saves:
  "(P \<longrightarrow> I s) \<Longrightarrow> raisable P \<Longrightarrow> ok I P (submitEdit_landing b s)"
  "(P \<longrightarrow> I s) \<Longrightarrow> raisable P \<Longrightarrow> ok I P (submitDelete_landing s)"
  "(P \<longrightarrow> I s) \<Longrightarrow> raisable P \<Longrightarrow> ok I P (submitDeleteNode s)"
  "(P \<longrightarrow> I s) \<Longrightarrow> raisable P \<Longrightarrow> ok I P (submitSimplifiedLandingNodeCreate b s)"
  unfolding submitEdit_landing_def submitDelete_landing_def submitDeleteNode_def
    submitSimplifiedLandingNodeCreate_def Let_def
  by (auto intro!: ok_intros intro: raise updates(1,9) marked_server marked_node
      split: option.split api_response.split sum.split)

lemma ok_landing_action: "landing_may b s a \<Longrightarrow> (P \<longrightarrow> I s) \<Longrightarrow> raisable P \<Longrightarrow> ok I P (a s)"
  by (induction rule: landing_may.induct)
    (auto intro!: ok_intros ok_generate ok_checks ok_bbr ok_details ok_saves)

end

end
