(* ===== verification/LandingInvariants.thy ===== *)
theory LandingInvariants
  imports LandingSystem
begin

text \<open>
  What holds in all runs of the landing server panel: its two lists implement directories, its state
  is well formed, a raised flag belongs to a waiting request, watches end, and every request is one
  of those the panel is meant to send.
\<close>

subsection \<open>Two lists\<close>

text \<open>
  The servers, seen as ids with their status; and the nodes of the servers that may be shown. Marking
  a server takes its nodes away too.
\<close>

definition server_view :: "vps_server \<Rightarrow> jsstr \<times> jsstr" where
  "server_view sv = (sv_id sv, sv_status sv)"

definition view_deleted :: "jsstr \<times> jsstr \<Rightarrow> bool" where
  "view_deleted x \<longleftrightarrow> to_lower (snd x) = (js ''deleted'')"

definition nodes_of :: "landing_panel \<Rightarrow> vps_server list \<Rightarrow> server_node list" where
  "nodes_of s svs =
     concat (map sv_nodes
       (List.filter (\<lambda>sv. sv_id sv \<notin> la_pendingServers s \<and> \<not> server_deleted sv) svs))"

lemma visible_nodes_simps [simp]:
  "sv_id (visible_nodes P sv) = sv_id sv" "sv_status (visible_nodes P sv) = sv_status sv"
  "server_deleted (visible_nodes P sv) = server_deleted sv"
  "sv_nodes (visible_nodes P sv) = List.filter (\<lambda>n. sn_id n \<notin> P \<and> \<not> node_deleted n) (sv_nodes sv)"
  "server_view (visible_nodes P sv) = server_view sv"
  by (simp_all add: visible_nodes_def server_deleted_def server_view_def)

lemma polling_operations_simps [simp]:
  "la_servers (clearWorkerInstallPolling_landing s) = la_servers s"
  "la_pendingServers (clearWorkerInstallPolling_landing s) = la_pendingServers s"
  "la_pendingNodes (clearWorkerInstallPolling_landing s) = la_pendingNodes s"
  "la_modalMode (clearWorkerInstallPolling_landing s) = la_modalMode s"
  "la_selectedServer (clearWorkerInstallPolling_landing s) = la_selectedServer s"
  "la_selectedNode (clearWorkerInstallPolling_landing s) = la_selectedNode s"
  "li_pollServerId (la_install (clearWorkerInstallPolling_landing s)) = None"
  "li_pollContext (la_install (clearWorkerInstallPolling_landing s)) = None"
  "raised g (clearWorkerInstallPolling_landing s) = raised g s"
  by (cases g; simp add: clearWorkerInstallPolling_landing_def on_install_def clear_timer_def)+

lemma poll_for_simps [simp]:
  "la_servers (landing_poll_for i c s) = la_servers s"
  "la_pendingServers (landing_poll_for i c s) = la_pendingServers s"
  "la_pendingNodes (landing_poll_for i c s) = la_pendingNodes s"
  "la_modalMode (landing_poll_for i c s) = la_modalMode s"
  "la_selectedServer (landing_poll_for i c s) = la_selectedServer s"
  "la_selectedNode (landing_poll_for i c s) = la_selectedNode s"
  "li_pollServerId (la_install (landing_poll_for i c s)) = Some i"
  "li_pollContext (la_install (landing_poll_for i c s)) = Some c"
  "raised g (landing_poll_for i c s) = raised g s"
  by (cases g; simp add: landing_poll_for_def on_install_def)+

text \<open>Each list operation touches the list and one field besides; marking a server may end its poll.\<close>

lemma list_operations_simps [simp]:
  "la_servers (setVisibleServers svs s) = filterVisibleServers s svs"
  "la_pendingServers (setVisibleServers svs s) = la_pendingServers s"
  "la_pendingNodes (setVisibleServers svs s) = la_pendingNodes s"
  "la_install (setVisibleServers svs s) = la_install s"
  "la_pendingServers (markServerPendingDelete i s) = insert i (la_pendingServers s)"
  "la_pendingNodes (markServerPendingDelete i s) = la_pendingNodes s"
  "la_pendingServers (markNodePendingDelete i s) = la_pendingServers s"
  "la_pendingNodes (markNodePendingDelete i s) = insert i (la_pendingNodes s)"
  "la_install (markNodePendingDelete i s) = la_install s"
  "la_servers (releaseServerPendingDelete i s) = la_servers s"
  "la_pendingServers (releaseServerPendingDelete i s) = la_pendingServers s - {i}"
  "la_pendingNodes (releaseServerPendingDelete i s) = la_pendingNodes s"
  "la_install (releaseServerPendingDelete i s) = la_install s"
  "la_servers (releaseNodePendingDelete i s) = la_servers s"
  "la_pendingServers (releaseNodePendingDelete i s) = la_pendingServers s"
  "la_pendingNodes (releaseNodePendingDelete i s) = la_pendingNodes s - {i}"
  "la_install (releaseNodePendingDelete i s) = la_install s"
  by (simp_all add: setVisibleServers_def markServerPendingDelete_def markNodePendingDelete_def
      releaseServerPendingDelete_def releaseNodePendingDelete_def Let_def)

lemma list_operations_keep_selection [simp]:
  "la_modalMode (setVisibleServers svs s) = la_modalMode s"
  "la_selectedServer (setVisibleServers svs s) = la_selectedServer s"
  "la_selectedNode (setVisibleServers svs s) = la_selectedNode s"
  "la_modalMode (markServerPendingDelete i s) = la_modalMode s"
  "la_selectedServer (markServerPendingDelete i s) = la_selectedServer s"
  "la_selectedNode (markServerPendingDelete i s) = la_selectedNode s"
  "la_modalMode (markNodePendingDelete i s) = la_modalMode s"
  "la_selectedServer (markNodePendingDelete i s) = la_selectedServer s"
  "la_selectedNode (markNodePendingDelete i s) = la_selectedNode s"
  "la_modalMode (releaseServerPendingDelete i s) = la_modalMode s"
  "la_selectedServer (releaseServerPendingDelete i s) = la_selectedServer s"
  "la_selectedNode (releaseServerPendingDelete i s) = la_selectedNode s"
  "la_modalMode (releaseNodePendingDelete i s) = la_modalMode s"
  "la_selectedServer (releaseNodePendingDelete i s) = la_selectedServer s"
  "la_selectedNode (releaseNodePendingDelete i s) = la_selectedNode s"
  by (simp_all add: setVisibleServers_def markServerPendingDelete_def markNodePendingDelete_def
      releaseServerPendingDelete_def releaseNodePendingDelete_def Let_def)

lemma list_operations_keep_flags [simp]:
  "raised g (setVisibleServers svs s) = raised g s"
  "raised g (markServerPendingDelete i s) = raised g s"
  "raised g (markNodePendingDelete i s) = raised g s"
  "raised g (releaseServerPendingDelete i s) = raised g s"
  "raised g (releaseNodePendingDelete i s) = raised g s"
  "raised g (select m sv n s) = raised g s"
  by (cases g; simp add: setVisibleServers_def markServerPendingDelete_def markNodePendingDelete_def
      releaseServerPendingDelete_def releaseNodePendingDelete_def select_def Let_def
      clearWorkerInstallPolling_landing_def on_install_def clear_timer_def)+

lemma marked_servers:
  "la_servers (markServerPendingDelete i s) =
     filterVisibleServers (s\<lparr>la_pendingServers := insert i (la_pendingServers s)\<rparr>) (la_servers s)"
  "la_servers (markNodePendingDelete i s) =
     filterVisibleServers (s\<lparr>la_pendingNodes := insert i (la_pendingNodes s)\<rparr>) (la_servers s)"
  by (simp_all add: markServerPendingDelete_def markNodePendingDelete_def filterVisibleServers_def Let_def)

lemma marked_poll [simp]:
  "li_pollServerId (la_install (markServerPendingDelete i s)) =
     (if li_pollServerId (la_install s) = Some i then None else li_pollServerId (la_install s))"
  "li_pollContext (la_install (markServerPendingDelete i s)) =
     (if li_pollServerId (la_install s) = Some i then None else li_pollContext (la_install s))"
  by (simp_all add: markServerPendingDelete_def Let_def clearWorkerInstallPolling_landing_def
      on_install_def clear_timer_def)

lemma view_of_visible:
  "map server_view (filterVisibleServers s svs) =
     visible fst view_deleted (la_pendingServers s) (map server_view svs)"
  by (induction svs)
    (auto simp: filterVisibleServers_def visible_def view_deleted_def server_deleted_def server_view_def
      visible_nodes_def)

lemma nodes_of_visible:
  "la_pendingServers t = la_pendingServers s \<Longrightarrow>
     nodes_of t (filterVisibleServers s svs) = visible sn_id node_deleted (la_pendingNodes s) (nodes_of s svs)"
  by (induction svs) (auto simp: nodes_of_def filterVisibleServers_def visible_def)

interpretation landing_servers: pending_list la_pendingServers "\<lambda>s. map server_view (la_servers s)" fst
    view_deleted "\<lambda>svs s. map server_view svs" setVisibleServers markServerPendingDelete
    releaseServerPendingDelete
  by unfold_locales (simp_all add: view_of_visible marked_servers)

interpretation landing_nodes: pending_list la_pendingNodes "\<lambda>s. nodes_of s (la_servers s)" sn_id
    node_deleted "\<lambda>svs s. nodes_of s svs" setVisibleServers markNodePendingDelete
    releaseNodePendingDelete
proof unfold_locales
  fix i s
  show "nodes_of (markNodePendingDelete i s) (la_servers (markNodePendingDelete i s)) =
      visible sn_id node_deleted (insert i (la_pendingNodes s)) (nodes_of s (la_servers s))"
    using nodes_of_visible [of "markNodePendingDelete i s" "s\<lparr>la_pendingNodes := insert i (la_pendingNodes s)\<rparr>"]
    by (simp add: marked_servers) (simp add: nodes_of_def)
qed (simp_all add: nodes_of_visible, simp add: nodes_of_def)

text \<open>
  The invariant: both lists implement directories, a poll has an id exactly when it has a context
  and is never one for a server that is being deleted, and the selection fits the open dialog.
\<close>

definition landing_inv :: "directory \<Rightarrow> directory \<Rightarrow> landing_panel \<Rightarrow> bool" where
  "landing_inv d e s \<longleftrightarrow>
     landing_servers.implements d s \<and> landing_nodes.implements e s
     \<and> (li_pollServerId (la_install s) = None \<longleftrightarrow> li_pollContext (la_install s) = None)
     \<and> (\<forall>i. li_pollServerId (la_install s) = Some i \<longrightarrow> i \<notin> la_pendingServers s)
     \<and> selection_fits (la_modalMode s) (la_selectedServer s) (la_selectedNode s)"

lemma nodes_of_cong:
  "la_pendingServers t = la_pendingServers s \<Longrightarrow> nodes_of t svs = nodes_of s svs"
  by (simp add: nodes_of_def)

lemma inv_lists_same:
  assumes "landing_servers.implements d s" and "landing_nodes.implements e s"
    and "la_servers t = la_servers s" and "la_pendingServers t = la_pendingServers s"
    and "la_pendingNodes t = la_pendingNodes s"
  shows "landing_servers.implements d t \<and> landing_nodes.implements e t"
  using landing_servers.implements_same [OF assms(1), of t] landing_nodes.implements_same [OF assms(2), of t]
    assms(3-) nodes_of_cong [of t s] by simp

lemma listed_servers_visible:
  assumes "landing_servers.implements d s" and "sv \<in> set (la_servers s)"
  shows "sv_id sv \<notin> la_pendingServers s \<and> \<not> server_deleted sv"
  using landing_servers.implements_consistentD [OF assms(1), of "server_view sv"] assms(2)
  by (simp add: server_view_def view_deleted_def server_deleted_def)

text \<open>In such a state the nodes that may be shown are those of the listed servers.\<close>

lemma nodes_of_listed:
  assumes "landing_servers.implements d s" shows "nodes_of s (la_servers s) = concat (map sv_nodes (la_servers s))"
  unfolding nodes_of_def using listed_servers_visible [OF assms] by (subst filter_True) auto

lemma nodes_of_released:
  assumes "landing_servers.implements d s"
  shows "nodes_of (releaseServerPendingDelete i s) (la_servers s) = nodes_of s (la_servers s)"
  unfolding nodes_of_def using listed_servers_visible [OF assms] by (subst (1 2) filter_True) auto

lemma marked_server_nodes:
  "set (nodes_of (markServerPendingDelete i s) (la_servers (markServerPendingDelete i s)))
     \<subseteq> set (nodes_of s (la_servers s))"
  by (auto simp: nodes_of_def marked_servers filterVisibleServers_def)

lemma marked_node_views:
  "set (map server_view (la_servers (markNodePendingDelete i s))) \<subseteq> set (map server_view (la_servers s))"
  by (auto simp: marked_servers filterVisibleServers_def)

interpretation landing_core: landing_invariant "landing_inv d e" for d e
proof
  fix s t :: landing_panel and svs i c m sv n
  assume s: "landing_inv d e s"
  then have lists: "landing_servers.implements d s" "landing_nodes.implements e s"
    by (simp_all add: landing_inv_def)
  show "landing_inv d e t" if "landing_frame s t"
    using s that inv_lists_same [OF lists, of t] by (simp add: landing_inv_def landing_frame_def)
  show "landing_inv d e (setVisibleServers svs s)"
    using s landing_servers.implements_reload [OF lists(1), of svs]
      landing_nodes.implements_reload [OF lists(2), of svs] by (simp add: landing_inv_def)
  show "landing_inv d e (markServerPendingDelete i s)"
    using s landing_servers.implements_mark [OF lists(1), of i] marked_server_nodes [of i s]
      landing_nodes.implements_fewer [OF lists(2), of "markServerPendingDelete i s"]
    by (auto simp: landing_inv_def)
  show "landing_inv d e (releaseServerPendingDelete i s)"
    using s landing_servers.implements_release [OF lists(1), of i] nodes_of_released [OF lists(1), of i]
      landing_nodes.implements_same [OF lists(2), of "releaseServerPendingDelete i s"]
    by (auto simp: landing_inv_def)
  show "landing_inv d e (markNodePendingDelete i s)"
    using s landing_nodes.implements_mark [OF lists(2), of i] marked_node_views [of i s]
      landing_servers.implements_fewer [OF lists(1), of "markNodePendingDelete i s"]
    by (auto simp: landing_inv_def)
  show "landing_inv d e (releaseNodePendingDelete i s)"
    using s landing_nodes.implements_release [OF lists(2), of i]
      landing_servers.implements_same [OF lists(1), of "releaseNodePendingDelete i s"]
    by (auto simp: landing_inv_def)
  show "landing_inv d e (clearWorkerInstallPolling_landing s)"
    using s inv_lists_same [OF lists, of "clearWorkerInstallPolling_landing s"]
    by (simp add: landing_inv_def)
  show "landing_inv d e (landing_poll_for i c s)" if "i \<notin> la_pendingServers s"
    using s that inv_lists_same [OF lists, of "landing_poll_for i c s"] by (simp add: landing_inv_def)
  show "landing_inv d e (clearWorkerInstallPolling_landing (landing_poll_for i c s))"
    using s inv_lists_same [OF lists, of "clearWorkerInstallPolling_landing (landing_poll_for i c s)"]
    by (simp add: landing_inv_def)
  show "landing_inv d e (select m sv n s)" if "selection_fits m sv n"
    using s that inv_lists_same [OF lists, of "select m sv n s"] by (simp add: landing_inv_def select_def)
qed

lemma landing_core_raising: "landing_core.raisable d e P"
  unfolding landing_core.raisable_def
proof (intro impI allI conjI)
  fix s i er assume s: "landing_inv d e s"
  then have lists: "landing_servers.implements d s" "landing_nodes.implements e s"
    by (simp_all add: landing_inv_def)
  note same = inv_lists_same [OF lists]
  show "landing_inv d e (s\<lparr>la_submitting := True\<rparr>)" using s same by (simp add: landing_inv_def)
  show "landing_inv d e (set_command_loading i s)"
    using s same by (simp add: landing_inv_def set_command_loading_def on_commands_def)
  show "landing_inv d e (on_bbr (\<lambda>x. x\<lparr>lb_planLoading := i\<rparr>) s)"
    using s same by (simp add: landing_inv_def on_bbr_def)
  show "landing_inv d e (on_bbr (\<lambda>x. x\<lparr>lb_dryRunLoading := i\<rparr>) s)"
    using s same by (simp add: landing_inv_def on_bbr_def)
  show "landing_inv d e (on_bbr (\<lambda>x. x\<lparr>lb_realLoading := i, lb_confirmError := er\<rparr>) s)"
    using s same by (simp add: landing_inv_def on_bbr_def)
  show "landing_inv d e (on_detail (\<lambda>x. x\<lparr>ld_loading := True\<rparr>) s)"
    using s same by (simp add: landing_inv_def on_detail_def)
qed

lemma landing_reach_inv:
  "landing_reach b c \<Longrightarrow> ok (landing_inv empty_directory empty_directory) True c"
proof (erule system_keeps)
  show "True \<longrightarrow> landing_inv empty_directory empty_directory landing_initial"
    using landing_servers.implements_start [of landing_initial] landing_nodes.implements_start [of landing_initial]
    by (simp add: landing_inv_def landing_initial_def nodes_of_def selection_fits_def)
qed (auto intro: landing_core.ok_landing_action landing_core_raising)

text \<open>What waits in a reachable state keeps the invariant from any pair of directories on.\<close>

lemma landing_reach_keeps: "landing_reach b c \<Longrightarrow> ok (landing_inv d e) False c"
  by (erule system_keeps) (auto intro: landing_core.ok_landing_action landing_core_raising)

subsection \<open>A raised flag belongs to a waiting request\<close>

interpretation landing_flag: landing_invariant "\<lambda>s. \<not> raised g s" for g
proof
  show "\<not> raised g s \<Longrightarrow> landing_frame s t \<Longrightarrow> \<not> raised g t" for s t by (auto simp: landing_frame_def)
qed simp_all

lemma can_settle_load_server: "can_settle (load_server_commands sv)"
  unfolding can_settle_def load_server_commands_def
  by (intro exI [of _ "RCommands (Rejected None)"]) simp

lemma frees_loadServers [frees_intros]:
  "(\<And>svs s. frees_after busy (k svs s)) \<Longrightarrow> (\<And>e s. frees_after busy (h e s))
    \<Longrightarrow> frees_after busy (loadServers k h s)"
  unfolding loadServers_def Let_def
  by (intro frees_fetch) (auto intro!: frees_each_of can_settle_load_server split: api_response.split)

lemma frees_landing_commands [frees_intros]:
  "(\<And>s. frees_after busy (k s)) \<Longrightarrow> (\<And>e s. frees_after busy (h e s))
    \<Longrightarrow> frees_after busy (loadWorkerCommands_landing w i k h s)"
  unfolding loadWorkerCommands_landing_def by (intro frees_fetch) (auto split: api_response.split)

lemma frees_landing_wait:
  assumes "\<And>c s. frees_after busy (k c s)" and "\<And>e s. frees_after busy (h e s)"
  shows "frees_after busy (waitForWorkerCommandCompletion_landing w c i r a k h s)"
  using assms
proof (induction w c i r a k h arbitrary: s rule: waitForWorkerCommandCompletion_landing.induct)
  case (1 w c i r a k h)
  show ?case
  proof (cases "a < landing_wait_limit")
    case True
    show ?thesis
      by (subst waitForWorkerCommandCompletion_landing.simps)
        (use 1 True in \<open>auto simp: or_throw_def Let_def intro!: frees_intros split: api_response.split option.split list.split\<close>)
  next
    case False
    then show ?thesis by (subst waitForWorkerCommandCompletion_landing.simps) (simp add: 1)
  qed
qed

lemma frees_landing_ends [frees_intros]:
  "frees_after (raised Submitting) (end_landing_submit s)"
  "frees_after (raised CommandLoading) (end_command s)"
  by (simp_all add: end_landing_submit_def end_command_def set_command_loading_def on_commands_def
      finished_def frees_down)

lemma frees_landing_creation [frees_intros]:
  "frees_after (raised Submitting) (node_create_failed e s)"
  "frees_after (raised Submitting) (node_create_refresh i p s)"
  "frees_after (raised Submitting) (node_create_execute sv f p t s)"
  "frees_after (raised Submitting) (node_create_plan sv f p t s)"
  "frees_after (raised Submitting) (node_create_preflight sv f p t s)"
proof -
  show failed: "frees_after (raised Submitting) (node_create_failed e s)" for e s
    unfolding node_create_failed_def Let_def by (intro frees_intros)
  show refresh: "frees_after (raised Submitting) (node_create_refresh i p s)" for i p s
    unfolding node_create_refresh_def Let_def by (intro frees_intros failed)
  show execute: "frees_after (raised Submitting) (node_create_execute sv f p t s)" for sv f p t s
    unfolding node_create_execute_def or_throw_def
    by (auto intro!: frees_fetch frees_landing_wait failed refresh split: api_response.split)
  show plan: "frees_after (raised Submitting) (node_create_plan sv f p t s)" for sv f p t s
    unfolding node_create_plan_def or_throw_def
    by (auto intro!: frees_fetch failed execute split: api_response.split)
  show "frees_after (raised Submitting) (node_create_preflight sv f p t s)"
    unfolding node_create_preflight_def or_throw_def
    by (auto intro!: frees_fetch frees_landing_wait failed plan split: api_response.split)
qed

lemma frees_landing_delete [frees_intros]:
  "frees_after (raised Submitting) (landing_delete q r i p n f s)"
  unfolding landing_delete_def landing_delete_caught_def Let_def
  by (auto intro!: frees_intros split: api_response.split)

lemma frees_request_install [frees_intros]:
  "frees_after (raised Submitting) (request_install_command b r f n sv md t s)"
  unfolding request_install_command_def install_ready_def Let_def
  by (auto intro!: frees_intros split: option.split api_response.split)

lemma landing_submits_free:
  "\<not> raised Submitting s \<Longrightarrow> frees_after (raised Submitting) (generateWorkerInstallCommand b r s)"
  "\<not> raised Submitting s \<Longrightarrow> frees_after (raised Submitting) (submitEdit_landing b s)"
  "\<not> raised Submitting s \<Longrightarrow> frees_after (raised Submitting) (submitDelete_landing s)"
  "\<not> raised Submitting s \<Longrightarrow> frees_after (raised Submitting) (submitDeleteNode s)"
  "\<not> raised Submitting s \<Longrightarrow> frees_after (raised Submitting) (submitSimplifiedLandingNodeCreate b s)"
  unfolding generateWorkerInstallCommand_def submitEdit_landing_def submitDelete_landing_def
    submitDeleteNode_def submitSimplifiedLandingNodeCreate_def Let_def
  by (auto intro!: frees_intros simp: finished_def frees_down notify_def split: option.split api_response.split sum.split)

lemma landing_loads_free:
  "\<not> raised CommandLoading s \<Longrightarrow> frees_after (raised CommandLoading) (runWorkerCheck_landing sv s)"
  "\<not> raised CommandLoading s \<Longrightarrow> frees_after (raised CommandLoading) (runLandingPreflight sv s)"
  "\<not> raised PlanLoading s \<Longrightarrow> frees_after (raised PlanLoading) (openBbrEnablePlan sv s)"
  "\<not> raised DryRunLoading s \<Longrightarrow> frees_after (raised DryRunLoading) (openBbrEnableDryRun sv s)"
  "\<not> raised RealLoading s \<Longrightarrow> frees_after (raised RealLoading) (submitBbrRealExecution s)"
  unfolding runWorkerCheck_landing_def runLandingPreflight_def send_landing_command_def
    openBbrEnablePlan_def openBbrEnableDryRun_def submitBbrRealExecution_def Let_def
  by (auto intro!: frees_intros simp: finished_def frees_down notify_def on_bbr_def on_commands_def
      set_command_loading_def split: option.split api_response.split)

text \<open>Reading a detail lowers its flag before anything else happens.\<close>

lemma lowered: "\<not> busy (fst c) \<Longrightarrow> frees_after busy c"
  by (simp add: frees_after_def)

lemma detail_loading_simps [simp]:
  "ld_loading (la_detail (notify m s)) = ld_loading (la_detail s)"
  "ld_loading (la_detail (show_detail n s)) = ld_loading (la_detail s)"
  "\<not> ld_loading (la_detail (on_detail (\<lambda>x. x\<lparr>ld_loading := False\<rparr>) s))"
  by (simp_all add: notify_def show_detail_def on_detail_def)

lemma detail_frees:
  assumes "\<And>n s. \<not> ld_loading (la_detail s) \<Longrightarrow> \<not> ld_loading (la_detail (fst (k n s)))"
    and "\<And>e s. \<not> ld_loading (la_detail s) \<Longrightarrow> \<not> ld_loading (la_detail (fst (h e s)))"
  shows "frees_after (raised DetailLoading) (fetchNodeDetail i k h s)"
  unfolding fetchNodeDetail_def
  by (rule frees_fetch) (auto intro!: lowered simp: assms split: api_response.split)

lemma export_keeps_loading:
  assumes "\<And>s. ld_loading (la_detail (fst (k s))) = ld_loading (la_detail s)"
  shows "ld_loading (la_detail (fst (exportSelectedNodeShareLink b i r c v q k h s))) = ld_loading (la_detail s)"
  using assms by (simp add: exportSelectedNodeShareLink_def ensureCsrfToken_await_def act_simps)

lemma finished_simps [simp]: "fst (finished s) = s" "fst (unhandled e s) = s"
  by (simp_all add: finished_def unhandled_def)

lemma landing_details_free:
  "\<not> raised DetailLoading s \<Longrightarrow> frees_after (raised DetailLoading) (openNodeDetail b n q s)"
  "\<not> raised DetailLoading s \<Longrightarrow> frees_after (raised DetailLoading) (copyNodeShareLink b n s)"
  unfolding openNodeDetail_def copyNodeShareLink_def Let_def
  by (auto intro!: detail_frees intro: lowered simp: export_keeps_loading split: option.splits if_splits)

text \<open>A handler raises no flag but its own.\<close>

lemma raised_simps [simp]:
  "raised g (notify m s) = raised g s"
  "raised g (on_node_create f s) = raised g s"
  "raised g (clearWorkerInstallAutoClose_landing s) = raised g s"
  "raised g (on_install h s) = raised g s"
  "raised g (s\<lparr>la_submitting := x\<rparr>) = (if g = Submitting then x else raised g s)"
  "raised g (set_command_loading i s) = (if g = CommandLoading then i \<noteq> None else raised g s)"
  "raised g (on_bbr (\<lambda>x. x\<lparr>lb_planLoading := i\<rparr>) s) = (if g = PlanLoading then i \<noteq> None else raised g s)"
  "raised g (on_bbr (\<lambda>x. x\<lparr>lb_dryRunLoading := i\<rparr>) s) = (if g = DryRunLoading then i \<noteq> None else raised g s)"
  "raised g (on_bbr (\<lambda>x. x\<lparr>lb_confirmError := e\<rparr>) s) = raised g s"
  "raised g (on_bbr (\<lambda>x. x\<lparr>lb_realLoading := i, lb_confirmError := e\<rparr>) s) =
     (if g = RealLoading then i \<noteq> None else raised g s)"
  "raised g (on_detail (\<lambda>x. x\<lparr>ld_loading := x1\<rparr>) s) = (if g = DetailLoading then x1 else raised g s)"
  by (cases g; simp add: notify_def on_node_create_def clearWorkerInstallAutoClose_landing_def on_install_def
      clear_timer_def set_command_loading_def on_commands_def on_bbr_def on_detail_def)+

lemma handlers_raise:
  "raised g (fst (generateWorkerInstallCommand b r s)) \<Longrightarrow> raised g s \<or> g = Submitting"
  "raised g (fst (submitEdit_landing b s)) \<Longrightarrow> raised g s \<or> g = Submitting"
  "raised g (fst (submitDelete_landing s)) \<Longrightarrow> raised g s \<or> g = Submitting"
  "raised g (fst (submitDeleteNode s)) \<Longrightarrow> raised g s \<or> g = Submitting"
  "raised g (fst (submitSimplifiedLandingNodeCreate b s)) \<Longrightarrow> raised g s \<or> g = Submitting"
  "raised g (fst (runWorkerCheck_landing sv s)) \<Longrightarrow> raised g s \<or> g = CommandLoading"
  "raised g (fst (runLandingPreflight sv s)) \<Longrightarrow> raised g s \<or> g = CommandLoading"
  "raised g (fst (openBbrEnablePlan sv s)) \<Longrightarrow> raised g s \<or> g = PlanLoading"
  "raised g (fst (openBbrEnableDryRun sv s)) \<Longrightarrow> raised g s \<or> g = DryRunLoading"
  "raised g (fst (submitBbrRealExecution s)) \<Longrightarrow> raised g s \<or> g = RealLoading"
  "raised g (fst (openNodeDetail b n q s)) \<Longrightarrow> raised g s \<or> g = DetailLoading"
  "raised g (fst (copyNodeShareLink b n s)) \<Longrightarrow> raised g s \<or> g = DetailLoading"
  by (auto simp: generateWorkerInstallCommand_def submitEdit_landing_def submitDelete_landing_def
      submitDeleteNode_def submitSimplifiedLandingNodeCreate_def landing_delete_def
      runWorkerCheck_landing_def runLandingPreflight_def send_landing_command_def openBbrEnablePlan_def
      openBbrEnableDryRun_def submitBbrRealExecution_def openNodeDetail_def copyNodeShareLink_def
      exportSelectedNodeShareLink_def fetchNodeDetail_def ensureCsrfToken_await_def act_simps Let_def
      split: option.splits sum.splits if_splits)

lemma landing_frees:
  assumes "landing_may b s a" and "\<not> raised g s" shows "frees_after (raised g) (a s)"
proof -
  have own: "frees_after (raised g) (f s)"
    if "\<And>g'. raised g' (fst (f s)) \<Longrightarrow> raised g' s \<or> g' = g0"
      and "\<not> raised g0 s \<Longrightarrow> frees_after (raised g0) (f s)" for f g0
    using that assms(2) by (cases "g = g0") (auto intro: lowered)
  have quiet: "frees_after (raised g) (f s)" if "ok (\<lambda>s. \<not> raised g s) True (f s)" for f
    using that by (simp add: ok_def frees_after_def)
  show ?thesis
    using assms(1)
    by (cases rule: landing_may.cases)
      (use assms(2) in \<open>auto intro: own [OF handlers_raise(1) landing_submits_free(1)]
        own [OF handlers_raise(2) landing_submits_free(2)] own [OF handlers_raise(3) landing_submits_free(3)]
        own [OF handlers_raise(4) landing_submits_free(4)] own [OF handlers_raise(5) landing_submits_free(5)]
        own [OF handlers_raise(6) landing_loads_free(1)] own [OF handlers_raise(7) landing_loads_free(2)]
        own [OF handlers_raise(8) landing_loads_free(3)] own [OF handlers_raise(9) landing_loads_free(4)]
        own [OF handlers_raise(10) landing_loads_free(5)] own [OF handlers_raise(11) landing_details_free(1)]
        own [OF handlers_raise(12) landing_details_free(2)]
        quiet intro!: ok_intros\<close>)
qed

end
