(* ===== verification/LandingConduct.thy ===== *)
theory LandingConduct
  imports LandingInvariants
begin

text \<open>
  What the landing server panel asks of the outside, and how often: every request that changes
  something carries a CSRF token, and its body respects the confirmations and bounds of the forms;
  and the watches over commands end.
\<close>

subsection \<open>Guarded requests\<close>

text \<open>
  What the bodies of the requests promise, field by field: the exact confirmation texts, the ports a
  node may listen on with all confirmations given, no firewall change and no overwriting, and only
  the two fixed Worker commands, without a payload.
\<close>

definition create_confirmations :: "jsstr list" where
  "create_confirmations = [(js ''confirm_firewall_open''), (js ''confirm_generate_share_link''),
     (js ''confirm_write_share_link_after_success''), (js ''confirm_no_existing_xray''),
     (js ''confirm_rollback_new_artifacts_only'')]"

definition plan_confirmations :: "jsstr list" where
  "plan_confirmations = [(js ''cloud_security_group_confirmed''), (js ''cloud_firewall_confirmed''),
     (js ''server_firewall_confirmed''), (js ''require_manual_cloud_firewall_confirmation''), (js ''require_preflight_success'')]"

definition guarded_body :: "jsval \<Rightarrow> bool" where
  "guarded_body v \<longleftrightarrow>
     field v (js ''confirmation_text'') \<in> {JUndef, JStr BBR_REAL_EXECUTION_CONFIRM_TEXT}
     \<and> field v (js ''confirm'') \<in> {JUndef, JStr REMOTE_CLEANUP_CONFIRM_TEXT, JStr OFFLINE_LOCAL_REMOVE_CONFIRM_TEXT}
     \<and> field v (js ''command_type'') \<in> {JUndef, JStr (js ''collect_status''), JStr (js ''landing_preflight'')}
     \<and> (field v (js ''command_type'') = JUndef \<or> field v (js ''payload'') = JNull)
     \<and> (field v (js ''approved_port'') = JUndef
        \<or> (\<exists>p. field v (js ''approved_port'') = JNum p \<and> landing_port_allowed p)
          \<and> list_all (\<lambda>k. field v k = JBool True) create_confirmations)
     \<and> (field v (js ''listen_port'') = JUndef
        \<or> (\<exists>p. field v (js ''listen_port'') = JNum p \<and> landing_port_allowed p)
          \<and> list_all (\<lambda>k. field v k = JBool True) plan_confirmations
          \<and> field v (js ''allow_modify_firewall'') = JBool False
          \<and> field v (js ''allow_overwrite_existing_config'') = JBool False)
     \<and> (field v (js ''expires_in_minutes'') = JUndef
        \<or> (\<exists>n. field v (js ''expires_in_minutes'') = JNum n \<and> 1 \<le> n \<and> n \<le> 10080))"

definition guarded_request :: "api_request \<Rightarrow> bool" where
  "guarded_request q \<longleftrightarrow>
     (if req_method q = None then req_headers q = [] \<and> req_body q = None
      else (\<exists>t. req_headers q = [((js ''X-CSRF-Token''), t)])
           \<and> (case req_body q of None \<Rightarrow> True | Some v \<Rightarrow> guarded_body v))"

definition guarded_effects :: "effect set" where
  "guarded_effects = {e. case e of Http q \<Rightarrow> guarded_request q | Clipboard t \<Rightarrow> True}"

lemma guarded_http [simp]: "Http q \<in> guarded_effects \<longleftrightarrow> guarded_request q"
  by (simp add: guarded_effects_def)

lemma guarded_clipboard [simp]: "Clipboard t \<in> guarded_effects"
  by (simp add: guarded_effects_def)

lemmas guard_defs = guarded_request_def guarded_body_def

lemma guarded_reads [simp]:
  "guarded_request (get_request p)" "guarded_request servers_request"
  "guarded_request (listWorkerCommands w)" "guarded_request (getWorkerCommand i)"
  by (simp_all add: guard_defs servers_request_def get_request_def listWorkerCommands_def getWorkerCommand_def)

lemma guarded_bbr [simp]:
  "guarded_request (requestBbrEnablePlan i t)" "guarded_request (requestBbrEnableDryRun i t)"
  "guarded_request (requestBbrEnableRealExecution i t BBR_REAL_EXECUTION_CONFIRM_TEXT)"
  by (simp_all add: guard_defs requestBbrEnablePlan_def requestBbrEnableDryRun_def
      requestBbrEnableRealExecution_def)

lemma guarded_commands [simp]:
  "guarded_request (createWorkerCommand w (landing_command_payload (js ''collect_status'') sv) t)"
  "guarded_request (createWorkerCommand w (landing_command_payload (js ''landing_preflight'') sv) t)"
  by (simp_all add: guard_defs createWorkerCommand_def landing_command_payload_def)

lemma guarded_deletes [simp]:
  "guarded_request (remoteCleanupDeleteVpsServer i t (requiredDeleteConfirmText m))"
  "guarded_request (remoteCleanupDeleteNode i t (requiredDeleteConfirmText m))"
  by (cases m; simp add: guard_defs remoteCleanupDeleteVpsServer_def remoteCleanupDeleteNode_def)+

lemma guarded_delete_texts [simp]:
  "guarded_request (remoteCleanupDeleteVpsServer i t OFFLINE_LOCAL_REMOVE_CONFIRM_TEXT)"
  "guarded_request (remoteCleanupDeleteVpsServer i t REMOTE_CLEANUP_CONFIRM_TEXT)"
  "guarded_request (remoteCleanupDeleteNode i t OFFLINE_LOCAL_REMOVE_CONFIRM_TEXT)"
  "guarded_request (remoteCleanupDeleteNode i t REMOTE_CLEANUP_CONFIRM_TEXT)"
  by (simp_all add: guard_defs remoteCleanupDeleteVpsServer_def remoteCleanupDeleteNode_def)

lemma guarded_edit_and_export [simp]:
  "guarded_request (patch_server_request b i f t)" "guarded_request (exportNodeShareLink i t r)"
  by (simp_all add: guard_defs patch_server_request_def exportNodeShareLink_def)

lemma guarded_install_token:
  assumes "1 \<le> n" and "n \<le> 10080" and "wtq_expires_in_minutes r = Some n"
  shows "guarded_request (createWorkerToken (json_worker_token_request r) t)"
  using assms
  by (cases "wtq_interface_name r")
    (simp_all add: guard_defs createWorkerToken_def json_worker_token_request_def)

lemma guarded_install_bootstrap:
  assumes "1 \<le> n" and "n \<le> 10080" and "vbq_expires_in_minutes q = Some n"
  shows "guarded_request (createVpsWorkerBootstrap (json_vps_bootstrap_request q) t)"
  using assms
  by (cases "vbq_interface_name q")
    (simp_all add: guard_defs createVpsWorkerBootstrap_def json_vps_bootstrap_request_def)

lemma node_create_guardD:
  "node_create_guard b sv form = Inr p \<Longrightarrow> landing_port_allowed p \<and> nf_protectedCreateConfirmed form"
  by (auto simp: node_create_guard_def landing_port_allowed_def split: if_splits option.splits)

lemma guarded_creation:
  assumes "landing_port_allowed p" and "nf_protectedCreateConfirmed form"
  shows "guarded_request (createLandingNodePlan i (json_node_plan_request (node_plan_request_of form p)) t)"
    and "guarded_request (createLandingNodeExecution i (json_node_create_request (node_create_request_of form p)) t)"
  using assms
  by (simp_all add: guard_defs createLandingNodePlan_def json_node_plan_request_def
      node_plan_request_of_def plan_confirmations_def createLandingNodeExecution_def
      json_node_create_request_def node_create_request_of_def create_confirmations_def)

subsection \<open>All handlers ask guarded requests only\<close>

abbreviation asks_guarded :: "landing_panel \<times> landing_panel task list \<Rightarrow> bool" where
  "asks_guarded c \<equiv> does (\<lambda>_ _. True) guarded_effects (\<lambda>_. True) c"

lemmas asks_intros = does_finished does_unhandled does_call does_fetch does_sleep does_alongside does_if

lemma asks_csrf:
  "(\<And>t s. asks_guarded (k t s)) \<Longrightarrow> (\<And>e s. asks_guarded (h e s)) \<Longrightarrow> asks_guarded (ensureCsrfToken_await k h s)"
  unfolding ensureCsrfToken_await_def by (auto intro!: does_fetch split: api_response.split)

lemma asks_loadWorkerCommands:
  "(\<And>s. asks_guarded (k s)) \<Longrightarrow> (\<And>e s. asks_guarded (h e s))
    \<Longrightarrow> asks_guarded (loadWorkerCommands_landing w i k h s)"
  unfolding loadWorkerCommands_landing_def by (auto intro!: does_fetch split: api_response.split)

lemma asks_loadServers:
  assumes "\<And>svs s. asks_guarded (k svs s)" and "\<And>e s. asks_guarded (h e s)"
  shows "asks_guarded (loadServers k h s)"
  unfolding loadServers_def Let_def using assms
  by (auto intro!: does_fetch does_each_of simp: load_server_commands_def split: api_response.split)

lemma asks_after:
  "(\<And>s. asks_guarded (k s)) \<Longrightarrow> (\<And>e s. asks_guarded (h e s)) \<Longrightarrow> asks_guarded (loadWorkerCommands_after c i k h s)"
  unfolding loadWorkerCommands_after_def by (auto intro!: asks_loadWorkerCommands split: option.split)

lemma asks_schedule: "asks_guarded (scheduleServerRefresh c i s)"
  unfolding scheduleServerRefresh_def Let_def
  by (auto intro!: asks_intros asks_loadServers asks_after)

lemma asks_ends:
  "asks_guarded (end_landing_submit s)" "asks_guarded (end_command s)" "asks_guarded (node_create_failed e s)"
  "asks_guarded (landing_delete_caught r f e s)"
  unfolding end_landing_submit_def end_command_def node_create_failed_def landing_delete_caught_def Let_def
  by (auto intro!: asks_intros asks_loadServers)

lemma asks_cleanup_ends:
  "asks_guarded (landing_cleanup_finished i c p n s)" "asks_guarded (landing_cleanup_still_running i c s)"
  unfolding landing_cleanup_finished_def landing_cleanup_still_running_def
  by (intro asks_loadServers asks_after does_finished does_unhandled TrueI)+

lemma asks_cleanup_polls: "asks_guarded (landing_cleanup_polls c i p n l a s)"
proof (induction c i p n l a arbitrary: s rule: landing_cleanup_polls.induct)
  case (1 c i p n l a)
  show ?case
  proof (cases "a < CLEANUP_COMMAND_MAX_POLLS")
    case True
    have step: "asks_guarded ((case result of
        ApiSuccess cmd m \<Rightarrow>
          (\<lambda>s. (if wc_status cmd \<in> set CLEANUP_COMMAND_TERMINAL_STATUSES
                then landing_cleanup_finished i cmd p n
                else landing_cleanup_polls c i p n cmd (Suc a)) (note_latest i cmd s))
      | ApiFailure e m d \<Rightarrow> landing_cleanup_polls c i p n l (Suc a)) s)" for result s
      using 1 True by (cases result) (simp_all add: asks_cleanup_ends)
    show ?thesis
      unfolding landing_cleanup_polls.simps [of c i p n l a] if_P [OF True]
      by (intro does_sleep does_fetch step does_unhandled) simp_all
  next
    case False
    then show ?thesis by (subst landing_cleanup_polls.simps) (simp add: asks_cleanup_ends)
  qed
qed

lemma asks_bbr_polls: "asks_guarded (bbr_polls head still c i a s)"
proof (induction head still c i a arbitrary: s rule: bbr_polls.induct)
  case (1 head still c i a)
  show ?case
    by (subst bbr_polls.simps)
      (use 1 in \<open>auto intro!: does_sleep does_fetch asks_loadWorkerCommands asks_intros split: api_response.split\<close>)
qed

lemma asks_wait:
  assumes "\<And>c s. asks_guarded (k c s)" and "\<And>e s. asks_guarded (h e s)"
  shows "asks_guarded (waitForWorkerCommandCompletion_landing w c i r a k h s)"
  using assms
proof (induction w c i r a k h arbitrary: s rule: waitForWorkerCommandCompletion_landing.induct)
  case (1 w c i r a k h)
  show ?case
  proof (cases "a < landing_wait_limit")
    case True
    have again: "asks_guarded (sleep 2000
        (waitForWorkerCommandCompletion_landing w c i r (Suc a) k h) t)" for t
      by (intro does_sleep) (use 1 True in simp_all)
    show ?thesis
      unfolding waitForWorkerCommandCompletion_landing.simps [of w c i r a] if_P [OF True] or_throw_def Let_def
      by (rule does_fetch) (auto simp: 1 again split: api_response.split option.split)
  next
    case False
    then show ?thesis by (subst waitForWorkerCommandCompletion_landing.simps) (simp add: 1)
  qed
qed

lemma asks_copies:
  "(\<And>x s. asks_guarded (k x s)) \<Longrightarrow> asks_guarded (copyTextWithFallback b t sh bx k s)"
  unfolding copyTextWithFallback_def select_and_copy_def
  by (auto intro!: does_call split: settled.split option.split)

lemma asks_export:
  assumes "\<And>s. asks_guarded (k s)" and "\<And>e s. asks_guarded (h e s)"
  shows "asks_guarded (exportSelectedNodeShareLink b i r c v q k h s)"
  unfolding exportSelectedNodeShareLink_def Let_def using assms
  by (auto intro!: asks_csrf does_fetch asks_copies split: api_response.split)

lemma asks_poll: "asks_guarded (pollWorkerInstallHeartbeat b i n s)"
proof (induction b i n s rule: pollWorkerInstallHeartbeat.induct)
  case (1 b i n s)
  have timed_out: "asks_guarded (landing_poll_timed_out t)" for t
    unfolding landing_poll_timed_out_def Let_def by (intro asks_loadServers does_finished does_unhandled TrueI)
  let ?again = "\<lambda>s. if WORKER_INSTALL_MAX_POLLS \<le> n + 1 then landing_poll_timed_out s
    else (let s1 = (if polling_upgrade (li_pollContext (la_install s)) then s
                    else heartbeat_says (uni ''%u7B49%u5F85 Worker %u4E0A%u7EBF...'') s);
              k = la_nextTimer s1
          in (on_install (\<lambda>x. x\<lparr>li_pollTimeout := Some k\<rparr>) (s1\<lparr>la_nextTimer := Suc k\<rparr>),
              [Timer WORKER_INSTALL_POLL_INTERVAL_MS (timer_alive k)
                 (\<lambda>s. pollWorkerInstallHeartbeat b i (n + 1) s)]))"
  let ?conclude = "\<lambda>server s. case check_landing_heartbeat b server s of
      (Some done, s1) \<Rightarrow> done s1 | (None, s1) \<Rightarrow> ?again s1"
  show ?case
  proof (cases "landing_poll_abandoned i s")
    case True
    then show ?thesis by (subst pollWorkerInstallHeartbeat.simps) (simp add: does_finished)
  next
    case False
    have again: "asks_guarded (?again t)" for t
      using 1 False timed_out by (auto simp: Let_def intro!: does_pair conducts_timer)
    have came: "asks_guarded (worker_came hb m t)" for hb m t
      unfolding worker_came_def scheduleWorkerInstallAutoClose_landing_def Let_def
      by (auto intro!: does_pair conducts_timer does_finished)
    have conclude: "asks_guarded (?conclude r t)" for r t
      using again came
      by (auto simp: check_landing_heartbeat_def Let_def simp del: if_split split: option.split if_split_asm)
    have after: "asks_guarded
        ((case x of Some w \<Rightarrow> if w = [] then ?conclude r
                              else loadWorkerCommands_landing w (Some i) (?conclude r) unhandled
                  | None \<Rightarrow> ?conclude r) t)" for x r t
    proof (cases x)
      case None
      then show ?thesis using conclude by simp
    next
      case (Some w)
      then show ?thesis
        using conclude
        by (cases "w = []") (auto simp del: split_paired_All intro!: asks_loadWorkerCommands does_unhandled)
    qed
    have "asks_guarded
        (fetch servers_request as_servers
          (\<lambda>result. case result of
             ApiFailure c m e \<Rightarrow> ?again
           | ApiSuccess svs m \<Rightarrow>
               (\<lambda>s. let s1 = setVisibleServers svs s;
                        server = find_opt (\<lambda>sv. sv_id sv = i) (la_servers s1)
                    in (case Option.bind server sv_worker_id of
                          Some w \<Rightarrow> if w = [] then ?conclude server
                                     else loadWorkerCommands_landing w (Some i) (?conclude server) unhandled
                        | None \<Rightarrow> ?conclude server) s1))
          unhandled s)"
      by (rule does_fetch)
        (use again after in \<open>auto simp: Let_def simp del: if_split intro: does_unhandled split: api_response.split\<close>)
    then show ?thesis
      by (subst pollWorkerInstallHeartbeat.simps) (simp only: False if_False Let_def)
  qed
qed

text \<open>The handlers.\<close>

lemma asks_request_install:
  assumes "1 \<le> n" and "n \<le> 10080" shows "asks_guarded (request_install_command b r f n sv md t s)"
proof -
  have ready: "asks_guarded (install_ready b md i n tk g h s)" if "\<And>e s. asks_guarded (h e s)" for i tk g h s
    unfolding install_ready_def startWorkerInstallPolling_def Let_def
    by (auto intro!: asks_loadServers does_alongside asks_poll asks_ends that)
  show ?thesis
    unfolding request_install_command_def Let_def
    by (cases sv)
      (auto intro!: does_fetch ready asks_ends guarded_install_token [OF assms] guarded_install_bootstrap [OF assms]
        split: api_response.split)
qed

lemma asks_generate: "asks_guarded (generateWorkerInstallCommand b r s)"
proof (cases "bootstrap_error b (la_modalMode s) (li_form (la_install s))")
  case None
  then obtain n where n: "br_to_number b (bf_expiresInMinutes (li_form (la_install s))) = Some n" "1 \<le> n" "n \<le> 10080"
    by (auto simp: bootstrap_error_def not_less split: if_splits option.splits)
  show ?thesis
    unfolding generateWorkerInstallCommand_def Let_def None option.case
    by (intro asks_csrf asks_request_install asks_ends) (simp_all add: n)
qed (simp add: generateWorkerInstallCommand_def does_finished)

lemma asks_copyInstall: "asks_guarded (copyInstallCommand b s)"
  unfolding copyInstallCommand_def by (auto intro!: asks_copies does_finished split: option.split)

lemma asks_checks:
  "asks_guarded (runWorkerCheck_landing sv s)" "asks_guarded (runLandingPreflight sv s)"
  unfolding runWorkerCheck_landing_def runLandingPreflight_def send_landing_command_def Let_def
  by (auto intro!: asks_csrf does_fetch asks_loadWorkerCommands asks_ends does_finished split: api_response.split)

lemma asks_bbr:
  "asks_guarded (openBbrEnablePlan sv s)" "asks_guarded (openBbrEnableDryRun sv s)"
  "asks_guarded (submitBbrRealExecution s)"
  unfolding openBbrEnablePlan_def openBbrEnableDryRun_def submitBbrRealExecution_def Let_def
    refreshBbrDryRunUntilTerminal_def refreshBbrRealExecutionUntilTerminal_def
  by (auto intro!: asks_csrf does_fetch asks_loadWorkerCommands does_alongside asks_bbr_polls does_finished
      split: api_response.split option.split)

lemma asks_creation:
  assumes "landing_port_allowed p" and "nf_protectedCreateConfirmed f"
  shows "asks_guarded (node_create_refresh i p s)" "asks_guarded (node_create_execute sv f p t s)"
    "asks_guarded (node_create_plan sv f p t s)" "asks_guarded (node_create_preflight sv f p t s)"
proof -
  show refresh: "asks_guarded (node_create_refresh i p s)" for i s
    unfolding node_create_refresh_def Let_def by (intro asks_loadServers asks_ends)
  show execute: "asks_guarded (node_create_execute sv f p t s)" for s
    unfolding node_create_execute_def or_throw_def
    by (auto intro!: does_fetch asks_wait asks_ends refresh guarded_creation assms split: api_response.split)
  show plan: "asks_guarded (node_create_plan sv f p t s)" for s
    unfolding node_create_plan_def or_throw_def
    by (auto intro!: does_fetch asks_ends execute guarded_creation assms split: api_response.split)
  show "asks_guarded (node_create_preflight sv f p t s)"
    unfolding node_create_preflight_def or_throw_def
    by (auto intro!: does_fetch asks_wait asks_ends plan split: api_response.split)
qed

lemma asks_create: "asks_guarded (submitSimplifiedLandingNodeCreate b s)"
  unfolding submitSimplifiedLandingNodeCreate_def Let_def
  by (auto intro!: asks_csrf asks_creation asks_ends does_finished dest: node_create_guardD
      split: option.split sum.split)

lemma asks_fetchNodeDetail:
  "(\<And>n s. asks_guarded (k n s)) \<Longrightarrow> (\<And>e s. asks_guarded (h e s)) \<Longrightarrow> asks_guarded (fetchNodeDetail i k h s)"
  unfolding fetchNodeDetail_def by (auto intro!: does_fetch split: api_response.split)

lemma asks_details:
  "asks_guarded (openNodeDetail b n q s)" "asks_guarded (copyNodeShareLink b n s)"
  "asks_guarded (toggle_full_link b d s)" "asks_guarded (toggle_qr b d s)"
  unfolding openNodeDetail_def copyNodeShareLink_def toggle_full_link_def toggle_qr_def Let_def
  by (auto intro!: asks_fetchNodeDetail asks_export does_finished does_unhandled split: option.split)

lemma asks_edit: "asks_guarded (submitEdit_landing b s)"
  unfolding submitEdit_landing_def Let_def
  by (auto intro!: asks_csrf does_fetch asks_loadServers asks_ends does_finished split: option.split api_response.split)

lemma asks_delete:
  assumes "\<And>t. guarded_request (q t)" shows "asks_guarded (landing_delete q r i p n f s)"
proof -
  have watch: "asks_guarded (refreshWhenCleanupCommandCompletes c i p n s)" for c s
    unfolding refreshWhenCleanupCommandCompletes_def
    by (auto intro: asks_cleanup_polls does_finished split: option.split)
  show ?thesis
    unfolding landing_delete_def Let_def using assms
    by (auto intro!: asks_csrf does_fetch asks_loadServers does_alongside asks_schedule watch asks_ends
        split: api_response.split)
qed

lemma asks_deletes: "asks_guarded (submitDelete_landing s)" "asks_guarded (submitDeleteNode s)"
  unfolding submitDelete_landing_def submitDeleteNode_def
  by (auto intro!: asks_delete does_finished split: option.split)

lemma landing_asks_guarded: "landing_may b s a \<Longrightarrow> asks_guarded (a s)"
  by (induction rule: landing_may.induct)
    (auto intro!: asks_loadServers does_finished does_unhandled asks_checks asks_bbr asks_generate asks_copyInstall
      asks_edit asks_deletes asks_create asks_details asks_export simp: closeNodeCreateModal_def)

lemma landing_reach_guarded: "landing_reach b c \<Longrightarrow> asks_guarded c"
  by (erule system_conducts) (auto intro: landing_asks_guarded)

end
