(* ===== verification/LandingWatches.thy ===== *)
theory LandingWatches
  imports LandingConduct
begin

text \<open>
  The watches of the landing server panel end: how often each of its loops can wait, whatever the
  backend answers and in whatever order the events arrive.
\<close>

subsection \<open>Watches end\<close>

definition ticks :: "nat \<Rightarrow> landing_panel task \<Rightarrow> bool" where
  "ticks d t \<longleftrightarrow> (\<exists>alive a. t = Timer d alive a)"

lemma ticks_simps [simp]:
  "\<not> ticks d (Call e f)" "\<not> ticks d (EachOf xs k h)" "ticks d (Timer i alive a) \<longleftrightarrow> i = d"
  by (auto simp: ticks_def)

abbreviation ticking :: "nat \<Rightarrow> nat \<Rightarrow> landing_panel \<times> landing_panel task list \<Rightarrow> bool" where
  "ticking d \<equiv> counted (ticks d)"

lemma ticking_fetch:
  "(\<And>r s. ticking d n (k r s)) \<Longrightarrow> (\<And>e s. ticking d n (h e s)) \<Longrightarrow> ticking d n (fetch q as k h s)"
  using counted_fetch [of "ticks d" n k h q 0 as s] by simp

lemma ticking_csrf:
  "(\<And>t s. ticking d n (k t s)) \<Longrightarrow> (\<And>e s. ticking d n (h e s)) \<Longrightarrow> ticking d n (ensureCsrfToken_await k h s)"
  unfolding ensureCsrfToken_await_def by (auto intro!: ticking_fetch split: api_response.split)

lemma ticking_loadWorkerCommands:
  "(\<And>s. ticking d n (k s)) \<Longrightarrow> (\<And>e s. ticking d n (h e s))
    \<Longrightarrow> ticking d n (loadWorkerCommands_landing w i k h s)"
  unfolding loadWorkerCommands_landing_def by (auto intro!: ticking_fetch split: api_response.split)

lemma ticking_loadServers:
  assumes "\<And>svs s. ticking d n (k svs s)" and "\<And>e s. ticking d n (h e s)"
  shows "ticking d n (loadServers k h s)"
  unfolding loadServers_def Let_def using assms
  by (auto intro!: ticking_fetch counted_each_of split: api_response.split)

lemma ticking_after:
  "(\<And>s. ticking d n (k s)) \<Longrightarrow> (\<And>e s. ticking d n (h e s)) \<Longrightarrow> ticking d n (loadWorkerCommands_after c i k h s)"
  unfolding loadWorkerCommands_after_def by (auto intro!: ticking_loadWorkerCommands split: option.split)

lemma ticking_timer:
  assumes "\<And>s. ticking d n (a s)" shows "ticking d (of_bool (i = d) + n) (s, [Timer i alive a])"
proof (rule counted_one, rule at_most.intros)
  fix ev t t' new
  assume "resume ev (Timer i alive a) t = Some (t', new)"
  then consider "a t = (t', new)" | "new = []"
    by (cases ev) (auto split: if_splits)
  then show "\<exists>ns. list_all2 (at_most (ticks d)) ns new \<and> sum_list ns + of_bool (ticks d (Timer i alive a))
      \<le> of_bool (i = d) + n"
  proof cases
    case 1
    then have "counted (ticks d) n (t', new)" using assms [of t] by simp
    then obtain ns where "list_all2 (at_most (ticks d)) ns new" "sum_list ns \<le> n" by (rule countedD)
    then show ?thesis by (intro exI [of _ ns]) simp
  next
    case 2
    then show ?thesis by (intro exI [of _ "[]"]) simp
  qed
qed

lemma ticking_sleep: "(\<And>s. ticking d n (k s)) \<Longrightarrow> ticking d (1 + n) (sleep d k s)"
  using ticking_timer [of d n k d s] by (simp add: sleep_def)

lemma ticking_step:
  "m < M \<Longrightarrow> (\<And>s. ticking d (M - Suc m) (k s)) \<Longrightarrow> ticking d (M - m) (sleep d k s)"
  using ticking_sleep [of d "M - Suc m" k s] by (simp add: Suc_diff_Suc)

lemma ticking_cleanup_ends:
  "ticking d n (landing_cleanup_finished i c p q s)" "ticking d n (landing_cleanup_still_running i c s)"
  unfolding landing_cleanup_finished_def landing_cleanup_still_running_def
  by (intro ticking_loadServers ticking_after counted_nothing)+

lemma ticking_cleanup_polls:
  "ticking CLEANUP_COMMAND_POLL_INTERVAL_MS (CLEANUP_COMMAND_MAX_POLLS - a) (landing_cleanup_polls c i p q l a s)"
proof (induction c i p q l a arbitrary: s rule: landing_cleanup_polls.induct)
  case (1 c i p q l a)
  let ?t = "ticking CLEANUP_COMMAND_POLL_INTERVAL_MS (CLEANUP_COMMAND_MAX_POLLS - Suc a)"
  show ?case
  proof (cases "a < CLEANUP_COMMAND_MAX_POLLS")
    case True
    have step: "?t ((case result of
        ApiSuccess cmd m \<Rightarrow>
          (\<lambda>s. (if wc_status cmd \<in> set CLEANUP_COMMAND_TERMINAL_STATUSES
                then landing_cleanup_finished i cmd p q
                else landing_cleanup_polls c i p q cmd (Suc a)) (note_latest i cmd s))
      | ApiFailure e m d \<Rightarrow> landing_cleanup_polls c i p q l (Suc a)) s)" for result s
      using 1 True by (cases result) (simp_all add: ticking_cleanup_ends)
    show ?thesis
      unfolding landing_cleanup_polls.simps [of c i p q l a] if_P [OF True]
      by (intro ticking_step ticking_fetch step counted_nothing True)
  next
    case False
    then show ?thesis by (subst landing_cleanup_polls.simps) (simp add: ticking_cleanup_ends)
  qed
qed

lemma ticking_bbr_polls:
  "ticking CLEANUP_COMMAND_POLL_INTERVAL_MS (CLEANUP_COMMAND_MAX_POLLS - a) (bbr_polls h t c i a s)"
proof (induction h t c i a arbitrary: s rule: bbr_polls.induct)
  case (1 h t c i a)
  show ?case
  proof (cases "a < CLEANUP_COMMAND_MAX_POLLS")
    case True
    show ?thesis
      unfolding bbr_polls.simps [of h t c i a] if_P [OF True]
      by (rule ticking_step [OF True])
        (use 1 True in \<open>auto intro!: ticking_fetch ticking_loadWorkerCommands counted_nothing split: api_response.split\<close>)
  next
    case False
    then show ?thesis
      by (subst bbr_polls.simps) (auto intro!: ticking_loadWorkerCommands counted_nothing)
  qed
qed

lemma ticking_wait:
  assumes "\<And>c s. ticking 2000 n (k c s)" and "\<And>e s. ticking 2000 n (h e s)"
  shows "ticking 2000 (landing_wait_limit - a + n) (waitForWorkerCommandCompletion_landing w c i r a k h s)"
  using assms
proof (induction w c i r a k h arbitrary: s rule: waitForWorkerCommandCompletion_landing.induct)
  case (1 w c i r a k h)
  have more: "ticking 2000 (landing_wait_limit - a + n) x" if "ticking 2000 n x" for x
    by (rule counted_mono [OF that]) simp
  show ?case
  proof (cases "a < landing_wait_limit")
    case True
    have "ticking 2000 (1 + (landing_wait_limit - Suc a + n)) (sleep 2000
        (waitForWorkerCommandCompletion_landing w c i r (Suc a) k h) t)" for t
      by (intro ticking_sleep) (use 1 True in simp_all)
    then have again: "ticking 2000 (landing_wait_limit - a + n) (sleep 2000
        (waitForWorkerCommandCompletion_landing w c i r (Suc a) k h) t)" for t
      using True by (simp add: Suc_diff_Suc flip: add_Suc)
    show ?thesis
      unfolding waitForWorkerCommandCompletion_landing.simps [of w c i r a] if_P [OF True] or_throw_def Let_def
      by (rule ticking_fetch) (auto simp: 1 more again split: api_response.split option.split)
  next
    case False
    then show ?thesis by (subst waitForWorkerCommandCompletion_landing.simps) (simp add: 1)
  qed
qed

lemma ticking_creation_ends:
  "ticking 2000 n (node_create_failed e s)" "ticking 2000 n (node_create_refresh i p s)"
  unfolding node_create_failed_def node_create_refresh_def end_landing_submit_def Let_def
  by (intro ticking_loadServers counted_nothing)+

lemma ticking_create: "ticking 2000 180 (submitSimplifiedLandingNodeCreate b s)"
proof -
  have execute: "ticking 2000 90 (node_create_execute sv f p t s)" for sv f p t s
    unfolding node_create_execute_def or_throw_def
    by (auto intro!: ticking_fetch ticking_creation_ends ticking_wait [where n = 0 and a = 0, unfolded landing_wait_limit_def, simplified]
        split: api_response.split)
  then have plan: "ticking 2000 90 (node_create_plan sv f p t s)" for sv f p t s
    unfolding node_create_plan_def or_throw_def
    by (auto intro!: ticking_fetch ticking_creation_ends split: api_response.split)
  then have "ticking 2000 180 (node_create_preflight sv f p t s)" for sv f p t s
    unfolding node_create_preflight_def or_throw_def
    by (auto intro!: ticking_fetch ticking_creation_ends ticking_wait [where n = 90 and a = 0, unfolded landing_wait_limit_def, simplified]
        split: api_response.split)
  then show ?thesis
    unfolding submitSimplifiedLandingNodeCreate_def Let_def
    by (auto intro!: ticking_csrf ticking_creation_ends counted_nothing split: option.split sum.split)
qed

lemma ticking_poll:
  "n < WORKER_INSTALL_MAX_POLLS \<Longrightarrow>
     ticking WORKER_INSTALL_POLL_INTERVAL_MS (WORKER_INSTALL_MAX_POLLS - Suc n) (pollWorkerInstallHeartbeat b i n s)"
proof (induction b i n s rule: pollWorkerInstallHeartbeat.induct)
  case (1 b i n s)
  let ?t = "ticking WORKER_INSTALL_POLL_INTERVAL_MS (WORKER_INSTALL_MAX_POLLS - Suc n)"
  have timed_out: "ticking d m (landing_poll_timed_out t)" for d m t
    unfolding landing_poll_timed_out_def Let_def by (intro ticking_loadServers counted_nothing)
  let ?again = "\<lambda>s. if WORKER_INSTALL_MAX_POLLS \<le> n + 1 then landing_poll_timed_out s
    else (let s1 = (if polling_upgrade (li_pollContext (la_install s)) then s
                    else heartbeat_says (uni ''%u7B49%u5F85 Worker %u4E0A%u7EBF...'') s);
              k = la_nextTimer s1
          in (on_install (\<lambda>x. x\<lparr>li_pollTimeout := Some k\<rparr>) (s1\<lparr>la_nextTimer := Suc k\<rparr>),
              [Timer WORKER_INSTALL_POLL_INTERVAL_MS (timer_alive k)
                 (\<lambda>s. pollWorkerInstallHeartbeat b i (n + 1) s)]))"
  let ?conclude = "\<lambda>server s. case check_landing_heartbeat b server s of
      (Some done, s1) \<Rightarrow> done s1 | (None, s1) \<Rightarrow> ?again s1"
  show ?case
  proof (cases "landing_poll_abandoned i s")
    case True
    then show ?thesis by (subst pollWorkerInstallHeartbeat.simps) (simp add: counted_nothing)
  next
    case False
    have again: "?t (?again t)" for t
    proof (cases "WORKER_INSTALL_MAX_POLLS \<le> n + 1")
      case more: False
      then have "\<And>s. ticking WORKER_INSTALL_POLL_INTERVAL_MS (WORKER_INSTALL_MAX_POLLS - Suc (Suc n))
          (pollWorkerInstallHeartbeat b i (n + 1) s)"
        using 1 False by simp
      then have "?t (u, [Timer WORKER_INSTALL_POLL_INTERVAL_MS alive
          (\<lambda>s. pollWorkerInstallHeartbeat b i (n + 1) s)])" for u alive
        using ticking_timer [of WORKER_INSTALL_POLL_INTERVAL_MS "WORKER_INSTALL_MAX_POLLS - Suc (Suc n)"
            _ WORKER_INSTALL_POLL_INTERVAL_MS] more by (simp add: Suc_diff_Suc)
      then show ?thesis using more by (simp add: Let_def)
    qed (simp add: timed_out)
    have came: "?t (worker_came hb m t)" for hb m t
      unfolding worker_came_def scheduleWorkerInstallAutoClose_landing_def Let_def
      using ticking_timer [of WORKER_INSTALL_POLL_INTERVAL_MS "WORKER_INSTALL_MAX_POLLS - Suc n" _ 1200]
      by (simp add: WORKER_INSTALL_POLL_INTERVAL_MS_def counted_nothing)
    have conclude: "?t (?conclude r t)" for r t
      using again came
      by (auto simp: check_landing_heartbeat_def Let_def simp del: if_split split: option.split if_split_asm)
    have after: "?t
        ((case x of Some w \<Rightarrow> if w = [] then ?conclude r
                              else loadWorkerCommands_landing w (Some i) (?conclude r) unhandled
                  | None \<Rightarrow> ?conclude r) t)" for x r t
    proof (cases x)
      case None
      then show ?thesis using conclude by simp
    next
      case (Some w)
      then show ?thesis
        using conclude
        by (cases "w = []") (auto simp del: split_paired_All intro!: ticking_loadWorkerCommands counted_nothing)
    qed
    have "?t
        (fetch servers_request as_servers
          (\<lambda>result. case result of
             ApiFailure c m e \<Rightarrow> ?again
           | ApiSuccess svs m \<Rightarrow>
               (\<lambda>s. let s1 = setVisibleServers svs s;
                        server = find_opt (\<lambda>sv. sv_id sv = i) (la_servers s1)
                    in (case Option.bind server sv_worker_id of
                          Some w \<Rightarrow> if w = [] then ?conclude server
                                     else loadWorkerCommands_landing w (Some i) (?conclude server) unhandled
                        | None \<Rightarrow> ?conclude server) s1))
          unhandled s)"
      by (rule ticking_fetch)
        (use again after in \<open>auto simp: Let_def simp del: if_split intro: counted_nothing split: api_response.split\<close>)
    then show ?thesis
      by (subst pollWorkerInstallHeartbeat.simps) (simp only: False if_False Let_def)
  qed
qed

text \<open>
  C10 (termination). Whatever the backend answers and in whatever order the events
  arrive: the watch over a cleanup command and both watches over BBR commands wait at most 30 times,
  the creation of a node waits at most 180 times (90 for the preflight, 90 for the command), the
  polling for a Worker waits at most 59 times, and no run of any of them is infinite.
\<close>

theorem landing_watches_end:
  "performed (ticks 2000) evs (refreshWhenCleanupCommandCompletes command serverId p n s) \<le> 30
   \<and> performed (ticks 2000) evs (refreshBbrDryRunUntilTerminal c i s) \<le> 30
   \<and> performed (ticks 2000) evs (refreshBbrRealExecutionUntilTerminal c i s) \<le> 30
   \<and> performed (ticks 2000) evs (submitSimplifiedLandingNodeCreate b s) \<le> 180
   \<and> performed (ticks 3000) evs (startWorkerInstallPolling b i context s) \<le> 59
   \<and> \<not> (\<exists>f. f 0 = start \<and> (\<forall>n. (f (Suc n), f n :: landing_panel \<times> landing_panel task list) \<in> loop_step))"
proof (intro conjI)
  have cleanup: "ticking 2000 30 (landing_cleanup_polls c i p n l 0 s)" for c i l
    using ticking_cleanup_polls [of 0] by (simp add: CLEANUP_COMMAND_POLL_INTERVAL_MS_def CLEANUP_COMMAND_MAX_POLLS_def)
  have bbr: "ticking 2000 30 (bbr_polls h t c i 0 s)" for h t
    using ticking_bbr_polls [of 0] by (simp add: CLEANUP_COMMAND_POLL_INTERVAL_MS_def CLEANUP_COMMAND_MAX_POLLS_def)
  show "performed (ticks 2000) evs (refreshWhenCleanupCommandCompletes command serverId p n s) \<le> 30"
    by (rule performed_counted)
      (auto simp: refreshWhenCleanupCommandCompletes_def intro: cleanup counted_nothing split: option.split)
  show "performed (ticks 2000) evs (refreshBbrDryRunUntilTerminal c i s) \<le> 30"
    "performed (ticks 2000) evs (refreshBbrRealExecutionUntilTerminal c i s) \<le> 30"
    unfolding refreshBbrDryRunUntilTerminal_def refreshBbrRealExecutionUntilTerminal_def
    by (rule performed_counted [OF bbr])+
  show "performed (ticks 2000) evs (submitSimplifiedLandingNodeCreate b s) \<le> 180"
    by (rule performed_counted [OF ticking_create])
  show "performed (ticks 3000) evs (startWorkerInstallPolling b i context s) \<le> 59"
    unfolding startWorkerInstallPolling_def Let_def
    using ticking_poll [of 0 b i]
    by (intro performed_counted) (simp add: WORKER_INSTALL_POLL_INTERVAL_MS_def WORKER_INSTALL_MAX_POLLS_def)
  show "\<not> (\<exists>f. f 0 = start \<and> (\<forall>n. (f (Suc n), f n) \<in> loop_step))"
    using event_loop_terminates unfolding wf_iff_no_infinite_down_chain by blast
qed

end
