(* ===== verification/TransitRoutePlanning.thy ===== *)
theory TransitRoutePlanning
  imports TransitRouteCreate
begin

text \<open>
  The other handlers of \<^verbatim>\<open>TransitRoutesPanel\<close>: renaming and deleting a route, the
  summary and the transient export of a candidate link, and the planning section with its
  read-only preflight and the four HAProxy stages. As in the creation, a handler reads the
  component's variables from the rendering in which it was created; where that matters after an
  \<^verbatim>\<open>await\<close>, it is passed on as \<open>c\<close>.
\<close>

subsection \<open>Waiting for a cleanup command\<close>

definition route_cleanup_text :: "jsstr \<Rightarrow> jsstr" where
  "route_cleanup_text status =
     (if status = (js ''succeeded'') then (uni ''%u6E05%u7406%u4EFB%u52A1%u5DF2%u5B8C%u6210%uFF0C%u4E2D%u8F6C%u94FE%u8DEF%u5217%u8868%u5DF2%u81EA%u52A8%u5237%u65B0%u3002'')
      else (uni ''%u6E05%u7406%u4EFB%u52A1%u5DF2%u8FDB%u5165%u7EC8%u6001%uFF1A'') @ displayStatusLabel (Some status)
        @ (uni ''%u3002%u5217%u8868%u5DF2%u81EA%u52A8%u5237%u65B0%uFF0C%u8BF7%u67E5%u770B%u4EFB%u52A1%u4E2D%u5FC3%u3002''))"

definition route_cleanup_finished ::
  "routes_panel \<Rightarrow> worker_command_data \<Rightarrow> jsstr option \<Rightarrow> routes_panel act" where
  "route_cleanup_finished c cmd routeId s =
     loadData_routes c (\<lambda>d s. finished (say (route_cleanup_text (wc_status cmd)) s)) unhandled
       (if wc_status cmd \<noteq> (js ''succeeded'') \<and> \<not> blank routeId
        then releaseTransitRoutePendingDelete (the routeId) s else s)"

definition route_cleanup_unfinished :: "routes_panel \<Rightarrow> routes_panel act" where
  "route_cleanup_unfinished c =
     loadData_routes c (\<lambda>d s. finished (say
       (uni ''%u6E05%u7406%u4EFB%u52A1%u4ECD%u5728%u6267%u884C%uFF0C%u4E2D%u8F6C%u94FE%u8DEF%u5217%u8868%u5DF2%u518D%u6B21%u5237%u65B0%uFF1B%u8BF7%u7A0D%u540E%u67E5%u770B%u4EFB%u52A1%u4E2D%u5FC3%u6216%u518D%u6B21%u5237%u65B0%u3002'') s)) unhandled"

function route_cleanup_polls ::
  "routes_panel \<Rightarrow> jsstr \<Rightarrow> jsstr option \<Rightarrow> nat \<Rightarrow> routes_panel act" where
  "route_cleanup_polls c commandId routeId attempt =
     (if attempt < cleanupCommandMaxPolls then
        sleep cleanupCommandPollIntervalMs
          (fetch (getWorkerCommand commandId) as_command
            (\<lambda>result. case result of
               ApiSuccess cmd m \<Rightarrow>
                 if wc_status cmd \<in> set cleanupCommandTerminalStatuses
                 then route_cleanup_finished c cmd routeId
                 else route_cleanup_polls c commandId routeId (Suc attempt)
             | ApiFailure e m d \<Rightarrow> route_cleanup_polls c commandId routeId (Suc attempt))
            unhandled)
      else route_cleanup_unfinished c)"
  by pat_completeness auto
termination
  by (relation "measure (\<lambda>(c, i, r, attempt). cleanupCommandMaxPolls - attempt)") auto

definition refreshWhenRouteCleanupCommandCompletes ::
  "routes_panel \<Rightarrow> worker_command_data option \<Rightarrow> jsstr option \<Rightarrow> routes_panel act" where
  "refreshWhenRouteCleanupCommandCompletes c command routeId =
     (case command of
        None \<Rightarrow> finished
      | Some cmd \<Rightarrow> if wc_id cmd = [] then finished else route_cleanup_polls c (wc_id cmd) routeId 0)"

subsection \<open>Renaming a route\<close>

definition openEditRoute :: "transit_route_data \<Rightarrow> routes_panel \<Rightarrow> routes_panel" where
  "openEditRoute route =
     on_edit (\<lambda>x. x\<lparr>re_editRouteId := rt_id route, re_editRouteName := rt_name route,
                      re_editRouteError := []\<rparr>)"

definition closeEditRouteModal :: "routes_panel \<Rightarrow> routes_panel" where
  "closeEditRouteModal =
     on_edit (\<lambda>x. x\<lparr>re_editRouteId := [], re_editRouteName := [], re_editRouteError := [],
                      re_editRouteSaving := False\<rparr>)"

definition edit_route_error :: "jsstr \<Rightarrow> routes_panel \<Rightarrow> routes_panel" where
  "edit_route_error m = on_edit (\<lambda>x. x\<lparr>re_editRouteError := m\<rparr>)"

definition edit_route_saving :: "bool \<Rightarrow> routes_panel \<Rightarrow> routes_panel" where
  "edit_route_saving v = on_edit (\<lambda>x. x\<lparr>re_editRouteSaving := v\<rparr>)"

definition rename_listed ::
  "jsstr \<Rightarrow> route_rename_result \<Rightarrow> transit_route_data list \<Rightarrow> transit_route_data list" where
  "rename_listed routeId d =
     map (\<lambda>route. if rt_id route = routeId
                  then route\<lparr>rt_name := rr_name d, rt_updated_at := rr_updated_at d\<rparr> else route)"

definition route_renamed :: "jsstr \<Rightarrow> route_rename_result \<Rightarrow> routes_panel \<Rightarrow> routes_panel" where
  "route_renamed routeId d s =
     closeEditRouteModal (say (uni ''%u4E2D%u8F6C%u94FE%u8DEF%u540D%u79F0%u5DF2%u66F4%u65B0%u3002'')
       (on_candidate (\<lambda>x. x
          \<lparr>ca_summary := (case ca_summary x of
               Some y \<Rightarrow> Some (if cs_route_id y = routeId then y\<lparr>cs_route_name := rr_name d\<rparr> else y)
             | None \<Rightarrow> None),
           ca_export := (case ca_export x of
               Some y \<Rightarrow> if ce_route_id y = routeId then None else Some y
             | None \<Rightarrow> None),
           ca_message := (uni ''%u4E2D%u8F6C%u94FE%u8DEF%u540D%u79F0%u5DF2%u66F4%u65B0%u3002%u540E%u7EED%u4E34%u65F6%u5BFC%u51FA%u4F1A%u4F7F%u7528%u65B0%u540D%u79F0%u4F5C%u4E3A%u5BA2%u6237%u7AEF%u5907%u6CE8%u3002'')\<rparr>)
         (s\<lparr>ro_routes := rename_listed routeId d (ro_routes s)\<rparr>)))"

definition rename_ended :: "routes_panel act" where
  "rename_ended s = finished (edit_route_saving False s)"

definition rename_caught :: "jsstr option \<Rightarrow> routes_panel act" where
  "rename_caught e s = rename_ended (edit_route_error (error_text e (uni ''%u4FDD%u5B58%u4E2D%u8F6C%u94FE%u8DEF%u540D%u79F0%u5931%u8D25%u3002'')) s)"

definition rename_body :: "jsstr \<Rightarrow> jsval" where
  "rename_body v = JObj [((js ''name''), JStr v)]"

definition submitEditRouteName :: "routes_panel act" where
  "submitEditRouteName s =
     (case editRoute s of
        None \<Rightarrow> finished s
      | Some route \<Rightarrow>
          let nextName = trim (re_editRouteName (ro_edit s)) in
          if nextName = [] then finished (edit_route_error (uni ''%u94FE%u8DEF%u540D%u79F0%u4E0D%u80FD%u4E3A%u7A7A%u3002'') s)
          else if 120 < length nextName then finished (edit_route_error (uni ''%u94FE%u8DEF%u540D%u79F0%u4E0D%u80FD%u8D85%u8FC7 120 %u4E2A%u5B57%u7B26%u3002'') s)
          else
            ensureCsrfToken_await
              (\<lambda>csrfToken.
                 fetch (updateTransitRouteName (rt_id route) (rename_body nextName) csrfToken) as_rename
                   (\<lambda>result. case result of
                      ApiFailure c m d \<Rightarrow> (\<lambda>s. rename_ended (edit_route_error (api_error_text c m) s))
                    | ApiSuccess d m \<Rightarrow>
                        (\<lambda>t. loadData_routes s (\<lambda>d. rename_ended) rename_caught
                               (route_renamed (rt_id route) d t)))
                   rename_caught)
              rename_caught
              (edit_route_error [] (edit_route_saving True s)))"

subsection \<open>Deleting a route\<close>

definition openDeleteRoute :: "jsstr \<Rightarrow> routes_panel \<Rightarrow> routes_panel" where
  "openDeleteRoute routeId s =
     (let route = route_by_id s routeId in
      say (if isHaproxyForwardingMethod (map_option rt_forwarding_method route)
           then (uni ''HAProxy %u4E2D%u8F6C%u94FE%u8DEF%u8FDC%u7A0B%u6E05%u7406%u5220%u9664%u4F1A%u505C%u6B62%u8FDC%u7A0B%u670D%u52A1%u5E76%u91CA%u653E%u76D1%u542C%u7AEF%u53E3 '')
             @ (case route of Some r \<Rightarrow> string_of_int (rt_listen_port r) | None \<Rightarrow> [])
             @ (uni ''%uFF1B%u79BB%u7EBF%u672C%u5730%u79FB%u9664%u53EA%u9690%u85CF%u672C%u5730%u8BB0%u5F55%u3002'')
           else (uni ''%u4E2D%u8F6C%u94FE%u8DEF%u5220%u9664%u53EF%u521B%u5EFA%u53D7%u63A7%u8FDC%u7A0B%u6E05%u7406%u4EFB%u52A1%uFF1B%u79BB%u7EBF%u672C%u5730%u79FB%u9664%u4E0D%u4F1A%u505C%u6B62%u8FDC%u7A0B%u670D%u52A1%u6216%u91CA%u653E%u76D1%u542C%u7AEF%u53E3%u3002''))
        (on_edit (\<lambda>x. x\<lparr>re_deleteRouteId := routeId, re_deleteRouteMode := RemoteCleanup\<rparr>) s))"

definition closeDeleteRouteModal :: "routes_panel \<Rightarrow> routes_panel" where
  "closeDeleteRouteModal =
     on_edit (\<lambda>x. x\<lparr>re_deleteRouteId := [], re_deleteRouteMode := RemoteCleanup\<rparr>)"

definition candidate_loading :: "bool \<Rightarrow> routes_panel \<Rightarrow> routes_panel" where
  "candidate_loading v = on_candidate (\<lambda>x. x\<lparr>ca_loading := v\<rparr>)"

definition candidate_say :: "jsstr \<Rightarrow> routes_panel \<Rightarrow> routes_panel" where
  "candidate_say m = on_candidate (\<lambda>x. x\<lparr>ca_message := m\<rparr>)"

definition candidate_ended :: "routes_panel act" where
  "candidate_ended s = finished (candidate_loading False s)"

definition route_delete_started_text :: "delete_mode \<Rightarrow> jsstr" where
  "route_delete_started_text mode =
     (if mode = OfflineLocalRemove
      then (uni ''%u6B63%u5728%u79BB%u7EBF%u672C%u5730%u79FB%u9664%u4E2D%u8F6C%u94FE%u8DEF%u8BB0%u5F55%uFF1B%u4E0D%u4F1A%u521B%u5EFA Worker command %u6216%u6267%u884C%u8FDC%u7A0B%u6E05%u7406%u3002'')
      else (uni ''%u6B63%u5728%u521B%u5EFA%u4E2D%u8F6C%u94FE%u8DEF%u8FDC%u7A0B%u6E05%u7406%u4EFB%u52A1%uFF1B%u6E05%u7406%u6210%u529F%u540E%u4F1A%u505C%u6B62%u8FDC%u7A0B%u670D%u52A1%u5E76%u8F6F%u5220%u9664%u7CFB%u7EDF%u8BB0%u5F55%u3002''))"

definition route_delete_done_text :: "cleanup_result \<Rightarrow> jsstr" where
  "route_delete_done_text d =
     (if cu_delete_mode d = Some (js ''offline_local_remove'')
      then (uni ''%u5DF2%u79BB%u7EBF%u672C%u5730%u79FB%u9664%u8BB0%u5F55%u3002%u7531%u4E8E Worker %u79BB%u7EBF%uFF0C%u672A%u6267%u884C%u8FDC%u7A0B%u6E05%u7406%uFF1B%u8FDC%u7A0B%u670D%u52A1%u548C%u76D1%u542C%u7AEF%u53E3%u53EF%u80FD%u4ECD%u7136%u5B58%u5728%u3002'')
      else (uni ''%u6E05%u7406%u4EFB%u52A1%u5DF2%u521B%u5EFA%uFF1A'') @ nullish (cu_command_id d) (js ''undefined'')
        @ (uni ''%u3002%u7B49%u5F85 Worker %u6267%u884C%uFF1B%u8FDC%u7A0B%u6E05%u7406%u6210%u529F%u540E%u5C06%u8F6F%u5220%u9664%u7CFB%u7EDF%u8BB0%u5F55%u3002''))"

definition route_delete_refused :: "jsstr \<Rightarrow> jsstr \<Rightarrow> jsval option \<Rightarrow> routes_panel \<Rightarrow> routes_panel" where
  "route_delete_refused code m data s =
     (if code = (js ''REMOTE_CLEANUP_UNAVAILABLE'') \<and> isOfflineLocalRemoveOffer data
      then say m (on_edit (\<lambda>x. x\<lparr>re_deleteRouteMode := OfflineLocalRemove\<rparr>) s)
      else say (api_error_text code m) s)"

definition route_delete_caught :: "routes_panel \<Rightarrow> jsstr \<Rightarrow> jsstr option \<Rightarrow> routes_panel act" where
  "route_delete_caught c routeId e s =
     loadData_routes c (\<lambda>d s. candidate_ended (say (error_text e (uni ''%u5220%u9664%u4E2D%u8F6C%u94FE%u8DEF%u5931%u8D25%u3002'')) s))
       (\<lambda>e. candidate_ended)
       (releaseTransitRoutePendingDelete routeId s)"

definition route_delete_accepted :: "cleanup_result \<Rightarrow> routes_panel \<Rightarrow> routes_panel" where
  "route_delete_accepted d s =
     on_candidate (\<lambda>x. x\<lparr>ca_summary := None, ca_export := None\<rparr>)
       (closeDeleteRouteModal (say (route_delete_done_text d) s))"

definition submitDeleteRoute :: "routes_panel act" where
  "submitDeleteRoute s =
     (case deleteRoute s of
        None \<Rightarrow> finished s
      | Some route \<Rightarrow>
          let routeId = rt_id route;
              mode = re_deleteRouteMode (ro_edit s);
              caught = route_delete_caught s routeId
          in ensureCsrfToken_await
               (\<lambda>csrfToken.
                  fetch (remoteCleanupDeleteTransitRoute routeId csrfToken (requiredDeleteConfirmText mode))
                    as_cleanup
                    (\<lambda>result. case result of
                       ApiFailure c m d \<Rightarrow>
                         (\<lambda>t. loadData_routes s
                                (\<lambda>x t. candidate_ended (route_delete_refused c m d t)) caught
                                (releaseTransitRoutePendingDelete routeId t))
                     | ApiSuccess d m \<Rightarrow>
                         (\<lambda>t. loadData_routes s
                                (\<lambda>x. alongside (scheduleRouteDataRefresh s)
                                  (alongside
                                     (refreshWhenRouteCleanupCommandCompletes s (cu_command d) (Some routeId))
                                     candidate_ended))
                                caught
                                (route_delete_accepted d t)))
                    caught)
               caught
               (say (route_delete_started_text mode)
                  (candidate_loading True (markTransitRoutePendingDelete routeId s))))"

subsection \<open>Summary and transient export of a candidate link\<close>

definition selectCandidateRoute :: "jsstr \<Rightarrow> routes_panel \<Rightarrow> routes_panel" where
  "selectCandidateRoute routeId =
     on_candidate (\<lambda>x.
       if ca_routeId x \<noteq> routeId
       then x\<lparr>ca_routeId := routeId, ca_summary := None, ca_export := None,
              ca_copyFallbackRequired := False\<rparr>
       else x)"

definition showRouteDetail :: "transit_route_data \<Rightarrow> routes_panel \<Rightarrow> routes_panel" where
  "showRouteDetail route s =
     candidate_say ((uni ''%u94FE%u8DEF%u8BE6%u60C5%uFF1A%u670D%u52A1 '') @ or_str (rt_service_name route) (js ''-'') @ (uni ''%u3002''))
       (selectCandidateRoute (rt_id route) s)"

definition openCandidateExportModal :: "jsstr \<Rightarrow> routes_panel \<Rightarrow> routes_panel" where
  "openCandidateExportModal routeId =
     on_candidate (\<lambda>x. x
       \<lparr>ca_exportRouteId := routeId, ca_exportModalOpen := True, ca_export := None,
        ca_copyFallbackRequired := False,
        ca_message := (uni ''%u4E34%u65F6%u5BFC%u51FA%u5BA2%u6237%u7AEF%u94FE%u63A5%u53EA%u7528%u4E8E%u590D%u5236%u6D4B%u8BD5%uFF1B%u4E0D%u4F1A%u4FDD%u5B58%u5230%u6570%u636E%u5E93%u3001%u8986%u76D6%u539F%u8282%u70B9%u94FE%u63A5%u6216%u5207%u6362%u6B63%u5F0F%u7EBF%u8DEF%u3002'')\<rparr>)"

definition closeCandidateExportModal :: "routes_panel \<Rightarrow> routes_panel" where
  "closeCandidateExportModal =
     on_candidate (\<lambda>x. x
       \<lparr>ca_exportModalOpen := False, ca_exportRouteId := [], ca_export := None,
        ca_copyFallbackRequired := False,
        ca_message := (uni ''%u5019%u9009%u94FE%u8DEF%u6458%u8981%u5C1A%u672A%u52A0%u8F7D%uFF1B%u4E0D%u4F1A%u81EA%u52A8%u5BFC%u51FA%u5B8C%u6574%u6D4B%u8BD5%u914D%u7F6E%u3002'')\<rparr>)"

definition loadCandidateSummary :: "jsstr option \<Rightarrow> routes_panel act" where
  "loadCandidateSummary routeIdArg s =
     (let routeId = nullish routeIdArg
            (case primaryActiveRoute s of Some r \<Rightarrow> rt_id r | None \<Rightarrow> []) in
      if routeId = [] then finished (candidate_say (uni ''%u6682%u65E0%u53EF%u8BFB%u53D6%u6458%u8981%u7684 active %u4E2D%u8F6C%u94FE%u8DEF%u3002'') s)
      else
        fetch (getTransitRouteCandidateSummary routeId) as_summary
          (\<lambda>result. case result of
             ApiFailure c m d \<Rightarrow> (\<lambda>s. candidate_ended (candidate_say (api_error_text c m) s))
           | ApiSuccess d m \<Rightarrow>
               (\<lambda>s. candidate_ended (on_candidate (\<lambda>x. x
                      \<lparr>ca_summary := Some d,
                       ca_message := (uni ''%u5019%u9009%u94FE%u8DEF%u6458%u8981%u5DF2%u52A0%u8F7D%uFF1B%u672A%u5BFC%u51FA%u5B8C%u6574%u6D4B%u8BD5%u914D%u7F6E%u3002'')\<rparr>) s)))
          (\<lambda>e s. candidate_ended (candidate_say (error_text e (uni ''%u8BFB%u53D6%u5019%u9009%u94FE%u8DEF%u6458%u8981%u5931%u8D25%u3002'')) s))
          (candidate_say (uni ''%u6B63%u5728%u8BFB%u53D6%u5019%u9009%u94FE%u8DEF%u5B89%u5168%u6458%u8981%uFF1B%u4E0D%u4F1A%u8BFB%u53D6%u6216%u5BFC%u51FA%u5B8C%u6574 nodes.share_link%u3002'')
             (candidate_loading True (selectCandidateRoute routeId s))))"

text \<open>The summary shown beside an export for a route whose summary has not been read.\<close>

definition summary_from_export :: "transit_route_data option \<Rightarrow> candidate_export \<Rightarrow> candidate_summary" where
  "summary_from_export route d =
     (let get = (\<lambda>f fallback. case route of Some r \<Rightarrow> f r | None \<Rightarrow> fallback) in
      \<lparr>cs_route_id = ce_route_id d, cs_route_name = ce_route_name d,
       cs_transit_resource_id = get rt_transit_resource_id [],
       cs_transit_resource_name = None,
       cs_entry_host = ce_server d, cs_listen_port = ce_port d,
       cs_target_host = get rt_target_host [],
       cs_target_port = (case route of Some r \<Rightarrow> rt_target_port r | None \<Rightarrow> 0),
       cs_forwarding_method = get rt_forwarding_method (js ''socat''),
       cs_service_name = get rt_service_name [],
       cs_service_path = get rt_service_path [],
       cs_status = get rt_status (js ''active''),
       cs_landing_node_id = get rt_node_id [],
       cs_landing_node_name = Option.bind route rt_node_name,
       cs_landing_vps_ip = Option.bind route rt_landing_vps_ip,
       cs_route_share_link_present = \<not> blank (Option.bind route rt_share_link),
       cs_share_link_present = False, cs_recommended_candidate = True,
       cs_cutover_status = ce_cutover_status d,
       cs_safety_boundary = ce_safety_boundary d\<rparr>)"

definition candidate_exported ::
  "routes_panel \<Rightarrow> jsstr \<Rightarrow> candidate_export \<Rightarrow> routes_panel \<Rightarrow> routes_panel" where
  "candidate_exported c routeId d =
     (let route = (case route_by_id c routeId of Some r \<Rightarrow> Some r | None \<Rightarrow> primaryActiveRoute c) in
      on_candidate (\<lambda>x. x
        \<lparr>ca_export := Some d, ca_copyFallbackRequired := False,
         ca_summary := (case ca_summary x of
             Some y \<Rightarrow> if cs_route_id y = routeId then Some y else Some (summary_from_export route d)
           | None \<Rightarrow> Some (summary_from_export route d)),
         ca_message := (uni ''%u4E34%u65F6%u5BA2%u6237%u7AEF%u94FE%u63A5%u5DF2%u751F%u6210%uFF1B%u5B8C%u6574%u94FE%u63A5%u4EC5%u4FDD%u5B58%u5728%u672C%u6B21%u54CD%u5E94%u5185%uFF0C%u8BF7%u53EA%u7528%u4E8E%u624B%u52A8%u5BFC%u5165%u6D4B%u8BD5%u3002'')\<rparr>))"

definition export_caught :: "jsstr option \<Rightarrow> routes_panel act" where
  "export_caught e s =
     candidate_ended (candidate_say
       (error_text e (uni ''%u4E34%u65F6%u5BFC%u51FA%u5BA2%u6237%u7AEF%u94FE%u63A5%u5931%u8D25%u3002'') @ (uni '' %u672A%u751F%u6210%u4E34%u65F6%u94FE%u63A5%uFF0C%u672A%u4FEE%u6539%u4EFB%u4F55%u7EBF%u8DEF%u914D%u7F6E%u3002'')) s)"

definition exportCandidateConfig :: "jsstr option \<Rightarrow> routes_panel act" where
  "exportCandidateConfig routeIdArg s =
     (let routeId = nullish routeIdArg (ca_exportRouteId (ro_candidate s)) in
      if routeId = [] then finished (candidate_say (uni ''%u8BF7%u5148%u9009%u62E9%u4E00%u6761%u4E2D%u8F6C%u94FE%u8DEF%u3002'') s)
      else
        ensureCsrfToken_await
          (\<lambda>csrfToken.
             fetch (exportTransitRouteCandidate routeId
                 (json_candidate_export_request (export_request (js ''client_candidate_test''))) csrfToken) as_export
               (\<lambda>result. case result of
                  ApiFailure c m d \<Rightarrow>
                    (\<lambda>t. candidate_ended (candidate_say
                       (api_error_text c m @ (uni ''%u3002%u672A%u751F%u6210%u4E34%u65F6%u94FE%u63A5%uFF0C%u672A%u4FEE%u6539%u4EFB%u4F55%u7EBF%u8DEF%u914D%u7F6E%u3002'')) t))
                | ApiSuccess d m \<Rightarrow> (\<lambda>t. candidate_ended (candidate_exported s routeId d t)))
               export_caught)
          export_caught
          (candidate_say (uni ''%u6B63%u5728%u4E34%u65F6%u751F%u6210%u5BA2%u6237%u7AEF%u94FE%u63A5%uFF1B%u4E0D%u4F1A%u5199%u5165%u6570%u636E%u5E93%u3001%u4FEE%u6539 nodes.share_link %u6216%u6267%u884C cutover%u3002'')
             (candidate_loading True s)))"

definition copyCandidateLink :: "browser \<Rightarrow> candidate_export \<Rightarrow> routes_panel act" where
  "copyCandidateLink b d =
     copyText_await (br_clipboard b) (ce_candidate_link d)
       (\<lambda>s. finished (on_candidate (\<lambda>x. x\<lparr>ca_copyFallbackRequired := False,
          ca_message := (uni ''%u4E34%u65F6%u94FE%u63A5%u5DF2%u590D%u5236%u3002%u8BF7%u59A5%u5584%u4FDD%u5B58%uFF0C%u4EC5%u7528%u4E8E%u624B%u52A8%u5BFC%u5165%u6D4B%u8BD5%uFF0C%u4E0D%u8981%u516C%u5F00%u5206%u4EAB%u3002'')\<rparr>) s))
       (\<lambda>e s. finished (on_candidate (\<lambda>x. x\<lparr>ca_copyFallbackRequired := True,
          ca_message := (uni ''%u5F53%u524D HTTP %u73AF%u5883%u4E0D%u652F%u6301%u81EA%u52A8%u590D%u5236%uFF0C%u8BF7%u4F7F%u7528%u4E0B%u65B9%u6587%u672C%u6846%u624B%u52A8%u590D%u5236%u3002'')\<rparr>) s))"

subsection \<open>The draft of a plan and its confirmations\<close>

datatype draft_change =
    DraftResource jsstr
  | DraftNode jsstr
  | DraftPort jsstr
  | DraftMethod forwarding
  | DraftPurpose jsstr

fun change_draft :: "draft_change \<Rightarrow> route_draft \<Rightarrow> route_draft" where
  "change_draft (DraftResource v) d = d\<lparr>rd_transitResourceId := v\<rparr>"
| "change_draft (DraftNode v) d = d\<lparr>rd_landingNodeId := v\<rparr>"
| "change_draft (DraftPort v) d = d\<lparr>rd_plannedListenPort := v\<rparr>"
| "change_draft (DraftMethod v) d = d\<lparr>rd_forwardingMethod := v\<rparr>"
| "change_draft (DraftPurpose v) d = d\<lparr>rd_purpose := v\<rparr>"

definition updateDraft :: "draft_change \<Rightarrow> routes_panel \<Rightarrow> routes_panel" where
  "updateDraft e s = haproxy_effect s (s\<lparr>ro_draft := change_draft e (ro_draft s)\<rparr>)"

datatype readiness_key =
    KeySecurityGroup | KeyCloudFirewall | KeyServerFirewall | KeyNoCutover
  | KeyNoShareLinkMutation | KeyNoFullClientLink

fun set_readiness_confirmation ::
  "readiness_key \<Rightarrow> bool \<Rightarrow> readiness_confirmations \<Rightarrow> readiness_confirmations" where
  "set_readiness_confirmation KeySecurityGroup v x = x\<lparr>hc_securityGroup := v\<rparr>"
| "set_readiness_confirmation KeyCloudFirewall v x = x\<lparr>hc_cloudFirewall := v\<rparr>"
| "set_readiness_confirmation KeyServerFirewall v x = x\<lparr>hc_serverFirewall := v\<rparr>"
| "set_readiness_confirmation KeyNoCutover v x = x\<lparr>hc_noCutover := v\<rparr>"
| "set_readiness_confirmation KeyNoShareLinkMutation v x = x\<lparr>hc_noShareLinkMutation := v\<rparr>"
| "set_readiness_confirmation KeyNoFullClientLink v x = x\<lparr>hc_noFullClientLink := v\<rparr>"

text \<open>
  The confirmations are a new object after every call, so the effect runs even when the value
  is the old one.
\<close>

definition updateHaproxyReadinessConfirmation ::
  "readiness_key \<Rightarrow> bool \<Rightarrow> routes_panel \<Rightarrow> routes_panel" where
  "updateHaproxyReadinessConfirmation key v =
     on_haproxy (\<lambda>h. reset_haproxy
       (h\<lparr>ho_confirmations := set_readiness_confirmation key v (ho_confirmations h)\<rparr>))"

datatype preflight_key = KeyHealth | KeyBoundary | KeyWorkerBoundary

fun set_preflight_confirmation :: "preflight_key \<Rightarrow> bool \<Rightarrow> preflight_state \<Rightarrow> preflight_state" where
  "set_preflight_confirmation KeyHealth v x = x\<lparr>pf_healthConfirmed := v\<rparr>"
| "set_preflight_confirmation KeyBoundary v x = x\<lparr>pf_boundaryConfirmed := v\<rparr>"
| "set_preflight_confirmation KeyWorkerBoundary v x = x\<lparr>pf_workerBoundaryConfirmed := v\<rparr>"

subsection \<open>The read-only preflight\<close>

definition text_or_null :: "jsstr \<Rightarrow> jsstr option" where
  "text_or_null v = (if v = [] then None else Some v)"

definition port_text :: "int \<Rightarrow> jsstr \<Rightarrow> jsstr" where
  "port_text p fallback = (if p = 0 then fallback else string_of_int p)"

definition readonlyPayload :: "routes_panel \<Rightarrow> plan_request" where
  "readonlyPayload s =
     (let r = selectedResource_routes s; n = selectedNode_routes s in
      \<lparr>plq_transit_resource_id = map_option tr_id r,
       plq_transit_resource_name = map_option tr_name r,
       plq_transit_host_hint = Option.bind r tr_entry_host,
       plq_landing_node_id = map_option nd_id n,
       plq_landing_node_name = map_option nd_node_name n,
       plq_landing_host_hint = Some (landingHostForNode n),
       plq_landing_target_port = port_text (targetPort s) [],
       plq_planned_listen_port = rd_plannedListenPort (ro_draft s),
       plq_route_purpose = text_or_null (rd_purpose (ro_draft s)),
       plq_firewall_security_group_confirmed = True, plq_cloud_firewall_confirmed = True,
       plq_server_firewall_confirmed = True, plq_local_backup_confirmed = True,
       plq_user_approved_readonly_preflight = True, plq_workbuddy_authorized = True,
       plq_no_cutover_confirmed = True, plq_no_node_share_link_change_confirmed = True\<rparr>)"

definition plan_say :: "jsstr \<Rightarrow> routes_panel \<Rightarrow> routes_panel" where
  "plan_say m = on_preflight (\<lambda>x. x\<lparr>pf_readonlyPreflightApiMessage := m\<rparr>)"

definition plan_ended :: "routes_panel act" where
  "plan_ended s = finished (on_preflight (\<lambda>x. x\<lparr>pf_readonlyPreflightLoading := False\<rparr>) s)"

definition generateReadonlyPlan :: "routes_panel act" where
  "generateReadonlyPlan s =
     fetch (requestReadonlyPreflightPlan (json_plan_request (readonlyPayload s))) as_plan
       (\<lambda>result. case result of
          ApiFailure c m d \<Rightarrow> (\<lambda>s. plan_ended (plan_say (api_error_text c m) s))
        | ApiSuccess d m \<Rightarrow>
            (\<lambda>s. plan_ended (plan_say (plr_summary d)
               (on_preflight (\<lambda>x. x\<lparr>pf_readonlyPlan := Some d\<rparr>) s))))
       (\<lambda>e s. plan_ended (plan_say (error_text e (uni ''%u751F%u6210%u53EA%u8BFB%u9884%u68C0%u8BA1%u5212%u5931%u8D25%u3002'')) s))
       (plan_say (uni ''%u6B63%u5728%u751F%u6210%u672C%u5730 no-op %u53EA%u8BFB%u9884%u68C0%u8BA1%u5212%u3002'')
          (on_preflight (\<lambda>x. x\<lparr>pf_readonlyPreflightLoading := True\<rparr>) s))"

definition remote_say :: "jsstr \<Rightarrow> routes_panel \<Rightarrow> routes_panel" where
  "remote_say m = on_preflight (\<lambda>x. x\<lparr>pf_remotePreflightMessage := m\<rparr>)"

definition remote_ended :: "routes_panel act" where
  "remote_ended s = finished (on_preflight (\<lambda>x. x\<lparr>pf_remotePreflightLoading := False\<rparr>) s)"

text \<open>
  \<^verbatim>\<open>!selectedResource || !selectedNode || plannedPort === null || targetPort <= 0\<close>: the plan,
  if it is complete.
\<close>

definition complete_plan :: "routes_panel \<Rightarrow> (transit_resource_data \<times> node_data \<times> int) option" where
  "complete_plan s =
     (case (selectedResource_routes s, selectedNode_routes s, plannedPort s) of
        (Some r, Some n, Some p) \<Rightarrow> if targetPort s \<le> 0 then None else Some (r, n, p)
      | _ \<Rightarrow> None)"

definition remote_preflight_request ::
  "routes_panel \<Rightarrow> transit_resource_data \<Rightarrow> node_data \<Rightarrow> int \<Rightarrow> preflight_request" where
  "remote_preflight_request s r n p =
     \<lparr>pfq_transit_resource_id = tr_id r, pfq_landing_node_id = nd_id n,
      pfq_planned_listen_port = p, pfq_landing_target_port = targetPort s,
      pfq_forwarding_method = forwarding_text (rd_forwardingMethod (ro_draft s)),
      pfq_purpose = text_or_null (rd_purpose (ro_draft s)), pfq_readonly = True\<rparr>"

definition runRemoteReadonlyPreflight :: "routes_panel act" where
  "runRemoteReadonlyPreflight s =
     (case complete_plan s of
        None \<Rightarrow> finished (remote_say (uni ''%u8BA1%u5212%u53C2%u6570%u4E0D%u5B8C%u6574%uFF0C%u4E0D%u80FD%u521B%u5EFA%u8FDC%u7A0B%u53EA%u8BFB%u9884%u68C0%u547D%u4EE4%u3002'') s)
      | Some (r, n, p) \<Rightarrow>
          let caught = (\<lambda>e s. remote_ended (remote_say (error_text e (uni ''%u521B%u5EFA%u8FDC%u7A0B%u53EA%u8BFB%u9884%u68C0%u547D%u4EE4%u5931%u8D25%u3002'')) s))
          in ensureCsrfToken_await
               (\<lambda>csrfToken.
                  fetch (createTransitReadonlyPreflightCommand
                      (json_preflight_request (remote_preflight_request s r n p)) csrfToken) as_preflight
                    (\<lambda>result. case result of
                       ApiFailure c m d \<Rightarrow> (\<lambda>s. remote_ended (remote_say (api_error_text c m) s))
                     | ApiSuccess d m \<Rightarrow>
                         (\<lambda>s. remote_ended (remote_say ((uni ''%u53EA%u8BFB%u9884%u68C0%u547D%u4EE4%u5DF2%u521B%u5EFA%uFF1A'') @ wc_id (pfr_command d))
                            (on_preflight (\<lambda>x. x\<lparr>pf_remotePreflightCommand := Some (pfr_command d)\<rparr>) s))))
                    caught)
               caught
               (remote_say (uni ''%u6B63%u5728%u521B%u5EFA transit_readonly_preflight Worker command%u3002'')
                  (on_preflight (\<lambda>x. x\<lparr>pf_remotePreflightLoading := True\<rparr>) s)))"

definition refreshRemoteCommand :: "routes_panel act" where
  "refreshRemoteCommand s =
     (case pf_remotePreflightCommand (ro_preflight s) of
        None \<Rightarrow> finished s
      | Some cmd \<Rightarrow>
          fetch (getWorkerCommand (wc_id cmd)) as_command
            (\<lambda>result. case result of
               ApiFailure c m d \<Rightarrow>
                 (\<lambda>s. finished (remote_say (formatApiError (Some c) (Some m) None None) s))
             | ApiSuccess d m \<Rightarrow>
                 (\<lambda>s. finished (remote_say ((uni ''%u547D%u4EE4%u72B6%u6001%u5DF2%u5237%u65B0%uFF1A'') @ displayStatusLabel (Some (wc_status d)))
                    (on_preflight (\<lambda>x. x\<lparr>pf_remotePreflightCommand := Some d\<rparr>) s))))
            unhandled s)"

definition preflight_summary :: "routes_panel \<Rightarrow> jsstr" where
  "preflight_summary s =
     join [10]
       [(uni ''%u4E2D%u8F6C%u670D%u52A1%u5668%uFF1A'') @ nullish (map_option tr_name (selectedResource_routes s)) (js ''-''),
        (uni ''%u843D%u5730%u8282%u70B9%uFF1A'') @ nullish (map_option nd_node_name (selectedNode_routes s)) (js ''-''),
        (uni ''%u8BA1%u5212%u76D1%u542C%u7AEF%u53E3%uFF1A'') @ rd_plannedListenPort (ro_draft s),
        (uni ''%u76EE%u6807%u7AEF%u53E3%uFF1A'') @ port_text (targetPort s) (js ''-''),
        (uni ''%u53EA%u8BFB%u9884%u68C0%uFF1A'') @ nullish (map_option wc_status (pf_remotePreflightCommand (ro_preflight s))) (uni ''%u672A%u6267%u884C''),
        (uni ''%u5B89%u5168%u8FB9%u754C%uFF1A%u672A%u521B%u5EFA%u771F%u5B9E%u8F6C%u53D1%uFF0C%u672A%u65B0%u589E%u76D1%u542C%u7AEF%u53E3%uFF0C%u672A%u4FEE%u6539%u9632%u706B%u5899%u3001Xray %u6216 nodes.share_link%u3002'')]"

definition copyPreflightSummary :: "browser \<Rightarrow> routes_panel act" where
  "copyPreflightSummary b s =
     copyText_await (br_clipboard b) (preflight_summary s)
       (\<lambda>s. finished (on_preflight (\<lambda>x. x\<lparr>pf_preflightSummaryCopied := True\<rparr>) s))
       (\<lambda>e s. finished (plan_say (uni ''%u5F53%u524D HTTP %u73AF%u5883%u53EF%u80FD%u4E0D%u652F%u6301%u81EA%u52A8%u590D%u5236%uFF0C%u8BF7%u624B%u52A8%u590D%u5236%u53EA%u8BFB%u9884%u68C0%u6458%u8981%u3002'') s))
       s"

subsection \<open>The plan of a Worker\<close>

definition worker_plan_request ::
  "routes_panel \<Rightarrow> transit_resource_data \<Rightarrow> node_data \<Rightarrow> int \<Rightarrow> jsstr \<Rightarrow> api_request" where
  "worker_plan_request s r n p csrfToken =
     \<lparr>req_path = (js ''/api/transit-routes/worker-create-plan''), req_method = Some (js ''POST''),
      req_headers = [((js ''X-CSRF-Token''), csrfToken)],
      req_body = Some (JObj
        [((js ''transit_resource_id''), JStr (tr_id r)), ((js ''landing_node_id''), JStr (nd_id n)),
         ((js ''planned_listen_port''), JNum p), ((js ''landing_target_host''), JStr (landingHostForNode (Some n))),
         ((js ''landing_target_port''), JNum (targetPort s)),
         ((js ''forwarding_method''), JStr (forwarding_text (rd_forwardingMethod (ro_draft s)))),
         ((js ''purpose''), case text_or_null (rd_purpose (ro_draft s)) of None \<Rightarrow> JNull | Some v \<Rightarrow> JStr v),
         ((js ''dry_run''), JBool True), ((js ''approval_required''), JBool True),
         ((js ''user_approved_execution_boundary''), JBool True),
         ((js ''no_node_share_link_change_confirmed''), JBool True),
         ((js ''no_cutover_confirmed''), JBool True)])\<rparr>"

definition worker_plan_ended :: "routes_panel act" where
  "worker_plan_ended s = finished (on_preflight (\<lambda>x. x\<lparr>pf_workerCreateLoading := False\<rparr>) s)"

definition createWorkerDryRunPlan :: "routes_panel act" where
  "createWorkerDryRunPlan s =
     (case complete_plan s of
        None \<Rightarrow> finished (say (uni ''%u8BA1%u5212%u53C2%u6570%u4E0D%u5B8C%u6574%uFF0C%u4E0D%u80FD%u521B%u5EFA Worker dry-run %u8BA1%u5212%u3002'') s)
      | Some (r, n, p) \<Rightarrow>
          let caught = (\<lambda>e s. worker_plan_ended (say (error_text e (uni ''%u521B%u5EFA Worker dry-run %u8BA1%u5212%u5931%u8D25%u3002'')) s))
          in ensureCsrfToken_await
               (\<lambda>csrfToken.
                  fetch (worker_plan_request s r n p csrfToken) as_worker_plan
                    (\<lambda>result. case result of
                       ApiFailure c m d \<Rightarrow> (\<lambda>s. worker_plan_ended (say (api_error_text c m) s))
                     | ApiSuccess d m \<Rightarrow>
                         (\<lambda>s. worker_plan_ended
                            (say ((uni ''Worker create path dry-run command %u5DF2%u521B%u5EFA%uFF1A'') @ wc_id (wp_command d) @ (uni ''%u3002%u672A%u521B%u5EFA%u771F%u5B9E%u76D1%u542C%u3002''))
                               (on_preflight (\<lambda>x. x\<lparr>pf_workerCreatePlan := Some d\<rparr>) s))))
                    caught)
               caught
               (on_preflight (\<lambda>x. x\<lparr>pf_workerCreateLoading := True\<rparr>) s))"

subsection \<open>The HAProxy stages\<close>

definition readiness_say :: "jsstr \<Rightarrow> routes_panel \<Rightarrow> routes_panel" where
  "readiness_say m = on_haproxy (\<lambda>x. x\<lparr>ho_readinessMessage := m\<rparr>)"

definition readiness_ended :: "routes_panel act" where
  "readiness_ended s = finished (on_haproxy (\<lambda>x. x\<lparr>ho_readinessLoading := False\<rparr>) s)"

definition plan_readiness_request ::
  "routes_panel \<Rightarrow> transit_resource_data \<Rightarrow> node_data \<Rightarrow> int \<Rightarrow> readiness_request" where
  "plan_readiness_request s r n p =
     (let x = ho_confirmations (ro_haproxy s) in
      \<lparr>raq_transit_resource_id = tr_id r, raq_landing_node_id = nd_id n,
       raq_planned_listen_port = p, raq_landing_target_port = targetPort s,
       raq_forwarding_method = (js ''haproxy_tcp''),
       raq_purpose = text_or_null (rd_purpose (ro_draft s)),
       raq_firewall_security_group_confirmed = hc_securityGroup x,
       raq_cloud_firewall_confirmed = hc_cloudFirewall x,
       raq_server_firewall_confirmed = hc_serverFirewall x,
       raq_no_cutover_confirmed = hc_noCutover x,
       raq_no_node_share_link_change_confirmed = hc_noShareLinkMutation x,
       raq_no_full_client_link_confirmed = hc_noFullClientLink x\<rparr>)"

definition generateHaproxyReadinessApproval :: "routes_panel act" where
  "generateHaproxyReadinessApproval s =
     (case complete_plan s of
        None \<Rightarrow> finished (readiness_say (uni ''%u8BA1%u5212%u53C2%u6570%u4E0D%u5B8C%u6574%uFF0C%u4E0D%u80FD%u751F%u6210 HAProxy readiness%u3002'') s)
      | Some (r, n, p) \<Rightarrow>
          if rd_forwardingMethod (ro_draft s) \<noteq> HaproxyTcp then
            finished (readiness_say (uni ''%u8BF7%u5148%u628A%u8F6C%u53D1%u65B9%u5F0F%u5207%u6362%u4E3A HAProxy TCP mode%u3002'') s)
          else
            fetch (requestTransitHaproxyReadinessApproval
                (json_readiness_request (plan_readiness_request s r n p))) as_readiness
              (\<lambda>result. case result of
                 ApiFailure c m d \<Rightarrow> (\<lambda>s. readiness_ended (readiness_say (api_error_text c m) s))
               | ApiSuccess d m \<Rightarrow>
                   (\<lambda>s. readiness_ended (readiness_say (rar_summary d)
                      (on_haproxy (\<lambda>x. x\<lparr>ho_readiness := Some d\<rparr>) s))))
              (\<lambda>e s. readiness_ended (readiness_say (error_text e (uni ''%u751F%u6210 HAProxy readiness %u5931%u8D25%u3002'')) s))
              (readiness_say (uni ''%u6B63%u5728%u751F%u6210%u53EA%u8BFB HAProxy TCP route %u521B%u5EFA%u5BA1%u6279%u5305%uFF1B%u4E0D%u4F1A%u521B%u5EFA Worker command%u3002'')
                 (on_haproxy (\<lambda>x. x\<lparr>ho_readinessLoading := True\<rparr>) s)))"

definition dry_run_say :: "jsstr \<Rightarrow> routes_panel \<Rightarrow> routes_panel" where
  "dry_run_say m = on_haproxy (\<lambda>x. x\<lparr>ho_dryRunMessage := m\<rparr>)"

definition dry_run_ended :: "routes_panel act" where
  "dry_run_ended s = finished (on_haproxy (\<lambda>x. x\<lparr>ho_dryRunLoading := False\<rparr>) s)"

definition plan_dry_run_request ::
  "routes_panel \<Rightarrow> readiness_result \<Rightarrow> transit_resource_data \<Rightarrow> node_data \<Rightarrow> int
   \<Rightarrow> haproxy_dry_run_request" where
  "plan_dry_run_request s readiness r n p =
     (let x = ho_confirmations (ro_haproxy s) in
      \<lparr>hdq_transit_resource_id = tr_id r, hdq_landing_node_id = nd_id n,
       hdq_planned_listen_port = p, hdq_landing_target_host = landingHostForNode (Some n),
       hdq_landing_target_port = targetPort s, hdq_forwarding_method = (js ''haproxy_tcp''),
       hdq_purpose = text_or_null (rd_purpose (ro_draft s)),
       hdq_route_name = or_str (rarr_route_name (rar_planned_route readiness))
         ((js ''haproxy-tcp-'') @ string_of_int p),
       hdq_route_display_name = None,
       hdq_approval_stage = (js ''Stage 3.3.137-new-transit-haproxy-route-create-dry-run''),
       hdq_readiness_approval_confirmed = True, hdq_dry_run = True, hdq_approval_required = True,
       hdq_firewall_security_group_confirmed = hc_securityGroup x,
       hdq_cloud_firewall_confirmed = hc_cloudFirewall x,
       hdq_server_firewall_confirmed = hc_serverFirewall x,
       hdq_no_cutover_confirmed = hc_noCutover x,
       hdq_no_node_share_link_change_confirmed = hc_noShareLinkMutation x,
       hdq_no_full_client_link_confirmed = hc_noFullClientLink x\<rparr>)"

definition dry_run_created :: "haproxy_dry_run \<Rightarrow> haproxy_state \<Rightarrow> haproxy_state" where
  "dry_run_created d h =
     h\<lparr>ho_dryRun := Some d, ho_finalApproval := None, ho_finalApprovalText := [],
       ho_finalApprovalMessage := (uni ''HAProxy route %u6700%u7EC8%u5BA1%u6279%u5305%u5C1A%u672A%u751F%u6210%u3002''),
       ho_realExecution := None, ho_realExecutionText := [],
       ho_realExecutionMessage := (uni ''HAProxy route %u771F%u5B9E%u521B%u5EFA%u5C1A%u672A%u6388%u6743%u3002''),
       ho_dryRunMessage :=
         (uni ''HAProxy route dry-run command %u5DF2%u521B%u5EFA%uFF1A'') @ wc_id (hdr_command d) @ (uni ''%u3002%u672A%u521B%u5EFA%u771F%u5B9E%u76D1%u542C%u3002'')\<rparr>"

definition readiness_ready :: "routes_panel \<Rightarrow> bool" where
  "readiness_ready s \<longleftrightarrow> (case ho_readiness (ro_haproxy s) of None \<Rightarrow> False | Some d \<Rightarrow> rar_ready d)"

definition createHaproxyRouteDryRun :: "routes_panel act" where
  "createHaproxyRouteDryRun s =
     (case complete_plan s of
        None \<Rightarrow> finished (dry_run_say (uni ''%u8BA1%u5212%u53C2%u6570%u4E0D%u5B8C%u6574%uFF0C%u4E0D%u80FD%u751F%u6210 HAProxy route dry-run%u3002'') s)
      | Some (r, n, p) \<Rightarrow>
          if rd_forwardingMethod (ro_draft s) \<noteq> HaproxyTcp then
            finished (dry_run_say (uni ''%u8BF7%u5148%u628A%u8F6C%u53D1%u65B9%u5F0F%u5207%u6362%u4E3A HAProxy TCP mode%u3002'') s)
          else if \<not> readiness_ready s then
            finished (dry_run_say (uni ''%u8BF7%u5148%u751F%u6210%u5E76%u901A%u8FC7 HAProxy TCP readiness %u5BA1%u6279%u5305%u3002'') s)
          else
            (let caught = (\<lambda>e s. dry_run_ended (dry_run_say (error_text e (uni ''%u521B%u5EFA HAProxy route dry-run %u5931%u8D25%u3002'')) s))
             in ensureCsrfToken_await
                  (\<lambda>csrfToken.
                     fetch (createTransitHaproxyRouteDryRun
                         (json_haproxy_dry_run_request
                            (plan_dry_run_request s (the (ho_readiness (ro_haproxy s))) r n p)) csrfToken) as_dry_run
                       (\<lambda>result. case result of
                          ApiFailure c m d \<Rightarrow> (\<lambda>s. dry_run_ended (dry_run_say (api_error_text c m) s))
                        | ApiSuccess d m \<Rightarrow> (\<lambda>s. dry_run_ended (on_haproxy (dry_run_created d) s)))
                       caught)
                  caught
                  (dry_run_say (uni ''%u6B63%u5728%u521B%u5EFA HAProxy route dry-run Worker command%uFF1B%u4E0D%u4F1A%u521B%u5EFA%u771F%u5B9E HAProxy route%u3002'')
                     (on_haproxy (\<lambda>x. x\<lparr>ho_dryRunLoading := True\<rparr>) s))))"

definition final_say :: "jsstr \<Rightarrow> routes_panel \<Rightarrow> routes_panel" where
  "final_say m = on_haproxy (\<lambda>x. x\<lparr>ho_finalApprovalMessage := m\<rparr>)"

definition final_ended :: "routes_panel act" where
  "final_ended s = finished (on_haproxy (\<lambda>x. x\<lparr>ho_finalApprovalLoading := False\<rparr>) s)"

definition final_text_typed :: "routes_panel \<Rightarrow> jsstr" where
  "final_text_typed s = trim (ho_finalApprovalText (ro_haproxy s))"

definition plan_final_request ::
  "routes_panel \<Rightarrow> transit_resource_data \<Rightarrow> node_data \<Rightarrow> haproxy_dry_run \<Rightarrow> final_approval_request" where
  "plan_final_request s r n dryRun =
     (let x = ho_confirmations (ro_haproxy s) in
      \<lparr>faq_dry_run_command_id = wc_id (hdr_command dryRun),
       faq_transit_resource_id = tr_id r, faq_landing_node_id = nd_id n,
       faq_planned_listen_port = hdr_planned_listen_port dryRun,
       faq_landing_target_host = hdr_landing_target_host dryRun,
       faq_landing_target_port = hdr_landing_target_port dryRun,
       faq_forwarding_method = (js ''haproxy_tcp''),
       faq_route_name = hdr_route_name dryRun,
       faq_route_display_name = hdr_route_display_name dryRun,
       faq_planned_service_name = hdr_planned_service_name dryRun,
       faq_approval_stage = (js ''Stage 3.3.138-new-transit-haproxy-route-create-final-approval''),
       faq_dry_run_verified = True,
       faq_firewall_security_group_confirmed = hc_securityGroup x,
       faq_cloud_firewall_confirmed = hc_cloudFirewall x,
       faq_server_firewall_confirmed = hc_serverFirewall x,
       faq_no_cutover_confirmed = hc_noCutover x,
       faq_no_node_share_link_change_confirmed = hc_noShareLinkMutation x,
       faq_no_full_client_link_confirmed = hc_noFullClientLink x,
       faq_final_approval_text = final_text_typed s\<rparr>)"

definition final_approved :: "final_approval \<Rightarrow> haproxy_state \<Rightarrow> haproxy_state" where
  "final_approved d h =
     h\<lparr>ho_finalApproval := Some d, ho_realExecution := None, ho_realExecutionText := [],
       ho_realExecutionMessage := (uni ''HAProxy route %u771F%u5B9E%u521B%u5EFA%u5C1A%u672A%u6388%u6743%u3002''),
       ho_finalApprovalMessage := far_summary d\<rparr>"

definition generateHaproxyFinalApproval :: "routes_panel act" where
  "generateHaproxyFinalApproval s =
     (case (selectedResource_routes s, selectedNode_routes s, ho_dryRun (ro_haproxy s)) of
        (Some r, Some n, Some dryRun) \<Rightarrow>
          if final_text_typed s \<noteq> HAPROXY_FINAL_APPROVAL_TEXT then
            finished (final_say ((uni ''%u8BF7%u5148%u8F93%u5165%u6700%u7EC8%u786E%u8BA4%u6587%u672C%uFF1A'') @ HAPROXY_FINAL_APPROVAL_TEXT) s)
          else
            (let caught = (\<lambda>e s. final_ended (final_say (error_text e (uni ''%u751F%u6210 HAProxy route %u6700%u7EC8%u5BA1%u6279%u5305%u5931%u8D25%u3002'')) s))
             in ensureCsrfToken_await
                  (\<lambda>csrfToken.
                     fetch (requestTransitHaproxyRouteFinalApproval
                         (json_final_approval_request (plan_final_request s r n dryRun)) csrfToken) as_final
                       (\<lambda>result. case result of
                          ApiFailure c m d \<Rightarrow> (\<lambda>s. final_ended (final_say (api_error_text c m) s))
                        | ApiSuccess d m \<Rightarrow> (\<lambda>s. final_ended (on_haproxy (final_approved d) s)))
                       caught)
                  caught
                  (final_say (uni ''%u6B63%u5728%u751F%u6210 HAProxy route %u6700%u7EC8%u5BA1%u6279%u5305%uFF1B%u4E0D%u4F1A%u521B%u5EFA Worker command%u3002'')
                     (on_haproxy (\<lambda>x. x\<lparr>ho_finalApprovalLoading := True\<rparr>) s)))
      | _ \<Rightarrow> finished (final_say (uni ''%u7F3A%u5C11 dry-run %u7ED3%u679C%uFF0C%u4E0D%u80FD%u751F%u6210%u6700%u7EC8%u5BA1%u6279%u5305%u3002'') s))"

definition real_say :: "jsstr \<Rightarrow> routes_panel \<Rightarrow> routes_panel" where
  "real_say m = on_haproxy (\<lambda>x. x\<lparr>ho_realExecutionMessage := m\<rparr>)"

definition real_ended :: "routes_panel act" where
  "real_ended s = finished (on_haproxy (\<lambda>x. x\<lparr>ho_realExecutionLoading := False\<rparr>) s)"

definition real_text_typed :: "routes_panel \<Rightarrow> jsstr" where
  "real_text_typed s = trim (ho_realExecutionText (ro_haproxy s))"

definition plan_real_request ::
  "routes_panel \<Rightarrow> transit_resource_data \<Rightarrow> node_data \<Rightarrow> haproxy_dry_run \<Rightarrow> final_approval
   \<Rightarrow> real_execution_request" where
  "plan_real_request s r n dryRun approval =
     (let x = ho_confirmations (ro_haproxy s) in
      \<lparr>xq_dry_run_command_id = wc_id (hdr_command dryRun),
       xq_transit_resource_id = tr_id r, xq_landing_node_id = nd_id n,
       xq_planned_listen_port = far_planned_listen_port approval,
       xq_landing_target_host = far_landing_target_host approval,
       xq_landing_target_port = far_landing_target_port approval,
       xq_forwarding_method = (js ''haproxy_tcp''), xq_route_name = far_route_name approval,
       xq_route_display_name =
         (case far_route_display_name approval of
            Some v \<Rightarrow> Some v | None \<Rightarrow> hdr_route_display_name dryRun),
       xq_approval_stage = (js ''Stage 3.3.139-new-transit-haproxy-route-create-real-execution''),
       xq_final_approval_text = final_text_typed s,
       xq_real_execution_text = real_text_typed s,
       xq_firewall_security_group_confirmed = hc_securityGroup x,
       xq_cloud_firewall_confirmed = hc_cloudFirewall x,
       xq_server_firewall_confirmed = hc_serverFirewall x,
       xq_no_cutover_confirmed = hc_noCutover x,
       xq_no_node_share_link_change_confirmed = hc_noShareLinkMutation x,
       xq_no_full_client_link_confirmed = hc_noFullClientLink x\<rparr>)"

definition createHaproxyRealExecutionCommand :: "routes_panel act" where
  "createHaproxyRealExecutionCommand s =
     (case (selectedResource_routes s, selectedNode_routes s, ho_dryRun (ro_haproxy s),
            ho_finalApproval (ro_haproxy s)) of
        (Some r, Some n, Some dryRun, Some approval) \<Rightarrow>
          if \<not> far_ready_for_real_create approval then
            finished (real_say (uni ''%u7F3A%u5C11%u5DF2%u901A%u8FC7%u7684 dry-run / final approval%uFF0C%u4E0D%u80FD%u521B%u5EFA%u771F%u5B9E%u6267%u884C%u547D%u4EE4%u3002'') s)
          else if real_text_typed s \<noteq> HAPROXY_REAL_EXECUTION_TEXT then
            finished (real_say ((uni ''%u8BF7%u5148%u8F93%u5165%u771F%u5B9E%u6267%u884C%u786E%u8BA4%u6587%u672C%uFF1A'') @ HAPROXY_REAL_EXECUTION_TEXT) s)
          else
            (let caught = (\<lambda>e s. real_ended (real_say (error_text e (uni ''%u521B%u5EFA HAProxy route %u771F%u5B9E%u6267%u884C%u547D%u4EE4%u5931%u8D25%u3002'')) s))
             in ensureCsrfToken_await
                  (\<lambda>csrfToken.
                     fetch (createTransitHaproxyRouteRealExecution
                         (json_real_execution_request (plan_real_request s r n dryRun approval)) csrfToken) as_real
                       (\<lambda>result. case result of
                          ApiFailure c m d \<Rightarrow> (\<lambda>s. real_ended (real_say (api_error_text c m) s))
                        | ApiSuccess d m \<Rightarrow>
                            (\<lambda>s. real_ended (real_say (xr_summary d)
                               (on_haproxy (\<lambda>x. x\<lparr>ho_realExecution := Some d\<rparr>) s))))
                       caught)
                  caught
                  (real_say (uni ''%u6B63%u5728%u521B%u5EFA%u53D7%u63A7 HAProxy TCP route %u771F%u5B9E%u6267%u884C Worker command%u3002'')
                     (on_haproxy (\<lambda>x. x\<lparr>ho_realExecutionLoading := True\<rparr>) s)))
      | _ \<Rightarrow> finished (real_say (uni ''%u7F3A%u5C11%u5DF2%u901A%u8FC7%u7684 dry-run / final approval%uFF0C%u4E0D%u80FD%u521B%u5EFA%u771F%u5B9E%u6267%u884C%u547D%u4EE4%u3002'') s))"

end
