(* ===== verification/TransitRoutesSystem.thy ===== *)
theory TransitRoutesSystem
  imports TransitRoutePlanning AsyncConduct
begin

text \<open>
  The transit route panel as a system of interleaved handlers: what the user can start, the list
  of routes as an implementation of the directory of \<open>PendingDelete\<close>, what may be sent, and
  how long a creation can go on.
\<close>

subsection \<open>What the user can start\<close>

text \<open>
  The buttons and inputs with the conditions under which the panel shows and enables them. The
  planning section is on the page but hidden by a style; its buttons are listed all the same.
\<close>

inductive routes_may :: "browser \<Rightarrow> routes_panel \<Rightarrow> routes_panel act \<Rightarrow> bool" for b where
  RefreshRoutes: "routes_may b s (loadData_routes s (\<lambda>d. finished) unhandled)"
| TickRoutes: "ro_clock s \<le> now \<Longrightarrow> routes_may b s (\<lambda>s. finished (s\<lparr>ro_clock := now\<rparr>))"
| ToggleAdvanced: "routes_may b s (\<lambda>s. finished (s\<lparr>ro_advancedOpen := v\<rparr>))"
| OpenCreate: "routes_may b s (\<lambda>s. finished (openCreateRouteModal s))"
| CloseCreate: "cr_modalOpen (ro_create s) \<Longrightarrow> routes_may b s (closeCreateRouteModal s False)"
| FinishCreate: "cr_modalOpen (ro_create s) \<Longrightarrow> cr_step (ro_create s) = StepComplete
    \<Longrightarrow> routes_may b s (closeCreateRouteModal s True)"
| CreateInput: "cr_modalOpen (ro_create s)
    \<Longrightarrow> routes_may b s (\<lambda>s. finished (on_create (\<lambda>x. x\<lparr>cr_form := edit_create_form e (cr_form x)\<rparr>) s))"
| Create: "cr_modalOpen (ro_create s) \<Longrightarrow> createReady s \<Longrightarrow> cr_step (ro_create s) \<noteq> StepComplete
    \<Longrightarrow> routes_may b s submitSimplifiedTransitRouteCreate"
| ConfirmCreate: "cr_modalOpen (ro_create s) \<Longrightarrow> cr_step (ro_create s) = StepRealCreateConfirm
    \<Longrightarrow> \<not> cr_haproxyRealExecutionLoading (ro_create s) \<Longrightarrow> cr_haproxyContext (ro_create s) \<noteq> None
    \<Longrightarrow> routes_may b s confirmHaproxyRealCreateFromModal"
| CopyCreated: "created_link_shown s \<Longrightarrow> cr_export (ro_create s) = Some d
    \<Longrightarrow> routes_may b s (copyCreatedLink b d)"
| ShowQr: "created_link_shown s \<Longrightarrow> routes_may b s (\<lambda>s. finished (show_qr s))"
| DownloadQr: "qr_on_page s \<Longrightarrow> routes_may b s (\<lambda>s. finished (snd (downloadCreateTransitQrCode s)))"
| Summary: "\<not> ro_loading s \<Longrightarrow> r \<in> set (ro_routes s) \<Longrightarrow> \<not> ca_loading (ro_candidate s)
    \<Longrightarrow> routes_may b s (loadCandidateSummary (Some (rt_id r)))"
| OpenExport: "\<not> ro_loading s \<Longrightarrow> r \<in> set (ro_routes s) \<Longrightarrow> \<not> ca_loading (ro_candidate s)
    \<Longrightarrow> routes_may b s (\<lambda>s. finished (openCandidateExportModal (rt_id r) s))"
| Detail: "\<not> ro_loading s \<Longrightarrow> r \<in> set (ro_routes s)
    \<Longrightarrow> routes_may b s (\<lambda>s. finished (showRouteDetail r s))"
| EditRoute: "\<not> ro_loading s \<Longrightarrow> r \<in> set (ro_routes s)
    \<Longrightarrow> routes_may b s (\<lambda>s. finished (openEditRoute r s))"
| DeleteRoute: "\<not> ro_loading s \<Longrightarrow> r \<in> set (ro_routes s) \<Longrightarrow> \<not> ca_loading (ro_candidate s)
    \<Longrightarrow> routes_may b s (\<lambda>s. finished (openDeleteRoute (rt_id r) s))"
| RouteName: "editRoute s \<noteq> None
    \<Longrightarrow> routes_may b s (\<lambda>s. finished (on_edit (\<lambda>x. x\<lparr>re_editRouteName := v\<rparr>) s))"
| SaveName: "editRoute s \<noteq> None \<Longrightarrow> \<not> re_editRouteSaving (ro_edit s)
    \<Longrightarrow> trim (re_editRouteName (ro_edit s)) \<noteq> [] \<Longrightarrow> routes_may b s submitEditRouteName"
| CloseEdit: "\<not> re_editRouteSaving (ro_edit s) \<Longrightarrow> routes_may b s (\<lambda>s. finished (closeEditRouteModal s))"
| ConfirmDeleteRoute: "deleteRoute s \<noteq> None \<Longrightarrow> \<not> ca_loading (ro_candidate s)
    \<Longrightarrow> routes_may b s submitDeleteRoute"
| CancelDelete: "deleteRoute s \<noteq> None \<Longrightarrow> routes_may b s (\<lambda>s. finished (closeDeleteRouteModal s))"
| Export: "ca_exportModalOpen (ro_candidate s) \<Longrightarrow> \<not> ca_loading (ro_candidate s)
    \<Longrightarrow> candidateExportRoute s \<noteq> None \<Longrightarrow> routes_may b s (exportCandidateConfig None)"
| CloseExport: "ca_exportModalOpen (ro_candidate s)
    \<Longrightarrow> routes_may b s (\<lambda>s. finished (closeCandidateExportModal s))"
| CopyExport: "ca_exportModalOpen (ro_candidate s) \<Longrightarrow> ca_export (ro_candidate s) = Some d
    \<Longrightarrow> routes_may b s (copyCandidateLink b d)"
| DraftInput: "routes_may b s (\<lambda>s. finished (updateDraft e s))"
| PreflightBox: "routes_may b s (\<lambda>s. finished (on_preflight (set_preflight_confirmation pk v) s))"
| ReadinessBox: "routes_may b s (\<lambda>s. finished (updateHaproxyReadinessConfirmation rk v s))"
| Plan: "\<not> pf_readonlyPreflightLoading (ro_preflight s) \<Longrightarrow> routes_may b s generateReadonlyPlan"
| RemotePreflight: "\<not> pf_remotePreflightLoading (ro_preflight s) \<Longrightarrow> preflightReady s
    \<Longrightarrow> routes_may b s runRemoteReadonlyPreflight"
| RefreshCommand: "pf_remotePreflightCommand (ro_preflight s) \<noteq> None
    \<Longrightarrow> \<not> pf_readonlyPreflightLoading (ro_preflight s) \<Longrightarrow> \<not> pf_remotePreflightLoading (ro_preflight s)
    \<Longrightarrow> routes_may b s refreshRemoteCommand"
| CopySummary: "routes_may b s (copyPreflightSummary b)"
| WorkerPlan: "\<not> pf_workerCreateLoading (ro_preflight s) \<Longrightarrow> routes_may b s createWorkerDryRunPlan"
| Readiness: "\<not> ho_readinessLoading (ro_haproxy s) \<Longrightarrow> routes_may b s generateHaproxyReadinessApproval"
| DryRun: "\<not> ho_dryRunLoading (ro_haproxy s) \<Longrightarrow> readiness_ready s
    \<Longrightarrow> routes_may b s createHaproxyRouteDryRun"
| FinalText: "routes_may b s (\<lambda>s. finished (on_haproxy (\<lambda>x. x\<lparr>ho_finalApprovalText := v\<rparr>) s))"
| FinalApproval: "\<not> ho_finalApprovalLoading (ro_haproxy s) \<Longrightarrow> final_text_typed s = HAPROXY_FINAL_APPROVAL_TEXT
    \<Longrightarrow> routes_may b s generateHaproxyFinalApproval"
| RealText: "routes_may b s (\<lambda>s. finished (on_haproxy (\<lambda>x. x\<lparr>ho_realExecutionText := v\<rparr>) s))"
| RealExecution: "\<not> ho_realExecutionLoading (ro_haproxy s) \<Longrightarrow> real_text_typed s = HAPROXY_REAL_EXECUTION_TEXT
    \<Longrightarrow> routes_may b s createHaproxyRealExecutionCommand"

subsection \<open>The list implements the directory\<close>

interpretation routes: pending_list ro_pendingDeleted ro_routes rt_id route_deleted "\<lambda>rs s. rs"
    set_routes markTransitRoutePendingDelete releaseTransitRoutePendingDelete
  by unfold_locales
    (simp_all add: set_routes_def filterVisibleTransitRoutes_def visible_def
      markTransitRoutePendingDelete_def releaseTransitRoutePendingDelete_def Let_def)

text \<open>A context for the real creation comes from a final approval that was ready and not blocked.\<close>

definition approved_context :: "haproxy_context \<Rightarrow> bool" where
  "approved_context x \<longleftrightarrow>
     far_ready_for_real_create (hx_finalApproval x) \<and> \<not> far_blocked (hx_finalApproval x)"

definition context_approved :: "routes_panel \<Rightarrow> bool" where
  "context_approved s \<longleftrightarrow>
     (case cr_haproxyContext (ro_create s) of None \<Rightarrow> True | Some x \<Rightarrow> approved_context x)"

definition routes_inv :: "routes_panel \<Rightarrow> bool" where
  "routes_inv s \<longleftrightarrow> routes.consistent s \<and> context_approved s"

text \<open>How a click and how an event may move the panel.\<close>

definition routes_click :: "routes_panel \<Rightarrow> routes_panel \<Rightarrow> bool" where
  "routes_click s t \<longleftrightarrow> directory_click (routes.directory_of s) (routes.directory_of t)
     \<and> routes.consistent t \<and> (context_approved s \<longrightarrow> context_approved t)"

definition routes_event :: "routes_panel \<Rightarrow> routes_panel \<Rightarrow> bool" where
  "routes_event s t \<longleftrightarrow> directory_event (routes.directory_of s) (routes.directory_of t)
     \<and> (routes.consistent s \<longrightarrow> routes.consistent t) \<and> (context_approved s \<longrightarrow> context_approved t)"

lemmas routes_moves = routes_click_def routes_event_def

text \<open>What most updates leave alone.\<close>

named_theorems quiet \<open>updates that keep the directory and the approved context\<close>

lemma quiet_updates [quiet]:
  "ro_routes (say m s) = ro_routes s" "ro_pendingDeleted (say m s) = ro_pendingDeleted s"
  "ro_create (say m s) = ro_create s"
  "ro_routes (on_preflight p s) = ro_routes s" "ro_pendingDeleted (on_preflight p s) = ro_pendingDeleted s"
  "ro_create (on_preflight p s) = ro_create s"
  "ro_routes (on_haproxy h s) = ro_routes s" "ro_pendingDeleted (on_haproxy h s) = ro_pendingDeleted s"
  "ro_create (on_haproxy h s) = ro_create s"
  "ro_routes (on_candidate f s) = ro_routes s" "ro_pendingDeleted (on_candidate f s) = ro_pendingDeleted s"
  "ro_create (on_candidate f s) = ro_create s"
  "ro_routes (on_edit g s) = ro_routes s" "ro_pendingDeleted (on_edit g s) = ro_pendingDeleted s"
  "ro_create (on_edit g s) = ro_create s"
  "ro_routes (on_create c s) = ro_routes s" "ro_pendingDeleted (on_create c s) = ro_pendingDeleted s"
  "ro_create (on_create c s) = c (ro_create s)"
  by (simp_all add: say_def on_preflight_def on_haproxy_def on_candidate_def on_edit_def on_create_def)

lemmas moves_unfold = routes_moves routes.directory_of_def routes.consistent_def context_approved_def

text \<open>Both relations ignore such updates, and a creation that drops its context.\<close>

lemma moves_quiet [simp]:
  "routes_event s0 (say m s) = routes_event s0 s" "routes_click s0 (say m s) = routes_click s0 s"
  "routes_event s0 (on_preflight p s) = routes_event s0 s" "routes_click s0 (on_preflight p s) = routes_click s0 s"
  "routes_event s0 (on_haproxy h s) = routes_event s0 s" "routes_click s0 (on_haproxy h s) = routes_click s0 s"
  "routes_event s0 (on_candidate f s) = routes_event s0 s" "routes_click s0 (on_candidate f s) = routes_click s0 s"
  "routes_event s0 (on_edit g s) = routes_event s0 s" "routes_click s0 (on_edit g s) = routes_click s0 s"
  "routes_event s0 (s\<lparr>ro_loading := b\<rparr>) = routes_event s0 s" "routes_click s0 (s\<lparr>ro_loading := b\<rparr>) = routes_click s0 s"
  "routes_event s0 (s\<lparr>ro_clock := n\<rparr>) = routes_event s0 s" "routes_click s0 (s\<lparr>ro_clock := n\<rparr>) = routes_click s0 s"
  "routes_event s0 (s\<lparr>ro_draft := d\<rparr>) = routes_event s0 s" "routes_click s0 (s\<lparr>ro_draft := d\<rparr>) = routes_click s0 s"
  "routes_event s0 (s\<lparr>ro_advancedOpen := b\<rparr>) = routes_event s0 s"
  "routes_click s0 (s\<lparr>ro_advancedOpen := b\<rparr>) = routes_click s0 s"
  by (simp_all add: moves_unfold quiet)

lemma moves_create [simp]:
  assumes "cr_haproxyContext (f (ro_create s)) = cr_haproxyContext (ro_create s)
    \<or> cr_haproxyContext (f (ro_create s)) = None"
  shows "routes_event s0 s \<Longrightarrow> routes_event s0 (on_create f s)"
    and "routes_click s0 s \<Longrightarrow> routes_click s0 (on_create f s)"
  using assms by (auto simp: moves_unfold quiet)

lemma moves_approved:
  assumes "cr_haproxyContext (f (ro_create s)) = Some x" and "approved_context x"
  shows "routes_event s0 s \<Longrightarrow> routes_event s0 (on_create f s)"
  using assms by (auto simp: moves_unfold quiet)

lemma moves_refl [simp]: "routes_event s s" "routes.consistent s \<Longrightarrow> routes_click s s"
  by (auto simp: routes_moves intro: directory_event.intros directory_click.intros)

lemma store_quiet [quiet]:
  "ro_pendingDeleted (receive_resources r s) = ro_pendingDeleted s"
  "ro_routes (receive_resources r s) = ro_routes s" "ro_create (receive_resources r s) = ro_create s"
  "ro_pendingDeleted (receive_nodes n s) = ro_pendingDeleted s"
  "ro_routes (receive_nodes n s) = ro_routes s" "ro_create (receive_nodes n s) = ro_create s"
  "ro_pendingDeleted (haproxy_effect s0 s) = ro_pendingDeleted s"
  "ro_routes (haproxy_effect s0 s) = ro_routes s" "ro_create (haproxy_effect s0 s) = ro_create s"
  "ro_pendingDeleted (draft_effect s) = ro_pendingDeleted s"
  "ro_routes (draft_effect s) = ro_routes s" "ro_create (draft_effect s) = ro_create s"
  by (simp_all add: receive_resources_def receive_nodes_def say_failure_def failure_text_def
      haproxy_effect_def draft_effect_def quiet split: api_response.split)

lemma set_routes_event: "routes_event s (set_routes rs s)"
  using routes.reload_event [of s rs] routes.operations_consistent(1) [of rs s]
  by (simp add: routes_event_def context_approved_def set_routes_def)

lemma same_view_event:
  assumes "routes_event s0 s" and "ro_routes t = ro_routes s" "ro_pendingDeleted t = ro_pendingDeleted s"
    and "ro_create t = ro_create s"
  shows "routes_event s0 t"
  using assms routes.same_view [of t s] by (simp add: routes_event_def context_approved_def)

lemma receive_routes_event: "routes_event s (receive_routes r s)"
  using set_routes_event same_view_event [of s s]
  by (auto simp: receive_routes_def say_failure_def quiet split: api_response.split option.split)

lemma store_lists_event: "routes_event s (store_lists ra rb rc s)"
proof -
  let ?t = "receive_nodes rb (receive_resources ra s)"
  have "routes_event s (receive_routes rc ?t)"
    using receive_routes_event [of ?t rc] routes.same_view [of ?t s]
    by (simp add: routes_event_def context_approved_def quiet)
  then show ?thesis
    by (rule same_view_event) (simp_all add: store_lists_def Let_def quiet)
qed

subsection \<open>What may be sent\<close>

text \<open>
  Three requests create something on a server. The form may send the creation of a socat route when
  it is complete, the firewall is confirmed and no route has the port; the modal may send a real
  execution made from an approved context; the planning section may send one made from an approval
  that was ready, with the confirmation text typed.
\<close>

definition form_complete ::
  "routes_panel \<Rightarrow> transit_resource_data \<Rightarrow> node_data \<Rightarrow> int \<Rightarrow> bool" where
  "form_complete c r n p \<longleftrightarrow>
     createResource c = Some r \<and> createNode c = Some n \<and> createListenPort c = Some p
     \<and> 0 < createTargetPort c \<and> firewall_confirmed c
     \<and> findTransitPortConflictRoute (ro_routes c) (Some (tr_id r)) (Some p) = None"

definition socat_creations :: "api_request set" where
  "socat_creations =
     {createTransitRouteWorkerExecuteCommand (json_create_execute_request (create_execute_request_of c r n p)) t
      | c r n p t. form_complete c r n p}"

definition modal_executions :: "api_request set" where
  "modal_executions =
     {createTransitHaproxyRouteRealExecution (json_real_execution_request (real_create_request x)) t
      | x t. approved_context x}"

definition planned_executions :: "api_request set" where
  "planned_executions =
     {createTransitHaproxyRouteRealExecution (json_real_execution_request (plan_real_request s r n d a)) t
      | s r n d a t. far_ready_for_real_create a \<and> real_text_typed s = HAPROXY_REAL_EXECUTION_TEXT}"

definition creates :: "api_request \<Rightarrow> bool" where
  "creates q \<longleftrightarrow> req_method q = Some (js ''POST'') \<and> req_path q \<in>
     {req_path (createTransitRouteWorkerExecuteCommand JNull []),
      req_path (createTransitHaproxyRouteRealExecution JNull [])}"

definition permitted :: "effect set" where
  "permitted =
     {e. \<forall>q. e = Http q \<longrightarrow> creates q \<longrightarrow> q \<in> socat_creations \<union> modal_executions \<union> planned_executions}"

lemma permitted_clipboard [simp]: "Clipboard v \<in> permitted"
  by (simp add: permitted_def)

lemma permitted_other: "\<not> creates q \<Longrightarrow> Http q \<in> permitted"
  by (simp add: permitted_def)

lemma suffix_differs:
  fixes b c :: jsstr
  assumes "take (length b) (rev c) \<noteq> rev b" shows "a @ i @ b \<noteq> c"
proof
  assume "a @ i @ b = c"
  then have "rev c = rev b @ rev i @ rev a" by auto
  then show False using assms by simp
qed

lemma export_path_differs:
  "(js ''/api/transit-routes/'') @ i @ (js ''/candidate-export'') \<noteq> (js ''/api/transit-routes/worker-create-execute'')"
  "(js ''/api/transit-routes/'') @ i @ (js ''/candidate-export'') \<noteq> (js ''/api/transit-routes/haproxy-route-create-real-execution'')"
  "(js ''/api/transit-routes/'') @ i @ (js ''/remote-cleanup-delete'') \<noteq> (js ''/api/transit-routes/worker-create-execute'')"
  "(js ''/api/transit-routes/'') @ i @ (js ''/remote-cleanup-delete'') \<noteq> (js ''/api/transit-routes/haproxy-route-create-real-execution'')"
  by (rule suffix_differs, simp add: js_def)+

lemma permitted_harmless [simp]:
  "Http (get_request p) \<in> permitted"
  "Http (getWorkerCommand i) \<in> permitted"
  "Http (getTransitRouteCandidateSummary i) \<in> permitted"
  "Http (updateTransitRouteName i d t) \<in> permitted"
  "Http (exportTransitRouteCandidate i d t) \<in> permitted"
  "Http (remoteCleanupDeleteTransitRoute i t v) \<in> permitted"
  "Http (requestReadonlyPreflightPlan d) \<in> permitted"
  "Http (createTransitReadonlyPreflightCommand d t) \<in> permitted"
  "Http (requestTransitHaproxyReadinessApproval d) \<in> permitted"
  "Http (createTransitHaproxyRouteDryRun d t) \<in> permitted"
  "Http (requestTransitHaproxyRouteFinalApproval d t) \<in> permitted"
  "Http (worker_plan_request s r n port t) \<in> permitted"
  by (rule permitted_other,
      simp add: creates_def api_request_defs get_request_def worker_plan_request_def export_path_differs)+

subsection \<open>The conduct of the handlers\<close>

abbreviation conducted :: "(routes_panel \<Rightarrow> bool) \<Rightarrow> routes_panel \<times> routes_panel task list \<Rightarrow> bool" where
  "conducted \<equiv> does routes_event permitted"

lemma does_ensureCsrfToken [does_intros]:
  "P s \<Longrightarrow> (\<And>t s. conducted (routes_event s) (k t s)) \<Longrightarrow> (\<And>e s. conducted (routes_event s) (h e s))
    \<Longrightarrow> conducted P (ensureCsrfToken_await k h s)"
  unfolding ensureCsrfToken_await_def by (intro does_fetch) (auto split: api_response.split)

lemma does_copyText [does_intros]:
  "P s \<Longrightarrow> (\<And>Q s. Q s \<Longrightarrow> conducted Q (k s)) \<Longrightarrow> (\<And>e Q s. Q s \<Longrightarrow> conducted Q (h e s))
    \<Longrightarrow> conducted P (copyText_await c v k h s)"
  unfolding copyText_await_def by (auto intro!: does_intros split: settled.split)

lemma does_or_throw [does_intros]:
  "(\<And>d. conducted P (k d s)) \<Longrightarrow> (\<And>e. conducted P (h e s)) \<Longrightarrow> conducted P (or_throw h k r s)"
  by (auto simp: or_throw_def split: api_response.split)

lemma does_loadData [does_intros]:
  assumes "P (s\<lparr>ro_loading := True\<rparr>)"
    and k: "\<And>d s0 s. routes_event s0 s \<Longrightarrow> conducted (routes_event s0) (k d s)"
    and h: "\<And>e s. conducted (routes_event s) (h e s)"
  shows "conducted P (loadData_routes c k h s)"
  unfolding loadData_routes_def
  by (rule does_call_all)
    (auto simp: assms(1) intro: k [OF store_lists_event] h split: settled.split)

lemma does_scheduleRouteDataRefresh [does_intros]: "P s \<Longrightarrow> conducted P (scheduleRouteDataRefresh c s)"
  unfolding scheduleRouteDataRefresh_def Let_def by (auto intro!: does_intros)

declare wait_attempts.simps [simp del] route_cleanup_polls.simps [simp del]

lemma does_wait_attempts:
  assumes "routes_event s0 s"
    and "\<And>cmd s0 s. routes_event s0 s \<Longrightarrow> conducted (routes_event s0) (k cmd s)"
    and "\<And>e s0 s. routes_event s0 s \<Longrightarrow> conducted (routes_event s0) (h e s)"
  shows "conducted (routes_event s0) (wait_attempts i st t k h n s)"
  using assms
proof (induction i st t k h n arbitrary: s0 s rule: wait_attempts.induct)
  case (1 i st t k h n)
  show ?case
  proof (cases "n < wait_limit")
    case True
    show ?thesis
      using True 1
      by (subst wait_attempts.simps)
        (auto intro!: does_intros split: api_response.split simp: set_step_def set_command_shown_def)
  next
    case False
    then show ?thesis using 1(3,5) by (subst wait_attempts.simps) simp
  qed
qed

lemma does_wait_success [does_intros]:
  assumes "routes_event s0 s" and "\<And>s0 s. routes_event s0 s \<Longrightarrow> conducted (routes_event s0) (k s)"
    and "\<And>e s0 s. routes_event s0 s \<Longrightarrow> conducted (routes_event s0) (h e s)"
  shows "conducted (routes_event s0) (wait_success i st m k h s)"
  unfolding wait_success_def waitForTransitCommandCompletion_def
  by (rule does_wait_attempts) (use assms in \<open>auto\<close>)

lemma does_refresh_and_export [does_intros]:
  assumes "routes_event s0 s" and "\<And>s0 s. routes_event s0 s \<Longrightarrow> conducted (routes_event s0) (k s)"
    and "\<And>e s0 s. routes_event s0 s \<Longrightarrow> conducted (routes_event s0) (h e s)"
  shows "conducted (routes_event s0) (refresh_and_export c t reason missing complete k h s)"
  unfolding refresh_and_export_def
  using assms by (auto intro!: does_intros simp: set_step_def split: option.split)

text \<open>The two flows of the creation.\<close>

lemma does_create_caught [does_intros]:
  "routes_event s0 s \<Longrightarrow> conducted (routes_event s0) (create_caught e s)"
  by (auto simp: create_caught_def create_failed_def intro!: does_intros)

lemma does_approve_haproxy [does_intros]:
  "routes_event s0 s \<Longrightarrow> conducted (routes_event s0) (approve_haproxy c r n p t d s)"
  unfolding approve_haproxy_def
  by (auto intro!: does_intros moves_approved simp: approved_context_def)

lemma does_create_haproxy [does_intros]:
  "routes_event s0 s \<Longrightarrow> conducted (routes_event s0) (create_haproxy c r n p t s)"
  unfolding create_haproxy_def dry_run_haproxy_def
  by (auto intro!: does_intros simp: set_step_def set_command_shown_def)

lemma permitted_socat:
  "form_complete c r n p \<Longrightarrow> Http (createTransitRouteWorkerExecuteCommand
     (json_create_execute_request (create_execute_request_of c r n p)) t) \<in> permitted"
  unfolding permitted_def socat_creations_def by blast

lemma does_create_socat:
  "routes_event s0 s \<Longrightarrow> form_complete c r n p \<Longrightarrow> conducted (routes_event s0) (create_socat c r n p t s)"
  unfolding create_socat_def execute_socat_def
  by (auto intro!: does_intros permitted_socat simp: set_step_def set_command_shown_def)

lemma cleared_context [simp]: "cr_haproxyContext (cleared_create x) = None"
  by (simp add: cleared_create_def)

lemma does_submitCreate [does_intros]:
  assumes "routes.consistent s" shows "conducted (routes_click s) (submitSimplifiedTransitRouteCreate s)"
  unfolding submitSimplifiedTransitRouteCreate_def
  using assms
  by (auto intro!: does_intros does_create_socat
      simp: create_error_def create_started_def form_complete_def not_le split: option.split)

lemma does_real_create_ended [does_intros]:
  "routes_event s0 s \<Longrightarrow> conducted (routes_event s0) (real_create_ended s)"
  by (auto simp: real_create_ended_def intro!: does_intros)

lemma does_real_create_caught [does_intros]:
  "routes_event s0 s \<Longrightarrow> conducted (routes_event s0) (real_create_caught e s)"
  by (auto simp: real_create_caught_def create_failed_def intro!: does_intros)

lemma permitted_modal:
  "approved_context x \<Longrightarrow> Http (createTransitHaproxyRouteRealExecution
     (json_real_execution_request (real_create_request x)) t) \<in> permitted"
  unfolding permitted_def modal_executions_def by blast

lemma does_real_create_answered [does_intros]:
  "routes_event s0 s \<Longrightarrow> conducted (routes_event s0) (real_create_answered c t d s)"
  unfolding real_create_answered_def
  by (auto intro!: does_intros simp: set_command_shown_def split: option.split)

lemma does_confirmHaproxy [does_intros]:
  assumes "routes_inv s" shows "conducted (routes_click s) (confirmHaproxyRealCreateFromModal s)"
  unfolding confirmHaproxyRealCreateFromModal_def
  using assms
  by (auto intro!: does_intros permitted_modal simp: real_create_started_def routes_inv_def
      context_approved_def split: option.split)

text \<open>The other handlers.\<close>

lemma release_moves: "routes_event s (releaseTransitRoutePendingDelete i s)"
  using routes.release_event [of s i] routes.operations_consistent(3) [of s i]
  by (simp add: routes_event_def context_approved_def releaseTransitRoutePendingDelete_def)

lemma mark_moves: "routes.consistent s \<Longrightarrow> routes_click s (markTransitRoutePendingDelete i s)"
  using routes.mark_click [of s i] routes.operations_consistent(2) [of s i]
  by (simp add: routes_click_def context_approved_def markTransitRoutePendingDelete_def Let_def)

lemma does_cleanup_finished [does_intros]:
  "conducted (routes_event s) (route_cleanup_finished c cmd i s)"
  unfolding route_cleanup_finished_def
  by (auto intro!: does_intros simp: release_moves)

lemma does_cleanup_unfinished [does_intros]:
  "conducted (routes_event s) (route_cleanup_unfinished c s)"
  unfolding route_cleanup_unfinished_def by (auto intro!: does_intros)

lemma does_cleanup_polls: "conducted (routes_event s) (route_cleanup_polls c i r n s)"
proof (induction c i r n arbitrary: s rule: route_cleanup_polls.induct)
  case (1 c i r n)
  then show ?case
    by (subst route_cleanup_polls.simps) (auto intro!: does_intros split: api_response.split)
qed

lemma cleanup_polls_wait:
  "n < cleanupCommandMaxPolls \<Longrightarrow> P s \<Longrightarrow> conducted P (route_cleanup_polls c i r n s)"
  by (subst route_cleanup_polls.simps)
    (auto intro!: does_intros does_cleanup_polls split: api_response.split)

lemma does_refreshWhen [does_intros]:
  "P s \<Longrightarrow> conducted P (refreshWhenRouteCleanupCommandCompletes c cmd i s)"
  unfolding refreshWhenRouteCleanupCommandCompletes_def
  by (auto intro!: does_intros cleanup_polls_wait simp: cleanupCommandMaxPolls_def split: option.split)

lemma does_ended [does_intros]:
  "routes_event s0 s \<Longrightarrow> conducted (routes_event s0) (rename_ended s)"
  "routes_event s0 s \<Longrightarrow> conducted (routes_event s0) (rename_caught e s)"
  "routes_event s0 s \<Longrightarrow> conducted (routes_event s0) (candidate_ended s)"
  "routes_event s0 s \<Longrightarrow> conducted (routes_event s0) (export_caught e s)"
  "routes_event s0 s \<Longrightarrow> conducted (routes_event s0) (plan_ended s)"
  "routes_event s0 s \<Longrightarrow> conducted (routes_event s0) (remote_ended s)"
  "routes_event s0 s \<Longrightarrow> conducted (routes_event s0) (worker_plan_ended s)"
  "routes_event s0 s \<Longrightarrow> conducted (routes_event s0) (readiness_ended s)"
  "routes_event s0 s \<Longrightarrow> conducted (routes_event s0) (dry_run_ended s)"
  "routes_event s0 s \<Longrightarrow> conducted (routes_event s0) (final_ended s)"
  "routes_event s0 s \<Longrightarrow> conducted (routes_event s0) (real_ended s)"
  by (auto intro!: does_intros simp: rename_ended_def rename_caught_def candidate_ended_def
      export_caught_def plan_ended_def remote_ended_def worker_plan_ended_def readiness_ended_def
      dry_run_ended_def final_ended_def real_ended_def edit_route_saving_def edit_route_error_def
      candidate_loading_def candidate_say_def)

lemma rename_listed_same: "map rt_id (rename_listed i d rs) = map rt_id rs"
  by (simp add: rename_listed_def)

lemma route_renamed_moves:
  assumes "routes_event s0 s" shows "routes_event s0 (route_renamed i d s)"
proof -
  let ?t = "s\<lparr>ro_routes := rename_listed i d (ro_routes s)\<rparr>"
  have dir: "routes.directory_of ?t = routes.directory_of s"
    unfolding routes.directory_of_def using rename_listed_same [of i d "ro_routes s"]
    by simp (metis list.set_map)
  have "routes.consistent s \<Longrightarrow> routes.consistent ?t"
    by (auto simp: routes.consistent_def rename_listed_def route_deleted_def)
  then have "routes_event s0 ?t" using assms dir by (simp add: routes_event_def context_approved_def)
  then show ?thesis by (simp add: route_renamed_def closeEditRouteModal_def)
qed

lemma does_submitEdit [does_intros]:
  "routes.consistent s \<Longrightarrow> conducted (routes_click s) (submitEditRouteName s)"
  unfolding submitEditRouteName_def Let_def
  by (auto intro!: does_intros simp: edit_route_error_def edit_route_saving_def route_renamed_moves
      split: option.split api_response.split)

lemma does_delete_caught [does_intros]:
  "conducted (routes_event s) (route_delete_caught c i e s)"
  unfolding route_delete_caught_def by (auto intro!: does_intros simp: release_moves)

lemma does_submitDelete [does_intros]:
  "routes.consistent s \<Longrightarrow> conducted (routes_click s) (submitDeleteRoute s)"
  unfolding submitDeleteRoute_def Let_def
  by (auto intro!: does_intros simp: candidate_loading_def mark_moves route_delete_refused_def
      route_delete_accepted_def closeDeleteRouteModal_def release_moves
      split: option.split api_response.split)

lemma does_candidate [does_intros]:
  "routes.consistent s \<Longrightarrow> conducted (routes_click s) (loadCandidateSummary i s)"
  "routes.consistent s \<Longrightarrow> conducted (routes_click s) (exportCandidateConfig i s)"
  unfolding loadCandidateSummary_def exportCandidateConfig_def Let_def
  by (auto intro!: does_intros simp: candidate_say_def candidate_loading_def selectCandidateRoute_def
      candidate_exported_def Let_def split: api_response.split)

lemma does_copies [does_intros]:
  "routes.consistent s \<Longrightarrow> conducted (routes_click s) (copyCreatedLink b d s)"
  "routes.consistent s \<Longrightarrow> conducted (routes_click s) (copyCandidateLink b d s)"
  "routes.consistent s \<Longrightarrow> conducted (routes_click s) (copyPreflightSummary b s)"
  unfolding copyCreatedLink_def copyCandidateLink_def copyPreflightSummary_def copyText_await_def
  by (auto intro!: does_intros simp: plan_say_def split: settled.split)

lemma does_preflights [does_intros]:
  "routes.consistent s \<Longrightarrow> conducted (routes_click s) (generateReadonlyPlan s)"
  "routes.consistent s \<Longrightarrow> conducted (routes_click s) (runRemoteReadonlyPreflight s)"
  "routes.consistent s \<Longrightarrow> conducted (routes_click s) (refreshRemoteCommand s)"
  "routes.consistent s \<Longrightarrow> conducted (routes_click s) (createWorkerDryRunPlan s)"
  unfolding generateReadonlyPlan_def runRemoteReadonlyPreflight_def refreshRemoteCommand_def
    createWorkerDryRunPlan_def Let_def
  by (auto intro!: does_intros simp: plan_say_def remote_say_def split: option.split api_response.split)

lemma permitted_planned:
  "far_ready_for_real_create a \<Longrightarrow> real_text_typed s = HAPROXY_REAL_EXECUTION_TEXT
    \<Longrightarrow> Http (createTransitHaproxyRouteRealExecution
     (json_real_execution_request (plan_real_request s r n d a)) t) \<in> permitted"
  unfolding permitted_def planned_executions_def by blast

lemma does_stages [does_intros]:
  "routes.consistent s \<Longrightarrow> conducted (routes_click s) (generateHaproxyReadinessApproval s)"
  "routes.consistent s \<Longrightarrow> conducted (routes_click s) (createHaproxyRouteDryRun s)"
  "routes.consistent s \<Longrightarrow> conducted (routes_click s) (generateHaproxyFinalApproval s)"
  "routes.consistent s \<Longrightarrow> conducted (routes_click s) (createHaproxyRealExecutionCommand s)"
  unfolding generateHaproxyReadinessApproval_def createHaproxyRouteDryRun_def
    generateHaproxyFinalApproval_def createHaproxyRealExecutionCommand_def Let_def
  by (auto intro!: does_intros permitted_planned
      simp: readiness_say_def dry_run_say_def final_say_def real_say_def
      split: option.split api_response.split)

lemma does_close [does_intros]:
  "routes.consistent s \<Longrightarrow> conducted (routes_click s) (closeCreateRouteModal c refresh s)"
  unfolding closeCreateRouteModal_def by (auto intro!: does_intros simp: closed_create_def)

lemma haproxy_effect_moves [simp]: "routes_click s0 (haproxy_effect u s) = routes_click s0 s"
  by (simp add: haproxy_effect_def)

lemma does_routes_action:
  "routes_may b s a \<Longrightarrow> routes_inv s \<Longrightarrow> conducted (routes_click s) (a s)"
  by (induction rule: routes_may.induct)
    (auto intro!: does_intros simp: routes_inv_def openCreateRouteModal_def show_qr_def
      downloadCreateTransitQrCode_def openCandidateExportModal_def showRouteDetail_def
      candidate_say_def selectCandidateRoute_def openEditRoute_def openDeleteRoute_def Let_def
      closeEditRouteModal_def closeDeleteRouteModal_def closeCandidateExportModal_def updateDraft_def
      updateHaproxyReadinessConfirmation_def split: option.split bool.split)

subsection \<open>What holds in every run\<close>

abbreviation routes_reach :: "browser \<Rightarrow> routes_panel \<times> routes_panel task list \<Rightarrow> bool" where
  "routes_reach b \<equiv> system_reach (routes_may b) routes_initial"

lemma routes_move_inv:
  "routes_click s t \<Longrightarrow> routes_inv s \<Longrightarrow> routes_inv t" "routes_event s t \<Longrightarrow> routes_inv s \<Longrightarrow> routes_inv t"
  by (simp_all add: routes_inv_def routes_click_def routes_event_def)

lemma routes_reach_conducted:
  assumes "routes_reach b c" shows "conducted routes_inv c"
  using assms
proof (rule system_conducts)
  show "routes_inv routes_initial"
    by (simp add: routes_inv_def routes.consistent_def context_approved_def routes_initial_def
        create_initial_def)
  show "conducted routes_inv (a s)" if "routes_may b s a" "routes_inv s" for s a
    using does_routes_action [OF that] that(2) routes_move_inv(1) by (auto simp: does_def)
qed (rule routes_move_inv(2))

subsection \<open>A creation ends\<close>

definition status_request :: "routes_panel task \<Rightarrow> bool" where
  "status_request t \<longleftrightarrow> (\<exists>i k. t = Call (Http (getWorkerCommand i)) k)"

lemma not_status_request [simp]:
  "\<not> status_request (EachOf xs k h)" "\<not> status_request (Timer d alive a)"
  "\<not> status_request (CallAll es g)"
  by (simp_all add: status_request_def)

lemma quiet_request:
  "req_method q = Some m \<Longrightarrow> \<not> status_request (Call (Http q) f)"
  by (auto simp: status_request_def getWorkerCommand_def)

lemma quiet_csrf: "\<not> status_request (Call (Http (get_request (js ''/api/auth/csrf''))) f)"
  by (simp add: status_request_def getWorkerCommand_def get_request_def js_def)

lemma count_quiet_fetch:
  "(\<And>r s. counted status_request n (k r s)) \<Longrightarrow> (\<And>e s. counted status_request n (h e s))
    \<Longrightarrow> (\<And>f. \<not> status_request (Call (Http q) f)) \<Longrightarrow> counted status_request n (fetch q as k h s)"
  using counted_fetch [of status_request n k h q 0 as s] by simp

lemma count_or_throw:
  "(\<And>d s. counted P n (k d s)) \<Longrightarrow> (\<And>e s. counted P n (h e s)) \<Longrightarrow> counted P n (or_throw h k r s)"
  by (simp add: or_throw_def split: api_response.split)

lemma count_status_fetch:
  "(\<And>r s. counted status_request n (k r s)) \<Longrightarrow> (\<And>e s. counted status_request n (h e s))
    \<Longrightarrow> counted status_request (Suc n) (fetch q as k h s)"
  using counted_fetch [of status_request n k h q 1 as s] by simp

lemma count_sleep: "(\<And>s. counted status_request n (k s)) \<Longrightarrow> counted status_request n (sleep d k s)"
  using counted_sleep [of status_request n k d 0 s] by simp

lemma count_wait_attempts:
  assumes "\<And>cmd s. counted status_request m (k cmd s)" and "\<And>e s. counted status_request m (h e s)"
  shows "counted status_request (wait_limit - n + m) (wait_attempts i st t k h n s)"
  using assms
proof (induction i st t k h n arbitrary: s rule: wait_attempts.induct)
  case (1 i st t k h n)
  show ?case
  proof (cases "n < wait_limit")
    case True
    have mono: "counted status_request m c \<Longrightarrow> counted status_request (wait_limit - Suc n + m) c" for c
      by (erule counted_mono) simp
    note ends = mono [OF 1(3)] mono [OF 1(4)]
    have "counted status_request (Suc (wait_limit - Suc n + m)) (wait_attempts i st t k h n s)"
      by (subst wait_attempts.simps, simp only: True if_True, rule count_status_fetch)
        (use True 1(1,2) 1(3,4) ends in \<open>auto intro!: count_sleep split: api_response.split\<close>)
    then show ?thesis using True by (simp add: Suc_diff_Suc)
  next
    case False
    then show ?thesis using 1(4) by (subst wait_attempts.simps) simp
  qed
qed

lemma count_wait_success:
  assumes "\<And>s. counted status_request m (k s)" and "\<And>e s. counted status_request m (h e s)"
    and "n = wait_limit + m"
  shows "counted status_request n (wait_success i st msg k h s)"
  unfolding wait_success_def waitForTransitCommandCompletion_def
  using count_wait_attempts [where n = 0 and m = m and h = h] assms by simp

lemma count_ends [simp]:
  "counted status_request n (create_caught e s)"
  "counted status_request n (real_create_caught e s)"
  "counted status_request n (real_create_ended s)"
  "counted status_request n (finished s)"
  by (simp_all add: create_caught_def real_create_caught_def real_create_ended_def counted_nothing)

lemma count_loadData:
  assumes "\<And>d s. counted status_request n (k d s)" and "\<And>e s. counted status_request n (h e s)"
  shows "counted status_request n (loadData_routes c k h s)"
  unfolding loadData_routes_def
  by (rule counted_call_all) (auto intro: assms split: settled.split)

lemma count_refresh_and_export:
  assumes "\<And>s. counted status_request n (k s)" and "\<And>e s. counted status_request n (h e s)"
  shows "counted status_request n (refresh_and_export c t r missing complete k h s)"
  unfolding refresh_and_export_def
  by (rule count_loadData)
    (use assms in \<open>auto intro!: count_quiet_fetch count_or_throw quiet_request
      simp: exportTransitRouteCandidate_def split: option.split\<close>)

lemma count_create_haproxy: "counted status_request wait_limit (create_haproxy c r n p t s)"
  unfolding create_haproxy_def dry_run_haproxy_def approve_haproxy_def
  by (auto intro!: count_quiet_fetch count_or_throw count_wait_success [where m = 0] quiet_request
      simp: requestTransitHaproxyRouteFinalApproval_def createTransitHaproxyRouteDryRun_def
        requestTransitHaproxyReadinessApproval_def)

lemma count_execute_socat: "counted status_request wait_limit (execute_socat c r n p t s)"
  unfolding execute_socat_def
  by (auto intro!: count_quiet_fetch count_or_throw count_wait_success [where m = 0]
        count_refresh_and_export quiet_request simp: createTransitRouteWorkerExecuteCommand_def)

lemma count_create_socat: "counted status_request (wait_limit + wait_limit) (create_socat c r n p t s)"
  unfolding create_socat_def
  by (auto intro!: count_quiet_fetch count_or_throw count_wait_success [where m = wait_limit]
        count_execute_socat quiet_request simp: createTransitReadonlyPreflightCommand_def)

lemma count_csrf:
  "(\<And>t s. counted status_request n (k t s)) \<Longrightarrow> (\<And>e s. counted status_request n (h e s))
    \<Longrightarrow> counted status_request n (ensureCsrfToken_await k h s)"
  unfolding ensureCsrfToken_await_def
  by (rule count_quiet_fetch) (auto simp: quiet_csrf split: api_response.split)

lemma count_submit: "counted status_request 180 (submitSimplifiedTransitRouteCreate s)"
proof -
  have "counted status_request 180 (create_haproxy c r n p t s)" for c r n p t s
    using count_create_haproxy by (rule counted_mono) (simp add: wait_limit_def)
  moreover have "counted status_request 180 (create_socat c r n p t s)" for c r n p t s
    using count_create_socat by (rule counted_mono) (simp add: wait_limit_def)
  ultimately show ?thesis
    by (auto simp: submitSimplifiedTransitRouteCreate_def intro!: count_csrf split: option.split)
qed

lemma count_confirm: "counted status_request 90 (confirmHaproxyRealCreateFromModal s)"
  unfolding confirmHaproxyRealCreateFromModal_def real_create_answered_def
  by (auto intro!: count_csrf count_quiet_fetch count_or_throw count_wait_success [where m = 0]
        count_refresh_and_export quiet_request
      simp: createTransitHaproxyRouteRealExecution_def wait_limit_def split: option.split)

text \<open>
  C9 (termination). Whatever the backend answers, and in whatever order its answers and the
  timers arrive, a creation sends at most 180 status requests and a confirmed HAProxy creation
  at most 90, and neither has an infinite run.
\<close>

theorem creation_gives_up:
  "performed status_request evs (submitSimplifiedTransitRouteCreate s) \<le> 180
   \<and> performed status_request evs (confirmHaproxyRealCreateFromModal s) \<le> 90
   \<and> \<not> (\<exists>f. f 0 \<in> {submitSimplifiedTransitRouteCreate s, confirmHaproxyRealCreateFromModal s}
            \<and> (\<forall>n. (f (Suc n), f n) \<in> loop_step))"
proof (intro conjI)
  show "performed status_request evs (submitSimplifiedTransitRouteCreate s) \<le> 180"
    using count_submit by (rule performed_counted)
  show "performed status_request evs (confirmHaproxyRealCreateFromModal s) \<le> 90"
    using count_confirm by (rule performed_counted)
  show "\<not> (\<exists>f. f 0 \<in> {submitSimplifiedTransitRouteCreate s, confirmHaproxyRealCreateFromModal s}
            \<and> (\<forall>n. (f (Suc n), f n) \<in> loop_step))"
    using event_loop_terminates unfolding wf_iff_no_infinite_down_chain by blast
qed

end
