(* ===== verification/TransitRouteRuns.thy ===== *)
theory TransitRouteRuns
  imports TransitRoutesSystem
begin

text \<open>
  What holds in every run of the transit route panel, and sample runs: the creation of a HAProxy
  route up to its confirmation, and what becomes of it when the form is edited before the
  confirmation.
\<close>

subsection \<open>Properties of all runs\<close>


text \<open>
  C5 (refinement). The list of routes implements the directory, step by step: from
  every reachable state, a click holds at most one id back and adds none, an event reloads the
  list without the ids held back or releases one id, and no deleted or held id is shown.
\<close>

theorem routes_refine_directory:
  assumes "system_reach (routes_may b) routes_initial (s, ts)"
  shows "(\<forall>a. routes_may b s a \<longrightarrow>
            directory_click (routes.directory_of s) (routes.directory_of (fst (a s))))
       \<and> (\<forall>ev s' ts'. perform ev (s, ts) = Some (s', ts') \<longrightarrow>
            directory_event (routes.directory_of s) (routes.directory_of s'))
       \<and> list_all (\<lambda>r. rt_id r \<notin> ro_pendingDeleted s \<and> \<not> route_deleted r) (ro_routes s)"
proof -
  have c: "conducted routes_inv (s, ts)" using assms by (rule routes_reach_conducted)
  then have inv: "routes_inv s" and tasks: "\<forall>t \<in> set ts. conducts routes_event permitted t"
    by (simp_all add: does_def)
  have "routes_click s (fst (a s))" if "routes_may b s a" for a
    using does_routes_action [OF that inv] by (simp add: does_def)
  moreover have "routes_event s s'" if "perform ev (s, ts) = Some (s', ts')" for ev s' ts'
    using perform_conducts [OF that tasks] by simp
  ultimately show ?thesis
    using inv by (auto simp: routes_moves routes_inv_def routes.consistent_def list_all_iff)
qed

subsection \<open>Running a handler\<close>

lemma run_fetch: "as r = Some (Resolved x) \<Longrightarrow> perform (Reply 0 r) (fetch q as k h s) = Some (k x s)"
  by (simp add: act_simps perform_def)

lemma run_csrf:
  "perform (Reply 0 (RCsrf (Resolved (ApiSuccess t m)))) (ensureCsrfToken_await k h s) = Some (k t s)"
  by (simp add: ensureCsrfToken_await_def run_fetch)

lemma run_throwing:
  "as r = Some (Resolved (ApiSuccess d m)) \<Longrightarrow>
     perform (Reply 0 r) (fetch q as (or_throw h k) h' s) = Some (k d s)"
  by (simp add: run_fetch or_throw_def)

lemma run_wait_success:
  assumes "wc_status cmd = (js ''succeeded'')"
  shows "perform (Reply 0 (RCommand (Resolved (ApiSuccess cmd m)))) (wait_success i st msg k h s) =
     Some (k (set_command_shown cmd s))"
  using assms
  by (simp add: wait_success_def waitForTransitCommandCompletion_def wait_attempts.simps [where attempt = 0]
      wait_limit_def run_fetch transitCreateTerminalStatuses_def)

lemma run_loadData:
  "perform (ReplyAll 0 [RResources (Resolved ra), RNodes (Resolved rb), RRoutes (Resolved rc)])
     (loadData_routes c k h s) =
   Some (k (loaded_lists c ra rb rc (s\<lparr>ro_loading := True\<rparr>))
     (store_lists ra rb rc (s\<lparr>ro_loading := True\<rparr>)))"
  by (simp add: loadData_routes_def act_simps perform_def as_lists_def)

text \<open>The approval of a HAProxy creation, from the submitted form to the question for confirmation.\<close>

definition approval_events ::
  "readiness_result \<Rightarrow> haproxy_dry_run \<Rightarrow> worker_command_data \<Rightarrow> final_approval \<Rightarrow> event list" where
  "approval_events ra dr cmd fa =
     [Reply 0 (RCsrf (Resolved (ApiSuccess (js ''token'') []))),
      Reply 0 (RReadiness (Resolved (ApiSuccess ra []))),
      Reply 0 (RDryRun (Resolved (ApiSuccess dr []))),
      Reply 0 (RCommand (Resolved (ApiSuccess cmd []))),
      Reply 0 (RFinal (Resolved (ApiSuccess fa [])))]"

definition awaiting_confirmation ::
  "transit_resource_data \<Rightarrow> node_data \<Rightarrow> haproxy_dry_run \<Rightarrow> worker_command_data \<Rightarrow> final_approval
   \<Rightarrow> routes_panel \<Rightarrow> routes_panel" where
  "awaiting_confirmation r n dr cmd fa s =
     say (uni ''%u9884%u68C0%u6210%u529F%uFF0C%u7B49%u5F85%u786E%u8BA4%u771F%u5B9E%u521B%u5EFA%u3002'')
       (on_create (\<lambda>x. x\<lparr>cr_haproxyContext := Some
            \<lparr>hx_transitResourceId = tr_id r, hx_landingNodeId = nd_id n,
             hx_dryRun = dr, hx_finalApproval = fa\<rparr>,
          cr_step := StepRealCreateConfirm\<rparr>)
        (set_command_shown cmd (set_command_shown (hdr_command dr)
          (set_step StepCommandCreate (create_started s)))))"

lemma approval_run:
  assumes "form_complete s r n p" and "cf_forwardingMethod (cr_form (ro_create s)) = CreateHaproxy"
    and "rar_ready ra" "\<not> rar_blocked ra" and "wc_status cmd = (js ''succeeded'')"
    and "far_ready_for_real_create fa" "\<not> far_blocked fa"
  shows "run_events (approval_events ra dr cmd fa) (submitSimplifiedTransitRouteCreate s) =
     Some (awaiting_confirmation r n dr cmd fa s, [])"
proof -
  have "submitSimplifiedTransitRouteCreate s =
      ensureCsrfToken_await (create_haproxy s r n p) create_caught (create_started s)"
    using assms(1,2) by (simp add: submitSimplifiedTransitRouteCreate_def form_complete_def not_le)
  then show ?thesis
    using assms(3-)
    by (simp add: approval_events_def run_csrf create_haproxy_def run_throwing dry_run_haproxy_def
        run_wait_success approve_haproxy_def awaiting_confirmation_def finished_def)
qed

text \<open>The confirmed creation, from the click to the request for the client link.\<close>

definition creation_events ::
  "real_execution_result \<Rightarrow> worker_command_data \<Rightarrow> transit_resource_data list \<Rightarrow> node_data list
   \<Rightarrow> transit_route_data list \<Rightarrow> event list" where
  "creation_events d cmd rs ns routes =
     [Reply 0 (RCsrf (Resolved (ApiSuccess (js ''token'') []))),
      Reply 0 (RReal (Resolved (ApiSuccess d []))),
      Reply 0 (RCommand (Resolved (ApiSuccess cmd []))),
      ReplyAll 0 [RResources (Resolved (ApiSuccess rs [])), RNodes (Resolved (ApiSuccess ns [])),
                  RRoutes (Resolved (ApiSuccess routes []))]]"

lemma creation_run:
  assumes "cr_haproxyContext (ro_create s) = Some x" and "xr_command d = Some cmd0"
    and "wc_status cmd = (js ''succeeded'')" and "ro_pendingDeleted s = {}"
    and "findCreatedTransitRoute s (List.filter (\<lambda>r. \<not> route_deleted r) routes) = Some route"
  shows "\<exists>s' k. run_events (creation_events d cmd rs ns routes) (confirmHaproxyRealCreateFromModal s) =
     Some (s', [Call (Http (exportTransitRouteCandidate (rt_id route)
        (json_candidate_export_request (export_request (js ''haproxy_transit_route_create_success''))) (js ''token''))) k])
     \<and> cr_createdRoute (ro_create s') = Some route \<and> cr_haproxyContext (ro_create s') = Some x"
proof -
  let ?s = "set_step StepRefresh (set_command_shown cmd (set_command_shown cmd0
      (on_create (\<lambda>x. x\<lparr>cr_haproxyRealExecution := Some d\<rparr>) (real_create_started s))))"
  have "ro_pendingDeleted (?s\<lparr>ro_loading := True\<rparr>) = {}"
    using assms(4) by (simp add: set_step_def set_command_shown_def real_create_started_def quiet)
  then have lists: "snd (snd (loaded_lists s (ApiSuccess rs []) (ApiSuccess ns []) (ApiSuccess routes [])
      (?s\<lparr>ro_loading := True\<rparr>))) = List.filter (\<lambda>r. \<not> route_deleted r) routes"
    by (simp add: loaded_lists_def filterVisibleTransitRoutes_def)
  have receive: "cr_haproxyContext (ro_create (store_lists ra rb rc (t\<lparr>ro_loading := True\<rparr>)))
      = cr_haproxyContext (ro_create t)" for ra rb rc t
    by (simp add: store_lists_def Let_def quiet receive_routes_def set_routes_def say_failure_def
        split: api_response.split option.split)
  let ?t = "store_lists (ApiSuccess rs []) (ApiSuccess ns []) (ApiSuccess routes []) (?s\<lparr>ro_loading := True\<rparr>)"
  let ?q = "exportTransitRouteCandidate (rt_id route)
        (json_candidate_export_request (export_request (js ''haproxy_transit_route_create_success''))) (js ''token'')"
  let ?s' = "on_create (\<lambda>cr. cr\<lparr>cr_createdRoute := Some route, cr_step := StepExportLink\<rparr>) ?t"
  have "\<exists>k. run_events (creation_events d cmd rs ns routes) (confirmHaproxyRealCreateFromModal s) =
      Some (fetch ?q as_export k real_create_caught ?s')"
    using assms(1-3)
    by (simp add: creation_events_def confirmHaproxyRealCreateFromModal_def run_csrf run_throwing
        real_create_answered_def run_wait_success refresh_and_export_def run_loadData lists assms(5))
      blast
  then show ?thesis
    by (elim exE) (simp add: act_simps(4) quiet receive, simp add: set_step_def set_command_shown_def real_create_started_def quiet assms(1))
qed

subsection \<open>A sample panel\<close>

definition sample_node :: node_data where
  "sample_node =
     \<lparr>nd_id = (js ''n1''), nd_vps_id = [], nd_vps_ip = Some (js ''10.0.0.2''), nd_vps_status = None,
      nd_node_name = (js ''landing''), nd_protocol = [], nd_transport = None, nd_security = [],
      nd_port = Some 443, nd_status = (js ''active''), nd_service_status = None,
      nd_connectivity_status = None, nd_service_display_label = None,
      nd_connectivity_display_status = None, nd_connectivity_display_label = None,
      nd_node_health_summary = None, nd_uuid = None, nd_uuid_present = None, nd_masked_uuid =
      None, nd_flow = None, nd_reality_public_key = None, nd_reality_public_key_present =
      None, nd_masked_reality_public_key = None, nd_reality_short_id = None,
      nd_reality_short_id_present = None, nd_masked_reality_short_id = None,
      nd_reality_server_name = None, nd_reality_dest = None, nd_fingerprint = None, nd_source
      = [], nd_share_link = None, nd_has_share_link = None, nd_share_link_present = None,
      nd_share_link_length = None, nd_masked_share_link = None, nd_created_at = None,
      nd_updated_at = None, nd_last_remote_check_at = None, nd_last_sync_status = None\<rparr>"

definition done_command :: worker_command_data where
  "done_command =
     \<lparr>wc_id = (js ''c1''), wc_worker_id = [], wc_target_worker_id = [],
      wc_target_worker_version = None, wc_server_type = None, wc_server_id = None,
      wc_command_type = [], wc_status = (js ''succeeded''), wc_lease_until = None, wc_claimed_at =
      None, wc_completed_at = None, wc_result_json = JNull, wc_result_summary = None,
      wc_error_message = None, wc_attempts = 0, wc_created_at = None, wc_updated_at =
      None\<rparr>"

definition ready_answer :: readiness_result where
  "ready_answer =
     \<lparr>rar_ready = True, rar_blocked = False, rar_status = [], rar_summary = [],
      rar_next_action = [], rar_transit_resource = \<lparr>rars_id = [], rars_name = None,
      rars_entry_host = None, rars_status = [], rars_deleted = False\<rparr>,
      rar_transit_worker = \<lparr>rarw_id = None, rarw_role = None, rarw_status = [],
      rarw_worker_version = None, rarw_interface_name = None,
      rarw_minimum_supported_worker_version = []\<rparr>, rar_landing_node = \<lparr>rarn_id =
      [], rarn_name = None, rarn_target_host = None, rarn_target_port = None, rarn_status =
      []\<rparr>, rar_planned_route = \<lparr>rarr_route_name = [], rarr_planned_listen_port =
      0, rarr_landing_target_host = None, rarr_landing_target_port = 0, rarr_forwarding_method
      = [], rarr_purpose = None, rarr_service_name = [], rarr_dry_readiness_only =
      False\<rparr>, rar_checks = [], rar_safety_boundary = []\<rparr>"

definition dry_run_8443 :: haproxy_dry_run where
  "dry_run_8443 =
     \<lparr>hdr_command = done_command, hdr_target_worker_id = [], hdr_target_worker_version
      = None, hdr_minimum_supported_worker_version = [], hdr_dry_run = False,
      hdr_approval_required = False, hdr_real_execution = False, hdr_route_created = False,
      hdr_haproxy_installed = False, hdr_listener_bound = False, hdr_firewall_modified =
      False, hdr_share_link_mutated = False, hdr_cutover = False, hdr_planned_service_name =
      [], hdr_planned_listen_port = 8443, hdr_landing_target_host = [],
      hdr_landing_target_port = 0, hdr_forwarding_method = [], hdr_route_name = [],
      hdr_route_display_name = None, hdr_readiness_summary = [], hdr_checks = [],
      hdr_safety_boundary = [], hdr_next_stage = []\<rparr>"

definition approval_8443 :: final_approval where
  "approval_8443 =
     \<lparr>far_ready_for_real_create = True, far_blocked = False, far_summary = [],
      far_next_action = [], far_dry_run_command_id = [], far_planned_service_name = [],
      far_planned_listen_port = 8443, far_landing_target_host = (js ''10.0.0.2''),
      far_landing_target_port = 443, far_forwarding_method = [], far_route_name = [],
      far_route_display_name = None, far_final_approval_text = [],
      far_expected_real_execution_text = [], far_target_worker_id = None,
      far_target_worker_version = None, far_minimum_supported_worker_version = [], far_checks
      = [], far_safety_boundary = [], far_next_stage = [], far_worker_command_created = False,
      far_real_execution_command_created = False, far_route_created = False,
      far_transit_route_active_record_created = False, far_haproxy_installed = False,
      far_listener_bound = False, far_firewall_modified = False, far_share_link_mutated =
      False, far_cutover = False\<rparr>"

definition execution_8443 :: real_execution_result where
  "execution_8443 =
     \<lparr>xr_ready_for_real_execution = False, xr_blocked = False, xr_summary = [],
      xr_next_action = [], xr_dry_run_command_id = [], xr_planned_service_name = [],
      xr_planned_listen_port = 8443, xr_landing_target_host = [], xr_landing_target_port = 0,
      xr_forwarding_method = [], xr_route_name = [], xr_route_display_name = None,
      xr_final_approval_text = [], xr_expected_real_execution_text = [], xr_target_worker_id =
      None, xr_target_worker_version = None, xr_minimum_supported_worker_version = [],
      xr_checks = [], xr_safety_boundary = [], xr_command = Some done_command,
      xr_worker_command_created = False, xr_real_execution_command_created = False,
      xr_route_created = False, xr_transit_route_active_record_created = False,
      xr_haproxy_installed = False, xr_listener_bound = False, xr_firewall_modified = False,
      xr_share_link_mutated = False, xr_cutover = False\<rparr>"

lemma sample_answers [simp]:
  "wc_status done_command = (js ''succeeded'')" "rar_ready ready_answer" "\<not> rar_blocked ready_answer"
  "far_ready_for_real_create approval_8443" "\<not> far_blocked approval_8443"
  "far_planned_listen_port approval_8443 = 8443" "xr_command execution_8443 = Some done_command"
  by (simp_all add: done_command_def ready_answer_def approval_8443_def execution_8443_def)

definition haproxy_route :: "jsstr \<Rightarrow> int \<Rightarrow> transit_route_data" where
  "haproxy_route i port = (sample_transit_route i port)\<lparr>rt_forwarding_method := (js ''haproxy_tcp'')\<rparr>"

lemma haproxy_route_simps [simp]:
  "rt_id (haproxy_route i p) = i" "rt_transit_resource_id (haproxy_route i p) = (js ''r1'')"
  "rt_listen_port (haproxy_route i p) = p" "rt_node_id (haproxy_route i p) = (js ''n1'')"
  "rt_target_port (haproxy_route i p) = 443" "rt_forwarding_method (haproxy_route i p) = (js ''haproxy_tcp'')"
  "rt_status (haproxy_route i p) = (js ''active'')" "rt_deleted_at (haproxy_route i p) = None"
  "\<not> route_deleted (haproxy_route i p)"
  using lower_active by (simp_all add: haproxy_route_def sample_transit_route_def route_deleted_def)

text \<open>One server, one node, and an active route on port 9443.\<close>

abbreviation old_route :: transit_route_data where "old_route \<equiv> haproxy_route (js ''t1'') 9443"
abbreviation new_route :: transit_route_data where "new_route \<equiv> haproxy_route (js ''t2'') 8443"

definition loaded_routes :: routes_panel where
  "loaded_routes =
     store_lists (ApiSuccess [sample_server (js ''r1'') (js ''hk'')] []) (ApiSuccess [sample_node] [])
       (ApiSuccess [old_route] []) (routes_initial\<lparr>ro_loading := True\<rparr>)"

lemma sample_selectable [simp]:
  "isPlanningSelectableTransitResource (sample_server i n)" "nd_status sample_node = (js ''active'')"
  "nd_id sample_node = (js ''n1'')" "nd_port sample_node = Some 443"
  by (simp_all add: isPlanningSelectableTransitResource_def sample_server_def sample_node_def)

lemma visible_samples [simp]:
  "filterVisibleRouteResources [sample_server i n] = [sample_server i n]"
  "filterVisibleRouteNodes [sample_node] = [sample_node]"
  using lower_active by (simp_all add: filterVisibleRouteResources_def filterVisibleRouteNodes_def)

lemma loaded_routes_simps [simp]:
  "ro_resources loaded_routes = [sample_server (js ''r1'') (js ''hk'')]" "ro_nodes loaded_routes = [sample_node]"
  "ro_routes loaded_routes = [old_route]" "ro_pendingDeleted loaded_routes = {}"
  "ro_create loaded_routes = create_initial"
  by (simp_all add: loaded_routes_def store_lists_def Let_def haproxy_effect_def on_haproxy_def
      draft_effect_def receive_resources_def receive_nodes_def receive_routes_def set_routes_def
      filterVisibleTransitRoutes_def routes_initial_def)

lemma loaded_routes_reach: "routes_reach b (loaded_routes, [])"
proof -
  let ?a = "loadData_routes routes_initial (\<lambda>d. finished) unhandled"
  have "routes_reach b (?a routes_initial)"
    by (rule system_act [where may = "routes_may b" and s = routes_initial and a = ?a])
      (rule system_reach.initial routes_may.RefreshRoutes refl)+
  moreover have "run_events [ReplyAll 0 [RResources (Resolved (ApiSuccess [sample_server (js ''r1'') (js ''hk'')] [])),
      RNodes (Resolved (ApiSuccess [sample_node] [])), RRoutes (Resolved (ApiSuccess [old_route] []))]]
      (?a routes_initial) = Some (loaded_routes, [])"
    by (simp add: run_loadData loaded_routes_def finished_def)
  ultimately show ?thesis by (rule system_run)
qed

text \<open>The form is opened and filled in for port 8443.\<close>

definition with_form :: "create_form \<Rightarrow> routes_panel \<Rightarrow> routes_panel" where
  "with_form f = on_create (\<lambda>x. x\<lparr>cr_form := f\<rparr>)"

definition opened_create :: routes_panel where
  "opened_create = openCreateRouteModal loaded_routes"

definition fill_in :: "create_edit list \<Rightarrow> routes_panel \<Rightarrow> routes_panel" where
  "fill_in es s = fold (\<lambda>e. on_create (\<lambda>x. x\<lparr>cr_form := edit_create_form e (cr_form x)\<rparr>)) es s"

lemma fill_in_reach:
  "routes_reach b (s, []) \<Longrightarrow> cr_modalOpen (ro_create s) \<Longrightarrow> routes_reach b (fill_in es s, [])"
proof (induction es arbitrary: s)
  case (Cons e es)
  let ?f = "on_create (\<lambda>x. x\<lparr>cr_form := edit_create_form e (cr_form x)\<rparr>)"
  have "routes_reach b (?f s, [])"
    by (rule system_act [OF Cons.prems(1) routes_may.CreateInput [OF Cons.prems(2), of b e]])
      (simp add: finished_def)
  moreover have "cr_modalOpen (ro_create (?f s))" using Cons.prems(2) by (simp add: quiet)
  ultimately show ?case using Cons.IH by (simp add: fill_in_def)
qed (simp add: fill_in_def)

lemma fill_in_quiet [simp]:
  "ro_routes (fill_in es s) = ro_routes s" "ro_pendingDeleted (fill_in es s) = ro_pendingDeleted s"
  "ro_resources (fill_in es s) = ro_resources s" "ro_nodes (fill_in es s) = ro_nodes s"
  "cr_haproxyContext (ro_create (fill_in es s)) = cr_haproxyContext (ro_create s)"
  "cr_step (ro_create (fill_in es s)) = cr_step (ro_create s)"
  "cr_modalOpen (ro_create (fill_in es s)) = cr_modalOpen (ro_create s)"
  "cr_haproxyRealExecutionLoading (ro_create (fill_in es s)) = cr_haproxyRealExecutionLoading (ro_create s)"
  "cr_form (ro_create (fill_in es s)) = fold edit_create_form es (cr_form (ro_create s))"
  unfolding fill_in_def by (induction es arbitrary: s) (simp_all add: quiet on_create_def)

definition ready_form :: routes_panel where
  "ready_form = fill_in [CreateMethod CreateHaproxy, CreateListenPort (js ''8443''), CreateFirewall True] opened_create"

lemma opened_create_simps [simp]:
  "ro_routes opened_create = [old_route]" "ro_pendingDeleted opened_create = {}"
  "ro_resources opened_create = [sample_server (js ''r1'') (js ''hk'')]" "ro_nodes opened_create = [sample_node]"
  "cr_modalOpen (ro_create opened_create)" "cr_step (ro_create opened_create) = StepIdle"
  "cr_form (ro_create opened_create) =
     emptyRouteCreateForm\<lparr>cf_transitResourceId := (js ''r1''), cf_landingNodeId := (js ''n1'')\<rparr>"
proof -
  show "cr_form (ro_create opened_create) =
     emptyRouteCreateForm\<lparr>cf_transitResourceId := (js ''r1''), cf_landingNodeId := (js ''n1'')\<rparr>"
    by (simp add: opened_create_def openCreateRouteModal_def quiet selectedResource_routes_def
        selectedNode_routes_def find_or_first_def find_opt_def selectableResources_def activeNodes_def)
qed (simp_all add: opened_create_def openCreateRouteModal_def quiet, simp_all add: on_create_def)

lemma opened_create_reach: "routes_reach b (opened_create, [])"
  by (rule system_act [OF loaded_routes_reach routes_may.OpenCreate])
    (simp add: finished_def opened_create_def)

text \<open>Ports as text.\<close>

lemma sample_form_ports [simp]:
  "parseTransitPort (js ''8443'') = Some 8443" "parseTransitPort (js ''9443'') = Some 9443"
  by (simp_all add: parseTransitPort_def all_digits_def trim_def trim_start_def is_space_def
      is_digit_def digits_value_def js_def)

lemma form_values:
  assumes "ro_resources s = [sample_server (js ''r1'') (js ''hk'')]" "ro_nodes s = [sample_node]"
  shows "createResource s = Some (sample_server (js ''r1'') (js ''hk''))" "createNode s = Some sample_node"
    "createTargetPort s = 443"
  using assms
  by (simp_all add: createResource_def createNode_def createTargetPort_def find_or_first_def find_opt_def
      selectableResources_def activeNodes_def targetPortForNode_def)

lemma ready_form_complete: "form_complete ready_form (sample_server (js ''r1'') (js ''hk'')) sample_node 8443"
  using form_values [of ready_form]
  by (simp add: form_complete_def ready_form_def createListenPort_def firewall_confirmed_def
      findTransitPortConflictRoute_def find_opt_def)

lemma ready_form_method: "cf_forwardingMethod (cr_form (ro_create ready_form)) = CreateHaproxy"
  by (simp add: ready_form_def)

lemma ready_form_name: "trim (cf_routeName (cr_form (ro_create ready_form))) \<noteq> []"
  by (simp add: ready_form_def defaultTransitRouteName_def emptyRouteCreateForm_def
      approvedTransitRouteName_def trim_def trim_start_def is_space_def js_def or_str_def
      approvedTransitListenPort_def)

lemma ready_form_ready: "createReady ready_form"
  using ready_form_complete ready_form_name form_values [of ready_form]
  by (simp add: createReady_def Let_def form_complete_def firewall_confirmed_def
      createPortConflictRoute_def running_steps_def ready_form_def)

definition approved_panel :: routes_panel where
  "approved_panel =
     awaiting_confirmation (sample_server (js ''r1'') (js ''hk'')) sample_node dry_run_8443 done_command approval_8443
       ready_form"

lemma approved_panel_reach: "routes_reach b (approved_panel, [])"
proof -
  have "routes_reach b (ready_form, [])"
    unfolding ready_form_def by (rule fill_in_reach [OF opened_create_reach]) simp
  then have "routes_reach b (submitSimplifiedTransitRouteCreate ready_form)"
    by (rule system_act [where may = "routes_may b" and s = ready_form
          and a = submitSimplifiedTransitRouteCreate, OF _ routes_may.Create])
      (simp_all add: ready_form_ready, simp_all add: ready_form_def)
  moreover have "run_events (approval_events ready_answer dry_run_8443 done_command approval_8443)
      (submitSimplifiedTransitRouteCreate ready_form) = Some (approved_panel, [])"
    unfolding approved_panel_def
    by (rule approval_run [OF ready_form_complete ready_form_method]) simp_all
  ultimately show ?thesis by (rule system_run)
qed

lemma approved_panel_simps [simp]:
  "ro_routes approved_panel = [old_route]" "ro_pendingDeleted approved_panel = {}"
  "ro_resources approved_panel = [sample_server (js ''r1'') (js ''hk'')]" "ro_nodes approved_panel = [sample_node]"
  "cr_modalOpen (ro_create approved_panel)"
  "cr_step (ro_create approved_panel) = StepRealCreateConfirm"
  "\<not> cr_haproxyRealExecutionLoading (ro_create approved_panel)"
  "cr_haproxyContext (ro_create approved_panel) =
     Some \<lparr>hx_transitResourceId = (js ''r1''), hx_landingNodeId = (js ''n1''), hx_dryRun = dry_run_8443,
           hx_finalApproval = approval_8443\<rparr>"
  "cr_form (ro_create approved_panel) = cr_form (ro_create ready_form)"
  by (simp_all add: approved_panel_def awaiting_confirmation_def set_command_shown_def set_step_def
      create_started_def quiet cleared_create_def ready_form_def)
    (simp_all add: say_def on_create_def)

text \<open>The port field is edited to 9443 before the confirmation.\<close>

definition edited_panel :: routes_panel where
  "edited_panel = fill_in [CreateListenPort (js ''9443'')] approved_panel"

lemma edited_panel_reach: "routes_reach b (edited_panel, [])"
  unfolding edited_panel_def by (rule fill_in_reach [OF approved_panel_reach]) simp

lemma confirming_reach: "routes_reach b (confirmHaproxyRealCreateFromModal edited_panel)"
  by (rule system_act [OF edited_panel_reach routes_may.ConfirmCreate])
    (simp_all add: edited_panel_def)

lemma edited_panel_finds_old:
  "findCreatedTransitRoute edited_panel (List.filter (\<lambda>r. \<not> route_deleted r) [old_route, new_route])
     = Some old_route"
  using form_values [of edited_panel]
  by (simp add: findCreatedTransitRoute_def edited_panel_def createListenPort_def ready_form_def
      find_opt_def)

text \<open>
  C13 (safety). The modal finds the route it has created by the current form,
  not by what was approved, and the form can be edited while the confirmation is awaited. Here
  the approved creation is for port 8443 and succeeds, but the field says 9443 when it is confirmed:
  the panel presents the old route on port 9443 as created and asks for its client link.
\<close>

theorem edited_form_exports_another_route:
  "\<exists>s ts x route k. system_reach (routes_may b) routes_initial (s, ts)
     \<and> cr_haproxyContext (ro_create s) = Some x
     \<and> xq_planned_listen_port (real_create_request x) = 8443
     \<and> cr_createdRoute (ro_create s) = Some route \<and> rt_listen_port route = 9443
     \<and> Call (Http (exportTransitRouteCandidate (rt_id route)
          (json_candidate_export_request (export_request (js ''haproxy_transit_route_create_success''))) (js ''token''))) k
        \<in> set ts"
proof -
  let ?x = "\<lparr>hx_transitResourceId = (js ''r1''), hx_landingNodeId = (js ''n1''), hx_dryRun = dry_run_8443,
     hx_finalApproval = approval_8443\<rparr>"
  let ?evs = "creation_events execution_8443 done_command [sample_server (js ''r1'') (js ''hk'')] [sample_node]
     [old_route, new_route]"
  have x: "cr_haproxyContext (ro_create edited_panel) = Some ?x" and p: "ro_pendingDeleted edited_panel = {}"
    by (simp_all add: edited_panel_def)
  have "\<exists>s' k. run_events ?evs (confirmHaproxyRealCreateFromModal edited_panel) =
      Some (s', [Call (Http (exportTransitRouteCandidate (rt_id old_route)
        (json_candidate_export_request (export_request (js ''haproxy_transit_route_create_success''))) (js ''token''))) k])
      \<and> cr_createdRoute (ro_create s') = Some old_route \<and> cr_haproxyContext (ro_create s') = Some ?x"
    by (rule creation_run [OF x _ _ p edited_panel_finds_old]) simp_all
  then obtain s k where run: "run_events ?evs (confirmHaproxyRealCreateFromModal edited_panel) =
      Some (s, [Call (Http (exportTransitRouteCandidate (rt_id old_route)
        (json_candidate_export_request (export_request (js ''haproxy_transit_route_create_success''))) (js ''token''))) k])"
    and s: "cr_createdRoute (ro_create s) = Some old_route" "cr_haproxyContext (ro_create s) = Some ?x"
    by blast
  let ?ts = "[Call (Http (exportTransitRouteCandidate (rt_id old_route)
        (json_candidate_export_request (export_request (js ''haproxy_transit_route_create_success''))) (js ''token''))) k]"
  have "routes_reach b (s, ?ts)"
    using confirming_reach run by (rule system_run)
  moreover have "xq_planned_listen_port (real_create_request ?x) = 8443"
    by (simp add: real_create_request_def Let_def)
  moreover have "rt_listen_port old_route = 9443" by simp
  ultimately show ?thesis
    using s
    by (intro exI [of _ s] exI [of _ ?ts] exI [of _ ?x] exI [of _ old_route] exI [of _ k] conjI)
      (assumption | simp only: list.set_intros)+
qed


theorem routes_refine_directory_witness:
  "ro_routes approved_panel = [old_route]
   \<and> list_all (\<lambda>r. rt_id r \<notin> ro_pendingDeleted approved_panel \<and> \<not> route_deleted r) (ro_routes approved_panel)"
  using routes_refine_directory [OF approved_panel_reach [of sample_browser]] by simp

end
