(* ===== verification/SampleServers.thy ===== *)
theory SampleServers
  imports ServerTypes
begin

text \<open>A landing server and a node on it, for sample runs.\<close>

definition sample_landing_node :: "jsstr \<Rightarrow> server_node" where
  "sample_landing_node i =
    \<lparr>sn_id = i, sn_name = i, sn_address = None, sn_ip = None, sn_port = Some 27939,
      sn_protocol = (js ''vless''), sn_status = (js ''active''), sn_service_status = None,
      sn_connectivity_status = None, sn_service_display_label = None,
      sn_connectivity_display_status = None, sn_connectivity_display_label = None,
      sn_node_health_summary = None, sn_share_link_present = True, sn_created_at = None\<rparr>"

definition sample_landing :: "jsstr \<Rightarrow> server_node list \<Rightarrow> vps_server" where
  "sample_landing i ns =
    \<lparr>sv_id = i, sv_name = i, sv_ip = (js ''203.0.113.9''), sv_ssh_port = 22, sv_ssh_user = (js ''root''),
      sv_ssh_username = (js ''root''), sv_notes = None, sv_status = (js ''active''), sv_last_ssh_status = [],
      sv_last_ssh_check_at = None, sv_last_ssh_error = None, sv_connection_mode = (js ''worker''),
      sv_worker_id = Some (js ''w1''), sv_worker_status = None, sv_worker_role = None,
      sv_worker_hostname = None, sv_worker_interface_name = None, sv_worker_version = None,
      sv_worker_last_heartbeat_at = None, sv_worker_heartbeat_status = None,
      sv_worker_heartbeat_age_seconds = None, sv_worker_is_heartbeat_stale = False,
      sv_worker_display_status = None, sv_worker_online = True, sv_display_status = (js ''online''),
      sv_created_at = None, sv_updated_at = None, sv_nodes = ns\<rparr>"

end
