(* ===== verification/LandingRuns.thy ===== *)
theory LandingRuns
  imports LandingWatches TransitRouteRuns SampleServers
begin

text \<open>
  What holds in every run of the landing server panel, and sample runs: the creation of a direct
  node, a copy that is reported but copies the mask, an export that lands under another node, and a
  timer that discards a form.
\<close>

subsection \<open>Running a handler\<close>

definition note_commands :: "vps_server \<times> worker_command_data list \<Rightarrow> landing_panel \<Rightarrow> landing_panel" where
  "note_commands x = store_first (Some (sv_id (fst x))) (snd x) \<circ> store_list (the (sv_worker_id (fst x))) (snd x)"

definition with_worker :: "landing_panel \<Rightarrow> vps_server list \<Rightarrow> vps_server list" where
  "with_worker s svs = List.filter (\<lambda>sv. \<not> blank (sv_worker_id sv)) (filterVisibleServers s svs)"

definition load_events :: "vps_server list \<Rightarrow> worker_command_data list list \<Rightarrow> event list" where
  "load_events svs css = Reply 0 (RServers (Resolved (ApiSuccess svs [])))
     # map (\<lambda>cs. ReplyEach 0 0 (RCommands (Resolved (ApiSuccess cs [])))) css"

lemma run_each:
  "length css = length svs \<Longrightarrow>
    run_events (map (\<lambda>cs. ReplyEach 0 0 (RCommands (Resolved (ApiSuccess cs [])))) css)
      (each_of (map load_server_commands svs) k h s) = Some (k (fold note_commands (zip svs css) s))"
proof (induction svs arbitrary: css s)
  case (Cons sv svs)
  then obtain cs css' where css: "css = cs # css'" by (cases css) auto
  have "perform (ReplyEach 0 0 (RCommands (Resolved (ApiSuccess cs []))))
      (each_of (map load_server_commands (sv # svs)) k h s)
    = Some (each_of (map load_server_commands svs) k h (note_commands (sv, cs) s))"
    by (simp add: each_of_def perform_def load_server_commands_def without_def note_commands_def)
  then show ?case using Cons by (simp add: css)
qed (simp add: each_of_def)

lemma visible_depends:
  "la_pendingServers t = la_pendingServers s \<Longrightarrow> la_pendingNodes t = la_pendingNodes s
    \<Longrightarrow> filterVisibleServers t svs = filterVisibleServers s svs"
  by (simp add: filterVisibleServers_def)

definition list_loaded ::
  "vps_server list \<Rightarrow> worker_command_data list list \<Rightarrow> landing_panel \<Rightarrow> landing_panel" where
  "list_loaded svs css s =
     (notify (uni ''%u670D%u52A1%u5668%u5217%u8868%u5DF2%u5237%u65B0%u3002'') (fold note_commands (zip (with_worker s svs) css)
        (setVisibleServers svs (s\<lparr>la_loading := True\<rparr>))))\<lparr>la_loading := False\<rparr>"

lemma run_loadServers:
  assumes "length css = length (with_worker s svs)"
  shows "run_events (load_events svs css) (loadServers k h s)
    = Some (k (filterVisibleServers s svs) (list_loaded svs css s))"
proof -
  have v: "filterVisibleServers (s\<lparr>la_loading := True\<rparr>) svs = filterVisibleServers s svs"
    by (rule visible_depends) simp_all
  show ?thesis
    using run_each [OF assms, of "\<lambda>t. k (filterVisibleServers s svs) ((notify (uni ''%u670D%u52A1%u5668%u5217%u8868%u5DF2%u5237%u65B0%u3002'') t)\<lparr>la_loading := False\<rparr>)"
        h "setVisibleServers svs (s\<lparr>la_loading := True\<rparr>)"]
    by (simp add: load_events_def loadServers_def run_fetch v with_worker_def list_loaded_def Let_def)
qed

definition command_free :: "landing_panel \<Rightarrow> landing_panel" where
  "command_free s = s\<lparr>la_commands := la_commands landing_initial\<rparr>"

lemma command_free_stored: "command_free (fold note_commands xs s) = command_free s"
  by (induction xs arbitrary: s)
    (simp_all add: note_commands_def store_first_def store_list_def store_latest_def on_commands_def
      command_free_def split: list.split)

lemma note_commands_simps [simp]:
  "la_create (fold note_commands xs s) = la_create s"
  "la_submitting (fold note_commands xs s) = la_submitting s"
  "la_pendingServers (fold note_commands xs s) = la_pendingServers s"
  "la_pendingNodes (fold note_commands xs s) = la_pendingNodes s"
  "la_servers (fold note_commands xs s) = la_servers s"
  "la_modalMode (fold note_commands xs s) = la_modalMode s"
  "la_selectedServer (fold note_commands xs s) = la_selectedServer s"
  using arg_cong [OF command_free_stored [of xs s], of la_create]
    arg_cong [OF command_free_stored [of xs s], of la_submitting]
    arg_cong [OF command_free_stored [of xs s], of la_pendingServers]
    arg_cong [OF command_free_stored [of xs s], of la_pendingNodes]
    arg_cong [OF command_free_stored [of xs s], of la_servers]
    arg_cong [OF command_free_stored [of xs s], of la_modalMode]
    arg_cong [OF command_free_stored [of xs s], of la_selectedServer]
  by (simp_all add: command_free_def)

lemma list_loaded_simps [simp]:
  "la_create (list_loaded svs css s) = la_create s" "la_submitting (list_loaded svs css s) = la_submitting s"
  "la_pendingServers (list_loaded svs css s) = la_pendingServers s"
  "la_pendingNodes (list_loaded svs css s) = la_pendingNodes s"
  "la_servers (list_loaded svs css s) = filterVisibleServers s svs"
  "la_modalMode (list_loaded svs css s) = la_modalMode s"
  "la_selectedServer (list_loaded svs css s) = la_selectedServer s"
  by (simp_all add: list_loaded_def notify_def setVisibleServers_def filterVisibleServers_def)

lemma run_landing_wait:
  assumes "wc_id c = i" and "wc_status c = (js ''succeeded'')"
  shows "perform (Reply 0 (RCommands (Resolved (ApiSuccess [c] []))))
      (waitForWorkerCommandCompletion_landing w i v r 0 k h s)
    = Some (k c (on_node_create (\<lambda>x. x\<lparr>ln_command := Some c\<rparr>) (store_latest v c (store_list w [c] s))))"
  using assms
  by (subst waitForWorkerCommandCompletion_landing.simps)
    (simp add: landing_wait_limit_def run_throwing find_opt_def NODE_CREATE_TERMINAL_STATUSES_def)

text \<open>The answers to a creation that succeeds: preflight, its command, plan, execution, its command, list.\<close>

definition node_creation_events ::
  "command_created \<Rightarrow> worker_command_data \<Rightarrow> node_plan \<Rightarrow> node_created \<Rightarrow> worker_command_data
   \<Rightarrow> vps_server list \<Rightarrow> worker_command_data list list \<Rightarrow> event list" where
  "node_creation_events d c1 plan x c2 svs css =
     [Reply 0 (RCsrf (Resolved (ApiSuccess (js ''token'') []))),
      Reply 0 (RCreated (Resolved (ApiSuccess d []))),
      Reply 0 (RCommands (Resolved (ApiSuccess [c1] []))),
      Reply 0 (RNodePlan (Resolved (ApiSuccess plan []))),
      Reply 0 (RNodeCreate (Resolved (ApiSuccess x []))),
      Reply 0 (RCommands (Resolved (ApiSuccess [c2] [])))] @ load_events svs css"

definition preflight_done ::
  "vps_server \<Rightarrow> command_created \<Rightarrow> worker_command_data \<Rightarrow> landing_panel \<Rightarrow> landing_panel" where
  "preflight_done sv d c1 s =
     on_node_create (\<lambda>x. x\<lparr>ln_command := Some c1\<rparr>) (store_latest (sv_id sv) c1
       (store_list (wcc_target_worker_id d) [c1] (store_latest (sv_id sv) (wcc_command d)
         (on_step NodePreflightCreate
           (notify (uni ''%u6B63%u5728%u81EA%u52A8%u6267%u884C%u9884%u68C0%u548C%u521B%u5EFA%u6D41%u7A0B%uFF1B%u5B8C%u6574%u94FE%u63A5%u53EA%u4F1A%u5728%u521B%u5EFA%u6210%u529F%u540E%u901A%u8FC7%u53D7%u63A7%u5BFC%u51FA%u663E%u793A%u3002'')
             (on_node_create (\<lambda>x. x\<lparr>ln_plan := None, ln_formal := None, ln_created := None,
                  ln_command := None, ln_error := None\<rparr>) (s\<lparr>la_submitting := True\<rparr>)))))))"

definition execution_done ::
  "vps_server \<Rightarrow> command_created \<Rightarrow> worker_command_data \<Rightarrow> node_plan \<Rightarrow> node_created
   \<Rightarrow> worker_command_data \<Rightarrow> landing_panel \<Rightarrow> landing_panel" where
  "execution_done sv d c1 plan x c2 s =
     on_step NodeRefresh (on_node_create (\<lambda>y. y\<lparr>ln_command := Some c2\<rparr>) (store_latest (sv_id sv) c2
       (store_list (nc_target_worker_id x) [c2] (store_latest (sv_id sv) (nc_command x)
         (on_node_create (\<lambda>y. y\<lparr>ln_formal := Some x\<rparr>) (on_step NodeCommandCreate
           (on_node_create (\<lambda>y. y\<lparr>ln_plan := Some plan\<rparr>) (on_step NodePlanStep (preflight_done sv d c1 s)))))))))"

lemma creation_pending [simp]:
  "la_pendingServers (execution_done sv d c1 plan x c2 s) = la_pendingServers s"
  "la_pendingNodes (execution_done sv d c1 plan x c2 s) = la_pendingNodes s"
  by (simp_all add: execution_done_def preflight_done_def on_step_def on_node_create_def store_latest_def
      store_list_def on_commands_def notify_def)

subsection \<open>A sample panel\<close>

definition sample_created :: "command_created" where
  "sample_created =
    \<lparr>wcc_command = done_command, wcc_requested_worker_id = None, wcc_target_worker_id = (js ''w1''),
      wcc_target_worker_version = None, wcc_target_worker_changed = False,
      wcc_minimum_supported_worker_version = []\<rparr>"

definition sample_plan :: "node_plan" where
  "sample_plan =
    \<lparr>np_plan_id = [], np_server_id = [], np_mode = [], np_ready = True,
      np_will_install_xray = False, np_will_create_config = False, np_will_open_local_firewall = False,
      np_will_modify_cloud_security_group = False, np_listen_port = 0, np_protocol = [],
      np_security = [], np_flow = [], np_server_name = [], np_dest = [], np_fingerprint = [],
      np_key_generation_strategy = JNull, np_required_user_confirmations = [],
      np_preflight_summary = JNull, np_warnings = [], np_blocked_reasons = [],
      np_next_stage_required = [], np_execution_guard = [], np_safety_boundary = []\<rparr>"

definition sample_execution :: "node_created" where
  "sample_execution =
    \<lparr>nc_command_id = (js ''c1''), nc_command = done_command, nc_target_worker_id = (js ''w1''),
      nc_target_worker_version = None, nc_server_id = (js ''v1''), nc_approved_port = 27939, nc_status = [],
      nc_next_action = [], nc_safety_boundary = []\<rparr>"


lemma landing_samples_alive [simp]:
  "\<not> node_deleted (sample_landing_node i)" "\<not> server_deleted (sample_landing i ns)"
  using lower_active
  by (simp_all add: node_deleted_def server_deleted_def sample_landing_node_def sample_landing_def)

lemma sample_landing_simps [simp]:
  "sv_id (sample_landing i ns) = i" "sv_nodes (sample_landing i ns) = ns"
  "sv_worker_id (sample_landing i ns) = Some (js ''w1'')" "can_command (sample_landing i ns)"
  "sn_id (sample_landing_node n) = n" "sn_port (sample_landing_node n) = Some 27939"
  "sn_share_link_present (sample_landing_node n)"
  "(sample_landing i ns)\<lparr>sv_nodes := ms\<rparr> = sample_landing i ms"
  by (simp_all add: sample_landing_def sample_landing_node_def can_command_def)

lemma sample_answer_simps [simp]:
  "wc_id done_command = (js ''c1'')" "wc_status done_command = (js ''succeeded'')"
  "wcc_command sample_created = done_command" "np_ready sample_plan" "nc_command_id sample_execution = (js ''c1'')"
  by (simp_all add: done_command_def sample_created_def sample_plan_def sample_execution_def)

definition sample_landing_browser :: browser where
  "sample_landing_browser = sample_browser\<lparr>br_to_number := (\<lambda>s. if s = string_of_int 27939 then Some 27939 else None)\<rparr>"

text \<open>One server is loaded, its creation form opened and confirmed, and the creation started.\<close>

definition loaded_landing :: landing_panel where
  "loaded_landing = list_loaded [sample_landing (js ''v1'') []] [[]] landing_initial"

lemma landing_initial_pending [simp]:
  "la_pendingServers landing_initial = {}" "la_pendingNodes landing_initial = {}"
  by (simp_all add: landing_initial_def)

lemma visible_samples_landing [simp]:
  "la_pendingServers s = {} \<Longrightarrow> la_pendingNodes s = {} \<Longrightarrow>
     filterVisibleServers s [sample_landing i (map sample_landing_node ns)]
       = [sample_landing i (map sample_landing_node ns)]"
  by (induction ns) (simp_all add: filterVisibleServers_def visible_nodes_def)

lemma with_worker_samples [simp]:
  "la_pendingServers s = {} \<Longrightarrow> la_pendingNodes s = {} \<Longrightarrow>
     with_worker s [sample_landing i (map sample_landing_node ns)] = [sample_landing i (map sample_landing_node ns)]"
  by (simp add: with_worker_def)

lemma loaded_landing_reach: "landing_reach b (loaded_landing, [])"
proof -
  let ?a = "loadServers (\<lambda>svs. finished) unhandled"
  have "landing_reach b (?a landing_initial)"
    by (rule system_act [where may = "landing_may b" and s = landing_initial and a = ?a])
      (rule system_reach.initial landing_may.LandingRefresh refl)+
  moreover have "run_events (load_events [sample_landing (js ''v1'') []] [[]]) (?a landing_initial) = Some (loaded_landing, [])"
    using with_worker_samples [of landing_initial "(js ''v1'')" "[]"]
    by (subst run_loadServers) (simp_all add: loaded_landing_def finished_def)
  ultimately show ?thesis by (rule system_run)
qed

definition confirmed_landing :: landing_panel where
  "confirmed_landing =
     on_node_create (\<lambda>x. x\<lparr>ln_form := edit_node_plan_form (PlanConfirm True) (ln_form x)\<rparr>)
       (openNodePlan (sample_landing (js ''v1'') []) loaded_landing)"

lemma loaded_landing_simps [simp]:
  "la_servers loaded_landing = [sample_landing (js ''v1'') []]" "\<not> la_loading loaded_landing"
  "la_pendingServers loaded_landing = {}" "la_pendingNodes loaded_landing = {}"
  "\<not> la_submitting loaded_landing"
  using visible_samples_landing [of landing_initial "(js ''v1'')" "[]"]
  by (simp_all add: loaded_landing_def, simp_all add: list_loaded_def landing_initial_def)

lemma confirmed_landing_simps [simp]:
  "la_selectedServer confirmed_landing = Some (sample_landing (js ''v1'') [])"
  "la_modalMode confirmed_landing = Some NodePlanModal" "\<not> la_submitting confirmed_landing"
  "la_pendingServers confirmed_landing = {}" "la_pendingNodes confirmed_landing = {}"
  "la_servers confirmed_landing = [sample_landing (js ''v1'') []]"
  "ln_step (la_create confirmed_landing) = NodeIdle"
  "ln_form (la_create confirmed_landing) = createEmptyNodePlanForm\<lparr>nf_protectedCreateConfirmed := True\<rparr>"
  by (simp_all add: confirmed_landing_def openNodePlan_def on_node_create_def reset_node_create_def)

lemma confirmed_landing_guard:
  "node_create_guard sample_landing_browser (sample_landing (js ''v1'') []) (ln_form (la_create confirmed_landing)) = Inr 27939"
  using default_landing_port
  by (simp add: node_create_guard_def createEmptyNodePlanForm_def sample_landing_browser_def
      DEFAULT_LANDING_LISTEN_PORT_def landing_port_allowed_def not_less)

lemma confirmed_landing_reach: "landing_reach b (confirmed_landing, [])"
proof -
  let ?v = "sample_landing (js ''v1'') []"
  have "landing_reach b (openNodePlan ?v loaded_landing, [])"
    by (rule system_act [OF loaded_landing_reach landing_may.OpenNodePlan [of loaded_landing ?v]])
      (simp_all add: listed_server_def finished_def)
  then show ?thesis
    by (rule system_act [where may = "landing_may b", OF _ landing_may.NodePlanInput [of "openNodePlan ?v loaded_landing" _ "PlanConfirm True"]])
      (simp_all add: confirmed_landing_def finished_def, simp_all add: openNodePlan_def)
qed

definition creating_landing :: "landing_panel \<times> landing_panel task list" where
  "creating_landing = submitSimplifiedLandingNodeCreate sample_landing_browser confirmed_landing"

lemma creating_landing_reach: "landing_reach sample_landing_browser creating_landing"
  unfolding creating_landing_def
  by (rule system_act [OF confirmed_landing_reach landing_may.CreateNode])
    (simp_all add: createEmptyNodePlanForm_def)

definition creation_begun :: landing_panel where
  "creation_begun =
     notify (uni ''%u6B63%u5728%u81EA%u52A8%u6267%u884C%u9884%u68C0%u548C%u521B%u5EFA%u6D41%u7A0B%uFF1B%u5B8C%u6574%u94FE%u63A5%u53EA%u4F1A%u5728%u521B%u5EFA%u6210%u529F%u540E%u901A%u8FC7%u53D7%u63A7%u5BFC%u51FA%u663E%u793A%u3002'')
       (on_node_create (\<lambda>x. x\<lparr>ln_plan := None, ln_formal := None, ln_created := None,
            ln_command := None, ln_error := None\<rparr>) (confirmed_landing\<lparr>la_submitting := True\<rparr>))"

lemma creating_landing_is:
  "creating_landing = ensureCsrfToken_await
     (node_create_preflight (sample_landing (js ''v1'') []) (ln_form (la_create confirmed_landing)) 27939)
     node_create_failed creation_begun"
  unfolding creating_landing_def submitSimplifiedLandingNodeCreate_def confirmed_landing_simps(1) option.case
    Let_def confirmed_landing_guard sum.case creation_begun_def ..

lemma creating_landing_panel:
  "fst creating_landing = creation_begun" "la_submitting creation_begun"
  "la_servers creation_begun = [sample_landing (js ''v1'') []]"
  by (simp_all add: creating_landing_is ensureCsrfToken_await_def act_simps)
    (simp_all add: creation_begun_def notify_def on_node_create_def)

definition asking_landing :: "landing_panel \<times> landing_panel task list" where
  "asking_landing = node_create_preflight (sample_landing (js ''v1'') []) (ln_form (la_create confirmed_landing)) 27939
     (js ''token'') creation_begun"

lemma asking_landing_reach: "landing_reach sample_landing_browser asking_landing"
proof (rule system_run [OF creating_landing_reach])
  show "run_events [Reply 0 (RCsrf (Resolved (ApiSuccess (js ''token'') [])))] creating_landing = Some asking_landing"
    by (simp add: creating_landing_is run_csrf asking_landing_def)
qed

lemma asking_landing_asks:
  "\<exists>t \<in> set (snd asking_landing).
     Http (createWorkerCommand (js ''w1'') (landing_command_payload (js ''landing_preflight'') (sample_landing (js ''v1'') [])) (js ''token'')) \<in> asks t"
  by (simp add: asking_landing_def node_create_preflight_def act_simps)

subsection \<open>Properties of all runs\<close>

text \<open>
  C8 (type). In every reachable state: a dialog that needs a server or a node has
  one, and without a dialog nothing is selected; a heartbeat is waited for exactly when the context of
  its installation is known, and never for a server that is being deleted; and the list shows no server and no node that is
  deleted or being deleted.
\<close>

theorem landing_panel_well_formed:
  assumes "system_reach (landing_may b) landing_initial (s, ts)"
  shows "selection_fits (la_modalMode s) (la_selectedServer s) (la_selectedNode s)
    \<and> (li_pollServerId (la_install s) = None \<longleftrightarrow> li_pollContext (la_install s) = None)
    \<and> (case li_pollServerId (la_install s) of None \<Rightarrow> True | Some i \<Rightarrow> i \<notin> la_pendingServers s)
    \<and> list_all (\<lambda>sv. sv_id sv \<notin> la_pendingServers s \<and> \<not> server_deleted sv
        \<and> list_all (\<lambda>n. sn_id n \<notin> la_pendingNodes s \<and> \<not> node_deleted n) (sv_nodes sv)) (la_servers s)"
proof -
  have inv: "landing_inv empty_directory empty_directory s"
    using landing_reach_inv [OF assms] by (simp add: ok_def)
  then have servers: "landing_servers.implements empty_directory s"
    and nodes: "landing_nodes.implements empty_directory s"
    by (simp_all add: landing_inv_def)
  have "sn_id n \<notin> la_pendingNodes s \<and> \<not> node_deleted n" if "sv \<in> set (la_servers s)" "n \<in> set (sv_nodes sv)" for sv n
    using landing_nodes.implements_consistentD [OF nodes, of n] that nodes_of_listed [OF servers] by auto
  then show ?thesis
    using inv listed_servers_visible [OF servers]
    by (auto simp: landing_inv_def list_all_iff split: option.split)
qed

theorem landing_panel_well_formed_witness:
  "\<exists>s ts. landing_reach sample_landing_browser (s, ts) \<and> la_servers s = [sample_landing (js ''v1'') []]
     \<and> selection_fits (la_modalMode s) (la_selectedServer s) (la_selectedNode s)"
proof -
  obtain s ts where c: "creating_landing = (s, ts)" by fastforce
  have reach: "landing_reach sample_landing_browser (s, ts)" using creating_landing_reach c by simp
  have "s = creation_begun" using creating_landing_panel(1) by (metis c fst_conv)
  then have "la_servers s = [sample_landing (js ''v1'') []]" using creating_landing_panel(3) by simp
  then show ?thesis using reach landing_panel_well_formed [OF reach] by blast
qed



text \<open>
  C12 (liveness). In every reachable state, each flag that disables buttons (the
  submission, the command, plan, dry run and execution being created, the detail being read) belongs
  to a waiting task that can be resumed and that, however it is resumed, either lowers the flag or
  leaves such a task behind.
\<close>

theorem landing_flags_belong_to_requests:
  assumes "system_reach (landing_may b) landing_initial (s, ts)" and "raised g s"
  shows "\<exists>t \<in> set ts. frees (raised g) t"
proof -
  have "frees_after (raised g) (s, ts)"
    using assms(1)
  proof (rule system_frees)
    show "\<not> raised g landing_initial" by (cases g) (simp_all add: landing_initial_def)
    show "ok (\<lambda>s. \<not> raised g s) False (a s)" if "landing_may b s a" for s a
      by (rule landing_flag.ok_landing_action [OF that]) (simp_all add: landing_flag.raisable_def)
  qed (rule landing_frees)
  then show ?thesis using assms(2) by (simp add: frees_after_def)
qed

theorem landing_flags_belong_to_requests_witness:
  "raised Submitting (fst creating_landing)
   \<and> (\<exists>t \<in> set (snd creating_landing). frees (raised Submitting) t)"
proof -
  have "landing_reach sample_landing_browser (fst creating_landing, snd creating_landing)"
    using creating_landing_reach by simp
  moreover have raised: "raised Submitting (fst creating_landing)" by (simp add: creating_landing_panel)
  ultimately show ?thesis using landing_flags_belong_to_requests by blast
qed

text \<open>
  C3 (safety). In every reachable state, every request that waits for its answer
  either only reads or carries a CSRF token and a body that respects the rules of the forms: a BBR
  execution or a deletion carries its exact confirmation text, a Worker command is one of the two
  fixed ones, a node is planned and created only on an allowed port, with every confirmation given, no
  firewall change and no overwriting, and an installation command lives 1 to 10080 minutes.
\<close>

theorem landing_requests_are_guarded:
  assumes "system_reach (landing_may b) landing_initial (s, ts)" and "t \<in> set ts" and "Http q \<in> asks t"
  shows "guarded_request q"
proof -
  have "conducts (\<lambda>_ _. True) guarded_effects t"
    using landing_reach_guarded [OF assms(1)] assms(2) by (simp add: does_def)
  then show ?thesis using conducts_asks [of _ guarded_effects t] assms(3) by fastforce
qed

theorem landing_requests_are_guarded_witness:
  "guarded_request (createWorkerCommand (js ''w1'')
     (landing_command_payload (js ''landing_preflight'') (sample_landing (js ''v1'') [])) (js ''token''))"
proof -
  have "landing_reach sample_landing_browser (fst asking_landing, snd asking_landing)"
    using asking_landing_reach by simp
  then show ?thesis using asking_landing_asks landing_requests_are_guarded by blast
qed

subsection \<open>A creation that succeeds\<close>

text \<open>
  C23 (functional). A creation whose guards pass, whose preflight, plan and command succeed
  and whose node is in the reloaded list ends with the list reloaded, the created node on the step
  \<^verbatim>\<open>complete\<close>, the submission over and nothing left waiting.
\<close>

theorem node_creation_succeeds:
  assumes "la_selectedServer s = Some sv" and "node_create_guard b sv (ln_form (la_create s)) = Inr p"
    and "wc_id c1 = wc_id (wcc_command d)" and "wc_status c1 = (js ''succeeded'')" and "np_ready plan"
    and "wc_id c2 = nc_command_id x" and "wc_status c2 = (js ''succeeded'')"
    and "length css = length (with_worker s svs)"
    and "findCreatedNode (filterVisibleServers s svs) (sv_id sv) p = Some n"
  shows "\<exists>s'. run_events (node_creation_events d c1 plan x c2 svs css) (submitSimplifiedLandingNodeCreate b s)
      = Some (s', [])
    \<and> ln_created (la_create s') = Some n \<and> ln_step (la_create s') = NodeComplete
    \<and> \<not> la_submitting s' \<and> la_servers s' = filterVisibleServers s svs"
proof -
  let ?e = "execution_done sv d c1 plan x c2 s"
  have v: "filterVisibleServers ?e svs = filterVisibleServers s svs" by (rule visible_depends) simp_all
  then have css: "length css = length (with_worker ?e svs)" using assms(8) by (simp add: with_worker_def)
  have "run_events (node_creation_events d c1 plan x c2 svs css) (submitSimplifiedLandingNodeCreate b s)
      = run_events (load_events svs css) (node_create_refresh (sv_id sv) p
          (on_node_create (\<lambda>y. y\<lparr>ln_command := Some c2\<rparr>) (store_latest (sv_id sv) c2
             (store_list (nc_target_worker_id x) [c2] (store_latest (sv_id sv) (nc_command x)
               (on_node_create (\<lambda>y. y\<lparr>ln_formal := Some x\<rparr>) (on_step NodeCommandCreate
                 (on_node_create (\<lambda>y. y\<lparr>ln_plan := Some plan\<rparr>)
                   (on_step NodePlanStep (preflight_done sv d c1 s))))))))))"
    using assms(1-7)
    by (simp add: node_creation_events_def submitSimplifiedLandingNodeCreate_def run_csrf
        node_create_preflight_def run_throwing run_landing_wait node_create_plan_def node_create_execute_def
        preflight_done_def)
  also have "\<dots> = Some (end_landing_submit (notify (uni ''%u76F4%u8FDE%u8282%u70B9%u521B%u5EFA%u5B8C%u6210%u3002%u53EF%u4EE5%u590D%u5236%u5BA2%u6237%u7AEF%u94FE%u63A5%u6216%u4E34%u65F6%u663E%u793A%u4E8C%u7EF4%u7801%u3002'')
      (on_node_create (\<lambda>y. y\<lparr>ln_created := Some n, ln_step := NodeComplete\<rparr>) (list_loaded svs css ?e))))"
    unfolding node_create_refresh_def execution_done_def [symmetric]
    by (subst run_loadServers [OF css]) (simp add: v assms(9))
  finally show ?thesis
    by (simp add: end_landing_submit_def finished_def notify_def on_node_create_def v)
qed

theorem node_creation_succeeds_witness:
  "\<exists>s'. run_events (node_creation_events sample_created done_command sample_plan sample_execution done_command
        [sample_landing (js ''v1'') [sample_landing_node (js ''n1'')]] [[]])
      (submitSimplifiedLandingNodeCreate sample_landing_browser confirmed_landing) = Some (s', [])
    \<and> ln_created (la_create s') = Some (sample_landing_node (js ''n1'')) \<and> ln_step (la_create s') = NodeComplete"
proof -
  have visible: "filterVisibleServers confirmed_landing [sample_landing (js ''v1'') [sample_landing_node (js ''n1'')]]
      = [sample_landing (js ''v1'') [sample_landing_node (js ''n1'')]]"
    "with_worker confirmed_landing [sample_landing (js ''v1'') [sample_landing_node (js ''n1'')]]
      = [sample_landing (js ''v1'') [sample_landing_node (js ''n1'')]]"
    using visible_samples_landing [of confirmed_landing "(js ''v1'')" "[(js ''n1'')]"]
      with_worker_samples [of confirmed_landing "(js ''v1'')" "[(js ''n1'')]"] by simp_all
  show ?thesis
    using node_creation_succeeds [OF confirmed_landing_simps(1) confirmed_landing_guard,
        of done_command sample_created sample_plan done_command sample_execution "[[]]"
          "[sample_landing (js ''v1'') [sample_landing_node (js ''n1'')]]" "sample_landing_node (js ''n1'')"] visible
    by (auto simp: findCreatedNode_def find_opt_def)
qed

end
