(* ===== verification/LandingLinks.thy ===== *)
theory LandingLinks
  imports LandingRuns
begin

text \<open>
  What becomes of the client links and of open forms in the landing server panel: the text that a
  copy reaches, the node under which an export arrives, and the timer that closes dialogs.
\<close>

subsection \<open>A copy without the clipboard\<close>

lemma on_detail_simps [simp]:
  "la_detail (on_detail f s) = f (la_detail s)" "la_execCopies (on_detail f s) = la_execCopies s"
  "la_message (on_detail f s) = la_message s" "la_pasteboard (on_detail f s) = la_pasteboard s"
  "la_willConfirm (on_detail f s) = la_willConfirm s"
  by (simp_all add: on_detail_def)

lemma notify_keeps [simp]:
  "la_detail (notify m s) = la_detail s" "la_pasteboard (notify m s) = la_pasteboard s"
  "la_message (notify m s) = m" "la_willConfirm (notify m s) = la_willConfirm s"
  by (simp_all add: notify_def)

definition export_events :: "share_link_export \<Rightarrow> event list" where
  "export_events d = [Reply 0 (RCsrf (Resolved (ApiSuccess (js ''token'') []))),
     Reply 0 (RShareLink (Resolved (ApiSuccess d [])))]"

text \<open>
  C25 (functional). Without the clipboard interface, the copy button of the detail dialog
  reports that the client link has been copied, but the text it has copied is the one the box showed
  before the link arrived: the masked link.
\<close>

theorem copied_link_is_masked:
  assumes "\<not> br_clipboard b" and "la_willConfirm s" and "la_execCopies s"
    and "ld_node (la_detail s) = Some n" and "share_link_of s = []"
  shows "\<exists>s'. run_events (export_events d)
        (exportSelectedNodeShareLink b (nd_id n) (js ''client_import'') True False False finished unhandled s) = Some (s', [])
     \<and> la_message s' = (uni ''%u5BA2%u6237%u7AEF%u94FE%u63A5%u5DF2%u590D%u5236%u5230%u526A%u8D34%u677F%uFF0C%u8BF7%u59A5%u5584%u4FDD%u5B58%uFF0C%u4E0D%u8981%u516C%u5F00%u5206%u4EAB%u3002'')
     \<and> la_pasteboard s' = Some (nullish (nd_masked_share_link n) [])
     \<and> ld_exported (la_detail s') = Some (sl_share_link d)"
  using assms
  by (simp add: export_events_def exportSelectedNodeShareLink_def run_csrf run_fetch Let_def
      copyTextWithFallback_def select_and_copy_def share_link_box_def finished_def)

definition reading_node :: "node_data \<Rightarrow> landing_panel" where
  "reading_node n = show_detail n (landing_initial\<lparr>la_willConfirm := True, la_execCopies := True\<rparr>)"

lemma reading_node_simps [simp]:
  "la_willConfirm (reading_node n)" "la_execCopies (reading_node n)"
  "ld_node (la_detail (reading_node n)) = Some n" "share_link_of (reading_node n) = []"
  by (simp_all add: reading_node_def show_detail_def share_link_of_def)

definition sample_link :: share_link_export where
  "sample_link = \<lparr>sl_node_id = (js ''n1''), sl_node_name = (js ''landing''), sl_share_link = (js ''vless://secret@203.0.113.9''),
     sl_warning = []\<rparr>"

definition masked_node :: node_data where
  "masked_node = sample_node\<lparr>nd_masked_share_link := Some (js ''vless://***'')\<rparr>"

theorem copied_link_is_masked_witness:
  "\<exists>s'. run_events (export_events sample_link)
        (exportSelectedNodeShareLink (sample_browser\<lparr>br_clipboard := False\<rparr>) (nd_id masked_node)
          (js ''client_import'') True False False finished unhandled (reading_node masked_node)) = Some (s', [])
     \<and> la_pasteboard s' = Some (js ''vless://***'')
     \<and> ld_exported (la_detail s') = Some (js ''vless://secret@203.0.113.9'')"
  using copied_link_is_masked [of "sample_browser\<lparr>br_clipboard := False\<rparr>" "reading_node masked_node"
      masked_node sample_link]
  by (auto simp: sample_link_def masked_node_def)

subsection \<open>An export that arrives under another node\<close>

text \<open>
  The link of node \<open>n\<close> is asked for, its dialog closed and the details of another node opened
  before the link arrives: started handlers leave their tasks behind, as in \<open>system_reach\<close>.
\<close>

definition and_then :: "landing_panel act \<Rightarrow> landing_panel \<times> landing_panel task list \<Rightarrow> landing_panel \<times> landing_panel task list" where
  "and_then a c = (fst (a (fst c)), snd c @ snd (a (fst c)))"

text \<open>
  C26 (functional). A client link that arrives after the details of another node
  have been opened is shown as that node's: its QR code is on the page, and downloading it saves the
  first node's link under the second node's name.
\<close>

theorem export_lands_under_another_node:
  assumes "la_willConfirm s" and "share_link_of s = []"
  shows "\<exists>c s'. perform (Reply 0 (RCsrf (Resolved (ApiSuccess (js ''token'') [])))) (toggle_qr b n s) = Some c
     \<and> run_events [Reply 1 (RNode (Resolved (ApiSuccess other []))), Reply 0 (RShareLink (Resolved (ApiSuccess d [])))]
         (and_then (openNodeDetail b shown False) (and_then (\<lambda>s. finished (closeNodeDetail s)) c)) = Some (s', [])
     \<and> (sl_share_link d \<noteq> [] \<longrightarrow> qr_code_shown s' = Some (sl_share_link d)
        \<and> fst (downloadNodeQrCode s') =
            Some (or_str (nd_node_name other) (js ''liveline-node'') @ (js ''-qr.svg''), sl_share_link d))"
proof -
  let ?k = "\<lambda>r. case r of
      ApiFailure e m u \<Rightarrow> (\<lambda>s. finished (notify (api_error_text e m) s))
    | ApiSuccess d m \<Rightarrow> (\<lambda>s. finished (notify (uni ''%u8282%u70B9%u94FE%u63A5%u5DF2%u4E34%u65F6%u5BFC%u51FA%uFF0C%u8BF7%u52FF%u516C%u5F00%u5206%u4EAB%u3002'')
        (on_detail (\<lambda>x. x\<lparr>ld_exported := Some (sl_share_link d), ld_showFull := False, ld_showQr := True\<rparr>) s)))"
  let ?c = "fetch (exportNodeShareLink (nd_id n) (js ''token'') (js ''qr_code'')) as_share_link ?k unhandled s"
  let ?t = "notify (uni ''%u6B63%u5728%u8BFB%u53D6%u8282%u70B9%u8BE6%u60C5%u3002'') (closeNodeDetail s)"
  have c: "perform (Reply 0 (RCsrf (Resolved (ApiSuccess (js ''token'') [])))) (toggle_qr b n s) = Some ?c"
    using assms by (simp add: toggle_qr_def exportSelectedNodeShareLink_def run_csrf Let_def cong: if_cong)
  let ?s1 = "notify (uni ''%u8282%u70B9%u8BE6%u60C5%u5DF2%u8BFB%u53D6%u3002%u5B8C%u6574%u5206%u4EAB%u94FE%u63A5%u9ED8%u8BA4%u9690%u85CF%u3002'') (show_detail other
      (on_detail (\<lambda>x. x\<lparr>ld_loading := False\<rparr>) (on_detail (\<lambda>x. x\<lparr>ld_loading := True\<rparr>) ?t)))"
  let ?s2 = "notify (uni ''%u8282%u70B9%u94FE%u63A5%u5DF2%u4E34%u65F6%u5BFC%u51FA%uFF0C%u8BF7%u52FF%u516C%u5F00%u5206%u4EAB%u3002'') (on_detail (\<lambda>x. x\<lparr>ld_exported := Some (sl_share_link d),
      ld_showFull := False, ld_showQr := True\<rparr>) ?s1)"
  have "run_events [Reply 1 (RNode (Resolved (ApiSuccess other []))), Reply 0 (RShareLink (Resolved (ApiSuccess d [])))]
      (and_then (openNodeDetail b shown False) (and_then (\<lambda>s. finished (closeNodeDetail s)) ?c)) = Some (?s2, [])"
    by (simp add: and_then_def act_simps openNodeDetail_def fetchNodeDetail_def perform_def Let_def)
  moreover have "sl_share_link d \<noteq> [] \<longrightarrow> qr_code_shown ?s2 = Some (sl_share_link d)
      \<and> fst (downloadNodeQrCode ?s2) = Some (or_str (nd_node_name other) (js ''liveline-node'') @ (js ''-qr.svg''), sl_share_link d)"
    by (simp add: downloadNodeQrCode_def qr_code_shown_def share_link_of_def show_detail_def)
  ultimately show ?thesis using c by blast
qed

theorem export_lands_under_another_node_witness:
  "\<exists>c s'. perform (Reply 0 (RCsrf (Resolved (ApiSuccess (js ''token'') [])))) (toggle_qr sample_browser masked_node (reading_node masked_node)) = Some c
     \<and> run_events [Reply 1 (RNode (Resolved (ApiSuccess (sample_node\<lparr>nd_node_name := (js ''other'')\<rparr>) []))),
           Reply 0 (RShareLink (Resolved (ApiSuccess sample_link [])))]
         (and_then (openNodeDetail sample_browser (sample_landing_node (js ''n2'')) False)
           (and_then (\<lambda>s. finished (closeNodeDetail s)) c)) = Some (s', [])
     \<and> fst (downloadNodeQrCode s') = Some ((js ''other'') @ (js ''-qr.svg''), (js ''vless://secret@203.0.113.9''))"
proof -
  have link: "sl_share_link sample_link = (js ''vless://secret@203.0.113.9'')" "sl_share_link sample_link \<noteq> []"
    and name: "or_str (nd_node_name (sample_node\<lparr>nd_node_name := (js ''other'')\<rparr>)) (js ''liveline-node'') = (js ''other'')"
    by (simp_all add: sample_link_def or_str_def)
  show ?thesis
    using export_lands_under_another_node [of "reading_node masked_node" sample_browser masked_node
        "sample_node\<lparr>nd_node_name := (js ''other'')\<rparr>" sample_link "sample_landing_node (js ''n2'')"] link name
    by fastforce
qed

subsection \<open>The timer that closes dialogs\<close>

definition fresh_timers :: "landing_panel \<Rightarrow> bool" where
  "fresh_timers s \<longleftrightarrow> la_nextTimer s \<notin> la_cleared s \<and> li_pollTimeout (la_install s) \<noteq> Some (la_nextTimer s)
     \<and> li_autoCloseTimeout (la_install s) \<noteq> Some (la_nextTimer s)"

lemma worker_came_closes:
  assumes "fresh_timers s"
  shows "\<exists>s'. perform (Fire 0) (worker_came hb m s) = Some (s', [])
    \<and> la_modalMode s' = None \<and> la_serverForm s' = emptyServerForm \<and> la_selectedServer s' = None"
  using assms
  by (auto simp: worker_came_def scheduleWorkerInstallAutoClose_landing_def Let_def perform_def finished_def
      fresh_timers_def timer_alive_def clearWorkerInstallAutoClose_landing_def clear_timer_def on_install_def
      notify_def heartbeat_says_def clearWorkerInstallPolling_landing_def closeModal_landing_def
      on_node_create_def split: option.splits)


definition polling_while_editing :: landing_panel where
  "polling_while_editing =
     on_install (\<lambda>x. x\<lparr>li_pollServerId := Some (js ''v1''), li_pollContext := Some \<lparr>ix_mode = InstallWorker,
         ix_targetWorkerVersion = [], ix_generatedAt = [], ix_interfaceName = (js ''eth0'')\<rparr>\<rparr>)
       (openEdit_landing (sample_landing (js ''v2'') []) landing_initial)"


subsection \<open>A timeout is reported as an absent Worker\<close>

lemma timeout_is_friendly:
  "friendlyNodeCreateError (Some landing_wait_timeout) = (uni ''Worker %u4E0D%u5728%u7EBF%u6216%u7248%u672C%u4E0D%u6EE1%u8DB3%uFF0C%u8BF7%u68C0%u67E5%u843D%u5730%u670D%u52A1%u5668 Worker %u72B6%u6001%u3002'')"
  by (simp add: friendlyNodeCreateError_def landing_wait_timeout_def error_text_def contains_any_def js_def text_simps)



end
