(* ===== verification/ProductModals.thy ===== *)
theory ProductModals
  imports TransitHelpers
begin

text \<open>
  The dialogs of \<^verbatim>\<open>ProductDemoModals.tsx\<close>, which the pages \<^verbatim>\<open>LineBuilderPanel\<close> and
  \<^verbatim>\<open>ServerResourcesPanel\<close> share: adding a landing or a transit server, creating a direct node,
  and the demonstration of a transit line.

  A handler of a dialog reads the state of the dialog when it starts (\<open>x\<close>) and changes it through
  \<open>upd\<close>, which the page provides: an update of a dialog that is no longer mounted has no
  effect. \<open>completed\<close> is the \<^verbatim>\<open>onCompleted\<close> that the page passes, with its continuations.
\<close>

subsection \<open>Helpers\<close>

record step_definition =
  st_label :: jsstr
  st_detail :: jsstr

definition serverSteps :: "step_definition list" where
  "serverSteps =
     [\<lparr>st_label = (uni ''%u586B%u5199%u4FE1%u606F''), st_detail = (uni ''%u5F55%u5165%u670D%u52A1%u5668%u57FA%u7840%u4FE1%u606F'')\<rparr>,
      \<lparr>st_label = (uni ''%u5B89%u88C5%u52A9%u624B''), st_detail = (uni ''%u751F%u6210%u5B89%u88C5%u52A9%u624B%u547D%u4EE4'')\<rparr>,
      \<lparr>st_label = (uni ''%u7B49%u5F85%u4E0A%u7EBF''), st_detail = (uni ''%u7B49%u5F85%u670D%u52A1%u5668%u52A9%u624B%u5FC3%u8DF3'')\<rparr>,
      \<lparr>st_label = (uni ''%u5B8C%u6210''), st_detail = (uni ''%u5B8C%u6210%u63A5%u5165%u786E%u8BA4'')\<rparr>]"

definition transitLineSteps :: "step_definition list" where
  "transitLineSteps =
     [\<lparr>st_label = (uni ''%u9009%u62E9%u4E2D%u8F6C%u670D%u52A1%u5668''), st_detail = (uni ''%u9009%u62E9%u5BA2%u6237%u8FDE%u63A5%u5165%u53E3'')\<rparr>,
      \<lparr>st_label = (uni ''%u9009%u62E9%u843D%u5730%u8282%u70B9''), st_detail = (uni ''%u9009%u62E9%u6700%u7EC8%u51FA%u53E3%u8282%u70B9'')\<rparr>,
      \<lparr>st_label = (uni ''%u8BBE%u7F6E%u5BA2%u6237%u8FDE%u63A5%u7AEF%u53E3''), st_detail = (uni ''%u586B%u5199%u5BA2%u6237%u4F7F%u7528%u7684%u7AEF%u53E3'')\<rparr>,
      \<lparr>st_label = (uni ''%u7AEF%u53E3%u653E%u884C''), st_detail = (uni ''%u4EBA%u5DE5%u786E%u8BA4%u9632%u706B%u5899%u653E%u884C'')\<rparr>,
      \<lparr>st_label = (uni ''%u521B%u5EFA%u5B8C%u6210''), st_detail = (uni ''%u5B8C%u6210%u672C%u9875%u5C55%u793A'')\<rparr>]"

definition directNodeSteps :: "step_definition list" where
  "directNodeSteps =
     [\<lparr>st_label = (uni ''%u9009%u62E9%u670D%u52A1%u5668''), st_detail = (uni ''%u9009%u62E9%u5728%u7EBF%u843D%u5730 Worker'')\<rparr>,
      \<lparr>st_label = (uni ''%u586B%u5199%u8282%u70B9%u53C2%u6570''), st_detail = (uni ''%u586B%u5199%u7AEF%u53E3%u548C Reality %u53C2%u6570'')\<rparr>,
      \<lparr>st_label = (uni ''%u521B%u5EFA%u8BA1%u5212''), st_detail = (uni ''%u751F%u6210%u53D7%u4FDD%u62A4%u8BA1%u5212'')\<rparr>,
      \<lparr>st_label = (uni ''%u5B89%u5168%u786E%u8BA4''), st_detail = (uni ''%u786E%u8BA4%u7AEF%u53E3%u548C%u98CE%u9669'')\<rparr>,
      \<lparr>st_label = (uni ''%u521B%u5EFA%u547D%u4EE4''), st_detail = (uni ''%u521B%u5EFA Worker command'')\<rparr>,
      \<lparr>st_label = (uni ''%u7B49%u5F85%u6267%u884C''), st_detail = (uni ''%u7B49%u5F85 Worker %u8F6E%u8BE2%u6267%u884C'')\<rparr>]"

text \<open>Per step: its number, its texts, and whether it has been reached.\<close>

definition ProductSteps :: "nat \<Rightarrow> step_definition list \<Rightarrow> (nat \<times> step_definition \<times> bool) list" where
  "ProductSteps activeStep steps =
     map (\<lambda>(i, st). (i + 1, st, i \<le> activeStep)) (List.enumerate 0 steps)"

definition bootstrapExpiryOptions :: "int list" where
  "bootstrapExpiryOptions = [30, 60, 120, 1440]"

definition formatExpiresAt :: "(jsstr \<Rightarrow> jsstr) \<Rightarrow> jsstr option \<Rightarrow> jsstr" where
  "formatExpiresAt to_locale v = (if blank v then (uni ''%u672A%u8FD4%u56DE'') else to_locale (the v))"

definition endpoint :: "jsstr option \<Rightarrow> int option \<Rightarrow> jsstr" where
  "endpoint host port =
     (if blank host then (uni ''%u672A%u8FD4%u56DE'')
      else case port of
        None \<Rightarrow> the host
      | Some p \<Rightarrow> if p = 0 then the host else the host @ (js '':'') @ string_of_int p)"

text \<open>\<open>k False\<close> when there is no clipboard, \<open>k True\<close> when the text has been written.\<close>

definition copyText_modal ::
  "browser \<Rightarrow> jsstr \<Rightarrow> (bool \<Rightarrow> 's act) \<Rightarrow> (jsstr option \<Rightarrow> 's act) \<Rightarrow> 's act" where
  "copyText_modal b v k h =
     (if \<not> br_clipboard b then k False
      else call (Clipboard v) as_clipboard
             (\<lambda>x. case x of Resolved u \<Rightarrow> k True | Rejected e \<Rightarrow> h e))"

definition fetchCsrfToken :: "(jsstr option \<Rightarrow> 's act) \<Rightarrow> (jsstr option \<Rightarrow> 's act) \<Rightarrow> 's act" where
  "fetchCsrfToken k h =
     fetch (get_request (js ''/api/auth/csrf'')) as_csrf
       (\<lambda>csrf. case csrf of ApiSuccess token m \<Rightarrow> k (Some token) | ApiFailure c m d \<Rightarrow> k None)
       h"

subsection \<open>Adding a server\<close>

text \<open>
  \<^verbatim>\<open>AddLandingServerModal\<close> and \<^verbatim>\<open>AddTransitServerModal\<close> are the same component with
  other texts, another request and another kind of answer.
\<close>

record 'r add_state =
  as_step :: nat
  as_name :: jsstr
  as_ip :: jsstr
  as_interfaceName :: jsstr
  as_expiresInMinutes :: int
  as_submitting :: bool
  as_message :: jsstr
  as_bootstrapResult :: "'r option"
  as_copied :: bool

record add_texts =
  at_start :: jsstr
  at_missing :: jsstr
  at_sending :: jsstr
  at_ready :: jsstr
  at_copied :: jsstr

definition landing_texts :: add_texts where
  "landing_texts =
     \<lparr>at_start = (uni ''%u586B%u5199%u4FE1%u606F%u540E%u751F%u6210%u4E00%u6B21%u6027 Worker %u5B89%u88C5%u547D%u4EE4%u3002''),
      at_missing = (uni ''%u8BF7%u586B%u5199%u670D%u52A1%u5668%u540D%u79F0%u3001%u516C%u7F51 IP %u548C%u7F51%u5361%u540D%u3002''),
      at_sending = (uni ''%u6B63%u5728%u751F%u6210%u843D%u5730%u670D%u52A1%u5668%u5B89%u88C5%u547D%u4EE4%u3002''),
      at_ready = (uni ''%u5B89%u88C5%u547D%u4EE4%u5DF2%u751F%u6210%uFF0C%u8BF7%u590D%u5236%u5230%u5BF9%u5E94%u843D%u5730 VPS %u624B%u52A8%u6267%u884C%u3002''),
      at_copied = (uni ''%u5B89%u88C5%u547D%u4EE4%u5DF2%u590D%u5236%uFF0C%u8BF7%u7ACB%u5373%u5728%u5BF9%u5E94%u843D%u5730 VPS %u624B%u52A8%u6267%u884C%u3002'')\<rparr>"

definition transit_texts :: add_texts where
  "transit_texts =
     \<lparr>at_start = (uni ''%u586B%u5199%u4FE1%u606F%u540E%u751F%u6210%u4E00%u6B21%u6027%u4E2D%u8F6C Worker %u5B89%u88C5%u547D%u4EE4%u3002''),
      at_missing = (uni ''%u8BF7%u586B%u5199%u4E2D%u8F6C%u670D%u52A1%u5668%u540D%u79F0%u3001%u516C%u7F51 IP %u548C%u7F51%u5361%u540D%u3002''),
      at_sending = (uni ''%u6B63%u5728%u751F%u6210%u4E2D%u8F6C%u670D%u52A1%u5668%u5B89%u88C5%u547D%u4EE4%u3002''),
      at_ready = (uni ''%u5B89%u88C5%u547D%u4EE4%u5DF2%u751F%u6210%uFF0C%u8BF7%u590D%u5236%u5230%u5BF9%u5E94%u4E2D%u8F6C VPS %u624B%u52A8%u6267%u884C%u3002''),
      at_copied = (uni ''%u5B89%u88C5%u547D%u4EE4%u5DF2%u590D%u5236%uFF0C%u8BF7%u7ACB%u5373%u5728%u5BF9%u5E94%u4E2D%u8F6C VPS %u624B%u52A8%u6267%u884C%u3002'')\<rparr>"

definition add_initial :: "add_texts \<Rightarrow> 'r add_state" where
  "add_initial T =
     \<lparr>as_step = 0, as_name = [], as_ip = [], as_interfaceName = (js ''ens17''), as_expiresInMinutes = 60,
      as_submitting = False, as_message = at_start T, as_bootstrapResult = None, as_copied = False\<rparr>"

definition add_says :: "jsstr \<Rightarrow> 'r add_state \<Rightarrow> 'r add_state" where
  "add_says m x = x\<lparr>as_message := m\<rparr>"

definition resetForm_add :: "add_texts \<Rightarrow> 'r add_state \<Rightarrow> 'r add_state" where
  "resetForm_add T x =
     x\<lparr>as_step := 0, as_bootstrapResult := None, as_copied := False, as_message := at_start T\<rparr>"

datatype add_edit = AddName jsstr | AddIp jsstr | AddInterface jsstr | AddExpiry int

fun edit_add :: "add_edit \<Rightarrow> 'r add_state \<Rightarrow> 'r add_state" where
  "edit_add (AddName v) x = x\<lparr>as_name := v\<rparr>"
| "edit_add (AddIp v) x = x\<lparr>as_ip := v\<rparr>"
| "edit_add (AddInterface v) x = x\<lparr>as_interfaceName := v\<rparr>"
| "edit_add (AddExpiry n) x = x\<lparr>as_expiresInMinutes := n\<rparr>"

definition handleSubmit_add ::
  "add_texts \<Rightarrow> (jsstr \<Rightarrow> jsstr \<Rightarrow> jsstr \<Rightarrow> int \<Rightarrow> jsstr \<Rightarrow> api_request)
   \<Rightarrow> (reply_value \<Rightarrow> 'r api_response settled option)
   \<Rightarrow> (('r add_state \<Rightarrow> 'r add_state) \<Rightarrow> 's \<Rightarrow> 's)
   \<Rightarrow> ('s act \<Rightarrow> (jsstr option \<Rightarrow> 's act) \<Rightarrow> 's act) \<Rightarrow> 'r add_state \<Rightarrow> 's act" where
  "handleSubmit_add T request as upd completed x s =
     (let nextName = trim (as_name x);
          nextIp = trim (as_ip x);
          nextInterfaceName = trim (as_interfaceName x)
      in if nextName = [] \<or> nextIp = [] \<or> nextInterfaceName = []
         then finished (upd (add_says (at_missing T)) s)
         else
           (let end = (\<lambda>s. finished (upd (\<lambda>x. x\<lparr>as_submitting := False\<rparr>) s));
                caught = (\<lambda>e s. end (upd (add_says (error_text e (uni ''%u751F%u6210%u5B89%u88C5%u547D%u4EE4%u5931%u8D25%u3002''))) s))
            in fetchCsrfToken
                 (\<lambda>csrfToken.
                    if blank csrfToken then
                      (\<lambda>s. end (upd (add_says (uni ''%u767B%u5F55%u72B6%u6001%u6216%u5B89%u5168%u6821%u9A8C%u5931%u8D25%uFF0C%u8BF7%u5237%u65B0%u540E%u91CD%u8BD5%u3002'')) s))
                    else
                      fetch (request nextName nextIp nextInterfaceName (as_expiresInMinutes x) (the csrfToken)) as
                        (\<lambda>result. case result of
                           ApiFailure c m d \<Rightarrow>
                             (\<lambda>s. end (upd (add_says (or_str m (uni ''%u751F%u6210%u5B89%u88C5%u547D%u4EE4%u5931%u8D25%u3002''))) s))
                         | ApiSuccess r m \<Rightarrow>
                             (\<lambda>s. completed end caught
                                (upd (\<lambda>x. x\<lparr>as_bootstrapResult := Some r, as_step := 1,
                                        as_message := at_ready T\<rparr>) s)))
                        caught)
                 caught
                 (upd (\<lambda>x. x\<lparr>as_submitting := True, as_copied := False, as_message := at_sending T\<rparr>) s)))"

definition handleCopyCommand_add ::
  "add_texts \<Rightarrow> browser \<Rightarrow> ('r \<Rightarrow> jsstr) \<Rightarrow> (('r add_state \<Rightarrow> 'r add_state) \<Rightarrow> 's \<Rightarrow> 's)
   \<Rightarrow> 'r add_state \<Rightarrow> 's act" where
  "handleCopyCommand_add T b install_command upd x s =
     (case as_bootstrapResult x of
        None \<Rightarrow> finished (upd (add_says (uni ''%u8BF7%u5148%u751F%u6210%u5B89%u88C5%u547D%u4EE4%u3002'')) s)
      | Some r \<Rightarrow>
          if install_command r = [] then finished (upd (add_says (uni ''%u8BF7%u5148%u751F%u6210%u5B89%u88C5%u547D%u4EE4%u3002'')) s)
          else
            copyText_modal b (install_command r)
              (\<lambda>copied s. finished (upd (\<lambda>x. x\<lparr>as_copied := copied, as_step := 2,
                 as_message := (if copied then at_copied T else (uni ''%u6D4F%u89C8%u5668%u672A%u5141%u8BB8%u81EA%u52A8%u590D%u5236%uFF0C%u8BF7%u624B%u52A8%u9009%u62E9%u547D%u4EE4%u590D%u5236%u3002''))\<rparr>) s))
              (\<lambda>e s. finished (upd (\<lambda>x. x\<lparr>as_copied := False, as_message := (uni ''%u590D%u5236%u5931%u8D25%uFF0C%u8BF7%u624B%u52A8%u9009%u62E9%u547D%u4EE4%u590D%u5236%u3002'')\<rparr>) s))
              s)"

text \<open>What the command panel shows: the host, the name and the note beside the copy button.\<close>

definition landing_bootstrap_request :: "jsstr \<Rightarrow> jsstr \<Rightarrow> jsstr \<Rightarrow> int \<Rightarrow> jsstr \<Rightarrow> api_request" where
  "landing_bootstrap_request name ip interfaceName minutes csrfToken =
     createVpsWorkerBootstrap (json_vps_bootstrap_request
       \<lparr>vbq_name = name, vbq_ip = ip, vbq_expires_in_minutes = Some minutes,
        vbq_interface_name = Some interfaceName\<rparr>) csrfToken"

definition transit_bootstrap_request_of :: "jsstr \<Rightarrow> jsstr \<Rightarrow> jsstr \<Rightarrow> int \<Rightarrow> jsstr \<Rightarrow> api_request" where
  "transit_bootstrap_request_of name ip interfaceName minutes csrfToken =
     createTransitWorkerBootstrap (json_transit_bootstrap_request
       \<lparr>tbq_name = name, tbq_ip = ip, tbq_expires_in_minutes = Some minutes,
        tbq_interface_name = Some interfaceName\<rparr>) csrfToken"

definition bootstrap_note :: "'r add_state \<Rightarrow> jsstr" where
  "bootstrap_note x = (if as_copied x then (uni ''%u5DF2%u590D%u5236%u3002%u8BF7%u52FF%u628A%u547D%u4EE4%u5199%u5165%u6587%u6863%u3001%u65E5%u5FD7%u6216 Git%u3002'') else as_message x)"

definition bootstrap_host :: "transit_bootstrap add_state \<Rightarrow> jsstr" where
  "bootstrap_host x =
     (case as_bootstrapResult x of
        None \<Rightarrow> []
      | Some r \<Rightarrow> nullish (tr_entry_host (tb_resource r)) (as_ip x))"

subsection \<open>The demonstration of a transit line\<close>

datatype entry_mode = SelfMode | ProviderMode

record line_checks =
  lk_cloudSecurityGroup :: bool
  lk_cloudFirewall :: bool
  lk_serverFirewall :: bool

record line_state =
  ls_step :: nat
  ls_lineMode :: entry_mode
  ls_selectedResourceId :: jsstr
  ls_selectedNodeId :: jsstr
  ls_port :: jsstr
  ls_checks :: line_checks

definition line_initial :: "transit_resource_data list \<Rightarrow> node_data list \<Rightarrow> line_state" where
  "line_initial resources nodes =
     \<lparr>ls_step = 0, ls_lineMode = SelfMode, ls_selectedResourceId = first_id tr_id resources,
      ls_selectedNodeId = first_id nd_id nodes, ls_port = (js ''29833''),
      ls_checks = \<lparr>lk_cloudSecurityGroup = False, lk_cloudFirewall = False, lk_serverFirewall = False\<rparr>\<rparr>"

datatype line_edit =
    LineMode entry_mode | LineResource jsstr | LineNode jsstr | LinePort jsstr
  | LineSecurityGroup bool | LineFirewall bool | LineServerFirewall bool
  | LineBack | LineForward | LineDone

fun edit_line :: "line_edit \<Rightarrow> line_state \<Rightarrow> line_state" where
  "edit_line (LineMode m) x = x\<lparr>ls_lineMode := m\<rparr>"
| "edit_line (LineResource i) x = x\<lparr>ls_selectedResourceId := i\<rparr>"
| "edit_line (LineNode i) x = x\<lparr>ls_selectedNodeId := i\<rparr>"
| "edit_line (LinePort v) x = x\<lparr>ls_port := v\<rparr>"
| "edit_line (LineSecurityGroup v) x = x\<lparr>ls_checks := (ls_checks x)\<lparr>lk_cloudSecurityGroup := v\<rparr>\<rparr>"
| "edit_line (LineFirewall v) x = x\<lparr>ls_checks := (ls_checks x)\<lparr>lk_cloudFirewall := v\<rparr>\<rparr>"
| "edit_line (LineServerFirewall v) x = x\<lparr>ls_checks := (ls_checks x)\<lparr>lk_serverFirewall := v\<rparr>\<rparr>"
| "edit_line LineBack x = x\<lparr>ls_step := ls_step x - 1\<rparr>"
| "edit_line LineForward x = x\<lparr>ls_step := min (ls_step x + 1) (length transitLineSteps - 1)\<rparr>"
| "edit_line LineDone x = x\<lparr>ls_step := length transitLineSteps - 1\<rparr>"

text \<open>Whether the button that ends the demonstration is enabled, and the texts of the preview.\<close>

definition line_done_enabled :: "line_state \<Rightarrow> bool" where
  "line_done_enabled x \<longleftrightarrow> ls_lineMode x \<noteq> ProviderMode \<and> length transitLineSteps - 2 \<le> ls_step x"

definition selected_or_first :: "('a \<Rightarrow> jsstr) \<Rightarrow> jsstr \<Rightarrow> 'a list \<Rightarrow> 'a option" where
  "selected_or_first ident i xs =
     (case find_opt (\<lambda>x. ident x = i) xs of
        Some x \<Rightarrow> Some x
      | None \<Rightarrow> (case xs of [] \<Rightarrow> None | x # r \<Rightarrow> Some x))"

definition line_preview ::
  "browser \<Rightarrow> transit_resource_data list \<Rightarrow> node_data list \<Rightarrow> line_state \<Rightarrow> jsstr list" where
  "line_preview b resources nodes x =
     (let resource = selected_or_first tr_id (ls_selectedResourceId x) resources;
          node = selected_or_first nd_id (ls_selectedNodeId x) nodes
      in [endpoint (Option.bind resource tr_entry_host) (br_to_number b (ls_port x)),
          nullish (map_option nd_node_name node) (uni ''%u8BF7%u9009%u62E9%u843D%u5730%u8282%u70B9'') @ (js '' / '')
            @ endpoint (Option.bind node nd_vps_ip) (Option.bind node nd_port)])"

subsection \<open>Creating a direct node\<close>

definition DIRECT_NODE_CONFIRM_TEXT :: jsstr where
  "DIRECT_NODE_CONFIRM_TEXT = (js ''CONFIRM_CREATE_DIRECT_NODE'')"

definition RESERVED_DIRECT_NODE_PORTS :: "int list" where
  "RESERVED_DIRECT_NODE_PORTS = [22, 80, 443, 5432, 6379, 8000, 8200, 3000, 3200, 15432, 16379]"

datatype direct_confirmation =
    CloudSecurityGroup | CloudFirewall | ServerFirewall | RealListener | NoCloudFirewallChange
  | NoCutover | RollbackOnly | NoExistingXrayConflict

definition directNodeConfirmationItems :: "(direct_confirmation \<times> jsstr \<times> jsstr) list" where
  "directNodeConfirmationItems =
     [(CloudSecurityGroup, (uni ''%u6211%u5DF2%u5728%u4E91%u670D%u52A1%u5668%u5B89%u5168%u7EC4%u653E%u884C%u8BE5 TCP %u7AEF%u53E3''), (uni ''%u4E91%u5382%u5546%u5B89%u5168%u7EC4%u9700%u5141%u8BB8%u5BA2%u6237%u8FDE%u63A5%u7AEF%u53E3%u5165%u7AD9%u3002'')),
      (CloudFirewall, (uni ''%u6211%u5DF2%u5728%u4E91%u9632%u706B%u5899%u653E%u884C%u8BE5 TCP %u7AEF%u53E3''), (uni ''%u5982%u4E91%u5E73%u53F0%u6709%u989D%u5916%u9632%u706B%u5899%uFF0C%u4E5F%u9700%u8981%u540C%u6B65%u653E%u884C%u3002'')),
      (ServerFirewall, (uni ''%u6211%u5DF2%u786E%u8BA4%u670D%u52A1%u5668%u7CFB%u7EDF%u9632%u706B%u5899%u5141%u8BB8%u8BE5 TCP %u7AEF%u53E3''), (uni ''%u7CFB%u7EDF%u4E0D%u4F1A%u66FF%u4F60%u4FEE%u6539%u4E91%u5B89%u5168%u7EC4%u6216%u4E91%u9632%u706B%u5899%u3002'')),
      (RealListener, (uni ''%u6211%u7406%u89E3%u672C%u64CD%u4F5C%u4F1A%u65B0%u589E%u771F%u5B9E%u5BA2%u6237%u7AEF%u76D1%u542C%u7AEF%u53E3''),
        (uni ''Worker %u6267%u884C%u6210%u529F%u540E%u4F1A%u5728%u843D%u5730 VPS %u4E0A%u521B%u5EFA VLESS Reality %u5165%u53E3%u3002'')),
      (NoCloudFirewallChange, (uni ''%u6211%u7406%u89E3%u7CFB%u7EDF%u4E0D%u4F1A%u81EA%u52A8%u4FEE%u6539%u4E91%u5B89%u5168%u7EC4 / %u4E91%u9632%u706B%u5899''), (uni ''%u4E91%u4FA7%u653E%u884C%u5FC5%u987B%u7531%u7BA1%u7406%u5458%u63D0%u524D%u786E%u8BA4%u3002'')),
      (NoCutover, (uni ''%u6211%u786E%u8BA4%u672C%u6B21%u4E0D%u4F1A cutover%uFF0C%u4E0D%u4F1A%u5F71%u54CD%u73B0%u6709%u8282%u70B9%u94FE%u63A5''), (uni ''%u672C%u6B21%u53EA%u521B%u5EFA%u65B0%u7684%u76F4%u8FDE%u8282%u70B9%u547D%u4EE4%uFF0C%u4E0D%u5207%u6362%u6B63%u5F0F%u7EBF%u8DEF%u3002'')),
      (RollbackOnly, (uni ''%u6211%u786E%u8BA4%u5931%u8D25%u65F6%u53EA%u56DE%u6EDA%u672C%u6B21%u65B0%u589E%u5185%u5BB9''), (uni ''%u4E0D%u4F1A%u6E05%u7406%u5386%u53F2%u8282%u70B9%u6216%u65E2%u6709%u914D%u7F6E%u3002'')),
      (NoExistingXrayConflict, (uni ''%u6211%u786E%u8BA4%u521B%u5EFA%u8BA1%u5212 / %u6700%u65B0%u9884%u68C0%u672A%u53D1%u73B0%u5DF2%u6709 Xray%u30013x-ui %u6216 LiveLine %u7BA1%u7406%u914D%u7F6E%u51B2%u7A81''),
        (uni ''%u82E5%u8BA1%u5212%u6216%u9884%u68C0%u63D0%u793A%u5B58%u5728%u51B2%u7A81%uFF0C%u4E0D%u80FD%u7EE7%u7EED%u6B63%u5F0F%u521B%u5EFA%u3002''))]"

type_synonym direct_confirmations = "direct_confirmation \<Rightarrow> bool"

definition initialDirectNodeConfirmations :: direct_confirmations where
  "initialDirectNodeConfirmations = (\<lambda>k. False)"

definition validateDirectNodePort :: "jsstr \<Rightarrow> jsstr option" where
  "validateDirectNodePort v =
     (let parsed = int (digits_value (trim v)) in
      if \<not> all_digits (trim v) then Some (uni ''%u7AEF%u53E3%u5FC5%u987B%u662F%u6570%u5B57%u3002'')
      else if parsed < 1 \<or> 65535 < parsed then Some (uni ''%u7AEF%u53E3%u5FC5%u987B%u5728 1-65535 %u4E4B%u95F4%u3002'')
      else if parsed \<in> set RESERVED_DIRECT_NODE_PORTS
      then Some (uni ''%u8BE5%u7AEF%u53E3%u5C5E%u4E8E%u7CFB%u7EDF / %u63A7%u5236%u53F0%u5E38%u7528%u7AEF%u53E3%uFF0C%u8BF7%u6362%u7528 10000-30000 %u8303%u56F4%u5185%u7684%u7AEF%u53E3%u3002'')
      else None)"

definition allDirectNodeConfirmationsChecked :: "direct_confirmations \<Rightarrow> bool" where
  "allDirectNodeConfirmationsChecked confirmations \<longleftrightarrow>
     list_all (\<lambda>item. confirmations (fst item)) directNodeConfirmationItems"

fun safePlanValue :: "jsval \<Rightarrow> jsstr" where
  "safePlanValue (JStr s) = (if s = [] then (uni ''%u672A%u8FD4%u56DE'') else s)"
| "safePlanValue (JNum n) = string_of_int n"
| "safePlanValue (JBool v) = (if v then (uni ''%u662F'') else (uni ''%u5426''))"
| "safePlanValue JNull = (uni ''%u672A%u8FD4%u56DE'')"
| "safePlanValue JUndef = (uni ''%u672A%u8FD4%u56DE'')"
| "safePlanValue (JArr xs) = string_of_int (int (length xs)) @ (uni '' %u9879'')"
| "safePlanValue (JObj kvs) = (uni ''%u5DF2%u8FD4%u56DE'')"

definition plan_ready :: "node_plan \<Rightarrow> bool" where
  "plan_ready p \<longleftrightarrow> np_ready p \<and> np_blocked_reasons p = []"

definition PlanTextList :: "jsstr list \<Rightarrow> jsstr \<Rightarrow> jsstr list" where
  "PlanTextList items emptyText = (if items \<noteq> [] then items else [emptyText])"

definition preflightEntries :: "node_plan \<Rightarrow> (jsstr \<times> jsstr) list" where
  "preflightEntries p =
     (case np_preflight_summary p of
        JObj kvs \<Rightarrow> map (\<lambda>(k, v). (k, safePlanValue v)) (take 8 kvs)
      | _ \<Rightarrow> [])"

text \<open>The values of the plan's grid, in their order.\<close>

definition DirectNodePlanSummary :: "node_plan \<Rightarrow> jsstr list" where
  "DirectNodePlanSummary p =
     [if plan_ready p then (js ''ready'') else (uni ''%u9700%u8981%u5904%u7406''),
      string_of_int (np_listen_port p), np_server_name p, np_dest p, np_fingerprint p,
      if np_will_install_xray p then (uni ''%u53EF%u80FD%u9700%u8981'') else (uni ''%u4E0D%u9700%u8981''),
      if np_will_create_config p then (uni ''%u662F'') else (uni ''%u5426''),
      if np_will_open_local_firewall p then (uni ''%u53EF%u80FD%u8C03%u6574'') else (uni ''%u4E0D%u8C03%u6574''),
      if np_will_modify_cloud_security_group p then (uni ''%u4F1A%u4FEE%u6539'') else (uni ''%u4E0D%u4F1A%u4FEE%u6539'')]
     @ PlanTextList (np_warnings p) (uni ''%u65E0%u8B66%u544A%u3002'')
     @ PlanTextList (np_blocked_reasons p) (uni ''%u65E0%u963B%u65AD%u3002'')
     @ PlanTextList (np_required_user_confirmations p) (uni ''%u65E0%u989D%u5916%u786E%u8BA4%u3002'')
     @ PlanTextList (np_safety_boundary p) (uni ''%u672A%u8FD4%u56DE%u3002'')"

definition DirectNodeCreateSummary :: "node_created \<Rightarrow> jsstr list" where
  "DirectNodeCreateSummary r =
     [nc_status r, nc_command_id r, string_of_int (nc_approved_port r), nc_target_worker_id r,
      nullish (nc_target_worker_version r) (uni ''%u672A%u8FD4%u56DE''), nc_next_action r]
     @ PlanTextList (nc_safety_boundary r) (uni ''%u672A%u8FD4%u56DE%u3002'')"

datatype direct_submit = SubmittingPlan | SubmittingCreate

record direct_state =
  ds_step :: nat
  ds_selectedServerId :: jsstr
  ds_nodeName :: jsstr
  ds_port :: jsstr
  ds_serverName :: jsstr
  ds_dest :: jsstr
  ds_fingerprint :: jsstr
  ds_confirmations :: direct_confirmations
  ds_planResult :: "node_plan option"
  ds_createResult :: "node_created option"
  ds_exactConfirm :: jsstr
  ds_submitting :: "direct_submit option"
  ds_message :: jsstr

definition onlineServers :: "vps_server list \<Rightarrow> vps_server list" where
  "onlineServers servers = List.filter (\<lambda>sv. sv_worker_online sv \<and> sv_status sv \<noteq> (js ''deleted'')) servers"

definition direct_initial :: "vps_server list \<Rightarrow> direct_state" where
  "direct_initial servers =
     \<lparr>ds_step = 0, ds_selectedServerId = first_id sv_id (onlineServers servers), ds_nodeName = [],
      ds_port = (js ''28917''), ds_serverName = (js ''www.cloudflare.com''), ds_dest = (js ''www.cloudflare.com:443''),
      ds_fingerprint = (js ''chrome''), ds_confirmations = initialDirectNodeConfirmations,
      ds_planResult = None, ds_createResult = None, ds_exactConfirm = [], ds_submitting = None,
      ds_message = (uni ''%u8BF7%u9009%u62E9%u5728%u7EBF%u843D%u5730%u670D%u52A1%u5668%uFF0C%u586B%u5199%u7AEF%u53E3%uFF0C%u5E76%u5B8C%u6210%u7AEF%u53E3%u653E%u884C%u786E%u8BA4%u3002'')\<rparr>"

text \<open>The effect that selects a server that is online.\<close>

definition direct_effect :: "vps_server list \<Rightarrow> direct_state \<Rightarrow> direct_state" where
  "direct_effect servers x =
     (case onlineServers servers of
        [] \<Rightarrow> x
      | sv # rest \<Rightarrow>
          if ds_selectedServerId x = [] \<or> \<not> list_ex (\<lambda>v. sv_id v = ds_selectedServerId x) (sv # rest)
          then x\<lparr>ds_selectedServerId := sv_id sv\<rparr> else x)"

definition selectedServer_direct :: "vps_server list \<Rightarrow> direct_state \<Rightarrow> vps_server option" where
  "selectedServer_direct servers x =
     selected_or_first sv_id (ds_selectedServerId x) (onlineServers servers)"

definition resolvedNodeName :: "vps_server list \<Rightarrow> direct_state \<Rightarrow> jsstr" where
  "resolvedNodeName servers x =
     or_str (trim (ds_nodeName x))
       (case selectedServer_direct servers x of
          Some sv \<Rightarrow> sv_name sv @ (uni '' %u76F4%u8FDE%u8282%u70B9'') | None \<Rightarrow> (uni ''%u9999%u6E2F%u76F4%u8FDE15m''))"

definition parsedPort :: "direct_state \<Rightarrow> int" where
  "parsedPort x = int (digits_value (trim (ds_port x)))"

definition realityConfigMissing :: "direct_state \<Rightarrow> bool" where
  "realityConfigMissing x \<longleftrightarrow>
     trim (ds_serverName x) = [] \<or> trim (ds_dest x) = [] \<or> trim (ds_fingerprint x) = []"

definition planReady :: "direct_state \<Rightarrow> bool" where
  "planReady x \<longleftrightarrow> (case ds_planResult x of None \<Rightarrow> False | Some p \<Rightarrow> plan_ready p)"

definition canRequestPlan :: "vps_server list \<Rightarrow> direct_state \<Rightarrow> bool" where
  "canRequestPlan servers x \<longleftrightarrow>
     selectedServer_direct servers x \<noteq> None \<and> validateDirectNodePort (ds_port x) = None
     \<and> \<not> realityConfigMissing x \<and> allDirectNodeConfirmationsChecked (ds_confirmations x)
     \<and> ds_submitting x = None \<and> ds_createResult x = None"

definition canCreate :: "vps_server list \<Rightarrow> direct_state \<Rightarrow> bool" where
  "canCreate servers x \<longleftrightarrow>
     (case (selectedServer_direct servers x, ds_planResult x) of
        (Some sv, Some p) \<Rightarrow>
          planReady x \<and> np_server_id p = sv_id sv \<and> np_listen_port p = parsedPort x
          \<and> validateDirectNodePort (ds_port x) = None \<and> \<not> realityConfigMissing x
          \<and> allDirectNodeConfirmationsChecked (ds_confirmations x)
          \<and> ds_exactConfirm x = DIRECT_NODE_CONFIRM_TEXT
          \<and> ds_submitting x = None \<and> ds_createResult x = None
      | _ \<Rightarrow> False)"

definition markConfigDirty :: "direct_state \<Rightarrow> direct_state" where
  "markConfigDirty x =
     (if ds_planResult x \<noteq> None \<or> ds_createResult x \<noteq> None then
        x\<lparr>ds_planResult := None, ds_createResult := None, ds_exactConfirm := [], ds_step := 1,
          ds_message := (uni ''%u914D%u7F6E%u5DF2%u53D8%u66F4%uFF0C%u8BF7%u91CD%u65B0%u751F%u6210%u521B%u5EFA%u8BA1%u5212%u3002'')\<rparr>
      else x)"

datatype direct_edit =
    DirectServer jsstr | DirectName jsstr | DirectPort jsstr | DirectServerName jsstr | DirectDest jsstr
  | DirectFingerprint jsstr | DirectConfirm direct_confirmation bool

fun edit_direct :: "direct_edit \<Rightarrow> direct_state \<Rightarrow> direct_state" where
  "edit_direct (DirectServer i) x = markConfigDirty (x\<lparr>ds_selectedServerId := i\<rparr>)"
| "edit_direct (DirectName v) x = markConfigDirty (x\<lparr>ds_nodeName := v\<rparr>)"
| "edit_direct (DirectPort v) x = markConfigDirty (x\<lparr>ds_port := v\<rparr>)"
| "edit_direct (DirectServerName v) x = markConfigDirty (x\<lparr>ds_serverName := v\<rparr>)"
| "edit_direct (DirectDest v) x = markConfigDirty (x\<lparr>ds_dest := v\<rparr>)"
| "edit_direct (DirectFingerprint v) x = markConfigDirty (x\<lparr>ds_fingerprint := v\<rparr>)"
| "edit_direct (DirectConfirm k v) x =
     markConfigDirty (x\<lparr>ds_confirmations := (ds_confirmations x)(k := v)\<rparr>)"

definition direct_says :: "jsstr \<Rightarrow> direct_state \<Rightarrow> direct_state" where
  "direct_says m x = x\<lparr>ds_message := m\<rparr>"

definition direct_plan_request :: "vps_server list \<Rightarrow> direct_state \<Rightarrow> node_plan_request" where
  "direct_plan_request servers x =
     \<lparr>npq_listen_port = parsedPort x, npq_protocol = (js ''vless''), npq_security = (js ''reality''),
      npq_flow = (js ''xtls-rprx-vision''), npq_server_name = trim (ds_serverName x),
      npq_dest = trim (ds_dest x), npq_fingerprint = trim (ds_fingerprint x),
      npq_remark = Some (resolvedNodeName servers x), npq_allow_install_xray = True,
      npq_allow_modify_firewall = True, npq_allow_generate_share_link = True,
      npq_allow_overwrite_existing_config = False,
      npq_cloud_security_group_confirmed = ds_confirmations x CloudSecurityGroup,
      npq_cloud_firewall_confirmed = ds_confirmations x CloudFirewall,
      npq_server_firewall_confirmed = ds_confirmations x ServerFirewall,
      npq_require_manual_cloud_firewall_confirmation = True, npq_require_preflight_success = True\<rparr>"

definition direct_create_request :: "vps_server list \<Rightarrow> direct_state \<Rightarrow> node_create_request" where
  "direct_create_request servers x =
     \<lparr>ncq_approved_port = parsedPort x, ncq_node_name = Some (resolvedNodeName servers x),
      ncq_server_name = Some (trim (ds_serverName x)), ncq_dest = Some (trim (ds_dest x)),
      ncq_fingerprint = Some (trim (ds_fingerprint x)), ncq_confirm_firewall_open = True,
      ncq_confirm_generate_share_link = True, ncq_confirm_write_share_link_after_success = True,
      ncq_confirm_no_existing_xray = True, ncq_confirm_rollback_new_artifacts_only = True\<rparr>"

text \<open>The guards of the two handlers, in their order: \<open>Inl\<close> is what they say, \<open>Inr\<close> the server.\<close>

definition plan_guard :: "vps_server list \<Rightarrow> direct_state \<Rightarrow> jsstr + vps_server" where
  "plan_guard servers x =
     (case selectedServer_direct servers x of
        None \<Rightarrow> Inl (uni ''%u6682%u65E0%u5728%u7EBF%u843D%u5730%u670D%u52A1%u5668%uFF0C%u8BF7%u5148%u6DFB%u52A0%u843D%u5730%u670D%u52A1%u5668%u5E76%u5B89%u88C5 Worker%u3002'')
      | Some sv \<Rightarrow>
          (case validateDirectNodePort (ds_port x) of
             Some e \<Rightarrow> Inl e
           | None \<Rightarrow>
               if realityConfigMissing x then Inl (uni ''%u8BF7%u586B%u5199 Reality SNI%u3001dest %u548C fingerprint%u3002'')
               else if \<not> allDirectNodeConfirmationsChecked (ds_confirmations x)
               then Inl (uni ''%u8BF7%u5148%u5B8C%u6210%u5168%u90E8%u7AEF%u53E3%u653E%u884C%u4E0E%u5B89%u5168%u786E%u8BA4%u3002'')
               else Inr sv))"

definition create_guard :: "vps_server list \<Rightarrow> direct_state \<Rightarrow> jsstr + vps_server" where
  "create_guard servers x =
     (case (selectedServer_direct servers x, ds_planResult x) of
        (Some sv, Some p) \<Rightarrow>
          if \<not> planReady x then Inl (uni ''%u8BF7%u5148%u751F%u6210 ready %u72B6%u6001%u7684%u521B%u5EFA%u8BA1%u5212%u3002'')
          else if \<not> allDirectNodeConfirmationsChecked (ds_confirmations x)
          then Inl (uni ''%u8BF7%u5148%u5B8C%u6210%u5168%u90E8%u7AEF%u53E3%u653E%u884C%u4E0E%u5B89%u5168%u786E%u8BA4%u3002'')
          else if realityConfigMissing x then Inl (uni ''%u8BF7%u586B%u5199 Reality SNI%u3001dest %u548C fingerprint%u3002'')
          else (case validateDirectNodePort (ds_port x) of
             Some e \<Rightarrow> Inl e
           | None \<Rightarrow>
               if np_blocked_reasons p \<noteq> [] then Inl (uni ''%u521B%u5EFA%u8BA1%u5212%u4ECD%u5B58%u5728%u963B%u65AD%u9879%uFF0C%u4E0D%u80FD%u6B63%u5F0F%u521B%u5EFA%u3002'')
               else if np_server_id p \<noteq> sv_id sv
               then Inl (uni ''%u5F53%u524D%u9009%u62E9%u7684%u670D%u52A1%u5668%u4E0E%u521B%u5EFA%u8BA1%u5212%u4E0D%u4E00%u81F4%uFF0C%u8BF7%u91CD%u65B0%u751F%u6210%u8BA1%u5212%u3002'')
               else if np_listen_port p \<noteq> parsedPort x then Inl (uni ''%u7AEF%u53E3%u5DF2%u53D8%u66F4%uFF0C%u8BF7%u91CD%u65B0%u751F%u6210%u521B%u5EFA%u8BA1%u5212%u3002'')
               else if ds_exactConfirm x \<noteq> DIRECT_NODE_CONFIRM_TEXT
               then Inl ((uni ''%u8BF7%u8F93%u5165 '') @ DIRECT_NODE_CONFIRM_TEXT @ (uni '' %u540E%u518D%u521B%u5EFA%u3002''))
               else Inr sv)
      | _ \<Rightarrow> Inl (uni ''%u8BF7%u5148%u751F%u6210 ready %u72B6%u6001%u7684%u521B%u5EFA%u8BA1%u5212%u3002''))"

definition receive_plan :: "node_plan \<Rightarrow> direct_state \<Rightarrow> direct_state" where
  "receive_plan p x =
     x\<lparr>ds_planResult := Some p, ds_createResult := None, ds_step := (if plan_ready p then 3 else 2),
       ds_message := (if plan_ready p then (uni ''%u9884%u68C0%u8BA1%u5212%u5DF2%u751F%u6210%u3002%u786E%u8BA4%u65E0%u8BEF%u540E%u8F93%u5165%u786E%u8BA4%u6587%u672C%u521B%u5EFA%u6B63%u5F0F Worker command%u3002'')
                      else (uni ''%u9884%u68C0%u8BA1%u5212%u5DF2%u751F%u6210%uFF0C%u4F46%u5B58%u5728%u963B%u65AD%u9879%uFF0C%u4E0D%u80FD%u6B63%u5F0F%u521B%u5EFA%u3002''))\<rparr>"

definition end_direct :: "((direct_state \<Rightarrow> direct_state) \<Rightarrow> 's \<Rightarrow> 's) \<Rightarrow> 's act" where
  "end_direct upd s = finished (upd (\<lambda>x. x\<lparr>ds_submitting := None\<rparr>) s)"

definition handlePlan ::
  "((direct_state \<Rightarrow> direct_state) \<Rightarrow> 's \<Rightarrow> 's) \<Rightarrow> vps_server list \<Rightarrow> direct_state \<Rightarrow> 's act" where
  "handlePlan upd servers x s =
     (case plan_guard servers x of
        Inl e \<Rightarrow> finished (upd (direct_says e) s)
      | Inr sv \<Rightarrow>
          (let end = end_direct upd;
               caught = (\<lambda>e s. end (upd (direct_says (error_text e (uni ''%u751F%u6210%u521B%u5EFA%u8BA1%u5212%u5931%u8D25%u3002''))) s))
           in fetchCsrfToken
                (\<lambda>csrfToken.
                   if blank csrfToken then
                     (\<lambda>s. end (upd (direct_says (uni ''%u767B%u5F55%u72B6%u6001%u6216%u5B89%u5168%u6821%u9A8C%u5931%u8D25%uFF0C%u8BF7%u5237%u65B0%u540E%u91CD%u8BD5%u3002'')) s))
                   else
                     fetch (createLandingNodePlan (sv_id sv)
                              (json_node_plan_request (direct_plan_request servers x)) (the csrfToken)) as_node_plan
                       (\<lambda>result. case result of
                          ApiFailure c m d \<Rightarrow>
                            (\<lambda>s. end (upd (direct_says (or_str m (uni ''%u751F%u6210%u521B%u5EFA%u8BA1%u5212%u5931%u8D25%u3002''))) s))
                        | ApiSuccess p m \<Rightarrow> (\<lambda>s. end (upd (receive_plan p) s)))
                       caught)
                caught
                (upd (\<lambda>x. x\<lparr>ds_submitting := Some SubmittingPlan,
                        ds_message := (uni ''%u6B63%u5728%u751F%u6210%u521B%u5EFA%u8BA1%u5212%uFF0C%u4E0D%u4F1A%u521B%u5EFA Worker command%u3002'')\<rparr>) s)))"

definition handleCreate ::
  "((direct_state \<Rightarrow> direct_state) \<Rightarrow> 's \<Rightarrow> 's) \<Rightarrow> ('s act \<Rightarrow> (jsstr option \<Rightarrow> 's act) \<Rightarrow> 's act)
   \<Rightarrow> vps_server list \<Rightarrow> direct_state \<Rightarrow> 's act" where
  "handleCreate upd completed servers x s =
     (case create_guard servers x of
        Inl e \<Rightarrow> finished (upd (direct_says e) s)
      | Inr sv \<Rightarrow>
          (let end = end_direct upd;
               caught = (\<lambda>e s. end (upd (direct_says (error_text e (uni ''%u521B%u5EFA%u6B63%u5F0F%u547D%u4EE4%u5931%u8D25%u3002''))) s))
           in fetchCsrfToken
                (\<lambda>csrfToken.
                   if blank csrfToken then
                     (\<lambda>s. end (upd (direct_says (uni ''%u767B%u5F55%u72B6%u6001%u6216%u5B89%u5168%u6821%u9A8C%u5931%u8D25%uFF0C%u8BF7%u5237%u65B0%u540E%u91CD%u8BD5%u3002'')) s))
                   else
                     fetch (createLandingNodeExecution (sv_id sv)
                              (json_node_create_request (direct_create_request servers x)) (the csrfToken)) as_node_create
                       (\<lambda>result. case result of
                          ApiFailure c m d \<Rightarrow>
                            (\<lambda>s. end (upd (direct_says (or_str m (uni ''%u521B%u5EFA%u6B63%u5F0F%u547D%u4EE4%u5931%u8D25%u3002''))) s))
                        | ApiSuccess r m \<Rightarrow>
                            (\<lambda>s. completed end caught
                               (upd (\<lambda>x. x\<lparr>ds_createResult := Some r, ds_step := 5,
                                       ds_message := (uni ''%u6B63%u5F0F%u521B%u5EFA%u547D%u4EE4%u5DF2%u521B%u5EFA%uFF0C%u7B49%u5F85%u843D%u5730 Worker %u8F6E%u8BE2%u6267%u884C%u3002'')\<rparr>) s)))
                       caught)
                caught
                (upd (\<lambda>x. x\<lparr>ds_submitting := Some SubmittingCreate,
                        ds_message := (uni ''%u6B63%u5728%u521B%u5EFA%u6B63%u5F0F landing_node_create Worker command%u3002'')\<rparr>) s)))"

lemma create_guard_ok:
  "create_guard servers x = Inr sv \<Longrightarrow> \<exists>p. ds_planResult x = Some p \<and> plan_ready p
     \<and> np_server_id p = sv_id sv \<and> np_listen_port p = parsedPort x
     \<and> sv \<in> set (onlineServers servers) \<and> validateDirectNodePort (ds_port x) = None
     \<and> allDirectNodeConfirmationsChecked (ds_confirmations x) \<and> ds_exactConfirm x = DIRECT_NODE_CONFIRM_TEXT"
  by (auto simp: create_guard_def planReady_def selectedServer_direct_def selected_or_first_def
      split: option.splits list.splits if_splits dest: find_opt_SomeD)

text \<open>The button is enabled exactly when the handler would not refuse, a submission aside.\<close>

lemma canCreate_iff_guard:
  "canCreate servers x \<longleftrightarrow>
     (\<exists>sv. create_guard servers x = Inr sv) \<and> ds_submitting x = None \<and> ds_createResult x = None"
  by (auto simp: canCreate_def create_guard_def planReady_def plan_ready_def split: option.splits if_splits)

end
