(* ===== verification/ProductPages.thy ===== *)
theory ProductPages
  imports ProductModals CustomerLines
begin

text \<open>
  The two pages that lead to the dialogs of \<open>ProductModals\<close>: \<^verbatim>\<open>ServerResourcesPanel.tsx\<close>
  and \<^verbatim>\<open>LineBuilderPanel.tsx\<close>. What they share (the lists, the message, the open dialog)
  is one record, which each page extends; the dialogs' handlers work on either page.

  React mounts a dialog anew each time it is opened and drops its state when it is closed, and what a handler
  of a closed dialog still wants to change has no effect: \<open>pg_instance\<close> counts the dialogs, and
  an update carries the number of the dialog it belongs to.
\<close>

subsection \<open>State\<close>

datatype product_modal = ModalLanding | ModalTransit | ModalDirect | ModalTransitLine

record product_page =
  pg_servers :: "vps_server list"
  pg_nodes :: "node_data list"
  pg_resources :: "transit_resource_data list"
  pg_activeModal :: "product_modal option"
  pg_message :: jsstr
  pg_instance :: nat
  pg_landing :: "vps_bootstrap add_state"
  pg_transit :: "transit_bootstrap add_state"
  pg_direct :: direct_state
  pg_line :: line_state

datatype detail_target = LandingTarget vps_server | TransitTarget transit_resource_data
datatype resource_tab = LandingTab | TransitTab | ProviderTab

record resources_page = product_page +
  rp_detailTarget :: "detail_target option"
  rp_menuOpen :: bool
  rp_activeTab :: resource_tab

record builder_page = product_page +
  bd_routes :: "transit_route_data list"
  bd_tasks :: "task_data list"

definition resources_page_initial :: resources_page where
  "resources_page_initial =
     \<lparr>pg_servers = [], pg_nodes = [], pg_resources = [], pg_activeModal = None,
      pg_message = (uni ''%u6B63%u5728%u8BFB%u53D6%u670D%u52A1%u5668%u8D44%u6E90%u3002''), pg_instance = 0, pg_landing = add_initial landing_texts,
      pg_transit = add_initial transit_texts, pg_direct = direct_initial [], pg_line = line_initial [] [],
      rp_detailTarget = None, rp_menuOpen = False, rp_activeTab = LandingTab\<rparr>"

definition builder_page_initial :: builder_page where
  "builder_page_initial =
     \<lparr>pg_servers = [], pg_nodes = [], pg_resources = [], pg_activeModal = None,
      pg_message = (uni ''%u6B63%u5728%u8BFB%u53D6%u7EBF%u8DEF%u642D%u5EFA%u6570%u636E%u3002''), pg_instance = 0, pg_landing = add_initial landing_texts,
      pg_transit = add_initial transit_texts, pg_direct = direct_initial [], pg_line = line_initial [] [],
      bd_routes = [], bd_tasks = []\<rparr>"

subsection \<open>Dialogs\<close>

type_synonym 'a line_props = "'a product_page_scheme \<Rightarrow> transit_resource_data list \<times> node_data list"

definition unmount_dialogs :: "'a product_page_scheme \<Rightarrow> 'a product_page_scheme" where
  "unmount_dialogs s =
     s\<lparr>pg_landing := add_initial landing_texts, pg_transit := add_initial transit_texts,
       pg_direct := direct_initial [], pg_line := line_initial [] []\<rparr>"

definition setActiveModal ::
  "'a line_props \<Rightarrow> product_modal option \<Rightarrow> 'a product_page_scheme \<Rightarrow> 'a product_page_scheme" where
  "setActiveModal props m s =
     (if pg_activeModal s = m then s
      else (unmount_dialogs s)
        \<lparr>pg_activeModal := m, pg_instance := Suc (pg_instance s),
         pg_direct := (if m = Some ModalDirect then direct_initial (pg_servers s) else direct_initial []),
         pg_line := (if m = Some ModalTransitLine then line_initial (fst (props s)) (snd (props s))
                     else line_initial [] [])\<rparr>)"

definition mounted :: "product_modal \<Rightarrow> nat \<Rightarrow> 'a product_page_scheme \<Rightarrow> bool" where
  "mounted m i s \<longleftrightarrow> pg_activeModal s = Some m \<and> pg_instance s = i"

definition on_landing ::
  "nat \<Rightarrow> (vps_bootstrap add_state \<Rightarrow> vps_bootstrap add_state) \<Rightarrow> 'a product_page_scheme \<Rightarrow> 'a product_page_scheme" where
  "on_landing i f s = (if mounted ModalLanding i s then s\<lparr>pg_landing := f (pg_landing s)\<rparr> else s)"

definition on_transit ::
  "nat \<Rightarrow> (transit_bootstrap add_state \<Rightarrow> transit_bootstrap add_state) \<Rightarrow> 'a product_page_scheme
   \<Rightarrow> 'a product_page_scheme" where
  "on_transit i f s = (if mounted ModalTransit i s then s\<lparr>pg_transit := f (pg_transit s)\<rparr> else s)"

definition on_direct ::
  "nat \<Rightarrow> (direct_state \<Rightarrow> direct_state) \<Rightarrow> 'a product_page_scheme \<Rightarrow> 'a product_page_scheme" where
  "on_direct i f s = (if mounted ModalDirect i s then s\<lparr>pg_direct := f (pg_direct s)\<rparr> else s)"

definition on_line :: "(line_state \<Rightarrow> line_state) \<Rightarrow> 'a product_page_scheme \<Rightarrow> 'a product_page_scheme" where
  "on_line f s = s\<lparr>pg_line := f (pg_line s)\<rparr>"

subsection \<open>Loading\<close>

text \<open>An open dialog for direct nodes looks at its server again when the list changes.\<close>

definition receive_servers :: "vps_server list api_response \<Rightarrow> 'a product_page_scheme \<Rightarrow> 'a product_page_scheme" where
  "receive_servers r s =
     (case r of
        ApiFailure c m d \<Rightarrow> s
      | ApiSuccess svs m \<Rightarrow>
          s\<lparr>pg_servers := svs,
            pg_direct := (if pg_activeModal s = Some ModalDirect then direct_effect svs (pg_direct s)
                          else pg_direct s)\<rparr>)"

definition receive_page_nodes :: "node_data list api_response \<Rightarrow> 'a product_page_scheme \<Rightarrow> 'a product_page_scheme" where
  "receive_page_nodes r s = (case r of ApiFailure c m d \<Rightarrow> s | ApiSuccess ns m \<Rightarrow> s\<lparr>pg_nodes := ns\<rparr>)"

definition receive_page_resources ::
  "transit_resource_data list api_response \<Rightarrow> 'a product_page_scheme \<Rightarrow> 'a product_page_scheme" where
  "receive_page_resources r s = (case r of ApiFailure c m d \<Rightarrow> s | ApiSuccess rs m \<Rightarrow> s\<lparr>pg_resources := rs\<rparr>)"

definition as_resources_page ::
  "reply_value list \<Rightarrow> (vps_server list api_response settled \<times> node_data list api_response settled
     \<times> transit_resource_data list api_response settled) option" where
  "as_resources_page rs =
     (case rs of [RServers a, RNodes b, RResources c] \<Rightarrow> Some (a, b, c) | _ \<Rightarrow> None)"

definition loadData_resources ::
  "resources_page act \<Rightarrow> (jsstr option \<Rightarrow> resources_page act) \<Rightarrow> resources_page act" where
  "loadData_resources k h =
     call_all [Http (get_request (js ''/api/vps'')), Http (get_request (js ''/api/nodes'')),
               Http (get_request (js ''/api/transit-resources''))]
       as_resources_page
       (\<lambda>x. case x of
          (Resolved ra, Resolved rb, Resolved rc) \<Rightarrow>
            (\<lambda>s. k ((receive_page_resources rc (receive_page_nodes rb (receive_servers ra s)))
              \<lparr>pg_message := (if api_ok ra \<and> api_ok rb \<and> api_ok rc then (uni ''%u670D%u52A1%u5668%u8D44%u6E90%u5DF2%u5237%u65B0%u3002'')
                              else (uni ''%u90E8%u5206%u8D44%u6E90%u6682%u65F6%u65E0%u6CD5%u8BFB%u53D6%u3002''))\<rparr>))
        | (Rejected e, b, c) \<Rightarrow> h e
        | (a, Rejected e, c) \<Rightarrow> h e
        | (a, b, Rejected e) \<Rightarrow> h e)"

definition receive_page_routes :: "transit_route_data list api_response \<Rightarrow> builder_page \<Rightarrow> builder_page" where
  "receive_page_routes r s = (case r of ApiFailure c m d \<Rightarrow> s | ApiSuccess rs m \<Rightarrow> s\<lparr>bd_routes := rs\<rparr>)"

definition receive_page_tasks :: "task_data list api_response \<Rightarrow> builder_page \<Rightarrow> builder_page" where
  "receive_page_tasks r s = (case r of ApiFailure c m d \<Rightarrow> s | ApiSuccess ts m \<Rightarrow> s\<lparr>bd_tasks := ts\<rparr>)"

definition as_builder_page ::
  "reply_value list \<Rightarrow> (vps_server list api_response settled \<times> node_data list api_response settled
     \<times> transit_resource_data list api_response settled \<times> transit_route_data list api_response settled
     \<times> task_data list api_response settled) option" where
  "as_builder_page rs =
     (case rs of
        [RServers a, RNodes b, RResources c, RRoutes d, RTasks e] \<Rightarrow> Some (a, b, c, d, e) | _ \<Rightarrow> None)"

definition loadData_builder ::
  "builder_page act \<Rightarrow> (jsstr option \<Rightarrow> builder_page act) \<Rightarrow> builder_page act" where
  "loadData_builder k h =
     call_all [Http (get_request (js ''/api/vps'')), Http (get_request (js ''/api/nodes'')),
               Http (get_request (js ''/api/transit-resources'')), Http (get_request (js ''/api/transit-routes'')),
               Http (get_request (js ''/api/tasks?limit=8''))]
       as_builder_page
       (\<lambda>x. case x of
          (Resolved ra, Resolved rb, Resolved rc, Resolved rd, Resolved re) \<Rightarrow>
            (\<lambda>s. k ((receive_page_tasks re (receive_page_routes rd (receive_page_resources rc
                    (receive_page_nodes rb (receive_servers ra s)))))
              \<lparr>pg_message :=
                 (if api_ok ra \<and> api_ok rb \<and> api_ok rc \<and> api_ok rd \<and> api_ok re
                  then (uni ''%u7EBF%u8DEF%u642D%u5EFA%u6570%u636E%u5DF2%u5237%u65B0%u3002'') else (uni ''%u90E8%u5206%u6570%u636E%u6682%u65F6%u65E0%u6CD5%u8BFB%u53D6%uFF0C%u8BF7%u7A0D%u540E%u5237%u65B0%u3002''))\<rparr>))
        | (Rejected e, r2, r3, r4, r5) \<Rightarrow> h e
        | (r1, Rejected e, r3, r4, r5) \<Rightarrow> h e
        | (r1, r2, Rejected e, r4, r5) \<Rightarrow> h e
        | (r1, r2, r3, Rejected e, r5) \<Rightarrow> h e
        | (r1, r2, r3, r4, Rejected e) \<Rightarrow> h e)"

subsection \<open>What the resources page shows\<close>

text \<open>The arguments stand for the fields \<^verbatim>\<open>worker_online\<close>, \<^verbatim>\<open>worker_display_status\<close> and \<^verbatim>\<open>display_status\<close>.\<close>

definition helperStatusLabel :: "bool \<Rightarrow> jsstr option \<Rightarrow> jsstr \<Rightarrow> jsstr" where
  "helperStatusLabel online workerDisplay display =
     (let status = nullish workerDisplay display
      in if online then (uni ''%u8FD0%u884C%u6B63%u5E38'')
         else if status = (js ''stale'') then (uni ''%u5FC3%u8DF3%u8FC7%u671F'')
         else if status = (js ''deleted'') then (uni ''%u5DF2%u5220%u9664'')
         else (uni ''%u7B49%u5F85%u52A9%u624B''))"

definition statusTone :: "bool \<Rightarrow> jsstr option \<Rightarrow> jsstr \<Rightarrow> jsstr" where
  "statusTone online workerDisplay display =
     (let status = nullish workerDisplay display
      in if online then (js ''success'')
         else if status = (js ''stale'') then (js ''warning'')
         else if status = (js ''deleted'') then (js ''danger'')
         else (js ''info''))"

definition heartbeat_text :: "(jsstr \<Rightarrow> jsstr) \<Rightarrow> jsstr option \<Rightarrow> jsstr" where
  "heartbeat_text to_locale v = (if blank v then (uni ''%u672A%u8FD4%u56DE'') else to_locale (the v))"

definition visibleServers :: "'a product_page_scheme \<Rightarrow> vps_server list" where
  "visibleServers s = List.filter (\<lambda>sv. sv_status sv \<noteq> (js ''deleted'')) (pg_servers s)"

definition selfTransitResources :: "'a product_page_scheme \<Rightarrow> transit_resource_data list" where
  "selfTransitResources s =
     List.filter (\<lambda>r. tr_resource_type r = (js ''server'') \<and> blank (tr_deleted_at r)) (pg_resources s)"

definition providerTransitResources :: "'a product_page_scheme \<Rightarrow> transit_resource_data list" where
  "providerTransitResources s =
     List.filter (\<lambda>r. tr_resource_type r \<noteq> (js ''server'') \<and> blank (tr_deleted_at r)) (pg_resources s)"

definition resource_strip :: "'a product_page_scheme \<Rightarrow> jsstr list" where
  "resource_strip s =
     [string_of_int (int (length (visibleServers s))) @ (uni '' %u53F0''),
      string_of_int (int (length (List.filter sv_worker_online (visibleServers s)))) @ (uni '' %u53F0''),
      string_of_int (int (length (selfTransitResources s))) @ (uni '' %u53F0''),
      string_of_int (int (length (providerTransitResources s))) @ (uni '' %u4E2A'')]"

definition transit_card :: "(jsstr \<Rightarrow> jsstr) \<Rightarrow> jsstr \<Rightarrow> transit_resource_data \<Rightarrow> jsstr list" where
  "transit_card to_locale typeLabel r =
     [tr_name r, endpoint (tr_entry_host r) (tr_entry_port r),
      statusTone (tr_worker_online r) (tr_worker_display_status r) (tr_display_status r),
      helperStatusLabel (tr_worker_online r) (tr_worker_display_status r) (tr_display_status r),
      typeLabel, nullish (tr_entry_host r) (uni ''%u672A%u586B%u5199''), nullish (tr_exit_region r) (uni ''%u672A%u586B%u5199''),
      heartbeat_text to_locale (tr_worker_last_heartbeat_at r)]"

definition resource_detail :: "(jsstr \<Rightarrow> jsstr) \<Rightarrow> detail_target \<Rightarrow> jsstr list" where
  "resource_detail to_locale target =
     (case target of
        LandingTarget sv \<Rightarrow>
          [sv_name sv, (uni ''%u843D%u5730%u670D%u52A1%u5668''), endpoint (Some (sv_ip sv)) (Some 22),
           helperStatusLabel (sv_worker_online sv) (sv_worker_display_status sv) (sv_display_status sv),
           heartbeat_text to_locale (sv_worker_last_heartbeat_at sv)]
      | TransitTarget r \<Rightarrow>
          [tr_name r, (uni ''%u4E2D%u8F6C%u670D%u52A1%u5668''), endpoint (tr_entry_host r) (tr_entry_port r),
           helperStatusLabel (tr_worker_online r) (tr_worker_display_status r) (tr_display_status r),
           heartbeat_text to_locale (tr_worker_last_heartbeat_at r)])"

definition resources_line_props :: "resources_page \<Rightarrow> transit_resource_data list \<times> node_data list" where
  "resources_line_props s =
     (List.filter (\<lambda>r. blank (tr_deleted_at r)) (pg_resources s),
      List.filter (\<lambda>n. nd_status n = (js ''active'')) (pg_nodes s))"

definition openModal_resources :: "product_modal \<Rightarrow> resources_page \<Rightarrow> resources_page" where
  "openModal_resources m s = setActiveModal resources_line_props (Some m) (s\<lparr>rp_menuOpen := False\<rparr>)"

subsection \<open>What the builder page shows\<close>

definition taskName :: "task_data option \<Rightarrow> jsstr" where
  "taskName task =
     (case task of
        None \<Rightarrow> (uni ''%u6682%u65E0%u8BB0%u5F55'')
      | Some t \<Rightarrow>
          nullish (map_of
            [((js ''landing_node_create''), (uni ''%u521B%u5EFA%u76F4%u8FDE%u8282%u70B9'')), ((js ''transit_route_create''), (uni ''%u521B%u5EFA%u4E2D%u8F6C%u7EBF%u8DEF'')),
             ((js ''cleanup_landing_node''), (uni ''%u5220%u9664%u8282%u70B9'')), ((js ''cleanup_landing_server''), (uni ''%u6E05%u7406%u843D%u5730%u670D%u52A1%u5668'')),
             ((js ''cleanup_transit_route''), (uni ''%u6E05%u7406%u4E2D%u8F6C%u7EBF%u8DEF'')), ((js ''cleanup_transit_resource''), (uni ''%u6E05%u7406%u4E2D%u8F6C%u670D%u52A1%u5668''))]
            (tk_task_type t)) (uni ''%u7CFB%u7EDF%u64CD%u4F5C''))"

definition activeNodes_builder :: "builder_page \<Rightarrow> node_data list" where
  "activeNodes_builder s = List.filter (\<lambda>n. nd_status n = (js ''active'')) (pg_nodes s)"

definition activeRoutes :: "builder_page \<Rightarrow> transit_route_data list" where
  "activeRoutes s = List.filter (\<lambda>r. rt_status r = (js ''active'') \<and> blank (rt_deleted_at r)) (bd_routes s)"

definition onlineLandingServers :: "builder_page \<Rightarrow> vps_server list" where
  "onlineLandingServers s = List.filter (\<lambda>sv. sv_worker_online sv \<and> sv_status sv \<noteq> (js ''deleted'')) (pg_servers s)"

definition onlineTransitResources :: "builder_page \<Rightarrow> transit_resource_data list" where
  "onlineTransitResources s =
     List.filter (\<lambda>r. tr_worker_online r \<and> blank (tr_deleted_at r) \<and> tr_resource_type r = (js ''server'')) (pg_resources s)"

definition visibleTransitResources :: "builder_page \<Rightarrow> transit_resource_data list" where
  "visibleTransitResources s =
     List.filter (\<lambda>r. blank (tr_deleted_at r) \<and> tr_resource_type r = (js ''server'')) (pg_resources s)"

definition builder_metrics :: "builder_page \<Rightarrow> jsstr list" where
  "builder_metrics s =
     [string_of_int (int (length (onlineLandingServers s))) @ (uni '' %u53F0%u53EF%u7528''),
      string_of_int (int (length (onlineTransitResources s))) @ (uni '' %u53F0%u53EF%u7528''),
      string_of_int (int (length (activeNodes_builder s))) @ (uni '' %u4E2A''),
      string_of_int (int (length (activeRoutes s))) @ (uni '' %u6761'')]"

record recent_item =
  ri_createdAt :: "jsstr option"
  ri_title :: jsstr
  ri_detail :: jsstr

definition recent_items :: "builder_page \<Rightarrow> recent_item list" where
  "recent_items s =
     map (\<lambda>n. \<lparr>ri_createdAt = nd_created_at n, ri_title = nd_node_name n,
            ri_detail = (uni ''%u76F4%u8FDE%u8282%u70B9 / '') @ endpoint (nd_vps_ip n) (nd_port n)\<rparr>) (activeNodes_builder s)
     @ map (\<lambda>r. \<lparr>ri_createdAt = rt_created_at r, ri_title = rt_name r,
            ri_detail = (uni ''%u4E2D%u8F6C%u7EBF%u8DEF / '') @ endpoint (Some (rt_target_host r)) (Some (rt_target_port r))\<rparr>) (activeRoutes s)
     @ map (\<lambda>r. \<lparr>ri_createdAt = tr_created_at r, ri_title = tr_name r,
            ri_detail = (uni ''%u4E2D%u8F6C%u670D%u52A1%u5668 / '') @ endpoint (tr_entry_host r) (tr_entry_port r)\<rparr>) (visibleTransitResources s)"

text \<open>
  \<^verbatim>\<open>new Date(createdAt ?? 0).getTime()\<close>; the sort takes a comparison that is not a number,
  because a text is no date, as equality.
\<close>

definition created_time :: "browser \<Rightarrow> recent_item \<Rightarrow> int option" where
  "created_time b x = (case ri_createdAt x of None \<Rightarrow> Some 0 | Some v \<Rightarrow> br_date_parse b v)"

definition newest_first :: "browser \<Rightarrow> recent_item \<Rightarrow> recent_item \<Rightarrow> int" where
  "newest_first b x y =
     (case (created_time b x, created_time b y) of (Some t, Some u) \<Rightarrow> u - t | _ \<Rightarrow> 0)"

definition recentCreated :: "browser \<Rightarrow> builder_page \<Rightarrow> recent_item list" where
  "recentCreated b s = take 4 (sort_by (newest_first b) (recent_items s))"

definition builder_line_props :: "builder_page \<Rightarrow> transit_resource_data list \<times> node_data list" where
  "builder_line_props s = (visibleTransitResources s, activeNodes_builder s)"

subsection \<open>What the user can start\<close>

definition fingerprints :: "jsstr list" where
  "fingerprints = [(js ''chrome''), (js ''firefox''), (js ''safari''), (js ''edge'')]"

fun allowed_direct_edit :: "vps_server list \<Rightarrow> direct_edit \<Rightarrow> bool" where
  "allowed_direct_edit servers (DirectServer i) = (i \<in> sv_id ` set (onlineServers servers))"
| "allowed_direct_edit servers (DirectFingerprint v) = (v \<in> set fingerprints)"
| "allowed_direct_edit servers e = True"

fun allowed_add_edit :: "add_edit \<Rightarrow> bool" where
  "allowed_add_edit (AddExpiry n) = (n \<in> set bootstrapExpiryOptions)"
| "allowed_add_edit e = True"

fun allowed_line_edit :: "line_state \<Rightarrow> line_edit \<Rightarrow> bool" where
  "allowed_line_edit x LineDone = line_done_enabled x"
| "allowed_line_edit x (LineMode m) = True"
| "allowed_line_edit x LineBack = True"
| "allowed_line_edit x LineForward = True"
| "allowed_line_edit x e = (ls_lineMode x = SelfMode)"

definition dialog_form_open :: "'r add_state \<Rightarrow> bool" where
  "dialog_form_open x \<longleftrightarrow> as_bootstrapResult x = None \<and> \<not> as_submitting x"

definition direct_form_open :: "'a product_page_scheme \<Rightarrow> bool" where
  "direct_form_open s \<longleftrightarrow> onlineServers (pg_servers s) \<noteq> [] \<and> ds_createResult (pg_direct s) = None
     \<and> ds_submitting (pg_direct s) = None"

text \<open>\<open>load\<close> is the page's \<^verbatim>\<open>loadData\<close>, which runs when the page is mounted and on completion.\<close>

inductive dialog_may ::
  "browser \<Rightarrow> ('a product_page_scheme act \<Rightarrow> (jsstr option \<Rightarrow> 'a product_page_scheme act) \<Rightarrow> 'a product_page_scheme act)
   \<Rightarrow> 'a line_props \<Rightarrow> 'a product_page_scheme \<Rightarrow> 'a product_page_scheme act \<Rightarrow> bool" for b load props where
  MountPage: "dialog_may b load props s (load finished unhandled)"
| CloseDialog: "pg_activeModal s \<noteq> None
    \<Longrightarrow> dialog_may b load props s (\<lambda>s. finished (setActiveModal props None s))"
| LandingInput: "mounted ModalLanding i s \<Longrightarrow> dialog_form_open (pg_landing s) \<Longrightarrow> allowed_add_edit e
    \<Longrightarrow> dialog_may b load props s (\<lambda>s. finished (on_landing i (edit_add e) s))"
| LandingSubmit: "mounted ModalLanding i s \<Longrightarrow> dialog_form_open (pg_landing s)
    \<Longrightarrow> dialog_may b load props s
      (handleSubmit_add landing_texts landing_bootstrap_request as_vps_bootstrap (on_landing i) load (pg_landing s))"
| LandingCopy: "mounted ModalLanding i s \<Longrightarrow> as_bootstrapResult (pg_landing s) \<noteq> None
    \<Longrightarrow> dialog_may b load props s
      (handleCopyCommand_add landing_texts b vb_install_command (on_landing i) (pg_landing s))"
| LandingReset: "mounted ModalLanding i s \<Longrightarrow> as_bootstrapResult (pg_landing s) \<noteq> None
    \<Longrightarrow> dialog_may b load props s (\<lambda>s. finished (on_landing i (resetForm_add landing_texts) s))"
| TransitInput: "mounted ModalTransit i s \<Longrightarrow> dialog_form_open (pg_transit s) \<Longrightarrow> allowed_add_edit e
    \<Longrightarrow> dialog_may b load props s (\<lambda>s. finished (on_transit i (edit_add e) s))"
| TransitSubmit: "mounted ModalTransit i s \<Longrightarrow> dialog_form_open (pg_transit s)
    \<Longrightarrow> dialog_may b load props s
      (handleSubmit_add transit_texts transit_bootstrap_request_of as_transit_bootstrap (on_transit i) load (pg_transit s))"
| TransitCopy: "mounted ModalTransit i s \<Longrightarrow> as_bootstrapResult (pg_transit s) \<noteq> None
    \<Longrightarrow> dialog_may b load props s
      (handleCopyCommand_add transit_texts b tb_install_command (on_transit i) (pg_transit s))"
| TransitReset: "mounted ModalTransit i s \<Longrightarrow> as_bootstrapResult (pg_transit s) \<noteq> None
    \<Longrightarrow> dialog_may b load props s (\<lambda>s. finished (on_transit i (resetForm_add transit_texts) s))"
| LineInput: "pg_activeModal s = Some ModalTransitLine \<Longrightarrow> allowed_line_edit (pg_line s) le
    \<Longrightarrow> dialog_may b load props s (\<lambda>s. finished (on_line (edit_line le) s))"
| DirectInput: "mounted ModalDirect i s \<Longrightarrow> direct_form_open s \<Longrightarrow> allowed_direct_edit (pg_servers s) de
    \<Longrightarrow> dialog_may b load props s (\<lambda>s. finished (on_direct i (edit_direct de) s))"
| DirectText: "mounted ModalDirect i s \<Longrightarrow> direct_form_open s \<Longrightarrow> planReady (pg_direct s)
    \<Longrightarrow> dialog_may b load props s (\<lambda>s. finished (on_direct i (\<lambda>x. x\<lparr>ds_exactConfirm := v\<rparr>) s))"
| DirectPlan: "mounted ModalDirect i s \<Longrightarrow> canRequestPlan (pg_servers s) (pg_direct s)
    \<Longrightarrow> dialog_may b load props s (handlePlan (on_direct i) (pg_servers s) (pg_direct s))"
| DirectCreate: "mounted ModalDirect i s \<Longrightarrow> canCreate (pg_servers s) (pg_direct s)
    \<Longrightarrow> dialog_may b load props s (handleCreate (on_direct i) load (pg_servers s) (pg_direct s))"

text \<open>A dialog covers its page, so another one can be opened only when none is open.\<close>

inductive resources_may :: "browser \<Rightarrow> resources_page \<Rightarrow> resources_page act \<Rightarrow> bool" for b where
  InDialog: "dialog_may b loadData_resources resources_line_props s a \<Longrightarrow> resources_may b s a"
| ToggleMenu: "pg_activeModal s = None \<Longrightarrow> resources_may b s (\<lambda>s. finished (s\<lparr>rp_menuOpen := \<not> rp_menuOpen s\<rparr>))"
| MenuItem: "pg_activeModal s = None \<Longrightarrow> rp_menuOpen s \<Longrightarrow> m \<in> {ModalLanding, ModalTransit}
    \<Longrightarrow> resources_may b s (\<lambda>s. finished (openModal_resources m s))"
| CardButton: "pg_activeModal s = None
    \<Longrightarrow> resources_may b s (\<lambda>s. finished (setActiveModal resources_line_props (Some m) s))"
| SelectTab: "resources_may b s (\<lambda>s. finished (s\<lparr>rp_activeTab := t\<rparr>))"
| SetDetail: "resources_may b s (\<lambda>s. finished (s\<lparr>rp_detailTarget := d\<rparr>))"

inductive builder_may :: "browser \<Rightarrow> builder_page \<Rightarrow> builder_page act \<Rightarrow> bool" for b where
  InBuilderDialog: "dialog_may b loadData_builder builder_line_props s a \<Longrightarrow> builder_may b s a"
| BuilderButton: "pg_activeModal s = None
    \<Longrightarrow> builder_may b s (\<lambda>s. finished (setActiveModal builder_line_props (Some m) s))"

end
