(* ===== verification/AsyncMinds.thy ===== *)
theory AsyncMinds
  imports AsyncConduct
begin

text \<open>
  An invariant and a set of permitted effects at once: \<open>minds I A Q c\<close> says that the state of
  \<open>c\<close> satisfies \<open>I\<close> if \<open>Q\<close>, that the waiting tasks of \<open>c\<close> preserve \<open>I\<close>, and that they ask
  for effects in \<open>A\<close> only.
\<close>

definition minds :: "('s \<Rightarrow> bool) \<Rightarrow> effect set \<Rightarrow> bool \<Rightarrow> 's \<times> 's task list \<Rightarrow> bool" where
  "minds I A Q = does (\<lambda>s s'. I s \<longrightarrow> I s') A (\<lambda>s. Q \<longrightarrow> I s)"

named_theorems minds_intros \<open>how acts are built from acts that mind an invariant and a set of effects\<close>

lemma minds_finished [minds_intros]: "(Q \<longrightarrow> I s) \<Longrightarrow> minds I A Q (finished s)"
  unfolding minds_def by (rule does_finished)

lemma minds_unhandled [minds_intros]: "(Q \<longrightarrow> I s) \<Longrightarrow> minds I A Q (unhandled e s)"
  unfolding minds_def by (rule does_unhandled)

lemma minds_call [minds_intros]:
  "(Q \<longrightarrow> I s) \<Longrightarrow> e \<in> A \<Longrightarrow> (\<And>x s R. (R \<longrightarrow> I s) \<Longrightarrow> minds I A R (k x s)) \<Longrightarrow> minds I A Q (call e as k s)"
  unfolding minds_def by (intro does_call) auto

lemma minds_fetch [minds_intros]:
  "(Q \<longrightarrow> I s) \<Longrightarrow> Http q \<in> A \<Longrightarrow> (\<And>r s R. (R \<longrightarrow> I s) \<Longrightarrow> minds I A R (k r s))
    \<Longrightarrow> (\<And>e s R. (R \<longrightarrow> I s) \<Longrightarrow> minds I A R (h e s)) \<Longrightarrow> minds I A Q (fetch q as k h s)"
  unfolding minds_def by (intro does_fetch) auto

lemma minds_call_all [minds_intros]:
  "(Q \<longrightarrow> I s) \<Longrightarrow> set es \<subseteq> A \<Longrightarrow> (\<And>x s R. (R \<longrightarrow> I s) \<Longrightarrow> minds I A R (k x s))
    \<Longrightarrow> minds I A Q (call_all es as k s)"
  unfolding minds_def by (intro does_call_all) auto

lemma minds_alongside [minds_intros]:
  "minds I A Q (f s) \<Longrightarrow> (\<And>s R. (R \<longrightarrow> I s) \<Longrightarrow> minds I A R (k s)) \<Longrightarrow> minds I A Q (alongside f k s)"
  unfolding minds_def by (intro does_alongside) auto

lemma minds_implied: "minds I A Q c \<Longrightarrow> (R \<longrightarrow> Q) \<Longrightarrow> minds I A R c"
  by (auto simp: minds_def does_def)

lemma system_minds:
  assumes "system_reach may s0 c" and "I s0" and "\<And>s a. may s a \<Longrightarrow> I s \<Longrightarrow> minds I A (I s) (a s)"
  shows "minds I A True c"
proof -
  have "does (\<lambda>s s'. I s \<longrightarrow> I s') A I c"
    by (rule system_conducts [where I = I, OF assms(1,2)]) (use assms(3) in \<open>auto simp: minds_def does_def\<close>)
  then show ?thesis by (simp add: minds_def)
qed

lemma mindsD:
  assumes "minds I A True (s, ts)" shows "I s" and "t \<in> set ts \<Longrightarrow> asks t \<subseteq> A"
  using assms by (auto simp: minds_def does_def dest: conducts_asks)

end
