(* ===== verification/ProductPagesSystem.thy ===== *)
theory ProductPagesSystem
  imports ProductPages AsyncMinds
begin

text \<open>
  The two product pages as systems of interleaved handlers. A dialog and its page rely on each other
  through a contract: the page's updates reach the dialog's state only while it is mounted, and the
  dialog's updates keep what the page's invariant says of it.
\<close>

subsection \<open>The contract between a dialog and its page\<close>

definition add_typed :: "'r add_state \<Rightarrow> bool" where
  "add_typed x \<longleftrightarrow> as_step x \<le> 2 \<and> as_expiresInMinutes x \<in> set bootstrapExpiryOptions"

definition direct_typed :: "direct_state \<Rightarrow> bool" where
  "direct_typed x \<longleftrightarrow> ds_step x \<le> 5 \<and> ds_fingerprint x \<in> set fingerprints
     \<and> (ds_planResult x = None \<and> ds_createResult x = None \<longrightarrow> ds_exactConfirm x = [])"

locale dialog_host =
  fixes I :: "'s \<Rightarrow> bool" and A :: "effect set"
    and J :: "'m \<Rightarrow> bool" and upd :: "('m \<Rightarrow> 'm) \<Rightarrow> 's \<Rightarrow> 's"
    and completed :: "'s act \<Rightarrow> (jsstr option \<Rightarrow> 's act) \<Rightarrow> 's act"
  assumes updated: "(\<And>m. J m \<Longrightarrow> J (f m)) \<Longrightarrow> I s \<Longrightarrow> I (upd f s)"
    and reads: "Http (get_request p) \<in> A" and copies: "Clipboard t \<in> A"
    and completes: "(Q \<longrightarrow> I s) \<Longrightarrow> (\<And>s R. (R \<longrightarrow> I s) \<Longrightarrow> minds I A R (k s))
      \<Longrightarrow> (\<And>e s R. (R \<longrightarrow> I s) \<Longrightarrow> minds I A R (h e s)) \<Longrightarrow> minds I A Q (completed k h s)"
begin

lemma minds_csrf:
  assumes "Q \<longrightarrow> I s" and "\<And>t s R. (R \<longrightarrow> I s) \<Longrightarrow> minds I A R (k t s)"
    and "\<And>e s R. (R \<longrightarrow> I s) \<Longrightarrow> minds I A R (h e s)"
  shows "minds I A Q (fetchCsrfToken k h s)"
  unfolding fetchCsrfToken_def using assms
  by (intro minds_fetch reads) (auto split: api_response.split)

lemma minds_copy:
  assumes "Q \<longrightarrow> I s" and "\<And>c s R. (R \<longrightarrow> I s) \<Longrightarrow> minds I A R (k c s)"
    and "\<And>e s R. (R \<longrightarrow> I s) \<Longrightarrow> minds I A R (h e s)"
  shows "minds I A Q (copyText_modal b v k h s)"
  unfolding copyText_modal_def using assms
  by (auto intro!: minds_call copies split: settled.split)

lemma minds_updated: "(Q \<longrightarrow> I s) \<Longrightarrow> (\<And>m. J m \<Longrightarrow> J (f m)) \<Longrightarrow> minds I A Q (finished (upd f s))"
  by (auto intro!: minds_finished updated)

end

locale add_host = dialog_host I A "add_typed :: 'r add_state \<Rightarrow> bool" upd completed
  for I :: "'s \<Rightarrow> bool" and A and upd :: "('r add_state \<Rightarrow> 'r add_state) \<Rightarrow> 's \<Rightarrow> 's" and completed
begin

lemma says: "I s \<Longrightarrow> I (upd (add_says m) s)"
  by (rule updated) (simp_all add: add_typed_def add_says_def)

lemma submitting: "I s \<Longrightarrow> I (upd (\<lambda>x. x\<lparr>as_submitting := v\<rparr>) s)"
  "I s \<Longrightarrow> I (upd (\<lambda>x. x\<lparr>as_submitting := v, as_copied := c, as_message := m\<rparr>) s)"
  by (erule updated [rotated], simp add: add_typed_def)+

lemma answered: "I s \<Longrightarrow> I (upd (\<lambda>x. x\<lparr>as_bootstrapResult := r, as_step := Suc 0, as_message := m\<rparr>) s)"
  by (erule updated [rotated], simp add: add_typed_def)

lemma minds_submit:
  assumes "Q \<longrightarrow> I s" and "\<And>n i f t. n \<noteq> [] \<Longrightarrow> i \<noteq> [] \<Longrightarrow> f \<noteq> [] \<Longrightarrow> t \<noteq> []
    \<Longrightarrow> Http (request n i f (as_expiresInMinutes x) t) \<in> A"
  shows "minds I A Q (handleSubmit_add T request as upd completed x s)"
proof -
  have over: "minds I A R (finished (upd (\<lambda>x. x\<lparr>as_submitting := False\<rparr>) s))" if "R \<longrightarrow> I s" for R s
    using that by (intro minds_finished) (auto intro: submitting)
  show ?thesis
    unfolding handleSubmit_add_def Let_def using assms
    by (auto intro!: minds_csrf minds_fetch completes over minds_finished says submitting answered
        simp: blank_def simp del: split_paired_All split: api_response.split option.splits)
qed

lemma minds_copy_command:
  "(Q \<longrightarrow> I s) \<Longrightarrow> minds I A Q (handleCopyCommand_add T b ic upd x s)"
  unfolding handleCopyCommand_add_def
  by (auto intro!: minds_copy minds_updated simp: add_typed_def add_says_def split: option.split)

end

locale direct_host = dialog_host I A direct_typed upd completed
  for I :: "'s \<Rightarrow> bool" and A and upd and completed
begin

lemma says: "I s \<Longrightarrow> I (upd (direct_says m) s)"
  by (rule updated) (simp_all add: direct_typed_def direct_says_def)

lemma submitting: "I s \<Longrightarrow> I (upd (\<lambda>x. x\<lparr>ds_submitting := v\<rparr>) s)"
  "I s \<Longrightarrow> I (upd (\<lambda>x. x\<lparr>ds_submitting := v, ds_message := m\<rparr>) s)"
  by (erule updated [rotated], simp add: direct_typed_def)+

lemma answered:
  "I s \<Longrightarrow> I (upd (receive_plan p) s)"
  "I s \<Longrightarrow> I (upd (\<lambda>x. x\<lparr>ds_createResult := Some r, ds_step := 5, ds_message := m\<rparr>) s)"
  by (erule updated [rotated], simp add: direct_typed_def receive_plan_def)+

lemma minds_end: "(Q \<longrightarrow> I s) \<Longrightarrow> minds I A Q (end_direct upd s)"
  unfolding end_direct_def by (intro minds_finished) (auto intro: submitting)

lemma minds_plan:
  assumes "Q \<longrightarrow> I s" and "\<And>sv t. plan_guard servers x = Inr sv \<Longrightarrow> t \<noteq> []
    \<Longrightarrow> Http (createLandingNodePlan (sv_id sv) (json_node_plan_request (direct_plan_request servers x)) t) \<in> A"
  shows "minds I A Q (handlePlan upd servers x s)"
  unfolding handlePlan_def Let_def using assms
  by (auto intro!: minds_csrf minds_fetch minds_end minds_finished says submitting answered
      simp: blank_def split: api_response.split option.splits sum.split)

lemma minds_create:
  assumes "Q \<longrightarrow> I s" and "\<And>sv t. create_guard servers x = Inr sv \<Longrightarrow> t \<noteq> []
    \<Longrightarrow> Http (createLandingNodeExecution (sv_id sv) (json_node_create_request (direct_create_request servers x)) t) \<in> A"
  shows "minds I A Q (handleCreate upd completed servers x s)"
  unfolding handleCreate_def Let_def using assms
  by (auto intro!: minds_csrf minds_fetch completes minds_end minds_finished says submitting answered
      simp: blank_def split: api_response.split option.splits sum.split)

end

subsection \<open>The pages keep the contract\<close>

text \<open>
  The requests of a page: reads; installation commands with complete fields and one of the offered
  lifetimes; a plan for a node whose guards passed; and a creation made from a plan that is ready, for
  its server and its port, with everything confirmed and the text typed.
\<close>

inductive_set page_requests :: "api_request set" where
  Read: "get_request p \<in> page_requests"
| InstallLanding: "n \<noteq> [] \<Longrightarrow> i \<noteq> [] \<Longrightarrow> f \<noteq> [] \<Longrightarrow> t \<noteq> [] \<Longrightarrow> m \<in> set bootstrapExpiryOptions
    \<Longrightarrow> landing_bootstrap_request n i f m t \<in> page_requests"
| InstallTransit: "n \<noteq> [] \<Longrightarrow> i \<noteq> [] \<Longrightarrow> f \<noteq> [] \<Longrightarrow> t \<noteq> [] \<Longrightarrow> m \<in> set bootstrapExpiryOptions
    \<Longrightarrow> transit_bootstrap_request_of n i f m t \<in> page_requests"
| PlanNode: "plan_guard servers x = Inr sv \<Longrightarrow> t \<noteq> []
    \<Longrightarrow> createLandingNodePlan (sv_id sv) (json_node_plan_request (direct_plan_request servers x)) t \<in> page_requests"
| CreateNode: "ds_planResult x = Some p \<Longrightarrow> plan_ready p \<Longrightarrow> np_listen_port p = parsedPort x
    \<Longrightarrow> np_server_id p \<in> sv_id ` set (onlineServers servers) \<Longrightarrow> validateDirectNodePort (ds_port x) = None
    \<Longrightarrow> allDirectNodeConfirmationsChecked (ds_confirmations x) \<Longrightarrow> ds_exactConfirm x = DIRECT_NODE_CONFIRM_TEXT
    \<Longrightarrow> t \<noteq> []
    \<Longrightarrow> createLandingNodeExecution (np_server_id p) (json_node_create_request (direct_create_request servers x)) t
          \<in> page_requests"

definition page_effects :: "effect set" where
  "page_effects = Http ` page_requests \<union> range Clipboard"

lemma page_effects_simps [simp]: "Http q \<in> page_effects \<longleftrightarrow> q \<in> page_requests" "Clipboard t \<in> page_effects"
  by (auto simp: page_effects_def)

text \<open>
  The invariant: the dialogs are well-formed, and the state of a dialog that is not mounted is
  as when it was never opened. In particular no installation command is kept.
\<close>

definition page_inv :: "'a product_page_scheme \<Rightarrow> bool" where
  "page_inv s \<longleftrightarrow> add_typed (pg_landing s) \<and> add_typed (pg_transit s) \<and> direct_typed (pg_direct s)
     \<and> ls_step (pg_line s) < length transitLineSteps
     \<and> (pg_activeModal s \<noteq> Some ModalLanding \<longrightarrow> pg_landing s = add_initial landing_texts)
     \<and> (pg_activeModal s \<noteq> Some ModalTransit \<longrightarrow> pg_transit s = add_initial transit_texts)
     \<and> (pg_activeModal s \<noteq> Some ModalDirect \<longrightarrow> pg_direct s = direct_initial [])"

lemma initial_dialogs [simp]:
  "add_typed (add_initial T)" "direct_typed (direct_initial svs)" "ls_step (line_initial rs ns) = 0"
  "transitLineSteps \<noteq> []"
  by (simp_all add: add_typed_def add_initial_def bootstrapExpiryOptions_def direct_typed_def
      direct_initial_def fingerprints_def line_initial_def transitLineSteps_def)

lemma effect_typed [simp]: "direct_typed (direct_effect svs x) \<longleftrightarrow> direct_typed x"
  by (simp add: direct_effect_def direct_typed_def split: list.split)

lemma page_dialogs:
  "(\<And>m. add_typed m \<Longrightarrow> add_typed (f m)) \<Longrightarrow> page_inv s \<Longrightarrow> page_inv (on_landing i f s)"
  "(\<And>m. add_typed m \<Longrightarrow> add_typed (g m)) \<Longrightarrow> page_inv s \<Longrightarrow> page_inv (on_transit i g s)"
  "(\<And>m. direct_typed m \<Longrightarrow> direct_typed (h m)) \<Longrightarrow> page_inv s \<Longrightarrow> page_inv (on_direct i h s)"
  by (auto simp: page_inv_def on_landing_def on_transit_def on_direct_def mounted_def)

lemma page_modal: "page_inv s \<Longrightarrow> page_inv (setActiveModal props m s)"
  by (simp add: page_inv_def setActiveModal_def unmount_dialogs_def)

lemma page_received:
  "page_inv s \<Longrightarrow> page_inv (receive_servers ra s)"
  "page_inv s \<Longrightarrow> page_inv (receive_page_nodes rb s)"
  "page_inv s \<Longrightarrow> page_inv (receive_page_resources rc s)"
  "page_inv s \<Longrightarrow> page_inv (s\<lparr>pg_message := m\<rparr>)"
  by (auto simp: page_inv_def receive_servers_def receive_page_nodes_def receive_page_resources_def
      split: api_response.split)

lemma builder_received:
  "page_inv s \<Longrightarrow> page_inv (receive_page_routes rd s)" "page_inv s \<Longrightarrow> page_inv (receive_page_tasks re s)"
  by (auto simp: page_inv_def receive_page_routes_def receive_page_tasks_def split: api_response.split)

lemma minds_load_resources:
  assumes "Q \<longrightarrow> page_inv s" and "\<And>s R. (R \<longrightarrow> page_inv s) \<Longrightarrow> minds page_inv page_effects R (k s)"
    and "\<And>e s R. (R \<longrightarrow> page_inv s) \<Longrightarrow> minds page_inv page_effects R (h e s)"
  shows "minds page_inv page_effects Q (loadData_resources k h s)"
  unfolding loadData_resources_def using assms
  by (intro minds_call_all) (auto intro!: assms page_received page_requests.Read split: settled.split)

lemma minds_load_builder:
  assumes "Q \<longrightarrow> page_inv s" and "\<And>s R. (R \<longrightarrow> page_inv s) \<Longrightarrow> minds page_inv page_effects R (k s)"
    and "\<And>e s R. (R \<longrightarrow> page_inv s) \<Longrightarrow> minds page_inv page_effects R (h e s)"
  shows "minds page_inv page_effects Q (loadData_builder k h s)"
  unfolding loadData_builder_def using assms
  by (intro minds_call_all) (auto intro!: assms page_received builder_received page_requests.Read split: settled.split)

locale product_host =
  fixes load :: "'a product_page_scheme act \<Rightarrow> (jsstr option \<Rightarrow> 'a product_page_scheme act)
    \<Rightarrow> 'a product_page_scheme act"
  assumes loads: "(Q \<longrightarrow> page_inv s) \<Longrightarrow> (\<And>s R. (R \<longrightarrow> page_inv s) \<Longrightarrow> minds page_inv page_effects R (k s))
      \<Longrightarrow> (\<And>e s R. (R \<longrightarrow> page_inv s) \<Longrightarrow> minds page_inv page_effects R (h e s))
      \<Longrightarrow> minds page_inv page_effects Q (load k h s)"

sublocale product_host \<subseteq> landing: add_host page_inv page_effects "on_landing i" load for i
  by unfold_locales (simp_all add: page_dialogs loads page_requests.Read)

sublocale product_host \<subseteq> transit: add_host page_inv page_effects "on_transit i" load for i
  by unfold_locales (simp_all add: page_dialogs loads page_requests.Read)

sublocale product_host \<subseteq> direct: direct_host page_inv page_effects "on_direct i" load for i
  by unfold_locales (simp_all add: page_dialogs loads page_requests.Read)

lemma edits_typed:
  "allowed_add_edit e \<Longrightarrow> add_typed x \<Longrightarrow> add_typed (edit_add e x)"
  "add_typed x \<Longrightarrow> add_typed (resetForm_add T x)"
  "allowed_direct_edit svs de \<Longrightarrow> direct_typed y \<Longrightarrow> direct_typed (edit_direct de y)"
  "planReady y \<Longrightarrow> direct_typed y \<Longrightarrow> direct_typed (y\<lparr>ds_exactConfirm := v\<rparr>)"
proof -
  show "allowed_add_edit e \<Longrightarrow> add_typed x \<Longrightarrow> add_typed (edit_add e x)"
    by (cases e) (simp_all add: add_typed_def)
  show "add_typed x \<Longrightarrow> add_typed (resetForm_add T x)" by (simp add: add_typed_def resetForm_add_def)
  show "allowed_direct_edit svs de \<Longrightarrow> direct_typed y \<Longrightarrow> direct_typed (edit_direct de y)"
    by (cases de) (auto simp: direct_typed_def markConfigDirty_def)
  show "planReady y \<Longrightarrow> direct_typed y \<Longrightarrow> direct_typed (y\<lparr>ds_exactConfirm := v\<rparr>)"
    by (auto simp: direct_typed_def planReady_def split: option.splits)
qed

lemma line_typed:
  "allowed_line_edit x e \<Longrightarrow> ls_step x < length transitLineSteps \<Longrightarrow> ls_step (edit_line e x) < length transitLineSteps"
  by (cases e) (auto simp: transitLineSteps_def)

lemma created_request:
  assumes "create_guard servers x = Inr sv" and "t \<noteq> []"
  shows "createLandingNodeExecution (sv_id sv) (json_node_create_request (direct_create_request servers x)) t
    \<in> page_requests"
proof -
  obtain p where p: "ds_planResult x = Some p" "plan_ready p" "np_server_id p = sv_id sv"
    "np_listen_port p = parsedPort x" "sv \<in> set (onlineServers servers)"
    "validateDirectNodePort (ds_port x) = None" "allDirectNodeConfirmationsChecked (ds_confirmations x)"
    "ds_exactConfirm x = DIRECT_NODE_CONFIRM_TEXT"
    using create_guard_ok [OF assms(1)] by blast
  have "np_server_id p \<in> sv_id ` set (onlineServers servers)" using p(3,5) by simp
  from page_requests.CreateNode [OF p(1,2,4) this p(6,7,8) assms(2)] show ?thesis by (simp add: p(3))
qed

context product_host begin

lemma minds_dialog:
  assumes "dialog_may b load props s a" and inv: "page_inv s"
  shows "minds page_inv page_effects True (a s)"
  using assms
proof (induction rule: dialog_may.induct)
  case (LandingSubmit i s)
  then show ?case
    by (intro landing.minds_submit) (simp_all add: page_inv_def add_typed_def page_requests.InstallLanding)
next
  case (TransitSubmit i s)
  then show ?case
    by (intro transit.minds_submit) (simp_all add: page_inv_def add_typed_def page_requests.InstallTransit)
next
  case (DirectCreate i s)
  then show ?case
    by (intro direct.minds_create) (simp_all add: created_request)
next
  case (DirectText i s v)
  then show ?case
    by (intro minds_finished impI) (simp add: on_direct_def page_inv_def mounted_def edits_typed)
next
  case (MountPage s)
  then show ?case by (intro loads minds_finished minds_unhandled) simp_all
next
  case (CloseDialog s)
  then show ?case by (intro minds_finished impI page_modal)
next
  case (LandingInput i s e)
  then show ?case by (intro minds_finished impI page_dialogs edits_typed)
next
  case (LandingReset i s)
  then show ?case by (intro minds_finished impI page_dialogs edits_typed)
next
  case (TransitInput i s e)
  then show ?case by (intro minds_finished impI page_dialogs edits_typed)
next
  case (TransitReset i s)
  then show ?case by (intro minds_finished impI page_dialogs edits_typed)
next
  case (DirectInput i s de)
  then show ?case by (intro minds_finished impI page_dialogs edits_typed)
next
  case (LandingCopy i s)
  then show ?case by (intro landing.minds_copy_command impI)
next
  case (TransitCopy i s)
  then show ?case by (intro transit.minds_copy_command impI)
next
  case (DirectPlan i s)
  then show ?case by (intro direct.minds_plan) (simp_all add: page_requests.PlanNode)
next
  case (LineInput s le)
  then show ?case by (intro minds_finished impI) (simp add: on_line_def page_inv_def line_typed)
qed

end

interpretation resources: product_host loadData_resources
  by unfold_locales (rule minds_load_resources)

interpretation builder: product_host loadData_builder
  by unfold_locales (rule minds_load_builder)

lemma minds_resources: "resources_may b s a \<Longrightarrow> page_inv s \<Longrightarrow> minds page_inv page_effects True (a s)"
proof (induction rule: resources_may.induct)
  case (InDialog s a)
  then show ?case by (rule resources.minds_dialog)
qed (auto intro!: minds_finished page_modal simp: openModal_resources_def, auto simp: page_inv_def)

lemma minds_builder: "builder_may b s a \<Longrightarrow> page_inv s \<Longrightarrow> minds page_inv page_effects True (a s)"
proof (induction rule: builder_may.induct)
  case (InBuilderDialog s a)
  then show ?case by (rule builder.minds_dialog)
qed (auto intro!: minds_finished page_modal)

end
