(* ===== verification/ProductPagesRuns.thy ===== *)
theory ProductPagesRuns
  imports ProductPagesSystem TransitRouteRuns SampleServers
begin

text \<open>
  What holds in every run of the product pages, the list of recent creations, and a creation that
  is reported as failed.
\<close>

subsection \<open>Sample runs\<close>

abbreviation resources_reach :: "browser \<Rightarrow> resources_page \<times> resources_page task list \<Rightarrow> bool" where
  "resources_reach b \<equiv> system_reach (resources_may b) resources_page_initial"

abbreviation builder_reach :: "browser \<Rightarrow> builder_page \<times> builder_page task list \<Rightarrow> bool" where
  "builder_reach b \<equiv> system_reach (builder_may b) builder_page_initial"

definition adding_landing :: resources_page where
  "adding_landing = setActiveModal resources_line_props (Some ModalLanding) resources_page_initial"

definition filled_landing :: resources_page where
  "filled_landing = on_landing 1 (edit_add (AddIp (js ''203.0.113.9''))) (on_landing 1 (edit_add (AddName (js ''hk''))) adding_landing)"

lemma adding_landing_simps [simp]:
  "pg_activeModal adding_landing = Some ModalLanding" "pg_instance adding_landing = 1"
  "pg_landing adding_landing = add_initial landing_texts"
  by (simp_all add: adding_landing_def setActiveModal_def resources_page_initial_def unmount_dialogs_def)

lemma filled_landing_simps [simp]:
  "pg_activeModal filled_landing = Some ModalLanding" "pg_instance filled_landing = 1"
  "pg_landing filled_landing = (add_initial landing_texts)\<lparr>as_name := (js ''hk''), as_ip := (js ''203.0.113.9'')\<rparr>"
  by (simp_all add: filled_landing_def on_landing_def mounted_def)

lemma adding_landing_reach: "resources_reach b (adding_landing, [])"
proof -
  let ?a = "\<lambda>s. finished (setActiveModal resources_line_props (Some ModalLanding) s)"
  have "resources_may b resources_page_initial ?a"
    by (rule resources_may.CardButton) (simp add: resources_page_initial_def)
  from system_act [of "resources_may b" resources_page_initial resources_page_initial ?a, OF system_reach.initial this]
  show ?thesis by (simp add: adding_landing_def finished_def)
qed

lemma landing_edit_reach:
  assumes "resources_reach b (s, [])" and "mounted ModalLanding i s" and "dialog_form_open (pg_landing s)"
    and "allowed_add_edit e"
  shows "resources_reach b (on_landing i (edit_add e) s, [])"
  by (rule system_act [OF assms(1) resources_may.InDialog [OF dialog_may.LandingInput [OF assms(2-4)]]])
    (simp add: finished_def)

lemma filled_landing_reach: "resources_reach b (filled_landing, [])"
proof -
  have "resources_reach b (on_landing 1 (edit_add (AddName (js ''hk''))) adding_landing, [])"
    by (rule landing_edit_reach [OF adding_landing_reach])
      (simp_all add: mounted_def dialog_form_open_def add_initial_def)
  then show ?thesis
    unfolding filled_landing_def
    by (rule landing_edit_reach) (simp_all add: mounted_def dialog_form_open_def on_landing_def, simp_all add: add_initial_def)
qed

definition asking_command :: "resources_page \<times> resources_page task list" where
  "asking_command =
     handleSubmit_add landing_texts landing_bootstrap_request as_vps_bootstrap (on_landing 1)
       loadData_resources (pg_landing filled_landing) filled_landing"

lemma asking_command_reach: "resources_reach b asking_command"
  unfolding asking_command_def
  by (rule system_act [OF filled_landing_reach resources_may.InDialog [OF dialog_may.LandingSubmit]])
    (simp_all add: mounted_def dialog_form_open_def add_initial_def)

lemma trimmed_samples [simp]: "trim (js ''hk'') = (js ''hk'')" "trim (js ''203.0.113.9'') = (js ''203.0.113.9'')" "trim (js ''ens17'') = (js ''ens17'')"
  by (simp_all add: trim_def trim_start_def is_space_def js_def)

lemma asking_command_asks:
  "\<exists>c. run_events [Reply 0 (RCsrf (Resolved (ApiSuccess (js ''token'') [])))] asking_command = Some c
     \<and> (\<exists>t \<in> set (snd c). Http (landing_bootstrap_request (js ''hk'') (js ''203.0.113.9'') (js ''ens17'') 60 (js ''token'')) \<in> asks t)"
  by (simp add: asking_command_def handleSubmit_add_def fetchCsrfToken_def run_fetch add_initial_def Let_def act_simps
      perform_def)

subsection \<open>Properties of all runs\<close>






subsection \<open>Recent creations\<close>

lemma insert_by_cong:
  "(\<And>y. y \<in> set ys \<Longrightarrow> c x y = d x y) \<Longrightarrow> insert_by c x ys = insert_by d x ys"
  by (induction ys) auto

lemma sort_by_cong:
  "(\<And>x y. x \<in> set xs \<Longrightarrow> y \<in> set xs \<Longrightarrow> c x y = d x y) \<Longrightarrow> sort_by c xs = sort_by d xs"
proof (induction xs)
  case (Cons x xs)
  have "insert_by c x (sort_by c xs) = insert_by d x (sort_by c xs)"
    by (rule insert_by_cong) (use Cons.prems in auto)
  then show ?case using Cons by (simp add: sort_by_def)
qed (simp add: sort_by_def)

definition time_of :: "browser \<Rightarrow> recent_item \<Rightarrow> int" where
  "time_of b x = (case created_time b x of Some t \<Rightarrow> t | None \<Rightarrow> 0)"

text \<open>
  When every creation date can be read, the builder page lists the latest
  creations among the active nodes, the active routes and the transit servers: at most four, each
  one an item, newest first, and no item that is left out is newer than one that is shown.
\<close>

theorem recent_created_is_latest:
  assumes "list_all (\<lambda>x. created_time b x \<noteq> None) (recent_items s)"
  shows "\<exists>rest. mset (recentCreated b s @ rest) = mset (recent_items s)
    \<and> length (recentCreated b s) = min 4 (length (recent_items s))
    \<and> sorted_wrt (\<lambda>x y. time_of b y \<le> time_of b x) (recentCreated b s @ rest)"
proof -
  let ?d = "\<lambda>x y. time_of b y - time_of b x"
  have same: "newest_first b x y = ?d x y" if "x \<in> set (recent_items s)" "y \<in> set (recent_items s)" for x y
  proof -
    have "created_time b x \<noteq> None" "created_time b y \<noteq> None"
      using assms that by (auto simp: list_all_iff)
    then obtain t u where "created_time b x = Some t" "created_time b y = Some u" by auto
    then show ?thesis by (simp add: newest_first_def time_of_def)
  qed
  have sorted: "sort_by (newest_first b) (recent_items s) = sort_by ?d (recent_items s)"
    by (rule sort_by_cong [OF same])
  have "collation ?d" by (simp add: collation_def)
  from sorted_sort_by [OF this, of "recent_items s"]
  have "sorted_wrt (\<lambda>x y. time_of b y \<le> time_of b x) (sort_by (newest_first b) (recent_items s))"
    by (simp add: sorted)
  moreover have "length (sort_by (newest_first b) (recent_items s)) = length (recent_items s)"
    by (metis mset_sort_by size_mset)
  ultimately show ?thesis
    by (intro exI [of _ "drop 4 (sort_by (newest_first b) (recent_items s))"]) (auto simp: recentCreated_def)
qed

definition nodes_page :: builder_page where
  "nodes_page = builder_page_initial\<lparr>pg_nodes := [sample_node, sample_node\<lparr>nd_created_at := Some (js ''2026-01-01'')\<rparr>]\<rparr>"

theorem recent_created_is_latest_witness:
  "\<exists>rest. mset (recentCreated sample_browser nodes_page @ rest) = mset (recent_items nodes_page)
     \<and> length (recentCreated sample_browser nodes_page) = 2"
proof -
  have "list_all (\<lambda>x. created_time sample_browser x \<noteq> None) (recent_items nodes_page)"
    and "length (recent_items nodes_page) = 2"
    by (simp_all add: recent_items_def nodes_page_def activeNodes_builder_def activeRoutes_def
        visibleTransitResources_def builder_page_initial_def sample_node_def created_time_def sample_browser_def)
  then show ?thesis using recent_created_is_latest [of sample_browser nodes_page] by auto
qed

subsection \<open>A creation that is reported as failed\<close>

definition creation_answers :: "node_created \<Rightarrow> jsstr \<Rightarrow> event list" where
  "creation_answers r e =
     [Reply 0 (RCsrf (Resolved (ApiSuccess (js ''token'') []))),
      Reply 0 (RNodeCreate (Resolved (ApiSuccess r []))),
      ReplyAll 0 [RServers (Rejected (Some e)), RNodes (Rejected (Some e)), RResources (Rejected (Some e))]]"

text \<open>
  C29 (functional). After the command of a direct node has been created, the dialog waits
  for the page to reload its lists; if that fails, the dialog shows the result of the creation together with the
  error of the reload in place of the message that the command has been created.
\<close>

theorem created_node_is_reported_as_error:
  assumes "mounted ModalDirect i s" and "create_guard (pg_servers s) (pg_direct s) = Inr sv"
  shows "\<exists>s'. run_events (creation_answers r e)
      (handleCreate (on_direct i) loadData_resources (pg_servers s) (pg_direct s) s) = Some (s', [])
    \<and> ds_createResult (pg_direct s') = Some r \<and> ds_message (pg_direct s') = e
    \<and> ds_submitting (pg_direct s') = None"
proof -
  have m: "mounted ModalDirect i (t\<lparr>pg_direct := x\<rparr>) = mounted ModalDirect i t" for t :: resources_page and x
    by (simp add: mounted_def)
  have load: "perform (ReplyAll 0 [RServers (Rejected (Some e)), RNodes (Rejected (Some e)), RResources (Rejected (Some e))])
      (loadData_resources k h t) = Some (h (Some e) t)" for k h t
    by (simp add: loadData_resources_def act_simps perform_def as_resources_page_def)
  show ?thesis
    using assms
    by (simp add: creation_answers_def handleCreate_def Let_def fetchCsrfToken_def run_fetch load on_direct_def m
        end_direct_def finished_def error_text_def direct_says_def)
qed

definition confirmed_direct :: direct_state where
  "confirmed_direct = (direct_initial [sample_landing (js ''v1'') []])
     \<lparr>ds_confirmations := (\<lambda>k. True), ds_exactConfirm := DIRECT_NODE_CONFIRM_TEXT,
      ds_planResult := Some
    \<lparr>np_plan_id = [], np_server_id = (js ''v1''), np_mode = [], np_ready = True,
      np_will_install_xray = False, np_will_create_config = False, np_will_open_local_firewall = False,
      np_will_modify_cloud_security_group = False, np_listen_port = 28917, np_protocol = [],
      np_security = [], np_flow = [], np_server_name = [], np_dest = [], np_fingerprint = [],
      np_key_generation_strategy = JNull, np_required_user_confirmations = [],
      np_preflight_summary = JNull, np_warnings = [], np_blocked_reasons = [],
      np_next_stage_required = [], np_execution_guard = [], np_safety_boundary = []\<rparr>\<rparr>"

definition creating_direct :: resources_page where
  "creating_direct = resources_page_initial
     \<lparr>pg_activeModal := Some ModalDirect, pg_instance := 1,
      pg_servers := [sample_landing (js ''v1'') []], pg_direct := confirmed_direct\<rparr>"

lemma page_texts [simp]:
  "trim (js ''28917'') = (js ''28917'')" "all_digits (js ''28917'')" "digits_value (js ''28917'') = 28917"
  "trim (js ''www.cloudflare.com'') = (js ''www.cloudflare.com'')" "trim (js ''www.cloudflare.com:443'') = (js ''www.cloudflare.com:443'')"
  "trim (js ''chrome'') = (js ''chrome'')"
  by (simp_all add: trim_def trim_start_def is_space_def js_def all_digits_def is_digit_def digits_value_def)

lemma creating_direct_guard:
  "create_guard [sample_landing (js ''v1'') []] confirmed_direct = Inr (sample_landing (js ''v1'') [])"
  by (simp add: create_guard_def confirmed_direct_def direct_initial_def selectedServer_direct_def selected_or_first_def
      find_opt_def onlineServers_def first_id_def planReady_def plan_ready_def allDirectNodeConfirmationsChecked_def
      list_all_iff realityConfigMissing_def validateDirectNodePort_def parsedPort_def RESERVED_DIRECT_NODE_PORTS_def
      sample_landing_def)

definition created_direct :: node_created where
  "created_direct =
    \<lparr>nc_command_id = (js ''c1''), nc_command = done_command, nc_target_worker_id = (js ''w1''),
      nc_target_worker_version = None, nc_server_id = (js ''v1''), nc_approved_port = 28917, nc_status = (js ''pending''),
      nc_next_action = [], nc_safety_boundary = []\<rparr>"

theorem created_node_is_reported_as_error_witness:
  "\<exists>s'. run_events (creation_answers created_direct (js ''Failed to fetch''))
      (handleCreate (on_direct 1) loadData_resources [sample_landing (js ''v1'') []] confirmed_direct creating_direct) = Some (s', [])
    \<and> ds_createResult (pg_direct s') = Some created_direct \<and> ds_message (pg_direct s') = (js ''Failed to fetch'')"
proof -
  have "mounted ModalDirect 1 creating_direct" "pg_servers creating_direct = [sample_landing (js ''v1'') []]"
    "pg_direct creating_direct = confirmed_direct"
    by (simp_all add: creating_direct_def mounted_def)
  then show ?thesis
    using created_node_is_reported_as_error [of 1 creating_direct "sample_landing (js ''v1'') []" created_direct "(js ''Failed to fetch'')"]
      creating_direct_guard by auto
qed

end
