(* ===== verification/Shell.thy ===== *)
theory Shell
  imports TransitHelpers
begin

text \<open>
  The application shell: \<^verbatim>\<open>AppShell.tsx\<close> with its dashboard and settings,
  \<^verbatim>\<open>LoginScreen.tsx\<close>, and the three small panels \<^verbatim>\<open>LoginPanel.tsx\<close>,
  \<^verbatim>\<open>InitAdminPanel.tsx\<close> and \<^verbatim>\<open>SystemStatus.tsx\<close> that the shell does not show.

  The shell shows one of three views: the check of the session, the login screen, or the console
  with a panel. React mounts what a view shows anew whenever the view changes (\<open>commit\<close>), drops
  the state of what it no longer shows, and ignores what the handlers of a dropped component still set:
  \<open>sh_instance\<close> counts the views, and an update carries the number of the view it belongs to.
\<close>

subsection \<open>Panels\<close>

datatype panel_id =
    PanelDashboard | PanelLineBuilder | PanelCustomerLines | PanelServerResources | PanelTasks
  | PanelSettings | PanelAdvancedDebug

record panel_meta =
  pm_id :: panel_id
  pm_icon :: jsstr
  pm_tone :: jsstr
  pm_label :: jsstr
  pm_title :: jsstr
  pm_subtitle :: jsstr

definition panels :: "panel_meta list" where
  "panels =
     [\<lparr>pm_id = PanelDashboard, pm_icon = (js ''dashboard''), pm_tone = (js ''blue''), pm_label = (uni ''%u603B%u89C8''), pm_title = (uni ''%u603B%u89C8''),
       pm_subtitle = (uni ''%u67E5%u770B%u7EBF%u8DEF%u3001%u670D%u52A1%u5668%u548C%u5F85%u5904%u7406%u4E8B%u9879%u3002'')\<rparr>,
      \<lparr>pm_id = PanelLineBuilder, pm_icon = (js ''builder''), pm_tone = (js ''green''), pm_label = (uni ''%u7EBF%u8DEF%u642D%u5EFA''),
       pm_title = (uni ''%u7EBF%u8DEF%u642D%u5EFA''), pm_subtitle = (uni ''%u6309%u6B65%u9AA4%u51C6%u5907%u670D%u52A1%u5668%u5E76%u89C4%u5212%u76F4%u8FDE%u6216%u4E2D%u8F6C%u7EBF%u8DEF%u3002'')\<rparr>,
      \<lparr>pm_id = PanelCustomerLines, pm_icon = (js ''customerLines''), pm_tone = (js ''blue''), pm_label = (uni ''%u5BA2%u6237%u7EBF%u8DEF''),
       pm_title = (uni ''%u5BA2%u6237%u7EBF%u8DEF''), pm_subtitle = (uni ''%u7EDF%u4E00%u7BA1%u7406%u6BCF%u4E2A%u5BA2%u6237%u5206%u914D%u5230%u7684%u76F4%u8FDE%u7EBF%u8DEF%u548C%u4E2D%u8F6C%u7EBF%u8DEF%u3002'')\<rparr>,
      \<lparr>pm_id = PanelServerResources, pm_icon = (js ''servers''), pm_tone = (js ''orange''), pm_label = (uni ''%u670D%u52A1%u5668%u8D44%u6E90''),
       pm_title = (uni ''%u670D%u52A1%u5668%u8D44%u6E90''), pm_subtitle = (uni ''%u7BA1%u7406%u843D%u5730%u670D%u52A1%u5668%u3001%u81EA%u5EFA%u4E2D%u8F6C%u548C%u5546%u5BB6%u5165%u53E3%u3002'')\<rparr>,
      \<lparr>pm_id = PanelTasks, pm_icon = (js ''tasks''), pm_tone = (js ''green''), pm_label = (uni ''%u4EFB%u52A1%u8BB0%u5F55''), pm_title = (uni ''%u4EFB%u52A1%u8BB0%u5F55''),
       pm_subtitle = (uni ''%u67E5%u770B%u521B%u5EFA%u3001%u5220%u9664%u3001%u68C0%u6D4B%u7B49%u64CD%u4F5C%u7ED3%u679C%u3002'')\<rparr>,
      \<lparr>pm_id = PanelSettings, pm_icon = (js ''settings''), pm_tone = (js ''slate''), pm_label = (uni ''%u8BBE%u7F6E''), pm_title = (uni ''%u8BBE%u7F6E''),
       pm_subtitle = (uni ''%u914D%u7F6E%u9ED8%u8BA4%u521B%u5EFA%u504F%u597D%u548C%u63D0%u9192%u65B9%u5F0F%u3002'')\<rparr>,
      \<lparr>pm_id = PanelAdvancedDebug, pm_icon = (js ''debug''), pm_tone = (js ''red''), pm_label = (uni ''%u9AD8%u7EA7%u8C03%u8BD5''),
       pm_title = (uni ''%u9AD8%u7EA7%u8C03%u8BD5''), pm_subtitle = (uni ''%u4EC5%u6280%u672F%u652F%u6301%u4F7F%u7528%u3002'')\<rparr>]"

definition formatDate :: "(jsstr \<Rightarrow> jsstr) \<Rightarrow> jsstr option \<Rightarrow> jsstr" where
  "formatDate to_locale v = (if blank v then (js ''-'') else to_locale (the v))"

fun attentionIconTone :: "attention_tone \<Rightarrow> jsstr" where
  "attentionIconTone ToneDanger = (js ''red'')"
| "attentionIconTone ToneWarning = (js ''orange'')"
| "attentionIconTone ToneSuccess = (js ''green'')"
| "attentionIconTone ToneInfo = (js ''blue'')"

fun recentIconName :: "created_type \<Rightarrow> jsstr" where
  "recentIconName LandingServerCreated = (js ''server'')"
| "recentIconName TransitResourceCreated = (js ''server'')"
| "recentIconName DirectNodeCreated = (js ''builder'')"
| "recentIconName TransitRouteCreated = (js ''route'')"

subsection \<open>State\<close>

record login_state =
  lg_username :: jsstr
  lg_password :: jsstr
  lg_message :: jsstr
  lg_isLoading :: bool

record dashboard_state =
  db_overview :: "product_overview option"
  db_message :: jsstr

record settings_state =
  se_activeSetting :: jsstr
  se_platform :: jsstr
  se_region :: jsstr
  se_portRange :: jsstr
  se_message :: jsstr

record shell =
  sh_activePanel :: panel_id
  sh_currentAdmin :: "auth_user option"
  sh_authChecked :: bool
  sh_authMessage :: jsstr
  sh_sidebarHealth :: "overview_health option"
  sh_login :: login_state
  sh_dashboard :: dashboard_state
  sh_settings :: settings_state
  sh_instance :: nat

definition login_initial :: "jsstr \<Rightarrow> login_state" where
  "login_initial initialMessage =
     \<lparr>lg_username = (js ''admin''), lg_password = [], lg_message = initialMessage, lg_isLoading = False\<rparr>"

definition dashboard_initial :: dashboard_state where
  "dashboard_initial = \<lparr>db_overview = None, db_message = (uni ''%u6B63%u5728%u8BFB%u53D6%u771F%u5B9E%u603B%u89C8%u6570%u636E%u3002'')\<rparr>"

definition settings_initial :: settings_state where
  "settings_initial =
     \<lparr>se_activeSetting = (uni ''%u9ED8%u8BA4%u521B%u5EFA%u914D%u7F6E''), se_platform = (js ''Facebook''), se_region = (uni ''%u9999%u6E2F''),
      se_portRange = (js ''28000-39999''), se_message = (uni ''%u8BBE%u7F6E%u53EA%u4FDD%u5B58%u5728%u5F53%u524D%u6D4F%u89C8%u5668%u4F1A%u8BDD%u4E2D%u3002'')\<rparr>"

definition shell_initial :: shell where
  "shell_initial =
     \<lparr>sh_activePanel = PanelDashboard, sh_currentAdmin = None, sh_authChecked = False, sh_authMessage = [],
      sh_sidebarHealth = None, sh_login = login_initial [], sh_dashboard = dashboard_initial,
      sh_settings = settings_initial, sh_instance = 0\<rparr>"

datatype shell_view = CheckingView | LoginView | ConsoleView panel_id

definition view_of :: "shell \<Rightarrow> shell_view" where
  "view_of s =
     (if \<not> sh_authChecked s then CheckingView
      else if sh_currentAdmin s = None then LoginView
      else ConsoleView (sh_activePanel s))"

definition commit :: "(shell \<Rightarrow> shell) \<Rightarrow> shell \<Rightarrow> shell" where
  "commit f s =
     (let t = f s
      in if view_of t = view_of s then t
         else t\<lparr>sh_login := login_initial (if view_of t = LoginView then sh_authMessage t else []),
                sh_dashboard := dashboard_initial, sh_settings := settings_initial,
                sh_instance := Suc (sh_instance s)\<rparr>)"

definition on_login :: "nat \<Rightarrow> (login_state \<Rightarrow> login_state) \<Rightarrow> shell \<Rightarrow> shell" where
  "on_login i f s =
     (if view_of s = LoginView \<and> sh_instance s = i then s\<lparr>sh_login := f (sh_login s)\<rparr> else s)"

definition on_dashboard :: "nat \<Rightarrow> (dashboard_state \<Rightarrow> dashboard_state) \<Rightarrow> shell \<Rightarrow> shell" where
  "on_dashboard i f s =
     (if view_of s = ConsoleView PanelDashboard \<and> sh_instance s = i
      then s\<lparr>sh_dashboard := f (sh_dashboard s)\<rparr> else s)"

subsection \<open>The session\<close>

definition checkAuth :: "shell act" where
  "checkAuth =
     fetch (get_request (js ''/api/auth/me'')) as_user
       (\<lambda>result s. finished (commit
          (\<lambda>s. s\<lparr>sh_currentAdmin := (case result of ApiSuccess u m \<Rightarrow> Some u | ApiFailure c m d \<Rightarrow> None),
               sh_authMessage := [], sh_authChecked := True\<rparr>) s))
       unhandled"

definition handleAuthExpired :: "shell \<Rightarrow> shell" where
  "handleAuthExpired =
     commit (\<lambda>s. s\<lparr>sh_currentAdmin := None, sh_authMessage := (uni ''%u767B%u5F55%u72B6%u6001%u5DF2%u8FC7%u671F%uFF0C%u8BF7%u91CD%u65B0%u767B%u5F55%u3002'')\<rparr>)"

definition logout_request :: "jsstr \<Rightarrow> api_request" where
  "logout_request csrfToken =
     \<lparr>req_path = (js ''/api/auth/logout''), req_method = Some (js ''POST''), req_headers = [((js ''X-CSRF-Token''), csrfToken)],
      req_body = None\<rparr>"

definition logged_out :: "shell act" where
  "logged_out s =
     finished (commit (\<lambda>s. s\<lparr>sh_currentAdmin := None, sh_authMessage := (uni ''%u5DF2%u9000%u51FA%u767B%u5F55%u3002'')\<rparr>) s)"

definition handleLogout :: "shell act" where
  "handleLogout =
     fetch (get_request (js ''/api/auth/csrf'')) as_csrf
       (\<lambda>csrfResult. case csrfResult of
          ApiSuccess t m \<Rightarrow> fetch (logout_request t) as_done (\<lambda>result. logged_out) unhandled
        | ApiFailure c m d \<Rightarrow> logged_out)
       unhandled"

definition setActivePanel :: "panel_id \<Rightarrow> shell \<Rightarrow> shell" where
  "setActivePanel p = commit (\<lambda>s. s\<lparr>sh_activePanel := p\<rparr>)"

subsection \<open>The login screen\<close>

definition login_request :: "jsstr \<Rightarrow> jsstr \<Rightarrow> api_request" where
  "login_request username password =
     \<lparr>req_path = (js ''/api/auth/login''), req_method = Some (js ''POST''), req_headers = [],
      req_body = Some (JObj [((js ''username''), JStr username), ((js ''password''), JStr password)])\<rparr>"

definition login_says :: "jsstr \<Rightarrow> login_state \<Rightarrow> login_state" where
  "login_says m x = x\<lparr>lg_message := m\<rparr>"

definition login_refusal :: "jsstr \<Rightarrow> jsstr \<Rightarrow> jsstr" where
  "login_refusal code m =
     (if code = (js ''AUTH_RATE_LIMITED'') then (uni ''%u767B%u5F55%u5C1D%u8BD5%u8FC7%u591A%uFF0C%u8BF7%u7A0D%u540E%u518D%u8BD5%u3002'')
      else or_str m (uni ''%u767B%u5F55%u5931%u8D25%uFF0C%u8BF7%u68C0%u67E5%u8D26%u53F7%u548C%u5BC6%u7801%u3002''))"

text \<open>\<open>i\<close> is the number of the login screen; \<open>onLogin\<close> belongs to the shell and always works.\<close>

definition handleSubmit_login :: "nat \<Rightarrow> login_state \<Rightarrow> shell act" where
  "handleSubmit_login i x s =
     (let end = (\<lambda>s. finished (on_login i (\<lambda>x. x\<lparr>lg_isLoading := False\<rparr>) s))
      in fetch (login_request (lg_username x) (lg_password x)) as_user
           (\<lambda>result. case result of
              ApiFailure c m d \<Rightarrow> (\<lambda>s. end (on_login i (login_says (login_refusal c m)) s))
            | ApiSuccess u m \<Rightarrow>
                (\<lambda>s. end (commit (\<lambda>s. s\<lparr>sh_currentAdmin := Some u\<rparr>)
                       (on_login i (\<lambda>x. x\<lparr>lg_password := []\<rparr>) s))))
           (\<lambda>e s. end (on_login i (login_says (uni ''%u767B%u5F55%u8BF7%u6C42%u5931%u8D25%uFF0C%u8BF7%u786E%u8BA4%u540E%u7AEF%u670D%u52A1%u6B63%u5E38%u3002'')) s))
           (on_login i (\<lambda>x. x\<lparr>lg_isLoading := True, lg_message := []\<rparr>) s))"

subsection \<open>The dashboard\<close>

definition loadDashboard :: "nat \<Rightarrow> shell act" where
  "loadDashboard i =
     fetch getProductOverview as_overview
       (\<lambda>result. case result of
          ApiSuccess ov m \<Rightarrow>
            (\<lambda>s. finished ((on_dashboard i (\<lambda>x. x\<lparr>db_overview := Some ov, db_message := (uni ''%u603B%u89C8%u6570%u636E%u5DF2%u5237%u65B0%u3002'')\<rparr>) s)
               \<lparr>sh_sidebarHealth := Some (po_health ov)\<rparr>))
        | ApiFailure c m d \<Rightarrow>
            (\<lambda>s. finished (on_dashboard i
               (\<lambda>x. x\<lparr>db_overview := None, db_message := (uni ''%u603B%u89C8%u6570%u636E%u6682%u65F6%u65E0%u6CD5%u8BFB%u53D6%u3002'')\<rparr>) s)))
       unhandled"

definition overview_number :: "(overview_stats \<Rightarrow> int) \<Rightarrow> dashboard_state \<Rightarrow> int" where
  "overview_number f x = (case db_overview x of None \<Rightarrow> 0 | Some ov \<Rightarrow> f (po_stats ov))"

text \<open>The badge of the attention card, and the note beside the pending items.\<close>

definition attention_badge :: "dashboard_state \<Rightarrow> jsstr \<times> jsstr" where
  "attention_badge x =
     (if overview_number os_abnormal_lines x \<noteq> 0 then ((js ''danger''), (uni ''%u5F02%u5E38''))
      else if overview_number os_risk_lines x \<noteq> 0 then ((js ''warning''), (uni ''%u98CE%u9669''))
      else ((js ''success''), (uni ''%u6B63%u5E38'')))"

definition pending_note :: "dashboard_state \<Rightarrow> jsstr" where
  "pending_note x =
     (if (case db_overview x of None \<Rightarrow> False | Some ov \<Rightarrow> oh_ok (po_health ov)) then (uni ''%u6682%u65E0%u7D27%u6025%u5F85%u529E'') else (uni ''%u6709%u5F85%u529E%u4E8B%u9879''))"

definition sidebar_card :: "shell \<Rightarrow> jsstr \<times> jsstr \<times> jsstr" where
  "sidebar_card s =
     (case sh_sidebarHealth s of
        None \<Rightarrow> ((js ''loading''), (uni ''%u7CFB%u7EDF%u72B6%u6001%u8BFB%u53D6%u4E2D''), (uni ''%u7B49%u5F85%u603B%u89C8%u6570%u636E''))
      | Some h \<Rightarrow> (oh_status h, oh_label h, (uni ''%u6700%u8FD1%u66F4%u65B0%uFF1A'') @ oh_last_refreshed_label h))"

subsection \<open>The settings\<close>

datatype settings_edit =
    SettingMenu jsstr | SettingPlatform jsstr | SettingRegion jsstr | SettingPorts jsstr | SettingReset | SettingSave

fun edit_settings :: "settings_edit \<Rightarrow> settings_state \<Rightarrow> settings_state" where
  "edit_settings (SettingMenu v) x = x\<lparr>se_activeSetting := v\<rparr>"
| "edit_settings (SettingPlatform v) x = x\<lparr>se_platform := v\<rparr>"
| "edit_settings (SettingRegion v) x = x\<lparr>se_region := v\<rparr>"
| "edit_settings (SettingPorts v) x = x\<lparr>se_portRange := v\<rparr>"
| "edit_settings SettingReset x = x\<lparr>se_message := (uni ''%u5DF2%u6062%u590D%u4E3A%u9875%u9762%u9ED8%u8BA4%u5C55%u793A%u3002'')\<rparr>"
| "edit_settings SettingSave x = x\<lparr>se_message := (uni ''%u8BBE%u7F6E%u5DF2%u5728%u5F53%u524D%u9875%u9762%u4E34%u65F6%u4FDD%u5B58%u3002'')\<rparr>"

subsection \<open>What can happen\<close>

datatype login_edit = LoginUser jsstr | LoginPassword jsstr

fun edit_login :: "login_edit \<Rightarrow> login_state \<Rightarrow> login_state" where
  "edit_login (LoginUser v) x = x\<lparr>lg_username := v\<rparr>"
| "edit_login (LoginPassword v) x = x\<lparr>lg_password := v\<rparr>"

text \<open>
  The session is checked once, when the shell is mounted; the event that a session has expired can
  come from a request of any panel, whatever the view is by then.
\<close>

inductive shell_may :: "shell \<Rightarrow> shell act \<Rightarrow> bool" where
  CheckAuth: "\<not> sh_authChecked s \<Longrightarrow> shell_may s checkAuth"
| AuthExpired: "shell_may s (\<lambda>s. finished (handleAuthExpired s))"
| LoginInput: "view_of s = LoginView \<Longrightarrow> \<not> lg_isLoading (sh_login s)
    \<Longrightarrow> shell_may s (\<lambda>s. finished (on_login (sh_instance s) (edit_login e) s))"
| LoginSubmit: "view_of s = LoginView \<Longrightarrow> \<not> lg_isLoading (sh_login s)
    \<Longrightarrow> shell_may s (handleSubmit_login (sh_instance s) (sh_login s))"
| SelectPanel: "view_of s = ConsoleView p \<Longrightarrow> shell_may s (\<lambda>s. finished (setActivePanel q s))"
| Logout: "view_of s = ConsoleView p \<Longrightarrow> shell_may s handleLogout"
| LoadDashboard: "view_of s = ConsoleView PanelDashboard \<Longrightarrow> shell_may s (loadDashboard (sh_instance s))"
| SettingsInput: "view_of s = ConsoleView PanelSettings
    \<Longrightarrow> shell_may s (\<lambda>s. finished (s\<lparr>sh_settings := edit_settings e (sh_settings s)\<rparr>))"

subsection \<open>Panels that the shell does not show\<close>

record login_panel =
  lp2_username :: jsstr
  lp2_password :: jsstr
  lp2_csrfToken :: jsstr
  lp2_message :: jsstr
  lp2_authenticated :: "bool option"

text \<open>\<open>lp2_authenticated\<close> is what \<^verbatim>\<open>onAuthChange\<close> was last called with.\<close>

definition login_panel_initial :: login_panel where
  "login_panel_initial =
     \<lparr>lp2_username = (js ''admin''), lp2_password = [], lp2_csrfToken = [],
      lp2_message = (uni ''%u767B%u5F55%u540E%u4F1A%u4F7F%u7528 HttpOnly Cookie Session%u3002''), lp2_authenticated = None\<rparr>"

definition panel_login :: "login_panel act" where
  "panel_login s =
     fetch (login_request (lp2_username s) (lp2_password s)) as_user
       (\<lambda>result. case result of
          ApiFailure c m d \<Rightarrow> (\<lambda>s. finished (s\<lparr>lp2_message := m\<rparr>))
        | ApiSuccess u m \<Rightarrow>
            fetch (get_request (js ''/api/auth/csrf'')) as_csrf
              (\<lambda>csrf. case csrf of
                 ApiSuccess t m \<Rightarrow> (\<lambda>s. finished (s\<lparr>lp2_csrfToken := t,
                   lp2_message := (uni ''%u5DF2%u767B%u5F55%uFF1A'') @ au_username u, lp2_authenticated := Some True\<rparr>))
               | ApiFailure c m d \<Rightarrow> (\<lambda>s. finished (s\<lparr>lp2_message := m\<rparr>)))
              unhandled)
       unhandled s"

definition panel_logout_request :: "jsstr \<Rightarrow> api_request" where
  "panel_logout_request csrfToken =
     \<lparr>req_path = (js ''/api/auth/logout''), req_method = Some (js ''POST''),
      req_headers = (if csrfToken \<noteq> [] then [((js ''X-CSRF-Token''), csrfToken)] else []),
      req_body = Some (JObj [])\<rparr>"

definition panel_logout :: "login_panel act" where
  "panel_logout s =
     fetch (panel_logout_request (lp2_csrfToken s)) as_done
       (\<lambda>result s. finished (s\<lparr>lp2_csrfToken := [], lp2_authenticated := Some False,
          lp2_message := api_message result\<rparr>))
       unhandled s"

record init_panel =
  ip_username :: jsstr
  ip_password :: jsstr
  ip_initToken :: jsstr
  ip_message :: jsstr

definition init_panel_initial :: init_panel where
  "init_panel_initial =
     \<lparr>ip_username = (js ''admin''), ip_password = [], ip_initToken = [], ip_message = (uni ''%u9996%u6B21%u542F%u52A8%u540E%u53EF%u521D%u59CB%u5316%u7BA1%u7406%u5458%u8D26%u53F7%u3002'')\<rparr>"

definition init_request :: "init_panel \<Rightarrow> api_request" where
  "init_request s =
     \<lparr>req_path = (js ''/api/admin/init''), req_method = Some (js ''POST''), req_headers = [],
      req_body = Some (JObj [((js ''username''), JStr (ip_username s)), ((js ''password''), JStr (ip_password s)),
        ((js ''init_token''), if ip_initToken s = [] then JNull else JStr (ip_initToken s))])\<rparr>"

definition submit_init :: "init_panel act" where
  "submit_init s =
     fetch (init_request s) as_user
       (\<lambda>result s. finished (s\<lparr>ip_message :=
          (case result of ApiSuccess u m \<Rightarrow> (uni ''%u5DF2%u521D%u59CB%u5316%u7BA1%u7406%u5458%uFF1A'') @ au_username u | ApiFailure c m d \<Rightarrow> m)\<rparr>))
       unhandled s"

record status_panel =
  sp_health :: "health_data option"
  sp_message :: jsstr

definition status_panel_initial :: status_panel where
  "status_panel_initial = \<lparr>sp_health = None, sp_message = (uni ''%u6B63%u5728%u8BFB%u53D6%u7CFB%u7EDF%u72B6%u6001'')\<rparr>"

definition loadHealth :: "status_panel act" where
  "loadHealth =
     fetch (get_request (js ''/api/health'')) as_health
       (\<lambda>result. case result of
          ApiSuccess d m \<Rightarrow> (\<lambda>s. finished (s\<lparr>sp_health := Some d, sp_message := m\<rparr>))
        | ApiFailure c m d \<Rightarrow> (\<lambda>s. finished (s\<lparr>sp_message := m\<rparr>)))
       (\<lambda>e s. finished (s\<lparr>sp_message := (uni ''%u65E0%u6CD5%u8FDE%u63A5%u540E%u7AEF'')\<rparr>))"

text \<open>The rows: label, detail, whether the pill is green, and its text.\<close>

definition status_row :: "jsstr \<Rightarrow> component_health \<Rightarrow> jsstr \<times> jsstr \<times> bool \<times> jsstr" where
  "status_row label item =
     (label, nullish (ch_detail item) (ch_status item), ch_status item = (js ''ok''), ch_status item)"

definition status_rows :: "health_data \<Rightarrow> (jsstr \<times> jsstr \<times> bool \<times> jsstr) list" where
  "status_rows h =
     [status_row (js ''Backend'') (hd_backend h), status_row (js ''PostgreSQL'') (hd_database h),
      status_row (js ''Redis'') (hd_redis h), status_row (js ''RQ Worker'') (hd_worker h)]"

subsection \<open>Properties\<close>

abbreviation shell_reach :: "shell \<times> shell task list \<Rightarrow> bool" where
  "shell_reach \<equiv> system_reach shell_may shell_initial"

lemma commit_view [simp]: "view_of (commit f s) = view_of (f s)"
  by (simp add: commit_def Let_def view_of_def)

lemma updates_view [simp]:
  "view_of (on_login i f s) = view_of s" "view_of (on_dashboard i g s) = view_of s"
  "view_of (s\<lparr>sh_settings := x\<rparr>) = view_of s" "view_of (s\<lparr>sh_sidebarHealth := h\<rparr>) = view_of s"
  by (simp_all add: on_login_def on_dashboard_def view_of_def)

text \<open>What is not shown keeps no state.\<close>

definition shell_inv :: "shell \<Rightarrow> bool" where
  "shell_inv s \<longleftrightarrow>
     (view_of s \<noteq> LoginView \<longrightarrow> sh_login s = login_initial [])
     \<and> (view_of s \<noteq> ConsoleView PanelDashboard \<longrightarrow> sh_dashboard s = dashboard_initial)
     \<and> (view_of s \<noteq> ConsoleView PanelSettings \<longrightarrow> sh_settings s = settings_initial)"

lemma shell_inv_on_login: "shell_inv s \<Longrightarrow> shell_inv (on_login i f s)"
  by (simp add: shell_inv_def on_login_def) (simp add: view_of_def)

lemma shell_inv_on_dashboard: "shell_inv s \<Longrightarrow> shell_inv (on_dashboard i f s)"
  by (simp add: shell_inv_def on_dashboard_def) (simp add: view_of_def)

lemma shell_inv_health: "shell_inv s \<Longrightarrow> shell_inv (s\<lparr>sh_sidebarHealth := h\<rparr>)"
  by (simp add: shell_inv_def)

lemma shell_inv_commit:
  assumes "shell_inv s" and "sh_login (f s) = sh_login s" "sh_dashboard (f s) = sh_dashboard s"
    "sh_settings (f s) = sh_settings s"
  shows "shell_inv (commit f s)"
  using assms unfolding shell_inv_def commit_view by (auto simp: commit_def Let_def)

lemmas shell_inv_intros =
  shell_inv_on_login shell_inv_on_dashboard shell_inv_health shell_inv_commit

lemma ok_shell_action: "shell_may s a \<Longrightarrow> shell_inv s \<Longrightarrow> ok shell_inv True (a s)"
proof (induction rule: shell_may.induct)
  case (SettingsInput s e)
  then show ?case by (intro ok_finished) (simp add: shell_inv_def)
qed (auto intro!: ok_fetch ok_finished ok_unhandled shell_inv_intros
      simp: checkAuth_def handleAuthExpired_def handleSubmit_login_def setActivePanel_def handleLogout_def
        logged_out_def loadDashboard_def Let_def split: api_response.split)

lemma ok_shell_tasks: "shell_may s a \<Longrightarrow> ok shell_inv False (a s)"
proof (induction rule: shell_may.induct)
qed (auto intro!: ok_fetch ok_finished ok_unhandled shell_inv_intros
      simp: checkAuth_def handleAuthExpired_def handleSubmit_login_def setActivePanel_def handleLogout_def
        logged_out_def loadDashboard_def Let_def split: api_response.split)


definition signed_in :: shell where
  "signed_in = commit (\<lambda>s. s\<lparr>sh_currentAdmin := Some \<lparr>au_admin_id = (js ''a1''), au_username = (js ''admin'')\<rparr>,
     sh_authMessage := [], sh_authChecked := True\<rparr>) shell_initial"

lemma signed_in_reach: "shell_reach (signed_in, [])"
proof -
  have "shell_reach (checkAuth shell_initial)"
    using system_reach.started [of shell_may shell_initial shell_initial "[]" checkAuth]
    by (simp add: system_reach.initial shell_may.CheckAuth shell_initial_def)
  moreover have "run_events [Reply 0 (RUser (Resolved (ApiSuccess \<lparr>au_admin_id = (js ''a1''), au_username = (js ''admin'')\<rparr> [])))]
      (checkAuth shell_initial) = Some (signed_in, [])"
    by (simp add: checkAuth_def act_simps perform_def signed_in_def)
  ultimately show ?thesis by (rule system_run)
qed


text \<open>
  C24 (functional). What the login screen makes of every answer to its request: a success signs
  the user in and shows the console; a refusal keeps the screen, the account and the password, and
  shows the backend's message, a fixed one for too many attempts; an exception shows that
  the request failed. In each case the form is enabled again or gone, and nothing is left waiting.
\<close>

theorem login_answers:
  assumes "view_of s = LoginView"
  shows "\<exists>s'. perform (Reply 0 (RUser answer)) (handleSubmit_login (sh_instance s) (sh_login s) s) = Some (s', [])
    \<and> \<not> lg_isLoading (sh_login s')
    \<and> (case answer of
         Resolved (ApiSuccess u m) \<Rightarrow>
           view_of s' = ConsoleView (sh_activePanel s) \<and> sh_currentAdmin s' = Some u \<and> lg_password (sh_login s') = []
       | Resolved (ApiFailure c m d) \<Rightarrow>
           view_of s' = LoginView
           \<and> sh_login s' = (sh_login s)\<lparr>lg_message := login_refusal c m, lg_isLoading := False\<rparr>
       | Rejected e \<Rightarrow>
           view_of s' = LoginView
           \<and> sh_login s' = (sh_login s)\<lparr>lg_message := (uni ''%u767B%u5F55%u8BF7%u6C42%u5931%u8D25%uFF0C%u8BF7%u786E%u8BA4%u540E%u7AEF%u670D%u52A1%u6B63%u5E38%u3002''), lg_isLoading := False\<rparr>)"
proof -
  have checked: "sh_authChecked s" using assms by (simp add: view_of_def split: if_splits)
  have on: "on_login (sh_instance s) f t = t\<lparr>sh_login := f (sh_login t)\<rparr>"
    if "view_of t = LoginView" "sh_instance t = sh_instance s" for f t
    using that by (simp add: on_login_def)
  have view: "view_of (t\<lparr>sh_login := x\<rparr>) = view_of t" for t x by (simp add: view_of_def)
  show ?thesis
  proof (cases answer)
    case (Rejected e)
    then show ?thesis
      using assms by (simp add: handleSubmit_login_def act_simps perform_def on view login_says_def)
  next
    case (Resolved r)
    show ?thesis
    proof (cases r)
      case (ApiFailure c m d)
      then show ?thesis
        using assms Resolved by (simp add: handleSubmit_login_def act_simps perform_def on view login_says_def)
    next
      case (ApiSuccess u m)
      let ?t = "s\<lparr>sh_login := (sh_login s)\<lparr>lg_isLoading := True, lg_message := [], lg_password := []\<rparr>\<rparr>"
      let ?u = "commit (\<lambda>s. s\<lparr>sh_currentAdmin := Some u\<rparr>) ?t"
      have "sh_currentAdmin s = None" using assms by (simp add: view_of_def split: if_splits)
      then have u: "view_of ?u = ConsoleView (sh_activePanel s)" "sh_currentAdmin ?u = Some u"
        "sh_login ?u = login_initial []"
        using checked by (simp_all add: commit_def view_of_def)
      then have "on_login (sh_instance s) f ?u = ?u" for f by (simp add: on_login_def)
      then show ?thesis
        using assms Resolved ApiSuccess u
        by (simp add: handleSubmit_login_def act_simps perform_def on view login_initial_def)
    qed
  qed
qed

definition login_shown :: shell where
  "login_shown = shell_initial\<lparr>sh_authChecked := True\<rparr>"

theorem login_answers_witness:
  "\<exists>s'. perform (Reply 0 (RUser (Resolved (ApiFailure (js ''AUTH_RATE_LIMITED'') [] None))))
      (handleSubmit_login 0 (login_initial []) login_shown) = Some (s', [])
    \<and> lg_message (sh_login s') = (uni ''%u767B%u5F55%u5C1D%u8BD5%u8FC7%u591A%uFF0C%u8BF7%u7A0D%u540E%u518D%u8BD5%u3002'')"
proof -
  have "view_of login_shown = LoginView" "sh_instance login_shown = 0" "sh_login login_shown = login_initial []"
    by (simp_all add: login_shown_def shell_initial_def view_of_def)
  then show ?thesis
    using login_answers [of login_shown "Resolved (ApiFailure (js ''AUTH_RATE_LIMITED'') [] None)"]
    by (auto simp: login_refusal_def)
qed

text \<open>
  The button that signs out shows the login screen with the message that the
  user has been signed out even when the backend has ended no session: when the token is refused no request to sign
  out is sent, and a refusal of that request is ignored. When a request throws, nothing changes and nothing is said.
\<close>

theorem logout_claims_success:
  assumes "view_of s = ConsoleView p"
  shows "(\<exists>s'. perform (Reply 0 (RCsrf (Resolved (ApiFailure c m d)))) (handleLogout s) = Some (s', [])
       \<and> view_of s' = LoginView \<and> lg_message (sh_login s') = (uni ''%u5DF2%u9000%u51FA%u767B%u5F55%u3002''))
    \<and> (\<exists>s'. run_events [Reply 0 (RCsrf (Resolved (ApiSuccess t m))), Reply 0 (RDone (Resolved (ApiFailure c' m' d')))]
         (handleLogout s) = Some (s', [])
       \<and> view_of s' = LoginView \<and> lg_message (sh_login s') = (uni ''%u5DF2%u9000%u51FA%u767B%u5F55%u3002''))
    \<and> perform (Reply 0 (RCsrf (Rejected e))) (handleLogout s) = Some (s, [])"
proof -
  let ?u = "commit (\<lambda>s. s\<lparr>sh_currentAdmin := None, sh_authMessage := (uni ''%u5DF2%u9000%u51FA%u767B%u5F55%u3002'')\<rparr>) s"
  have checked: "sh_authChecked s" using assms by (simp add: view_of_def split: if_splits)
  then have f: "view_of (s\<lparr>sh_currentAdmin := None, sh_authMessage := (uni ''%u5DF2%u9000%u51FA%u767B%u5F55%u3002'')\<rparr>) = LoginView"
    by (simp add: view_of_def)
  then have v: "view_of ?u = LoginView" by simp
  have "lg_message (sh_login ?u) = (uni ''%u5DF2%u9000%u51FA%u767B%u5F55%u3002'')"
    by (simp add: commit_def f assms login_initial_def)
  then show ?thesis
    using v by (simp add: handleLogout_def logged_out_def act_simps perform_def)
qed

theorem logout_claims_success_witness:
  "\<exists>s'. perform (Reply 0 (RCsrf (Resolved (ApiFailure (js ''INTERNAL_ERROR'') [] None)))) (handleLogout signed_in) = Some (s', [])
     \<and> lg_message (sh_login s') = (uni ''%u5DF2%u9000%u51FA%u767B%u5F55%u3002'')"
proof -
  have "view_of signed_in = ConsoleView PanelDashboard"
    by (simp add: signed_in_def) (simp add: view_of_def shell_initial_def)
  then show ?thesis using logout_claims_success by blast
qed

text \<open>
  When the request that checks the session throws, the shell keeps the
  view that asks the user to wait, nothing is left waiting, and no action that is possible then leaves
  that view, unless the check itself is started again, which only mounting the shell does.
\<close>

theorem failed_check_locks_the_console:
  assumes "view_of s = CheckingView"
  shows "perform (Reply 0 (RUser (Rejected e))) (checkAuth s) = Some (s, [])
    \<and> (\<forall>a. shell_may s a \<longrightarrow> a = checkAuth \<or> view_of (fst (a s)) = CheckingView \<and> snd (a s) = [])"
proof -
  have "view_of (fst (a s)) = CheckingView \<and> snd (a s) = []" if "shell_may s a" "a \<noteq> checkAuth" for a
    using that assms
  proof cases
    case AuthExpired
    then show ?thesis
      using assms by (simp add: finished_def handleAuthExpired_def) (simp add: view_of_def split: if_splits)
  qed simp_all
  then show ?thesis by (auto simp: checkAuth_def act_simps perform_def)
qed

theorem failed_check_locks_the_console_witness:
  "perform (Reply 0 (RUser (Rejected None))) (checkAuth shell_initial) = Some (shell_initial, [])
   \<and> view_of shell_initial = CheckingView"
proof -
  have "view_of shell_initial = CheckingView" by (simp add: shell_initial_def view_of_def)
  then show ?thesis using failed_check_locks_the_console by blast
qed

end
