(* ===== verification/WorkerFolding.thy ===== *)
theory WorkerFolding
  imports TransitHelpers
begin

text \<open>
  \<^verbatim>\<open>TransitServersPanelWithWorkerFolding.tsx\<close>: a wrapper of the servers panel that hides the
  rows of workers that are gone and lists them in a panel of their own. It works on the DOM. A row is its
  text with the pieces that are looked up in it, and the two attributes the wrapper sets; its
  node is identified by the React key and the rendering that made it (\<open>node_of\<close>). The table is always
  there, since the servers panel always renders it. The last part is the row itself
  (\<^verbatim>\<open>TransitRoutesPanel.tsx\<close>), as far as its text goes.
\<close>

subsection \<open>Rows\<close>

record row_text =
  rx_textContent :: jsstr
  rx_strong :: "jsstr option"
  rx_pill :: "jsstr option"
  rx_worker :: "jsstr option"

datatype fold_mark = NoMark | FoldedMark | RevealedMark

record group_row =
  gr_key :: jsstr
  gr_born :: nat
  gr_text :: row_text
  gr_hidden :: bool
  gr_mark :: fold_mark

definition node_of :: "group_row \<Rightarrow> jsstr \<times> nat" where
  "node_of g = (gr_key g, gr_born g)"

definition historicalWorkerMarkers :: "jsstr list" where
  "historicalWorkerMarkers = [(uni ''%u5FC3%u8DF3%u8FC7%u671F / %u79BB%u7EBF''), (uni ''Worker %u79BB%u7EBF''), (uni ''%u5DF2%u5220%u9664'')]"

function collapse_spaces :: "jsstr \<Rightarrow> jsstr" where
  "collapse_spaces [] = []"
| "collapse_spaces (c # s) =
     (if is_space c then 32 # collapse_spaces (dropWhile is_space s) else c # collapse_spaces s)"
  by pat_completeness auto
termination
  by (relation "measure length") (auto simp: less_Suc_eq_le length_dropWhile_le)

definition normalizeText :: "jsstr option \<Rightarrow> jsstr" where
  "normalizeText value = trim (collapse_spaces (nullish value []))"

definition isHistoricalWorkerRow :: "row_text \<Rightarrow> bool" where
  "isHistoricalWorkerRow row =
     (let text = normalizeText (Some (rx_textContent row))
      in if text = [] \<or> contains text (uni ''%u5F85%u5B89%u88C5 Worker'') \<or> contains text (uni ''Worker %u5728%u7EBF'') then False
         else list_ex (contains text) historicalWorkerMarkers)"

record history_item =
  hi_name :: jsstr
  hi_status :: jsstr
  hi_worker :: jsstr

definition workerGroupSummary :: "row_text \<Rightarrow> history_item" where
  "workerGroupSummary row =
     \<lparr>hi_name = or_str (normalizeText (rx_strong row)) (uni ''%u672A%u547D%u540D%u4E2D%u8F6C%u670D%u52A1%u5668''),
      hi_status = or_str (normalizeText (rx_pill row)) (uni ''%u72B6%u6001%u672A%u8FD4%u56DE''),
      hi_worker = or_str (normalizeText (rx_worker row)) (uni ''Worker %u4FE1%u606F%u672A%u8FD4%u56DE'')\<rparr>"

definition createHistoryItem :: "row_text \<Rightarrow> jsstr list" where
  "createHistoryItem row =
     (let x = workerGroupSummary row in [hi_name x, (uni ''%u72B6%u6001%uFF1A'') @ hi_status x, hi_worker x])"

text \<open>The panel keeps the nodes it was made from (\<open>hp_groups\<close>); its button needs them.\<close>

record history_panel =
  hp_summary :: jsstr
  hp_items :: "jsstr list list"
  hp_groups :: "(jsstr \<times> nat) list"

definition createHistoryPanel :: "group_row list \<Rightarrow> history_panel" where
  "createHistoryPanel groups =
     \<lparr>hp_summary = (uni ''%u5386%u53F2 Worker %u8BB0%u5F55%uFF08'') @ string_of_int (int (length groups)) @ (uni '' %u6761%uFF0C%u5DF2%u6298%u53E0%uFF09''),
      hp_items = map (\<lambda>g. createHistoryItem (gr_text g)) groups,
      hp_groups = map node_of groups\<rparr>"

subsection \<open>Folding\<close>

text \<open>
  \<open>fp_pending\<close> is the flag of the observer: a frame has been requested. \<open>fp_renderings\<close> counts the
  renderings of the servers panel.
\<close>

record fold_page =
  fp_rows :: "group_row list"
  fp_panel :: "history_panel option"
  fp_pending :: bool
  fp_renderings :: nat

definition fold_row :: "group_row \<Rightarrow> group_row" where
  "fold_row row =
     (if gr_mark row = RevealedMark then row\<lparr>gr_hidden := False\<rparr>
      else if isHistoricalWorkerRow (gr_text row) then row\<lparr>gr_hidden := True, gr_mark := FoldedMark\<rparr>
      else row\<lparr>gr_hidden := False, gr_mark := NoMark\<rparr>)"

definition historical_groups :: "group_row list \<Rightarrow> group_row list" where
  "historical_groups groups =
     List.filter (\<lambda>g. gr_mark g \<noteq> RevealedMark \<and> isHistoricalWorkerRow (gr_text g)) groups"

definition applyWorkerHistoryFolding :: "fold_page \<Rightarrow> fold_page" where
  "applyWorkerHistoryFolding p =
     (let historicalGroups = historical_groups (fp_rows p)
      in p\<lparr>fp_rows := map fold_row (fp_rows p),
           fp_panel := (if historicalGroups = [] then None else Some (createHistoryPanel historicalGroups))\<rparr>)"

definition reveal_row :: "(jsstr \<times> nat) list \<Rightarrow> group_row \<Rightarrow> group_row" where
  "reveal_row nodes g =
     (if node_of g \<in> set nodes then g\<lparr>gr_hidden := False, gr_mark := RevealedMark\<rparr> else g)"

subsection \<open>The observer\<close>

text \<open>
  React keeps the node of a key that stays, with the attributes the wrapper has set, and makes a
  new node for a new key. Only the child lists are observed: when React just rewrites the text of a row,
  no frame is requested. The wrapper disconnects the observer while it folds, so folding does
  not ask for another frame; the button that reveals removes the panel, which is a change of a child list.
\<close>

definition render_row :: "nat \<Rightarrow> group_row list \<Rightarrow> jsstr \<times> row_text \<Rightarrow> group_row" where
  "render_row n old content =
     (case find_opt (\<lambda>g. gr_key g = fst content) old of
        Some g \<Rightarrow> g\<lparr>gr_text := snd content\<rparr>
      | None \<Rightarrow> \<lparr>gr_key = fst content, gr_born = n, gr_text = snd content, gr_hidden = False, gr_mark = NoMark\<rparr>)"

datatype fold_event = Render bool "(jsstr \<times> row_text) list" | Frame | Reveal

text \<open>The flag of \<open>Render\<close> says whether a child list has changed; new keys always change one.\<close>

fun fold_event_step :: "fold_event \<Rightarrow> fold_page \<Rightarrow> fold_page" where
  "fold_event_step (Render childList contents) p =
     p\<lparr>fp_rows := map (render_row (Suc (fp_renderings p)) (fp_rows p)) contents,
       fp_renderings := Suc (fp_renderings p),
       fp_pending := (fp_pending p \<or> childList \<or> map fst contents \<noteq> map gr_key (fp_rows p))\<rparr>"
| "fold_event_step Frame p =
     (if fp_pending p then applyWorkerHistoryFolding (p\<lparr>fp_pending := False\<rparr>) else p)"
| "fold_event_step Reveal p =
     (case fp_panel p of
        None \<Rightarrow> p
      | Some panel \<Rightarrow>
          p\<lparr>fp_rows := map (reveal_row (hp_groups panel)) (fp_rows p), fp_panel := None, fp_pending := True\<rparr>)"

definition fold_page_initial :: "(jsstr \<times> row_text) list \<Rightarrow> fold_page" where
  "fold_page_initial contents =
     applyWorkerHistoryFolding \<lparr>fp_rows = map (render_row 0 []) contents, fp_panel = None,
       fp_pending = False, fp_renderings = 0\<rparr>"

definition folding_run :: "(jsstr \<times> row_text) list \<Rightarrow> fold_event list \<Rightarrow> fold_page" where
  "folding_run contents es = fold fold_event_step es (fold_page_initial contents)"

subsection \<open>The rows of the servers panel\<close>

definition formatTime_transit :: "(jsstr \<Rightarrow> jsstr) \<Rightarrow> jsstr option \<Rightarrow> jsstr" where
  "formatTime_transit to_locale v = (if blank v then (js ''-'') else to_locale (the v))"

definition pendingWorkerDraft :: "transit_resource_data \<Rightarrow> bool" where
  "pendingWorkerDraft resource \<longleftrightarrow> tr_status resource = (js ''pending_worker'') \<and> \<not> tr_worker_online resource"

definition or_none :: "jsstr option \<Rightarrow> jsstr" where
  "or_none v = (if blank v then (uni ''%u6682%u65E0'') else the v)"

definition worker_cell :: "transit_resource_data \<Rightarrow> jsstr" where
  "worker_cell resource =
     (if pendingWorkerDraft resource then (uni ''%u5F85%u5B89%u88C5 Worker'')
      else if tr_worker_online resource then (uni ''Worker %u5728%u7EBF'') else (uni ''Worker %u63A5%u5165''))"

definition server_row_worker :: "(jsstr \<Rightarrow> jsstr) \<Rightarrow> transit_resource_data \<Rightarrow> jsstr" where
  "server_row_worker to_locale resource =
     (uni ''Worker%uFF1A'')
     @ (if \<not> blank (tr_worker_display_status resource) then displayStatusLabel (tr_worker_display_status resource)
        else if \<not> blank (tr_worker_status resource) then displayStatusLabel (tr_worker_status resource)
        else (uni ''%u672A%u6CE8%u518C''))
     @ (uni ''%uFF1B%u4E3B%u673A%u540D%uFF1A'') @ or_none (tr_worker_hostname resource)
     @ (uni ''%uFF1B%u7F51%u5361%uFF1A'') @ or_none (tr_worker_interface_name resource)
     @ (uni ''%uFF1B%u7248%u672C%uFF1A'') @ or_none (tr_worker_version resource)
     @ (uni ''%uFF1B%u6700%u540E%u5FC3%u8DF3%uFF1A'') @ formatTime_transit to_locale (tr_worker_last_heartbeat_at resource)
     @ (if pendingWorkerDraft resource
        then (uni ''%u8349%u7A3F / %u7B49%u5F85%u5B89%u88C5 Worker'') @ (uni ''%u8981%u6C42%u7248%u672C%uFF1A'') @ requiredTransitWorkerVersion
             @ (uni ''%u9996%u9009%u8F6C%u53D1%uFF1A'') @ protocolHintLabel (Some (tr_protocol_hint resource))
             @ (uni ''HAProxy readiness%uFF1A%u540E%u7EED%u68C0%u67E5%uFF0C%u5F53%u524D%u672A%u9A8C%u8BC1'')
        else [])"

definition resource_row_text :: "(jsstr \<Rightarrow> jsstr) \<Rightarrow> transit_resource_data \<Rightarrow> row_text" where
  "resource_row_text to_locale resource =
     (let status = displayStatusLabel (Some (tr_display_status resource))
      in \<lparr>rx_textContent =
            tr_name resource @ nullish (tr_entry_host resource) (js ''-'') @ worker_cell resource @ status
            @ (uni ''%u5B89%u88C5 Worker'') @ (uni ''%u7F16%u8F91'') @ (uni ''Worker %u68C0%u67E5'') @ (uni ''%u5220%u9664'') @ server_row_worker to_locale resource,
          rx_strong = Some (tr_name resource), rx_pill = Some status,
          rx_worker = Some (server_row_worker to_locale resource)\<rparr>)"

subsection \<open>Texts that survive the normalization\<close>

text \<open>A word begins and ends with a unit that is no space and has no runs of spaces.\<close>

definition wordlike :: "jsstr \<Rightarrow> bool" where
  "wordlike p \<longleftrightarrow> p \<noteq> [] \<and> \<not> is_space (hd p) \<and> \<not> is_space (last p) \<and> collapse_spaces p = p"

lemma dropWhile_prefix: "q = [] \<or> \<not> P (hd q) \<Longrightarrow> dropWhile P (s @ q) = dropWhile P s @ q"
  by (induction s) (auto simp: dropWhile_eq_self_iff)

lemma collapse_before: "q = [] \<or> \<not> is_space (hd q) \<Longrightarrow> collapse_spaces (a @ q) = collapse_spaces a @ collapse_spaces q"
  by (induction a rule: collapse_spaces.induct) (auto simp: dropWhile_prefix)

lemma collapse_after: "p \<noteq> [] \<Longrightarrow> \<not> is_space (last p) \<Longrightarrow> collapse_spaces (p @ b) = collapse_spaces p @ collapse_spaces b"
proof (induction p rule: collapse_spaces.induct)
  case (2 c s)
  show ?case
  proof (cases "s = []")
    case True
    then show ?thesis using 2(4) by simp
  next
    case False
    then have last: "\<not> is_space (last s)" using 2(4) by simp
    then have drop: "dropWhile is_space (s @ b) = dropWhile is_space s @ b" "dropWhile is_space s \<noteq> []"
      "last (dropWhile is_space s) = last s"
      using False by (auto simp: dropWhile_append dropWhile_eq_Nil_conv dest: last_in_set)
        (metis dropWhile_eq_Nil_conv last_appendR last_in_set takeWhile_dropWhile_id)
    show ?thesis
    proof (cases "is_space c")
      case True
      then show ?thesis using 2(1) [OF True] drop last by simp
    next
      case no: False
      then show ?thesis using 2(2) [OF no] False last by simp
    qed
  qed
qed simp

lemma contains_trim:
  assumes "p \<noteq> []" "\<not> is_space (hd p)" "\<not> is_space (last p)" "contains t p"
  shows "contains (trim t) p"
proof -
  obtain a b where t: "t = a @ p @ b" using assms(4) by (auto simp: contains_iff)
  have "trim_start t = dropWhile is_space a @ p @ b"
    unfolding trim_start_def t using assms(1,2) by (intro dropWhile_prefix) simp
  then have "trim t = rev (dropWhile is_space (rev b @ rev p @ rev (dropWhile is_space a)))"
    by (simp add: trim_def)
  also have "dropWhile is_space (rev b @ rev p @ rev (dropWhile is_space a))
      = dropWhile is_space (rev b) @ rev p @ rev (dropWhile is_space a)"
    using assms(1,3) by (intro dropWhile_prefix) (simp add: hd_rev)
  finally show ?thesis by (auto simp: contains_iff)
qed

lemma normalized_text_contains:
  assumes "wordlike p" "contains t p"
  shows "contains (normalizeText (Some t)) p"
proof -
  obtain a b where t: "t = a @ p @ b" using assms(2) by (auto simp: contains_iff)
  have "collapse_spaces t = collapse_spaces a @ p @ collapse_spaces b"
    unfolding t using assms(1) by (simp add: wordlike_def collapse_before collapse_after)
  then have "contains (collapse_spaces t) p" by (auto simp: contains_iff)
  then show ?thesis
    using assms(1) by (simp add: normalizeText_def wordlike_def contains_trim)
qed

lemma marker_words:
  "wordlike (uni ''%u5F85%u5B89%u88C5 Worker'')" "wordlike (uni ''Worker %u5728%u7EBF'')" "wordlike (uni ''%u5FC3%u8DF3%u8FC7%u671F / %u79BB%u7EBF'')" "wordlike (uni ''Worker %u79BB%u7EBF'')"
  "wordlike (uni ''%u5DF2%u5220%u9664'')"
  by (simp_all add: wordlike_def js_def text_simps is_space_def)

lemma marker_wordlike: "m \<in> set historicalWorkerMarkers \<Longrightarrow> wordlike m"
  by (auto simp: historicalWorkerMarkers_def marker_words)

text \<open>The labels of a server that is gone are the markers.\<close>

lemma gone_labels:
  "displayStatusLabel (Some (js ''stale'')) = (uni ''%u5FC3%u8DF3%u8FC7%u671F / %u79BB%u7EBF'')" "displayStatusLabel (Some (js ''deleted'')) = (uni ''%u5DF2%u5220%u9664'')"
  "displayStatusLabel (Some (js ''worker_offline'')) = (uni ''Worker %u79BB%u7EBF'')"
  by (simp_all add: displayStatusLabel_def label_or_def displayStatusLabels_def)

lemma gone_label_is_marker:
  "v \<in> {(js ''stale''), (js ''deleted''), (js ''worker_offline'')} \<Longrightarrow> displayStatusLabel (Some v) \<in> set historicalWorkerMarkers"
  by (auto simp only: gone_labels historicalWorkerMarkers_def insert_iff empty_iff list.set)

lemma contains_cell: "contains (a @ b) p" if "contains a p \<or> contains b p"
  using that by (auto simp: contains_iff) (metis append_assoc)+

text \<open>
  The wrapper never takes the row of a server for history
  whose worker is online or that still waits for its worker. A server whose state is shown as stale,
  as deleted or as a worker that is offline is taken for history, unless one of the two texts
  of a working row stands somewhere else in its row.
\<close>

theorem working_rows_stay_visible:
  "(tr_worker_online r \<or> pendingWorkerDraft r \<longrightarrow> \<not> isHistoricalWorkerRow (resource_row_text to_locale r))
   \<and> (tr_display_status r \<in> {(js ''stale''), (js ''deleted''), (js ''worker_offline'')} \<longrightarrow>
        (isHistoricalWorkerRow (resource_row_text to_locale r)
         \<longleftrightarrow> \<not> contains_any (normalizeText (Some (rx_textContent (resource_row_text to_locale r))))
               [(uni ''%u5F85%u5B89%u88C5 Worker''), (uni ''Worker %u5728%u7EBF'')]))"
proof -
  let ?t = "rx_textContent (resource_row_text to_locale r)"
  have cell: "contains ?t (worker_cell r)" "contains ?t (displayStatusLabel (Some (tr_display_status r)))"
    by (simp_all add: resource_row_text_def Let_def contains_cell)
  have working: "\<not> isHistoricalWorkerRow (resource_row_text to_locale r)" if "tr_worker_online r \<or> pendingWorkerDraft r"
  proof -
    have "worker_cell r \<in> {(uni ''%u5F85%u5B89%u88C5 Worker''), (uni ''Worker %u5728%u7EBF'')}" using that by (auto simp: worker_cell_def)
    then have "contains (normalizeText (Some ?t)) (uni ''%u5F85%u5B89%u88C5 Worker'') \<or> contains (normalizeText (Some ?t)) (uni ''Worker %u5728%u7EBF'')"
      using cell(1) marker_words(1,2) by (auto dest: normalized_text_contains)
    then show ?thesis by (auto simp: isHistoricalWorkerRow_def)
  qed
  have gone: "isHistoricalWorkerRow (resource_row_text to_locale r)
      \<longleftrightarrow> \<not> contains_any (normalizeText (Some ?t)) [(uni ''%u5F85%u5B89%u88C5 Worker''), (uni ''Worker %u5728%u7EBF'')]"
    if "tr_display_status r \<in> {(js ''stale''), (js ''deleted''), (js ''worker_offline'')}"
  proof -
    let ?m = "displayStatusLabel (Some (tr_display_status r))"
    have marker: "?m \<in> set historicalWorkerMarkers" using that by (rule gone_label_is_marker)
    then have "contains (normalizeText (Some ?t)) ?m"
      using cell(2) by (intro normalized_text_contains marker_wordlike)
    moreover have "?m \<noteq> []" using marker_wordlike [OF marker] by (simp add: wordlike_def)
    ultimately have "normalizeText (Some ?t) \<noteq> []"
      and m: "list_ex (contains (normalizeText (Some ?t))) historicalWorkerMarkers"
      using marker by (auto simp: list_ex_iff)
    then show ?thesis
      using m by (simp add: isHistoricalWorkerRow_def contains_any_def Let_def)
  qed
  show ?thesis using working gone by blast
qed

text \<open>A server with the name of a deleted one whose worker is online, and one whose worker is gone.\<close>

definition misnamed_server :: transit_resource_data where
  "misnamed_server = (sample_server (js ''r1'') (js ''active''))\<lparr>tr_name := (uni ''%u5DF2%u5220%u9664''), tr_worker_online := True\<rparr>"

definition gone_server :: transit_resource_data where
  "gone_server = (sample_server (js ''r2'') (js ''active''))\<lparr>tr_name := (js ''sg''), tr_worker_online := False, tr_display_status := (js ''stale'')\<rparr>"

theorem working_rows_stay_visible_witness:
  "\<not> isHistoricalWorkerRow (resource_row_text id misnamed_server)
   \<and> (isHistoricalWorkerRow (resource_row_text id gone_server)
      \<longleftrightarrow> \<not> contains_any (normalizeText (Some (rx_textContent (resource_row_text id gone_server))))
            [(uni ''%u5F85%u5B89%u88C5 Worker''), (uni ''Worker %u5728%u7EBF'')])"
  using working_rows_stay_visible [of misnamed_server id] working_rows_stay_visible [of gone_server id]
  by (simp add: misnamed_server_def gone_server_def)

subsection \<open>Runs of the observer\<close>

text \<open>A page is settled when folding it again changes nothing.\<close>

definition settled_page :: "fold_page \<Rightarrow> bool" where
  "settled_page p \<longleftrightarrow> applyWorkerHistoryFolding p = p"

lemma fold_row_simps [simp]:
  "gr_key (fold_row g) = gr_key g" "gr_born (fold_row g) = gr_born g" "gr_text (fold_row g) = gr_text g"
  "gr_mark (fold_row g) = RevealedMark \<longleftrightarrow> gr_mark g = RevealedMark"
  "gr_hidden (fold_row g) \<longleftrightarrow> gr_mark g \<noteq> RevealedMark \<and> isHistoricalWorkerRow (gr_text g)"
  "fold_row (fold_row g) = fold_row g"
  by (simp_all add: fold_row_def)

lemma historical_after_folding:
  "historical_groups (map fold_row gs) = map fold_row (historical_groups gs)"
  by (simp add: historical_groups_def filter_map o_def)

lemma panel_after_folding [simp]: "createHistoryPanel (map fold_row gs) = createHistoryPanel gs"
  by (simp add: createHistoryPanel_def node_of_def)

lemma settled_after_folding: "settled_page (applyWorkerHistoryFolding p)"
  by (simp add: settled_page_def applyWorkerHistoryFolding_def Let_def historical_after_folding)

lemma settled_rows:
  assumes "settled_page p"
  shows "map fold_row (fp_rows p) = fp_rows p"
    and "fp_panel p = (if historical_groups (fp_rows p) = [] then None
                       else Some (createHistoryPanel (historical_groups (fp_rows p))))"
proof -
  have "fp_rows (applyWorkerHistoryFolding p) = fp_rows p" "fp_panel (applyWorkerHistoryFolding p) = fp_panel p"
    using assms by (simp_all only: settled_page_def)
  then show "map fold_row (fp_rows p) = fp_rows p"
    and "fp_panel p = (if historical_groups (fp_rows p) = [] then None
                       else Some (createHistoryPanel (historical_groups (fp_rows p))))"
    by (simp_all add: applyWorkerHistoryFolding_def Let_def)
qed

lemma settled_hidden:
  assumes "settled_page p"
  shows "g \<in> set (fp_rows p) \<Longrightarrow> gr_hidden g \<longleftrightarrow> gr_mark g \<noteq> RevealedMark \<and> isHistoricalWorkerRow (gr_text g)"
    and "historical_groups (fp_rows p) = List.filter gr_hidden (fp_rows p)"
proof -
  have folded: "fold_row g = g" if "g \<in> set (fp_rows p)" for g
    using settled_rows(1) [OF assms] that by (metis map_eq_conv map_ident)
  show hidden: "gr_hidden g \<longleftrightarrow> gr_mark g \<noteq> RevealedMark \<and> isHistoricalWorkerRow (gr_text g)"
    if "g \<in> set (fp_rows p)" for g
    using folded [OF that] fold_row_simps(5) [of g] by simp
  show "historical_groups (fp_rows p) = List.filter gr_hidden (fp_rows p)"
    unfolding historical_groups_def by (rule filter_cong) (simp_all add: hidden)
qed

definition observed :: "fold_event \<Rightarrow> bool" where
  "observed e \<longleftrightarrow> (case e of Render childList contents \<Rightarrow> childList | _ \<Rightarrow> True)"

lemma run_settles:
  assumes "list_all observed es" "fp_pending p \<or> settled_page p"
  shows "fp_pending (fold fold_event_step es p) \<or> settled_page (fold fold_event_step es p)"
  using assms
proof (induction es arbitrary: p)
  case (Cons e es)
  have "fp_pending (fold_event_step e p) \<or> settled_page (fold_event_step e p)"
    using Cons.prems by (cases e) (auto simp: observed_def settled_after_folding split: option.split)
  then show ?case using Cons.IH Cons.prems(1) by simp
qed simp


text \<open>Two texts of the same row, before and after its worker is lost, and the run that reveals it.\<close>

definition plain_row :: "jsstr \<Rightarrow> row_text" where
  "plain_row t = \<lparr>rx_textContent = t, rx_strong = None, rx_pill = None, rx_worker = None\<rparr>"

lemma plain_rows [simp]:
  "isHistoricalWorkerRow (plain_row (uni ''Worker %u79BB%u7EBF''))" "\<not> isHistoricalWorkerRow (plain_row (uni ''Worker %u5728%u7EBF''))"
  by (simp_all add: isHistoricalWorkerRow_def plain_row_def normalizeText_def historicalWorkerMarkers_def Let_def
      js_def text_simps is_space_def trim_def trim_start_def)

definition revealing_run :: "fold_event list" where
  "revealing_run = [Render True [((js ''r1''), plain_row (uni ''Worker %u79BB%u7EBF''))], Frame, Reveal, Frame]"

lemma revealing_run_ends:
  "fp_rows (folding_run [((js ''r1''), plain_row (uni ''Worker %u5728%u7EBF''))] revealing_run)
     = [\<lparr>gr_key = (js ''r1''), gr_born = 0, gr_text = plain_row (uni ''Worker %u79BB%u7EBF''), gr_hidden = False, gr_mark = RevealedMark\<rparr>]"
  "\<not> fp_pending (folding_run [((js ''r1''), plain_row (uni ''Worker %u5728%u7EBF''))] revealing_run)"
  by (simp_all add: folding_run_def revealing_run_def fold_page_initial_def applyWorkerHistoryFolding_def Let_def
      historical_groups_def render_row_def find_opt_def fold_row_def reveal_row_def node_of_def createHistoryPanel_def)


text \<open>
  Without that restriction the property fails: when React rewrites the text of a row in place, as it does when the
  state of a server changes between two readings of the list, the row of a lost worker stays in the table.
\<close>

lemma rewritten_row_is_not_folded:
  "let p = folding_run [((js ''r1''), plain_row (uni ''Worker %u5728%u7EBF''))] [Render False [((js ''r1''), plain_row (uni ''Worker %u79BB%u7EBF''))], Frame]
   in \<not> fp_pending p \<and> fp_panel p = None
      \<and> (\<exists>g \<in> set (fp_rows p). isHistoricalWorkerRow (gr_text g) \<and> \<not> gr_hidden g \<and> gr_mark g = NoMark)"
  by (simp add: folding_run_def fold_page_initial_def applyWorkerHistoryFolding_def Let_def
      historical_groups_def render_row_def find_opt_def fold_row_def)

end
