(* ===== verification/Spec2Isabelle.thy ===== *)
theory Spec2Isabelle
  imports TaskHistory DebugPanelRuns CustomerLines ReadonlyPreflight TopologyPreview
    TransitServersSystem LandingLinks ProductPagesRuns Shell WorkerFolding
begin

text \<open>
  A verification development for the web console of LiveLine (\<^verbatim>\<open>frontend/\<close>), a
  TypeScript/React application through which an operator registers servers, builds transit lines and
  debugs the creation of a HAProxy route. The console talks to a Python backend, which dispatches
  work to a Go worker; the backend and the worker are written in other languages and are seen here
  only through the requests sent and the responses received.

  \<^bold>\<open>Foundations.\<close>

  \<^item> \<open>Prelude\<close>: strings as lists of UTF-16 units, with the string functions the console uses
    (\<^verbatim>\<open>trim\<close>, \<^verbatim>\<open>includes\<close>, \<^verbatim>\<open>toLowerCase\<close>, \<^verbatim>\<open>parseInt\<close>, \<^verbatim>\<open>String(n)\<close>, \<^verbatim>\<open>??\<close> and \<^verbatim>\<open>||\<close>). A
    literal of the source is \<open>js ''...''\<close>, or \<open>uni ''...''\<close> when it has characters outside
    ASCII, which are written \<open>%uXXXX\<close>.
  \<^item> \<open>JsValue\<close>: the JSON values of unvalidated data. \<open>Redaction\<close>: the contract of a redactor of JSON
    values (locale \<open>json_redactor\<close>), interpreted for the two redactors of the console.
  \<^item> \<open>ApiTypes\<close>, \<open>RouteTypes\<close>, \<open>ServerTypes\<close>, \<open>ShellTypes\<close>, \<open>ApiClient\<close> (\<^verbatim>\<open>lib/api.ts\<close>): the data and
    request types with their JSON encoding, the 42 calls, each a request with method, path, headers
    and body, and \<^verbatim>\<open>apiFetch\<close>, whose transport is a parameter.
  \<^item> \<open>Async\<close>: asynchronous handlers. A handler is a function from the state to a new state and a list
    of tasks; a task waits for an answer or a timer and holds the continuation of its \<^verbatim>\<open>await\<close>. Events
    (answers, timers, started handlers) can come in any order (relation \<open>system_reach\<close>).
    \<open>AsyncConduct\<close> and \<open>AsyncMinds\<close>: judgements on handlers (what they keep, what they ask for, which
    flags they lower, how often they wait) with introduction rules that follow their structure.
  \<^item> \<open>PendingDelete\<close>: the abstract directory of records whose deletion is pending, with the
    refinement that the panels' lists implement.

  \<^bold>\<open>Components.\<close>

  \<^item> \<open>TaskHistory\<close> (\<^verbatim>\<open>TaskHistoryPanel.tsx\<close>): naming, filtering and sanitising of tasks.
  \<^item> \<open>DebugForm\<close>, \<open>DebugPlans\<close>, \<open>DebugRegistration\<close> (\<^verbatim>\<open>AdvancedHaproxyDebugPanel.tsx\<close>): its
    pure functions - the form with its two validators and the redactor; the rebuild and registration
    plans; the drafts, payloads and pasted results of the protected registration wizard. The
    locales \<open>form_gate\<close> and \<open>stage_source\<close> state what a form's error list and a result source owe
    their users. \<open>DebugPanel\<close>: the panel's 32 state variables, its derived values and all its handlers;
    here an \<^verbatim>\<open>async\<close> handler is split at its awaits into a start and a finish.
    \<open>DebugPanelSystem\<close>: the panel as a state machine; \<open>DebugPanelSafety\<close>: its invariants, on the contract
    of a guarded asynchronous call (locale \<open>guarded_call\<close>, interpreted for the six calls);
    \<open>DebugPanelRuns\<close>: the properties of runs and the sample runs that witness them.
  \<^item> \<open>CustomerLines\<close> (\<^verbatim>\<open>CustomerLinesPanel.tsx\<close>): classification, merging, sorting and
    filtering of customer lines, and the modal state machine.
  \<^item> \<open>ReadonlyPreflight\<close> (\<^verbatim>\<open>TransitReadonlyPreflightSimplePanel.tsx\<close>): the judgement of a preflight
    command. \<open>TopologyPreview\<close> (\<^verbatim>\<open>TransitTopologyPreviewPanel.tsx\<close>): the preview text and its panel.
  \<^item> \<open>TransitHelpers\<close>, \<open>TransitServers\<close>, \<open>TransitServersSystem\<close> (\<^verbatim>\<open>TransitRoutesPanel.tsx\<close>, transit
    servers): helpers, forms and payloads; loading, installation, heartbeat polling, edit, check and
    deletion; the reachable states.
  \<^item> \<open>TransitRoutes\<close>, \<open>TransitRouteCreate\<close>, \<open>TransitRoutePlanning\<close>, \<open>TransitRoutesSystem\<close>, \<open>TransitRouteRuns\<close>
    (\<^verbatim>\<open>TransitRoutesPanel.tsx\<close>, routes): state and loading; the creation dialog with both of its flows;
    planning, the HAProxy stages, cleanup, rename and export; the reachable states; runs.
  \<^item> \<open>WorkerFolding\<close> (\<^verbatim>\<open>TransitServersPanelWithWorkerFolding.tsx\<close>): the rows as DOM nodes, their folding,
    the history panel and the observer that runs the folding.
  \<^item> \<open>LandingHelpers\<close>, \<open>LandingServers\<close>, \<open>LandingActions\<close> (\<^verbatim>\<open>ServerManagementPanel.tsx\<close>): labels and readers;
    state, dialogs, installation and polling; commands, BBR, node creation, export of links, deletion.
    \<open>LandingSystem\<close>, \<open>LandingInvariants\<close>, \<open>LandingConduct\<close>, \<open>LandingWatches\<close>: the reachable states, their
    invariants, the requests they wait for, and how often the watches wait; \<open>LandingRuns\<close> and
    \<open>LandingLinks\<close>: the properties with their sample runs.
  \<^item> \<open>ProductModals\<close> (\<^verbatim>\<open>ProductDemoModals.tsx\<close>): the dialogs for adding servers, for direct nodes and for
    the demonstration of a line. \<open>ProductPages\<close> (\<^verbatim>\<open>ServerResourcesPanel.tsx\<close>, \<^verbatim>\<open>LineBuilderPanel.tsx\<close>): the
    two pages that show them; \<open>ProductPagesSystem\<close>: what the pages owe their dialogs (locales
    \<open>dialog_host\<close>, \<open>add_host\<close>, \<open>direct_host\<close>, \<open>product_host\<close>, interpreted for both pages) and the reachable
    states; \<open>ProductPagesRuns\<close>: the properties. \<open>SampleServers\<close> holds sample data.
  \<^item> \<open>Shell\<close> (\<^verbatim>\<open>AppShell.tsx\<close>, \<^verbatim>\<open>LoginScreen.tsx\<close>, \<^verbatim>\<open>LoginPanel.tsx\<close>, \<^verbatim>\<open>InitAdminPanel.tsx\<close>,
    \<^verbatim>\<open>SystemStatus.tsx\<close>): session, views, navigation, dashboard, settings and login. A component that is no longer
    shown loses its state, and what its handlers still set is ignored.

  \<^bold>\<open>What the lemmas show.\<close>

  \<^item> Safety: no request of any panel waits that has not passed its guards
    (\<open>sent_calls_are_authorised\<close>, \<open>creations_are_approved\<close>, \<open>landing_requests_are_guarded\<close>,
    \<open>page_requests_follow_rules\<close>), in any interleaving; what the debug panel executes is what it has checked, if the
    form is left alone; passwords and installation commands are gone with their dialogs.
  \<^item> Invariants: lists hold nothing that is deleted or being deleted, selections fit their dialogs, results
    come from responses, a flag that disables a button belongs to a waiting task that lowers it.
  \<^item> Termination: every watch ends, whatever is answered.
  \<^item> Functions: validators and buttons agree with handlers, ports survive the way through text, lists are
    sorted, redactors leave no secret of the kinds they know.
  \<^item> Runs show what the guards leave open: an edit during a check, another route presented as the
    created one, a masked link copied, a link shown under another node, an open form that is discarded.

  \<^bold>\<open>Bounds.\<close> Loops are recursion on a counter that the source has: the watches over cleanup and BBR
  commands poll 30 times, the waits for a command 90 times (a node or a HAProxy creation has two of them), the polling
  for a heartbeat 60 times, with 59 pauses. No other fuel is needed: the rest is structural or decreases a measure.

  \<^bold>\<open>Conventions.\<close> A definition carries the name of the function it models, with a suffix where two
  components use the same name. A value that may be null or undefined is an option; a promise that settled is a value of
  \<open>settled\<close>, a response a value of \<open>api_response\<close>. Numbers are integers: the code uses ports, counters and
  lengths. Parameters stand for what the source does not contain: the transport, \<^verbatim>\<open>JSON.parse\<close>, the clipboard, the
  browser's collation, \<^verbatim>\<open>Date.parse\<close> and \<^verbatim>\<open>Number(text)\<close> (record \<open>browser\<close>).

  \<^bold>\<open>What is approximated.\<close> An effect that runs when a component is mounted is an action that can be taken at any time,
  which allows more runs than there are. The updates of one event are applied together. A date that cannot be read compares as
  equal to every other, which is what a comparison that yields no number means to the sort.

  \<^bold>\<open>What is not modelled.\<close> Markup, styles and icons (\<^verbatim>\<open>ProductIcons.tsx\<close>, the rows of the tables apart from
  those that are folded, \<^verbatim>\<open>SafeDeleteModal\<close>, which only shows its arguments); the pages that just render one
  component; the rendering of dates (\<^verbatim>\<open>toLocaleString\<close> is a parameter); the types of answers to calls that no
  component makes; the download of a QR code beyond its name and content; the backend, the worker and the scripts, which are in other languages.
\<close>

section \<open>Properties that span components\<close>

definition context_8443 :: haproxy_context where
  "context_8443 = \<lparr>hx_transitResourceId = (js ''r1''), hx_landingNodeId = (js ''n1''),
     hx_dryRun = dry_run_8443, hx_finalApproval = approval_8443\<rparr>"

fun call_body :: "action \<Rightarrow> jsval" where
  "call_body (Readiness q) = json_real_execution_request q"
| "call_body (DryRun q) = json_registration_request q"
| "call_body (Approval q) = json_approval_request q"
| "call_body (CommandCreate q) = json_command_create_request q"
| "call_body (ExecutionVerify q) = json_execution_verify_request q"
| "call_body (RealExecution q) = json_real_execution_request q"

text \<open>
  What the debug panel hands to the browser for one of its six calls is
  a POST with the session cookie, the CSRF token that was fetched for this very call, and the JSON
  of the payload that was captured at the click, and no two of the calls share a path.
\<close>

theorem debug_calls_carry_their_token:
  "fc_method (apiFetch_call env (request_of_action a t)) = Some (js ''POST'')
   \<and> fc_credentials (apiFetch_call env (request_of_action a t)) = (js ''include'')
   \<and> map_of (fc_headers (apiFetch_call env (request_of_action a t))) (js ''X-CSRF-Token'') = Some t
   \<and> fc_body (apiFetch_call env (request_of_action a t)) = Some (call_body a)
   \<and> (req_path (request_of_action a t) = req_path (request_of_action a' t') \<longleftrightarrow> button_of a = button_of a')"
proof -
  have "req_path (request_of_action a t) = req_path (request_of_action a' t') \<longleftrightarrow> button_of a = button_of a'"
    by (cases a; cases a') (simp_all add: api_request_defs)
  moreover have "fc_method (apiFetch_call env (request_of_action a t)) = Some (js ''POST'')
   \<and> fc_credentials (apiFetch_call env (request_of_action a t)) = (js ''include'')
   \<and> map_of (fc_headers (apiFetch_call env (request_of_action a t))) (js ''X-CSRF-Token'') = Some t
   \<and> fc_body (apiFetch_call env (request_of_action a t)) = Some (call_body a)"
    by (cases a) (simp_all add: apiFetch_call_def api_request_defs map_add_def)
  ultimately show ?thesis by blast
qed

lemma expectedTextForPort_number:
  assumes "1 \<le> p" "p \<le> 65535"
  shows "expectedTextForPort (string_of_int p) = (js ''CONFIRM_REAL_HAPROXY_ROUTE_CREATE_'') @ string_of_int p"
  using assms by (simp add: expectedTextForPort_def string_of_int_def parse_int_digits_of)

lemma string_of_int_eq_iff:
  assumes "0 \<le> p" "0 \<le> q"
  shows "string_of_int p = string_of_int q \<longleftrightarrow> p = q"
  using assms by (auto simp: string_of_int_def dest: arg_cong [where f = digits_value]
      simp: digits_value_digits_of)

lemma real_execution_text_23843:
  "HAPROXY_REAL_EXECUTION_TEXT = (js ''CONFIRM_REAL_HAPROXY_ROUTE_CREATE_'') @ string_of_int 23843"
  by (simp add: HAPROXY_REAL_EXECUTION_TEXT_def string_of_int_def digits_of.simps js_def)

text \<open>
  C30. The debug panel asks for the confirmation text of the port that is to
  be opened, which is what the backend compares with. The text that the modal for new routes sends
  is that text for one port only: a confirmed creation on any other port carries a text for 23843.
\<close>

theorem modal_text_fits_one_port:
  assumes "1 \<le> far_planned_listen_port (hx_finalApproval x)"
    and "far_planned_listen_port (hx_finalApproval x) \<le> 65535"
  shows "xq_real_execution_text (real_create_request x)
           = expectedTextForPort (string_of_int (far_planned_listen_port (hx_finalApproval x)))
         \<longleftrightarrow> xq_planned_listen_port (real_create_request x) = 23843"
proof -
  define p where "p = far_planned_listen_port (hx_finalApproval x)"
  have "xq_real_execution_text (real_create_request x)
      = (js ''CONFIRM_REAL_HAPROXY_ROUTE_CREATE_'') @ string_of_int 23843"
    by (simp add: real_create_request_def Let_def real_execution_text_23843)
  moreover have "expectedTextForPort (string_of_int p)
      = (js ''CONFIRM_REAL_HAPROXY_ROUTE_CREATE_'') @ string_of_int p"
    using assms by (simp add: p_def expectedTextForPort_number)
  moreover have "string_of_int 23843 = string_of_int p \<longleftrightarrow> 23843 = p"
    using assms by (simp add: p_def string_of_int_eq_iff)
  moreover have "xq_planned_listen_port (real_create_request x) = p"
    by (simp add: real_create_request_def Let_def p_def)
  ultimately show ?thesis
    unfolding p_def [symmetric] by (metis same_append_eq)
qed

theorem modal_text_fits_one_port_witness:
  "xq_real_execution_text (real_create_request context_8443)
     \<noteq> expectedTextForPort (string_of_int 8443)"
  using modal_text_fits_one_port [of context_8443]
  by (simp add: context_8443_def approval_8443_def real_create_request_def Let_def)

end
